(* ===== verification/RtspPrelude.thy ===== *)
theory RtspPrelude
  imports Main "HOL-Library.Word"
begin

unbundle bit_operations_syntax

text \<open>
  Shared vocabulary of the development: the results of C functions, the part of the C standard
  library that the sources use on strings and numbers, and the collections of facts
  (\<open>cstr_simps\<close>, \<open>num_simps\<close>) that the component theories hand to the simplifier.

  Conventions.
  \<^item> A C string is a \<open>string\<close> without its terminating NUL; a pointer that may be NULL is an
    \<open>option\<close>. A raw buffer is a list that may contain NUL.
  \<^item> A function returning a negative errno is of type \<open>failure + 'a\<close>: \<open>Inl (Err (- EINVAL))\<close>
    for an early return, \<open>Inr\<close> for the out-parameters on success. \<open>Inl UB\<close> marks the inputs on
    which the C code has undefined behaviour (NULL dereference, out-of-bounds access, use of an
    uninitialised variable, out-of-range conversion from floating point).
  \<^item> Allocation is assumed to succeed: the \<open>-ENOMEM\<close> branches of the sources are not modelled.
  \<^item> The errno numbers are those of Linux, where \<open>int\<close> has 32 and \<open>long\<close> and \<open>size_t\<close> 64 bits.
\<close>

section \<open>Collections\<close>

named_theorems cstr_simps "facts about the string functions of the C library"
named_theorems num_simps "facts about printing and reading numbers"

section \<open>Results\<close>

abbreviation EPERM :: int where "EPERM \<equiv> 1"
abbreviation ENOENT :: int where "ENOENT \<equiv> 2"
abbreviation E2BIG :: int where "E2BIG \<equiv> 7"
abbreviation EAGAIN :: int where "EAGAIN \<equiv> 11"
abbreviation EACCES :: int where "EACCES \<equiv> 13"
abbreviation EBUSY :: int where "EBUSY \<equiv> 16"
abbreviation EEXIST :: int where "EEXIST \<equiv> 17"
abbreviation EINVAL :: int where "EINVAL \<equiv> 22"
abbreviation EPIPE :: int where "EPIPE \<equiv> 32"
abbreviation ENAMETOOLONG :: int where "ENAMETOOLONG \<equiv> 36"
abbreviation ENOSYS :: int where "ENOSYS \<equiv> 38"
abbreviation EPROTO :: int where "EPROTO \<equiv> 71"
abbreviation EPROTONOSUPPORT :: int where "EPROTONOSUPPORT \<equiv> 93"
abbreviation ECONNRESET :: int where "ECONNRESET \<equiv> 104"
abbreviation ENOBUFS :: int where "ENOBUFS \<equiv> 105"
abbreviation ETIMEDOUT :: int where "ETIMEDOUT \<equiv> 110"
abbreviation EALREADY :: int where "EALREADY \<equiv> 114"

datatype failure = Err int | UB

type_synonym 'a result = "failure + 'a"

text \<open>\<open>CHECK_FUNC\<close> and its relatives: stop at the first failure.\<close>

definition bindr :: "'a result \<Rightarrow> ('a \<Rightarrow> 'b result) \<Rightarrow> 'b result" where
  "bindr m f = (case m of Inl e \<Rightarrow> Inl e | Inr x \<Rightarrow> f x)"

lemma bindr_simps [simp]:
  "bindr (Inl e) f = Inl e"
  "bindr (Inr x) f = f x"
  by (simp_all add: bindr_def)

lemma bindr_Inr_iff: "bindr m f = Inr y \<longleftrightarrow> (\<exists>x. m = Inr x \<and> f x = Inr y)"
  by (cases m) auto

lemma bindr_Inl_iff: "bindr m f = Inl e \<longleftrightarrow> m = Inl e \<or> (\<exists>x. m = Inr x \<and> f x = Inl e)"
  by (cases m) auto

lemma bindr_assoc: "bindr (bindr m f) g = bindr m (\<lambda>x. bindr (f x) g)"
  by (cases m) auto

lemma if_Inl_iff: "(if b then Inl e else m) = Inr y \<longleftrightarrow> \<not> b \<and> m = Inr y"
  by simp

lemma bindr_cong [fundef_cong]:
  "m = m' \<Longrightarrow> (\<And>x. m' = Inr x \<Longrightarrow> f x = g x) \<Longrightarrow> bindr m f = bindr m' g"
  by (cases m') auto

section \<open>Characters\<close>

abbreviation code :: "char \<Rightarrow> nat" where "code c \<equiv> of_char c"

definition is_digit :: "char \<Rightarrow> bool" where
  "is_digit c \<longleftrightarrow> 48 \<le> code c \<and> code c \<le> 57"

definition is_upper :: "char \<Rightarrow> bool" where
  "is_upper c \<longleftrightarrow> 65 \<le> code c \<and> code c \<le> 90"

definition is_lower :: "char \<Rightarrow> bool" where
  "is_lower c \<longleftrightarrow> 97 \<le> code c \<and> code c \<le> 122"

definition isalnum :: "char \<Rightarrow> bool" where
  "isalnum c \<longleftrightarrow> is_digit c \<or> is_upper c \<or> is_lower c"

definition isxdigit :: "char \<Rightarrow> bool" where
  "isxdigit c \<longleftrightarrow> is_digit c \<or> (65 \<le> code c \<and> code c \<le> 70) \<or> (97 \<le> code c \<and> code c \<le> 102)"

definition isspace :: "char \<Rightarrow> bool" where
  "isspace c \<longleftrightarrow> c = CHR '' '' \<or> (9 \<le> code c \<and> code c \<le> 13)"

definition tolower :: "char \<Rightarrow> char" where
  "tolower c = (if is_upper c then char_of (code c + 32) else c)"

abbreviation CR :: char where "CR \<equiv> CHR 0x0D"
abbreviation LF :: char where "LF \<equiv> CHR 0x0A"
abbreviation NUL :: char where "NUL \<equiv> CHR 0x00"
abbreviation DQUOTE :: char where "DQUOTE \<equiv> CHR 0x22"
abbreviation CRLF :: string where "CRLF \<equiv> [CR, LF]"

text \<open>Reading a buffer as a C string.\<close>

definition cstr :: "string \<Rightarrow> string" where
  "cstr s = takeWhile (\<lambda>c. c \<noteq> NUL) s"

lemma cstr_id [cstr_simps]: "NUL \<notin> set s \<Longrightarrow> cstr s = s"
  by (auto simp: cstr_def)

section \<open>Searching and comparing\<close>

text \<open>
  The idiom \<open>p = strchr(s, c); if (p) *p = '\0';\<close> cuts a string in two: the part before the
  first occurrence of \<open>c\<close>, and what follows it when there is one. \<open>strrchr_cut\<close> cuts at the last.
\<close>

definition strchr_cut :: "char \<Rightarrow> string \<Rightarrow> string \<times> string option" where
  "strchr_cut c s =
     (takeWhile (\<lambda>x. x \<noteq> c) s,
      case dropWhile (\<lambda>x. x \<noteq> c) s of [] \<Rightarrow> None | _ # r \<Rightarrow> Some r)"

definition strrchr_cut :: "char \<Rightarrow> string \<Rightarrow> string \<times> string option" where
  "strrchr_cut c s =
     (case strchr_cut c (rev s) of
        (a, None) \<Rightarrow> (s, None)
      | (a, Some b) \<Rightarrow> (rev b, Some (rev a)))"

text \<open>\<open>strtok_r\<close>: the token and the state left in \<open>saveptr\<close>.\<close>

definition strtok_r :: "char set \<Rightarrow> string \<Rightarrow> string option \<times> string" where
  "strtok_r d s =
     (let s = dropWhile (\<lambda>c. c \<in> d) s in
      if s = [] then (None, [])
      else (Some (takeWhile (\<lambda>c. c \<notin> d) s), drop 1 (dropWhile (\<lambda>c. c \<notin> d) s)))"

definition strcaseeq :: "string \<Rightarrow> string \<Rightarrow> bool" where
  "strcaseeq a b \<longleftrightarrow> map tolower a = map tolower b"

text \<open>\<open>strncmp(s, p, strlen(p)) == 0\<close> and \<open>strncasecmp(s, p, strlen(p)) == 0\<close>.\<close>

definition has_prefix :: "string \<Rightarrow> string \<Rightarrow> bool" where
  "has_prefix s p \<longleftrightarrow> take (length p) s = p"

definition has_prefix_nocase :: "string \<Rightarrow> string \<Rightarrow> bool" where
  "has_prefix_nocase s p \<longleftrightarrow> map tolower (take (length p) s) = map tolower p"

definition skip_spaces :: "string \<Rightarrow> string" where
  "skip_spaces s = dropWhile (\<lambda>c. c = CHR '' '') s"

lemma dropWhile_all: "\<forall>x \<in> set xs. P x \<Longrightarrow> dropWhile P xs = []"
  by simp

lemma strchr_cut_append [cstr_simps]:
  "c \<notin> set a \<Longrightarrow> strchr_cut c (a @ c # b) = (a, Some b)"
proof -
  assume "c \<notin> set a"
  then have "\<forall>x \<in> set a. x \<noteq> c" by auto
  then show ?thesis by (simp add: strchr_cut_def takeWhile_append dropWhile_append)
qed

lemma strchr_cut_none [cstr_simps]: "c \<notin> set s \<Longrightarrow> strchr_cut c s = (s, None)"
proof -
  assume "c \<notin> set s"
  then have "\<forall>x \<in> set s. x \<noteq> c" by auto
  then show ?thesis by (simp add: strchr_cut_def dropWhile_all)
qed

lemma strrchr_cut_append [cstr_simps]:
  "c \<notin> set b \<Longrightarrow> strrchr_cut c (a @ c # b) = (a, Some b)"
  by (simp add: strrchr_cut_def strchr_cut_append)

lemma strrchr_cut_none [cstr_simps]: "c \<notin> set s \<Longrightarrow> strrchr_cut c s = (s, None)"
  by (simp add: strrchr_cut_def strchr_cut_none)

lemma strtok_r_Nil [simp]: "strtok_r d [] = (None, [])"
  by (simp add: strtok_r_def)

lemma strtok_r_token [cstr_simps]:
  assumes "a \<noteq> []" "set a \<inter> d = {}" "c \<in> d"
  shows "strtok_r d (a @ c # b) = (Some a, b)"
proof -
  have "dropWhile (\<lambda>c. c \<in> d) (a @ c # b) = a @ c # b"
    using assms(1,2) by (cases a) auto
  moreover have "takeWhile (\<lambda>c. c \<notin> d) (a @ c # b) = a" "dropWhile (\<lambda>c. c \<notin> d) (a @ c # b) = c # b"
    using assms(2,3) by (auto simp: takeWhile_append dropWhile_append)
  ultimately show ?thesis using assms(1) by (simp add: strtok_r_def)
qed

lemma strtok_r_last [cstr_simps]:
  assumes "a \<noteq> []" "set a \<inter> d = {}"
  shows "strtok_r d a = (Some a, [])"
proof -
  have "dropWhile (\<lambda>c. c \<in> d) a = a" using assms by (cases a) auto
  moreover have "\<forall>x \<in> set a. x \<notin> d" using assms(2) by auto
  ultimately show ?thesis using assms(1) by (simp add: strtok_r_def dropWhile_all)
qed

lemma strtok_r_shorter: "strtok_r d s = (Some t, s') \<Longrightarrow> length s' < length s"
proof -
  assume "strtok_r d s = (Some t, s')"
  then have s': "s' = drop 1 (dropWhile (\<lambda>c. c \<notin> d) (dropWhile (\<lambda>c. c \<in> d) s))"
    and ne: "dropWhile (\<lambda>c. c \<in> d) s \<noteq> []"
    by (auto simp: strtok_r_def Let_def split: if_splits)
  have "length s' \<le> length (dropWhile (\<lambda>c. c \<in> d) s) - 1"
    unfolding s' using length_dropWhile_le [of "\<lambda>c. c \<notin> d" "dropWhile (\<lambda>c. c \<in> d) s"] by simp
  also have "\<dots> < length (dropWhile (\<lambda>c. c \<in> d) s)" using ne by simp
  also have "\<dots> \<le> length s" by (rule length_dropWhile_le)
  finally show ?thesis .
qed

text \<open>
  The loop \<open>for (p = strtok_r(s, d, &temp); p; p = strtok_r(NULL, d, &temp))\<close>: the tokens in order.
\<close>

function strtok_all :: "char set \<Rightarrow> string \<Rightarrow> string list" where
  "strtok_all d s =
     (case strtok_r d s of (None, _) \<Rightarrow> [] | (Some t, temp) \<Rightarrow> t # strtok_all d temp)"
  by pat_completeness auto
termination
  by (relation "measure (length \<circ> snd)") (auto dest: strtok_r_shorter [OF sym])

declare strtok_all.simps [simp del]

fun sep_by :: "char \<Rightarrow> string list \<Rightarrow> string" where
  "sep_by c [] = []"
| "sep_by c [t] = t"
| "sep_by c (t # u # ts) = t @ c # sep_by c (u # ts)"

lemma strtok_all_sep_by [cstr_simps]:
  "\<forall>t \<in> set ts. t \<noteq> [] \<and> c \<notin> set t \<Longrightarrow> strtok_all {c} (sep_by c ts) = ts"
proof (induction c ts rule: sep_by.induct)
  case (1 c)
  then show ?case by (simp add: strtok_all.simps)
next
  case (2 c t)
  then have "strtok_r {c} t = (Some t, [])" by (intro strtok_r_last) auto
  then show ?case by (simp add: strtok_all.simps [of "{c}" t] strtok_all.simps [of "{c}" "[]"])
next
  case (3 c t u ts)
  then have "strtok_r {c} (t @ c # sep_by c (u # ts)) = (Some t, sep_by c (u # ts))"
    by (intro strtok_r_token) auto
  with 3 show ?case by (simp add: strtok_all.simps [of "{c}" "t @ _"])
qed

lemma strtok_all_first:
  "a \<noteq> [] \<Longrightarrow> c \<notin> set a \<Longrightarrow> strtok_all {c} (a @ c # b) = a # strtok_all {c} b"
  using strtok_r_token [of a "{c}" c b] by (simp add: strtok_all.simps [of _ "a @ _"])

lemma strtok_all_single: "a \<noteq> [] \<Longrightarrow> c \<notin> set a \<Longrightarrow> strtok_all {c} a = [a]"
  using strtok_all_sep_by [of "[a]" c] by simp

lemma sep_by_Cons: "sep_by c (t # ts) = t @ concat (map (\<lambda>u. c # u) ts)"
  by (induction c "t # ts" arbitrary: t ts rule: sep_by.induct) auto

lemma sep_by_chars: "x \<in> set (sep_by c ts) \<Longrightarrow> x = c \<or> (\<exists>t \<in> set ts. x \<in> set t)"
  by (cases ts) (auto simp: sep_by_Cons split: if_splits)

text \<open>
  The idiom \<open>key = strtok_r(p, "=", &temp); val = strtok_r(NULL, "", &temp)\<close>.
\<close>

definition key_val :: "char \<Rightarrow> string \<Rightarrow> string option \<times> string option" where
  "key_val c p = (case strtok_r {c} p of (key, temp) \<Rightarrow> (key, fst (strtok_r {} temp)))"

lemma key_val_pair [cstr_simps]:
  "k \<noteq> [] \<Longrightarrow> c \<notin> set k \<Longrightarrow> v \<noteq> [] \<Longrightarrow> key_val c (k @ c # v) = (Some k, Some v)"
  by (simp add: key_val_def strtok_r_token strtok_r_last)

lemma key_val_flag [cstr_simps]:
  "k \<noteq> [] \<Longrightarrow> c \<notin> set k \<Longrightarrow> key_val c k = (Some k, None)"
  by (simp add: key_val_def strtok_r_last)

lemma has_prefix_append [cstr_simps]: "has_prefix (p @ s) p"
  by (simp add: has_prefix_def)

lemma has_prefix_nocase_append [cstr_simps]: "has_prefix_nocase (p @ s) p"
  by (simp add: has_prefix_nocase_def)

lemma has_prefix_nocase_refl [cstr_simps]: "has_prefix_nocase p p"
  by (simp add: has_prefix_nocase_def)

section \<open>Numbers\<close>

definition digit_val :: "char \<Rightarrow> nat option" where
  "digit_val c =
     (if is_digit c then Some (code c - 48)
      else if is_lower c then Some (code c - 87)
      else if is_upper c then Some (code c - 55)
      else None)"

definition digit_in :: "nat \<Rightarrow> char \<Rightarrow> bool" where
  "digit_in base c = (case digit_val c of None \<Rightarrow> False | Some d \<Rightarrow> d < base)"

definition dval :: "char \<Rightarrow> nat" where
  "dval c = (case digit_val c of None \<Rightarrow> 0 | Some d \<Rightarrow> d)"

definition parse_digits :: "nat \<Rightarrow> string \<Rightarrow> nat" where
  "parse_digits base s = foldl (\<lambda>n c. n * base + dval c) 0 s"

text \<open>
  The common part of \<open>strtol\<close> and \<open>strtoul\<close>: leading white space, a sign, the \<open>0x\<close> prefix
  in base 16, the digits. \<open>None\<close> when there is no digit (no conversion).
\<close>

definition scan_sign :: "string \<Rightarrow> bool \<times> string" where
  "scan_sign s =
     (case s of [] \<Rightarrow> (False, [])
      | c # r \<Rightarrow> if c = CHR ''-'' then (True, r) else if c = CHR ''+'' then (False, r) else (False, s))"

definition skip_0x :: "nat \<Rightarrow> string \<Rightarrow> string" where
  "skip_0x base s =
     (case s of
        z # x # h # r \<Rightarrow>
          if base = 16 \<and> z = CHR ''0'' \<and> tolower x = CHR ''x'' \<and> digit_in 16 h then h # r else s
      | _ \<Rightarrow> s)"

definition scan_number :: "nat \<Rightarrow> string \<Rightarrow> (bool \<times> nat \<times> string) option" where
  "scan_number base s =
     (let (neg, s) = scan_sign (dropWhile isspace s); s = skip_0x base s;
          ds = takeWhile (digit_in base) s in
      if ds = [] then None else Some (neg, parse_digits base ds, dropWhile (digit_in base) s))"

definition LONG_MAX :: int where "LONG_MAX = 2 ^ 63 - 1"
definition LONG_MIN :: int where "LONG_MIN = - (2 ^ 63)"

text \<open>\<open>strtol(s, &endptr, 10)\<close>: the saturated value and the text at \<open>endptr\<close>.\<close>

definition strtol10 :: "string \<Rightarrow> int \<times> string" where
  "strtol10 s =
     (case scan_number 10 s of
        None \<Rightarrow> (0, s)
      | Some (neg, n, e) \<Rightarrow>
          (max LONG_MIN (min LONG_MAX (if neg then - int n else int n)), e))"

text \<open>\<open>strtoul(s, &endptr, base)\<close>: the value, the text at \<open>endptr\<close>, and \<open>errno == ERANGE\<close>.\<close>

definition strtoul :: "nat \<Rightarrow> string \<Rightarrow> nat \<times> string \<times> bool" where
  "strtoul base s =
     (case scan_number base s of
        None \<Rightarrow> (0, s, False)
      | Some (neg, n, e) \<Rightarrow>
          if n \<ge> 2 ^ 64 then (2 ^ 64 - 1, e, True)
          else ((if neg then (2 ^ 64 - n) mod 2 ^ 64 else n), e, False))"

text \<open>\<open>atoi\<close>, as glibc computes it: \<open>(int)strtol(s, NULL, 10)\<close>.\<close>

definition to_int32 :: "int \<Rightarrow> int" where
  "to_int32 x = (x + 2 ^ 31) mod 2 ^ 32 - 2 ^ 31"

definition atoi :: "string \<Rightarrow> int" where
  "atoi s = to_int32 (fst (strtol10 s))"

text \<open>\<open>sscanf\<close> with the two formats the sources use, \<open>"%u-%u"\<close> and \<open>"%08X"\<close>.\<close>

definition sscanf_u_u :: "string \<Rightarrow> (nat \<times> nat) option" where
  "sscanf_u_u s =
     (case scan_number 10 s of
        None \<Rightarrow> None
      | Some _ \<Rightarrow>
          (case strtoul 10 s of
             (a, e, _) \<Rightarrow>
               (case e of
                  [] \<Rightarrow> None
                | c # r \<Rightarrow>
                    if c \<noteq> CHR ''-'' then None
                    else if scan_number 10 r = None then None
                    else Some (a, fst (strtoul 10 r)))))"

definition sscanf_08X :: "string \<Rightarrow> 32 word option" where
  "sscanf_08X s =
     (let field = take 8 (dropWhile isspace s) in
      if scan_number 16 field = None then None else Some (of_nat (fst (strtoul 16 field))))"

subsection \<open>Printing\<close>

definition digit_char :: "nat \<Rightarrow> char" where
  "digit_char d = (if d < 10 then char_of (48 + d) else char_of (87 + d))"

definition upper_digit_char :: "nat \<Rightarrow> char" where
  "upper_digit_char d = (if d < 10 then char_of (48 + d) else char_of (55 + d))"

fun show_nat :: "nat \<Rightarrow> string" where
  "show_nat n = (if n < 10 then [digit_char n] else show_nat (n div 10) @ [digit_char (n mod 10)])"

fun show_hex :: "(nat \<Rightarrow> char) \<Rightarrow> nat \<Rightarrow> string" where
  "show_hex f n = (if n < 16 then [f n] else show_hex f (n div 16) @ [f (n mod 16)])"

declare show_nat.simps [simp del] show_hex.simps [simp del]

definition show_int :: "int \<Rightarrow> string" where
  "show_int i = (if i < 0 then CHR ''-'' # show_nat (nat (- i)) else show_nat (nat i))"

text \<open>The width of \<open>%02u\<close>, \<open>%08X\<close> and their kin.\<close>

definition pad0 :: "nat \<Rightarrow> string \<Rightarrow> string" where
  "pad0 w s = replicate (w - length s) (CHR ''0'') @ s"

subsection \<open>Printing and reading decimal numbers\<close>

lemma of_char_char_of_small [simp]: "n < 256 \<Longrightarrow> code (char_of n) = n"
  by simp

lemma digit_char_facts [num_simps]:
  assumes "d < 10"
  shows "is_digit (digit_char d)" "digit_in 10 (digit_char d)" "dval (digit_char d) = d"
  using assms by (simp_all add: digit_char_def is_digit_def digit_in_def digit_val_def dval_def)

lemma is_digit_digit_in: "digit_in 10 c \<longleftrightarrow> is_digit c"
  by (auto simp: digit_in_def digit_val_def is_digit_def is_lower_def is_upper_def)

lemma parse_digits_snoc: "parse_digits b (s @ [c]) = parse_digits b s * b + dval c"
  by (simp add: parse_digits_def)

lemma show_nat_not_Nil [simp]: "show_nat n \<noteq> []"
  by (subst show_nat.simps) simp

lemma show_nat_digits: "c \<in> set (show_nat n) \<Longrightarrow> is_digit c"
proof (induction n arbitrary: c rule: show_nat.induct)
  case (1 n)
  then show ?case
    by (subst (asm) show_nat.simps) (auto split: if_splits simp: digit_char_facts)
qed

lemma parse_show_nat [num_simps]: "parse_digits 10 (show_nat n) = n"
proof (induction n rule: show_nat.induct)
  case (1 n)
  show ?case
  proof (cases "n < 10")
    case True
    then show ?thesis by (subst show_nat.simps) (simp add: parse_digits_def digit_char_facts)
  next
    case False
    with 1 show ?thesis
      by (subst show_nat.simps) (simp add: parse_digits_snoc digit_char_facts)
  qed
qed

lemma show_nat_length: "length (show_nat n) \<le> k \<longleftrightarrow> n < 10 ^ k" if "0 < k"
  using that
proof (induction n arbitrary: k rule: show_nat.induct)
  case (1 n)
  show ?case
  proof (cases "n < 10")
    case True
    then have "n < 10 ^ k" using 1(2) power_increasing [of 1 k "10::nat"] by simp
    with True 1(2) show ?thesis by (subst show_nat.simps) simp
  next
    case False
    then have L: "length (show_nat n) = Suc (length (show_nat (n div 10)))"
      by (subst show_nat.simps) simp
    show ?thesis
    proof (cases "k = 1")
      case True
      then show ?thesis using False L by simp
    next
      case False
      then obtain j where k: "k = Suc j" "0 < j" using 1(2) by (cases k) auto
      have "length (show_nat (n div 10)) \<le> j \<longleftrightarrow> n div 10 < 10 ^ j"
        using 1(1) k \<open>\<not> n < 10\<close> by simp
      also have "\<dots> \<longleftrightarrow> n < 10 ^ k" by (simp add: k less_mult_imp_div_less div_less_iff_less_mult mult.commute)
      finally show ?thesis using L k by simp
    qed
  qed
qed

lemma is_digit_not_special:
  assumes "is_digit c" shows "\<not> isspace c" "c \<noteq> CHR ''-''" "c \<noteq> CHR ''+''"
  using assms by (auto simp: is_digit_def isspace_def)

lemma scan_number_show_nat [num_simps]:
  assumes "r = [] \<or> \<not> is_digit (hd r)"
  shows "scan_number 10 (show_nat n @ r) = Some (False, n, r)"
proof -
  obtain c t where ct: "show_nat n = c # t" by (cases "show_nat n") auto
  then have c: "is_digit c" using show_nat_digits [of c n] by simp
  have 1: "dropWhile isspace (show_nat n @ r) = show_nat n @ r"
    using ct is_digit_not_special(1) [OF c] by simp
  have 2: "scan_sign (show_nat n @ r) = (False, show_nat n @ r)"
    using ct is_digit_not_special(2,3) [OF c] by (simp add: scan_sign_def)
  have 3: "skip_0x 10 s = s" for s by (auto simp: skip_0x_def split: list.splits)
  have "takeWhile (digit_in 10) (show_nat n @ r) = show_nat n"
    using assms show_nat_digits [of _ n]
    by (cases r) (auto simp: takeWhile_append is_digit_digit_in takeWhile_eq_all_conv)
  moreover have "dropWhile (digit_in 10) (show_nat n @ r) = r"
    using assms show_nat_digits [of _ n]
    by (cases r) (auto simp: dropWhile_append is_digit_digit_in dropWhile_eq_Nil_conv)
  ultimately show ?thesis
    by (simp add: scan_number_def 1 2 3 parse_show_nat)
qed

lemma scan_number_show_int [num_simps]:
  assumes "r = [] \<or> \<not> is_digit (hd r)"
  shows "scan_number 10 (show_int i @ r) = Some (i < 0, nat \<bar>i\<bar>, r)"
proof (cases "i < 0")
  case False
  then show ?thesis using scan_number_show_nat [OF assms] by (simp add: show_int_def)
next
  case True
  have "scan_number 10 (CHR ''-'' # s) = (case scan_number 10 s of None \<Rightarrow> None | Some (_, v) \<Rightarrow> Some (True, v))"
    if "dropWhile isspace s = s" "scan_sign s = (False, s)" for s
    using that by (simp add: scan_number_def isspace_def scan_sign_def Let_def)
  moreover obtain c t where ct: "show_nat (nat (- i)) = c # t" by (cases "show_nat (nat (- i))") auto
  moreover from ct have "is_digit c" using show_nat_digits [of c "nat (- i)"] by simp
  ultimately show ?thesis
    using True scan_number_show_nat [OF assms, of "nat (- i)"] is_digit_not_special [of c]
    by (simp add: show_int_def scan_sign_def)
qed

lemma to_int32_id: "- (2 ^ 31) \<le> i \<Longrightarrow> i < 2 ^ 31 \<Longrightarrow> to_int32 i = i"
  by (simp add: to_int32_def mod_pos_pos_trivial)

lemma atoi_show_int [num_simps]:
  assumes "r = [] \<or> \<not> is_digit (hd r)" "- (2 ^ 31) \<le> i" "i < 2 ^ 31"
  shows "atoi (show_int i @ r) = i"
proof -
  have "fst (strtol10 (show_int i @ r)) = i"
    using assms by (simp add: strtol10_def scan_number_show_int LONG_MIN_def LONG_MAX_def)
  then show ?thesis using to_int32_id assms(2,3) by (simp add: atoi_def)
qed

lemma atoi_show_nat [num_simps]:
  "r = [] \<or> \<not> is_digit (hd r) \<Longrightarrow> n < 2 ^ 31 \<Longrightarrow> atoi (show_nat n @ r) = int n"
  using atoi_show_int [of r "int n"] by (simp add: show_int_def)

lemma atoi_range: "- (2 ^ 31) \<le> atoi s \<and> atoi s < 2 ^ 31"
  by (simp add: atoi_def to_int32_def)

subsection \<open>Printing and reading hexadecimal numbers\<close>

definition hex_printer :: "(nat \<Rightarrow> char) \<Rightarrow> bool" where
  "hex_printer f \<longleftrightarrow> (\<forall>d < 16. isxdigit (f d) \<and> dval (f d) = d)"

lemma below_16: "(d::nat) < 16 \<longleftrightarrow> d < 10 \<or> d = 10 \<or> d = 11 \<or> d = 12 \<or> d = 13 \<or> d = 14 \<or> d = 15"
  by linarith

lemma hex_printers [num_simps]: "hex_printer digit_char" "hex_printer upper_digit_char"
  by (auto simp: hex_printer_def below_16 digit_char_def upper_digit_char_def isxdigit_def
      is_digit_def is_lower_def is_upper_def dval_def digit_val_def)

lemma isxdigit_digit_in: "isxdigit c \<Longrightarrow> digit_in 16 c"
  by (auto simp: isxdigit_def digit_in_def digit_val_def is_digit_def is_lower_def is_upper_def)

lemma isxdigit_not_special:
  assumes "isxdigit c"
  shows "\<not> isspace c" "c \<noteq> CHR ''-''" "c \<noteq> CHR ''+''" "tolower c \<noteq> CHR ''x''"
proof -
  show "\<not> isspace c" "c \<noteq> CHR ''-''" "c \<noteq> CHR ''+''"
    using assms by (auto simp: isxdigit_def isspace_def is_digit_def)
  have "code (tolower c) < 103" using assms by (auto simp: isxdigit_def tolower_def is_digit_def is_upper_def)
  moreover have "code (CHR ''x'') = 120" by simp
  ultimately show "tolower c \<noteq> CHR ''x''" by auto
qed

lemma show_hex_digits: "hex_printer f \<Longrightarrow> c \<in> set (show_hex f n) \<Longrightarrow> isxdigit c"
proof (induction f n rule: show_hex.induct)
  case (1 f n)
  then show ?case
    by (subst (asm) (2) show_hex.simps) (auto split: if_splits simp: hex_printer_def)
qed

lemma parse_show_hex [num_simps]: "hex_printer f \<Longrightarrow> parse_digits 16 (show_hex f n) = n"
proof (induction f n rule: show_hex.induct)
  case (1 f n)
  then show ?case
    by (subst show_hex.simps) (simp add: parse_digits_snoc hex_printer_def, simp add: parse_digits_def)
qed

lemma show_hex_length:
  assumes "0 < k"
  shows "length (show_hex f n) \<le> k \<longleftrightarrow> n < 16 ^ k"
  using assms
proof (induction f n arbitrary: k rule: show_hex.induct)
  case (1 f n)
  show ?case
  proof (cases "n < 16")
    case True
    then have "n < 16 ^ k" using 1(2) power_increasing [of 1 k "16::nat"] by simp
    with True 1(2) show ?thesis by (subst show_hex.simps) simp
  next
    case False
    then have L: "length (show_hex f n) = Suc (length (show_hex f (n div 16)))"
      by (subst show_hex.simps) simp
    show ?thesis
    proof (cases "k = 1")
      case True
      have "length (show_hex f (n div 16)) \<noteq> 0" by (subst show_hex.simps) simp
      with True show ?thesis using False L by simp
    next
      case k1: False
      then obtain j where k: "k = Suc j" "0 < j" using 1(2) by (cases k) auto
      have "length (show_hex f (n div 16)) \<le> j \<longleftrightarrow> n div 16 < 16 ^ j"
        using 1(1) k False by simp
      also have "\<dots> \<longleftrightarrow> n < 16 ^ k" by (simp add: k div_less_iff_less_mult mult.commute)
      finally show ?thesis using L k by simp
    qed
  qed
qed

lemma parse_digits_zeros: "parse_digits 16 (replicate n (CHR ''0'') @ s) = parse_digits 16 s"
proof (induction s rule: rev_induct)
  case Nil
  show ?case by (induction n)
      (simp_all add: parse_digits_def dval_def digit_val_def is_digit_def flip: replicate_append_same)
next
  case (snoc c s)
  then show ?case using parse_digits_snoc [of 16 "replicate n (CHR ''0'') @ s" c]
    by (simp add: parse_digits_snoc)
qed

lemma pad0_hex:
  assumes "hex_printer f" "n < 16 ^ 8"
  shows "length (pad0 8 (show_hex f n)) = 8" "c \<in> set (pad0 8 (show_hex f n)) \<Longrightarrow> isxdigit c"
    "parse_digits 16 (pad0 8 (show_hex f n)) = n"
  using assms show_hex_length [of 8 f n] show_hex_digits [OF assms(1), of c n]
  by (auto simp: pad0_def parse_digits_zeros num_simps isxdigit_def is_digit_def)

lemma scan_number_hex:
  assumes "s \<noteq> []" "\<forall>c \<in> set s. isxdigit c"
  shows "scan_number 16 s = Some (False, parse_digits 16 s, [])"
proof -
  obtain c t where s: "s = c # t" using assms(1) by (cases s) auto
  have c: "isxdigit c" using assms(2) s by simp
  have 1: "dropWhile isspace s = s" "scan_sign s = (False, s)"
    using isxdigit_not_special(1-3) [OF c] s by (simp_all add: scan_sign_def)
  have 2: "skip_0x 16 s = s"
    using assms(2) isxdigit_not_special(4) by (auto simp: skip_0x_def split: list.splits)
  have 3: "takeWhile (digit_in 16) s = s" "dropWhile (digit_in 16) s = []"
    using assms(2) isxdigit_digit_in by (auto simp: takeWhile_eq_all_conv)
  show ?thesis using assms(1) by (simp only: scan_number_def Let_def prod.case 1 2 3) simp
qed

lemma sscanf_08X_pad0 [num_simps]:
  "sscanf_08X (pad0 8 (show_hex upper_digit_char (unat (w :: 32 word)))) = Some w"
proof -
  let ?s = "pad0 8 (show_hex upper_digit_char (unat w))"
  have n: "unat w < 16 ^ 8" using unsigned_less [where 'a = nat and w = w] by simp
  note p = pad0_hex [OF hex_printers(2) n]
  have ne: "?s \<noteq> []" using p(1) by auto
  have "dropWhile isspace ?s = ?s"
    using ne p(2) isxdigit_not_special(1) by (cases ?s) auto
  moreover have "scan_number 16 ?s = Some (False, unat w, [])"
    using scan_number_hex [OF ne] p(2,3) by simp
  ultimately show ?thesis
    using p(1) n by (simp add: sscanf_08X_def strtoul_def)
qed

end
