(* ===== verification/RtspString.thy ===== *)
theory RtspString
  imports RtspPrelude
begin

text \<open>
  \<open>struct rtsp_string\<close> and \<open>rtsp_sprintf\<close> of \<open>src/rtsp_priv.h\<close> and \<open>src/internal/rtsp/\<close>: the
  bounded output buffer every header writer appends to. \<open>len\<close> of the C structure is the length
  of the text. The locale \<open>bounded_writer\<close> is the contract of a header writer: it either appends
  exactly its rendering or reports \<open>-ENOBUFS\<close>, and it rejects invalid headers.
\<close>

named_theorems writer_intros "composition rules for writers"

record rtsp_string =
  rs_str :: string
  rs_max_len :: nat

definition rtsp_sprintf :: "rtsp_string \<Rightarrow> string \<Rightarrow> rtsp_string result" where
  "rtsp_sprintf s t =
     (if length (rs_str s) \<ge> rs_max_len s then Inl (Err (- ENOBUFS))
      else if length t \<ge> rs_max_len s - length (rs_str s) then Inl (Err (- ENOBUFS))
      else Inr (s\<lparr>rs_str := rs_str s @ t\<rparr>))"

definition rs_ok :: "rtsp_string \<Rightarrow> bool" where
  "rs_ok s \<longleftrightarrow> length (rs_str s) < rs_max_len s"

definition append_bounded :: "rtsp_string \<Rightarrow> string \<Rightarrow> rtsp_string result" where
  "append_bounded s t =
     (if length (rs_str s) + length t < rs_max_len s then Inr (s\<lparr>rs_str := rs_str s @ t\<rparr>)
      else Inl (Err (- ENOBUFS)))"

lemma rtsp_sprintf_eq: "rtsp_sprintf s t = append_bounded s t"
  by (auto simp: rtsp_sprintf_def append_bounded_def)

text \<open>\<open>writes w t\<close>: from any buffer with room for a terminator, \<open>w\<close> appends exactly \<open>t\<close>.\<close>

definition writes :: "(rtsp_string \<Rightarrow> rtsp_string result) \<Rightarrow> string \<Rightarrow> bool" where
  "writes w t \<longleftrightarrow> (\<forall>s. rs_ok s \<longrightarrow> w s = append_bounded s t)"

lemma append_bounded_append:
  "rs_ok s \<Longrightarrow> bindr (append_bounded s a) (\<lambda>s. append_bounded s b) = append_bounded s (a @ b)"
  by (auto simp: append_bounded_def rs_ok_def)

lemma append_bounded_ok: "append_bounded s t = Inr s' \<Longrightarrow> rs_ok s'"
  by (auto simp: append_bounded_def rs_ok_def split: if_splits)

lemma writes_sprintf [writer_intros]: "writes (\<lambda>s. rtsp_sprintf s t) t"
  by (simp add: writes_def rtsp_sprintf_eq)

lemma writes_skip [writer_intros]: "writes Inr []"
  by (simp add: writes_def append_bounded_def rs_ok_def)

lemma writes_bind [writer_intros]:
  assumes "writes w a" "writes v b"
  shows "writes (\<lambda>s. bindr (w s) v) (a @ b)"
  unfolding writes_def
proof (intro allI impI)
  fix s assume s: "rs_ok s"
  show "bindr (w s) v = append_bounded s (a @ b)"
  proof (cases "append_bounded s a")
    case (Inl e)
    with append_bounded_append [OF s, of a b] have "append_bounded s (a @ b) = Inl e" by simp
    with assms(1) s Inl show ?thesis by (simp add: writes_def)
  next
    case (Inr s')
    with append_bounded_append [OF s, of a b]
    have "append_bounded s (a @ b) = append_bounded s' b" by simp
    with assms s Inr append_bounded_ok [OF Inr] show ?thesis by (simp add: writes_def)
  qed
qed

lemma writes_if [writer_intros]:
  "(c \<Longrightarrow> writes w a) \<Longrightarrow> (\<not> c \<Longrightarrow> writes v b) \<Longrightarrow>
   writes (\<lambda>s. if c then w s else v s) (if c then a else b)"
  by simp

lemma writes_option [writer_intros]:
  "writes w a \<Longrightarrow> (\<And>x. writes (v x) (b x)) \<Longrightarrow>
   writes (\<lambda>s. case x of None \<Rightarrow> w s | Some y \<Rightarrow> v y s) (case x of None \<Rightarrow> a | Some y \<Rightarrow> b y)"
  by (cases x) simp_all

text \<open>\<open>fails w\<close>: \<open>w\<close> reports a failure from every buffer.\<close>

definition fails :: "(rtsp_string \<Rightarrow> rtsp_string result) \<Rightarrow> bool" where
  "fails w \<longleftrightarrow> (\<forall>s. \<exists>e. w s = Inl e)"

lemma fails_bind1: "fails w \<Longrightarrow> fails (\<lambda>s. bindr (w s) v)"
  by (auto simp: fails_def) (metis bindr_simps(1))

lemma fails_bind2: "fails v \<Longrightarrow> fails (\<lambda>s. bindr (w s) v)"
  unfolding fails_def
proof
  fix s assume "\<forall>s. \<exists>e. v s = Inl e"
  then show "\<exists>e. bindr (w s) v = Inl e" by (cases "w s") auto
qed

lemma writes_eq: "writes w t \<Longrightarrow> t = u \<Longrightarrow> writes w u"
  by simp

locale bounded_writer =
  fixes wr :: "'h \<Rightarrow> rtsp_string \<Rightarrow> rtsp_string result"
    and okh :: "'h \<Rightarrow> bool"
    and render :: "'h \<Rightarrow> string"
  assumes wr_valid: "okh h \<Longrightarrow> writes (wr h) (render h)"
    and wr_invalid: "\<not> okh h \<Longrightarrow> \<exists>e. wr h s = Inl e"
begin

lemma write_cases:
  assumes "rs_ok s"
  shows "wr h s = Inr s' \<longleftrightarrow> okh h \<and> append_bounded s (render h) = Inr s'"
  using assms wr_valid [of h] wr_invalid [of h s] by (cases "okh h") (auto simp: writes_def)

lemma write_success:
  assumes "rs_ok s" "wr h s = Inr s'"
  shows "rs_str s' = rs_str s @ render h" "rs_max_len s' = rs_max_len s" "rs_ok s'"
  using assms append_bounded_ok [of s "render h" s']
  by (auto simp: write_cases append_bounded_def split: if_splits)

lemma write_fits:
  assumes "okh h" "length (rs_str s) + length (render h) < rs_max_len s"
  shows "wr h s = Inr (s\<lparr>rs_str := rs_str s @ render h\<rparr>)"
  using assms wr_valid [of h] by (auto simp: writes_def append_bounded_def rs_ok_def)

lemma write_overflow:
  assumes "okh h" "rs_ok s" "rs_max_len s \<le> length (rs_str s) + length (render h)"
  shows "wr h s = Inl (Err (- ENOBUFS))"
  using assms wr_valid [of h] by (auto simp: writes_def append_bounded_def)

end

end
