(* ===== verification/RtspBase64.thy ===== *)
theory RtspBase64
  imports RtspPrelude
begin

text \<open>
  \<open>src/rtsp_base64.c\<close>: the encoder over groups of three bytes, the decoder with its 32-bit
  accumulator, the round trip, the size of both results and the memory safety of the decoder.
\<close>

definition MAX_RTSP_BASE64_LEN :: nat where "MAX_RTSP_BASE64_LEN = 4096"

definition encode_char :: "8 word \<Rightarrow> char" where
  "encode_char val =
     (if val \<le> 25 then char_of (65 + unat val)
      else if val \<le> 51 then char_of (97 + unat val - 26)
      else if val \<le> 61 then char_of (48 + unat val - 52)
      else if val = 62 then CHR ''+''
      else CHR ''/'')"

fun encode_groups :: "8 word list \<Rightarrow> string" where
  "encode_groups [] = []"
| "encode_groups [x1] =
     [encode_char (drop_bit 2 x1),
      encode_char (push_bit 4 x1 AND 0x3f),
      CHR ''='', CHR ''='']"
| "encode_groups [x1, x2] =
     [encode_char (drop_bit 2 x1),
      encode_char ((push_bit 4 x1 OR drop_bit 4 x2) AND 0x3f),
      encode_char (push_bit 2 x2 AND 0x3f),
      CHR ''='']"
| "encode_groups (x1 # x2 # x3 # xs) =
     encode_char (drop_bit 2 x1) #
     encode_char ((push_bit 4 x1 OR drop_bit 4 x2) AND 0x3f) #
     encode_char ((push_bit 2 x2 OR drop_bit 6 x3) AND 0x3f) #
     encode_char (x3 AND 0x3f) # encode_groups xs"

definition rtsp_base64_encode :: "8 word list option \<Rightarrow> string result" where
  "rtsp_base64_encode data =
     (case data of
        None \<Rightarrow> Inl (Err (- EINVAL))
      | Some bytes \<Rightarrow>
          if length bytes = 0 then Inl (Err (- EINVAL))
          else if length bytes > (MAX_RTSP_BASE64_LEN div 4) * 3 then Inl (Err (- EINVAL))
          else Inr (encode_groups bytes))"

definition decode_value :: "char \<Rightarrow> 32 word option" where
  "decode_value c =
     (if is_upper c then Some (of_nat (code c - 65))
      else if is_lower c then Some (of_nat (26 + code c - 97))
      else if is_digit c then Some (of_nat (52 + code c - 48))
      else if c = CHR ''+'' then Some 62
      else if c = CHR ''/'' then Some 63
      else None)"

definition char_value :: "nat \<Rightarrow> nat \<Rightarrow> char \<Rightarrow> 32 word option" where
  "char_value data_len i c =
     (case decode_value c of
        Some v \<Rightarrow> Some v
      | None \<Rightarrow> if c \<noteq> CHR ''='' then None else if i < data_len then None else Some 0)"

text \<open>
  The write \<open>_out[j++] = x\<close> into the array of \<open>out_len\<close> bytes: writing past its end is
  undefined behaviour.
\<close>

definition put_byte :: "nat \<Rightarrow> 8 word \<Rightarrow> 8 word list \<Rightarrow> 8 word list result" where
  "put_byte out_len x out = (if length out < out_len then Inr (out @ [x]) else Inl UB)"

definition put_group :: "nat \<Rightarrow> 32 word \<Rightarrow> 8 word list \<Rightarrow> 8 word list result" where
  "put_group out_len acc out =
     bindr (put_byte out_len (ucast (drop_bit 16 acc)) out) (\<lambda>out.
     bindr (if length out < out_len then put_byte out_len (ucast (drop_bit 8 acc AND 0xff)) out
            else Inr out) (\<lambda>out.
     if length out < out_len then put_byte out_len (ucast (acc AND 0xff)) out else Inr out))"

text \<open>The loop over the characters: \<open>i\<close>, \<open>acc\<close> and the bytes written so far.\<close>

fun decode_loop ::
  "nat \<Rightarrow> nat \<Rightarrow> string \<Rightarrow> nat \<Rightarrow> 32 word \<Rightarrow> 8 word list \<Rightarrow> 8 word list result" where
  "decode_loop data_len out_len [] i acc out = Inr out"
| "decode_loop data_len out_len (c # cs) i acc out =
     (case char_value data_len i c of
        None \<Rightarrow> Inl (Err (- EINVAL))
      | Some value \<Rightarrow>
          let acc = push_bit 6 acc OR value in
          if (i + 1) mod 4 = 0 then
            bindr (put_group out_len acc out) (decode_loop data_len out_len cs (i + 1) 0)
          else decode_loop data_len out_len cs (i + 1) acc out)"

definition count_padding :: "string \<Rightarrow> nat" where
  "count_padding s = length (takeWhile (\<lambda>c. c = CHR ''='') (rev s))"

definition rtsp_base64_decode :: "string option \<Rightarrow> 8 word list result" where
  "rtsp_base64_decode str =
     (case str of
        None \<Rightarrow> Inl (Err (- EINVAL))
      | Some s \<Rightarrow>
          if s = [] then Inl (Err (- EINVAL)) else
          let n = min (length s) (MAX_RTSP_BASE64_LEN + 1) in
          if n > MAX_RTSP_BASE64_LEN then Inl (Err (- EINVAL))
          else if n = 0 \<or> n mod 4 \<noteq> 0 then Inl (Err (- EINVAL))
          else if n < 4 then Inl (Err (- EINVAL))
          else
            let padding = count_padding s in
            if padding > 2 then Inl (Err (- EINVAL))
            else decode_loop (n - padding) ((n div 4) * 3 - padding) s 0 0 [])"

section \<open>Sextets\<close>

lemma decode_encode_char [simp]:
  assumes "v < 64" shows "decode_value (encode_char v) = Some (ucast v)"
proof -
  define k where "k = unat v"
  have v: "v = of_nat k" and k: "k < 64" using assms by (simp_all add: k_def word_less_nat_alt)
  have u: "ucast v = (of_nat k :: 32 word)" by (simp add: k_def)
  have le: "v \<le> 25 \<longleftrightarrow> k \<le> 25" "v \<le> 51 \<longleftrightarrow> k \<le> 51" "v \<le> 61 \<longleftrightarrow> k \<le> 61" "v = 62 \<longleftrightarrow> k = 62"
    by (simp_all add: word_le_nat_alt k_def word_unat_eq_iff)
  consider "k \<le> 25" | "25 < k" "k \<le> 51" | j where "k = 52 + j" "j < 10" | "k = 62" | "k = 63"
  proof -
    have "k \<le> 25 \<or> 25 < k \<and> k \<le> 51 \<or> (k = 52 + (k - 52) \<and> k - 52 < 10) \<or> k = 62 \<or> k = 63"
      using k by linarith
    then show ?thesis using that by blast
  qed
  then show ?thesis unfolding u
    by cases (simp_all add: encode_char_def decode_value_def is_upper_def is_lower_def is_digit_def
      le k_def[symmetric])
qed

lemma decode_value_pad [simp]: "decode_value (CHR ''='') = None"
  by (simp add: decode_value_def is_upper_def is_lower_def is_digit_def)

lemma sextet_bounds [simp]:
  "x AND 63 < (64 :: 8 word)" "drop_bit 2 x < (64 :: 8 word)"
  subgoal using word_and_le1[of x 63] by (simp add: word_le_nat_alt word_less_nat_alt)
  subgoal
  proof -
    have "unat (drop_bit 2 x) = unat x div 4"
      by (simp add: unat_drop_bit_eq drop_bit_eq_div [where 'a = nat])
    then show ?thesis using unsigned_less[where 'a = nat and w = x] by (simp add: word_less_nat_alt)
  qed
  done

lemma encode_char_not_pad: "v < 64 \<Longrightarrow> encode_char v \<noteq> CHR ''=''"
  using decode_encode_char[of v] by (metis decode_value_pad option.distinct(1))

text \<open>Four sextets in the 32-bit accumulator and the three bytes they carry.\<close>

definition pack4 :: "8 word \<Rightarrow> 8 word \<Rightarrow> 8 word \<Rightarrow> 8 word \<Rightarrow> 32 word" where
  "pack4 a b c d =
     push_bit 6 (push_bit 6 (push_bit 6 (push_bit 6 0 OR ucast a) OR ucast b) OR ucast c) OR ucast d"

lemma below_8: "(n::nat) < 8 \<longleftrightarrow> n = 0 \<or> n = 1 \<or> n = 2 \<or> n = 3 \<or> n = 4 \<or> n = 5 \<or> n = 6 \<or> n = 7"
  by linarith

lemma byte_bit_bound: "8 \<le> n \<Longrightarrow> \<not> bit (x :: 8 word) n"
  by (auto dest: bit_imp_le_length)

lemma pack4_bytes:
  fixes x1 x2 x3 :: "8 word"
  defines "acc \<equiv> pack4 (drop_bit 2 x1) ((push_bit 4 x1 OR drop_bit 4 x2) AND 63)
                   ((push_bit 2 x2 OR drop_bit 6 x3) AND 63) (x3 AND 63)"
  shows "ucast (drop_bit 16 acc) = x1" "ucast (drop_bit 8 acc AND 255) = x2"
    "ucast (acc AND 255) = x3"
  unfolding acc_def pack4_def
  subgoal by (rule bit_word_eqI, simp add: below_8, elim disjE) (simp_all add: bit_simps byte_bit_bound)
  subgoal by (rule bit_word_eqI, simp add: below_8, elim disjE) (simp_all add: bit_simps byte_bit_bound)
  subgoal by (rule bit_word_eqI, simp add: below_8, elim disjE) (simp_all add: bit_simps byte_bit_bound)
  done

lemmas pack4_bytes_1 = pack4_bytes [of _ 0 0, simplified]
lemmas pack4_bytes_2 = pack4_bytes [of _ _ 0, simplified]


section \<open>The decoder on encoded groups\<close>

declare decode_loop.simps(2) [simp del]

lemma decode_loop_step:
  "char_value n i c = Some v \<Longrightarrow> (i + 1) mod 4 \<noteq> 0 \<Longrightarrow>
     decode_loop n ol (c # cs) i acc out = decode_loop n ol cs (i + 1) (push_bit 6 acc OR v) out"
  "char_value n i c = Some v \<Longrightarrow> (i + 1) mod 4 = 0 \<Longrightarrow>
     decode_loop n ol (c # cs) i acc out =
       bindr (put_group ol (push_bit 6 acc OR v) out) (decode_loop n ol cs (i + 1) 0)"
  by (simp_all add: decode_loop.simps(2))

lemma char_value_simps [simp]:
  "decode_value c = Some v \<Longrightarrow> char_value n i c = Some v"
  "n \<le> i \<Longrightarrow> char_value n i (CHR ''='') = Some 0"
  by (simp_all add: char_value_def)

lemma decode_loop_group4:
  assumes "i mod 4 = 0"
    and "char_value n i c1 = Some (ucast a)" and "char_value n (i + 1) c2 = Some (ucast b)"
    and "char_value n (i + 2) c3 = Some (ucast c)" and "char_value n (i + 3) c4 = Some (ucast d)"
  shows "decode_loop n ol (c1 # c2 # c3 # c4 # cs) i 0 out =
     bindr (put_group ol (pack4 a b c d) out) (decode_loop n ol cs (i + 4) 0)"
proof -
  have m: "(i + 1) mod 4 \<noteq> 0" "(i + 1 + 1) mod 4 \<noteq> 0" "(i + 1 + 1 + 1) mod 4 \<noteq> 0"
    "(i + 1 + 1 + 1 + 1) mod 4 = 0"
    using assms(1) by presburger+
  have j: "i + 1 + 1 = i + 2" "i + 2 + 1 = i + 3" "i + 3 + 1 = i + 4" by simp_all
  show ?thesis
    using decode_loop_step(1) [OF assms(2)] decode_loop_step(1) [OF assms(3)]
      decode_loop_step(1) [OF assms(4)] decode_loop_step(2) [OF assms(5)] m
    unfolding j pack4_def by simp
qed

lemma put_group_3: "length out + 3 \<le> ol \<Longrightarrow> put_group ol acc out =
    Inr (out @ [ucast (drop_bit 16 acc), ucast (drop_bit 8 acc AND 255), ucast (acc AND 255)])"
  by (simp add: put_group_def put_byte_def)

lemma put_group_2: "ol = length out + 2 \<Longrightarrow> put_group ol acc out =
    Inr (out @ [ucast (drop_bit 16 acc), ucast (drop_bit 8 acc AND 255)])"
  by (simp add: put_group_def put_byte_def)

lemma put_group_1: "ol = length out + 1 \<Longrightarrow> put_group ol acc out = Inr (out @ [ucast (drop_bit 16 acc)])"
  by (simp add: put_group_def put_byte_def)

definition padding_of :: "nat \<Rightarrow> nat" where
  "padding_of n = (if n mod 3 = 0 then 0 else 3 - n mod 3)"

lemma padding_of_simps [simp]:
  "padding_of 0 = 0" "padding_of (Suc 0) = 2" "padding_of (Suc (Suc 0)) = 1"
  "padding_of (Suc (Suc (Suc n))) = padding_of n"
proof -
  have "Suc (Suc (Suc n)) mod 3 = n mod 3" by presburger
  then show "padding_of (Suc (Suc (Suc n))) = padding_of n" by (simp add: padding_of_def)
qed (simp_all add: padding_of_def)

lemma length_encode_groups: "length (encode_groups xs) = 4 * ((length xs + 2) div 3)"
proof (induction xs rule: encode_groups.induct)
  case (4 x1 x2 x3 xs)
  have "(length (x1 # x2 # x3 # xs) + 2) div 3 = (length xs + 2) div 3 + 1" by simp
  with 4 show ?case by simp
qed auto

lemma decode_encode_groups:
  "i mod 4 = 0 \<Longrightarrow>
   decode_loop (i + length (encode_groups xs) - padding_of (length xs)) (length out + length xs)
     (encode_groups xs) i 0 out = Inr (out @ xs)"
proof (induction xs arbitrary: i out rule: encode_groups.induct)
  case 1
  then show ?case by simp
next
  case (2 x1)
  then show ?case
    by (simp add: decode_loop_group4 [where a = "drop_bit 2 x1" and b = "push_bit 4 x1 AND 63"
          and c = 0 and d = 0] put_group_1 pack4_bytes_1)
next
  case (3 x1 x2)
  then show ?case
    by (simp add: decode_loop_group4 [where a = "drop_bit 2 x1"
          and b = "(push_bit 4 x1 OR drop_bit 4 x2) AND 63"
          and c = "push_bit 2 x2 AND 63" and d = 0] put_group_2 pack4_bytes_2)
next
  case (4 x1 x2 x3 xs)
  let ?n = "i + 4 + length (encode_groups xs) - padding_of (length xs)"
  let ?ol = "length (out @ [x1, x2, x3]) + length xs"
  have rec: "decode_loop ?n ?ol (encode_groups xs) (i + 4) 0 (out @ [x1, x2, x3]) =
      Inr ((out @ [x1, x2, x3]) @ xs)"
    using "4.prems" by (intro "4.IH") presburger
  have eqs: "i + length (encode_groups (x1 # x2 # x3 # xs)) - padding_of (length (x1 # x2 # x3 # xs)) = ?n"
    "length out + length (x1 # x2 # x3 # xs) = ?ol"
    by simp_all
  have "decode_loop ?n ?ol (encode_groups (x1 # x2 # x3 # xs)) i 0 out =
      bindr (put_group ?ol (pack4 (drop_bit 2 x1) ((push_bit 4 x1 OR drop_bit 4 x2) AND 63)
         ((push_bit 2 x2 OR drop_bit 6 x3) AND 63) (x3 AND 63)) out)
       (decode_loop ?n ?ol (encode_groups xs) (i + 4) 0)"
    unfolding encode_groups.simps by (rule decode_loop_group4) (simp_all add: "4.prems")
  also have "put_group ?ol (pack4 (drop_bit 2 x1) ((push_bit 4 x1 OR drop_bit 4 x2) AND 63)
         ((push_bit 2 x2 OR drop_bit 6 x3) AND 63) (x3 AND 63)) out = Inr (out @ [x1, x2, x3])"
    by (subst put_group_3) (simp_all add: pack4_bytes)
  finally show ?case unfolding eqs by (simp only: bindr_simps rec) simp
qed

section \<open>The round trip\<close>

lemma count_padding_append:
  "c \<in> set s \<Longrightarrow> c \<noteq> CHR ''='' \<Longrightarrow> count_padding (p @ s) = count_padding s"
  by (simp add: count_padding_def)

lemma encode_groups_not_pad: "xs \<noteq> [] \<Longrightarrow> \<exists>c \<in> set (encode_groups xs). c \<noteq> CHR ''=''"
  by (cases xs rule: encode_groups.cases) (auto simp: encode_char_not_pad)

lemma count_padding_encode: "count_padding (encode_groups xs) = padding_of (length xs)"
proof (induction xs rule: encode_groups.induct)
  case (4 x1 x2 x3 xs)
  show ?case
  proof (cases "xs = []")
    case True
    then show ?thesis by (simp add: count_padding_def encode_char_not_pad)
  next
    case False
    then obtain c where "c \<in> set (encode_groups xs)" "c \<noteq> CHR ''=''"
      using encode_groups_not_pad by blast
    from count_padding_append [OF this, of "take 4 (encode_groups (x1 # x2 # x3 # xs))"] "4.IH"
    show ?thesis by simp
  qed
qed (simp_all add: count_padding_def encode_char_not_pad)

lemma padding_of_le: "padding_of n \<le> 2"
  by (simp add: padding_of_def) presburger

lemma output_length_padding:
  "length (encode_groups xs) div 4 * 3 = length xs + padding_of (length xs)"
  by (induction xs rule: encode_groups.induct) (simp_all add: div_add_self1)

lemma output_length_eq: "length (encode_groups xs) div 4 * 3 - padding_of (length xs) = length xs"
  by (simp only: output_length_padding add_diff_cancel_right')

lemma rtsp_base64_decode_eq:
  "rtsp_base64_decode (Some t) =
     (if t = [] \<or> 4096 < length t \<or> length t mod 4 \<noteq> 0 \<or> 2 < count_padding t then Inl (Err (- EINVAL))
      else decode_loop (length t - count_padding t) (length t div 4 * 3 - count_padding t) t 0 0 [])"
proof (cases "t = [] \<or> 4096 < length t \<or> length t mod 4 \<noteq> 0")
  case True
  then show ?thesis
    by (cases "t = []"; cases "4096 < length t")
      (simp_all add: rtsp_base64_decode_def MAX_RTSP_BASE64_LEN_def Let_def)
next
  case False
  then have "0 < length t" "length t mod 4 = 0" by simp_all
  then have "\<not> length t < 4" by presburger
  with False show ?thesis
    by (simp add: rtsp_base64_decode_def MAX_RTSP_BASE64_LEN_def Let_def)
qed

section \<open>Memory safety and size\<close>

lemma put_group_safe:
  assumes "length out < ol"
  shows "\<exists>out'. put_group ol acc out = Inr out' \<and> length out' = min ol (length out + 3)"
  using assms by (auto simp: put_group_def put_byte_def)

lemma decode_loop_safe:
  assumes "n = i + length cs" "n mod 4 = 0" "n div 4 * 3 \<le> ol + 2" "ol \<le> n div 4 * 3"
    and "length out = min ol (i div 4 * 3)"
  shows "decode_loop dl ol cs i acc out \<noteq> Inl UB \<and>
    (\<forall>r. decode_loop dl ol cs i acc out = Inr r \<longrightarrow> length r = ol)"
  using assms
proof (induction cs arbitrary: i acc out)
  case Nil
  then show ?case by simp
next
  case (Cons c cs)
  show ?case
  proof (cases "char_value dl i c")
    case None
    then show ?thesis by (simp add: decode_loop.simps(2))
  next
    case (Some v)
    show ?thesis
    proof (cases "(i + 1) mod 4 = 0")
      case False
      then have "(i + 1) div 4 = i div 4" by presburger
      with Cons.prems have "length out = min ol ((i + 1) div 4 * 3)" by simp
      with Cons.IH [of "i + 1"] Cons.prems decode_loop_step(1) [OF Some False] show ?thesis
        by simp
    next
      case True
      then have d: "(i + 1) div 4 = i div 4 + 1" by presburger
      have "i div 4 + 1 \<le> n div 4" using Cons.prems(1) d by (metis add_leD1 div_le_mono le_add1
            length_Cons add_Suc_right add_Suc Suc_eq_plus1)
      with Cons.prems have out: "length out < ol" "length out = i div 4 * 3" by simp_all
      obtain out' where o': "put_group ol (push_bit 6 acc OR v) out = Inr out'"
          "length out' = min ol (length out + 3)"
        using put_group_safe [OF out(1)] by blast
      with Cons.IH [of "i + 1" out' 0] Cons.prems decode_loop_step(2) [OF Some True] d out
      show ?thesis by (simp add: add.commute)
    qed
  qed
qed

section \<open>Properties\<close>

text \<open>
  C24: Decoding the encoding of a byte string gives the byte string back, for every length the
  encoder accepts (1 to 3072 bytes).
\<close>

theorem base64_roundtrip:
  assumes "0 < length bytes" "length bytes \<le> 3072"
  shows "bindr (rtsp_base64_encode (Some bytes)) (\<lambda>s. rtsp_base64_decode (Some s)) = Inr bytes"
proof -
  let ?s = "encode_groups bytes"
  have len: "length ?s = 4 * ((length bytes + 2) div 3)" by (rule length_encode_groups)
  have "(length bytes + 2) div 3 \<le> 1024" "1 \<le> (length bytes + 2) div 3"
    using assms by linarith+
  then have bound: "length ?s \<le> 4096" "4 \<le> length ?s" using assms(1) len by simp_all
  have "rtsp_base64_decode (Some ?s) =
      decode_loop (0 + length ?s - padding_of (length bytes)) (length ([] :: 8 word list) + length bytes) ?s 0 0 []"
    using bound padding_of_le [of "length bytes"] output_length_eq [of bytes] len
    by (auto simp: rtsp_base64_decode_eq count_padding_encode)
  also have "\<dots> = Inr bytes" by (subst decode_encode_groups) simp_all
  finally show ?thesis
    using assms by (simp add: rtsp_base64_encode_def MAX_RTSP_BASE64_LEN_def)
qed

theorem base64_roundtrip_witness:
  "0 < length [77 :: 8 word, 97] \<and> length [77 :: 8 word, 97] \<le> 3072 \<and>
   bindr (rtsp_base64_encode (Some [77, 97])) (\<lambda>s. rtsp_base64_decode (Some s)) = Inr [77, 97]"
  using base64_roundtrip [of "[77, 97]"] by simp

text \<open>
  C25: The decoder never writes outside its output array, on any input; when it succeeds, it has
  filled the whole array, whose length is three quarters of the text less the padding.
\<close>

theorem base64_decode_safe:
  "rtsp_base64_decode s \<noteq> Inl UB \<and>
   (\<forall>out. rtsp_base64_decode s = Inr out \<longrightarrow>
      length out = length (the s) div 4 * 3 - count_padding (the s))"
proof (cases s)
  case None
  then show ?thesis by (simp add: rtsp_base64_decode_def)
next
  case (Some t)
  show ?thesis
  proof (cases "t = [] \<or> 4096 < length t \<or> length t mod 4 \<noteq> 0 \<or> 2 < count_padding t")
    case True
    then show ?thesis unfolding Some rtsp_base64_decode_eq by simp
  next
    case False
    then have "length t div 4 * 3 \<le> length t div 4 * 3 - count_padding t + 2" by linarith
    with False decode_loop_safe [of "length t" 0 t "length t div 4 * 3 - count_padding t" "[]"]
    show ?thesis unfolding Some rtsp_base64_decode_eq by auto
  qed
qed

lemma base64_decode_example: "rtsp_base64_decode (Some ''TWE='') = Inr [77, 97]"
  by (simp add: rtsp_base64_decode_eq count_padding_def decode_loop.simps(2) char_value_def decode_value_def
      is_upper_def is_lower_def is_digit_def put_group_def put_byte_def drop_bit_eq_div)
lemma base64_decode_safe_witness:
  "rtsp_base64_decode (Some ''TWE='') = Inr [77, 97] \<and>
   length [77 :: 8 word, 97] = length ''TWE='' div 4 * 3 - count_padding ''TWE=''"
proof -
  have "rtsp_base64_decode (Some ''TWE='') = Inr [77, 97] \<longrightarrow>
      length [77 :: 8 word, 97] = length ''TWE='' div 4 * 3 - count_padding ''TWE=''"
    using base64_decode_safe [of "Some ''TWE=''"] unfolding option.sel by blast
  with base64_decode_example show ?thesis by blast
qed

end
