(* ===== verification/RtspUrl.thy ===== *)
theory RtspUrl
  imports RtspPrelude
begin

text \<open>
  \<open>src/rtsp_url.c\<close>: parsing of RTSP URLs (scheme, credentials, host, port, path), their printing,
  comparison, credential stripping and anonymisation. \<open>inet_pton\<close> is the parameter \<open>is_ip\<close>
  (whether a host is a numeric IPv4 or IPv6 address).
\<close>

definition PATH_MAX :: nat where "PATH_MAX = 4096"
definition RTSP_DEFAULT_PORT :: "16 word" where "RTSP_DEFAULT_PORT = 554"
definition RTSPS_DEFAULT_PORT :: "16 word" where "RTSPS_DEFAULT_PORT = 322"

datatype rtsp_url_scheme =
  RTSP_URL_SCHEME_UNKNOWN | RTSP_URL_SCHEME_TCP | RTSP_URL_SCHEME_UDP | RTSP_URL_SCHEME_TCP_TLS

record rtsp_url_rec =
  url_scheme :: rtsp_url_scheme
  url_user :: "string option"
  url_pass :: "string option"
  url_host :: "string option"
  url_resolved_host :: "string option"
  url_port :: "16 word"
  url_port_explicit :: bool
  url_path :: "string option"

definition rtsp_url_scheme_map :: "(rtsp_url_scheme \<times> 16 word \<times> string) list" where
  "rtsp_url_scheme_map =
     [(RTSP_URL_SCHEME_TCP, RTSP_DEFAULT_PORT, ''rtsp://''),
      (RTSP_URL_SCHEME_UDP, RTSP_DEFAULT_PORT, ''rtspu://''),
      (RTSP_URL_SCHEME_TCP_TLS, RTSPS_DEFAULT_PORT, ''rtsps://'')]"

definition rtsp_url_scheme_str :: "rtsp_url_scheme \<Rightarrow> string option" where
  "rtsp_url_scheme_str v =
     map_option (\<lambda>(s, p, t). t) (find (\<lambda>(s, p, t). v = s) rtsp_url_scheme_map)"

definition rtsp_url_scheme_from_str :: "string option \<Rightarrow> rtsp_url_scheme" where
  "rtsp_url_scheme_from_str str =
     (case str of
        None \<Rightarrow> RTSP_URL_SCHEME_UNKNOWN
      | Some x \<Rightarrow>
          (case find (\<lambda>(s, p, t). strcaseeq x t) rtsp_url_scheme_map of
             None \<Rightarrow> RTSP_URL_SCHEME_UNKNOWN
           | Some (s, p, t) \<Rightarrow> s))"

definition rtsp_url_scheme_default_port :: "rtsp_url_scheme \<Rightarrow> 16 word" where
  "rtsp_url_scheme_default_port v =
     (case find (\<lambda>(s, p, t). v = s) rtsp_url_scheme_map of None \<Rightarrow> 0 | Some (s, p, t) \<Rightarrow> p)"

section \<open>Parsing\<close>

definition is_valid_rtsp_path_char :: "char \<Rightarrow> bool" where
  "is_valid_rtsp_path_char c \<longleftrightarrow> isalnum c \<or> c \<in> set (''-._~!$&'' @ [CHR 0x27] @ ''()*+,;=:@/'')"

definition is_ipv6_char :: "char \<Rightarrow> bool" where
  "is_ipv6_char c \<longleftrightarrow> isxdigit c \<or> c = CHR '':'' \<or> c = CHR ''.''"

definition is_host_char :: "char \<Rightarrow> bool" where
  "is_host_char c \<longleftrightarrow> isalnum c \<or> c = CHR ''.'' \<or> c = CHR ''-''"

text \<open>The host text and the optional port text of \<open>parse_host_and_port\<close>.\<close>

definition split_host_port :: "string \<Rightarrow> (bool \<times> string \<times> string option) result" where
  "split_host_port h =
     (case h of
        [] \<Rightarrow> Inl (Err (- EINVAL))
      | c # r \<Rightarrow>
          if c = CHR ''['' then
            (case strchr_cut (CHR '']'') r of
               (_, None) \<Rightarrow> Inl (Err (- EINVAL))
             | (host, Some rest) \<Rightarrow>
                 if host = [] then Inl (Err (- EINVAL))
                 else (case rest of
                         [] \<Rightarrow> Inr (True, host, None)
                       | d # p \<Rightarrow>
                           if d = CHR '':'' then Inr (True, host, Some p) else Inl (Err (- EINVAL))))
          else
            (case strchr_cut (CHR '':'') h of
               (host, p) \<Rightarrow> if host = [] then Inl (Err (- EINVAL)) else Inr (False, host, p)))"

definition parse_port :: "string option \<Rightarrow> (16 word) result" where
  "parse_port p =
     (case p of
        None \<Rightarrow> Inr 0
      | Some s \<Rightarrow>
          if s = [] then Inr 0
          else (case strtol10 s of
                  (val, endptr) \<Rightarrow>
                    if endptr \<noteq> [] \<or> val < 0 \<or> val > 65535 then Inl (Err (- EINVAL))
                    else Inr (word_of_int val)))"

definition parse_host_and_port :: "string \<Rightarrow> (string \<times> 16 word) result" where
  "parse_host_and_port h =
     bindr (split_host_port h) (\<lambda>(ipv6, host, p).
     bindr (parse_port p) (\<lambda>port.
     if (\<forall>c \<in> set host. if ipv6 then is_ipv6_char c else is_host_char c) then Inr (host, port)
     else Inl (Err (- EINVAL))))"

definition parse_authority ::
  "string \<Rightarrow> (string option \<times> string option \<times> string \<times> 16 word) result" where
  "parse_authority authority =
     (case strrchr_cut (CHR ''@'') authority of
        (_, None) \<Rightarrow>
          bindr (parse_host_and_port authority) (\<lambda>(h, p). Inr (None, None, h, p))
      | (userpass, Some hostpart) \<Rightarrow>
          (case strchr_cut (CHR '':'') userpass of
             (username, password) \<Rightarrow>
               if username = [] then Inl (Err (- EINVAL))
               else bindr (parse_host_and_port hostpart)
                      (\<lambda>(h, p). Inr (Some username, password, h, p))))"

definition strip_slashes :: "string \<Rightarrow> string" where
  "strip_slashes p = rev (dropWhile (\<lambda>c. c = CHR ''/'') (rev p))"

definition parse_path :: "string \<Rightarrow> string option result" where
  "parse_path p =
     (if length p \<ge> PATH_MAX then Inl (Err (- ENAMETOOLONG))
      else
        let p = strip_slashes p in
        if p = [] then Inr None
        else if \<forall>c \<in> set p. is_valid_rtsp_path_char c then Inr (Some p)
        else Inl (Err (- EINVAL)))"

record url_parts =
  up_scheme :: rtsp_url_scheme
  up_username :: "string option"
  up_password :: "string option"
  up_host :: string
  up_port :: "16 word"
  up_port_explicit :: bool
  up_path :: "string option"

definition rtsp_url_parse_internal :: "string option \<Rightarrow> url_parts result" where
  "rtsp_url_parse_internal url_ptr =
     (case url_ptr of
        None \<Rightarrow> Inl (Err (- EINVAL))
      | Some url \<Rightarrow>
          if url = [] then Inl (Err (- EINVAL))
          else if length url \<ge> PATH_MAX then Inl (Err (- EINVAL))
          else
            (case find (\<lambda>(s, p, t). has_prefix url t) rtsp_url_scheme_map of
               None \<Rightarrow> Inl (Err (- EINVAL))
             | Some (sch, default_port, t) \<Rightarrow>
                 let host = drop (length t) url in
                 if host = [] \<or> hd host = CHR ''/'' then Inl (Err (- EINVAL))
                 else
                   (case strtok_r {CHR ''/''} host of
                      (None, _) \<Rightarrow> Inl (Err (- EINVAL))
                    | (Some p, temp) \<Rightarrow>
                        bindr (parse_authority p) (\<lambda>(username, password, host, port).
                        bindr (case strtok_r {} temp of
                                 (None, _) \<Rightarrow> Inr None
                               | (Some pth, _) \<Rightarrow> parse_path pth) (\<lambda>path.
                        Inr \<lparr>up_scheme = sch, up_username = username, up_password = password,
                             up_host = host, up_port = (if port = 0 then default_port else port),
                             up_port_explicit = (port \<noteq> 0), up_path = path\<rparr>)))))"

definition rtsp_url_parse_host_and_path :: "string option \<Rightarrow> (string \<times> string option) result" where
  "rtsp_url_parse_host_and_path url =
     bindr (rtsp_url_parse_internal url) (\<lambda>u. Inr (up_host u, up_path u))"

definition rtsp_url_parse_path :: "string option \<Rightarrow> string option result" where
  "rtsp_url_parse_path url = bindr (rtsp_url_parse_internal url) (\<lambda>u. Inr (up_path u))"

definition is_valid_ipv4_or_ipv6 :: "(string \<Rightarrow> bool) \<Rightarrow> string option \<Rightarrow> bool" where
  "is_valid_ipv4_or_ipv6 is_ip s = (case s of None \<Rightarrow> False | Some h \<Rightarrow> is_ip h)"

definition rtsp_url_parse :: "(string \<Rightarrow> bool) \<Rightarrow> string option \<Rightarrow> rtsp_url_rec result" where
  "rtsp_url_parse is_ip url =
     bindr (rtsp_url_parse_internal url) (\<lambda>u.
     Inr \<lparr>url_scheme = up_scheme u, url_user = up_username u, url_pass = up_password u,
          url_host = Some (up_host u),
          url_resolved_host =
            (if is_valid_ipv4_or_ipv6 is_ip (Some (up_host u)) then Some (up_host u) else None),
          url_port = up_port u, url_port_explicit = up_port_explicit u, url_path = up_path u\<rparr>)"

section \<open>Printing\<close>

definition opt_str :: "string option \<Rightarrow> string" where
  "opt_str s = (case s of None \<Rightarrow> [] | Some t \<Rightarrow> t)"

text \<open>The port goes through \<open>snprintf\<close> into \<open>char port_str[6]\<close>, which keeps five characters.\<close>

definition port_text :: "16 word \<Rightarrow> bool \<Rightarrow> string" where
  "port_text p explicit = (if p \<noteq> 0 \<and> explicit then take 5 (CHR '':'' # show_nat (unat p)) else [])"

text \<open>A NULL host reaches \<open>"%s"\<close> of \<open>asprintf\<close>: undefined behaviour.\<close>

definition rtsp_url_to_str_internal :: "rtsp_url_rec \<Rightarrow> bool \<Rightarrow> bool \<Rightarrow> string result" where
  "rtsp_url_to_str_internal url resolved include_path =
     (let host_to_use =
            (if resolved then (case url_resolved_host url of Some h \<Rightarrow> Some h | None \<Rightarrow> url_host url)
             else url_host url);
          path_to_use = (if include_path then url_path url else None) in
      case rtsp_url_scheme_str (url_scheme url) of
        None \<Rightarrow> Inl (Err (- EINVAL))
      | Some scheme_str \<Rightarrow>
          (case host_to_use of
             None \<Rightarrow> Inl UB
           | Some h \<Rightarrow>
               let is_ipv6 = CHR '':'' \<in> set h in
               Inr (scheme_str @ opt_str (url_user url) @
                    (if url_user url \<noteq> None \<and> url_pass url \<noteq> None then '':'' else []) @
                    opt_str (url_pass url) @
                    (if url_user url \<noteq> None then ''@'' else []) @
                    (if is_ipv6 then ''['' else []) @ h @ (if is_ipv6 then '']'' else []) @
                    port_text (url_port url) (url_port_explicit url) @
                    (if path_to_use \<noteq> None then ''/'' else []) @ opt_str path_to_use)))"

definition rtsp_url_to_str :: "rtsp_url_rec \<Rightarrow> string result" where
  "rtsp_url_to_str url = rtsp_url_to_str_internal url False True"

definition rtsp_url_to_str_resolved :: "rtsp_url_rec \<Rightarrow> string result" where
  "rtsp_url_to_str_resolved url = rtsp_url_to_str_internal url True True"

definition rtsp_url_to_str_no_path :: "rtsp_url_rec \<Rightarrow> string result" where
  "rtsp_url_to_str_no_path url = rtsp_url_to_str_internal url False False"

definition rtsp_url_to_str_no_path_resolved :: "rtsp_url_rec \<Rightarrow> string result" where
  "rtsp_url_to_str_no_path_resolved url = rtsp_url_to_str_internal url True False"

definition rtsp_url_cmp :: "rtsp_url_rec option \<Rightarrow> rtsp_url_rec option \<Rightarrow> bool" where
  "rtsp_url_cmp u1 u2 =
     (case (u1, u2) of
        (None, None) \<Rightarrow> True
      | (Some a, Some b) \<Rightarrow>
          url_scheme a = url_scheme b \<and> url_user a = url_user b \<and> url_pass a = url_pass b \<and> url_host a = url_host b \<and>
          url_resolved_host a = url_resolved_host b \<and> url_port a = url_port b \<and>
          url_port_explicit a = url_port_explicit b \<and> url_path a = url_path b
      | _ \<Rightarrow> False)"

text \<open>\<open>rtsp_url_copy\<close> duplicates the strings with \<open>xstrdup\<close>, which keeps NULL.\<close>

definition xstrdup :: "string option \<Rightarrow> string option" where
  "xstrdup s = (case s of None \<Rightarrow> None | Some t \<Rightarrow> Some t)"

definition rtsp_url_copy :: "rtsp_url_rec option \<Rightarrow> rtsp_url_rec result" where
  "rtsp_url_copy src =
     (case src of
        None \<Rightarrow> Inl (Err (- EINVAL))
      | Some u \<Rightarrow>
          Inr (u\<lparr>url_user := xstrdup (url_user u), url_pass := xstrdup (url_pass u),
                 url_host := xstrdup (url_host u), url_resolved_host := xstrdup (url_resolved_host u),
                 url_path := xstrdup (url_path u)\<rparr>))"

section \<open>Accessors\<close>

definition rtsp_url_get_scheme :: "rtsp_url_rec option \<Rightarrow> rtsp_url_scheme" where
  "rtsp_url_get_scheme url = (case url of Some u \<Rightarrow> url_scheme u | None \<Rightarrow> RTSP_URL_SCHEME_UNKNOWN)"

definition rtsp_url_get_user :: "rtsp_url_rec option \<Rightarrow> string option" where
  "rtsp_url_get_user url = (case url of Some u \<Rightarrow> url_user u | None \<Rightarrow> None)"

definition rtsp_url_get_pass :: "rtsp_url_rec option \<Rightarrow> string option" where
  "rtsp_url_get_pass url = (case url of Some u \<Rightarrow> url_pass u | None \<Rightarrow> None)"

definition rtsp_url_get_host :: "rtsp_url_rec option \<Rightarrow> string option" where
  "rtsp_url_get_host url = (case url of Some u \<Rightarrow> url_host u | None \<Rightarrow> None)"

definition rtsp_url_get_resolved_host :: "rtsp_url_rec option \<Rightarrow> string option" where
  "rtsp_url_get_resolved_host url = (case url of Some u \<Rightarrow> url_resolved_host u | None \<Rightarrow> None)"

definition rtsp_url_has_resolved_host :: "rtsp_url_rec option \<Rightarrow> bool" where
  "rtsp_url_has_resolved_host url \<longleftrightarrow> rtsp_url_get_resolved_host url \<noteq> None"

definition rtsp_url_get_port :: "rtsp_url_rec option \<Rightarrow> 16 word" where
  "rtsp_url_get_port url = (case url of Some u \<Rightarrow> url_port u | None \<Rightarrow> 0)"

definition rtsp_url_is_port_explicit :: "rtsp_url_rec option \<Rightarrow> bool" where
  "rtsp_url_is_port_explicit url \<longleftrightarrow> (case url of Some u \<Rightarrow> url_port_explicit u | None \<Rightarrow> False)"

definition rtsp_url_get_path :: "rtsp_url_rec option \<Rightarrow> string option" where
  "rtsp_url_get_path url = (case url of Some u \<Rightarrow> url_path u | None \<Rightarrow> None)"

lemma rtsp_url_copy_equal: "rtsp_url_copy (Some u) = Inr v \<Longrightarrow> rtsp_url_cmp (Some u) (Some v)"
  by (auto simp: rtsp_url_copy_def rtsp_url_cmp_def xstrdup_def split: option.splits)

definition rtsp_url_set_resolved_host ::
  "rtsp_url_rec option \<Rightarrow> string option \<Rightarrow> rtsp_url_rec result" where
  "rtsp_url_set_resolved_host url h =
     (case url of
        None \<Rightarrow> Inl (Err (- EINVAL))
      | Some u \<Rightarrow>
          (case h of
             None \<Rightarrow> Inl (Err (- EINVAL))
           | Some r \<Rightarrow> Inr (u\<lparr>url_resolved_host := Some r\<rparr>)))"

section \<open>Credentials\<close>

definition rtsp_url_strip_credentials :: "(string \<Rightarrow> bool) \<Rightarrow> string option \<Rightarrow> string result" where
  "rtsp_url_strip_credentials is_ip url =
     bindr (rtsp_url_parse is_ip url) (\<lambda>parsed.
     rtsp_url_to_str (parsed\<lparr>url_user := None, url_pass := None\<rparr>))"

definition anonymize_str :: "string \<Rightarrow> bool \<Rightarrow> string option" where
  "anonymize_str s keep_prefix_suffix =
     (if length s \<ge> PATH_MAX then None
      else
        let k = (if keep_prefix_suffix then 2 else 0) in
        if length s > 2 * k
        then Some (take k s @ replicate (length s - 2 * k) (CHR ''*'') @ drop (length s - k) s)
        else Some s)"

definition anonymize_field :: "string option \<Rightarrow> bool \<Rightarrow> string option option" where
  "anonymize_field field is_path =
     (case field of None \<Rightarrow> Some None | Some s \<Rightarrow> map_option Some (anonymize_str s is_path))"

text \<open>\<open>anonymize_str\<close> returning NULL is reported as \<open>-ENOMEM\<close> (12).\<close>

definition rtsp_url_anonymize :: "(string \<Rightarrow> bool) \<Rightarrow> string option \<Rightarrow> string result" where
  "rtsp_url_anonymize is_ip url =
     bindr (rtsp_url_parse is_ip url) (\<lambda>parsed.
     (case anonymize_field (url_user parsed) False of
        None \<Rightarrow> Inl (Err (- 12))
      | Some u \<Rightarrow>
          (case anonymize_field (url_pass parsed) False of
             None \<Rightarrow> Inl (Err (- 12))
           | Some p \<Rightarrow>
               (case anonymize_field (url_path parsed) True of
                  None \<Rightarrow> Inl (Err (- 12))
                | Some q \<Rightarrow> rtsp_url_to_str (parsed\<lparr>url_user := u, url_pass := p, url_path := q\<rparr>)))))"

section \<open>Well-formed URLs\<close>

definition wf_host :: "string \<Rightarrow> bool" where
  "wf_host h \<longleftrightarrow> h \<noteq> [] \<and>
     (if CHR '':'' \<in> set h then \<forall>c \<in> set h. is_ipv6_char c else \<forall>c \<in> set h. is_host_char c)"

definition wf_credentials :: "string option \<Rightarrow> string option \<Rightarrow> bool" where
  "wf_credentials u p \<longleftrightarrow>
     (case u of
        None \<Rightarrow> p = None
      | Some s \<Rightarrow> s \<noteq> [] \<and> CHR '':'' \<notin> set s \<and> CHR ''/'' \<notin> set s \<and> CHR ''/'' \<notin> set (opt_str p))"

definition wf_path :: "string option \<Rightarrow> bool" where
  "wf_path p \<longleftrightarrow>
     (case p of
        None \<Rightarrow> True
      | Some s \<Rightarrow> s \<noteq> [] \<and> last s \<noteq> CHR ''/'' \<and> length s < PATH_MAX \<and>
          (\<forall>c \<in> set s. is_valid_rtsp_path_char c))"

definition wf_url :: "(string \<Rightarrow> bool) \<Rightarrow> rtsp_url_rec \<Rightarrow> bool" where
  "wf_url is_ip u \<longleftrightarrow>
     url_scheme u \<noteq> RTSP_URL_SCHEME_UNKNOWN \<and>
     wf_credentials (url_user u) (url_pass u) \<and>
     (\<exists>h. url_host u = Some h \<and> wf_host h \<and>
          url_resolved_host u = (if is_ip h then Some h else None)) \<and>
     url_port u \<noteq> 0 \<and>
     (\<not> url_port_explicit u \<longrightarrow> url_port u = rtsp_url_scheme_default_port (url_scheme u)) \<and>
     wf_path (url_path u)"

text \<open>The text of the authority as the printer lays it out.\<close>

definition host_text :: "string \<Rightarrow> string" where
  "host_text h = (if CHR '':'' \<in> set h then ''['' @ h @ '']'' else h)"

definition credentials_text :: "string option \<Rightarrow> string option \<Rightarrow> string" where
  "credentials_text u p =
     opt_str u @ (if u \<noteq> None \<and> p \<noteq> None then '':'' else []) @ opt_str p @ (if u \<noteq> None then ''@'' else [])"

text \<open>The port in full, which \<open>port_text\<close> cuts.\<close>

definition full_port_text :: "16 word \<Rightarrow> bool \<Rightarrow> string" where
  "full_port_text p explicit = (if p \<noteq> 0 \<and> explicit then CHR '':'' # show_nat (unat p) else [])"

lemma port_text_full: "port_text p e = take 5 (full_port_text p e)"
  by (simp add: port_text_def full_port_text_def)

lemma port_text_short: "(e \<longrightarrow> unat p < 10000) \<Longrightarrow> port_text p e = full_port_text p e"
  using show_nat_length [of 4 "unat p"] by (auto simp: port_text_def full_port_text_def)

definition path_text :: "string option \<Rightarrow> string" where
  "path_text p = (if p \<noteq> None then ''/'' else []) @ opt_str p"

lemma rtsp_url_to_str_eq:
  assumes "url_host u = Some h" "rtsp_url_scheme_str (url_scheme u) = Some t"
  shows "rtsp_url_to_str u = Inr (t @ credentials_text (url_user u) (url_pass u) @ host_text h @
           port_text (url_port u) (url_port_explicit u) @ path_text (url_path u))"
  using assms by (simp add: rtsp_url_to_str_def rtsp_url_to_str_internal_def credentials_text_def
      host_text_def path_text_def)

section \<open>Parsing printed authorities\<close>

lemma host_char_not_special:
  assumes "is_host_char c \<or> is_ipv6_char c"
  shows "c \<noteq> CHR ''/''" "c \<noteq> CHR ''@''" "c \<noteq> CHR ''[''" "c \<noteq> CHR '']''"
  using assms
  by (auto simp: is_host_char_def is_ipv6_char_def isalnum_def isxdigit_def is_digit_def
      is_upper_def is_lower_def)

lemma wf_host_chars: "wf_host h \<Longrightarrow> c \<in> set h \<Longrightarrow> is_host_char c \<or> is_ipv6_char c"
  by (auto simp: wf_host_def split: if_splits)

lemma digit_not_special:
  assumes "is_digit c" shows "c \<noteq> CHR ''/''" "c \<noteq> CHR ''@''" "c \<noteq> CHR '':''"
  using assms by (auto simp: is_digit_def)

lemma parse_port_show:
  "n < 65536 \<Longrightarrow> parse_port (Some (show_nat n)) = Inr (of_nat n)"
  using scan_number_show_nat [of "[]" n]
  by (simp add: parse_port_def strtol10_def LONG_MAX_def LONG_MIN_def)

lemma split_host_port_text:
  assumes "wf_host h" "p = [] \<or> (\<exists>q. p = CHR '':'' # q)"
  shows "split_host_port (host_text h @ p) =
    Inr (CHR '':'' \<in> set h, h, if p = [] then None else Some (tl p))"
proof (cases "CHR '':'' \<in> set h")
  case True
  have "CHR '']'' \<notin> set h"
    using host_char_not_special(4) wf_host_chars [OF assms(1)] by blast
  then have "strchr_cut (CHR '']'') (h @ CHR '']'' # p) = (h, Some p)" by (rule strchr_cut_append)
  then show ?thesis using True assms
    by (auto simp: split_host_port_def host_text_def wf_host_def)
next
  case False
  obtain c r where h: "h = c # r" using assms(1) by (cases h) (auto simp: wf_host_def)
  then have c: "c \<noteq> CHR ''[''" using host_char_not_special(3) wf_host_chars [OF assms(1)] by auto
  have "strchr_cut (CHR '':'') (h @ p) = (h, if p = [] then None else Some (tl p))"
    using False assms(2) strchr_cut_append [of "CHR '':''" h] strchr_cut_none [of "CHR '':''" h] by auto
  then show ?thesis using False c
    by (simp add: split_host_port_def host_text_def h)
qed

lemma parse_host_and_port_text:
  assumes "wf_host h" "e \<longrightarrow> p \<noteq> 0"
  shows "parse_host_and_port (host_text h @ full_port_text p e) = Inr (h, if e then p else 0)"
proof -
  have port: "full_port_text p e = (if e then CHR '':'' # show_nat (unat p) else [])"
    using assms(2) by (auto simp: full_port_text_def)
  have "parse_port (if e then Some (show_nat (unat p)) else None) = Inr (if e then p else 0)"
    using parse_port_show [of "unat p"] unsigned_less [where w = p and 'a = nat] by (auto simp: parse_port_def)
  moreover have "split_host_port (host_text h @ full_port_text p e) =
    Inr (CHR '':'' \<in> set h, h, if e then Some (show_nat (unat p)) else None)"
    unfolding port
    using split_host_port_text [OF assms(1), of "if e then CHR '':'' # show_nat (unat p) else []"]
    by (auto split: if_splits)
  ultimately show ?thesis using assms(1)
    by (auto simp: parse_host_and_port_def wf_host_def split: if_splits)
qed

lemma host_port_no_at:
  assumes "wf_host h" shows "CHR ''@'' \<notin> set (host_text h @ full_port_text p e)"
    "CHR ''/'' \<notin> set (host_text h @ full_port_text p e)"
proof -
  have "c \<noteq> CHR ''@'' \<and> c \<noteq> CHR ''/''" if "c \<in> set h" for c
    using host_char_not_special wf_host_chars [OF assms that] by blast
  moreover have "c \<noteq> CHR ''@'' \<and> c \<noteq> CHR ''/''" if "c \<in> set (full_port_text p e)" for c
    using that show_nat_digits [of c "unat p"] digit_not_special [of c]
    by (auto simp: full_port_text_def split: if_splits)
  ultimately show "CHR ''@'' \<notin> set (host_text h @ full_port_text p e)"
    "CHR ''/'' \<notin> set (host_text h @ full_port_text p e)"
    by (auto simp: host_text_def)
qed

lemma parse_authority_text:
  assumes "wf_host h" "wf_credentials u pw" "e \<longrightarrow> p \<noteq> 0"
  shows "parse_authority (credentials_text u pw @ host_text h @ full_port_text p e) =
    Inr (u, pw, h, if e then p else 0)"
proof (cases u)
  case None
  then show ?thesis
    using assms(2) parse_host_and_port_text [OF assms(1,3)]
      strrchr_cut_none [OF host_port_no_at(1) [OF assms(1)]]
    by (simp add: parse_authority_def credentials_text_def wf_credentials_def opt_str_def)
next
  case (Some s)
  let ?up = "s @ (if pw \<noteq> None then '':'' else []) @ opt_str pw"
  have "strrchr_cut (CHR ''@'') (?up @ CHR ''@'' # (host_text h @ full_port_text p e)) =
      (?up, Some (host_text h @ full_port_text p e))"
    by (rule strrchr_cut_append) (rule host_port_no_at(1) [OF assms(1)])
  moreover have "strchr_cut (CHR '':'') ?up = (s, pw)"
    using assms(2) Some strchr_cut_append [of "CHR '':''" s] strchr_cut_none [of "CHR '':''" s]
    by (cases pw) (auto simp: wf_credentials_def opt_str_def)
  ultimately show ?thesis using Some assms(2) parse_host_and_port_text [OF assms(1,3)]
    by (simp add: parse_authority_def credentials_text_def opt_str_def wf_credentials_def)
qed

lemma parse_path_wf: "wf_path (Some p) \<Longrightarrow> parse_path p = Inr (Some p)"
proof -
  assume wf: "wf_path (Some p)"
  then have "strip_slashes p = p"
    by (cases p rule: rev_cases) (auto simp: wf_path_def strip_slashes_def)
  with wf show ?thesis by (simp add: parse_path_def wf_path_def)
qed

section \<open>The round trip\<close>

lemma find_scheme:
  assumes "rtsp_url_scheme_str s = Some t"
  shows "find (\<lambda>(s, p, y). has_prefix (t @ r) y) rtsp_url_scheme_map =
    Some (s, rtsp_url_scheme_default_port s, t)"
  using assms by (cases s) (auto simp: rtsp_url_scheme_map_def rtsp_url_scheme_str_def
      rtsp_url_scheme_default_port_def has_prefix_def)

lemma scheme_str_cases:
  "rtsp_url_scheme_str s = None \<longleftrightarrow> s = RTSP_URL_SCHEME_UNKNOWN"
  by (cases s) (simp_all add: rtsp_url_scheme_map_def rtsp_url_scheme_str_def)

lemma scheme_port_pos: "s \<noteq> RTSP_URL_SCHEME_UNKNOWN \<Longrightarrow> rtsp_url_scheme_default_port s \<noteq> 0"
  by (cases s) (simp_all add: rtsp_url_scheme_map_def rtsp_url_scheme_default_port_def
      RTSP_DEFAULT_PORT_def RTSPS_DEFAULT_PORT_def)

lemma parse_internal_split:
  assumes "rtsp_url_scheme_str s = Some t" "a \<noteq> []" "CHR ''/'' \<notin> set a" "wf_path pth"
    and "q = path_text pth \<or> pth = None \<and> q = ''/''" "length (t @ a @ q) < PATH_MAX"
  shows "rtsp_url_parse_internal (Some (t @ a @ q)) =
    bindr (parse_authority a) (\<lambda>(u, pw, h, p).
      Inr \<lparr>up_scheme = s, up_username = u, up_password = pw, up_host = h,
           up_port = (if p = 0 then rtsp_url_scheme_default_port s else p),
           up_port_explicit = (p \<noteq> 0), up_path = pth\<rparr>)"
proof -
  have t: "t \<noteq> []" using assms(1)
    by (cases s) (auto simp: rtsp_url_scheme_map_def rtsp_url_scheme_str_def)
  have hd: "hd (a @ q) \<noteq> CHR ''/''"
    using assms(2,3) by (cases a) auto
  have "q = [] \<and> opt_str pth = [] \<or> q = CHR ''/'' # opt_str pth"
    using assms(5) by (cases pth) (auto simp: path_text_def opt_str_def)
  then have tok: "strtok_r {CHR ''/''} (a @ q) = (Some a, opt_str pth)"
    using strtok_r_token [OF assms(2), of "{CHR ''/''}"] strtok_r_last [OF assms(2), of "{CHR ''/''}"]
      assms(3) by (elim disjE) simp_all
  have pathtok: "(case strtok_r {} (opt_str pth) of (None, _) \<Rightarrow> Inr None | (Some q, _) \<Rightarrow> parse_path q) =
     Inr pth"
    using assms(4) parse_path_wf strtok_r_last [of "opt_str pth" "{}"]
    by (cases pth) (auto simp: opt_str_def wf_path_def)
  show ?thesis
    using t assms(2,6) hd
    by (simp add: rtsp_url_parse_internal_def find_scheme [OF assms(1)] tok pathtok
        cong: bindr_cong)
qed

lemma parse_internal_text:
  assumes "rtsp_url_scheme_str s = Some t" "wf_host h" "wf_credentials u pw" "wf_path pth"
    and "e \<longrightarrow> p \<noteq> 0" "q = path_text pth \<or> pth = None \<and> q = ''/''"
    and "length (t @ (credentials_text u pw @ host_text h @ full_port_text p e) @ q) < PATH_MAX"
  shows "rtsp_url_parse_internal (Some (t @ (credentials_text u pw @ host_text h @ full_port_text p e) @ q)) =
    Inr \<lparr>up_scheme = s, up_username = u, up_password = pw, up_host = h,
         up_port = (if e then p else rtsp_url_scheme_default_port s), up_port_explicit = e,
         up_path = pth\<rparr>"
proof -
  let ?a = "credentials_text u pw @ host_text h @ full_port_text p e"
  have slash: "CHR ''/'' \<notin> set ?a"
    using host_port_no_at(2) [OF assms(2)] assms(3)
    by (cases u; cases pw) (auto simp: credentials_text_def wf_credentials_def opt_str_def)
  have ne: "?a \<noteq> []" using assms(2) by (auto simp: host_text_def wf_host_def split: if_splits)
  show ?thesis
    unfolding parse_internal_split [OF assms(1) ne slash assms(4,6,7)] parse_authority_text [OF assms(2,3,5)]
    using assms(5) by auto
qed

lemma url_print_parse:
  assumes "wf_url is_ip u" "url_port_explicit u \<longrightarrow> unat (url_port u) < 10000"
    and "rtsp_url_to_str u = Inr t" "length t < PATH_MAX"
  shows "rtsp_url_parse is_ip (Some t) = Inr u"
proof -
  obtain h where h: "url_host u = Some h" "wf_host h"
    "url_resolved_host u = (if is_ip h then Some h else None)"
    using assms(1) by (auto simp: wf_url_def)
  obtain s where s: "rtsp_url_scheme_str (url_scheme u) = Some s"
    using assms(1) scheme_str_cases by (fastforce simp: wf_url_def)
  have t: "t = s @ (credentials_text (url_user u) (url_pass u) @ host_text h @
           port_text (url_port u) (url_port_explicit u)) @ path_text (url_path u)"
    using rtsp_url_to_str_eq [OF h(1) s] assms(3) by simp
  with port_text_short [OF assms(2)] parse_internal_text [OF s h(2), of "url_user u" "url_pass u"
      "url_path u" "url_port_explicit u" "url_port u"] assms(1,4) h
  show ?thesis
    by (simp add: rtsp_url_parse_def is_valid_ipv4_or_ipv6_def wf_url_def) 
qed

section \<open>What the parser accepts is well-formed\<close>

lemma strchr_cutD:
  assumes "strchr_cut c s = (a, b)"
  shows "c \<notin> set a" "s = (case b of None \<Rightarrow> a | Some r \<Rightarrow> a @ c # r)"
proof -
  show "c \<notin> set a" using assms by (auto simp: strchr_cut_def dest: set_takeWhileD)
  show "s = (case b of None \<Rightarrow> a | Some r \<Rightarrow> a @ c # r)"
  proof (cases "dropWhile (\<lambda>x. x \<noteq> c) s")
    case Nil
    then have "takeWhile (\<lambda>x. x \<noteq> c) s = s" by (metis append_Nil2 takeWhile_dropWhile_id)
    with assms Nil show ?thesis by (auto simp: strchr_cut_def)
  next
    case (Cons d r)
    then have "d = c" using hd_dropWhile [of "\<lambda>x. x \<noteq> c" s] by simp
    with Cons have "takeWhile (\<lambda>x. x \<noteq> c) s @ c # r = s" by (metis takeWhile_dropWhile_id)
    with assms Cons show ?thesis by (auto simp: strchr_cut_def)
  qed
qed

lemma strrchr_cutD:
  assumes "strrchr_cut c s = (a, Some b)"
  shows "c \<notin> set b" "s = a @ c # b"
  using assms strchr_cutD [of c "rev s"]
  by (auto simp: strrchr_cut_def rev_swap split: prod.splits option.splits)

lemma strtok_rD:
  assumes "strtok_r d s = (Some t, r)"
  shows "t \<noteq> []" "set t \<inter> d = {}"
proof -
  let ?s = "dropWhile (\<lambda>c. c \<in> d) s"
  have t: "t = takeWhile (\<lambda>c. c \<notin> d) ?s" and ne: "?s \<noteq> []"
    using assms by (auto simp: strtok_r_def Let_def split: if_splits)
  have "hd ?s \<notin> d" using hd_dropWhile [OF ne] by simp
  then show "t \<noteq> []" using t ne by (cases ?s) auto
  show "set t \<inter> d = {}" using t by (auto dest: set_takeWhileD)
qed

lemma split_host_port_wf:
  assumes "split_host_port s = Inr (v6, h, p)" "\<forall>c \<in> set h. if v6 then is_ipv6_char c else is_host_char c"
  shows "wf_host h"
proof -
  have ne: "h \<noteq> []" using assms(1)
    by (auto simp: split_host_port_def split: list.splits if_splits prod.splits option.splits)
  have colon: "\<not> is_host_char (CHR '':'')"
    by (simp add: is_host_char_def isalnum_def is_digit_def is_upper_def is_lower_def)
  have sub: "is_host_char c" if "is_ipv6_char c" "c \<noteq> CHR '':''" for c
    using that by (auto simp: is_host_char_def is_ipv6_char_def isxdigit_def isalnum_def
        is_upper_def is_lower_def)
  show ?thesis
  proof (cases v6)
    case True
    with assms(2) have v6: "\<forall>c \<in> set h. is_ipv6_char c" by simp
    then have "CHR '':'' \<notin> set h \<Longrightarrow> \<forall>c \<in> set h. is_host_char c" using sub by metis
    with v6 ne show ?thesis by (simp add: wf_host_def)
  next
    case False
    with assms(2) have "\<forall>c \<in> set h. is_host_char c" by simp
    with ne colon show ?thesis by (auto simp: wf_host_def)
  qed
qed

lemma parse_host_and_port_wf: "parse_host_and_port s = Inr (h, p) \<Longrightarrow> wf_host h"
  using split_host_port_wf
  by (fastforce simp: parse_host_and_port_def bindr_Inr_iff split: if_splits)

lemma parse_authority_wf:
  assumes "parse_authority s = Inr (u, pw, h, p)" "CHR ''/'' \<notin> set s"
  shows "wf_host h" "wf_credentials u pw"
proof -
  obtain up hp where cut: "strrchr_cut (CHR ''@'') s = (up, hp)" by fastforce
  show "wf_host h" using assms(1) parse_host_and_port_wf
    by (auto simp: parse_authority_def bindr_Inr_iff split: prod.splits option.splits if_splits)
  show "wf_credentials u pw"
  proof (cases hp)
    case None
    with assms(1) cut show ?thesis
      by (auto simp: parse_authority_def bindr_Inr_iff wf_credentials_def)
  next
    case (Some hpt)
    obtain un pwd where cut2: "strchr_cut (CHR '':'') up = (un, pwd)" by fastforce
    from assms(1) cut Some cut2 have "u = Some un" "pw = pwd" "un \<noteq> []"
      by (auto simp: parse_authority_def bindr_Inr_iff split: if_splits)
    moreover have "CHR ''/'' \<notin> set up" using strrchr_cutD(2) [of "CHR ''@''" s up hpt] cut Some assms(2)
      by auto
    ultimately show ?thesis using strchr_cutD [OF cut2]
      by (auto simp: wf_credentials_def opt_str_def split: option.splits)
  qed
qed

lemma parse_path_result_wf: "parse_path s = Inr q \<Longrightarrow> wf_path q"
proof -
  assume a: "parse_path s = Inr q"
  show ?thesis
  proof (cases q)
    case None
    then show ?thesis by (simp add: wf_path_def)
  next
    case (Some p)
    with a have p: "p = strip_slashes s" "p \<noteq> []" "length s < PATH_MAX"
      "\<forall>c \<in> set p. is_valid_rtsp_path_char c"
      by (auto simp: parse_path_def Let_def split: if_splits)
    have "dropWhile (\<lambda>c. c = CHR ''/'') (rev s) \<noteq> []" using p(1,2) by (auto simp: strip_slashes_def)
    from hd_dropWhile [OF this] have "last p \<noteq> CHR ''/''"
      using p(1,2) by (simp add: strip_slashes_def last_rev)
    moreover have "length p \<le> length s"
      using p(1) length_dropWhile_le [of _ "rev s"] by (simp add: strip_slashes_def)
    ultimately show ?thesis using p Some by (simp add: wf_path_def)
  qed
qed

lemma find_schemeD:
  assumes "find P rtsp_url_scheme_map = Some (s, dp, t)"
  shows "s \<noteq> RTSP_URL_SCHEME_UNKNOWN" "dp = rtsp_url_scheme_default_port s"
  using assms by (auto simp: rtsp_url_scheme_map_def rtsp_url_scheme_default_port_def split: if_splits)

lemma rtsp_url_parse_internal_wf:
  assumes "rtsp_url_parse_internal s = Inr u"
  shows "up_scheme u \<noteq> RTSP_URL_SCHEME_UNKNOWN" "wf_host (up_host u)"
    "wf_credentials (up_username u) (up_password u)" "wf_path (up_path u)" "up_port u \<noteq> 0"
    "\<not> up_port_explicit u \<longrightarrow> up_port u = rtsp_url_scheme_default_port (up_scheme u)"
proof -
  obtain sch dp t p temp un pw h port pth where f:
      "find (\<lambda>(s', p, t). has_prefix (the s) t) rtsp_url_scheme_map = Some (sch, dp, t)"
      "strtok_r {CHR ''/''} (drop (length t) (the s)) = (Some p, temp)"
      "parse_authority p = Inr (un, pw, h, port)"
      "(case strtok_r {} temp of (None, _) \<Rightarrow> Inr None | (Some pth, _) \<Rightarrow> parse_path pth) = Inr pth"
      "u = \<lparr>up_scheme = sch, up_username = un, up_password = pw, up_host = h,
             up_port = (if port = 0 then dp else port), up_port_explicit = (port \<noteq> 0), up_path = pth\<rparr>"
    using assms
    by (auto simp: rtsp_url_parse_internal_def bindr_Inr_iff Let_def if_Inl_iff
        split: option.splits prod.splits split del: if_split)
  have "CHR ''/'' \<notin> set p" using strtok_rD(2) [OF f(2)] by auto
  note auth = parse_authority_wf [OF f(3) this]
  have "wf_path None" by (simp add: wf_path_def)
  then have "wf_path pth" using f(4) parse_path_result_wf by (auto split: prod.splits option.splits)
  then show "up_scheme u \<noteq> RTSP_URL_SCHEME_UNKNOWN" "wf_host (up_host u)"
    "wf_credentials (up_username u) (up_password u)" "wf_path (up_path u)" "up_port u \<noteq> 0"
    "\<not> up_port_explicit u \<longrightarrow> up_port u = rtsp_url_scheme_default_port (up_scheme u)"
    using auth find_schemeD [OF f(1)] scheme_port_pos by (auto simp: f(5))
qed

lemma rtsp_url_parse_wf:
  assumes "rtsp_url_parse is_ip s = Inr u" shows "wf_url is_ip u"
  using assms rtsp_url_parse_internal_wf [of s]
  by (auto simp: rtsp_url_parse_def bindr_Inr_iff wf_url_def is_valid_ipv4_or_ipv6_def)

section \<open>Ports\<close>

lemma show_nat_take: "1 \<le> k \<Longrightarrow> 10 ^ k \<le> n \<Longrightarrow> n < 10 ^ (k + 1) \<Longrightarrow> take k (show_nat n) = show_nat (n div 10)"
proof -
  assume k: "1 \<le> k" "10 ^ k \<le> n" "n < 10 ^ (k + 1)"
  then have "10 ^ 1 \<le> n" using power_increasing [of 1 k "10::nat"] by linarith
  then have s: "show_nat n = show_nat (n div 10) @ [digit_char (n mod 10)]"
    by (subst show_nat.simps) simp
  have "length (show_nat n) \<le> k + 1" "\<not> length (show_nat n) \<le> k"
    using k show_nat_length [of "k + 1" n] show_nat_length [of k n] by simp_all
  then have "length (show_nat (n div 10)) = k" using s by simp
  then show ?thesis using s by simp
qed

lemma rtsp_url_to_str_long_port:
  assumes "url_port_explicit u" "10000 \<le> unat (url_port u)"
  shows "rtsp_url_to_str u = rtsp_url_to_str (u\<lparr>url_port := url_port u div 10\<rparr>)"
proof -
  let ?n = "unat (url_port u)"
  have n: "?n < 65536" using unsigned_less [where 'a = nat and w = "url_port u"] by simp
  then have "take 4 (show_nat ?n) = show_nat (?n div 10)"
    using assms(2) show_nat_take [of 4 ?n] by simp
  moreover have "take 4 (show_nat (?n div 10)) = show_nat (?n div 10)"
    using n show_nat_length [of 4 "?n div 10"] by simp
  moreover have "unat (url_port u div 10) = ?n div 10" by (simp add: unat_div)
  moreover have "url_port u \<noteq> 0" "url_port u div 10 \<noteq> 0"
    using assms(2) calculation(3) by (auto simp flip: unat_gt_0)
  ultimately have "port_text (url_port u div 10) True = port_text (url_port u) True"
    by (simp add: port_text_def)
  then show ?thesis using assms(1)
    by (cases "url_host u"; cases "rtsp_url_scheme_str (url_scheme u)")
      (simp_all add: rtsp_url_to_str_def rtsp_url_to_str_internal_def)
qed

section \<open>Printing never lengthens\<close>

lemma digit_in_dval: "digit_in b c \<Longrightarrow> dval c < b"
  by (auto simp: digit_in_def dval_def split: option.splits)

lemma parse_digits_less: "0 < b \<Longrightarrow> \<forall>c \<in> set s. digit_in b c \<Longrightarrow> parse_digits b s < b ^ length s"
proof (induction s rule: rev_induct)
  case Nil
  then show ?case by (simp add: parse_digits_def)
next
  case (snoc c s)
  then have "parse_digits b s < b ^ length s" "dval c < b" by (simp_all add: digit_in_dval)
  then have "parse_digits b s * b + dval c < (parse_digits b s + 1) * b" by simp
  also have "\<dots> \<le> b ^ length s * b"
    using \<open>parse_digits b s < b ^ length s\<close> by (intro mult_right_mono) simp_all
  finally show ?case by (simp add: parse_digits_snoc mult.commute)
qed

lemma length_scan_sign: "length (snd (scan_sign s)) \<le> length s"
  by (cases s) (auto simp: scan_sign_def)

lemma scan_number_10:
  assumes "scan_number 10 s = Some (neg, n, r)"
  shows "n < 10 ^ length s"
proof -
  define b where "b = snd (scan_sign (dropWhile isspace s))"
  have "skip_0x 10 x = x" for x by (auto simp: skip_0x_def split: list.splits)
  then have "n = parse_digits 10 (takeWhile (digit_in 10) b)"
    using assms by (auto simp: scan_number_def b_def Let_def split: prod.splits if_splits)
  then have "n < 10 ^ length (takeWhile (digit_in 10) b)"
    using parse_digits_less [of 10 "takeWhile (digit_in 10) b"] by (auto dest: set_takeWhileD)
  also have "length (takeWhile (digit_in 10) b) \<le> length s"
    using length_takeWhile_le [of "digit_in 10" b] length_scan_sign [of "dropWhile isspace s"]
      length_dropWhile_le [of isspace s] by (simp add: b_def)
  then have "(10::nat) ^ length (takeWhile (digit_in 10) b) \<le> 10 ^ length s"
    by (simp add: power_increasing)
  finally show ?thesis .
qed

lemma port_text_length:
  assumes "parse_port ps = Inr p"
  shows "length (port_text p (p \<noteq> 0)) \<le> (case ps of None \<Rightarrow> 0 | Some s \<Rightarrow> 1 + length s)"
proof (cases "p = 0")
  case False
  with assms obtain s where s: "ps = Some s" "s \<noteq> []"
    by (auto simp: parse_port_def split: option.splits if_splits)
  with assms False obtain neg n r where n: "scan_number 10 s = Some (neg, n, r)"
    by (cases "scan_number 10 s") (auto simp: parse_port_def strtol10_def)
  define v where "v = max LONG_MIN (min LONG_MAX (if neg then - int n else int n))"
  have "strtol10 s = (v, r)" using n by (simp add: strtol10_def v_def)
  with assms s have v: "0 \<le> v" "v \<le> 65535" "p = word_of_int v"
    by (simp_all add: parse_port_def if_Inl_iff split: if_splits)
  have "v \<le> int n" by (auto simp: v_def LONG_MIN_def)
  moreover have "unat p = nat v" using v(1,2) 
    by (simp add: v(3) unsigned_of_int take_bit_int_eq_self)
  ultimately have "unat p \<le> n" by simp
  then have "unat p < 10 ^ length s" using scan_number_10 [OF n] by simp
  then have "length (show_nat (unat p)) \<le> length s" using show_nat_length s(2) by simp
  then show ?thesis using s False by (simp add: port_text_def)
qed (simp add: port_text_def)

lemma parse_host_and_port_length:
  assumes "parse_host_and_port s = Inr (h, p)"
  shows "length (host_text h @ port_text p (p \<noteq> 0)) \<le> length s"
proof -
  from assms obtain v6 ps where a: "split_host_port s = Inr (v6, h, ps)" "parse_port ps = Inr p"
    by (auto simp: parse_host_and_port_def bindr_Inr_iff split: if_splits)
  have "length (host_text h) + (case ps of None \<Rightarrow> 0 | Some q \<Rightarrow> 1 + length q) \<le> length s"
  proof (cases s)
    case Nil
    with a(1) show ?thesis by (simp add: split_host_port_def)
  next
    case (Cons c r)
    show ?thesis
    proof (cases "c = CHR ''[''")
      case True
      obtain x y where cut: "strchr_cut (CHR '']'') r = (x, y)" by fastforce
      from a(1) Cons True cut have "h = x \<and> y = (case ps of None \<Rightarrow> Some [] | Some q \<Rightarrow> Some (CHR '':'' # q))"
        by (auto simp: split_host_port_def split: option.splits if_splits list.splits)
      with strchr_cutD(2) [OF cut] Cons show ?thesis by (auto simp: host_text_def split: option.splits)
    next
      case False
      obtain x y where cut: "strchr_cut (CHR '':'') s = (x, y)" by fastforce
      from a(1) Cons False cut have "h = x" "ps = y"
        by (auto simp: split_host_port_def split: if_splits)
      with strchr_cutD [OF cut] show ?thesis by (auto simp: host_text_def split: option.splits)
    qed
  qed
  with port_text_length [OF a(2)] show ?thesis by simp
qed

lemma parse_authority_length:
  assumes "parse_authority s = Inr (u, pw, h, p)"
  shows "length (credentials_text u pw @ host_text h @ port_text p (p \<noteq> 0)) \<le> length s"
proof -
  obtain up hp where cut: "strrchr_cut (CHR ''@'') s = (up, hp)" by fastforce
  show ?thesis
  proof (cases hp)
    case None
    with assms cut parse_host_and_port_length [of s h p] show ?thesis
      by (auto simp: parse_authority_def bindr_Inr_iff credentials_text_def opt_str_def)
  next
    case (Some hpt)
    obtain un pwd where cut2: "strchr_cut (CHR '':'') up = (un, pwd)" by fastforce
    from assms cut Some cut2 have r: "u = Some un" "pw = pwd" "parse_host_and_port hpt = Inr (h, p)"
      by (auto simp: parse_authority_def bindr_Inr_iff split: if_splits)
    have "length (credentials_text u pw) = length up + 1"
      using strchr_cutD(2) [OF cut2] r
      by (auto simp: credentials_text_def opt_str_def split: option.splits)
    with parse_host_and_port_length [OF r(3)] strrchr_cutD(2) [of "CHR ''@''" s up hpt] cut Some
    show ?thesis by simp
  qed
qed

lemma strtok_r_length:
  assumes "strtok_r d s = (Some t, r)"
  shows "length t + (if r = [] then 0 else 1 + length r) \<le> length s"
proof -
  let ?s = "dropWhile (\<lambda>c. c \<in> d) s"
  have t: "t = takeWhile (\<lambda>c. c \<notin> d) ?s" "r = drop 1 (dropWhile (\<lambda>c. c \<notin> d) ?s)"
    using assms by (auto simp: strtok_r_def Let_def split: if_splits)
  have "length t + length (dropWhile (\<lambda>c. c \<notin> d) ?s) = length ?s"
    unfolding t(1) by (metis length_append takeWhile_dropWhile_id)
  then show ?thesis using t(2) length_dropWhile_le [of "\<lambda>c. c \<in> d" s] by auto
qed

lemma parse_path_length: "parse_path s = Inr q \<Longrightarrow> length (path_text q) \<le> 1 + length s"
proof -
  assume a: "parse_path s = Inr q"
  have "length (strip_slashes s) \<le> length s"
    using length_dropWhile_le [of _ "rev s"] by (simp add: strip_slashes_def)
  with a show ?thesis
    by (auto simp: parse_path_def Let_def path_text_def opt_str_def split: if_splits)
qed

lemma find_scheme_prefix:
  assumes "find (\<lambda>(s, p, t). has_prefix url t) rtsp_url_scheme_map = Some (s, dp, t)"
  shows "rtsp_url_scheme_str s = Some t" "has_prefix url t"
  using assms by (auto simp: rtsp_url_scheme_map_def rtsp_url_scheme_str_def split: if_splits)

lemma rtsp_url_parse_internal_length:
  assumes "rtsp_url_parse_internal (Some url) = Inr u"
  shows "\<exists>t. rtsp_url_scheme_str (up_scheme u) = Some t \<and>
    length (t @ (credentials_text (up_username u) (up_password u) @ host_text (up_host u) @
      port_text (up_port u) (up_port_explicit u)) @ path_text (up_path u)) < PATH_MAX"
proof -
  obtain sch dp t p temp un pw h port pth where f:
      "find (\<lambda>(s', p, t). has_prefix url t) rtsp_url_scheme_map = Some (sch, dp, t)"
      "strtok_r {CHR ''/''} (drop (length t) url) = (Some p, temp)"
      "parse_authority p = Inr (un, pw, h, port)"
      "(case strtok_r {} temp of (None, _) \<Rightarrow> Inr None | (Some pth, _) \<Rightarrow> parse_path pth) = Inr pth"
      "u = \<lparr>up_scheme = sch, up_username = un, up_password = pw, up_host = h,
             up_port = (if port = 0 then dp else port), up_port_explicit = (port \<noteq> 0), up_path = pth\<rparr>"
      "length url < PATH_MAX"
    using assms
    by (auto simp: rtsp_url_parse_internal_def bindr_Inr_iff Let_def if_Inl_iff
        split: option.splits prod.splits split del: if_split)
  have "length (path_text pth) \<le> (if temp = [] then 0 else 1 + length temp)"
  proof (cases "temp = []")
    case True
    with f(4) show ?thesis by (simp add: path_text_def opt_str_def)
  next
    case False
    then have "strtok_r {} temp = (Some temp, [])" by (rule strtok_r_last) simp
    with f(4) False parse_path_length [of temp pth] show ?thesis by simp
  qed
  moreover have "length t \<le> length url"
    using find_scheme_prefix(2) [OF f(1)] by (metis has_prefix_def length_take min.cobounded1)
  moreover have "port_text (if port = 0 then dp else port) (port \<noteq> 0) = port_text port (port \<noteq> 0)"
    by (simp add: port_text_def)
  ultimately show ?thesis
    using strtok_r_length [OF f(2)] parse_authority_length [OF f(3)] find_scheme_prefix(1) [OF f(1)] f(6)
    by (simp add: f(5))
qed

lemma url_to_str_length:
  assumes "rtsp_url_parse is_ip s = Inr u" "rtsp_url_to_str u = Inr t"
  shows "length t < PATH_MAX"
proof -
  obtain url where s: "s = Some url" using assms(1)
    by (cases s) (auto simp: rtsp_url_parse_def rtsp_url_parse_internal_def)
  obtain v where v: "rtsp_url_parse_internal (Some url) = Inr v" using assms(1) s
    by (auto simp: rtsp_url_parse_def bindr_Inr_iff)
  then have u: "url_scheme u = up_scheme v" "url_user u = up_username v" "url_pass u = up_password v"
    "url_host u = Some (up_host v)" "url_port u = up_port v" "url_port_explicit u = up_port_explicit v"
    "url_path u = up_path v"
    using assms(1) s by (auto simp: rtsp_url_parse_def)
  from rtsp_url_parse_internal_length [OF v] obtain t' where t': "rtsp_url_scheme_str (up_scheme v) = Some t'"
    "length (t' @ (credentials_text (up_username v) (up_password v) @ host_text (up_host v) @
      port_text (up_port v) (up_port_explicit v)) @ path_text (up_path v)) < PATH_MAX" by blast
  show ?thesis using rtsp_url_to_str_eq [of u "up_host v" t'] u t' assms(2) by simp
qed

section \<open>Properties\<close>

lemma wf_url_prints: "wf_url is_ip u \<Longrightarrow> \<exists>t. rtsp_url_to_str u = Inr t"
proof -
  assume "wf_url is_ip u"
  then obtain h t where "url_host u = Some h" "rtsp_url_scheme_str (url_scheme u) = Some t"
    using scheme_str_cases by (fastforce simp: wf_url_def)
  from rtsp_url_to_str_eq [OF this] show ?thesis by blast
qed

lemma wf_url_strip: "wf_url is_ip u \<Longrightarrow> wf_url is_ip (u\<lparr>url_user := None, url_pass := None\<rparr>)"
  by (auto simp: wf_url_def wf_credentials_def)

lemma url_strip_length:
  assumes "wf_url is_ip u" "rtsp_url_to_str u = Inr t"
    and "rtsp_url_to_str (u\<lparr>url_user := None, url_pass := None\<rparr>) = Inr t'"
  shows "length t' \<le> length t"
proof -
  obtain h s where h: "url_host u = Some h" "rtsp_url_scheme_str (url_scheme u) = Some s"
    using assms(1) scheme_str_cases by (fastforce simp: wf_url_def)
  then show ?thesis
    using assms(2,3) rtsp_url_to_str_eq [of u h s]
      rtsp_url_to_str_eq [of "u\<lparr>url_user := None, url_pass := None\<rparr>" h s]
    by (auto simp: credentials_text_def opt_str_def)
qed

lemmas url_eval =
  rtsp_url_parse_def rtsp_url_parse_internal_def rtsp_url_scheme_map_def has_prefix_def strtok_r_def
  parse_authority_def strrchr_cut_def strchr_cut_def parse_host_and_port_def split_host_port_def
  parse_port_def strtol10_def scan_number_def scan_sign_def skip_0x_def parse_path_def
  strip_slashes_def is_valid_ipv4_or_ipv6_def PATH_MAX_def is_host_char_def
  is_valid_rtsp_path_char_def isalnum_def is_digit_def is_lower_def is_upper_def isspace_def
  is_ipv6_char_def isxdigit_def digit_in_def digit_val_def parse_digits_def dval_def LONG_MAX_def
  LONG_MIN_def RTSP_DEFAULT_PORT_def RTSPS_DEFAULT_PORT_def

lemma example_url:
  "rtsp_url_parse (\<lambda>h. False) (Some ''rtsp://me:pw@cam:8554/live/'') =
     Inr \<lparr>url_scheme = RTSP_URL_SCHEME_TCP, url_user = Some ''me'', url_pass = Some ''pw'',
      url_host = Some ''cam'', url_resolved_host = None, url_port = 8554, url_port_explicit = True,
      url_path = Some ''live''\<rparr>"
  by (simp add: url_eval)


lemma url_long_port_print_parse:
  assumes "wf_url is_ip u" "url_port_explicit u" "10000 \<le> unat (url_port u)"
    and "rtsp_url_to_str u = Inr t" "length t < PATH_MAX"
  shows "rtsp_url_parse is_ip (Some t) = Inr (u\<lparr>url_port := url_port u div 10\<rparr>)"
proof -
  let ?v = "u\<lparr>url_port := url_port u div 10\<rparr>"
  have n: "unat (url_port u) < 65536" "unat (url_port ?v) = unat (url_port u) div 10"
    using unsigned_less [where 'a = nat and w = "url_port u"] by (simp_all add: unat_div)
  then have v: "url_port ?v \<noteq> 0" "unat (url_port ?v) < 10000" using assms(3) by (auto simp flip: unat_gt_0)
  with assms(1,2) have wf: "wf_url is_ip ?v" by (simp add: wf_url_def)
  have "rtsp_url_to_str ?v = Inr t" using rtsp_url_to_str_long_port [OF assms(2,3)] assms(4) by simp
  from url_print_parse [OF wf _ this assms(5)] v(2) show ?thesis by blast
qed

text \<open>
  C23: Every URL that the parser accepts denotes a well-formed object: a known scheme, a nonempty
  host of admissible characters, a user name without colon or slash, a nonzero port that is the
  default one when it is not explicit, and a path without a trailing slash.
\<close>

theorem url_parse_wf:
  assumes "rtsp_url_parse is_ip s = Inr u" shows "wf_url is_ip u"
  using assms by (rule rtsp_url_parse_wf)


lemma url_parse_wf_witness:
  "\<exists>u. rtsp_url_parse (\<lambda>h. False) (Some ''rtsp://me:pw@cam:8554/live/'') = Inr u \<and>
     wf_url (\<lambda>h. False) u"
  using url_parse_wf [OF example_url] example_url by blast

text \<open>
  C22: Printing a parsed URL gives a normal form: it parses back to the same object, for every
  accepted URL whose explicit port, if any, has at most four digits.
\<close>

theorem url_normal_form:
  assumes "rtsp_url_parse is_ip s = Inr u" "url_port_explicit u \<Longrightarrow> unat (url_port u) < 10000"
  shows "\<exists>t. rtsp_url_to_str u = Inr t \<and> rtsp_url_parse is_ip (Some t) = Inr u"
proof -
  have wf: "wf_url is_ip u" by (rule rtsp_url_parse_wf [OF assms(1)])
  then obtain t where t: "rtsp_url_to_str u = Inr t" using wf_url_prints by blast
  with url_print_parse [OF wf _ t url_to_str_length [OF assms(1) t]] assms(2) show ?thesis by blast
qed

lemma url_normal_form_witness:
  "\<exists>u t. rtsp_url_parse (\<lambda>h. False) (Some ''rtsp://me:pw@cam:8554/live/'') = Inr u \<and>
     unat (url_port u) < 10000 \<and> rtsp_url_to_str u = Inr t \<and>
     rtsp_url_parse (\<lambda>h. False) (Some t) = Inr u"
  using url_normal_form [OF example_url] example_url by fastforce

text \<open>
  C29: An explicit port of five digits is printed without its last digit, so the printed URL
  parses to a URL of another port (\<open>char port_str[6]\<close> has no room for the colon).
\<close>

theorem url_five_digit_port_truncated:
  assumes "rtsp_url_parse is_ip s = Inr u" "url_port_explicit u" "10000 \<le> unat (url_port u)"
  shows "\<exists>t. rtsp_url_to_str u = Inr t \<and>
    rtsp_url_parse is_ip (Some t) = Inr (u\<lparr>url_port := url_port u div 10\<rparr>)"
proof -
  have wf: "wf_url is_ip u" by (rule rtsp_url_parse_wf [OF assms(1)])
  then obtain t where t: "rtsp_url_to_str u = Inr t" using wf_url_prints by blast
  with url_long_port_print_parse [OF wf assms(2,3) t url_to_str_length [OF assms(1) t]]
  show ?thesis by blast
qed

lemma example_url_long_port:
  "rtsp_url_parse (\<lambda>h. False) (Some ''rtsp://cam:18554'') =
     Inr \<lparr>url_scheme = RTSP_URL_SCHEME_TCP, url_user = None, url_pass = None,
      url_host = Some ''cam'', url_resolved_host = None, url_port = 18554, url_port_explicit = True,
      url_path = None\<rparr>"
  by (simp add: url_eval)

lemma url_five_digit_port_truncated_witness:
  "\<exists>u t. rtsp_url_parse (\<lambda>h. False) (Some ''rtsp://cam:18554'') = Inr u \<and> url_port u = 18554 \<and>
     rtsp_url_to_str u = Inr t \<and>
     rtsp_url_parse (\<lambda>h. False) (Some t) = Inr (u\<lparr>url_port := 1855\<rparr>)"
  using url_five_digit_port_truncated [OF example_url_long_port] example_url_long_port by simp

text \<open>
  C26: Stripping the credentials of any URL that the parser accepts succeeds and gives a URL that
  parses to the same object without user name and password; only an explicit port of five digits
  loses its last digit on the way, as in every printed URL.
\<close>

theorem url_strip_credentials:
  assumes "rtsp_url_parse is_ip s = Inr u"
  shows "\<exists>t. rtsp_url_strip_credentials is_ip s = Inr t \<and>
    rtsp_url_parse is_ip (Some t) =
      Inr (u\<lparr>url_user := None, url_pass := None,
             url_port := (if url_port_explicit u \<and> 10000 \<le> unat (url_port u)
                          then url_port u div 10 else url_port u)\<rparr>)"
proof -
  let ?v = "u\<lparr>url_user := None, url_pass := None\<rparr>"
  have wf: "wf_url is_ip u" by (rule rtsp_url_parse_wf [OF assms])
  obtain t where t: "rtsp_url_to_str u = Inr t" using wf wf_url_prints by blast
  obtain t' where t': "rtsp_url_to_str ?v = Inr t'"
    using wf_url_strip [OF wf] wf_url_prints by blast
  have len: "length t' < PATH_MAX"
    using url_strip_length [OF wf t t'] url_to_str_length [OF assms t] by simp
  show ?thesis
    using url_print_parse [OF wf_url_strip [OF wf] _ t' len] assms t'
      url_long_port_print_parse [OF wf_url_strip [OF wf] _ _ t' len]
    by (auto simp: rtsp_url_strip_credentials_def)
qed

lemma url_strip_credentials_witness:
  "\<exists>u t. rtsp_url_parse (\<lambda>h. False) (Some ''rtsp://me:pw@cam:8554/live/'') = Inr u \<and>
     rtsp_url_strip_credentials (\<lambda>h. False) (Some ''rtsp://me:pw@cam:8554/live/'') = Inr t \<and>
     rtsp_url_parse (\<lambda>h. False) (Some t) = Inr (u\<lparr>url_user := None, url_pass := None\<rparr>)"
  using url_strip_credentials [OF example_url] example_url by fastforce

text \<open>
  C27: The anonymised URL reveals nothing of the credentials but their lengths, and nothing of the
  path but its length and its first and last two characters: two URLs that agree on the rest have
  the same anonymised form.
\<close>

theorem url_anonymize_hides:
  assumes "rtsp_url_parse is_ip s = Inr u" "rtsp_url_parse is_ip s' = Inr v"
    and "v = u\<lparr>url_user := url_user v, url_pass := url_pass v, url_path := url_path v\<rparr>"
    and "map_option length (url_user u) = map_option length (url_user v)"
    and "map_option length (url_pass u) = map_option length (url_pass v)"
    and "map_option (\<lambda>p. (length p, if length p \<le> 4 then p else take 2 p @ drop (length p - 2) p)) (url_path u) =
         map_option (\<lambda>p. (length p, if length p \<le> 4 then p else take 2 p @ drop (length p - 2) p)) (url_path v)"
  shows "rtsp_url_anonymize is_ip s = rtsp_url_anonymize is_ip s'"
proof -
  have cred: "anonymize_field a False = anonymize_field b False"
    if "map_option length a = map_option length b" for a b
    using that by (cases a; cases b) (auto simp: anonymize_field_def anonymize_str_def)
  have str: "anonymize_str p True = anonymize_str q True"
    if "length p = length q" "(if length p \<le> 4 then p else take 2 p @ drop (length p - 2) p) =
        (if length q \<le> 4 then q else take 2 q @ drop (length q - 2) q)" for p q
    using that by (auto simp: anonymize_str_def split: if_splits)
  have "anonymize_field (url_path u) True = anonymize_field (url_path v) True"
    using assms(6) by (cases "url_path u"; cases "url_path v")
      (auto simp: anonymize_field_def intro!: arg_cong [of _ _ "map_option Some"] str)
  moreover have "u\<lparr>url_user := a, url_pass := b, url_path := c\<rparr> = v\<lparr>url_user := a, url_pass := b, url_path := c\<rparr>"
    for a b c by (subst assms(3)) simp
  ultimately show ?thesis
    using cred [OF assms(4)] cred [OF assms(5)] assms(1,2)
    by (simp add: rtsp_url_anonymize_def cong: option.case_cong)
qed

lemma example_url_other:
  "rtsp_url_parse (\<lambda>h. False) (Some ''rtsp://ab:cd@cam:8554/live'') =
     Inr \<lparr>url_scheme = RTSP_URL_SCHEME_TCP, url_user = Some ''ab'', url_pass = Some ''cd'',
      url_host = Some ''cam'', url_resolved_host = None, url_port = 8554, url_port_explicit = True,
      url_path = Some ''live''\<rparr>"
  by (simp add: url_eval)

lemma url_anonymize_hides_witness:
  "rtsp_url_anonymize (\<lambda>h. False) (Some ''rtsp://me:pw@cam:8554/live/'') =
   rtsp_url_anonymize (\<lambda>h. False) (Some ''rtsp://ab:cd@cam:8554/live'')"
  by (rule url_anonymize_hides [OF example_url example_url_other]) simp_all

end
