(* ===== verification/RtspStatus.thy ===== *)
theory RtspStatus
  imports RtspPrelude
begin

text \<open>
  The enumerations of \<open>include/rtsp/common.h\<close> with their names, the status codes of
  \<open>rtsp_internal.h\<close> and the two translations between negative errno values and status codes
  (first part of \<open>src/rtsp.c\<close>).
\<close>

section \<open>Enumerations\<close>

datatype rtsp_method_type =
  RTSP_METHOD_TYPE_UNKNOWN | RTSP_METHOD_TYPE_OPTIONS | RTSP_METHOD_TYPE_DESCRIBE
| RTSP_METHOD_TYPE_ANNOUNCE | RTSP_METHOD_TYPE_SETUP | RTSP_METHOD_TYPE_PLAY
| RTSP_METHOD_TYPE_PAUSE | RTSP_METHOD_TYPE_TEARDOWN | RTSP_METHOD_TYPE_GET_PARAMETER
| RTSP_METHOD_TYPE_SET_PARAMETER | RTSP_METHOD_TYPE_REDIRECT | RTSP_METHOD_TYPE_RECORD

datatype rtsp_delivery = RTSP_DELIVERY_MULTICAST | RTSP_DELIVERY_UNICAST

datatype rtsp_lower_transport =
  RTSP_LOWER_TRANSPORT_UDP | RTSP_LOWER_TRANSPORT_TCP | RTSP_LOWER_TRANSPORT_MUX

datatype rtsp_transport_method =
  RTSP_TRANSPORT_METHOD_UNKNOWN | RTSP_TRANSPORT_METHOD_PLAY | RTSP_TRANSPORT_METHOD_RECORD

datatype rtsp_time_format =
  RTSP_TIME_FORMAT_UNKNOWN | RTSP_TIME_FORMAT_NPT | RTSP_TIME_FORMAT_SMPTE | RTSP_TIME_FORMAT_ABSOLUTE

definition rtsp_lower_transport_str :: "rtsp_lower_transport \<Rightarrow> string" where
  "rtsp_lower_transport_str v =
     (case v of
        RTSP_LOWER_TRANSPORT_UDP \<Rightarrow> ''UDP''
      | RTSP_LOWER_TRANSPORT_TCP \<Rightarrow> ''TCP''
      | RTSP_LOWER_TRANSPORT_MUX \<Rightarrow> ''MUX'')"

definition rtsp_delivery_str :: "rtsp_delivery \<Rightarrow> string" where
  "rtsp_delivery_str v =
     (case v of RTSP_DELIVERY_MULTICAST \<Rightarrow> ''MULTICAST'' | RTSP_DELIVERY_UNICAST \<Rightarrow> ''UNICAST'')"

definition rtsp_time_format_str :: "rtsp_time_format \<Rightarrow> string" where
  "rtsp_time_format_str v =
     (case v of
        RTSP_TIME_FORMAT_UNKNOWN \<Rightarrow> ''UNKNOWN''
      | RTSP_TIME_FORMAT_NPT \<Rightarrow> ''NPT''
      | RTSP_TIME_FORMAT_SMPTE \<Rightarrow> ''SMPTE''
      | RTSP_TIME_FORMAT_ABSOLUTE \<Rightarrow> ''ABSOLUTE'')"

definition rtsp_method_type_str :: "rtsp_method_type \<Rightarrow> string" where
  "rtsp_method_type_str v =
     (case v of
        RTSP_METHOD_TYPE_OPTIONS \<Rightarrow> ''OPTIONS''
      | RTSP_METHOD_TYPE_DESCRIBE \<Rightarrow> ''DESCRIBE''
      | RTSP_METHOD_TYPE_ANNOUNCE \<Rightarrow> ''ANNOUNCE''
      | RTSP_METHOD_TYPE_SETUP \<Rightarrow> ''SETUP''
      | RTSP_METHOD_TYPE_PLAY \<Rightarrow> ''PLAY''
      | RTSP_METHOD_TYPE_PAUSE \<Rightarrow> ''PAUSE''
      | RTSP_METHOD_TYPE_TEARDOWN \<Rightarrow> ''TEARDOWN''
      | RTSP_METHOD_TYPE_GET_PARAMETER \<Rightarrow> ''GET_PARAMETER''
      | RTSP_METHOD_TYPE_SET_PARAMETER \<Rightarrow> ''SET_PARAMETER''
      | RTSP_METHOD_TYPE_REDIRECT \<Rightarrow> ''REDIRECT''
      | RTSP_METHOD_TYPE_RECORD \<Rightarrow> ''RECORD''
      | RTSP_METHOD_TYPE_UNKNOWN \<Rightarrow> ''UNKNOWN'')"

definition method_types :: "rtsp_method_type list" where
  "method_types =
     [RTSP_METHOD_TYPE_OPTIONS, RTSP_METHOD_TYPE_DESCRIBE, RTSP_METHOD_TYPE_ANNOUNCE,
      RTSP_METHOD_TYPE_SETUP, RTSP_METHOD_TYPE_PLAY, RTSP_METHOD_TYPE_PAUSE,
      RTSP_METHOD_TYPE_TEARDOWN, RTSP_METHOD_TYPE_GET_PARAMETER, RTSP_METHOD_TYPE_SET_PARAMETER,
      RTSP_METHOD_TYPE_REDIRECT, RTSP_METHOD_TYPE_RECORD]"

definition rtsp_method_type_enum :: "string option \<Rightarrow> rtsp_method_type" where
  "rtsp_method_type_enum val =
     (case val of
        None \<Rightarrow> RTSP_METHOD_TYPE_UNKNOWN
      | Some v \<Rightarrow>
          (case find (\<lambda>m. v = rtsp_method_type_str m) method_types of
             None \<Rightarrow> RTSP_METHOD_TYPE_UNKNOWN
           | Some m \<Rightarrow> m))"

lemma rtsp_method_type_enum_str [simp]: "rtsp_method_type_enum (Some (rtsp_method_type_str m)) = m"
  by (cases m) (simp_all add: rtsp_method_type_enum_def method_types_def rtsp_method_type_str_def)

lemma rtsp_method_type_enum_known:
  assumes "rtsp_method_type_enum s = m" "m \<noteq> RTSP_METHOD_TYPE_UNKNOWN"
  shows "s = Some (rtsp_method_type_str m)"
  using assms
  by (auto simp: rtsp_method_type_enum_def find_Some_iff split: option.splits)

section \<open>Status codes\<close>

definition status_table :: "(int \<times> string) list" where
  "status_table =
     [(100, ''Continue''), (200, ''OK''), (201, ''Created''), (250, ''Low On Storage Space''),
      (300, ''Multiple Choices''), (301, ''Moved Permanently''), (302, ''Moved Temporarily''),
      (303, ''See Other''), (304, ''Not Modified''), (305, ''Use Proxy''), (400, ''Bad Request''),
      (401, ''Unauthorized''), (402, ''Payment Required''), (403, ''Forbidden''),
      (404, ''Not Found''), (405, ''Method Not Allowed''), (406, ''Not Acceptable''),
      (407, ''Proxy Authentication Required''), (408, ''Request Time-out''), (410, ''Gone''),
      (411, ''Length Required''), (412, ''Precondition Failed''),
      (413, ''Request Entity Too Large''), (414, ''Request-URI Too Large''),
      (415, ''Unsupported Media Type''), (451, ''Parameter Not Understood''),
      (452, ''Conference Not Found''), (453, ''Not Enough Bandwidth''),
      (454, ''Session Not Found''), (455, ''Method Not Valid In This State''),
      (456, ''Header Field Not Valid For Resource''), (457, ''Invalid Range''),
      (458, ''Parameter Is Read-Only''), (459, ''Aggregate Operation Not Allowed''),
      (460, ''Only Aggregate Operation Allowed''), (461, ''Unsupported Transport''),
      (462, ''Destination Unreachable''), (500, ''Internal Server Error''),
      (501, ''Not Implemented''), (502, ''Bad Gateway''), (503, ''Service Unavailable''),
      (504, ''Gateway Time-out''), (505, ''RTSP Version Not Supported''),
      (551, ''Option Not Supported'')]"

definition errno_status :: "int \<Rightarrow> int" where
  "errno_status status =
     (if status = 0 then 200
      else if status = - EPROTO then 400
      else if status = - EPERM then 401
      else if status = - EACCES then 403
      else if status = - ENOENT then 404
      else if status = - ETIMEDOUT then 408
      else if status = - ENOSYS then 501
      else if status = - EBUSY \<or> status = - EAGAIN then 503
      else if status = - EPROTONOSUPPORT then 461
      else 500)"

definition rtsp_status_get :: "int \<Rightarrow> int \<times> string" where
  "rtsp_status_get status =
     (case map_of status_table status of
        Some s \<Rightarrow> (status, s)
      | None \<Rightarrow> (errno_status status, the (map_of status_table (errno_status status))))"

definition rtsp_status_to_errno :: "int \<Rightarrow> int" where
  "rtsp_status_to_errno status =
     (if status < 0 then status
      else if status = 200 then 0
      else if status = 400 then - EPROTO
      else if status = 401 then - EPERM
      else if status = 403 then - EACCES
      else if status = 404 then - ENOENT
      else if status = 408 then - ETIMEDOUT
      else if status = 501 then - ENOSYS
      else if status = 503 then - EBUSY
      else if status = 461 then - EPROTONOSUPPORT
      else - EPROTO)"

definition rtsp_status_str :: "int \<Rightarrow> string" where
  "rtsp_status_str status = snd (rtsp_status_get status)"

lemma errno_status_listed: "errno_status e \<in> fst ` set status_table"
  by (simp add: errno_status_def status_table_def)

lemma status_table_pos: "map_of status_table s = Some t \<Longrightarrow> 100 \<le> s"
  by (drule map_of_SomeD) (auto simp: status_table_def)

lemma rtsp_status_get_listed: "rtsp_status_get s \<in> set status_table"
proof (cases "map_of status_table s")
  case (Some t)
  then show ?thesis by (auto simp: rtsp_status_get_def dest: map_of_SomeD)
next
  case None
  obtain t where "map_of status_table (errno_status s) = Some t"
    using errno_status_listed [of s] by (metis map_of_eq_None_iff not_None_eq)
  with None show ?thesis by (auto simp: rtsp_status_get_def dest: map_of_SomeD)
qed

text \<open>
  C35: A failure reported as a status line is read back as the same failure by the peer, for the
  eight errno values that have a status of their own; \<open>-EAGAIN\<close> becomes \<open>-EBUSY\<close> and every other
  negative value, sent as 500, becomes \<open>-EPROTO\<close>.
\<close>

theorem status_errno_roundtrip:
  "rtsp_status_to_errno (fst (rtsp_status_get (- 1 - int n))) =
     (let e = 1 + int n in
      if e \<in> {EPROTO, EPERM, EACCES, ENOENT, ETIMEDOUT, ENOSYS, EBUSY, EPROTONOSUPPORT} then - e
      else if e = EAGAIN then - EBUSY else - EPROTO)"
proof -
  have "map_of status_table (- 1 - int n) = None"
    using status_table_pos [of "- 1 - int n"] by (cases "map_of status_table (- 1 - int n)") auto
  then have "fst (rtsp_status_get (- 1 - int n)) = errno_status (- 1 - int n)"
    by (simp add: rtsp_status_get_def)
  then show ?thesis
    by (auto simp: errno_status_def rtsp_status_to_errno_def Let_def)
qed

text \<open>
  Whatever status or negative errno it is given, \<open>rtsp_status_get\<close> returns a code of the
  status table together with the text of that code, and a listed code is returned unchanged.
\<close>

theorem status_get_listed:
  "map_of status_table (fst (rtsp_status_get s)) = Some (snd (rtsp_status_get s)) \<and>
   (fst (rtsp_status_get s) = s \<or> s \<notin> fst ` set status_table)"
proof
  have d: "distinct (map fst status_table)" by (simp add: status_table_def)
  show "map_of status_table (fst (rtsp_status_get s)) = Some (snd (rtsp_status_get s))"
    using map_of_is_SomeI [OF d, of "fst (rtsp_status_get s)" "snd (rtsp_status_get s)"]
      rtsp_status_get_listed [of s] by simp
  show "fst (rtsp_status_get s) = s \<or> s \<notin> fst ` set status_table"
    by (cases "map_of status_table s") (simp_all add: rtsp_status_get_def map_of_eq_None_iff)
qed

text \<open>\<open>404\<close> is listed and kept; \<open>-ENOSYS\<close> is not and becomes 501.\<close>

lemma status_get_listed_witness:
  "map_of status_table (fst (rtsp_status_get 404)) = Some (snd (rtsp_status_get 404)) \<and>
   fst (rtsp_status_get 404) = 404"
  using status_get_listed [of 404] by (auto simp: status_table_def)

end
