(* ===== verification/RtspMethods.thy ===== *)
theory RtspMethods
  imports RtspString RtspStatus
begin

text \<open>
  The method lists of the Allow and Public headers (\<open>rtsp_methods_write\<close>, \<open>rtsp_methods_read\<close> and
  the two headers of \<open>src/rtsp.c\<close>), and their round trip on the eleven method flags.
\<close>

text \<open>
  The eleven blocks of \<open>rtsp_methods_write\<close> and the eleven comparisons of \<open>rtsp_methods_read\<close>
  follow one table, in the order of the code: the flag of \<open>common.h\<close> and the name of
  \<open>rtsp_internal.h\<close>.
\<close>

definition method_flags :: "(32 word \<times> string) list" where
  "method_flags =
     [(0x001, ''OPTIONS''), (0x002, ''DESCRIBE''), (0x004, ''ANNOUNCE''), (0x008, ''SETUP''),
      (0x010, ''PLAY''), (0x020, ''PAUSE''), (0x040, ''TEARDOWN''), (0x080, ''GET_PARAMETER''),
      (0x100, ''SET_PARAMETER''), (0x200, ''REDIRECT''), (0x400, ''RECORD'')]"

fun methods_write_from ::
  "(32 word \<times> string) list \<Rightarrow> bool \<Rightarrow> 32 word \<Rightarrow> rtsp_string \<Rightarrow> rtsp_string result" where
  "methods_write_from [] first methods str = Inr str"
| "methods_write_from ((flag, name) # fs) first methods str =
     (if methods AND flag \<noteq> 0 then
        bindr (rtsp_sprintf str ((if first then [] else '','') @ name))
          (methods_write_from fs False methods)
      else methods_write_from fs first methods str)"

definition rtsp_methods_write :: "32 word \<Rightarrow> rtsp_string \<Rightarrow> rtsp_string result" where
  "rtsp_methods_write methods str =
     (if methods = 0 then Inl (Err (- EINVAL)) else methods_write_from method_flags True methods str)"

definition method_flag :: "string \<Rightarrow> 32 word" where
  "method_flag name = (case find (\<lambda>(f, n). name = n) method_flags of None \<Rightarrow> 0 | Some (f, n) \<Rightarrow> f)"

function methods_read_loop :: "string \<Rightarrow> 32 word \<Rightarrow> 32 word" where
  "methods_read_loop str acc =
     (case strtok_r {CHR '',''} str of
        (None, _) \<Rightarrow> acc
      | (Some tok, temp) \<Rightarrow> methods_read_loop temp (acc OR method_flag (skip_spaces tok)))"
  by pat_completeness auto
termination
  by (relation "measure (length \<circ> fst)") (auto dest: strtok_r_shorter [OF sym])

declare methods_read_loop.simps [simp del]

definition rtsp_methods_read :: "string option \<Rightarrow> 32 word result" where
  "rtsp_methods_read str =
     (case str of None \<Rightarrow> Inl (Err (- EINVAL)) | Some s \<Rightarrow> Inr (methods_read_loop s 0))"

definition rtsp_allow_header_write :: "32 word \<Rightarrow> rtsp_string \<Rightarrow> rtsp_string result" where
  "rtsp_allow_header_write methods str =
     (if methods = 0 then Inl (Err (- EINVAL))
      else bindr (rtsp_sprintf str ''Allow: '') (\<lambda>str.
           bindr (rtsp_methods_write methods str) (\<lambda>str.
           rtsp_sprintf str CRLF)))"

definition rtsp_allow_header_read :: "string option \<Rightarrow> 32 word result" where
  "rtsp_allow_header_read str = rtsp_methods_read str"

definition rtsp_public_header_write :: "32 word \<Rightarrow> rtsp_string \<Rightarrow> rtsp_string result" where
  "rtsp_public_header_write methods str =
     (if methods = 0 then Inl (Err (- EINVAL))
      else bindr (rtsp_sprintf str ''Public: '') (\<lambda>str.
           bindr (rtsp_methods_write methods str) (\<lambda>str.
           rtsp_sprintf str CRLF)))"

definition rtsp_public_header_read :: "string option \<Rightarrow> 32 word result" where
  "rtsp_public_header_read str = rtsp_methods_read str"

section \<open>The text of a method list\<close>

fun comma_list :: "bool \<Rightarrow> string list \<Rightarrow> string" where
  "comma_list first [] = []"
| "comma_list first (n # ns) = (if first then [] else '','') @ n @ comma_list False ns"

definition method_names :: "(32 word \<times> string) list \<Rightarrow> 32 word \<Rightarrow> string list" where
  "method_names fs methods = map snd (filter (\<lambda>(f, n). methods AND f \<noteq> 0) fs)"

definition methods_text :: "32 word \<Rightarrow> string" where
  "methods_text methods = comma_list True (method_names method_flags methods)"

lemma writes_methods_from:
  "writes (methods_write_from fs first methods) (comma_list first (method_names fs methods))"
proof (induction fs arbitrary: first)
  case Nil
  then show ?case using writes_skip by (simp add: method_names_def writes_def)
next
  case (Cons fn fs)
  obtain f n where fn: "fn = (f, n)" by fastforce
  show ?case
  proof (cases "methods AND f = 0")
    case True
    with Cons.IH [of first] show ?thesis by (simp add: fn method_names_def writes_def)
  next
    case False
    then have "methods_write_from (fn # fs) first methods =
        (\<lambda>s. bindr (rtsp_sprintf s ((if first then [] else '','') @ n)) (methods_write_from fs False methods))"
      by (auto simp: fn)
    moreover have "comma_list first (method_names (fn # fs) methods) =
        ((if first then [] else '','') @ n) @ comma_list False (method_names fs methods)"
      using False by (simp add: fn method_names_def)
    ultimately show ?thesis
      using writes_bind [OF writes_sprintf Cons.IH, of "(if first then [] else '','') @ n" False] by simp
  qed
qed

lemma writes_methods: "methods \<noteq> 0 \<Longrightarrow> writes (rtsp_methods_write methods) (methods_text methods)"
  using writes_methods_from [of method_flags True methods]
  by (simp add: rtsp_methods_write_def methods_text_def writes_def)

interpretation allow: bounded_writer rtsp_allow_header_write "\<lambda>m. m \<noteq> 0"
  "\<lambda>m. ''Allow: '' @ methods_text m @ CRLF"
proof
  show "writes (rtsp_allow_header_write h) (''Allow: '' @ methods_text h @ CRLF)" if "h \<noteq> 0" for h
    unfolding rtsp_allow_header_write_def [abs_def] if_not_P [OF that]
    by (rule writer_intros writes_methods that)+
qed (simp add: rtsp_allow_header_write_def)

interpretation public: bounded_writer rtsp_public_header_write "\<lambda>m. m \<noteq> 0"
  "\<lambda>m. ''Public: '' @ methods_text m @ CRLF"
proof
  show "writes (rtsp_public_header_write h) (''Public: '' @ methods_text h @ CRLF)" if "h \<noteq> 0" for h
    unfolding rtsp_public_header_write_def [abs_def] if_not_P [OF that]
    by (rule writer_intros writes_methods that)+
qed (simp add: rtsp_public_header_write_def)

section \<open>Reading a method list back\<close>

lemma methods_read_comma_list:
  assumes "\<forall>n \<in> set ns. n \<noteq> [] \<and> CHR '','' \<notin> set n"
  shows "methods_read_loop (comma_list True ns) acc =
    foldl (\<lambda>a n. a OR method_flag (skip_spaces n)) acc ns"
  using assms
proof (induction ns arbitrary: acc)
  case Nil
  then show ?case by (simp add: methods_read_loop.simps)
next
  case (Cons n ns)
  have n: "n \<noteq> []" "set n \<inter> {CHR '',''} = {}" using Cons.prems by auto
  show ?case
  proof (cases ns)
    case Nil
    then show ?thesis using strtok_r_last [OF n] by (simp add: methods_read_loop.simps)
  next
    case (Cons m ms)
    have "strtok_r {CHR '',''} (n @ CHR '','' # comma_list True ns) = (Some n, comma_list True ns)"
      by (rule strtok_r_token [OF n]) simp
    with Cons Cons.IH Cons.prems show ?thesis by (simp add: methods_read_loop.simps [of "n @ _"])
  qed
qed

lemma method_flags_facts:
  "(f, n) \<in> set method_flags \<Longrightarrow> n \<noteq> [] \<and> CHR '','' \<notin> set n \<and> method_flag (skip_spaces n) = f"
  by (auto simp: method_flags_def method_flag_def skip_spaces_def)

lemma method_flags_bits:
  "map fst method_flags = map (\<lambda>k. 2 ^ k) [0..<11]"
  by (simp add: method_flags_def upt_rec)

lemma and_flag_iff: "(m :: 32 word) AND 2 ^ k \<noteq> 0 \<longleftrightarrow> bit m k \<and> k < 32"
proof
  assume "m AND 2 ^ k \<noteq> 0"
  then obtain i where "bit (m AND 2 ^ k) i" by (metis bit_0_eq bot_apply bot_bool_def bit_eqI)
  then show "bit m k \<and> k < 32" by (auto simp: bit_simps dest: bit_imp_le_length)
next
  assume "bit m k \<and> k < 32"
  then have "bit (m AND 2 ^ k) k" by (simp add: bit_simps)
  then show "m AND 2 ^ k \<noteq> 0" by auto
qed

lemma bit_fold_flags:
  "bit (foldl (OR) acc (filter (\<lambda>f. m AND f \<noteq> 0) (map (\<lambda>k. 2 ^ k) ks))) i \<longleftrightarrow>
   bit (acc :: 32 word) i \<or> i \<in> set ks \<and> bit m i"
proof (induction ks arbitrary: acc)
  case (Cons k ks)
  show ?case
  proof (cases "bit m k \<and> k < 32")
    case True
    then have "bit (acc OR 2 ^ k) i \<longleftrightarrow> bit acc i \<or> i = k"
      by (auto simp: bit_simps)
    with True show ?thesis using Cons [of "acc OR 2 ^ k"] by (simp add: and_flag_iff) blast
  next
    case False
    then have "\<not> bit m k" using bit_imp_le_length [of m k] by auto
    with False show ?thesis using Cons [of acc] by (simp add: and_flag_iff) blast
  qed
qed simp

lemma methods_read_text: "methods_read_loop (methods_text m) 0 = m AND 0x7FF"
proof -
  let ?fs = "filter (\<lambda>(f, n). m AND f \<noteq> 0) method_flags"
  have facts: "n \<noteq> [] \<and> CHR '','' \<notin> set n \<and> method_flag (skip_spaces n) = f"
    if "(f, n) \<in> set ?fs" for f n
    using that method_flags_facts by auto
  have "methods_read_loop (methods_text m) 0 =
      foldl (\<lambda>a n. a OR method_flag (skip_spaces n)) 0 (map snd ?fs)"
    unfolding methods_text_def method_names_def
    by (rule methods_read_comma_list) (use facts in auto)
  also have "\<dots> = foldl (OR) 0 (map (\<lambda>n. method_flag (skip_spaces n)) (map snd ?fs))"
    by (simp add: foldl_map)
  also have "map (\<lambda>n. method_flag (skip_spaces n)) (map snd ?fs) = map fst ?fs"
    using facts by (auto intro!: map_cong)
  also have "map fst ?fs = filter (\<lambda>f. m AND f \<noteq> 0) (map fst method_flags)"
    by (simp add: filter_map comp_def split_def)
  finally have eq: "methods_read_loop (methods_text m) 0 =
      foldl (OR) 0 (filter (\<lambda>f. m AND f \<noteq> 0) (map (\<lambda>k. 2 ^ k) [0..<11]))"
    unfolding method_flags_bits .
  have "bit (0x7FF :: 32 word) i \<longleftrightarrow> i < 11" for i
  proof -
    have "(0x7FF :: 32 word) = mask 11" by (simp add: mask_eq_exp_minus_1)
    then have "bit (0x7FF :: 32 word) i \<longleftrightarrow> bit (mask 11 :: 32 word) i" by simp
    then show ?thesis by (simp only: bit_mask_iff) auto
  qed
  then show ?thesis
    unfolding eq by (intro bit_word_eqI) (auto simp: bit_fold_flags bit_simps)
qed

text \<open>
  Reading the method list written for a set of flags gives exactly the known methods of that
  set, for the Allow and the Public header alike.
\<close>

theorem methods_roundtrip:
  assumes "rs_ok s" "rtsp_methods_write m s = Inr s'"
  shows "\<exists>t. rs_str s' = rs_str s @ t \<and> rtsp_allow_header_read (Some t) = Inr (m AND 0x7FF) \<and>
    rtsp_public_header_read (Some t) = Inr (m AND 0x7FF)"
proof -
  have "m \<noteq> 0" using assms(2) by (auto simp: rtsp_methods_write_def)
  then have "append_bounded s (methods_text m) = Inr s'"
    using writes_methods assms by (auto simp: writes_def)
  then have "rs_str s' = rs_str s @ methods_text m" by (auto simp: append_bounded_def split: if_splits)
  then show ?thesis
    by (simp add: rtsp_allow_header_read_def rtsp_public_header_read_def rtsp_methods_read_def
        methods_read_text)
qed

lemma methods_roundtrip_witness:
  "\<exists>s'. rs_ok \<lparr>rs_str = [], rs_max_len = 100\<rparr> \<and>
     rtsp_methods_write 3 \<lparr>rs_str = [], rs_max_len = 100\<rparr> = Inr s' \<and>
     rtsp_allow_header_read (Some ''OPTIONS,DESCRIBE'') = Inr (3 AND 0x7FF)"
proof -
  have w: "rtsp_methods_write 3 \<lparr>rs_str = [], rs_max_len = 100\<rparr> =
      Inr \<lparr>rs_str = ''OPTIONS,DESCRIBE'', rs_max_len = 100\<rparr>"
    by (simp add: rtsp_methods_write_def method_flags_def rtsp_sprintf_def)
  have ok: "rs_ok \<lparr>rs_str = [], rs_max_len = 100\<rparr>" by (simp add: rs_ok_def)
  from methods_roundtrip [OF ok w] show ?thesis using w ok by simp
qed

end
