(* ===== verification/RtspHeaders.thy ===== *)
theory RtspHeaders
  imports RtspString RtspStatus
begin

text \<open>
  The Session and RTP-Info headers of \<open>src/rtsp.c\<close>: writers, readers and their round trips.
\<close>

section \<open>Session\<close>

definition rtsp_session_header_write ::
  "string option \<Rightarrow> 32 word \<Rightarrow> rtsp_string \<Rightarrow> rtsp_string result" where
  "rtsp_session_header_write session_id session_timeout str =
     (case session_id of
        None \<Rightarrow> Inl (Err (- EINVAL))
      | Some sid \<Rightarrow>
          if sid = [] then Inl (Err (- EINVAL))
          else bindr (rtsp_sprintf str (''Session: '' @ sid)) (\<lambda>str.
               bindr (if session_timeout > 0
                      then rtsp_sprintf str ('';timeout='' @ show_int (sint session_timeout))
                      else Inr str) (\<lambda>str.
               rtsp_sprintf str CRLF)))"

definition rtsp_session_header_read :: "string option \<Rightarrow> (string \<times> 32 word) result" where
  "rtsp_session_header_read str =
     (case str of
        None \<Rightarrow> Inl (Err (- EINVAL))
      | Some s \<Rightarrow>
          (case strchr_cut (CHR '';'') s of
             (sid, timeout_str) \<Rightarrow>
               Inr (sid,
                 case timeout_str of
                   None \<Rightarrow> 0
                 | Some t \<Rightarrow>
                     if has_prefix t ''timeout'' then
                       (case strchr_cut (CHR ''='') t of
                          (_, Some v) \<Rightarrow> word_of_int (atoi v)
                        | (_, None) \<Rightarrow> 0)
                     else 0)))"

definition session_text :: "string \<Rightarrow> 32 word \<Rightarrow> string" where
  "session_text sid t = sid @ (if t > 0 then '';timeout='' @ show_int (sint t) else [])"

lemma writes_session:
  assumes "sid \<noteq> []"
  shows "writes (rtsp_session_header_write (Some sid) t) (''Session: '' @ session_text sid t @ CRLF)"
proof -
  have "writes (rtsp_session_header_write (Some sid) t)
    ((''Session: '' @ sid) @ (if t > 0 then '';timeout='' @ show_int (sint t) else []) @ CRLF)"
    unfolding rtsp_session_header_write_def [abs_def] option.case if_not_P [OF assms]
    by (rule writer_intros)+
  then show ?thesis by (simp add: session_text_def)
qed

interpretation session: bounded_writer
  "\<lambda>(sid, t). rtsp_session_header_write sid t" "\<lambda>(sid, t). sid \<noteq> None \<and> sid \<noteq> Some []"
  "\<lambda>(sid, t). ''Session: '' @ session_text (the sid) t @ CRLF"
proof
  fix h :: "string option \<times> 32 word"
  obtain sid t where h: "h = (sid, t)" by fastforce
  show "writes (case h of (sid, t) \<Rightarrow> rtsp_session_header_write sid t)
      (case h of (sid, t) \<Rightarrow> ''Session: '' @ session_text (the sid) t @ CRLF)"
    if "case h of (sid, t) \<Rightarrow> sid \<noteq> None \<and> sid \<noteq> Some []"
    using writes_session [of "the sid" t] that unfolding h by (cases sid) simp_all
qed (auto simp: rtsp_session_header_write_def split: prod.splits option.splits)

lemma sint_range_32: "- (2 ^ 31) \<le> sint (w :: 32 word)" "sint (w :: 32 word) < 2 ^ 31"
  using sint_greater_eq [of w] sint_less [of w] by simp_all

lemma atoi_show_sint [num_simps]: "word_of_int (atoi (show_int (sint (w :: 32 word)))) = w"
  using atoi_show_int [of "[]" "sint w"] sint_range_32 [of w] by simp

lemma session_read_text:
  assumes "CHR '';'' \<notin> set sid"
  shows "rtsp_session_header_read (Some (session_text sid t)) = Inr (sid, t)"
proof (cases "t > 0")
  case True
  have "has_prefix (''timeout='' @ v) ''timeout''" for v by (simp add: has_prefix_def)
  moreover have "strchr_cut (CHR ''='') (''timeout='' @ v) = (''timeout'', Some v)" for v
    using strchr_cut_append [of "CHR ''=''" "''timeout''" v] by simp
  moreover have "strchr_cut (CHR '';'') (session_text sid t) =
      (sid, Some (''timeout='' @ show_int (sint t)))"
    using True strchr_cut_append [OF assms] by (simp add: session_text_def)
  ultimately show ?thesis
    unfolding rtsp_session_header_read_def
    by (simp only: option.case prod.case if_True atoi_show_sint)
next
  case False
  then have "t = 0" using word_neq_0_conv by blast
  then show ?thesis using strchr_cut_none [OF assms]
    by (simp add: rtsp_session_header_read_def session_text_def)
qed

text \<open>
  Reading the Session header that was written gives back the session identifier and the
  timeout, for every identifier without a semicolon and all 32-bit timeouts.
\<close>

theorem session_header_roundtrip:
  assumes "rs_ok s" "rtsp_session_header_write (Some sid) t s = Inr s'" "CHR '';'' \<notin> set sid"
  shows "\<exists>v. rs_str s' = rs_str s @ ''Session: '' @ v @ CRLF \<and>
    rtsp_session_header_read (Some v) = Inr (sid, t)"
proof -
  have sid: "sid \<noteq> []" using assms(2) by (auto simp: rtsp_session_header_write_def)
  from session.write_success [of s "(Some sid, t)" s'] assms(1,2)
  have "rs_str s' = rs_str s @ ''Session: '' @ session_text sid t @ CRLF" by simp
  with session_read_text [OF assms(3)] show ?thesis by blast
qed

lemma session_header_roundtrip_witness:
  "\<exists>v. rtsp_session_header_read (Some v) = Inr (''1A2B'', 60)"
proof -
  have "rtsp_session_header_write (Some ''1A2B'') 60 \<lparr>rs_str = [], rs_max_len = 99\<rparr> =
      Inr \<lparr>rs_str = ''Session: 1A2B;timeout=60'' @ CRLF, rs_max_len = 99\<rparr>"
    by (simp add: rtsp_session_header_write_def rtsp_sprintf_def show_int_def show_nat.simps
        digit_char_def char_of_def bit_simps)
  from session_header_roundtrip [OF _ this] show ?thesis by (auto simp: rs_ok_def)
qed

section \<open>RTP-Info\<close>

abbreviation ERANGE :: int where "ERANGE \<equiv> 34"

record rtsp_rtp_info_header =
  rtpi_url :: "string option"
  rtpi_seq_valid :: bool
  rtpi_seq :: "16 word"
  rtpi_rtptime_valid :: bool
  rtpi_rtptime :: "32 word"

definition rtsp_rtp_info_header_new :: rtsp_rtp_info_header where
  "rtsp_rtp_info_header_new =
     \<lparr>rtpi_url = None, rtpi_seq_valid = False, rtpi_seq = 0, rtpi_rtptime_valid = False,
      rtpi_rtptime = 0\<rparr>"

definition rtsp_rtp_info_header_copy :: "rtsp_rtp_info_header \<Rightarrow> rtsp_rtp_info_header \<Rightarrow> rtsp_rtp_info_header" where
  "rtsp_rtp_info_header_copy src dst =
     dst\<lparr>rtpi_url := rtpi_url src, rtpi_seq_valid := rtpi_seq_valid src, rtpi_seq := rtpi_seq src,
         rtpi_rtptime_valid := rtpi_rtptime_valid src, rtpi_rtptime := rtpi_rtptime src\<rparr>"

text \<open>One entry; NULL pointers and entries without url are skipped, with their separator.\<close>

definition rtp_info_write_one ::
  "rtsp_rtp_info_header \<Rightarrow> string \<Rightarrow> rtsp_string \<Rightarrow> rtsp_string result" where
  "rtp_info_write_one rtpi url str =
     bindr (rtsp_sprintf str (''url='' @ url)) (\<lambda>str.
     bindr (if rtpi_seq_valid rtpi
            then rtsp_sprintf str ('';seq='' @ show_nat (unat (rtpi_seq rtpi))) else Inr str) (\<lambda>str.
     if rtpi_rtptime_valid rtpi
     then rtsp_sprintf str ('';rtptime='' @ show_nat (unat (rtpi_rtptime rtpi))) else Inr str))"

fun rtp_info_write_from ::
  "rtsp_rtp_info_header option list \<Rightarrow> rtsp_string \<Rightarrow> rtsp_string result" where
  "rtp_info_write_from [] str = Inr str"
| "rtp_info_write_from (r # rs) str =
     (case r of
        None \<Rightarrow> rtp_info_write_from rs str
      | Some rtpi \<Rightarrow>
          (case rtpi_url rtpi of
             None \<Rightarrow> rtp_info_write_from rs str
           | Some url \<Rightarrow>
               if url = [] then rtp_info_write_from rs str
               else bindr (rtp_info_write_one rtpi url str) (\<lambda>str.
                    bindr (if rs \<noteq> [] then rtsp_sprintf str '','' else Inr str)
                      (rtp_info_write_from rs))))"

definition rtsp_rtp_info_header_write ::
  "rtsp_rtp_info_header option list \<Rightarrow> rtsp_string \<Rightarrow> rtsp_string result" where
  "rtsp_rtp_info_header_write rtp_info str =
     (if rtp_info = [] then Inl (Err (- EINVAL))
      else bindr (rtsp_sprintf str ''RTP-Info: '') (\<lambda>str.
           bindr (rtp_info_write_from rtp_info str) (\<lambda>str.
           rtsp_sprintf str CRLF)))"

text \<open>
  The parameters after the url. \<open>Inl ret\<close> is the \<open>goto exit\<close> with the value of \<open>ret\<close>; for an
  invalid \<open>rtptime\<close> this is \<open>-errno\<close>, where \<open>errno\<close> is set on overflow only.
\<close>

fun rtp_info_params :: "string list \<Rightarrow> rtsp_rtp_info_header \<Rightarrow> int + rtsp_rtp_info_header" where
  "rtp_info_params [] rtpi = Inr rtpi"
| "rtp_info_params (param # ps) rtpi =
     (case key_val (CHR ''='') param of
        (None, _) \<Rightarrow> Inl (- EINVAL)
      | (Some key, None) \<Rightarrow> rtp_info_params ps rtpi
      | (Some key, Some val) \<Rightarrow>
          if key = ''seq'' then
            rtp_info_params ps (rtpi\<lparr>rtpi_seq := word_of_int (atoi val), rtpi_seq_valid := True\<rparr>)
          else if key = ''rtptime'' then
            (case strtoul 10 val of
               (parsedint, endptr, erange) \<Rightarrow>
                 if val = [] \<or> endptr \<noteq> [] \<or> erange then Inl (if erange then - ERANGE else 0)
                 else rtp_info_params ps
                        (rtpi\<lparr>rtpi_rtptime := of_nat parsedint, rtpi_rtptime_valid := True\<rparr>))
          else rtp_info_params ps rtpi)"

fun rtp_info_read_from :: "string list \<Rightarrow> nat \<Rightarrow> int \<times> rtsp_rtp_info_header list" where
  "rtp_info_read_from [] room = (0, [])"
| "rtp_info_read_from (rtpi_str # rest) room =
     (if room = 0 then (0, [])
      else
        (case strtok_all {CHR '';''} rtpi_str of
           [] \<Rightarrow> rtp_info_read_from rest room
         | param # ps \<Rightarrow>
             (case key_val (CHR ''='') param of
                (Some key, Some val) \<Rightarrow>
                  if key \<noteq> ''url'' then (- EPROTO, [])
                  else
                    (case rtp_info_params ps (rtsp_rtp_info_header_new\<lparr>rtpi_url := Some val\<rparr>) of
                       Inl ret \<Rightarrow> (ret, [])
                     | Inr rtpi \<Rightarrow>
                         (case rtp_info_read_from rest (room - 1) of (ret, l) \<Rightarrow> (ret, rtpi # l)))
              | _ \<Rightarrow> (- EPROTO, []))))"

definition rtsp_rtp_info_header_read ::
  "string option \<Rightarrow> nat \<Rightarrow> (int \<times> rtsp_rtp_info_header list) result" where
  "rtsp_rtp_info_header_read str max_count =
     (case str of
        None \<Rightarrow> Inl (Err (- EINVAL))
      | Some s \<Rightarrow>
          if max_count = 0 then Inl (Err (- EINVAL))
          else Inr (rtp_info_read_from (strtok_all {CHR '',''} s) max_count))"

subsection \<open>Writer\<close>

definition rtp_info_fields :: "rtsp_rtp_info_header \<Rightarrow> string list" where
  "rtp_info_fields r =
     (''url='' @ the (rtpi_url r)) #
     (if rtpi_seq_valid r then [''seq='' @ show_nat (unat (rtpi_seq r))] else []) @
     (if rtpi_rtptime_valid r then [''rtptime='' @ show_nat (unat (rtpi_rtptime r))] else [])"

definition rtp_info_skipped :: "rtsp_rtp_info_header option \<Rightarrow> bool" where
  "rtp_info_skipped r \<longleftrightarrow> (case r of None \<Rightarrow> True | Some i \<Rightarrow> rtpi_url i = None \<or> rtpi_url i = Some [])"

fun rtp_info_text :: "rtsp_rtp_info_header option list \<Rightarrow> string" where
  "rtp_info_text [] = []"
| "rtp_info_text (r # rs) =
     (if rtp_info_skipped r then []
      else sep_by (CHR '';'') (rtp_info_fields (the r)) @ (if rs \<noteq> [] then '','' else [])) @
     rtp_info_text rs"

lemma writes_rtp_info_one:
  assumes "rtpi_url r = Some u"
  shows "writes (rtp_info_write_one r u) (sep_by (CHR '';'') (rtp_info_fields r))"
proof -
  have "writes (rtp_info_write_one r u) ((''url='' @ u) @
      (if rtpi_seq_valid r then '';seq='' @ show_nat (unat (rtpi_seq r)) else []) @
      (if rtpi_rtptime_valid r then '';rtptime='' @ show_nat (unat (rtpi_rtptime r)) else []))"
    unfolding rtp_info_write_one_def [abs_def] by (rule writer_intros)+
  then show ?thesis
    by (rule writes_eq) (simp add: assms rtp_info_fields_def sep_by_Cons)
qed

lemma writes_rtp_info_from: "writes (rtp_info_write_from rs) (rtp_info_text rs)"
proof (induction rs)
  case Nil
  then show ?case by (simp add: writes_skip [unfolded writes_def] writes_def)
next
  case (Cons r rs)
  show ?case
  proof (cases "rtp_info_skipped r")
    case True
    then have "rtp_info_write_from (r # rs) = rtp_info_write_from rs"
      by (auto simp: rtp_info_skipped_def fun_eq_iff split: option.splits)
    with True Cons show ?thesis by simp
  next
    case False
    then obtain i u where r: "r = Some i" "rtpi_url i = Some u" "u \<noteq> []"
      by (auto simp: rtp_info_skipped_def split: option.splits)
    then have "rtp_info_write_from (r # rs) = (\<lambda>str. bindr (rtp_info_write_one i u str) (\<lambda>str.
        bindr (if rs \<noteq> [] then rtsp_sprintf str '','' else Inr str) (rtp_info_write_from rs)))"
      by (simp add: fun_eq_iff)
    moreover have "writes \<dots> (sep_by (CHR '';'') (rtp_info_fields i) @
        (if rs \<noteq> [] then '','' else []) @ rtp_info_text rs)"
      by (rule writer_intros writes_rtp_info_one r Cons)+
    ultimately show ?thesis using False r by simp
  qed
qed

interpretation rtp_info: bounded_writer rtsp_rtp_info_header_write "\<lambda>l. l \<noteq> []"
  "\<lambda>l. ''RTP-Info: '' @ rtp_info_text l @ CRLF"
proof
  show "writes (rtsp_rtp_info_header_write h) (''RTP-Info: '' @ rtp_info_text h @ CRLF)" if "h \<noteq> []" for h
    unfolding rtsp_rtp_info_header_write_def [abs_def] if_not_P [OF that]
    by (rule writer_intros writes_rtp_info_from)+
qed (simp add: rtsp_rtp_info_header_write_def)

subsection \<open>Reading back\<close>

definition wf_rtp_info :: "rtsp_rtp_info_header \<Rightarrow> bool" where
  "wf_rtp_info r \<longleftrightarrow>
     (\<exists>u. rtpi_url r = Some u \<and> u \<noteq> [] \<and> CHR '','' \<notin> set u \<and> CHR '';'' \<notin> set u) \<and>
     (\<not> rtpi_seq_valid r \<longrightarrow> rtpi_seq r = 0) \<and> (\<not> rtpi_rtptime_valid r \<longrightarrow> rtpi_rtptime r = 0)"

lemma strtoul_show_nat: "n < 2 ^ 64 \<Longrightarrow> strtoul 10 (show_nat n) = (n, [], False)"
  using scan_number_show_nat [of "[]" n] by (simp add: strtoul_def)

lemma key_val_eq:
  "v \<noteq> [] \<Longrightarrow> key_val (CHR ''='') (''url='' @ v) = (Some ''url'', Some v)"
  "v \<noteq> [] \<Longrightarrow> key_val (CHR ''='') (''seq='' @ v) = (Some ''seq'', Some v)"
  "v \<noteq> [] \<Longrightarrow> key_val (CHR ''='') (''rtptime='' @ v) = (Some ''rtptime'', Some v)"
  using key_val_pair [of "''url''" "CHR ''=''" v] key_val_pair [of "''seq''" "CHR ''=''" v]
    key_val_pair [of "''rtptime''" "CHR ''=''" v] by simp_all

lemma rtp_info_params_text:
  assumes "rtpi_url r = Some u" "wf_rtp_info r"
  shows "rtp_info_params (tl (rtp_info_fields r)) (rtsp_rtp_info_header_new\<lparr>rtpi_url := Some u\<rparr>) = Inr r"
proof -
  have "unat (rtpi_rtptime r) < 2 ^ 64" "unat (rtpi_seq r) < 2 ^ 31"
    using unsigned_less [where 'a = nat and w = "rtpi_rtptime r"]
      unsigned_less [where 'a = nat and w = "rtpi_seq r"] by simp_all
  then have nums: "strtoul 10 (show_nat (unat (rtpi_rtptime r))) = (unat (rtpi_rtptime r), [], False)"
    "atoi (show_nat (unat (rtpi_seq r))) = int (unat (rtpi_seq r))"
    using strtoul_show_nat atoi_show_nat [of "[]" "unat (rtpi_seq r)"] by auto
  have fields: "tl (rtp_info_fields r) =
     (if rtpi_seq_valid r then [''seq='' @ show_nat (unat (rtpi_seq r))] else []) @
     (if rtpi_rtptime_valid r then [''rtptime='' @ show_nat (unat (rtpi_rtptime r))] else [])"
    by (simp add: rtp_info_fields_def)
  show ?thesis
    unfolding fields
    using assms nums key_val_eq(2) [OF show_nat_not_Nil] key_val_eq(3) [OF show_nat_not_Nil]
    by (cases r) (auto simp: rtsp_rtp_info_header_new_def wf_rtp_info_def)
qed

lemma rtp_info_fields_clean:
  assumes "wf_rtp_info r" "f \<in> set (rtp_info_fields r)"
  shows "f \<noteq> []" "CHR '','' \<notin> set f" "CHR '';'' \<notin> set f"
proof -
  have "c \<noteq> CHR '','' \<and> c \<noteq> CHR '';''" if "c \<in> set (show_nat n)" for c n
    using show_nat_digits [OF that] by (auto simp: is_digit_def)
  then have d: "CHR '','' \<notin> set (show_nat n)" "CHR '';'' \<notin> set (show_nat n)" for n by blast+
  show "f \<noteq> []" "CHR '','' \<notin> set f" "CHR '';'' \<notin> set f"
    using assms d by (auto simp: rtp_info_fields_def wf_rtp_info_def split: if_splits)
qed

lemma rtp_info_text_sep_by:
  assumes "\<forall>r \<in> set rs. wf_rtp_info r"
  shows "rtp_info_text (map Some rs) = sep_by (CHR '','') (map (sep_by (CHR '';'') \<circ> rtp_info_fields) rs)"
  using assms
proof (induction rs)
  case (Cons r rs)
  then have "\<not> rtp_info_skipped (Some r)" by (auto simp: rtp_info_skipped_def wf_rtp_info_def)
  with Cons show ?case by (cases rs) simp_all
qed simp

lemma rtp_info_entry_clean:
  assumes "wf_rtp_info r"
  shows "sep_by (CHR '';'') (rtp_info_fields r) \<noteq> []"
    "CHR '','' \<notin> set (sep_by (CHR '';'') (rtp_info_fields r))"
  using rtp_info_fields_clean(2) [OF assms]
  by (auto dest!: sep_by_chars) (simp add: rtp_info_fields_def sep_by_Cons)

lemma rtp_info_read_prefix:
  assumes "\<forall>r \<in> set rs. wf_rtp_info r" "length rs \<le> room"
  shows "rtp_info_read_from (map (sep_by (CHR '';'') \<circ> rtp_info_fields) rs @ rest) room =
    (case rtp_info_read_from rest (room - length rs) of (ret, l) \<Rightarrow> (ret, rs @ l))"
  using assms
proof (induction rs arbitrary: room)
  case (Cons r rs)
  then obtain u where u: "rtpi_url r = Some u" "u \<noteq> []" by (auto simp: wf_rtp_info_def)
  have "strtok_all {CHR '';''} (sep_by (CHR '';'') (rtp_info_fields r)) = rtp_info_fields r"
    using rtp_info_fields_clean [of r] Cons.prems by (intro strtok_all_sep_by) auto
  moreover have "rtp_info_fields r = (''url='' @ u) # tl (rtp_info_fields r)"
    using u by (simp add: rtp_info_fields_def)
  ultimately have tok: "strtok_all {CHR '';''} (sep_by (CHR '';'') (rtp_info_fields r)) =
      (''url='' @ u) # tl (rtp_info_fields r)" by simp
  show ?case
    using Cons.prems Cons.IH [of "room - 1"] rtp_info_params_text [OF u(1)]
    by (simp add: tok key_val_eq(1) [OF u(2), simplified] split: prod.splits)
qed simp

text \<open>The reader keeps as many entries as it has room for and ignores the rest of the line.\<close>

lemma rtp_info_read_take:
  assumes "\<forall>r \<in> set rs. wf_rtp_info r" "0 < max_count" "rs \<noteq> []"
  shows "rtsp_rtp_info_header_read (Some (rtp_info_text (map Some rs))) max_count = Inr (0, take max_count rs)"
proof -
  let ?e = "sep_by (CHR '';'') \<circ> rtp_info_fields"
  have full: "rtp_info_read_from ts 0 = (0, [])" for ts by (cases ts) simp_all
  have "map ?e rs = map ?e (take max_count rs) @ map ?e (drop max_count rs)"
    by (simp flip: map_append)
  moreover have "rtp_info_read_from (map ?e (take max_count rs) @ map ?e (drop max_count rs)) max_count =
      (0, take max_count rs)"
    using assms(1) full
    by (subst rtp_info_read_prefix) (auto dest: in_set_takeD simp: min_def split: prod.splits)
  moreover have "strtok_all {CHR '',''} (sep_by (CHR '','') (map ?e rs)) = map ?e rs"
    using assms(1) rtp_info_entry_clean by (intro strtok_all_sep_by) auto
  ultimately show ?thesis
    using assms by (simp add: rtsp_rtp_info_header_read_def rtp_info_text_sep_by)
qed

lemma rtp_info_read_text:
  assumes "\<forall>r \<in> set rs. wf_rtp_info r" "length rs \<le> max_count" "rs \<noteq> []"
  shows "rtsp_rtp_info_header_read (Some (rtp_info_text (map Some rs))) max_count = Inr (0, rs)"
  using rtp_info_read_take [OF assms(1) _ assms(3), of max_count] assms(2,3) by (cases rs) auto

text \<open>
  C34: Reading the RTP-Info header that was written gives back the entries, for urls without
  comma and semicolon and at most \<open>max_count\<close> entries.
\<close>

theorem rtp_info_roundtrip:
  assumes "rs_ok s" "rtsp_rtp_info_header_write (map Some rs) s = Inr s'"
    and "\<forall>r \<in> set rs. wf_rtp_info r" "length rs \<le> max_count"
  shows "\<exists>v. rs_str s' = rs_str s @ ''RTP-Info: '' @ v @ CRLF \<and>
    rtsp_rtp_info_header_read (Some v) max_count = Inr (0, rs)"
proof -
  have "rs \<noteq> []" using assms(2) by (auto simp: rtsp_rtp_info_header_write_def)
  then show ?thesis
    using rtp_info.write_success(1) [OF assms(1,2)] rtp_info_read_text [OF assms(3,4)] by auto
qed

text \<open>
  An entry whose \<open>rtptime\<close> is not a number (and does not overflow) ends the reading with the
  result 0, success, and with only the entries before it: it and all later entries are dropped.
\<close>

theorem rtp_info_bad_rtptime_truncates:
  assumes "\<forall>r \<in> set rs. wf_rtp_info r" "length rs < max_count"
    and "u \<noteq> []" "set u \<inter> {CHR '','', CHR '';''} = {}"
    and "v \<noteq> []" "set v \<inter> {CHR '','', CHR '';''} = {}"
    and "fst (snd (strtoul 10 v)) \<noteq> []" "\<not> snd (snd (strtoul 10 v))"
    and "\<forall>t \<in> set rest. t \<noteq> [] \<and> CHR '','' \<notin> set t"
  shows "rtsp_rtp_info_header_read
     (Some (sep_by (CHR '','')
       (map (sep_by (CHR '';'') \<circ> rtp_info_fields) rs @
        [sep_by (CHR '';'') [''url='' @ u, ''rtptime='' @ v]] @ rest))) max_count = Inr (0, rs)"
proof -
  let ?e = "sep_by (CHR '';'') [''url='' @ u, ''rtptime='' @ v]"
  let ?ts = "map (sep_by (CHR '';'') \<circ> rtp_info_fields) rs @ [?e] @ rest"
  have "strtok_all {CHR '',''} (sep_by (CHR '','') ?ts) = ?ts"
    using assms rtp_info_entry_clean by (intro strtok_all_sep_by) auto
  moreover have "strtok_all {CHR '';''} ?e = [''url='' @ u, ''rtptime='' @ v]"
    using assms(4,6) by (intro strtok_all_sep_by) auto
  then have "rtp_info_read_from ([?e] @ rest) (max_count - length rs) = (0, [])"
    using assms(2,5,7,8) key_val_eq(1) [OF assms(3)] key_val_eq(3) [OF assms(5)]
    by (auto simp: split: prod.splits)
  ultimately show ?thesis
    using assms(2) rtp_info_read_prefix [OF assms(1), of max_count "[?e] @ rest"]
    by (simp add: rtsp_rtp_info_header_read_def del: rtp_info_read_from.simps sep_by.simps)
qed

definition example_rtp_info :: rtsp_rtp_info_header where
  "example_rtp_info =
     \<lparr>rtpi_url = Some ''a'', rtpi_seq_valid = True, rtpi_seq = 7, rtpi_rtptime_valid = False,
      rtpi_rtptime = 0\<rparr>"

lemma wf_example_rtp_info: "\<forall>r \<in> set [example_rtp_info]. wf_rtp_info r"
  by (simp add: wf_rtp_info_def example_rtp_info_def)

lemma rtp_info_roundtrip_witness:
  "\<exists>v. rtsp_rtp_info_header_read (Some v) 10 = Inr (0, [example_rtp_info])"
proof -
  have w: "\<exists>s'. rtsp_rtp_info_header_write (map Some [example_rtp_info]) \<lparr>rs_str = [], rs_max_len = 99\<rparr> = Inr s'"
    by (simp add: rtsp_rtp_info_header_write_def rtsp_sprintf_def rtp_info_write_one_def
        example_rtp_info_def show_nat.simps)
  then obtain s' where "rtsp_rtp_info_header_write (map Some [example_rtp_info])
      \<lparr>rs_str = [], rs_max_len = 99\<rparr> = Inr s'" ..
  from rtp_info_roundtrip [OF _ this wf_example_rtp_info, of 10] show ?thesis by (auto simp: rs_ok_def)
qed

lemma rtp_info_bad_rtptime_witness:
  "rtsp_rtp_info_header_read (Some ''url=a;seq=7,url=b;rtptime=x,url=c'') 10 = Inr (0, [example_rtp_info])"
proof -
  have "sep_by (CHR '';'') (rtp_info_fields example_rtp_info) = ''url=a;seq=7''"
    by (simp add: rtp_info_fields_def example_rtp_info_def show_nat.simps digit_char_def char_of_def bit_simps)
  moreover have "fst (snd (strtoul 10 ''x'')) \<noteq> []" "\<not> snd (snd (strtoul 10 ''x''))"
    by (simp_all add: strtoul_def scan_number_def scan_sign_def skip_0x_def isspace_def digit_in_def
      digit_val_def is_digit_def is_lower_def is_upper_def)
  ultimately show ?thesis
    using rtp_info_bad_rtptime_truncates [OF wf_example_rtp_info, of 10 "''b''" "''x''" "[''url=c'']"]
    by simp
qed

end
