(* ===== verification/RtspTransport.thy ===== *)
theory RtspTransport
  imports RtspHeaders
begin

text \<open>
  The Transport header of \<open>src/rtsp.c\<close>: \<open>rtsp_transport_header_write\<close>, \<open>process_transport_key_val\<close>
  and \<open>rtsp_transport_header_read\<close>.

  The array \<open>interleaved\<close> with \<open>interleaved_count\<close> is the list of its first \<open>interleaved_count\<close>
  pairs; the writer reading past the ten elements of the array is undefined behaviour.
\<close>

definition RTSP_MAX_INTERLEAVED_MEDIA :: nat where "RTSP_MAX_INTERLEAVED_MEDIA = 10"
definition RTSP_TRANSPORT_MAX_COUNT :: nat where "RTSP_TRANSPORT_MAX_COUNT = 5"

record rtsp_transport_header =
  transport_protocol :: "string option"
  transport_profile :: "string option"
  lower_transport :: rtsp_lower_transport
  interleaved :: "(8 word \<times> 8 word) list"
  delivery :: rtsp_delivery
  destination :: "string option"
  trsp_source :: "string option"
  layers :: "32 word"
  trsp_method :: rtsp_transport_method
  trsp_append :: bool
  ttl :: "32 word"
  src_stream_port :: "16 word"
  src_control_port :: "16 word"
  dst_stream_port :: "16 word"
  dst_control_port :: "16 word"
  ssrc_valid :: bool
  ssrc :: "32 word"

definition rtsp_transport_header_new :: rtsp_transport_header where
  "rtsp_transport_header_new =
     \<lparr>transport_protocol = None, transport_profile = None,
      lower_transport = RTSP_LOWER_TRANSPORT_UDP, interleaved = [],
      delivery = RTSP_DELIVERY_MULTICAST, destination = None, trsp_source = None, layers = 0,
      trsp_method = RTSP_TRANSPORT_METHOD_UNKNOWN, trsp_append = False, ttl = 0,
      src_stream_port = 0, src_control_port = 0, dst_stream_port = 0, dst_control_port = 0,
      ssrc_valid = False, ssrc = 0\<rparr>"

definition rtsp_transport_header_copy ::
  "rtsp_transport_header \<Rightarrow> rtsp_transport_header \<Rightarrow> rtsp_transport_header" where
  "rtsp_transport_header_copy src dst =
     dst\<lparr>transport_protocol := transport_protocol src, transport_profile := transport_profile src,
         lower_transport := lower_transport src, interleaved := interleaved src,
         delivery := delivery src, destination := destination src, trsp_source := trsp_source src,
         layers := layers src, trsp_method := trsp_method src, trsp_append := trsp_append src,
         ttl := ttl src, src_stream_port := src_stream_port src,
         src_control_port := src_control_port src, dst_stream_port := dst_stream_port src,
         dst_control_port := dst_control_port src, ssrc_valid := ssrc_valid src, ssrc := ssrc src\<rparr>"

section \<open>Writing\<close>

text \<open>\<open>uint16_t control_port\<close>: zero stands for the port after the stream port.\<close>

definition control_port :: "16 word \<Rightarrow> 16 word \<Rightarrow> 16 word" where
  "control_port stream control = (if control = 0 then stream + 1 else control)"

definition write_port_pair ::
  "string \<Rightarrow> 16 word \<Rightarrow> 16 word \<Rightarrow> rtsp_string \<Rightarrow> rtsp_string result" where
  "write_port_pair name stream control str =
     (if stream \<noteq> 0 then
        rtsp_sprintf str ('';'' @ name @ ''='' @ show_nat (unat stream) @ ''-'' @
          show_nat (unat (control_port stream control)))
      else Inr str)"

definition write_unsigned :: "string \<Rightarrow> 32 word \<Rightarrow> rtsp_string \<Rightarrow> rtsp_string result" where
  "write_unsigned name val str =
     (if val \<noteq> 0 then rtsp_sprintf str ('';'' @ name @ ''='' @ show_int (sint val)) else Inr str)"

fun write_pairs :: "bool \<Rightarrow> (8 word \<times> 8 word) list \<Rightarrow> rtsp_string \<Rightarrow> rtsp_string result" where
  "write_pairs first [] str = Inr str"
| "write_pairs first ((rtp, rtcp) # ps) str =
     bindr (if \<not> first then rtsp_sprintf str '','' else Inr str) (\<lambda>str.
     bindr (rtsp_sprintf str (show_nat (unat rtp) @ ''-'' @ show_nat (unat rtcp)))
       (write_pairs False ps))"

definition write_interleaved :: "rtsp_transport_header \<Rightarrow> rtsp_string \<Rightarrow> rtsp_string result" where
  "write_interleaved trsp str =
     (if lower_transport trsp = RTSP_LOWER_TRANSPORT_TCP \<and> length (interleaved trsp) > 0 then
        bindr (rtsp_sprintf str '';interleaved='') (\<lambda>str.
        bindr (write_pairs True (take RTSP_MAX_INTERLEAVED_MEDIA (interleaved trsp)) str) (\<lambda>str.
        if length (interleaved trsp) > RTSP_MAX_INTERLEAVED_MEDIA
        then bindr (rtsp_sprintf str '','') (\<lambda>str. Inl UB)
        else Inr str))
      else Inr str)"

definition write_opt :: "string \<Rightarrow> string option \<Rightarrow> rtsp_string \<Rightarrow> rtsp_string result" where
  "write_opt name val str =
     (case val of None \<Rightarrow> Inr str | Some v \<Rightarrow> rtsp_sprintf str ('';'' @ name @ ''='' @ v))"

definition write_ports :: "rtsp_transport_header \<Rightarrow> rtsp_string \<Rightarrow> rtsp_string result" where
  "write_ports trsp str =
     (if delivery trsp = RTSP_DELIVERY_UNICAST then
        bindr (write_port_pair ''client_port'' (dst_stream_port trsp) (dst_control_port trsp) str)
          (write_port_pair ''server_port'' (src_stream_port trsp) (src_control_port trsp))
      else write_port_pair ''port'' (dst_stream_port trsp) (dst_control_port trsp) str)"

definition transport_write_one ::
  "rtsp_transport_header \<Rightarrow> string \<Rightarrow> string \<Rightarrow> rtsp_string \<Rightarrow> rtsp_string result" where
  "transport_write_one trsp protocol profile str =
     bindr (rtsp_sprintf str
       (protocol @ ''/'' @ profile @ ''/'' @ rtsp_lower_transport_str (lower_transport trsp) @ '';'' @
        (if delivery trsp = RTSP_DELIVERY_UNICAST then ''unicast'' else ''multicast''))) (\<lambda>str.
     bindr (write_opt ''destination'' (destination trsp) str) (\<lambda>str.
     bindr (write_opt ''source'' (trsp_source trsp) str) (\<lambda>str.
     bindr (if trsp_append trsp then rtsp_sprintf str '';append'' else Inr str) (\<lambda>str.
     bindr (write_unsigned ''ttl'' (ttl trsp) str) (\<lambda>str.
     bindr (write_unsigned ''layers'' (layers trsp) str) (\<lambda>str.
     bindr (write_ports trsp str) (\<lambda>str.
     bindr (write_interleaved trsp str) (\<lambda>str.
     bindr (if ssrc_valid trsp
            then rtsp_sprintf str ('';ssrc='' @ pad0 8 (show_hex upper_digit_char (unat (ssrc trsp))))
            else Inr str) (\<lambda>str.
     if trsp_method trsp \<noteq> RTSP_TRANSPORT_METHOD_UNKNOWN
     then rtsp_sprintf str ('';mode='' @
            (if trsp_method trsp = RTSP_TRANSPORT_METHOD_RECORD then ''RECORD'' else ''PLAY''))
     else Inr str)))))))))"

text \<open>NULL pointers and entries without protocol or profile are skipped, with their separator.\<close>

definition transport_skipped :: "rtsp_transport_header option \<Rightarrow> bool" where
  "transport_skipped t \<longleftrightarrow>
     (case t of
        None \<Rightarrow> True
      | Some trsp \<Rightarrow>
          transport_protocol trsp = None \<or> transport_protocol trsp = Some [] \<or>
          transport_profile trsp = None \<or> transport_profile trsp = Some [])"

fun transport_write_from ::
  "rtsp_transport_header option list \<Rightarrow> rtsp_string \<Rightarrow> rtsp_string result" where
  "transport_write_from [] str = Inr str"
| "transport_write_from (t # ts) str =
     (if transport_skipped t then transport_write_from ts str
      else
        bindr (transport_write_one (the t) (the (transport_protocol (the t)))
                 (the (transport_profile (the t))) str) (\<lambda>str.
        bindr (if ts \<noteq> [] then rtsp_sprintf str '','' else Inr str) (transport_write_from ts)))"

definition rtsp_transport_header_write ::
  "rtsp_transport_header option list \<Rightarrow> rtsp_string \<Rightarrow> rtsp_string result" where
  "rtsp_transport_header_write transport str =
     (if transport = [] then Inl (Err (- EINVAL))
      else bindr (rtsp_sprintf str ''Transport: '') (\<lambda>str.
           bindr (transport_write_from transport str) (\<lambda>str.
           rtsp_sprintf str CRLF)))"

section \<open>Reading\<close>

definition read_port_pair :: "string \<Rightarrow> 16 word \<times> 16 word" where
  "read_port_pair val =
     (let stream = word_of_int (atoi val) in
      case strchr_cut (CHR ''-'') val of
        (_, None) \<Rightarrow> (stream, stream + 1)
      | (_, Some v) \<Rightarrow> (stream, word_of_int (atoi v)))"

text \<open>The pairs scanned before the first bad one or the eleventh.\<close>

fun read_pairs :: "nat \<Rightarrow> string list \<Rightarrow> (8 word \<times> 8 word) list" where
  "read_pairs int_idx [] = []"
| "read_pairs int_idx (pair_str # ps) =
     (if int_idx \<ge> RTSP_MAX_INTERLEAVED_MEDIA then []
      else (case sscanf_u_u pair_str of
              None \<Rightarrow> []
            | Some (rtp, rtcp) \<Rightarrow> (of_nat rtp, of_nat rtcp) # read_pairs (int_idx + 1) ps))"

text \<open>
  \<open>interleaved\<close> without a value calls \<open>strtok_r(NULL, ",", &temp)\<close> with \<open>temp\<close> uninitialised.
\<close>

definition read_interleaved ::
  "string option \<Rightarrow> rtsp_transport_header \<Rightarrow> rtsp_transport_header result" where
  "read_interleaved val trsp =
     (case val of
        None \<Rightarrow> Inl UB
      | Some v \<Rightarrow>
          (case read_pairs 0 (strtok_all {CHR '',''} v) of
             [] \<Rightarrow> Inr trsp
           | ps \<Rightarrow> Inr (trsp\<lparr>interleaved := ps\<rparr>)))"

definition process_transport_key_val ::
  "rtsp_transport_header \<Rightarrow> string \<Rightarrow> string option \<Rightarrow> rtsp_transport_header result" where
  "process_transport_key_val trsp key val =
     (if key = ''unicast'' then Inr (trsp\<lparr>delivery := RTSP_DELIVERY_UNICAST\<rparr>)
      else if key = ''multicast'' then Inr (trsp\<lparr>delivery := RTSP_DELIVERY_MULTICAST\<rparr>)
      else if key = ''append'' then Inr (trsp\<lparr>trsp_append := True\<rparr>)
      else if key = ''interleaved'' then read_interleaved val trsp
      else
        (case val of
           None \<Rightarrow> Inr trsp
         | Some v \<Rightarrow>
             if key = ''destination'' then Inr (trsp\<lparr>destination := Some v\<rparr>)
             else if key = ''source'' then Inr (trsp\<lparr>trsp_source := Some v\<rparr>)
             else if key = ''ttl'' then Inr (trsp\<lparr>ttl := word_of_int (atoi v)\<rparr>)
             else if key = ''layers'' then Inr (trsp\<lparr>layers := word_of_int (atoi v)\<rparr>)
             else if key = ''port'' \<or> key = ''client_port'' then
               (case read_port_pair v of
                  (s, c) \<Rightarrow> Inr (trsp\<lparr>dst_stream_port := s, dst_control_port := c\<rparr>))
             else if key = ''server_port'' then
               (case read_port_pair v of
                  (s, c) \<Rightarrow> Inr (trsp\<lparr>src_stream_port := s, src_control_port := c\<rparr>))
             else if key = ''ssrc'' then
               (case sscanf_08X v of
                  None \<Rightarrow> Inr trsp
                | Some x \<Rightarrow> Inr (trsp\<lparr>ssrc := x, ssrc_valid := True\<rparr>))
             else if key = ''mode'' then
               (if has_prefix_nocase v ''PLAY''
                then Inr (trsp\<lparr>trsp_method := RTSP_TRANSPORT_METHOD_PLAY\<rparr>)
                else if has_prefix_nocase v ''RECORD''
                then Inr (trsp\<lparr>trsp_method := RTSP_TRANSPORT_METHOD_RECORD\<rparr>)
                else Inr trsp)
             else Inr trsp))"

fun transport_params :: "string list \<Rightarrow> rtsp_transport_header \<Rightarrow> rtsp_transport_header result" where
  "transport_params [] trsp = Inr trsp"
| "transport_params (param # ps) trsp =
     (case key_val (CHR ''='') param of
        (None, _) \<Rightarrow> transport_params ps trsp
      | (Some key, val) \<Rightarrow>
          bindr (process_transport_key_val trsp key val) (transport_params ps))"

definition read_lower_transport :: "string option \<Rightarrow> rtsp_lower_transport option" where
  "read_lower_transport val =
     (case val of
        None \<Rightarrow> Some RTSP_LOWER_TRANSPORT_UDP
      | Some v \<Rightarrow>
          if v = ''UDP'' then Some RTSP_LOWER_TRANSPORT_UDP
          else if v = ''TCP'' then Some RTSP_LOWER_TRANSPORT_TCP
          else if v = ''MUX'' then Some RTSP_LOWER_TRANSPORT_MUX
          else None)"

text \<open>The first parameter \<open>protocol/profile[/lower-transport]\<close>; \<open>None\<close> is \<open>-EPROTO\<close>.\<close>

definition read_transport_spec :: "string \<Rightarrow> rtsp_transport_header option" where
  "read_transport_spec param =
     (case strtok_r {CHR ''/''} param of
        (protocol, temp3) \<Rightarrow>
          if protocol \<noteq> Some ''RTP'' then None
          else
            (case strtok_r {CHR ''/''} temp3 of
               (profile, temp3) \<Rightarrow>
                 if profile \<noteq> Some ''AVP'' then None
                 else
                   map_option (\<lambda>lower. rtsp_transport_header_new
                       \<lparr>transport_protocol := protocol, transport_profile := profile,
                        lower_transport := lower\<rparr>)
                     (read_lower_transport (fst (strtok_r {CHR ''/''} temp3)))))"

text \<open>The value of \<open>ret\<close> and the transports read, \<open>*count\<close> of them.\<close>

fun transport_read_from ::
  "string list \<Rightarrow> nat \<Rightarrow> (int \<times> rtsp_transport_header list) result" where
  "transport_read_from [] room = Inr (0, [])"
| "transport_read_from (trsp_str # rest) room =
     (if room = 0 then Inr (0, [])
      else
        (case strtok_all {CHR '';''} trsp_str of
           [] \<Rightarrow> transport_read_from rest room
         | param # ps \<Rightarrow>
             (case read_transport_spec param of
                None \<Rightarrow> Inr (- EPROTO, [])
              | Some trsp \<Rightarrow>
                  bindr (transport_params ps trsp) (\<lambda>trsp.
                  bindr (transport_read_from rest (room - 1)) (\<lambda>(ret, ts).
                  Inr (ret, trsp # ts))))))"

definition rtsp_transport_header_read ::
  "string option \<Rightarrow> nat \<Rightarrow> (int \<times> rtsp_transport_header list) result" where
  "rtsp_transport_header_read str max_count =
     (case str of
        None \<Rightarrow> Inl (Err (- EINVAL))
      | Some s \<Rightarrow>
          if max_count = 0 then Inl (Err (- EINVAL))
          else transport_read_from (strtok_all {CHR '',''} s) max_count)"

section \<open>The text of a Transport header\<close>

definition opt_field :: "string \<Rightarrow> string option \<Rightarrow> string list" where
  "opt_field name val = (case val of None \<Rightarrow> [] | Some v \<Rightarrow> [name @ ''='' @ v])"

definition unsigned_field :: "string \<Rightarrow> 32 word \<Rightarrow> string list" where
  "unsigned_field name val = (if val \<noteq> 0 then [name @ ''='' @ show_int (sint val)] else [])"

definition port_field :: "string \<Rightarrow> 16 word \<Rightarrow> 16 word \<Rightarrow> string list" where
  "port_field name stream control =
     (if stream \<noteq> 0 then
        [name @ ''='' @ show_nat (unat stream) @ ''-'' @ show_nat (unat (control_port stream control))]
      else [])"

definition ports_fields :: "rtsp_transport_header \<Rightarrow> string list" where
  "ports_fields t =
     (if delivery t = RTSP_DELIVERY_UNICAST then
        port_field ''client_port'' (dst_stream_port t) (dst_control_port t) @
        port_field ''server_port'' (src_stream_port t) (src_control_port t)
      else port_field ''port'' (dst_stream_port t) (dst_control_port t))"

definition pair_text :: "8 word \<times> 8 word \<Rightarrow> string" where
  "pair_text p = (case p of (rtp, rtcp) \<Rightarrow> show_nat (unat rtp) @ ''-'' @ show_nat (unat rtcp))"

definition interleaved_field :: "rtsp_transport_header \<Rightarrow> string list" where
  "interleaved_field t =
     (if lower_transport t = RTSP_LOWER_TRANSPORT_TCP \<and> interleaved t \<noteq> [] then
        [''interleaved='' @ sep_by (CHR '','') (map pair_text (interleaved t))]
      else [])"

definition ssrc_field :: "rtsp_transport_header \<Rightarrow> string list" where
  "ssrc_field t =
     (if ssrc_valid t then [''ssrc='' @ pad0 8 (show_hex upper_digit_char (unat (ssrc t)))] else [])"

definition mode_field :: "rtsp_transport_header \<Rightarrow> string list" where
  "mode_field t =
     (if trsp_method t \<noteq> RTSP_TRANSPORT_METHOD_UNKNOWN then
        [''mode='' @ (if trsp_method t = RTSP_TRANSPORT_METHOD_RECORD then ''RECORD'' else ''PLAY'')]
      else [])"

definition spec_text :: "rtsp_transport_header \<Rightarrow> string" where
  "spec_text t = the (transport_protocol t) @ ''/'' @ the (transport_profile t) @ ''/'' @
     rtsp_lower_transport_str (lower_transport t)"

definition delivery_text :: "rtsp_transport_header \<Rightarrow> string" where
  "delivery_text t = (if delivery t = RTSP_DELIVERY_UNICAST then ''unicast'' else ''multicast'')"

definition param_fields :: "rtsp_transport_header \<Rightarrow> string list" where
  "param_fields t =
     opt_field ''destination'' (destination t) @ opt_field ''source'' (trsp_source t) @
     (if trsp_append t then [''append''] else []) @ unsigned_field ''ttl'' (ttl t) @
     unsigned_field ''layers'' (layers t) @ ports_fields t @ interleaved_field t @ ssrc_field t @
     mode_field t"

definition transport_fields :: "rtsp_transport_header \<Rightarrow> string list" where
  "transport_fields t = spec_text t # delivery_text t # param_fields t"

definition semis :: "string list \<Rightarrow> string" where
  "semis fs = concat (map (\<lambda>f. CHR '';'' # f) fs)"

lemma semis_simps [simp]: "semis [] = []" "semis (f # fs) = CHR '';'' # f @ semis fs"
  "semis (fs @ gs) = semis fs @ semis gs"
  by (simp_all add: semis_def)

lemma writes_opt: "writes (write_opt n v) (semis (opt_field n v))"
  by (cases v) (simp_all add: write_opt_def [abs_def] opt_field_def writer_intros
      writes_sprintf [of "CHR '';'' # _"])

lemma writes_unsigned: "writes (write_unsigned n v) (semis (unsigned_field n v))"
  by (simp add: write_unsigned_def [abs_def] unsigned_field_def writer_intros)

lemma writes_port_pair: "writes (write_port_pair n s c) (semis (port_field n s c))"
  by (simp add: write_port_pair_def [abs_def] port_field_def writer_intros)

lemma writes_ports: "writes (write_ports t) (semis (ports_fields t))"
proof (cases "delivery t = RTSP_DELIVERY_UNICAST")
  case True
  then show ?thesis
    using writes_bind [OF writes_port_pair writes_port_pair]
    by (simp add: write_ports_def [abs_def] ports_fields_def)
next
  case False
  then show ?thesis using writes_port_pair
    by (simp add: write_ports_def [abs_def] ports_fields_def)
qed

lemma writes_pairs:
  "ps \<noteq> [] \<Longrightarrow> writes (write_pairs first ps)
     ((if first then [] else '','') @ sep_by (CHR '','') (map pair_text ps))"
proof (induction ps arbitrary: first)
  case (Cons p ps)
  obtain a b where p: "p = (a, b)" by fastforce
  have eq: "write_pairs first (p # ps) = (\<lambda>str. bindr (if \<not> first then rtsp_sprintf str '','' else Inr str)
      (\<lambda>str. bindr (rtsp_sprintf str (pair_text p)) (write_pairs False ps)))"
    by (simp add: p pair_text_def fun_eq_iff)
  have rest: "writes (write_pairs False ps)
      (if ps = [] then [] else '','' @ sep_by (CHR '','') (map pair_text ps))"
    using Cons.IH [of False] writes_skip
    by (cases ps) (simp_all add: write_pairs.simps(1) [abs_def] writes_def)
  have "writes (write_pairs first (p # ps)) ((if \<not> first then '','' else []) @ pair_text p @
     (if ps = [] then [] else '','' @ sep_by (CHR '','') (map pair_text ps)))"
    unfolding eq by (rule writer_intros rest)+
  then show ?case by (rule writes_eq) (cases ps; simp)
qed simp

definition pairs_in_bounds :: "rtsp_transport_header \<Rightarrow> bool" where
  "pairs_in_bounds t \<longleftrightarrow>
     (lower_transport t = RTSP_LOWER_TRANSPORT_TCP \<longrightarrow>
      length (interleaved t) \<le> RTSP_MAX_INTERLEAVED_MEDIA)"

lemma fails_interleaved: "\<not> pairs_in_bounds t \<Longrightarrow> fails (write_interleaved t)"
  unfolding fails_def
proof
  fix s assume t: "\<not> pairs_in_bounds t"
  let ?ps = "take RTSP_MAX_INTERLEAVED_MEDIA (interleaved t)"
  have "interleaved t \<noteq> []" using t by (auto simp: pairs_in_bounds_def)
  with t show "\<exists>e. write_interleaved t s = Inl e"
    by (cases "rtsp_sprintf s '';interleaved=''")
      (auto simp: write_interleaved_def pairs_in_bounds_def bindr_def split: sum.splits)
qed

lemma writes_interleaved:
  assumes "pairs_in_bounds t"
  shows "writes (write_interleaved t) (semis (interleaved_field t))"
proof (cases "lower_transport t = RTSP_LOWER_TRANSPORT_TCP \<and> interleaved t \<noteq> []")
  case True
  have eq: "write_interleaved t = (\<lambda>str. bindr (rtsp_sprintf str '';interleaved='')
      (\<lambda>str. bindr (write_pairs True (interleaved t) str) Inr))"
    using True assms by (simp add: write_interleaved_def pairs_in_bounds_def fun_eq_iff)
  have "writes (write_interleaved t) ('';interleaved='' @
      ((if True then [] else '','') @ sep_by (CHR '','') (map pair_text (interleaved t))) @ [])"
    unfolding eq using True by (intro writes_bind writes_sprintf writes_pairs writes_skip) simp
  with True show ?thesis by (simp add: interleaved_field_def)
next
  case False
  then show ?thesis using writes_skip
    by (auto simp: write_interleaved_def [abs_def] interleaved_field_def)
qed

lemma writes_transport_one:
  assumes "pairs_in_bounds t"
  shows "writes (transport_write_one t (the (transport_protocol t)) (the (transport_profile t)))
    (sep_by (CHR '';'') (transport_fields t))"
proof -
  have "writes (transport_write_one t (the (transport_protocol t)) (the (transport_profile t)))
    ((the (transport_protocol t) @ ''/'' @ the (transport_profile t) @ ''/'' @
      rtsp_lower_transport_str (lower_transport t) @ '';'' @
      (if delivery t = RTSP_DELIVERY_UNICAST then ''unicast'' else ''multicast'')) @
     semis (opt_field ''destination'' (destination t)) @
     semis (opt_field ''source'' (trsp_source t)) @
     (if trsp_append t then '';append'' else []) @
     semis (unsigned_field ''ttl'' (ttl t)) @
     semis (unsigned_field ''layers'' (layers t)) @
     semis (ports_fields t) @
     semis (interleaved_field t) @
     (if ssrc_valid t then '';ssrc='' @ pad0 8 (show_hex upper_digit_char (unat (ssrc t))) else []) @
     (if trsp_method t \<noteq> RTSP_TRANSPORT_METHOD_UNKNOWN then '';mode='' @
        (if trsp_method t = RTSP_TRANSPORT_METHOD_RECORD then ''RECORD'' else ''PLAY'') else []))"
    unfolding transport_write_one_def [abs_def]
    by (rule writes_bind writes_sprintf writes_opt writes_unsigned writes_ports
        writes_interleaved [OF assms] writes_if writes_skip)+
  then show ?thesis
    by (rule writes_eq)
      (simp add: transport_fields_def param_fields_def sep_by_Cons ssrc_field_def mode_field_def
        spec_text_def delivery_text_def flip: semis_def)
qed

fun transport_text :: "rtsp_transport_header option list \<Rightarrow> string" where
  "transport_text [] = []"
| "transport_text (t # ts) =
     (if transport_skipped t then []
      else sep_by (CHR '';'') (transport_fields (the t)) @ (if ts \<noteq> [] then '','' else [])) @
     transport_text ts"

definition transport_writable :: "rtsp_transport_header option list \<Rightarrow> bool" where
  "transport_writable ts \<longleftrightarrow>
     ts \<noteq> [] \<and> (\<forall>t \<in> set ts. transport_skipped t \<or> pairs_in_bounds (the t))"

lemma fails_transport_one: "\<not> pairs_in_bounds t \<Longrightarrow> fails (transport_write_one t a b)"
  unfolding transport_write_one_def [abs_def]
  by (rule fails_bind2 fails_bind1 [OF fails_interleaved] | assumption)+

lemma transport_write_cons:
  "\<not> transport_skipped r \<Longrightarrow> transport_write_from (r # ts) = (\<lambda>str.
     bindr (transport_write_one (the r) (the (transport_protocol (the r)))
       (the (transport_profile (the r))) str) (\<lambda>str.
     bindr (if ts \<noteq> [] then rtsp_sprintf str '','' else Inr str) (transport_write_from ts)))"
  "transport_skipped r \<Longrightarrow> transport_write_from (r # ts) = transport_write_from ts"
  by (simp_all add: fun_eq_iff)

lemma fails_transport_from:
  "t \<in> set ts \<Longrightarrow> \<not> transport_skipped t \<Longrightarrow> \<not> pairs_in_bounds (the t) \<Longrightarrow> fails (transport_write_from ts)"
proof (induction ts)
  case (Cons r ts)
  show ?case
  proof (cases "transport_skipped r")
    case True
    with Cons show ?thesis by (auto simp: transport_write_cons)
  next
    case False
    show ?thesis
    proof (cases "r = t")
      case True
      with Cons.prems show ?thesis
        unfolding transport_write_cons(1) [OF False] by (auto intro: fails_bind1 fails_transport_one)
    next
      case r: False
      with Cons have "fails (transport_write_from ts)" by auto
      then show ?thesis unfolding transport_write_cons(1) [OF False] by (intro fails_bind2)
    qed
  qed
qed simp

lemma writes_transport_from:
  assumes "\<forall>t \<in> set ts. transport_skipped t \<or> pairs_in_bounds (the t)"
  shows "writes (transport_write_from ts) (transport_text ts)"
  using assms
proof (induction ts)
  case Nil
  then show ?case using writes_skip by (simp add: transport_write_from.simps(1) [abs_def] writes_def)
next
  case (Cons r ts)
  then have IH: "writes (transport_write_from ts) (transport_text ts)" by simp
  show ?case
  proof (cases "transport_skipped r")
    case True
    with IH show ?thesis by (simp add: transport_write_cons)
  next
    case False
    then have len: "pairs_in_bounds (the r)" using Cons.prems by simp
    have "writes (transport_write_from (r # ts)) (sep_by (CHR '';'') (transport_fields (the r)) @
        (if ts \<noteq> [] then '','' else []) @ transport_text ts)"
      unfolding transport_write_cons(1) [OF False]
      by (rule writer_intros writes_transport_one [OF len] IH)+
    then show ?thesis by (rule writes_eq) (simp add: False)
  qed
qed

interpretation transport: bounded_writer rtsp_transport_header_write transport_writable
  "\<lambda>ts. ''Transport: '' @ transport_text ts @ CRLF"
proof
  fix ts s
  show "writes (rtsp_transport_header_write ts) (''Transport: '' @ transport_text ts @ CRLF)"
    if "transport_writable ts"
  proof -
    have ne: "ts \<noteq> []" using that by (simp add: transport_writable_def)
    show ?thesis
      unfolding rtsp_transport_header_write_def [abs_def] if_not_P [OF ne]
      using that by (intro writes_bind writes_sprintf writes_transport_from)
        (simp add: transport_writable_def)
  qed
  show "\<exists>e. rtsp_transport_header_write ts s = Inl e" if "\<not> transport_writable ts"
  proof (cases "ts = []")
    case True
    then show ?thesis by (simp add: rtsp_transport_header_write_def)
  next
    case False
    with that obtain t where "t \<in> set ts" "\<not> transport_skipped t" "\<not> pairs_in_bounds (the t)"
      by (auto simp: transport_writable_def)
    from fails_transport_from [OF this]
    have "fails (\<lambda>str. bindr (rtsp_sprintf str ''Transport: '') (\<lambda>str.
        bindr (transport_write_from ts str) (\<lambda>str. rtsp_sprintf str CRLF)))"
      by (intro fails_bind2 fails_bind1)
    then show ?thesis using False by (simp add: rtsp_transport_header_write_def fails_def)
  qed
qed

section \<open>Reading the fields back\<close>

lemma params_step:
  "key_val (CHR ''='') p = (Some k, v) \<Longrightarrow>
   transport_params (p # ps) h = bindr (process_transport_key_val h k v) (transport_params ps)"
  by simp

lemma params_key_val:
  assumes "k \<noteq> []" "CHR ''='' \<notin> set k" "v \<noteq> []"
  shows "transport_params ((k @ ''='' @ v) # ps) h =
    bindr (process_transport_key_val h k (Some v)) (transport_params ps)"
  using params_step [of "k @ ''='' @ v" k "Some v"] key_val_pair [OF assms(1,2,3)] by simp

lemma params_flag:
  assumes "k \<noteq> []" "CHR ''='' \<notin> set k"
  shows "transport_params (k # ps) h = bindr (process_transport_key_val h k None) (transport_params ps)"
  using params_step [of k k None] key_val_flag [OF assms] by simp

declare transport_params.simps(2) [simp del]

lemma atoi_show_unat16 [num_simps]:
  "r = [] \<or> \<not> is_digit (hd r) \<Longrightarrow> word_of_int (atoi (show_nat (unat (w :: 16 word)) @ r)) = w"
  using atoi_show_nat [of r "unat w"] unsigned_less [where 'a = nat and w = w] by simp

lemma show_nat_no_minus: "CHR ''-'' \<notin> set (show_nat n)"
  using show_nat_digits [of "CHR ''-''" n] by (auto simp: is_digit_def)

lemma read_port_pair_text:
  "read_port_pair (show_nat (unat s) @ ''-'' @ show_nat (unat c)) = (s, c)"
proof -
  have "strchr_cut (CHR ''-'') (show_nat (unat s) @ CHR ''-'' # show_nat (unat c)) =
      (show_nat (unat s), Some (show_nat (unat c)))"
    by (rule strchr_cut_append) (rule show_nat_no_minus)
  moreover have "word_of_int (atoi (show_nat (unat s) @ CHR ''-'' # show_nat (unat c))) = s"
    by (rule atoi_show_unat16) (simp add: is_digit_def)
  moreover have "word_of_int (atoi (show_nat (unat c))) = c"
    using atoi_show_unat16 [of "[]" c] by simp
  ultimately show ?thesis by (simp add: read_port_pair_def)
qed

lemma sscanf_pair_text: "sscanf_u_u (pair_text (a, b)) = Some (unat a, unat b)"
proof -
  have 1: "scan_number 10 (show_nat (unat a) @ CHR ''-'' # show_nat (unat b)) =
      Some (False, unat a, CHR ''-'' # show_nat (unat b))"
    by (rule scan_number_show_nat) (simp add: is_digit_def)
  have 2: "scan_number 10 (show_nat (unat b)) = Some (False, unat b, [])"
    using scan_number_show_nat [of "[]" "unat b"] by simp
  have "unat a < 2 ^ 64" "unat b < 2 ^ 64"
    using unsigned_less [where 'a = nat and w = a] unsigned_less [where 'a = nat and w = b] by simp_all
  with 1 2 show ?thesis by (simp add: sscanf_u_u_def strtoul_def pair_text_def)
qed

lemma pair_text_clean:
  "pair_text p \<noteq> []" "CHR '','' \<notin> set (pair_text p)" "CHR '';'' \<notin> set (pair_text p)"
  "CHR ''/'' \<notin> set (pair_text p)"
proof -
  have "c \<noteq> CHR '','' \<and> c \<noteq> CHR '';'' \<and> c \<noteq> CHR ''/''" if "c \<in> set (show_nat n)" for c n
    using show_nat_digits [OF that] by (auto simp: is_digit_def)
  then show "pair_text p \<noteq> []" "CHR '','' \<notin> set (pair_text p)" "CHR '';'' \<notin> set (pair_text p)"
    "CHR ''/'' \<notin> set (pair_text p)"
    by (auto simp: pair_text_def split: prod.splits)
qed

lemma params_opt:
  assumes "v \<noteq> Some []"
  shows "transport_params (opt_field ''destination'' v @ ps) h =
      transport_params ps (h\<lparr>destination := (if v = None then destination h else v)\<rparr>)"
    "transport_params (opt_field ''source'' v @ ps) h =
      transport_params ps (h\<lparr>trsp_source := (if v = None then trsp_source h else v)\<rparr>)"
  using assms params_key_val [of "''destination''" "the v"] params_key_val [of "''source''" "the v"]
  by (cases v; simp add: opt_field_def process_transport_key_val_def)+

lemma params_append:
  "transport_params ((if b then [''append''] else []) @ ps) h =
   transport_params ps (h\<lparr>trsp_append := (b \<or> trsp_append h)\<rparr>)"
  using params_flag [of "''append''"] by (simp add: process_transport_key_val_def)

lemma show_int_not_Nil: "show_int i \<noteq> []"
  by (simp add: show_int_def)

lemma params_unsigned:
  "transport_params (unsigned_field ''ttl'' v @ ps) h =
   transport_params ps (h\<lparr>ttl := (if v = 0 then ttl h else v)\<rparr>)"
  "transport_params (unsigned_field ''layers'' v @ ps) h =
   transport_params ps (h\<lparr>layers := (if v = 0 then layers h else v)\<rparr>)"
  using params_key_val [OF _ _ show_int_not_Nil, of "''ttl''"]
    params_key_val [OF _ _ show_int_not_Nil, of "''layers''"]
  by (simp_all add: unsigned_field_def process_transport_key_val_def atoi_show_sint)

lemma params_port:
  "transport_params (port_field ''client_port'' s c @ ps) h =
   transport_params ps (h\<lparr>dst_stream_port := (if s = 0 then dst_stream_port h else s), dst_control_port := (if s = 0 then dst_control_port h else control_port s c)\<rparr>)"
  "transport_params (port_field ''port'' s c @ ps) h =
   transport_params ps (h\<lparr>dst_stream_port := (if s = 0 then dst_stream_port h else s), dst_control_port := (if s = 0 then dst_control_port h else control_port s c)\<rparr>)"
  "transport_params (port_field ''server_port'' s c @ ps) h =
   transport_params ps (h\<lparr>src_stream_port := (if s = 0 then src_stream_port h else s), src_control_port := (if s = 0 then src_control_port h else control_port s c)\<rparr>)"
  using params_key_val [of "''client_port''" "show_nat (unat s) @ ''-'' @ show_nat (unat (control_port s c))"]
    params_key_val [of "''port''" "show_nat (unat s) @ ''-'' @ show_nat (unat (control_port s c))"]
    params_key_val [of "''server_port''" "show_nat (unat s) @ ''-'' @ show_nat (unat (control_port s c))"]
    read_port_pair_text [of s "control_port s c"]
  by (simp_all add: port_field_def process_transport_key_val_def)

lemma params_ssrc:
  "transport_params (ssrc_field t @ ps) h =
   transport_params ps (h\<lparr>ssrc := (if ssrc_valid t then ssrc t else ssrc h), ssrc_valid := (ssrc_valid t \<or> ssrc_valid h)\<rparr>)"
proof -
  have n: "unat (ssrc t) < 16 ^ 8" using unsigned_less [where 'a = nat and w = "ssrc t"] by simp
  have ne: "pad0 8 (show_hex upper_digit_char (unat (ssrc t))) \<noteq> []"
    using pad0_hex(1) [OF hex_printers(2) n] by auto
  show ?thesis using params_key_val [OF _ _ ne, of "''ssrc''"] sscanf_08X_pad0 [of "ssrc t"]
    by (simp add: ssrc_field_def process_transport_key_val_def)
qed

lemma params_mode:
  "transport_params (mode_field t @ ps) h =
   transport_params ps (h\<lparr>trsp_method := (if trsp_method t = RTSP_TRANSPORT_METHOD_UNKNOWN then trsp_method h else trsp_method t)\<rparr>)"
  using params_key_val [of "''mode''" "''PLAY''"] params_key_val [of "''mode''" "''RECORD''"]
  by (cases "trsp_method t")
    (simp_all add: mode_field_def process_transport_key_val_def has_prefix_nocase_def tolower_def is_upper_def)

lemma params_interleaved:
  assumes "lower_transport t = RTSP_LOWER_TRANSPORT_TCP"
    "interleaved t = [p]"
  shows "transport_params (interleaved_field t @ ps) h = transport_params ps (h\<lparr>interleaved := [p]\<rparr>)"
proof -
  obtain a b where p: "p = (a, b)" by fastforce
  have "strtok_all {CHR '',''} (sep_by (CHR '','') [pair_text p]) = [pair_text p]"
    using pair_text_clean(1,2) by (intro strtok_all_sep_by) auto
  then have "strtok_all {CHR '',''} (pair_text p) = [pair_text p]" by simp
  then have "read_interleaved (Some (pair_text p)) h = Inr (h\<lparr>interleaved := [p]\<rparr>)"
    using sscanf_pair_text [of a b] by (simp add: read_interleaved_def p RTSP_MAX_INTERLEAVED_MEDIA_def)
  then show ?thesis using params_key_val [of "''interleaved''" "pair_text p"] pair_text_clean(1) assms
    by (simp add: interleaved_field_def process_transport_key_val_def)
qed

lemma params_delivery:
  "transport_params (delivery_text t # ps) h = transport_params ps (h\<lparr>delivery := delivery t\<rparr>)"
  using params_flag [of "''unicast''"] params_flag [of "''multicast''"]
  by (cases "delivery t") (simp_all add: delivery_text_def process_transport_key_val_def)

section \<open>Round trip\<close>

text \<open>
  The transports that survive a round trip: the only protocol and profile that the reader
  accepts, texts without separators, control ports not left at zero, server ports only with
  unicast delivery, at most one interleaved pair and only over TCP.
\<close>

definition clean_value :: "string option \<Rightarrow> bool" where
  "clean_value v \<longleftrightarrow>
     (case v of None \<Rightarrow> True | Some s \<Rightarrow> s \<noteq> [] \<and> CHR '','' \<notin> set s \<and> CHR '';'' \<notin> set s)"

definition clean_ports :: "16 word \<Rightarrow> 16 word \<Rightarrow> bool" where
  "clean_ports stream control \<longleftrightarrow> control = (if stream = 0 then 0 else control_port stream control)"

definition wf_transport :: "rtsp_transport_header \<Rightarrow> bool" where
  "wf_transport t \<longleftrightarrow>
     transport_protocol t = Some ''RTP'' \<and> transport_profile t = Some ''AVP'' \<and>
     clean_value (destination t) \<and> clean_value (trsp_source t) \<and>
     clean_ports (dst_stream_port t) (dst_control_port t) \<and>
     clean_ports (src_stream_port t) (src_control_port t) \<and>
     (delivery t \<noteq> RTSP_DELIVERY_UNICAST \<longrightarrow> src_stream_port t = 0) \<and>
     (interleaved t = [] \<or>
      (lower_transport t = RTSP_LOWER_TRANSPORT_TCP \<and> length (interleaved t) = 1)) \<and>
     (\<not> ssrc_valid t \<longrightarrow> ssrc t = 0)"

lemma read_spec_text:
  assumes "transport_protocol t = Some ''RTP''" "transport_profile t = Some ''AVP''"
  shows "read_transport_spec (spec_text t) =
    Some (rtsp_transport_header_new\<lparr>transport_protocol := Some ''RTP'',
      transport_profile := Some ''AVP'', lower_transport := lower_transport t\<rparr>)"
  using assms
  by (cases "lower_transport t")
    (simp_all add: read_transport_spec_def spec_text_def strtok_r_def rtsp_lower_transport_str_def
      read_lower_transport_def)

lemma params_text:
  assumes "wf_transport t"
  shows "transport_params (delivery_text t # param_fields t)
    (rtsp_transport_header_new\<lparr>transport_protocol := Some ''RTP'',
      transport_profile := Some ''AVP'', lower_transport := lower_transport t\<rparr>) = Inr t"
proof -
  have ne: "destination t \<noteq> Some []" "trsp_source t \<noteq> Some []"
    using assms by (auto simp: wf_transport_def clean_value_def)
  have il: "transport_params (interleaved_field t @ ps) h =
      transport_params ps (h\<lparr>interleaved := (if interleaved t = [] then interleaved h else interleaved t)\<rparr>)" for ps h
  proof (cases "interleaved t")
    case Nil
    then show ?thesis by (simp add: interleaved_field_def)
  next
    case (Cons p ps)
    with assms params_interleaved [of t p] show ?thesis by (auto simp: wf_transport_def)
  qed
  have mode: "transport_params (mode_field t) h =
     Inr (h\<lparr>trsp_method := (if trsp_method t = RTSP_TRANSPORT_METHOD_UNKNOWN then trsp_method h else trsp_method t)\<rparr>)" for h
    using params_mode [of t "[]" h] by simp
  have wf: "transport_protocol t = Some ''RTP''" "transport_profile t = Some ''AVP''"
    "dst_stream_port t = 0 \<Longrightarrow> dst_control_port t = 0"
    "dst_stream_port t \<noteq> 0 \<Longrightarrow> control_port (dst_stream_port t) (dst_control_port t) = dst_control_port t"
    "src_stream_port t = 0 \<Longrightarrow> src_control_port t = 0"
    "src_stream_port t \<noteq> 0 \<Longrightarrow> control_port (src_stream_port t) (src_control_port t) = src_control_port t"
    "delivery t \<noteq> RTSP_DELIVERY_UNICAST \<Longrightarrow> src_stream_port t = 0"
    "\<not> ssrc_valid t \<Longrightarrow> ssrc t = 0"
    using assms unfolding wf_transport_def clean_ports_def by simp_all
  show ?thesis
  proof (cases "delivery t = RTSP_DELIVERY_UNICAST")
    case True
    show ?thesis
      unfolding param_fields_def params_delivery params_opt [OF ne(1)] params_opt [OF ne(2)]
        params_append params_unsigned ports_fields_def if_P [OF True] append_assoc params_port il
        params_ssrc mode
      by (rule arg_cong [where f = Inr], rule rtsp_transport_header.equality)
        (use wf True in \<open>simp_all add: rtsp_transport_header_new_def\<close>)
  next
    case False
    show ?thesis
      unfolding param_fields_def params_delivery params_opt [OF ne(1)] params_opt [OF ne(2)]
        params_append params_unsigned ports_fields_def if_not_P [OF False] append_assoc params_port il
        params_ssrc mode
      by (rule arg_cong [where f = Inr], rule rtsp_transport_header.equality)
        (use wf False in \<open>simp_all add: rtsp_transport_header_new_def\<close>)
  qed
qed

lemma number_clean:
  "c \<in> set (show_nat n) \<Longrightarrow> c \<noteq> CHR '','' \<and> c \<noteq> CHR '';''"
  "c \<in> set (show_int i) \<Longrightarrow> c \<noteq> CHR '','' \<and> c \<noteq> CHR '';''"
  using show_nat_digits [of c n] show_nat_digits [of c "nat i"] show_nat_digits [of c "nat (- i)"]
  by (auto simp: is_digit_def show_int_def split: if_splits)

lemma hex_clean: "c \<in> set (pad0 8 (show_hex upper_digit_char n)) \<Longrightarrow> c \<noteq> CHR '','' \<and> c \<noteq> CHR '';''"
  using show_hex_digits [OF hex_printers(2), of c n]
  by (auto simp: pad0_def isxdigit_def is_digit_def)

definition transport_entry :: "rtsp_transport_header \<Rightarrow> string" where
  "transport_entry t = sep_by (CHR '';'') (transport_fields t)"

definition clean_field :: "string \<Rightarrow> bool" where
  "clean_field f \<longleftrightarrow> f \<noteq> [] \<and> (\<forall>c \<in> set f. c \<noteq> CHR '','' \<and> c \<noteq> CHR '';'')"

lemma clean_fields:
  "clean_value v \<Longrightarrow> f \<in> set (opt_field ''destination'' v @ opt_field ''source'' v) \<Longrightarrow> clean_field f"
  "f \<in> set (unsigned_field ''ttl'' w @ unsigned_field ''layers'' w) \<Longrightarrow> clean_field f"
  "f \<in> set (ports_fields t) \<Longrightarrow> clean_field f"
  "f \<in> set (ssrc_field t) \<Longrightarrow> clean_field f"
  "f \<in> set (mode_field t) \<Longrightarrow> clean_field f"
  "clean_field (delivery_text t)"
  using number_clean hex_clean
  by (fastforce simp: clean_field_def opt_field_def clean_value_def unsigned_field_def
      ports_fields_def port_field_def ssrc_field_def mode_field_def delivery_text_def
      split: option.splits if_splits)+

lemma clean_interleaved:
  assumes "wf_transport t" "f \<in> set (interleaved_field t)" shows "clean_field f"
proof -
  from assms obtain p where "f = ''interleaved='' @ pair_text p"
    by (cases "interleaved t") (auto simp: interleaved_field_def wf_transport_def)
  then show ?thesis using pair_text_clean(2,3) [of p] by (auto simp: clean_field_def)
qed

lemma transport_fields_clean:
  assumes "wf_transport t" "f \<in> set (transport_fields t)" shows "clean_field f"
proof -
  have "clean_field (spec_text t)" using assms(1)
    by (cases "lower_transport t")
      (auto simp: clean_field_def spec_text_def wf_transport_def rtsp_lower_transport_str_def)
  moreover have "clean_value (destination t)" "clean_value (trsp_source t)"
    using assms(1) by (simp_all add: wf_transport_def)
  moreover have "clean_field ''append''" by (simp add: clean_field_def)
  moreover have "f = spec_text t \<or> f = delivery_text t \<or> f \<in> set (opt_field ''destination'' (destination t)) \<or>
      f \<in> set (opt_field ''source'' (trsp_source t)) \<or> f = ''append'' \<or>
      f \<in> set (unsigned_field ''ttl'' (ttl t)) \<or> f \<in> set (unsigned_field ''layers'' (layers t)) \<or>
      f \<in> set (ports_fields t) \<or> f \<in> set (interleaved_field t) \<or> f \<in> set (ssrc_field t) \<or>
      f \<in> set (mode_field t)"
    using assms(2) by (auto simp: transport_fields_def param_fields_def split: if_splits)
  ultimately show ?thesis
    using clean_fields clean_interleaved [OF assms(1), of f] by fastforce
qed

lemma strtok_transport_fields:
  assumes "wf_transport t"
  shows "strtok_all {CHR '';''} (transport_entry t) = transport_fields t"
  unfolding transport_entry_def using transport_fields_clean [OF assms]
  by (intro strtok_all_sep_by) (auto simp: clean_field_def)

lemma transport_entry_clean:
  assumes "wf_transport t"
  shows "transport_entry t \<noteq> []"
    "CHR '','' \<notin> set (transport_entry t)"
proof -
  show "transport_entry t \<noteq> []"
    by (simp add: transport_entry_def transport_fields_def sep_by_Cons spec_text_def)
  show "CHR '','' \<notin> set (transport_entry t)"
    using transport_fields_clean [OF assms]
    by (auto simp: clean_field_def transport_entry_def dest!: sep_by_chars)
qed

lemma transport_read_text:
  assumes "\<forall>t \<in> set ts. wf_transport t" "length ts \<le> room"
  shows "transport_read_from (map transport_entry ts @ rest) room =
    bindr (transport_read_from rest (room - length ts)) (\<lambda>(ret, l). Inr (ret, ts @ l))"
  using assms
proof (induction ts arbitrary: room)
  case Nil
  then show ?case by (cases "transport_read_from rest room") auto
next
  case (Cons t ts)
  then have t: "wf_transport t" by simp
  then have spec: "transport_protocol t = Some ''RTP''" "transport_profile t = Some ''AVP''"
    by (simp_all add: wf_transport_def)
  obtain n where room: "room = Suc n" using Cons.prems(2) by (cases room) auto
  have "transport_read_from (map transport_entry (t # ts) @ rest) room =
      bindr (transport_read_from (map transport_entry ts @ rest) n)
        (\<lambda>(ret, ts'). Inr (ret, t # ts'))"
    using params_text [OF t] strtok_transport_fields [OF t] read_spec_text [OF spec]
    by (simp add: room transport_fields_def)
  also have "\<dots> = bindr (transport_read_from rest (room - length (t # ts)))
      (\<lambda>(ret, l). Inr (ret, (t # ts) @ l))"
    using Cons.IH [of n] Cons.prems
    by (cases "transport_read_from rest (n - length ts)") (auto simp: room split: prod.splits)
  finally show ?case .
qed

lemma transport_text_sep_by:
  assumes "\<forall>t \<in> set ts. wf_transport t"
  shows "transport_text (map Some ts) = sep_by (CHR '','') (map transport_entry ts)"
  using assms
proof (induction ts)
  case (Cons t ts)
  then have "\<not> transport_skipped (Some t)" by (auto simp: transport_skipped_def wf_transport_def)
  with Cons show ?case by (cases ts) (simp_all add: transport_entry_def)
qed simp

lemma transport_read_header:
  assumes "\<forall>t \<in> set ts. wf_transport t" "ts \<noteq> []" "length ts \<le> max_count"
  shows "rtsp_transport_header_read (Some (transport_text (map Some ts))) max_count = Inr (0, ts)"
proof -
  have "strtok_all {CHR '',''} (sep_by (CHR '','') (map transport_entry ts)) = map transport_entry ts"
    using transport_entry_clean assms(1) by (intro strtok_all_sep_by) auto
  moreover have "0 < max_count" using assms(2,3) by (cases ts) auto
  moreover have "map (sep_by (CHR '';'') \<circ> transport_fields) ts = map transport_entry ts"
    by (simp add: transport_entry_def)
  ultimately show ?thesis
    using transport_read_text [OF assms(1,3), of "[]"] transport_text_sep_by [OF assms(1)]
    by (simp add: rtsp_transport_header_read_def)
qed

lemma semis_first_token:
  assumes "a \<noteq> []" "CHR '';'' \<notin> set a"
  shows "\<exists>l. strtok_all {CHR '';''} (a @ semis fs) = a # l"
  using strtok_all_first [OF assms] strtok_all_single [OF assms] by (cases fs) auto

lemma read_spec_pair: "read_transport_spec (pair_text p) = None"
proof -
  have "strtok_r {CHR ''/''} (pair_text p) = (Some (pair_text p), [])"
    using pair_text_clean [of p] by (intro strtok_r_last) auto
  moreover have "CHR ''-'' \<in> set (pair_text p)" by (cases p) (simp add: pair_text_def)
  then have "pair_text p \<noteq> ''RTP''" by auto
  ultimately show ?thesis by (simp add: read_transport_spec_def)
qed

lemma transport_params_append:
  "transport_params (xs @ ys) h = bindr (transport_params xs h) (transport_params ys)"
proof (induction xs arbitrary: h)
  case (Cons x xs)
  then have IH: "transport_params (xs @ ys) = (\<lambda>h. bindr (transport_params xs h) (transport_params ys))"
    by (simp add: fun_eq_iff)
  obtain k v where "key_val (CHR ''='') x = (k, v)" by fastforce
  then show ?case by (cases k) (simp_all add: transport_params.simps IH bindr_assoc)
qed simp

text \<open>
  C32: Reading the Transport header that was written gives back the transports, as long as they
  are RTP/AVP, their texts have no separators and they have at most one interleaved pair.
\<close>

theorem transport_roundtrip:
  assumes "rs_ok s" "rtsp_transport_header_write (map Some ts) s = Inr s'"
    and "\<forall>t \<in> set ts. wf_transport t" "length ts \<le> max_count"
  shows "\<exists>v. rs_str s' = rs_str s @ ''Transport: '' @ v @ CRLF \<and>
    rtsp_transport_header_read (Some v) max_count = Inr (0, ts)"
proof -
  have ne: "ts \<noteq> []" using assms(2) by (auto simp: rtsp_transport_header_write_def)
  from transport.write_success(1) [OF assms(1,2)] transport_read_header [OF assms(3) ne assms(4)]
  show ?thesis by blast
qed

definition example_transport :: rtsp_transport_header where
  "example_transport = rtsp_transport_header_new
     \<lparr>transport_protocol := Some ''RTP'', transport_profile := Some ''AVP'',
      lower_transport := RTSP_LOWER_TRANSPORT_TCP, delivery := RTSP_DELIVERY_UNICAST,
      interleaved := [(0, 1)]\<rparr>"

lemma wf_example_transport: "wf_transport example_transport"
  by (simp add: wf_transport_def example_transport_def rtsp_transport_header_new_def
      clean_value_def clean_ports_def)

lemma transport_roundtrip_witness:
  "\<exists>v. rtsp_transport_header_read (Some v) 5 = Inr (0, [example_transport])"
proof -
  let ?s = "\<lparr>rs_str = [], rs_max_len = 100\<rparr>"
  have w: "transport_writable (map Some [example_transport])"
    by (simp add: transport_writable_def pairs_in_bounds_def example_transport_def
        RTSP_MAX_INTERLEAVED_MEDIA_def)
  have "length (''Transport: '' @ transport_text (map Some [example_transport]) @ CRLF) < 100"
    by (simp add: transport_skipped_def example_transport_def rtsp_transport_header_new_def
        transport_fields_def param_fields_def spec_text_def delivery_text_def opt_field_def
        unsigned_field_def ports_fields_def port_field_def interleaved_field_def ssrc_field_def
        mode_field_def rtsp_lower_transport_str_def pair_text_def show_nat.simps)
  with transport.write_fits [OF w, of ?s] obtain s'
    where "rtsp_transport_header_write (map Some [example_transport]) ?s = Inr s'" by auto
  from transport_roundtrip [OF _ this, of 5] show ?thesis
    using wf_example_transport by (auto simp: rs_ok_def)
qed

text \<open>After the first pair, the comma starts a token that begins with the second pair.\<close>

lemma second_pair_token:
  "\<exists>tok more l. strtok_all {CHR '',''} (sep_by (CHR '','') (map pair_text (q # ps)) @ semis (ssrc_field t @ mode_field t)) =
    tok # more \<and> strtok_all {CHR '';''} tok = pair_text q # l"
proof -
  have "\<forall>f \<in> set (ssrc_field t @ mode_field t). clean_field f"
    using clean_fields(4,5) by auto
  then have clean: "CHR '','' \<notin> set (semis (ssrc_field t @ mode_field t))"
    by (auto simp: semis_def clean_field_def)
  show ?thesis
  proof (cases ps)
    case Nil
    have "strtok_all {CHR '',''} (pair_text q @ semis (ssrc_field t @ mode_field t)) =
        [pair_text q @ semis (ssrc_field t @ mode_field t)]"
      using pair_text_clean(1,2) [of q] clean by (intro strtok_all_single) auto
    with Nil semis_first_token [OF pair_text_clean(1,3), of q "ssrc_field t @ mode_field t"]
    show ?thesis by auto
  next
    case (Cons r rs)
    have "strtok_all {CHR '',''} (pair_text q @ CHR '','' # x) = pair_text q # strtok_all {CHR '',''} x" for x
      using pair_text_clean(1,2) by (rule strtok_all_first)
    with Cons semis_first_token [OF pair_text_clean(1,3), of q "[]"] show ?thesis by auto
  qed
qed

text \<open>
  C36: A Transport header with two or more interleaved pairs cannot be read back: the pairs are
  separated by the comma that also separates transports, so the reader takes the second pair for a
  transport and fails with \<open>-EPROTO\<close>.
\<close>

theorem transport_pairs_unreadable:
  assumes "rs_ok s" "rtsp_transport_header_write [Some t] s = Inr s'"
    and "interleaved t = p # q # ps" "wf_transport (t\<lparr>interleaved := [p]\<rparr>)" "2 \<le> max_count"
  shows "\<exists>v l. rs_str s' = rs_str s @ ''Transport: '' @ v @ CRLF \<and>
    rtsp_transport_header_read (Some v) max_count = Inr (- EPROTO, l)"
proof -
  let ?u = "t\<lparr>interleaved := [p], ssrc := 0, ssrc_valid := False,
    trsp_method := RTSP_TRANSPORT_METHOD_UNKNOWN\<rparr>"
  let ?rest = "sep_by (CHR '','') (map pair_text (q # ps)) @ semis (ssrc_field t @ mode_field t)"
  have tcp: "lower_transport t = RTSP_LOWER_TRANSPORT_TCP" and wf: "wf_transport ?u"
    using assms(4) by (simp_all add: wf_transport_def)
  have skip: "\<not> transport_skipped (Some t)"
    using assms(4) by (auto simp: transport_skipped_def wf_transport_def)
  have pre: "transport_text [Some t] = transport_entry ?u @ CHR '','' # ?rest"
    using skip tcp assms(3)
    by (simp add: transport_entry_def transport_fields_def param_fields_def sep_by_Cons
        spec_text_def delivery_text_def interleaved_field_def ports_fields_def ssrc_field_def mode_field_def
        flip: semis_def)
  obtain tok more l where tok: "strtok_all {CHR '',''} ?rest = tok # more"
    and l: "strtok_all {CHR '';''} tok = pair_text q # l"
    using second_pair_token by blast
  obtain n where n: "max_count = Suc (Suc n)" using assms(5) that [of "max_count - 2"] by simp
  have "strtok_all {CHR '',''} (transport_text [Some t]) = transport_entry ?u # strtok_all {CHR '',''} ?rest"
    unfolding pre using transport_entry_clean [OF wf] by (rule strtok_all_first)
  moreover have "transport_read_from (tok # more) (Suc n) = Inr (- EPROTO, [])"
    using l read_spec_pair by simp
  ultimately have "rtsp_transport_header_read (Some (transport_text [Some t])) max_count = Inr (- EPROTO, [?u])"
    using transport_read_text [of "[?u]" max_count "tok # more"] wf n tok
    by (simp add: rtsp_transport_header_read_def)
  then show ?thesis using transport.write_success(1) [OF assms(1,2)] by blast
qed

lemma transport_pairs_unreadable_witness:
  "\<exists>v l. rtsp_transport_header_read (Some v) 5 = Inr (- EPROTO, l)"
proof -
  let ?s = "\<lparr>rs_str = [], rs_max_len = 100\<rparr>" let ?t = "example_transport\<lparr>interleaved := [(0, 1), (2, 3)]\<rparr>"
  have w: "transport_writable [Some ?t]"
    by (simp add: transport_writable_def pairs_in_bounds_def RTSP_MAX_INTERLEAVED_MEDIA_def)
  have "length (''Transport: '' @ transport_text [Some ?t] @ CRLF) < 100"
    by (simp add: transport_skipped_def example_transport_def rtsp_transport_header_new_def
        transport_fields_def param_fields_def spec_text_def delivery_text_def opt_field_def
        unsigned_field_def ports_fields_def port_field_def interleaved_field_def ssrc_field_def
        mode_field_def rtsp_lower_transport_str_def pair_text_def show_nat.simps)
  with transport.write_fits [OF w, of ?s] obtain s' where "rtsp_transport_header_write [Some ?t] ?s = Inr s'"
    by auto
  moreover have "wf_transport (?t\<lparr>interleaved := [(0, 1)]\<rparr>)"
    using wf_example_transport by (simp add: example_transport_def)
  ultimately show ?thesis
    using transport_pairs_unreadable [of ?s ?t s' "(0, 1)" "(2, 3)" "[]" 5] by (auto simp: rs_ok_def)
qed

text \<open>
  An \<open>interleaved\<close> parameter without a value makes the reader use an uninitialised pointer,
  whatever well-formed transport precedes it: the header \<open>RTP/AVP/TCP;unicast;interleaved\<close> sent by
  a peer is undefined behaviour.
\<close>

theorem transport_interleaved_no_value_undefined:
  assumes "wf_transport t" "0 < max_count"
  shows "rtsp_transport_header_read (Some (transport_entry t @ '';interleaved'')) max_count = Inl UB"
proof -
  have e: "transport_entry t @ '';interleaved'' = sep_by (CHR '';'') (transport_fields t @ [''interleaved''])"
    by (simp add: transport_entry_def transport_fields_def sep_by_Cons)
  have "strtok_all {CHR '',''} (transport_entry t @ '';interleaved'') = [transport_entry t @ '';interleaved'']"
    using transport_entry_clean [OF assms(1)] by (intro strtok_all_single) auto
  moreover have "strtok_all {CHR '';''} (transport_entry t @ '';interleaved'') =
      transport_fields t @ [''interleaved'']"
    unfolding e using transport_fields_clean [OF assms(1)]
    by (intro strtok_all_sep_by) (auto simp: clean_field_def)
  moreover have "transport_params [''interleaved''] h = Inl UB" for h
    using params_flag [of "''interleaved''" "[]" h]
    by (simp add: process_transport_key_val_def read_interleaved_def)
  moreover have "transport_protocol t = Some ''RTP''" "transport_profile t = Some ''AVP''"
    using assms(1) by (simp_all add: wf_transport_def)
  ultimately show ?thesis
    using assms(2) read_spec_text [of t] params_text [OF assms(1)]
      transport_params_append [of "delivery_text t # param_fields t" "[''interleaved'']"]
    by (simp add: rtsp_transport_header_read_def transport_fields_def)
qed

lemma transport_interleaved_no_value_witness:
  "rtsp_transport_header_read (Some (transport_entry example_transport @ '';interleaved'')) 5 = Inl UB"
  by (rule transport_interleaved_no_value_undefined [OF wf_example_transport]) simp

end
