(* ===== verification/RtspAuth.thy ===== *)
theory RtspAuth
  imports RtspHeaders RtspBase64
begin

text \<open>
  Authentication: the enumerations and the response computation of \<open>src/rtsp_auth.c\<close>, and the
  Authorization header of \<open>src/rtsp.c\<close>. MD5 is the parameter \<open>md5\<close> (the 16 bytes of the digest of a
  text); the random client nonce of \<open>futils_random_base16\<close> is an argument.
\<close>

section \<open>Enumerations\<close>

datatype rtsp_auth_type = RTSP_AUTH_TYPE_UNKNOWN | RTSP_AUTH_TYPE_BASIC | RTSP_AUTH_TYPE_DIGEST

datatype rtsp_auth_algorithm =
  RTSP_AUTH_ALGORITHM_UNKNOWN | RTSP_AUTH_ALGORITHM_UNSPECIFIED
| RTSP_AUTH_ALGORITHM_MD5 | RTSP_AUTH_ALGORITHM_MD5_SESS

datatype rtsp_auth_qop =
  RTSP_AUTH_QOP_UNKNOWN | RTSP_AUTH_QOP_UNSPECIFIED | RTSP_AUTH_QOP_AUTH | RTSP_AUTH_QOP_AUTH_INT

definition rtsp_auth_type_str :: "rtsp_auth_type \<Rightarrow> string option" where
  "rtsp_auth_type_str v =
     (case v of
        RTSP_AUTH_TYPE_BASIC \<Rightarrow> Some ''Basic''
      | RTSP_AUTH_TYPE_DIGEST \<Rightarrow> Some ''Digest''
      | _ \<Rightarrow> None)"

definition rtsp_auth_type_from_str :: "string option \<Rightarrow> rtsp_auth_type" where
  "rtsp_auth_type_from_str str =
     (case str of
        None \<Rightarrow> RTSP_AUTH_TYPE_UNKNOWN
      | Some s \<Rightarrow>
          if strcaseeq s ''Basic'' then RTSP_AUTH_TYPE_BASIC
          else if strcaseeq s ''Digest'' then RTSP_AUTH_TYPE_DIGEST
          else RTSP_AUTH_TYPE_UNKNOWN)"

definition rtsp_auth_algorithm_str :: "rtsp_auth_algorithm \<Rightarrow> string option" where
  "rtsp_auth_algorithm_str v =
     (case v of
        RTSP_AUTH_ALGORITHM_MD5 \<Rightarrow> Some ''MD5''
      | RTSP_AUTH_ALGORITHM_MD5_SESS \<Rightarrow> Some ''MD5-sess''
      | _ \<Rightarrow> None)"

definition rtsp_auth_algorithm_from_str :: "string option \<Rightarrow> rtsp_auth_algorithm" where
  "rtsp_auth_algorithm_from_str str =
     (case str of
        None \<Rightarrow> RTSP_AUTH_ALGORITHM_UNSPECIFIED
      | Some s \<Rightarrow>
          if s = [] then RTSP_AUTH_ALGORITHM_UNSPECIFIED
          else if strcaseeq s ''MD5'' then RTSP_AUTH_ALGORITHM_MD5
          else if strcaseeq s ''MD5-sess'' then RTSP_AUTH_ALGORITHM_MD5_SESS
          else RTSP_AUTH_ALGORITHM_UNKNOWN)"

definition rtsp_auth_qop_str :: "rtsp_auth_qop \<Rightarrow> string option" where
  "rtsp_auth_qop_str v =
     (case v of
        RTSP_AUTH_QOP_AUTH \<Rightarrow> Some ''auth''
      | RTSP_AUTH_QOP_AUTH_INT \<Rightarrow> Some ''auth-int''
      | _ \<Rightarrow> None)"

definition rtsp_auth_qop_from_str :: "string option \<Rightarrow> rtsp_auth_qop" where
  "rtsp_auth_qop_from_str str =
     (case str of
        None \<Rightarrow> RTSP_AUTH_QOP_UNSPECIFIED
      | Some s \<Rightarrow>
          if s = [] then RTSP_AUTH_QOP_UNSPECIFIED
          else if strcaseeq s ''auth'' then RTSP_AUTH_QOP_AUTH
          else if strcaseeq s ''auth-int'' then RTSP_AUTH_QOP_AUTH_INT
          else RTSP_AUTH_QOP_UNKNOWN)"

section \<open>The header\<close>

record rtsp_authorization_header =
  auth_type :: rtsp_auth_type
  auth_algorithm :: rtsp_auth_algorithm
  auth_username :: "string option"
  auth_uri :: "string option"
  auth_response :: "string option"
  auth_cnonce :: "string option"
  auth_nc :: "32 word"
  auth_credentials :: "string option"
  auth_realm :: "string option"
  auth_nonce :: "string option"
  auth_opaque :: "string option"
  auth_qop :: rtsp_auth_qop

definition rtsp_authorization_header_new :: rtsp_authorization_header where
  "rtsp_authorization_header_new =
     \<lparr>auth_type = RTSP_AUTH_TYPE_UNKNOWN, auth_algorithm = RTSP_AUTH_ALGORITHM_UNSPECIFIED,
      auth_username = None, auth_uri = None, auth_response = None, auth_cnonce = None, auth_nc = 0,
      auth_credentials = None, auth_realm = None, auth_nonce = None, auth_opaque = None,
      auth_qop = RTSP_AUTH_QOP_UNSPECIFIED\<rparr>"

definition rtsp_authorization_header_copy ::
  "rtsp_authorization_header \<Rightarrow> rtsp_authorization_header \<Rightarrow> rtsp_authorization_header" where
  "rtsp_authorization_header_copy src dst =
     dst\<lparr>auth_type := auth_type src, auth_credentials := auth_credentials src,
         auth_username := auth_username src, auth_realm := auth_realm src,
         auth_nonce := auth_nonce src, auth_uri := auth_uri src, auth_response := auth_response src,
         auth_algorithm := auth_algorithm src, auth_opaque := auth_opaque src,
         auth_qop := auth_qop src, auth_cnonce := auth_cnonce src, auth_nc := auth_nc src\<rparr>"

definition rtsp_authorization_header_copy_server_fields ::
  "rtsp_authorization_header \<Rightarrow> rtsp_authorization_header \<Rightarrow> rtsp_authorization_header" where
  "rtsp_authorization_header_copy_server_fields src dst =
     dst\<lparr>auth_type := auth_type src, auth_realm := auth_realm src, auth_nonce := auth_nonce src,
         auth_opaque := auth_opaque src, auth_algorithm := auth_algorithm src,
         auth_qop := auth_qop src\<rparr>"

definition rtsp_authorization_header_copy_client_fields ::
  "rtsp_authorization_header \<Rightarrow> rtsp_authorization_header \<Rightarrow> rtsp_authorization_header" where
  "rtsp_authorization_header_copy_client_fields src dst =
     dst\<lparr>auth_username := auth_username src, auth_credentials := auth_credentials src,
         auth_uri := auth_uri src, auth_response := auth_response src,
         auth_cnonce := auth_cnonce src, auth_nc := auth_nc src\<rparr>"

definition rtsp_auth_nc_str :: "nat \<Rightarrow> 32 word \<Rightarrow> string result" where
  "rtsp_auth_nc_str len nc =
     (if len < 9 then Inl (Err (- EINVAL))
      else
        let s = pad0 8 (show_hex digit_char (unat nc)) in
        if length s \<ge> len then Inl (Err (- ENOBUFS)) else Inr s)"

subsection \<open>Writing\<close>

text \<open>\<open>APPEND_FIELD\<close> over the fields of a digest, in the order of the code.\<close>

fun append_fields :: "bool \<Rightarrow> (string \<times> string option) list \<Rightarrow> rtsp_string \<Rightarrow> rtsp_string result" where
  "append_fields first [] str = Inr str"
| "append_fields first ((name, value) # fs) str =
     (case value of
        None \<Rightarrow> append_fields first fs str
      | Some v \<Rightarrow>
          bindr (if \<not> first then rtsp_sprintf str '', '' else Inr str) (\<lambda>str.
          bindr (rtsp_sprintf str (name @ ''='' @ [DQUOTE] @ v @ [DQUOTE]))
            (append_fields False fs)))"

definition digest_params :: "rtsp_authorization_header \<Rightarrow> (string \<times> string option) list" where
  "digest_params auth =
     [(''username'', auth_username auth), (''realm'', auth_realm auth), (''nonce'', auth_nonce auth),
      (''uri'', auth_uri auth), (''response'', auth_response auth),
      (''algorithm'', rtsp_auth_algorithm_str (auth_algorithm auth)),
      (''opaque'', if auth_opaque auth \<noteq> Some [] then auth_opaque auth else None)] @
     (if auth_qop auth \<noteq> RTSP_AUTH_QOP_UNKNOWN \<and> auth_qop auth \<noteq> RTSP_AUTH_QOP_UNSPECIFIED then
        [(''qop'', rtsp_auth_qop_str (auth_qop auth)), (''cnonce'', auth_cnonce auth),
         (''nc'', case rtsp_auth_nc_str 9 (auth_nc auth) of Inl _ \<Rightarrow> None | Inr s \<Rightarrow> Some s)]
      else [])"

definition rtsp_authorization_header_write ::
  "rtsp_authorization_header \<Rightarrow> rtsp_string \<Rightarrow> rtsp_string result" where
  "rtsp_authorization_header_write auth str =
     bindr (rtsp_sprintf str ''Authorization: '') (\<lambda>str.
     case auth_type auth of
       RTSP_AUTH_TYPE_BASIC \<Rightarrow>
         (case auth_credentials auth of
            None \<Rightarrow> Inl (Err (- EPROTO))
          | Some c \<Rightarrow>
              if c = [] then Inl (Err (- EPROTO))
              else bindr (rtsp_sprintf str (''Basic'' @ '' '' @ c)) (\<lambda>str. rtsp_sprintf str CRLF))
     | RTSP_AUTH_TYPE_DIGEST \<Rightarrow>
         if auth_response auth = None \<or> auth_response auth = Some [] then Inr str
         else bindr (rtsp_sprintf str (''Digest'' @ '' '')) (\<lambda>str.
              bindr (append_fields True (digest_params auth) str) (\<lambda>str. rtsp_sprintf str CRLF))
     | RTSP_AUTH_TYPE_UNKNOWN \<Rightarrow> Inl (Err (- EPROTO)))"

subsection \<open>Reading\<close>

definition strip_quotes :: "string option \<Rightarrow> string option" where
  "strip_quotes s =
     (case s of
        None \<Rightarrow> None
      | Some t \<Rightarrow>
          if length t \<ge> 4096 then None
          else if length t \<ge> 2 \<and> hd t = DQUOTE \<and> last t = DQUOTE then Some (butlast (tl t))
          else Some t)"

definition process_authorization_key_val ::
  "rtsp_authorization_header \<Rightarrow> string \<Rightarrow> string option \<Rightarrow> rtsp_authorization_header" where
  "process_authorization_key_val auth key val =
     (let v = strip_quotes val in
      if key = ''username'' then auth\<lparr>auth_username := v\<rparr>
      else if key = ''realm'' then auth\<lparr>auth_realm := v\<rparr>
      else if key = ''nonce'' then auth\<lparr>auth_nonce := v\<rparr>
      else if key = ''uri'' then auth\<lparr>auth_uri := v\<rparr>
      else if key = ''response'' then auth\<lparr>auth_response := v\<rparr>
      else if key = ''algorithm'' then auth\<lparr>auth_algorithm := rtsp_auth_algorithm_from_str v\<rparr>
      else if key = ''opaque'' then auth\<lparr>auth_opaque := v\<rparr>
      else if key = ''qop'' then auth\<lparr>auth_qop := rtsp_auth_qop_from_str v\<rparr>
      else if key = ''cnonce'' then auth\<lparr>auth_cnonce := v\<rparr>
      else if key = ''nc'' then
        (case v of
           None \<Rightarrow> auth
         | Some s \<Rightarrow>
             (case strtoul 16 s of
                (parsed, endptr, erange) \<Rightarrow>
                  if erange \<or> parsed > 4294967295 \<or> endptr = s \<or> endptr \<noteq> [] then auth
                  else auth\<lparr>auth_nc := of_nat parsed\<rparr>))
      else auth)"

definition parse_digest_auth_param ::
  "rtsp_authorization_header \<Rightarrow> string \<Rightarrow> rtsp_authorization_header" where
  "parse_digest_auth_param auth param =
     (case key_val (CHR ''='') param of
        (None, _) \<Rightarrow> auth
      | (Some key, val) \<Rightarrow>
          process_authorization_key_val auth (skip_spaces key) (map_option skip_spaces val))"

definition rtsp_authorization_header_read :: "string option \<Rightarrow> rtsp_authorization_header result" where
  "rtsp_authorization_header_read str =
     (case str of
        None \<Rightarrow> Inl (Err (- EINVAL))
      | Some s \<Rightarrow>
          (case strtok_r {CHR '' ''} s of
             (None, _) \<Rightarrow> Inl (Err (- EPROTO))
           | (Some token, temp) \<Rightarrow>
               if strcaseeq token ''Basic'' then
                 (let auth = rtsp_authorization_header_new\<lparr>auth_type := RTSP_AUTH_TYPE_BASIC\<rparr> in
                  case strtok_r {CHR '' ''} temp of
                    (None, _) \<Rightarrow> Inl (Err (- EPROTO))
                  | (Some param, _) \<Rightarrow>
                      if has_prefix_nocase param ''realm='' then
                        (case key_val (CHR ''='') param of
                           (None, _) \<Rightarrow> Inl UB
                         | (Some key, val) \<Rightarrow> Inr (process_authorization_key_val auth key val))
                      else Inr (auth\<lparr>auth_credentials := Some param\<rparr>))
               else if strcaseeq token ''Digest'' then
                 Inr (foldl parse_digest_auth_param
                        (rtsp_authorization_header_new\<lparr>auth_type := RTSP_AUTH_TYPE_DIGEST\<rparr>)
                        (strtok_all {CHR '',''} temp))
               else Inl (Err (- EPROTO))))"

section \<open>Responses\<close>

definition hex2 :: "8 word \<Rightarrow> string" where
  "hex2 b = pad0 2 (show_hex digit_char (unat b))"

text \<open>\<open>md5_hex_fmt\<close> on the formatted text; the text must fit \<open>char buf[1024]\<close>.\<close>

definition md5_hex_fmt :: "(string \<Rightarrow> 8 word list) \<Rightarrow> string \<Rightarrow> string result" where
  "md5_hex_fmt md5 text =
     (if length text \<ge> 1024 then Inl (Err (- EINVAL))
      else Inr (concat (map hex2 (take 16 (md5 text)))))"

definition bytes_of :: "string \<Rightarrow> 8 word list" where
  "bytes_of s = map (\<lambda>c. of_nat (code c)) s"

definition rtsp_auth_generate_basic_response ::
  "rtsp_authorization_header \<Rightarrow> string option \<Rightarrow> rtsp_authorization_header result" where
  "rtsp_auth_generate_basic_response auth password =
     (case password of
        None \<Rightarrow> Inl (Err (- EINVAL))
      | Some pw \<Rightarrow>
          if auth_type auth \<noteq> RTSP_AUTH_TYPE_BASIC then Inl (Err (- EINVAL))
          else
            (case auth_username auth of
               None \<Rightarrow> Inl (Err (- EINVAL))
             | Some user \<Rightarrow>
                 bindr (rtsp_base64_encode (Some (bytes_of (user @ '':'' @ pw))))
                   (\<lambda>c. Inr (auth\<lparr>auth_credentials := Some c\<rparr>))))"

definition next_nc :: "32 word \<Rightarrow> 32 word" where
  "next_nc nc = (if nc + 1 = 0 then 1 else nc + 1)"

text \<open>
  The checks of \<open>rtsp_auth_generate_digest_response\<close> before it changes the header. \<open>nonce_len\<close> is
  capped at 256 by \<open>strnlen\<close>, so that its upper bound never fails, and likewise for the cnonce.
\<close>

definition digest_check :: "rtsp_authorization_header \<Rightarrow> string option \<Rightarrow> unit result" where
  "digest_check auth password =
     (if password = None then Inl (Err (- EINVAL))
      else if auth_type auth \<noteq> RTSP_AUTH_TYPE_DIGEST then Inl (Err (- EINVAL))
      else if auth_username auth = None then Inl (Err (- EINVAL))
      else if auth_realm auth = None then Inl (Err (- EINVAL))
      else if auth_uri auth = None then Inl (Err (- EINVAL))
      else if auth_nonce auth = None then Inl (Err (- EINVAL))
      else if min (length (the (auth_nonce auth))) 256 = 0 \<or>
              min (length (the (auth_nonce auth))) 256 > 256 then Inl (Err (- EINVAL))
      else if auth_algorithm auth = RTSP_AUTH_ALGORITHM_UNKNOWN then Inl (Err (- EINVAL))
      else if auth_qop auth = RTSP_AUTH_QOP_UNKNOWN then Inl (Err (- EINVAL))
      else if auth_qop auth = RTSP_AUTH_QOP_AUTH_INT then Inl (Err (- ENOSYS))
      else Inr ())"

definition digest_cnonce :: "string option \<Rightarrow> string result \<Rightarrow> string result" where
  "digest_cnonce cnonce random =
     (case cnonce of
        None \<Rightarrow> random
      | Some c \<Rightarrow>
          if c = [] then random
          else if min (length c) 64 < 4 \<or> min (length c) 64 > 64 then Inl (Err (- EINVAL))
          else Inr c)"

definition digest_ha1 ::
  "(string \<Rightarrow> 8 word list) \<Rightarrow> rtsp_authorization_header \<Rightarrow> string \<Rightarrow> string result" where
  "digest_ha1 md5 auth password =
     bindr (md5_hex_fmt md5 (the (auth_username auth) @ '':'' @ the (auth_realm auth) @ '':'' @ password)) (\<lambda>ha1.
     if auth_algorithm auth = RTSP_AUTH_ALGORITHM_MD5_SESS
     then md5_hex_fmt md5 (ha1 @ '':'' @ the (auth_nonce auth) @ '':'' @ the (auth_cnonce auth))
     else Inr ha1)"

definition digest_text ::
  "rtsp_authorization_header \<Rightarrow> string \<Rightarrow> string \<Rightarrow> string \<Rightarrow> string" where
  "digest_text auth nc_str ha1 ha2 =
     (if auth_qop auth = RTSP_AUTH_QOP_AUTH then
        ha1 @ '':'' @ the (auth_nonce auth) @ '':'' @ nc_str @ '':'' @ the (auth_cnonce auth) @ '':'' @
        the (rtsp_auth_qop_str (auth_qop auth)) @ '':'' @ ha2
      else ha1 @ '':'' @ the (auth_nonce auth) @ '':'' @ ha2)"

text \<open>
  The 33 bytes of the response go into the block that \<open>auth->response\<close> points to, of
  \<open>strlen + 1\<close> bytes when it was set by \<open>strdup\<close>: with fewer than 32 characters this is an overflow.
\<close>

definition store_response ::
  "rtsp_authorization_header \<Rightarrow> string \<Rightarrow> rtsp_authorization_header result" where
  "store_response auth response =
     (case auth_response auth of
        None \<Rightarrow> Inr (auth\<lparr>auth_response := Some response\<rparr>)
      | Some old \<Rightarrow>
          if length old < 32 then Inl UB else Inr (auth\<lparr>auth_response := Some response\<rparr>))"

definition rtsp_auth_generate_digest_response ::
  "(string \<Rightarrow> 8 word list) \<Rightarrow> string result \<Rightarrow> rtsp_authorization_header \<Rightarrow> string option \<Rightarrow>
   rtsp_method_type \<Rightarrow> rtsp_authorization_header result" where
  "rtsp_auth_generate_digest_response md5 random auth password method_type =
     bindr (digest_check auth password) (\<lambda>_.
     bindr (digest_cnonce (auth_cnonce auth) random) (\<lambda>cnonce.
     let auth = auth\<lparr>auth_cnonce := Some cnonce, auth_nc := next_nc (auth_nc auth)\<rparr> in
     bindr (rtsp_auth_nc_str 9 (auth_nc auth)) (\<lambda>nc_str.
     bindr (digest_ha1 md5 auth (the password)) (\<lambda>ha1.
     bindr (md5_hex_fmt md5 (rtsp_method_type_str method_type @ '':'' @ the (auth_uri auth))) (\<lambda>ha2.
     bindr (md5_hex_fmt md5 (digest_text auth nc_str ha1 ha2)) (\<lambda>response.
     store_response auth response))))))"

section \<open>The text of an Authorization header\<close>

definition quoted :: "string \<times> string \<Rightarrow> string" where
  "quoted f = (case f of (name, v) \<Rightarrow> name @ ''='' @ [DQUOTE] @ v @ [DQUOTE])"

definition present :: "(string \<times> string option) list \<Rightarrow> (string \<times> string) list" where
  "present fs = map (\<lambda>(n, v). (n, the v)) (filter (\<lambda>(n, v). v \<noteq> None) fs)"

fun spaced :: "bool \<Rightarrow> (string \<times> string) list \<Rightarrow> string" where
  "spaced first [] = []"
| "spaced first (f # fs) = (if first then [] else '', '') @ quoted f @ spaced False fs"

lemma present_simps [simp]:
  "present [] = []" "present ((n, None) # fs) = present fs"
  "present ((n, Some v) # fs) = (n, v) # present fs"
  "present (fs @ gs) = present fs @ present gs"
  by (simp_all add: present_def)

lemma writes_append_fields: "writes (append_fields first fs) (spaced first (present fs))"
proof (induction fs arbitrary: first)
  case Nil
  then show ?case using writes_skip by (simp add: append_fields.simps(1) [abs_def] writes_def)
next
  case (Cons f fs)
  obtain n v where f: "f = (n, v)" by fastforce
  show ?case
  proof (cases v)
    case None
    then have "append_fields first (f # fs) = append_fields first fs" by (simp add: f fun_eq_iff)
    with None Cons [of first] show ?thesis by (simp add: f)
  next
    case (Some x)
    have "append_fields first (f # fs) = (\<lambda>str.
        bindr (if \<not> first then rtsp_sprintf str '', '' else Inr str) (\<lambda>str.
        bindr (rtsp_sprintf str (quoted (n, x))) (append_fields False fs)))"
      by (simp add: f Some quoted_def fun_eq_iff)
    moreover have "writes \<dots> ((if \<not> first then '', '' else []) @ quoted (n, x) @ spaced False (present fs))"
      by (rule writer_intros Cons)+
    ultimately have "writes (append_fields first (f # fs))
       ((if \<not> first then '', '' else []) @ quoted (n, x) @ spaced False (present fs))" by simp
    then show ?thesis by (rule writes_eq) (simp add: f Some)
  qed
qed

definition auth_writable :: "rtsp_authorization_header \<Rightarrow> bool" where
  "auth_writable auth \<longleftrightarrow>
     (case auth_type auth of
        RTSP_AUTH_TYPE_BASIC \<Rightarrow> auth_credentials auth \<noteq> None \<and> auth_credentials auth \<noteq> Some []
      | RTSP_AUTH_TYPE_DIGEST \<Rightarrow> True
      | RTSP_AUTH_TYPE_UNKNOWN \<Rightarrow> False)"

definition auth_text :: "rtsp_authorization_header \<Rightarrow> string" where
  "auth_text auth =
     (if auth_type auth = RTSP_AUTH_TYPE_BASIC then ''Basic'' @ '' '' @ the (auth_credentials auth)
      else ''Digest'' @ '' '' @ spaced True (present (digest_params auth)))"

text \<open>A digest without response leaves the line unfinished: no value and no CRLF.\<close>

definition auth_line :: "rtsp_authorization_header \<Rightarrow> string" where
  "auth_line auth =
     (if auth_type auth = RTSP_AUTH_TYPE_DIGEST \<and> (auth_response auth = None \<or> auth_response auth = Some [])
      then [] else auth_text auth @ CRLF)"

lemma writes_authorization:
  assumes "auth_writable auth"
  shows "writes (rtsp_authorization_header_write auth) (''Authorization: '' @ auth_line auth)"
proof (cases "auth_type auth")
  case RTSP_AUTH_TYPE_UNKNOWN
  with assms show ?thesis by (simp add: auth_writable_def)
next
  case RTSP_AUTH_TYPE_BASIC
  then obtain c where c: "auth_credentials auth = Some c" "c \<noteq> []"
    using assms by (auto simp: auth_writable_def)
  have "writes (rtsp_authorization_header_write auth)
      (''Authorization: '' @ (''Basic'' @ '' '' @ c) @ CRLF)"
    unfolding rtsp_authorization_header_write_def [abs_def] RTSP_AUTH_TYPE_BASIC
      rtsp_auth_type.case c option.case if_not_P [OF c(2)]
    by (rule writer_intros)+
  then show ?thesis
    by (rule writes_eq) (simp add: auth_line_def auth_text_def RTSP_AUTH_TYPE_BASIC c)
next
  case RTSP_AUTH_TYPE_DIGEST
  show ?thesis
  proof (cases "auth_response auth = None \<or> auth_response auth = Some []")
    case True
    have "writes (rtsp_authorization_header_write auth) (''Authorization: '' @ [])"
      unfolding rtsp_authorization_header_write_def [abs_def] RTSP_AUTH_TYPE_DIGEST
        rtsp_auth_type.case if_P [OF True]
      by (rule writer_intros)+
    with True RTSP_AUTH_TYPE_DIGEST show ?thesis by (simp add: auth_line_def)
  next
    case False
    have "writes (rtsp_authorization_header_write auth)
        (''Authorization: '' @ (''Digest'' @ '' '') @ spaced True (present (digest_params auth)) @ CRLF)"
      unfolding rtsp_authorization_header_write_def [abs_def] RTSP_AUTH_TYPE_DIGEST
        rtsp_auth_type.case if_not_P [OF False]
      by (rule writer_intros writes_append_fields)+
    then show ?thesis
      by (rule writes_eq) (use False in \<open>simp add: auth_line_def auth_text_def RTSP_AUTH_TYPE_DIGEST\<close>)
  qed
qed

interpretation authorization: bounded_writer rtsp_authorization_header_write auth_writable
  "\<lambda>auth. ''Authorization: '' @ auth_line auth"
proof
  fix auth s
  show "\<exists>e. rtsp_authorization_header_write auth s = Inl e" if "\<not> auth_writable auth"
    using that by (cases "rtsp_sprintf s ''Authorization: ''")
      (auto simp: rtsp_authorization_header_write_def auth_writable_def
        split: rtsp_auth_type.splits option.splits)
qed (rule writes_authorization)

section \<open>Round trip\<close>

definition clean_text :: "string option \<Rightarrow> bool" where
  "clean_text v \<longleftrightarrow> (case v of None \<Rightarrow> True | Some s \<Rightarrow> CHR '','' \<notin> set s \<and> length s < 4094)"

definition wf_authorization :: "rtsp_authorization_header \<Rightarrow> bool" where
  "wf_authorization auth \<longleftrightarrow>
     (case auth_type auth of
        RTSP_AUTH_TYPE_BASIC \<Rightarrow>
          (\<exists>c. c \<noteq> [] \<and> CHR '' '' \<notin> set c \<and> \<not> has_prefix_nocase c ''realm='' \<and>
             auth = rtsp_authorization_header_new
               \<lparr>auth_type := RTSP_AUTH_TYPE_BASIC, auth_credentials := Some c\<rparr>)
      | RTSP_AUTH_TYPE_DIGEST \<Rightarrow>
          auth_response auth \<noteq> None \<and> auth_response auth \<noteq> Some [] \<and> auth_credentials auth = None \<and>
          auth_opaque auth \<noteq> Some [] \<and>
          clean_text (auth_username auth) \<and> clean_text (auth_realm auth) \<and>
          clean_text (auth_nonce auth) \<and> clean_text (auth_uri auth) \<and>
          clean_text (auth_response auth) \<and> clean_text (auth_opaque auth) \<and>
          clean_text (auth_cnonce auth) \<and>
          auth_algorithm auth \<noteq> RTSP_AUTH_ALGORITHM_UNKNOWN \<and>
          auth_qop auth \<noteq> RTSP_AUTH_QOP_UNKNOWN \<and>
          (auth_qop auth = RTSP_AUTH_QOP_UNSPECIFIED \<longrightarrow> auth_cnonce auth = None \<and> auth_nc auth = 0)
      | RTSP_AUTH_TYPE_UNKNOWN \<Rightarrow> False)"

text \<open>
  What can be sent: the fields that go on the line have no comma and fit the 4096 bytes that
  \<open>strip_quotes\<close> accepts, Basic credentials are one word that is not a \<open>realm=\<close> parameter, and a
  digest has a response. The other fields of the header are arbitrary.
\<close>

definition qop_in_use :: "rtsp_authorization_header \<Rightarrow> bool" where
  "qop_in_use auth \<longleftrightarrow>
     auth_qop auth \<noteq> RTSP_AUTH_QOP_UNKNOWN \<and> auth_qop auth \<noteq> RTSP_AUTH_QOP_UNSPECIFIED"

definition clean_authorization :: "rtsp_authorization_header \<Rightarrow> bool" where
  "clean_authorization auth \<longleftrightarrow>
     (case auth_type auth of
        RTSP_AUTH_TYPE_BASIC \<Rightarrow>
          (\<exists>c. auth_credentials auth = Some c \<and> c \<noteq> [] \<and> CHR '' '' \<notin> set c \<and>
             \<not> has_prefix_nocase c ''realm='')
      | RTSP_AUTH_TYPE_DIGEST \<Rightarrow>
          auth_response auth \<noteq> None \<and> auth_response auth \<noteq> Some [] \<and>
          clean_text (auth_username auth) \<and> clean_text (auth_realm auth) \<and>
          clean_text (auth_nonce auth) \<and> clean_text (auth_uri auth) \<and>
          clean_text (auth_response auth) \<and> clean_text (auth_opaque auth) \<and>
          (qop_in_use auth \<longrightarrow> clean_text (auth_cnonce auth))
      | RTSP_AUTH_TYPE_UNKNOWN \<Rightarrow> False)"

text \<open>
  What of a header goes on the line: of Basic only the credentials; of a digest no credentials, no
  algorithm that has no name, no empty opaque, and the client nonce and count only with a quality
  of protection.
\<close>

definition auth_sent :: "rtsp_authorization_header \<Rightarrow> rtsp_authorization_header" where
  "auth_sent auth =
     (case auth_type auth of
        RTSP_AUTH_TYPE_BASIC \<Rightarrow>
          rtsp_authorization_header_new
            \<lparr>auth_type := RTSP_AUTH_TYPE_BASIC, auth_credentials := auth_credentials auth\<rparr>
      | RTSP_AUTH_TYPE_DIGEST \<Rightarrow>
          auth\<lparr>auth_credentials := None,
              auth_algorithm := (if auth_algorithm auth = RTSP_AUTH_ALGORITHM_UNKNOWN
                then RTSP_AUTH_ALGORITHM_UNSPECIFIED else auth_algorithm auth),
              auth_opaque := (if auth_opaque auth = Some [] then None else auth_opaque auth),
              auth_qop := (if qop_in_use auth then auth_qop auth else RTSP_AUTH_QOP_UNSPECIFIED),
              auth_cnonce := (if qop_in_use auth then auth_cnonce auth else None),
              auth_nc := (if qop_in_use auth then auth_nc auth else 0)\<rparr>
      | RTSP_AUTH_TYPE_UNKNOWN \<Rightarrow> auth)"

lemma wf_auth_sent: "clean_authorization auth \<Longrightarrow> wf_authorization (auth_sent auth)"
  by (cases "auth_type auth")
    (auto simp: clean_authorization_def wf_authorization_def auth_sent_def qop_in_use_def clean_text_def)

lemma auth_sent_id: "wf_authorization auth \<Longrightarrow> auth_sent auth = auth"
  by (cases "auth_type auth")
    (auto simp: wf_authorization_def auth_sent_def qop_in_use_def
      intro!: rtsp_authorization_header.equality)

lemma wf_clean_authorization: "wf_authorization auth \<Longrightarrow> clean_authorization auth"
  by (cases "auth_type auth") (auto simp: wf_authorization_def clean_authorization_def)

lemma auth_text_sent: "auth_text (auth_sent auth) = auth_text auth"
  by (cases "auth_type auth"; cases "auth_algorithm auth"; cases "auth_qop auth")
    (simp_all add: auth_text_def auth_sent_def qop_in_use_def digest_params_def rtsp_auth_algorithm_str_def)

lemma strip_quotes_quoted: "length v < 4094 \<Longrightarrow> strip_quotes (Some ([DQUOTE] @ v @ [DQUOTE])) = Some v"
  by (simp add: strip_quotes_def)

definition param_name :: "string \<Rightarrow> bool" where
  "param_name n \<longleftrightarrow> n \<noteq> [] \<and> (\<forall>c \<in> set n. c \<noteq> CHR ''='' \<and> c \<noteq> CHR '' '' \<and> c \<noteq> CHR '','')"

lemma skip_spaces_id: "s = [] \<or> hd s \<noteq> CHR '' '' \<Longrightarrow> skip_spaces s = s"
  by (cases s) (auto simp: skip_spaces_def)

lemma skip_spaces_one: "skip_spaces (CHR '' '' # s) = skip_spaces s"
  by (simp add: skip_spaces_def)

lemma parse_param_quoted:
  assumes "param_name n" "length v < 4094"
  shows "parse_digest_auth_param auth (quoted (n, v)) = process_authorization_key_val auth n (Some ([DQUOTE] @ v @ [DQUOTE]))"
    "parse_digest_auth_param auth (CHR '' '' # quoted (n, v)) = process_authorization_key_val auth n (Some ([DQUOTE] @ v @ [DQUOTE]))"
proof -
  let ?v = "[DQUOTE] @ v @ [DQUOTE]"
  have n: "n \<noteq> []" "CHR ''='' \<notin> set n" "hd n \<noteq> CHR '' ''"
    using assms(1) by (auto simp: param_name_def)
  have "key_val (CHR ''='') (n @ CHR ''='' # ?v) = (Some n, Some ?v)"
    using n by (intro key_val_pair) auto
  moreover have "key_val (CHR ''='') ((CHR '' '' # n) @ CHR ''='' # ?v) = (Some (CHR '' '' # n), Some ?v)"
    using n by (intro key_val_pair) auto
  ultimately show "parse_digest_auth_param auth (quoted (n, v)) = process_authorization_key_val auth n (Some ?v)"
    "parse_digest_auth_param auth (CHR '' '' # quoted (n, v)) = process_authorization_key_val auth n (Some ?v)"
    using n skip_spaces_id [of n] skip_spaces_id [of ?v]
    by (simp_all add: parse_digest_auth_param_def quoted_def skip_spaces_one)
qed

definition set_param :: "rtsp_authorization_header \<Rightarrow> string \<times> string \<Rightarrow> rtsp_authorization_header" where
  "set_param auth f = process_authorization_key_val auth (fst f) (Some ([DQUOTE] @ snd f @ [DQUOTE]))"

lemma quoted_clean:
  assumes "param_name n" "CHR '','' \<notin> set v"
  shows "quoted (n, v) \<noteq> []" "CHR '','' \<notin> set (quoted (n, v))"
  using assms by (auto simp: quoted_def param_name_def)

lemma read_spaced:
  assumes "\<forall>(n, v) \<in> set fs. param_name n \<and> CHR '','' \<notin> set v \<and> length v < 4094" "sp \<longrightarrow> fs \<noteq> []"
  shows "foldl parse_digest_auth_param auth
      (strtok_all {CHR '',''} ((if sp then '' '' else []) @ spaced True fs)) = foldl set_param auth fs"
  using assms
proof (induction fs arbitrary: auth sp)
  case Nil
  then show ?case by (simp add: strtok_all.simps)
next
  case (Cons f fs)
  obtain n v where f: "f = (n, v)" by fastforce
  have ok: "param_name n" "CHR '','' \<notin> set v" "length v < 4094"
    and rest: "\<forall>(n, v) \<in> set fs. param_name n \<and> CHR '','' \<notin> set v \<and> length v < 4094"
    using Cons.prems f by auto
  let ?p = "(if sp then '' '' else []) @ quoted (n, v)"
  have p: "?p \<noteq> []" "CHR '','' \<notin> set ?p" using quoted_clean [OF ok(1,2)] by auto
  have "strtok_all {CHR '',''} (?p @ spaced False fs) =
      ?p # strtok_all {CHR '',''} ((if fs \<noteq> [] then '' '' else []) @ spaced True fs)"
  proof (cases fs)
    case Nil
    then show ?thesis using strtok_all_sep_by [of "[?p]" "CHR '',''"] p by (simp add: strtok_all.simps [of _ "[]"])
  next
    case (Cons g gs)
    then have "spaced False fs = CHR '','' # CHR '' '' # spaced True fs" by simp
    moreover have "strtok_all {CHR '',''} (?p @ CHR '','' # CHR '' '' # spaced True fs) =
        ?p # strtok_all {CHR '',''} (CHR '' '' # spaced True fs)"
      using p by (rule strtok_all_first)
    moreover have "(if fs \<noteq> [] then '' '' else []) @ spaced True fs = CHR '' '' # spaced True fs"
      using Cons by simp
    ultimately show ?thesis by (simp only:)
  qed
  moreover have "parse_digest_auth_param auth ?p = set_param auth f"
    using parse_param_quoted [OF ok(1,3)] by (simp add: f set_param_def)
  ultimately show ?case using Cons.IH [OF rest, of "fs \<noteq> []"] by (simp add: f)
qed

abbreviation pick :: "'a option \<Rightarrow> 'a option \<Rightarrow> 'a option" where
  "pick v old \<equiv> (if v = None then old else v)"

lemma set_text_params:
  assumes "clean_text v"
  shows "foldl set_param h (present ((''username'', v) # fs)) =
      foldl set_param (h\<lparr>auth_username := pick v (auth_username h)\<rparr>) (present fs)"
    "foldl set_param h (present ((''realm'', v) # fs)) =
      foldl set_param (h\<lparr>auth_realm := pick v (auth_realm h)\<rparr>) (present fs)"
    "foldl set_param h (present ((''nonce'', v) # fs)) =
      foldl set_param (h\<lparr>auth_nonce := pick v (auth_nonce h)\<rparr>) (present fs)"
    "foldl set_param h (present ((''uri'', v) # fs)) =
      foldl set_param (h\<lparr>auth_uri := pick v (auth_uri h)\<rparr>) (present fs)"
    "foldl set_param h (present ((''response'', v) # fs)) =
      foldl set_param (h\<lparr>auth_response := pick v (auth_response h)\<rparr>) (present fs)"
    "foldl set_param h (present ((''opaque'', v) # fs)) =
      foldl set_param (h\<lparr>auth_opaque := pick v (auth_opaque h)\<rparr>) (present fs)"
    "foldl set_param h (present ((''cnonce'', v) # fs)) =
      foldl set_param (h\<lparr>auth_cnonce := pick v (auth_cnonce h)\<rparr>) (present fs)"
  using assms strip_quotes_quoted
  by (cases v; simp add: set_param_def process_authorization_key_val_def clean_text_def)+

lemma algorithm_from_str [simp]:
  "a \<noteq> RTSP_AUTH_ALGORITHM_UNKNOWN \<Longrightarrow> rtsp_auth_algorithm_from_str (rtsp_auth_algorithm_str a) = a"
  by (cases a) (simp_all add: rtsp_auth_algorithm_from_str_def rtsp_auth_algorithm_str_def
      strcaseeq_def tolower_def is_upper_def)

lemma qop_from_str [simp]:
  "q \<noteq> RTSP_AUTH_QOP_UNKNOWN \<Longrightarrow> rtsp_auth_qop_from_str (rtsp_auth_qop_str q) = q"
  by (cases q) (simp_all add: rtsp_auth_qop_from_str_def rtsp_auth_qop_str_def
      strcaseeq_def tolower_def is_upper_def)

lemma set_algorithm:
  assumes "a \<noteq> RTSP_AUTH_ALGORITHM_UNKNOWN"
  shows "foldl set_param h (present ((''algorithm'', rtsp_auth_algorithm_str a) # fs)) =
    foldl set_param (h\<lparr>auth_algorithm := (if a = RTSP_AUTH_ALGORITHM_UNSPECIFIED then auth_algorithm h else a)\<rparr>)
      (present fs)"
  using assms algorithm_from_str [of a] strip_quotes_quoted [of "''MD5''"] strip_quotes_quoted [of "''MD5-sess''"]
  by (cases a) (simp_all add: rtsp_auth_algorithm_str_def set_param_def process_authorization_key_val_def)

lemma nc_str_eq: "rtsp_auth_nc_str 9 nc = Inr (pad0 8 (show_hex digit_char (unat nc)))"
proof -
  have "unat nc < 16 ^ 8" using unsigned_less [where 'a = nat and w = nc] by simp
  from pad0_hex(1) [OF hex_printers(1) this] show ?thesis by (simp add: rtsp_auth_nc_str_def)
qed

lemma set_nc:
  "foldl set_param h (present ((''nc'', Some (pad0 8 (show_hex digit_char (unat nc)))) # fs)) =
   foldl set_param (h\<lparr>auth_nc := nc\<rparr>) (present fs)"
proof -
  let ?s = "pad0 8 (show_hex digit_char (unat nc))"
  have n: "unat nc < 16 ^ 8" using unsigned_less [where 'a = nat and w = nc] by simp
  note p = pad0_hex [OF hex_printers(1) n]
  have ne: "?s \<noteq> []" using p(1) by auto
  have "scan_number 16 ?s = Some (False, unat nc, [])"
    using scan_number_hex [OF ne] p(2,3) by simp
  then have "strtoul 16 ?s = (unat nc, [], False)" using n by (simp add: strtoul_def)
  moreover have "strip_quotes (Some ([DQUOTE] @ ?s @ [DQUOTE])) = Some ?s"
    using p(1) by (intro strip_quotes_quoted) simp
  ultimately show ?thesis using ne n
    by (simp add: set_param_def process_authorization_key_val_def)
qed

lemma set_qop:
  assumes "q \<noteq> RTSP_AUTH_QOP_UNKNOWN" "q \<noteq> RTSP_AUTH_QOP_UNSPECIFIED"
  shows "foldl set_param h (present ((''qop'', rtsp_auth_qop_str q) # fs)) =
    foldl set_param (h\<lparr>auth_qop := q\<rparr>) (present fs)"
  using assms qop_from_str [of q] strip_quotes_quoted [of "''auth''"] strip_quotes_quoted [of "''auth-int''"]
  by (cases q) (simp_all add: rtsp_auth_qop_str_def set_param_def process_authorization_key_val_def)

lemma present_foldl: "foldl set_param h (present []) = h"
  by simp

lemma set_digest_params:
  assumes "wf_authorization auth" "auth_type auth = RTSP_AUTH_TYPE_DIGEST"
  shows "foldl set_param (rtsp_authorization_header_new\<lparr>auth_type := RTSP_AUTH_TYPE_DIGEST\<rparr>)
    (present (digest_params auth)) = auth"
proof -
  have wf: "auth_credentials auth = None" "auth_opaque auth \<noteq> Some []"
      "auth_algorithm auth \<noteq> RTSP_AUTH_ALGORITHM_UNKNOWN" "auth_qop auth \<noteq> RTSP_AUTH_QOP_UNKNOWN"
      "auth_qop auth = RTSP_AUTH_QOP_UNSPECIFIED \<Longrightarrow> auth_cnonce auth = None"
      "auth_qop auth = RTSP_AUTH_QOP_UNSPECIFIED \<Longrightarrow> auth_nc auth = 0"
    and clean: "clean_text (auth_username auth)" "clean_text (auth_realm auth)" "clean_text (auth_nonce auth)"
      "clean_text (auth_uri auth)" "clean_text (auth_response auth)" "clean_text (auth_opaque auth)"
      "clean_text (auth_cnonce auth)"
    using assms by (simp_all add: wf_authorization_def)
  show ?thesis
  proof (cases "auth_qop auth = RTSP_AUTH_QOP_UNSPECIFIED")
    case True
    then have q: "\<not> (auth_qop auth \<noteq> RTSP_AUTH_QOP_UNKNOWN \<and> auth_qop auth \<noteq> RTSP_AUTH_QOP_UNSPECIFIED)" by simp
    show ?thesis
      unfolding digest_params_def if_P [OF wf(2)] if_not_P [OF q] append.simps append_Nil2
        set_text_params [OF clean(1)] set_text_params [OF clean(2)] set_text_params [OF clean(3)]
        set_text_params [OF clean(4)] set_text_params [OF clean(5)] set_text_params [OF clean(6)]
        set_algorithm [OF wf(3)] present_foldl
      by (rule rtsp_authorization_header.equality)
        (use wf True assms(2) in \<open>simp_all add: rtsp_authorization_header_new_def\<close>)
  next
    case False
    then have q: "auth_qop auth \<noteq> RTSP_AUTH_QOP_UNKNOWN \<and> auth_qop auth \<noteq> RTSP_AUTH_QOP_UNSPECIFIED"
      using wf(4) by simp
    show ?thesis
      unfolding digest_params_def if_P [OF wf(2)] if_P [OF q] append.simps append_Nil2 nc_str_eq sum.case
        set_text_params [OF clean(1)] set_text_params [OF clean(2)] set_text_params [OF clean(3)]
        set_text_params [OF clean(4)] set_text_params [OF clean(5)] set_text_params [OF clean(6)]
        set_text_params [OF clean(7)] set_algorithm [OF wf(3)] set_qop [OF conjunct1 [OF q] conjunct2 [OF q]]
        set_nc present_foldl
      by (rule rtsp_authorization_header.equality)
        (use wf False assms(2) in \<open>simp_all add: rtsp_authorization_header_new_def\<close>)
  qed
qed

lemma digest_params_clean:
  assumes "wf_authorization auth" "auth_type auth = RTSP_AUTH_TYPE_DIGEST" "(n, v) \<in> set (present (digest_params auth))"
  shows "param_name n" "CHR '','' \<notin> set v" "length v < 4094"
proof -
  have cleanD: "clean_text (Some s) \<Longrightarrow> CHR '','' \<notin> set s \<and> length s < 4094" for s
    by (simp add: clean_text_def)
  have n: "unat (auth_nc auth) < 16 ^ 8" using unsigned_less [where 'a = nat and w = "auth_nc auth"] by simp
  note p = pad0_hex [OF hex_printers(1) n]
  have hex: "clean_text (Some (pad0 8 (show_hex digit_char (unat (auth_nc auth)))))"
    using p(1) p(2) [of "CHR '',''"] by (auto simp: clean_text_def isxdigit_def is_digit_def)
  have algo: "clean_text (rtsp_auth_algorithm_str (auth_algorithm auth))"
    by (cases "auth_algorithm auth") (simp_all add: rtsp_auth_algorithm_str_def clean_text_def)
  have qop: "clean_text (rtsp_auth_qop_str (auth_qop auth))"
    by (cases "auth_qop auth") (simp_all add: rtsp_auth_qop_str_def clean_text_def)
  from assms(3) have mem: "(n, Some v) \<in> set (digest_params auth)"
    by (auto simp: present_def)
  show "param_name n" using mem by (auto simp: digest_params_def param_name_def split: if_splits)
  have "clean_text (Some v)"
    using mem assms(1,2) hex algo qop
    by (auto simp: digest_params_def wf_authorization_def nc_str_eq split: if_splits)
  then show "CHR '','' \<notin> set v" "length v < 4094" using cleanD by auto
qed

lemma auth_read_text:
  assumes "wf_authorization auth"
  shows "rtsp_authorization_header_read (Some (auth_text auth)) = Inr auth"
proof (cases "auth_type auth")
  case RTSP_AUTH_TYPE_UNKNOWN
  with assms show ?thesis by (simp add: wf_authorization_def)
next
  case RTSP_AUTH_TYPE_BASIC
  then obtain c where c: "c \<noteq> []" "CHR '' '' \<notin> set c" "\<not> has_prefix_nocase c ''realm=''"
    "auth = rtsp_authorization_header_new\<lparr>auth_type := RTSP_AUTH_TYPE_BASIC, auth_credentials := Some c\<rparr>"
    using assms by (auto simp: wf_authorization_def)
  have "strtok_r {CHR '' ''} (''Basic'' @ CHR '' '' # c) = (Some ''Basic'', c)"
    by (rule strtok_r_token) simp_all
  moreover have "strtok_r {CHR '' ''} c = (Some c, [])" using c(1,2) by (intro strtok_r_last) auto
  moreover have "strcaseeq ''Basic'' ''Basic''" by (simp add: strcaseeq_def)
  ultimately show ?thesis using c(3,4)
    by (simp add: rtsp_authorization_header_read_def auth_text_def)
next
  case RTSP_AUTH_TYPE_DIGEST
  have "strtok_r {CHR '' ''} (''Digest'' @ CHR '' '' # x) = (Some ''Digest'', x)" for x
    by (rule strtok_r_token) simp_all
  moreover have "strcaseeq ''Digest'' ''Digest''" "\<not> strcaseeq ''Digest'' ''Basic''"
    by (simp_all add: strcaseeq_def tolower_def is_upper_def)
  moreover have "foldl parse_digest_auth_param
       (rtsp_authorization_header_new\<lparr>auth_type := RTSP_AUTH_TYPE_DIGEST\<rparr>)
       (strtok_all {CHR '',''} (spaced True (present (digest_params auth)))) = auth"
  proof -
    have "\<forall>(n, v) \<in> set (present (digest_params auth)).
        param_name n \<and> CHR '','' \<notin> set v \<and> length v < 4094"
      using digest_params_clean [OF assms RTSP_AUTH_TYPE_DIGEST] by blast
    from read_spaced [OF this, of False] set_digest_params [OF assms RTSP_AUTH_TYPE_DIGEST]
    show ?thesis by simp
  qed
  ultimately show ?thesis
    using RTSP_AUTH_TYPE_DIGEST by (simp add: rtsp_authorization_header_read_def auth_text_def)
qed

lemma auth_read_sent:
  "clean_authorization auth \<Longrightarrow> rtsp_authorization_header_read (Some (auth_text auth)) = Inr (auth_sent auth)"
  using auth_read_text [OF wf_auth_sent] by (simp add: auth_text_sent)

lemma clean_auth_line: "clean_authorization auth \<Longrightarrow> auth_line auth = auth_text auth @ CRLF"
  by (auto simp: auth_line_def clean_authorization_def split: rtsp_auth_type.splits)

section \<open>Digest responses\<close>

definition md5_hex :: "(string \<Rightarrow> 8 word list) \<Rightarrow> string \<Rightarrow> string" where
  "md5_hex md5 s = concat (map hex2 (md5 s))"

text \<open>The request digest of RFC 2617, section 3.2.2, for the two qualities of protection in use.\<close>

definition rfc2617_response :: "(string \<Rightarrow> 8 word list) \<Rightarrow> _" where
  "rfc2617_response md5 sess qop_auth user realm password nonce nc cnonce meth uri =
     (let a1 = md5_hex md5 (user @ '':'' @ realm @ '':'' @ password);
          ha1 = (if sess then md5_hex md5 (a1 @ '':'' @ nonce @ '':'' @ cnonce) else a1);
          ha2 = md5_hex md5 (meth @ '':'' @ uri) in
      if qop_auth
      then md5_hex md5 (ha1 @ '':'' @ nonce @ '':'' @ nc @ '':'' @ cnonce @ '':'' @ ''auth'' @ '':'' @ ha2)
      else md5_hex md5 (ha1 @ '':'' @ nonce @ '':'' @ ha2))"

lemma length_hex2: "length (hex2 b) = 2"
proof -
  have "unat b < 16 ^ 2" using unsigned_less [where 'a = nat and w = b] by simp
  then have "length (show_hex digit_char (unat b)) \<le> 2" by (subst show_hex_length) simp_all
  then show ?thesis by (simp add: hex2_def pad0_def)
qed

lemma length_md5_hex: "length (md5 s) = 16 \<Longrightarrow> length (md5_hex md5 s) = 32"
  by (simp add: md5_hex_def length_concat comp_def length_hex2 sum_list_triv)

lemma md5_hex_fmt_eq:
  "length (md5 s) = 16 \<Longrightarrow> length s < 1024 \<Longrightarrow> md5_hex_fmt md5 s = Inr (md5_hex md5 s)"
  by (simp add: md5_hex_fmt_def md5_hex_def)

lemma next_nc_nonzero: "next_nc nc \<noteq> 0"
  by (simp add: next_nc_def)

lemma length_method_str: "length (rtsp_method_type_str m) \<le> 13"
  by (cases m) (simp_all add: rtsp_method_type_str_def)

lemma digest_ha1_eq:
  assumes "\<forall>s. length (md5 s) = 16"
    and "auth_username auth = Some user" "auth_realm auth = Some realm" "auth_nonce auth = Some nonce"
      "auth_cnonce auth = Some cnonce"
    and "length user + length realm + length password < 1022" "length nonce \<le> 256" "length cnonce \<le> 64"
  shows "digest_ha1 md5 auth password =
    Inr (let a1 = md5_hex md5 (user @ '':'' @ realm @ '':'' @ password) in
         if auth_algorithm auth = RTSP_AUTH_ALGORITHM_MD5_SESS
         then md5_hex md5 (a1 @ '':'' @ nonce @ '':'' @ cnonce) else a1)"
proof -
  have "length (md5_hex md5 s) = 32" for s using assms(1) by (simp add: length_md5_hex)
  then show ?thesis using assms by (simp add: digest_ha1_def md5_hex_fmt_eq Let_def)
qed

lemma digest_response_store:
  assumes "\<forall>s. length (md5 s) = 16"
    and "auth_type auth = RTSP_AUTH_TYPE_DIGEST" "auth_algorithm auth \<noteq> RTSP_AUTH_ALGORITHM_UNKNOWN"
    and "auth_qop auth \<in> {RTSP_AUTH_QOP_UNSPECIFIED, RTSP_AUTH_QOP_AUTH}"
    and "auth_username auth = Some user" "auth_realm auth = Some realm" "auth_uri auth = Some uri"
      "auth_nonce auth = Some nonce"
    and "digest_cnonce (auth_cnonce auth) random = Inr cnonce"
    and "length user + length realm + length password < 1022" "length uri < 1010"
      "nonce \<noteq> []" "length nonce \<le> 256" "length cnonce \<le> 64"
  shows "\<exists>nc. nc = (if auth_nc auth + 1 = 0 then 1 else auth_nc auth + 1) \<and> nc \<noteq> 0 \<and>
    rtsp_auth_generate_digest_response md5 random auth (Some password) meth =
      store_response (auth\<lparr>auth_cnonce := Some cnonce, auth_nc := nc\<rparr>) (rfc2617_response md5
          (auth_algorithm auth = RTSP_AUTH_ALGORITHM_MD5_SESS) (auth_qop auth = RTSP_AUTH_QOP_AUTH)
          user realm password nonce (pad0 8 (show_hex digit_char (unat nc))) cnonce
          (rtsp_method_type_str meth) uri)"
proof (intro exI conjI)
  let ?nc = "next_nc (auth_nc auth)"
  show "?nc = (if auth_nc auth + 1 = 0 then 1 else auth_nc auth + 1)" by (simp add: next_nc_def)
  let ?auth = "auth\<lparr>auth_cnonce := Some cnonce, auth_nc := ?nc\<rparr>"
  let ?nc_str = "pad0 8 (show_hex digit_char (unat ?nc))"
  have hex: "length (md5_hex md5 s) = 32" for s using assms(1) by (simp add: length_md5_hex)
  have "unat ?nc < 16 ^ 8" using unsigned_less [where 'a = nat and w = ?nc] by simp
  then have nc_len: "length ?nc_str = 8" using pad0_hex(1) [OF hex_printers(1)] by blast
  have check: "digest_check auth (Some password) = Inr ()"
    using assms by (auto simp: digest_check_def)
  define ha1 where "ha1 = (let a1 = md5_hex md5 (user @ '':'' @ realm @ '':'' @ password) in
         if auth_algorithm auth = RTSP_AUTH_ALGORITHM_MD5_SESS
         then md5_hex md5 (a1 @ '':'' @ nonce @ '':'' @ cnonce) else a1)"
  have ha1: "digest_ha1 md5 ?auth password = Inr ha1" "length ha1 = 32"
    using digest_ha1_eq [of md5 ?auth user realm nonce cnonce password] assms hex
    by (simp_all add: ha1_def Let_def)
  define ha2 where "ha2 = md5_hex md5 (rtsp_method_type_str meth @ '':'' @ uri)"
  have ha2: "md5_hex_fmt md5 (rtsp_method_type_str meth @ '':'' @ uri) = Inr ha2" "length ha2 = 32"
    using length_method_str [of meth] assms(1,11) hex by (simp_all add: ha2_def md5_hex_fmt_eq)
  define input_text where "input_text = digest_text ?auth ?nc_str ha1 ha2"
  have "length input_text < 1024"
    using assms(4,8,13,14) ha1(2) ha2(2) nc_len
    by (auto simp: input_text_def digest_text_def rtsp_auth_qop_str_def)
  then have resp: "md5_hex_fmt md5 input_text = Inr (md5_hex md5 input_text)" using assms(1) by (simp add: md5_hex_fmt_eq)
  have spec: "md5_hex md5 input_text = rfc2617_response md5
          (auth_algorithm auth = RTSP_AUTH_ALGORITHM_MD5_SESS) (auth_qop auth = RTSP_AUTH_QOP_AUTH)
          user realm password nonce ?nc_str cnonce (rtsp_method_type_str meth) uri"
    using assms(8) by (simp add: input_text_def digest_text_def rfc2617_response_def ha1_def ha2_def Let_def
        rtsp_auth_qop_str_def)
  show "rtsp_auth_generate_digest_response md5 random auth (Some password) meth =
      store_response (auth\<lparr>auth_cnonce := Some cnonce, auth_nc := ?nc\<rparr>) (rfc2617_response md5
          (auth_algorithm auth = RTSP_AUTH_ALGORITHM_MD5_SESS) (auth_qop auth = RTSP_AUTH_QOP_AUTH)
          user realm password nonce ?nc_str cnonce (rtsp_method_type_str meth) uri)"
    using check assms(7,9) ha1(1) ha2(1) resp
    by (simp add: rtsp_auth_generate_digest_response_def nc_str_eq input_text_def Let_def flip: spec)
qed (rule next_nc_nonzero)

lemma digest_response_value:
  assumes "\<forall>s. length (md5 s) = 16"
    and "auth_type auth = RTSP_AUTH_TYPE_DIGEST" "auth_algorithm auth \<noteq> RTSP_AUTH_ALGORITHM_UNKNOWN"
    and "auth_qop auth \<in> {RTSP_AUTH_QOP_UNSPECIFIED, RTSP_AUTH_QOP_AUTH}"
    and "auth_username auth = Some user" "auth_realm auth = Some realm" "auth_uri auth = Some uri"
      "auth_nonce auth = Some nonce"
    and "digest_cnonce (auth_cnonce auth) random = Inr cnonce"
    and "length user + length realm + length password < 1022" "length uri < 1010"
      "nonce \<noteq> []" "length nonce \<le> 256" "length cnonce \<le> 64"
    and "auth_response auth = None \<or> (\<exists>r. auth_response auth = Some r \<and> 32 \<le> length r)"
  shows "\<exists>nc. nc = (if auth_nc auth + 1 = 0 then 1 else auth_nc auth + 1) \<and> nc \<noteq> 0 \<and>
    rtsp_auth_generate_digest_response md5 random auth (Some password) meth =
      Inr (auth\<lparr>auth_cnonce := Some cnonce, auth_nc := nc,
        auth_response := Some (rfc2617_response md5
          (auth_algorithm auth = RTSP_AUTH_ALGORITHM_MD5_SESS) (auth_qop auth = RTSP_AUTH_QOP_AUTH)
          user realm password nonce (pad0 8 (show_hex digit_char (unat nc))) cnonce
          (rtsp_method_type_str meth) uri)\<rparr>)"
proof -
  from digest_response_store [OF assms(1-14), where meth = meth] obtain nc where nc: "nc = (if auth_nc auth + 1 = 0 then 1 else auth_nc auth + 1)" "nc \<noteq> 0"
    "rtsp_auth_generate_digest_response md5 random auth (Some password) meth =
      store_response (auth\<lparr>auth_cnonce := Some cnonce, auth_nc := nc\<rparr>) (rfc2617_response md5
          (auth_algorithm auth = RTSP_AUTH_ALGORITHM_MD5_SESS) (auth_qop auth = RTSP_AUTH_QOP_AUTH)
          user realm password nonce (pad0 8 (show_hex digit_char (unat nc))) cnonce
          (rtsp_method_type_str meth) uri)" by blast
  show ?thesis
    by (intro exI [of _ nc] conjI, fact nc(1), fact nc(2), unfold nc(3))
      (use assms(15) in \<open>auto simp: store_response_def\<close>)
qed

lemma digest_response_exists:
  assumes "\<forall>s. length (md5 s) = 16"
    and "auth_type auth = RTSP_AUTH_TYPE_DIGEST" "auth_algorithm auth \<noteq> RTSP_AUTH_ALGORITHM_UNKNOWN"
    and "auth_qop auth \<in> {RTSP_AUTH_QOP_UNSPECIFIED, RTSP_AUTH_QOP_AUTH}"
    and "auth_username auth = Some user" "auth_realm auth = Some realm" "auth_uri auth = Some uri"
      "auth_nonce auth = Some nonce"
    and "digest_cnonce (auth_cnonce auth) random = Inr cnonce"
    and "length user + length realm + length password < 1022" "length uri < 1010"
      "nonce \<noteq> []" "length nonce \<le> 256" "length cnonce \<le> 64"
    and "auth_response auth = None \<or> (\<exists>r. auth_response auth = Some r \<and> 32 \<le> length r)"
  shows "\<exists>nc. nc \<noteq> 0 \<and>
    rtsp_auth_generate_digest_response md5 random auth (Some password) meth =
      Inr (auth\<lparr>auth_cnonce := Some cnonce, auth_nc := nc,
        auth_response := Some (rfc2617_response md5
          (auth_algorithm auth = RTSP_AUTH_ALGORITHM_MD5_SESS) (auth_qop auth = RTSP_AUTH_QOP_AUTH)
          user realm password nonce (pad0 8 (show_hex digit_char (unat nc))) cnonce
          (rtsp_method_type_str meth) uri)\<rparr>)"
  using digest_response_value [OF assms, where meth = meth] by blast

lemma digest_response_overflow:
  assumes "\<forall>s. length (md5 s) = 16"
    and "auth_type auth = RTSP_AUTH_TYPE_DIGEST" "auth_algorithm auth \<noteq> RTSP_AUTH_ALGORITHM_UNKNOWN"
    and "auth_qop auth \<in> {RTSP_AUTH_QOP_UNSPECIFIED, RTSP_AUTH_QOP_AUTH}"
    and "auth_username auth = Some user" "auth_realm auth = Some realm" "auth_uri auth = Some uri"
      "auth_nonce auth = Some nonce"
    and "digest_cnonce (auth_cnonce auth) random = Inr cnonce"
    and "length user + length realm + length password < 1022" "length uri < 1010"
      "nonce \<noteq> []" "length nonce \<le> 256" "length cnonce \<le> 64"
    and "auth_response auth = Some r" "length r < 32"
  shows "rtsp_auth_generate_digest_response md5 random auth (Some password) meth = Inl UB"
proof -
  from digest_response_store [OF assms(1-14), where meth = meth] obtain nc where nc: "nc \<noteq> 0"
    "rtsp_auth_generate_digest_response md5 random auth (Some password) meth =
      store_response (auth\<lparr>auth_cnonce := Some cnonce, auth_nc := nc\<rparr>) (rfc2617_response md5
          (auth_algorithm auth = RTSP_AUTH_ALGORITHM_MD5_SESS) (auth_qop auth = RTSP_AUTH_QOP_AUTH)
          user realm password nonce (pad0 8 (show_hex digit_char (unat nc))) cnonce
          (rtsp_method_type_str meth) uri)" by blast
  with assms(15,16) show ?thesis by (simp add: store_response_def)
qed

text \<open>
  C30: For a complete digest header whose fields fit the buffers, the generated response is the
  request digest of RFC 2617 with the client nonce in use and the nonce count of the header plus
  one (which becomes 1, not 0, when the 32 bits wrap); the header keeps that count, the client
  nonce and the response, and nothing else of it changes.
\<close>

theorem digest_response_rfc2617:
  assumes "\<forall>s. length (md5 s) = 16"
    and "auth_type auth = RTSP_AUTH_TYPE_DIGEST" "auth_algorithm auth \<noteq> RTSP_AUTH_ALGORITHM_UNKNOWN"
    and "auth_qop auth \<in> {RTSP_AUTH_QOP_UNSPECIFIED, RTSP_AUTH_QOP_AUTH}"
    and "auth_username auth = Some user" "auth_realm auth = Some realm" "auth_uri auth = Some uri"
      "auth_nonce auth = Some nonce"
    and "digest_cnonce (auth_cnonce auth) random = Inr cnonce"
    and "length user + length realm + length password < 1022" "length uri < 1010"
      "nonce \<noteq> []" "length nonce \<le> 256" "length cnonce \<le> 64"
    and "auth_response auth = None \<or> (\<exists>r. auth_response auth = Some r \<and> 32 \<le> length r)"
  shows "\<exists>nc. nc = (if auth_nc auth + 1 = 0 then 1 else auth_nc auth + 1) \<and> nc \<noteq> 0 \<and>
    rtsp_auth_generate_digest_response md5 random auth (Some password) meth =
      Inr (auth\<lparr>auth_cnonce := Some cnonce, auth_nc := nc,
        auth_response := Some (rfc2617_response md5
          (auth_algorithm auth = RTSP_AUTH_ALGORITHM_MD5_SESS) (auth_qop auth = RTSP_AUTH_QOP_AUTH)
          user realm password nonce (pad0 8 (show_hex digit_char (unat nc))) cnonce
          (rtsp_method_type_str meth) uri)\<rparr>)"
  using assms by (rule digest_response_value)

definition example_digest :: rtsp_authorization_header where
  "example_digest = rtsp_authorization_header_new
     \<lparr>auth_type := RTSP_AUTH_TYPE_DIGEST, auth_username := Some ''me'', auth_realm := Some ''cam'',
      auth_nonce := Some ''0a1b'', auth_uri := Some ''rtsp://cam/live'', auth_qop := RTSP_AUTH_QOP_AUTH,
      auth_nc := - 1\<rparr>"

lemma digest_response_rfc2617_witness:
  "\<exists>auth. rtsp_auth_generate_digest_response (\<lambda>s. replicate 16 0) (Inr ''0011223344556677'')
     example_digest (Some ''pw'') RTSP_METHOD_TYPE_SETUP = Inr auth \<and> auth_nc auth = 1"
  using digest_response_rfc2617 [of "\<lambda>s. replicate 16 0" example_digest "''me''" "''cam''"
      "''rtsp://cam/live''" "''0a1b''" "Inr ''0011223344556677''" "''0011223344556677''" "''pw''"
      RTSP_METHOD_TYPE_SETUP]
  by (auto simp: example_digest_def rtsp_authorization_header_new_def digest_cnonce_def)

text \<open>
  The headers that the client generates are of this kind, with and without a quality of protection,
  as soon as the fields of the challenge and of the user are.
\<close>

lemma hex_no_comma: "CHR '','' \<notin> set (hex2 b)"
  using show_hex_digits [OF hex_printers(1), of "CHR '',''" "unat b"]
  by (auto simp: hex2_def pad0_def isxdigit_def is_digit_def)

lemma md5_hex_clean: "length (md5 s) = 16 \<Longrightarrow> clean_text (Some (md5_hex md5 s)) \<and> md5_hex md5 s \<noteq> []"
  using length_md5_hex [of md5 s] hex_no_comma
  by (cases "md5_hex md5 s = []") (simp, simp add: clean_text_def, simp add: md5_hex_def)

lemma generated_digest_clean:
  assumes "\<forall>s. length (md5 s) = 16" "auth_type auth = RTSP_AUTH_TYPE_DIGEST"
    and "clean_text (auth_username auth)" "clean_text (auth_realm auth)" "clean_text (auth_nonce auth)"
      "clean_text (auth_uri auth)" "clean_text (auth_opaque auth)" "clean_text (Some cnonce)"
  shows "clean_authorization (auth\<lparr>auth_cnonce := Some cnonce, auth_nc := nc,
     auth_response := Some (rfc2617_response md5 sess qop user realm password nonce nc_str cnonce meth uri)\<rparr>)"
  using assms md5_hex_clean by (auto simp: clean_authorization_def rfc2617_response_def Let_def)



text \<open>
  A Digest header without response is written as \<open>Authorization:\<close> with neither value nor line
  end, and the writer reports success: the next header continues the same line.
\<close>

theorem authorization_without_response_unterminated:
  assumes "rs_ok s" "auth_type auth = RTSP_AUTH_TYPE_DIGEST"
    and "auth_response auth = None \<or> auth_response auth = Some []"
    and "rtsp_authorization_header_write auth s = Inr s'"
  shows "rs_str s' = rs_str s @ ''Authorization: ''"
  using authorization.write_success(1) [OF assms(1,4)] assms(2,3) by (auto simp: auth_line_def)

lemma authorization_without_response_witness:
  "\<exists>s'. rtsp_authorization_header_write example_digest \<lparr>rs_str = [], rs_max_len = 99\<rparr> = Inr s' \<and>
     rs_str s' = ''Authorization: ''"
proof -
  let ?s = "\<lparr>rs_str = [], rs_max_len = 99\<rparr>"
  have ok: "rs_ok ?s" by (simp add: rs_ok_def)
  have w: "\<exists>s'. rtsp_authorization_header_write example_digest ?s = Inr s'"
    by (simp add: rtsp_authorization_header_write_def rtsp_sprintf_def example_digest_def
        rtsp_authorization_header_new_def)
  then obtain s' where s': "rtsp_authorization_header_write example_digest ?s = Inr s'" ..
  have "auth_type example_digest = RTSP_AUTH_TYPE_DIGEST" "auth_response example_digest = None"
    by (simp_all add: example_digest_def rtsp_authorization_header_new_def)
  with authorization_without_response_unterminated [OF ok _ _ s'] s' show ?thesis by simp
qed

end
