(* ===== verification/RtspClientAuth.thy ===== *)
theory RtspClientAuth
  imports RtspAuth
begin

text \<open>
  How the client of \<open>src/rtsp_client.c\<close> answers authentication challenges: the cached headers
  \<open>client->auth\<close> and \<open>client->server_auth\<close>, their update from a response
  (\<open>update_auth_from_server\<close> and the part of \<open>request_complete\<close> that drops them) and the header
  added to the next request (\<open>generate_authorization_header\<close>).
\<close>

record client_auth =
  ca_auth :: "rtsp_authorization_header option"
  ca_server_auth :: "rtsp_authorization_header option"
  ca_url_user :: "string option"
  ca_url_pass :: "string option"
  ca_req_method :: rtsp_method_type
  ca_req_uri :: "string option"
  ca_req_authorization :: "rtsp_authorization_header option"

definition update_auth_from_server ::
  "rtsp_authorization_header option \<Rightarrow> client_auth \<Rightarrow> client_auth" where
  "update_auth_from_server server client =
     (case server of
        None \<Rightarrow> client
      | Some srv \<Rightarrow>
          let server_auth = rtsp_authorization_header_copy srv rtsp_authorization_header_new in
          client\<lparr>ca_server_auth := Some server_auth,
                 ca_auth := Some
                   (case ca_auth client of
                      None \<Rightarrow>
                        (rtsp_authorization_header_copy server_auth rtsp_authorization_header_new)
                          \<lparr>auth_username := ca_url_user client\<rparr>
                    | Some auth \<Rightarrow> rtsp_authorization_header_copy_server_fields server_auth auth)\<rparr>)"

text \<open>401 without a challenge drops the cached headers.\<close>

definition clear_cached_auth ::
  "int \<Rightarrow> rtsp_authorization_header option \<Rightarrow> client_auth \<Rightarrow> client_auth" where
  "clear_cached_auth status_code authenticate client =
     (if status_code = 401 \<and> authenticate = None \<and> ca_server_auth client \<noteq> None
      then client\<lparr>ca_server_auth := None, ca_auth := None\<rparr> else client)"

definition generate_authorization_header ::
  "(string \<Rightarrow> 8 word list) \<Rightarrow> string result \<Rightarrow> client_auth \<Rightarrow> client_auth result" where
  "generate_authorization_header md5 random client =
     (case ca_auth client of
        None \<Rightarrow> Inr client
      | Some cur \<Rightarrow>
          if auth_type cur = RTSP_AUTH_TYPE_DIGEST \<and> auth_nonce cur = None then Inl (Err (- EAGAIN))
          else if ca_req_authorization client \<noteq> None then Inl (Err (- EEXIST))
          else
            (case ca_url_pass client of
               None \<Rightarrow> Inl (Err (- EINVAL))
             | Some pass \<Rightarrow>
                 let auth = rtsp_authorization_header_copy cur rtsp_authorization_header_new in
                 bindr
                   (case auth_type cur of
                      RTSP_AUTH_TYPE_BASIC \<Rightarrow>
                        if auth_credentials auth = None
                        then rtsp_auth_generate_basic_response auth (Some pass) else Inr auth
                    | RTSP_AUTH_TYPE_DIGEST \<Rightarrow>
                        rtsp_auth_generate_digest_response md5 random
                          (auth\<lparr>auth_uri := ca_req_uri client\<rparr>) (Some pass) (ca_req_method client)
                    | RTSP_AUTH_TYPE_UNKNOWN \<Rightarrow> Inl (Err (- EINVAL)))
                   (\<lambda>auth. Inr (client
                      \<lparr>ca_auth := Some (rtsp_authorization_header_copy_client_fields auth cur),
                       ca_req_authorization := Some auth\<rparr>))))"

section \<open>Answering a challenge\<close>

lemma authorization_copy_new [simp]:
  "rtsp_authorization_header_copy a rtsp_authorization_header_new = a"
  by (rule rtsp_authorization_header.equality) (simp_all add: rtsp_authorization_header_copy_def
      rtsp_authorization_header_new_def)

text \<open>
  A digest challenge of a server that the client can answer: it names realm and nonce, with a
  quality of protection and an algorithm the client knows, and without client fields.
\<close>

definition answerable :: "rtsp_authorization_header \<Rightarrow> bool" where
  "answerable srv \<longleftrightarrow>
     auth_type srv = RTSP_AUTH_TYPE_DIGEST \<and> auth_algorithm srv \<noteq> RTSP_AUTH_ALGORITHM_UNKNOWN \<and>
     auth_qop srv \<in> {RTSP_AUTH_QOP_UNSPECIFIED, RTSP_AUTH_QOP_AUTH} \<and>
     auth_realm srv \<noteq> None \<and> length (the (auth_realm srv)) < 256 \<and>
     auth_nonce srv \<noteq> None \<and> auth_nonce srv \<noteq> Some [] \<and> length (the (auth_nonce srv)) \<le> 256 \<and>
     auth_cnonce srv = None"

definition ready_client :: "client_auth \<Rightarrow> bool" where
  "ready_client c \<longleftrightarrow>
     ca_auth c = None \<and> ca_req_authorization c = None \<and>
     ca_url_user c \<noteq> None \<and> length (the (ca_url_user c)) < 256 \<and>
     ca_url_pass c \<noteq> None \<and> length (the (ca_url_pass c)) < 256 \<and>
     ca_req_uri c \<noteq> None \<and> length (the (ca_req_uri c)) < 1010"

text \<open>
  C33: The client answers the first digest challenge with the RFC 2617 response for the user and
  password of its URL and for the method and URI of the request, and keeps the client fields
  (nonce count, client nonce) for the next request.
\<close>

theorem challenge_answered:
  assumes "\<forall>s. length (md5 s) = 16" "answerable srv" "ready_client c"
    and "auth_response srv = None" "length cnonce \<le> 64"
  shows "\<exists>auth nc. generate_authorization_header md5 (Inr cnonce) (update_auth_from_server (Some srv) c) =
      Inr (c\<lparr>ca_server_auth := Some srv, ca_auth := Some auth, ca_req_authorization := Some auth\<rparr>) \<and>
    nc \<noteq> 0 \<and> auth_nc auth = nc \<and> auth_cnonce auth = Some cnonce \<and> auth_nonce auth = auth_nonce srv \<and>
    auth_response auth = Some (rfc2617_response md5
      (auth_algorithm srv = RTSP_AUTH_ALGORITHM_MD5_SESS) (auth_qop srv = RTSP_AUTH_QOP_AUTH)
      (the (ca_url_user c)) (the (auth_realm srv)) (the (ca_url_pass c)) (the (auth_nonce srv))
      (pad0 8 (show_hex digit_char (unat nc))) cnonce
      (rtsp_method_type_str (ca_req_method c)) (the (ca_req_uri c)))"
proof -
  from assms(3) obtain user pass uri where c: "ca_auth c = None" "ca_req_authorization c = None"
    "ca_url_user c = Some user" "ca_url_pass c = Some pass" "ca_req_uri c = Some uri"
    "length user < 256" "length pass < 256" "length uri < 1010"
    by (auto simp: ready_client_def)
  from assms(2) obtain realm nonce where s: "auth_type srv = RTSP_AUTH_TYPE_DIGEST"
    "auth_algorithm srv \<noteq> RTSP_AUTH_ALGORITHM_UNKNOWN"
    "auth_qop srv \<in> {RTSP_AUTH_QOP_UNSPECIFIED, RTSP_AUTH_QOP_AUTH}"
    "auth_realm srv = Some realm" "auth_nonce srv = Some nonce" "nonce \<noteq> []"
    "length realm < 256" "length nonce \<le> 256" "auth_cnonce srv = None"
    by (auto simp: answerable_def)
  let ?a = "srv\<lparr>auth_username := Some user\<rparr>" let ?b = "?a\<lparr>auth_uri := Some uri\<rparr>"
  have cn: "digest_cnonce (auth_cnonce ?b) (Inr cnonce) = Inr cnonce"
    using s by (simp add: digest_cnonce_def)
  obtain nc where nc: "nc \<noteq> 0" and gen:
    "rtsp_auth_generate_digest_response md5 (Inr cnonce) ?b (Some pass) (ca_req_method c) =
      Inr (?b\<lparr>auth_cnonce := Some cnonce, auth_nc := nc,
        auth_response := Some (rfc2617_response md5
          (auth_algorithm ?b = RTSP_AUTH_ALGORITHM_MD5_SESS) (auth_qop ?b = RTSP_AUTH_QOP_AUTH)
          user realm pass nonce (pad0 8 (show_hex digit_char (unat nc))) cnonce
          (rtsp_method_type_str (ca_req_method c)) uri)\<rparr>)"
    using digest_response_exists [OF assms(1), where auth = ?b and user = user and realm = realm
        and uri = uri and nonce = nonce and random = "Inr cnonce" and cnonce = cnonce
        and password = pass and meth = "ca_req_method c"] cn c s assms(4,5) by auto
  have copy: "rtsp_authorization_header_copy_client_fields (?b\<lparr>auth_cnonce := x, auth_nc := y, auth_response := z\<rparr>) ?a =
      ?b\<lparr>auth_cnonce := x, auth_nc := y, auth_response := z\<rparr>" for x y z
    by (rule rtsp_authorization_header.equality) (simp_all add: rtsp_authorization_header_copy_client_fields_def)
  let ?r = "?b\<lparr>auth_cnonce := Some cnonce, auth_nc := nc,
        auth_response := Some (rfc2617_response md5
          (auth_algorithm ?b = RTSP_AUTH_ALGORITHM_MD5_SESS) (auth_qop ?b = RTSP_AUTH_QOP_AUTH)
          user realm pass nonce (pad0 8 (show_hex digit_char (unat nc))) cnonce
          (rtsp_method_type_str (ca_req_method c)) uri)\<rparr>"
  have "generate_authorization_header md5 (Inr cnonce) (update_auth_from_server (Some srv) c) =
      Inr (c\<lparr>ca_server_auth := Some srv, ca_auth := Some ?r, ca_req_authorization := Some ?r\<rparr>)"
    using c s gen by (simp add: update_auth_from_server_def generate_authorization_header_def Let_def copy)
  then show ?thesis
    by (intro exI [of _ ?r] exI [of _ nc] conjI) (use nc c s in simp_all)
qed

definition example_challenge :: rtsp_authorization_header where
  "example_challenge = rtsp_authorization_header_new
     \<lparr>auth_type := RTSP_AUTH_TYPE_DIGEST, auth_realm := Some ''cam'', auth_nonce := Some ''0a1b''\<rparr>"

definition example_client :: client_auth where
  "example_client =
     \<lparr>ca_auth = None, ca_server_auth = None, ca_url_user = Some ''me'', ca_url_pass = Some ''pw'',
      ca_req_method = RTSP_METHOD_TYPE_DESCRIBE, ca_req_uri = Some ''rtsp://cam/live'',
      ca_req_authorization = None\<rparr>"

lemma example_ready:
  "answerable example_challenge" "ready_client example_client"
  "answerable (example_challenge\<lparr>auth_response := Some ''x''\<rparr>)"
  by (simp_all add: answerable_def ready_client_def example_challenge_def example_client_def
      rtsp_authorization_header_new_def)

lemma challenge_answered_witness:
  "\<exists>c auth. generate_authorization_header (\<lambda>s. replicate 16 0) (Inr ''0011223344556677'')
       (update_auth_from_server (Some example_challenge) example_client) = Inr c \<and>
     ca_req_authorization c = Some auth \<and> auth_nonce auth = Some ''0a1b''"
  using challenge_answered [of "\<lambda>s. replicate 16 0" example_challenge example_client "''0011223344556677''"]
    example_ready
  by (auto simp: example_challenge_def rtsp_authorization_header_new_def)

text \<open>
  C37: A server whose challenge carries a \<open>response\<close> of fewer than 32 characters makes the client
  write the 33 bytes of its own response beyond the block that holds a copy of it.
\<close>

theorem challenge_with_response_overflows:
  assumes "\<forall>s. length (md5 s) = 16" "answerable srv" "ready_client c"
    and "auth_response srv = Some r" "length r < 32" "length cnonce \<le> 64"
  shows "generate_authorization_header md5 (Inr cnonce) (update_auth_from_server (Some srv) c) = Inl UB"
proof -
  from assms(3) obtain user pass uri where c: "ca_auth c = None" "ca_req_authorization c = None"
    "ca_url_user c = Some user" "ca_url_pass c = Some pass" "ca_req_uri c = Some uri"
    "length user < 256" "length pass < 256" "length uri < 1010"
    by (auto simp: ready_client_def)
  from assms(2) obtain realm nonce where s: "auth_type srv = RTSP_AUTH_TYPE_DIGEST"
    "auth_algorithm srv \<noteq> RTSP_AUTH_ALGORITHM_UNKNOWN"
    "auth_qop srv \<in> {RTSP_AUTH_QOP_UNSPECIFIED, RTSP_AUTH_QOP_AUTH}"
    "auth_realm srv = Some realm" "auth_nonce srv = Some nonce" "nonce \<noteq> []"
    "length realm < 256" "length nonce \<le> 256" "auth_cnonce srv = None"
    by (auto simp: answerable_def)
  let ?b = "srv\<lparr>auth_username := Some user, auth_uri := Some uri\<rparr>"
  have cn: "digest_cnonce (auth_cnonce ?b) (Inr cnonce) = Inr cnonce"
    using s by (simp add: digest_cnonce_def)
  have "rtsp_auth_generate_digest_response md5 (Inr cnonce) ?b (Some pass) (ca_req_method c) = Inl UB"
    using digest_response_overflow [OF assms(1), where auth = ?b and user = user and realm = realm
        and uri = uri and nonce = nonce and random = "Inr cnonce" and cnonce = cnonce
        and password = pass and r = r and meth = "ca_req_method c"] cn c s assms(4,5,6) by auto
  then show ?thesis
    using c s by (simp add: update_auth_from_server_def generate_authorization_header_def Let_def)
qed

lemma challenge_with_response_overflows_witness:
  "generate_authorization_header (\<lambda>s. replicate 16 0) (Inr ''0011223344556677'')
     (update_auth_from_server (Some (example_challenge\<lparr>auth_response := Some ''x''\<rparr>)) example_client) =
   Inl UB"
  by (rule challenge_with_response_overflows [where r = "''x''"]) (use example_ready in simp_all)

end
