(* ===== verification/RtspFloat.thy ===== *)
theory RtspFloat
  imports Complex_Main RtspPrelude
begin

text \<open>
  The binary floating point that the NPT times of \<open>src/rtsp.c\<close> use: \<open>float\<close> and \<open>double\<close> of
  IEEE 754 with round-to-nearest-even, the conversions to unsigned integers (undefined out of
  range), \<open>atof\<close> and \<open>"%.3f"\<close>. A finite value is a rational number; the sign of zero is not
  kept, as no operation used here shows it; infinities and NaNs carry their sign (true is minus).
\<close>

datatype c_float = Fin rat | Inf bool | NaN bool

definition powz :: "rat \<Rightarrow> int \<Rightarrow> rat" where
  "powz b k = (if k \<ge> 0 then b ^ nat k else 1 / b ^ nat (- k))"

fun bit_length :: "nat \<Rightarrow> nat" where
  "bit_length n = (if n = 0 then 0 else Suc (bit_length (n div 2)))"

declare bit_length.simps [simp del]

text \<open>The \<open>e\<close> with \<open>2 ^ (e - 1) \<le> r < 2 ^ e\<close>, for positive \<open>r\<close>.\<close>

definition binary_exponent :: "rat \<Rightarrow> int" where
  "binary_exponent r =
     (let (a, b) = quotient_of r; e = int (bit_length (nat a)) - int (bit_length (nat b)) in
      if r < powz 2 e then e else e + 1)"

definition round_even :: "rat \<Rightarrow> int" where
  "round_even r =
     (let f = \<lfloor>r\<rfloor>; d = r - of_int f in
      if d < 1 / 2 then f else if d > 1 / 2 then f + 1 else if even f then f else f + 1)"

text \<open>Rounding to \<open>p\<close> bits, with least exponent \<open>emin\<close> and values below \<open>2 ^ emax\<close>.\<close>

definition round_to :: "nat \<Rightarrow> int \<Rightarrow> int \<Rightarrow> rat \<Rightarrow> c_float" where
  "round_to p emin emax r =
     (if r = 0 then Fin 0
      else
        let k = max emin (binary_exponent \<bar>r\<bar> - int p);
            q = of_int (round_even (\<bar>r\<bar> * powz 2 (- k))) * powz 2 k in
        if q \<ge> powz 2 emax then Inf (r < 0) else Fin (if r < 0 then - q else q))"

definition to_float :: "rat \<Rightarrow> c_float" where "to_float = round_to 24 (- 149) 128"
definition to_double :: "rat \<Rightarrow> c_float" where "to_double = round_to 53 (- 1074) 1024"

definition lift_float :: "(rat \<Rightarrow> c_float) \<Rightarrow> c_float \<Rightarrow> c_float" where
  "lift_float f x = (case x of Fin r \<Rightarrow> f r | Inf b \<Rightarrow> Inf b | NaN b \<Rightarrow> NaN b)"

text \<open>The conversion to an unsigned integer of \<open>w\<close> bits truncates and must be in range.\<close>

definition truncate_rat :: "rat \<Rightarrow> int" where
  "truncate_rat r = (if r < 0 then - \<lfloor>- r\<rfloor> else \<lfloor>r\<rfloor>)"

definition to_unsigned :: "nat \<Rightarrow> c_float \<Rightarrow> int result" where
  "to_unsigned w x =
     (case x of
        Fin r \<Rightarrow> if 0 \<le> truncate_rat r \<and> truncate_rat r < 2 ^ w then Inr (truncate_rat r) else Inl UB
      | _ \<Rightarrow> Inl UB)"

section \<open>Reading and printing\<close>

definition scan_mantissa :: "nat \<Rightarrow> string \<Rightarrow> string \<times> nat \<times> string" where
  "scan_mantissa base s =
     (let ip = takeWhile (digit_in base) s; r = dropWhile (digit_in base) s in
      case r of
        [] \<Rightarrow> (ip, 0, [])
      | c # t \<Rightarrow>
          if c = CHR ''.'' then
            (ip @ takeWhile (digit_in base) t, length (takeWhile (digit_in base) t),
             dropWhile (digit_in base) t)
          else (ip, 0, r))"

definition scan_exponent :: "char \<Rightarrow> string \<Rightarrow> int" where
  "scan_exponent e s =
     (case s of
        [] \<Rightarrow> 0
      | c # r \<Rightarrow>
          if tolower c = e then
            (case scan_sign r of
               (neg, t) \<Rightarrow>
                 let n = int (parse_digits 10 (takeWhile (digit_in 10) t)) in if neg then - n else n)
          else 0)"

text \<open>\<open>atof\<close> in the C locale: decimal and hexadecimal numbers, infinities and NaN.\<close>

definition atof :: "string \<Rightarrow> c_float" where
  "atof s =
     (case scan_sign (dropWhile isspace s) of
        (neg, t) \<Rightarrow>
          let signed = (\<lambda>r :: rat. if neg then - r else r);
              (hex, hfrac, hrest) = scan_mantissa 16 (drop 2 t);
              (dec, dfrac, drest) = scan_mantissa 10 t in
          if has_prefix_nocase t ''inf'' then Inf neg
          else if has_prefix_nocase t ''nan'' then NaN neg
          else if has_prefix_nocase t ''0x'' \<and> hex \<noteq> [] then
            to_double (signed (of_nat (parse_digits 16 hex) *
              powz 2 (scan_exponent (CHR ''p'') hrest - 4 * int hfrac)))
          else if dec = [] then Fin 0
          else
            to_double (signed (of_nat (parse_digits 10 dec) *
              powz 10 (scan_exponent (CHR ''e'') drest - int dfrac))))"

definition fixed3 :: "rat \<Rightarrow> string" where
  "fixed3 r =
     (let n = nat (round_even (\<bar>r\<bar> * 1000)) in
      (if r < 0 then ''-'' else '''') @ show_nat (n div 1000) @ ''.'' @ pad0 3 (show_nat (n mod 1000)))"

text \<open>\<open>"%.2f"\<close>\<close>

definition fixed2 :: "c_float \<Rightarrow> string" where
  "fixed2 x =
     (case x of
        Fin r \<Rightarrow>
          let n = nat (round_even (\<bar>r\<bar> * 100)) in
          (if r < 0 then ''-'' else []) @ show_nat (n div 100) @ ''.'' @ pad0 2 (show_nat (n mod 100))
      | Inf b \<Rightarrow> if b then ''-inf'' else ''inf''
      | NaN b \<Rightarrow> if b then ''-nan'' else ''nan'')"

section \<open>Whole numbers are exact\<close>

lemma powz_mult_neg: "powz 2 (- k) * powz 2 k = 1"
  by (auto simp: powz_def)

lemma round_even_int [simp]: "round_even (of_int z) = z"
  by (simp add: round_even_def)

lemma bit_length_le: "n < 2 ^ p \<Longrightarrow> bit_length n \<le> p"
proof (induction n arbitrary: p rule: bit_length.induct)
  case (1 n)
  show ?case
  proof (cases "n = 0")
    case True then show ?thesis by (simp add: bit_length.simps)
  next
    case False
    with 1(2) obtain q where p: "p = Suc q" by (cases p) auto
    with 1(2) have "n div 2 < 2 ^ q" by auto
    with 1(1) False p show ?thesis by (simp add: bit_length.simps [of n])
  qed
qed

lemma round_to_nat:
  assumes "n < 2 ^ p" "emin \<le> 0" "int p \<le> emax" "p \<ge> 1"
  shows "round_to p emin emax (of_nat n) = Fin (of_nat n)"
proof (cases "n = 0")
  case False
  have b1: "bit_length (Suc 0) = 1" by (simp add: bit_length.simps)
  have "bit_length n \<le> p" "bit_length n \<noteq> 0"
    using bit_length_le [OF assms(1)] False by (simp_all add: bit_length.simps [of n])
  then have "binary_exponent (of_nat n) \<le> int p" by (simp add: binary_exponent_def Let_def b1)
  define k where "k = max emin (binary_exponent (of_nat n) - int p)"
  have k: "k \<le> 0" using \<open>binary_exponent (of_nat n) \<le> int p\<close> assms(2) by (simp add: k_def)
  have "powz 2 (- k) = of_int (2 ^ nat (- k))" using k by (simp add: powz_def)
  then have "round_even (of_nat n * powz 2 (- k)) = int n * 2 ^ nat (- k)"
    using round_even_int [of "int n * 2 ^ nat (- k)"] by simp
  then have "of_int (round_even (of_nat n * powz 2 (- k))) * powz 2 k
      = of_nat n * (powz 2 (- k) * powz 2 k)"
    using \<open>powz 2 (- k) = of_int (2 ^ nat (- k))\<close> by simp
  also have "\<dots> = of_nat n" by (simp add: powz_mult_neg)
  finally have exact: "of_int (round_even (of_nat n * powz 2 (- k))) * powz 2 k = (of_nat n :: rat)" .
  have "(of_nat n :: rat) < of_nat (2 ^ p)" using assms(1) by (simp only: of_nat_less_iff)
  also have "of_nat (2 ^ p) \<le> powz 2 emax"
  proof -
    have "(2 :: rat) ^ p \<le> 2 ^ nat emax" using assms(3) by (intro power_increasing) auto
    then show ?thesis using assms(3) by (simp add: powz_def)
  qed
  finally have "\<not> powz 2 emax \<le> (of_nat n :: rat)" by simp
  with False exact show ?thesis by (simp add: round_to_def k_def [symmetric] Let_def)
qed (simp add: round_to_def)

lemma to_float_nat [num_simps]: "n < 2 ^ 24 \<Longrightarrow> to_float (of_nat n) = Fin (of_nat n)"
  by (simp add: to_float_def round_to_nat)

lemma to_double_nat [num_simps]: "n < 2 ^ 53 \<Longrightarrow> to_double (of_nat n) = Fin (of_nat n)"
  by (simp add: to_double_def round_to_nat)

lemma truncate_rat_nat [num_simps]: "truncate_rat (of_nat n) = int n"
  by (simp add: truncate_rat_def)

end
