(* ===== verification/RtspRange.thy ===== *)
theory RtspRange
  imports RtspFloat RtspString RtspStatus
begin

text \<open>
  Times and the Range header of \<open>src/rtsp.c\<close>: \<open>rtsp_time_write\<close>, \<open>rtsp_time_read\<close>,
  \<open>rtsp_range_header_write\<close>, \<open>rtsp_range_header_read\<close>, \<open>rtsp_range_get_duration_us\<close> and
  \<open>rtsp_range_cmp\<close>. The union of \<open>struct rtsp_time\<close> is represented by its three views, of which
  the code reads the one that \<open>format\<close> selects. \<open>time_local_format\<close> and \<open>time_local_parse\<close>
  (libfutils) are the parameters \<open>time_format\<close> and \<open>time_parse\<close>.
\<close>

section \<open>Data\<close>

record rtsp_time_npt =
  npt_now :: int
  npt_infinity :: int
  npt_sec :: "64 word"
  npt_usec :: "32 word"

record rtsp_time_smpte =
  smpte_infinity :: int
  smpte_sec :: "64 word"
  smpte_frames :: "32 word"

record rtsp_time_absolute =
  absolute_infinity :: int
  absolute_sec :: "64 word"
  absolute_usec :: "32 word"

record rtsp_time =
  time_fmt :: rtsp_time_format
  time_npt :: rtsp_time_npt
  time_smpte :: rtsp_time_smpte
  time_absolute :: rtsp_time_absolute

record rtsp_range =
  range_start :: rtsp_time
  range_stop :: rtsp_time
  range_time :: "64 word"

definition npt_zero :: rtsp_time_npt where
  "npt_zero = \<lparr>npt_now = 0, npt_infinity = 0, npt_sec = 0, npt_usec = 0\<rparr>"

definition time_zero :: rtsp_time where
  "time_zero = \<lparr>time_fmt = RTSP_TIME_FORMAT_UNKNOWN, time_npt = npt_zero,
     time_smpte = \<lparr>smpte_infinity = 0, smpte_sec = 0, smpte_frames = 0\<rparr>,
     time_absolute = \<lparr>absolute_infinity = 0, absolute_sec = 0, absolute_usec = 0\<rparr>\<rparr>"

definition range_zero :: rtsp_range where
  "range_zero = \<lparr>range_start = time_zero, range_stop = time_zero, range_time = 0\<rparr>"

section \<open>Writing\<close>

text \<open>The fraction: \<open>float usec\<close> computed in \<open>double\<close>, capped at \<open>0.999f\<close>, printed with \<open>"%.3f"\<close>
  into six bytes, without its first character.\<close>

definition float_value :: "c_float \<Rightarrow> rat" where
  "float_value x = (case x of Fin r \<Rightarrow> r | _ \<Rightarrow> 0)"

definition npt_fraction :: "32 word \<Rightarrow> string" where
  "npt_fraction u =
     (let f = float_value (to_float (of_nat (unat u)));
          q = float_value (to_double (f / 1000000));
          d = float_value (to_double (q - of_nat (unat (u div 1000000))));
          cap = float_value (to_float (999 / 1000));
          usec = float_value (to_float d);
          usec = (if usec \<ge> cap then cap else usec) in
      if usec \<noteq> 0 then drop 1 (take 5 (fixed3 usec)) else '''')"

definition npt_text :: "rtsp_time_npt \<Rightarrow> string" where
  "npt_text t =
     (let total = ucast (npt_sec t) + npt_usec t div 1000000 :: 32 word;
          hrs = total div 3600;
          min = total div 60 - hrs * 60;
          sec = total - min * 60 - hrs * 60 * 60 in
      if min > 0 \<or> hrs > 0 then
        show_nat (unat hrs) @ '':'' @ pad0 2 (show_nat (unat min)) @ '':'' @
        pad0 2 (show_nat (unat sec)) @ npt_fraction (npt_usec t)
      else show_nat (unat sec) @ npt_fraction (npt_usec t))"

definition rtsp_time_write :: "rtsp_time \<Rightarrow> rtsp_string \<Rightarrow> rtsp_string result" where
  "rtsp_time_write t s =
     (case time_fmt t of
        RTSP_TIME_FORMAT_NPT \<Rightarrow>
          if npt_now (time_npt t) \<noteq> 0 then rtsp_sprintf s ''now''
          else if npt_infinity (time_npt t) \<noteq> 0 then Inl (Err (- EINVAL))
          else rtsp_sprintf s (npt_text (time_npt t))
      | RTSP_TIME_FORMAT_SMPTE \<Rightarrow> Inl (Err (- ENOSYS))
      | RTSP_TIME_FORMAT_ABSOLUTE \<Rightarrow> Inl (Err (- ENOSYS))
      | RTSP_TIME_FORMAT_UNKNOWN \<Rightarrow> Inl (Err (- EINVAL)))"

text \<open>\<open>time_str[15] = 'Z'\<close> replaces the \<open>+0000\<close> of the short ISO 8601 form.\<close>

definition iso8601_z :: "string \<Rightarrow> string" where
  "iso8601_z s = (if length s < 15 then s else take 15 s @ ''Z'')"

definition write_range_times :: "rtsp_range \<Rightarrow> rtsp_string \<Rightarrow> rtsp_string result" where
  "write_range_times r s =
     (case time_fmt (range_start r) of
        RTSP_TIME_FORMAT_NPT \<Rightarrow>
          bindr (rtsp_sprintf s ''npt='') (\<lambda>s.
          bindr (if npt_infinity (time_npt (range_start r)) = 0 then rtsp_time_write (range_start r) s
                 else Inr s) (\<lambda>s.
          if time_fmt (range_stop r) = RTSP_TIME_FORMAT_NPT then
            if npt_infinity (time_npt (range_start r)) \<noteq> 0 \<and>
               npt_infinity (time_npt (range_start r)) = npt_infinity (time_npt (range_stop r))
            then Inl (Err (- EINVAL))
            else if npt_now (time_npt (range_stop r)) \<noteq> 0 then Inl (Err (- EINVAL))
            else bindr (rtsp_sprintf s ''-'') (\<lambda>s.
              if npt_infinity (time_npt (range_stop r)) = 0 then rtsp_time_write (range_stop r) s
              else Inr s)
          else Inr s))
      | RTSP_TIME_FORMAT_SMPTE \<Rightarrow> Inl (Err (- ENOSYS))
      | RTSP_TIME_FORMAT_ABSOLUTE \<Rightarrow> Inl (Err (- ENOSYS))
      | RTSP_TIME_FORMAT_UNKNOWN \<Rightarrow> Inl (Err (- EINVAL)))"

definition write_range_time ::
  "(64 word \<Rightarrow> string result) \<Rightarrow> rtsp_range \<Rightarrow> rtsp_string \<Rightarrow> rtsp_string result" where
  "write_range_time time_format r s =
     (if range_time r > 0 then
        bindr (time_format (range_time r)) (\<lambda>t. rtsp_sprintf s ('';time='' @ iso8601_z t))
      else Inr s)"

definition rtsp_range_header_write ::
  "(64 word \<Rightarrow> string result) \<Rightarrow> rtsp_range \<Rightarrow> rtsp_string \<Rightarrow> rtsp_string result" where
  "rtsp_range_header_write time_format r s =
     (if time_fmt (range_start r) \<noteq> time_fmt (range_stop r) \<and>
         time_fmt (range_stop r) \<noteq> RTSP_TIME_FORMAT_UNKNOWN
      then Inl (Err (- EINVAL))
      else
        bindr (rtsp_sprintf s ''Range: '') (\<lambda>s.
        bindr (write_range_times r s) (\<lambda>s.
        bindr (write_range_time time_format r s) (\<lambda>s.
        rtsp_sprintf s CRLF))))"

section \<open>Reading\<close>

definition float_sub :: "c_float \<Rightarrow> rat \<Rightarrow> c_float" where
  "float_sub x r = lift_float (\<lambda>v. to_float (v - r)) x"

definition float_mul :: "c_float \<Rightarrow> rat \<Rightarrow> c_float" where
  "float_mul x r = lift_float (\<lambda>v. to_float (v * r)) x"

definition float_of_int :: "int \<Rightarrow> rat" where
  "float_of_int i = float_value (to_float (of_int i))"

text \<open>\<open>(uint32_t)((f - (float)i) * 1000000)\<close>\<close>

definition read_usec :: "c_float \<Rightarrow> int \<Rightarrow> 32 word result" where
  "read_usec f i =
     bindr (to_unsigned 32 (float_mul (float_sub f (float_of_int i)) 1000000)) (\<lambda>u.
     Inr (of_int u))"

definition npt_read :: "string \<Rightarrow> rtsp_time_npt \<Rightarrow> rtsp_time_npt result" where
  "npt_read str t =
     (case strchr_cut (CHR '':'') str of
        (hrs_str, Some rest) \<Rightarrow>
          (case strchr_cut (CHR '':'') rest of
             (_, None) \<Rightarrow> Inl (Err (- EINVAL))
           | (min_str, Some sec_str) \<Rightarrow>
               let hrs = of_int (atoi hrs_str) :: 32 word;
                   min = of_int (atoi min_str) :: 32 word;
                   sec_f = lift_float to_float (atof sec_str) in
               bindr (to_unsigned 64 sec_f) (\<lambda>sec.
               bindr (to_unsigned 32 sec_f) (\<lambda>sec32.
               bindr (read_usec sec_f sec32) (\<lambda>usec.
               Inr (t\<lparr>npt_sec := of_int sec + ucast (min * 60 + hrs * 60 * 60),
                      npt_usec := usec\<rparr>)))))
      | (_, None) \<Rightarrow>
          if str = ''now'' then Inr (t\<lparr>npt_now := 1\<rparr>)
          else
            let sec_f = lift_float to_float (atof str) in
            bindr (to_unsigned 64 sec_f) (\<lambda>sec.
            bindr (read_usec sec_f sec) (\<lambda>usec.
            Inr (t\<lparr>npt_sec := of_int sec, npt_usec := usec\<rparr>))))"

definition rtsp_time_read :: "string \<Rightarrow> rtsp_time \<Rightarrow> rtsp_time result" where
  "rtsp_time_read str t =
     (case time_fmt t of
        RTSP_TIME_FORMAT_NPT \<Rightarrow>
          bindr (npt_read str (time_npt t)) (\<lambda>n. Inr (t\<lparr>time_npt := n\<rparr>))
      | RTSP_TIME_FORMAT_SMPTE \<Rightarrow> Inl (Err (- ENOSYS))
      | RTSP_TIME_FORMAT_ABSOLUTE \<Rightarrow> Inl (Err (- ENOSYS))
      | RTSP_TIME_FORMAT_UNKNOWN \<Rightarrow> Inl (Err (- EINVAL)))"

text \<open>One end of the range: an empty text is infinity.\<close>

definition read_bound :: "string \<Rightarrow> rtsp_time \<Rightarrow> rtsp_time result" where
  "read_bound str t =
     (if str \<noteq> [] then rtsp_time_read str (t\<lparr>time_fmt := RTSP_TIME_FORMAT_NPT\<rparr>)
      else Inr (t\<lparr>time_fmt := RTSP_TIME_FORMAT_NPT, time_npt := (time_npt t)\<lparr>npt_infinity := 1\<rparr>\<rparr>))"

text \<open>The checks after parsing, as they are written: the last two apply when \<open>stop\<close> is not NPT.\<close>

definition check_range :: "rtsp_range \<Rightarrow> unit result" where
  "check_range r =
     (if time_fmt (range_stop r) \<noteq> RTSP_TIME_FORMAT_UNKNOWN \<and>
         time_fmt (range_stop r) \<noteq> time_fmt (range_start r) then Inl (Err (- EINVAL))
      else if time_fmt (range_stop r) \<noteq> RTSP_TIME_FORMAT_NPT then
        if npt_infinity (time_npt (range_start r)) \<noteq> 0 \<and>
           npt_infinity (time_npt (range_start r)) = npt_infinity (time_npt (range_stop r))
        then Inl (Err (- EINVAL))
        else if npt_now (time_npt (range_stop r)) \<noteq> 0 then Inl (Err (- EINVAL)) else Inr ()
      else Inr ())"

definition read_range_time ::
  "(string \<Rightarrow> (64 word \<times> int) result) \<Rightarrow> string option \<Rightarrow> rtsp_range \<Rightarrow> rtsp_range result" where
  "read_range_time time_parse time_str r =
     (case time_str of
        None \<Rightarrow> Inr r
      | Some ts \<Rightarrow>
          if has_prefix ts ''time'' then
            (case strchr_cut (CHR ''='') ts of
               (_, None) \<Rightarrow> Inl (Err (- EINVAL))
             | (_, Some v) \<Rightarrow>
                 bindr (time_parse v) (\<lambda>(epoch_sec, utc_offset_sec).
                 Inr (r\<lparr>range_time := epoch_sec\<rparr>)))
          else Inr r)"

definition read_npt_range :: "string \<Rightarrow> rtsp_range result" where
  "read_npt_range str =
     (case strchr_cut (CHR ''='') str of
        (_, None) \<Rightarrow> Inl (Err (- EINVAL))
      | (fmt, Some bounds) \<Rightarrow>
          (case strchr_cut (CHR ''-'') bounds of
             (start_str, stop_str) \<Rightarrow>
               if fmt = ''npt'' then
                 bindr (read_bound start_str time_zero) (\<lambda>start.
                 bindr (case stop_str of None \<Rightarrow> Inr time_zero | Some s \<Rightarrow> read_bound s time_zero)
                   (\<lambda>stop.
                 Inr \<lparr>range_start = start, range_stop = stop, range_time = 0\<rparr>))
               else if fmt = ''smpte'' \<or> fmt = ''clock'' then Inl (Err (- ENOSYS))
               else Inl (Err (- EINVAL))))"

definition rtsp_range_header_read ::
  "(string \<Rightarrow> (64 word \<times> int) result) \<Rightarrow> string option \<Rightarrow> rtsp_range result" where
  "rtsp_range_header_read time_parse str =
     (case str of
        None \<Rightarrow> Inl (Err (- EINVAL))
      | Some s \<Rightarrow>
          if length s \<ge> 4096 then Inl (Err (- ENAMETOOLONG))
          else
            (case strchr_cut (CHR '';'') s of
               (spec, time_str) \<Rightarrow>
                 bindr (read_npt_range spec) (\<lambda>r.
                 bindr (check_range r) (\<lambda>_.
                 read_range_time time_parse time_str r))))"

section \<open>Duration and comparison\<close>

text \<open>The sums of \<open>int64_t\<close> and \<open>uint32_t\<close> must not overflow; the products are unsigned.\<close>

definition add_s64 :: "64 word \<Rightarrow> int \<Rightarrow> 64 word result" where
  "add_s64 d i =
     (if - (2 ^ 63) \<le> sint d + i \<and> sint d + i < 2 ^ 63 then Inr (d + of_int i) else Inl UB)"

definition rtsp_range_get_duration_us :: "rtsp_range option \<Rightarrow> 64 word result" where
  "rtsp_range_get_duration_us rng =
     (case rng of
        None \<Rightarrow> Inl (Err (- EINVAL))
      | Some r \<Rightarrow>
          let start = time_npt (range_start r); stop = time_npt (range_stop r) in
          if time_fmt (range_start r) \<noteq> RTSP_TIME_FORMAT_NPT \<or>
             time_fmt (range_stop r) \<noteq> RTSP_TIME_FORMAT_NPT then Inl (Err (- EINVAL))
          else if npt_infinity stop \<noteq> 0 then Inr (2 ^ 63 - 1)
          else if npt_infinity start \<noteq> 0 then Inr (2 ^ 63)
          else if npt_now start \<noteq> 0 \<or> npt_now stop \<noteq> 0 then Inl (Err (- EINVAL))
          else
            bindr (add_s64 (npt_sec stop * 1000000) (int (unat (npt_usec stop)))) (\<lambda>diff.
            add_s64 (diff - npt_sec start * 1000000) (- int (unat (npt_usec start)))))"

definition rtsp_time_cmp :: "rtsp_time \<Rightarrow> rtsp_time \<Rightarrow> bool" where
  "rtsp_time_cmp t1 t2 =
     (if time_fmt t1 \<noteq> time_fmt t2 then False
      else
        (case time_fmt t1 of
           RTSP_TIME_FORMAT_UNKNOWN \<Rightarrow> True
         | RTSP_TIME_FORMAT_NPT \<Rightarrow>
             npt_now (time_npt t1) = npt_now (time_npt t2) \<and>
             npt_infinity (time_npt t1) = npt_infinity (time_npt t2) \<and>
             npt_sec (time_npt t1) = npt_sec (time_npt t2) \<and>
             npt_usec (time_npt t1) = npt_usec (time_npt t2)
         | RTSP_TIME_FORMAT_SMPTE \<Rightarrow>
             smpte_infinity (time_smpte t1) = smpte_infinity (time_smpte t2) \<and>
             smpte_sec (time_smpte t1) = smpte_sec (time_smpte t2) \<and>
             smpte_frames (time_smpte t1) = smpte_frames (time_smpte t2)
         | RTSP_TIME_FORMAT_ABSOLUTE \<Rightarrow>
             absolute_infinity (time_absolute t1) = absolute_infinity (time_absolute t2) \<and>
             absolute_sec (time_absolute t1) = absolute_sec (time_absolute t2) \<and>
             absolute_usec (time_absolute t1) = absolute_usec (time_absolute t2)))"

definition rtsp_range_cmp :: "rtsp_range option \<Rightarrow> rtsp_range option \<Rightarrow> bool" where
  "rtsp_range_cmp range1 range2 =
     (case (range1, range2) of
        (None, None) \<Rightarrow> True
      | (Some r1, Some r2) \<Rightarrow>
          if \<not> rtsp_time_cmp (range_start r1) (range_start r2) then False
          else if \<not> rtsp_time_cmp (range_stop r1) (range_stop r2) then False
          else range_time r1 = range_time r2
      | _ \<Rightarrow> False)"

section \<open>Numbers in times\<close>

definition digits :: "string \<Rightarrow> bool" where
  "digits s \<longleftrightarrow> s \<noteq> [] \<and> (\<forall>c \<in> set s. is_digit c)"

lemma digits_show_nat [simp]: "digits (show_nat n)"
  using show_nat_digits by (auto simp: digits_def)

lemma digits_pad0 [simp]: "digits s \<Longrightarrow> digits (pad0 w s)"
  by (auto simp: digits_def pad0_def is_digit_def)

lemma parse_digits_pad0 [simp]: "parse_digits b (pad0 w s) = parse_digits b s"
proof -
  have "foldl (\<lambda>n c. n * b + dval c) 0 (replicate k (CHR ''0'')) = 0" for k
    by (induction k) (simp_all add: dval_def digit_val_def is_digit_def)
  then show ?thesis by (simp add: parse_digits_def pad0_def)
qed

lemma digits_first:
  assumes "digits s"
  shows "dropWhile isspace s = s" "scan_sign s = (False, s)"
    "takeWhile (digit_in 10) s = s" "dropWhile (digit_in 10) s = []"
proof -
  obtain c t where s: "s = c # t" "is_digit c" using assms by (cases s) (auto simp: digits_def)
  then show "dropWhile isspace s = s" "scan_sign s = (False, s)"
    by (simp_all add: scan_sign_def is_digit_not_special)
  have "\<forall>c \<in> set s. digit_in 10 c" using assms by (simp add: digits_def is_digit_digit_in)
  then show "takeWhile (digit_in 10) s = s" "dropWhile (digit_in 10) s = []"
    by (simp_all add: takeWhile_eq_all_conv)
qed

lemma atoi_digits:
  assumes "digits s" "parse_digits 10 s < 2 ^ 31"
  shows "atoi s = int (parse_digits 10 s)"
proof -
  have "skip_0x 10 s = s" by (simp add: skip_0x_def split: list.splits)
  then have "scan_number 10 s = Some (False, parse_digits 10 s, [])"
    using assms(1) by (simp add: scan_number_def digits_first [OF assms(1)] digits_def)
  then show ?thesis
    using assms(2) by (simp add: atoi_def strtol10_def LONG_MAX_def LONG_MIN_def to_int32_id)
qed

lemma digit_not_letter:
  assumes "is_digit c" shows "tolower c = c" "c \<noteq> CHR ''i''" "c \<noteq> CHR ''n''" "c \<noteq> CHR ''x''" "c \<noteq> CHR '':''"
  using assms by (auto simp: is_digit_def tolower_def is_upper_def)

lemma digits_not_prefix:
  assumes "digits s"
  shows "\<not> has_prefix_nocase s ''inf''" "\<not> has_prefix_nocase s ''nan''" "\<not> has_prefix_nocase s ''0x''"
proof -
  obtain c t where s: "s = c # t" "is_digit c" "\<forall>d \<in> set t. is_digit d"
    using assms by (cases s) (auto simp: digits_def)
  then show "\<not> has_prefix_nocase s ''inf''" "\<not> has_prefix_nocase s ''nan''"
    by (auto simp: has_prefix_nocase_def digit_not_letter tolower_def is_upper_def is_digit_def)
  show "\<not> has_prefix_nocase s ''0x''"
    using s by (cases t) (auto simp: has_prefix_nocase_def tolower_def is_upper_def is_digit_def)
qed

lemma atof_digits:
  assumes "digits s" "parse_digits 10 s < 2 ^ 53"
  shows "atof s = Fin (of_nat (parse_digits 10 s))"
proof -
  have m: "scan_mantissa 10 s = (s, 0, [])" by (simp add: scan_mantissa_def digits_first [OF assms(1)])
  have "s \<noteq> []" using assms(1) by (simp add: digits_def)
  with m digits_first [OF assms(1)] digits_not_prefix [OF assms(1)] to_double_nat [OF assms(2)]
  show ?thesis
    by (simp add: atof_def scan_exponent_def powz_def split: prod.splits)
qed

lemma npt_fraction_0 [simp]: "npt_fraction 0 = ''''"
proof -
  have cap: "to_float (999 / 1000) = Fin (16760439 / 16777216)" by code_simp
  have z: "to_float 0 = Fin 0" "to_double 0 = Fin 0"
    by (simp_all add: to_float_def to_double_def round_to_def)
  show ?thesis by (simp add: npt_fraction_def cap z float_value_def)
qed

lemma to_unsigned_nat: "n < 2 ^ w \<Longrightarrow> to_unsigned w (Fin (of_nat n)) = Inr (int n)"
  by (simp add: to_unsigned_def truncate_rat_nat)

lemma read_usec_nat: "n < 2 ^ 24 \<Longrightarrow> read_usec (Fin (of_nat n)) (int n) = Inr 0"
proof -
  assume n: "n < 2 ^ 24"
  have z: "to_float 0 = Fin 0" by (simp add: to_float_def round_to_def)
  have "float_of_int (int n) = of_nat n" by (simp add: float_of_int_def to_float_nat [OF n] float_value_def)
  then show ?thesis
    by (simp add: read_usec_def float_sub_def float_mul_def lift_float_def z to_unsigned_def truncate_rat_def)
qed

section \<open>Whole-second times are read back\<close>

definition wf_npt :: "rtsp_time_npt \<Rightarrow> bool" where
  "wf_npt t \<longleftrightarrow> npt_usec t = 0 \<and>
     (npt_now t = 1 \<and> npt_infinity t = 0 \<and> npt_sec t = 0 \<or>
      npt_now t = 0 \<and> npt_infinity t = 1 \<and> npt_sec t = 0 \<or>
      npt_now t = 0 \<and> npt_infinity t = 0 \<and> npt_sec t < 2 ^ 32)"

definition bound_text :: "rtsp_time_npt \<Rightarrow> string" where
  "bound_text t =
     (if npt_infinity t \<noteq> 0 then '''' else if npt_now t \<noteq> 0 then ''now'' else npt_text t)"

lemma split_hms:
  fixes total :: "32 word"
  defines "hrs \<equiv> total div 3600" and "mins \<equiv> total div 60 - total div 3600 * 60"
  shows "unat hrs = unat total div 3600" "unat mins = unat total div 60 mod 60"
    "unat (total - mins * 60 - hrs * 60 * 60) = unat total mod 60"
    "mins * 60 + hrs * 60 * 60 = total - of_nat (unat total mod 60)"
proof -
  have T: "unat total < 2 ^ 32" using unsigned_less [where 'a = nat and w = total] by simp
  show h: "unat hrs = unat total div 3600" by (simp add: hrs_def unat_div_distrib)
  have h60: "unat (hrs * 60) = unat total div 3600 * 60"
    using T by (simp add: unat_word_ariths h)
  have d: "unat (total div 60) = unat total div 60" by (simp add: unat_div_distrib)
  have m_eq: "unat total div 60 - unat total div 3600 * 60 = unat total div 60 mod 60"
    using minus_div_mult_eq_mod [of "unat total div 60" 60] by (simp add: div_mult2_eq [symmetric])
  have le: "hrs * 60 \<le> total div 60"
    unfolding word_le_nat_alt h60 d
    using div_times_less_eq_dividend [of "unat total div 60" 60] by (simp add: div_mult2_eq [symmetric])
  then show m: "unat mins = unat total div 60 mod 60"
    using m_eq by (simp add: mins_def hrs_def [symmetric] unat_sub h60 d)
  have "mins * 60 + hrs * 60 * 60 = (total div 60) * 60"
    by (simp add: mins_def hrs_def [symmetric] algebra_simps)
  also have "\<dots> = total - total mod 60"
    by (simp add: minus_mod_eq_div_mult)
  also have "total mod 60 = of_nat (unat total mod 60)"
    by (simp add: word_arith_nat_mod)
  finally show sum: "mins * 60 + hrs * 60 * 60 = total - of_nat (unat total mod 60)" .
  have "total - mins * 60 - hrs * 60 * 60 = total - (mins * 60 + hrs * 60 * 60)" by simp
  also have "\<dots> = of_nat (unat total mod 60)" unfolding sum by simp
  finally show "unat (total - mins * 60 - hrs * 60 * 60) = unat total mod 60"
    using T by (simp add: unat_of_nat)
qed

lemma digits_no_colon: "digits s \<Longrightarrow> CHR '':'' \<notin> set s"
  by (auto simp: digits_def is_digit_def)

text \<open>What is less than a minute is read exactly, with and without a leading zero.\<close>

lemma seconds_read:
  assumes "n < 60"
  shows "atof (show_nat n) = Fin (of_nat n)" "atof (pad0 2 (show_nat n)) = Fin (of_nat n)"
    "lift_float to_float (Fin (of_nat n)) = Fin (of_nat n)" "to_unsigned 64 (Fin (of_nat n)) = Inr (int n)"
    "to_unsigned 32 (Fin (of_nat n)) = Inr (int n)" "read_usec (Fin (of_nat n)) (int n) = Inr 0"
proof -
  have "n < 2 ^ 24"
    by (rule less_trans [OF assms]) simp
  then show "atof (show_nat n) = Fin (of_nat n)" "atof (pad0 2 (show_nat n)) = Fin (of_nat n)"
    "lift_float to_float (Fin (of_nat n)) = Fin (of_nat n)" "to_unsigned 64 (Fin (of_nat n)) = Inr (int n)"
    "to_unsigned 32 (Fin (of_nat n)) = Inr (int n)" "read_usec (Fin (of_nat n)) (int n) = Inr 0"
    by (simp_all add: atof_digits parse_show_nat lift_float_def to_float_nat to_unsigned_nat read_usec_nat)
qed

lemma above_minute:
  assumes "60 \<le> T" shows "T div 60 mod 60 \<noteq> 0 \<or> T div 3600 \<noteq> (0 :: nat)"
proof (rule ccontr)
  assume "\<not> (T div 60 mod 60 \<noteq> 0 \<or> T div 3600 \<noteq> 0)"
  then have "T < 3600" "T div 60 mod 60 = 0" by (simp_all add: div_eq_0_iff)
  moreover from this have "T div 60 < 60" by (simp add: less_mult_imp_div_less)
  ultimately have "T div 60 = 0" by simp
  then show False using assms by (simp add: div_eq_0_iff)
qed

text \<open>The sum of the reader, in 32 and 64 bits, is the number of seconds.\<close>

lemma seconds_sum:
  assumes "unat (w :: 32 word) = T" "unat (sec :: 64 word) = T"
  shows "ucast (w - of_nat (T mod 60)) + of_nat (T mod 60) = sec"
proof (subst word_unat_eq_iff)
  have "T < 2 ^ 32"
    using assms(1) unsigned_less [where w = w and 'a = nat] by simp
  moreover have "unat (w - of_nat (T mod 60) :: 32 word) = T - T mod 60"
    by (simp add: unat_sub word_le_nat_alt unat_of_nat assms(1))
  ultimately show "unat (ucast (w - of_nat (T mod 60)) + of_nat (T mod 60) :: 64 word) = unat sec"
    by (simp add: unat_word_ariths unsigned_ucast_eq take_bit_nat_eq_self unat_of_nat assms(2))
qed

lemma npt_read_whole:
  assumes "npt_sec t < 2 ^ 32" "npt_usec t = 0"
  shows "npt_read (npt_text t) npt_zero = Inr (npt_zero\<lparr>npt_sec := npt_sec t\<rparr>)"
proof -
  define total :: "32 word" where "total = ucast (npt_sec t)"
  define T where "T = unat (npt_sec t)"
  have T: "T < 2 ^ 32" "unat total = T"
    using assms(1) by (simp_all add: T_def total_def word_less_nat_alt unsigned_ucast_eq take_bit_nat_eq_self)
  note hms = split_hms [of total, unfolded T]
  have texts: "digits (show_nat n)" "digits (pad0 2 (show_nat n))"
    "parse_digits 10 (pad0 2 (show_nat n)) = n" for n
    by (simp_all add: parse_show_nat)
  note read_sec = seconds_read [of "T mod 60", simplified]
  define h :: "32 word" where "h = total div 3600"
  define m :: "32 word" where "m = total div 60 - total div 3600 * 60"
  define sec :: "32 word" where "sec = total - m * 60 - h * 60 * 60"
  have hmsw: "unat h = T div 3600" "unat m = T div 60 mod 60" "unat sec = T mod 60"
    "m * 60 + h * 60 * 60 = total - of_nat (T mod 60)"
    using hms by (simp_all add: h_def m_def sec_def)
  have shown: "npt_text t =
      (if m > 0 \<or> h > 0 then show_nat (T div 3600) @ CHR '':'' #
         (pad0 2 (show_nat (T div 60 mod 60)) @ CHR '':'' # pad0 2 (show_nat (T mod 60)))
       else show_nat (T mod 60))"
    unfolding hmsw(1,2,3) [symmetric]
    by (simp add: npt_text_def total_def Let_def h_def m_def sec_def assms(2))
  show ?thesis
  proof (cases "T < 60")
    case True
    then have "unat m = 0" "unat h = 0" using hmsw(1,2) by simp_all
    then have "npt_text t = show_nat (T mod 60)" using shown by (simp add: unat_eq_0)
    moreover have "show_nat (T mod 60) \<noteq> ''now''" using digits_no_colon show_nat_digits [of "CHR ''n''" "T mod 60"]
      by (auto simp: is_digit_def)
    moreover have "of_int (int (T mod 60)) = npt_sec t" using True by (simp add: T_def)
    ultimately show ?thesis
      by (simp add: npt_read_def strchr_cut_none digits_no_colon texts read_sec parse_show_nat
          Let_def npt_zero_def)
  next
    case False
    have "m > 0 \<or> h > 0"
      using above_minute [of T] False hmsw(1,2) by (auto simp: word_gt_0)
    then have hms_text: "npt_text t = show_nat (T div 3600) @ CHR '':'' #
        (pad0 2 (show_nat (T div 60 mod 60)) @ CHR '':'' # pad0 2 (show_nat (T mod 60)))"
      using shown by simp
    have nums: "atoi (show_nat (T div 3600)) = int (T div 3600)"
      "atoi (pad0 2 (show_nat (T div 60 mod 60))) = int (T div 60 mod 60)"
      using T(1) by (subst atoi_digits, simp_all add: texts parse_show_nat)+
    have ws: "of_nat (T div 3600) = h" "of_nat (T div 60 mod 60) = m"
      by (simp_all add: hmsw(1,2) [symmetric])
    have "ucast (total - of_nat (T mod 60)) + of_nat (T mod 60) = npt_sec t"
      by (rule seconds_sum [OF T(2)]) (simp add: T_def)
    then have sum: "of_int (int (T mod 60)) + ucast (m * 60 + h * 60 * 60) = npt_sec t"
      unfolding hmsw(4) by (simp add: add.commute)
    show ?thesis
      by (simp add: npt_read_def hms_text strchr_cut_append digits_no_colon texts nums read_sec ws
          Let_def npt_zero_def sum [simplified])
  qed
qed

section \<open>The text of a Range header\<close>

definition range_writable :: "(64 word \<Rightarrow> string result) \<Rightarrow> rtsp_range \<Rightarrow> bool" where
  "range_writable time_format r \<longleftrightarrow>
     time_fmt (range_start r) = RTSP_TIME_FORMAT_NPT \<and>
     (time_fmt (range_stop r) = RTSP_TIME_FORMAT_NPT \<and>
        \<not> (npt_infinity (time_npt (range_start r)) \<noteq> 0 \<and>
           npt_infinity (time_npt (range_start r)) = npt_infinity (time_npt (range_stop r))) \<and>
        npt_now (time_npt (range_stop r)) = 0 \<or>
      time_fmt (range_stop r) = RTSP_TIME_FORMAT_UNKNOWN) \<and>
     (range_time r > 0 \<longrightarrow> (\<exists>t. time_format (range_time r) = Inr t))"

definition range_time_text :: "(64 word \<Rightarrow> string result) \<Rightarrow> rtsp_range \<Rightarrow> string" where
  "range_time_text time_format r =
     (if range_time r > 0 then
        (case time_format (range_time r) of Inl _ \<Rightarrow> '''' | Inr t \<Rightarrow> '';time='' @ iso8601_z t)
      else '''')"

definition range_spec :: "rtsp_range \<Rightarrow> string" where
  "range_spec r = ''npt='' @ bound_text (time_npt (range_start r)) @
     (if time_fmt (range_stop r) = RTSP_TIME_FORMAT_NPT
      then CHR ''-'' # bound_text (time_npt (range_stop r)) else '''')"

definition range_text :: "(64 word \<Rightarrow> string result) \<Rightarrow> rtsp_range \<Rightarrow> string" where
  "range_text time_format r =
     ''Range: '' @ range_spec r @ range_time_text time_format r @ CRLF"

lemma writes_bound:
  assumes "time_fmt t = RTSP_TIME_FORMAT_NPT"
  shows "writes (\<lambda>s. if npt_infinity (time_npt t) = 0 then rtsp_time_write t s else Inr s)
    (bound_text (time_npt t))"
  using assms writes_skip
  by (auto simp: rtsp_time_write_def bound_text_def intro: writes_sprintf)

lemma writes_range_times:
  assumes "range_writable time_format r"
  shows "writes (write_range_times r) (range_spec r)"
proof -
  have start: "time_fmt (range_start r) = RTSP_TIME_FORMAT_NPT"
    using assms by (simp add: range_writable_def)
  show ?thesis
  proof (cases "time_fmt (range_stop r) = RTSP_TIME_FORMAT_NPT")
    case True
    have ends: "\<not> (npt_infinity (time_npt (range_start r)) \<noteq> 0 \<and>
        npt_infinity (time_npt (range_start r)) = npt_infinity (time_npt (range_stop r)))"
      "\<not> npt_now (time_npt (range_stop r)) \<noteq> 0"
      using assms True by (auto simp: range_writable_def)
    have "writes (write_range_times r) (''npt='' @ bound_text (time_npt (range_start r)) @
        ''-'' @ bound_text (time_npt (range_stop r)))"
      unfolding write_range_times_def [abs_def] start True if_not_P [OF ends(1)] if_not_P [OF ends(2)]
        rtsp_time_format.simps if_P [OF refl]
      by (intro writes_bind writes_sprintf writes_bound start True)
    then show ?thesis using True by (simp add: range_spec_def)
  next
    case False
    have "writes (write_range_times r) (''npt='' @ bound_text (time_npt (range_start r)) @ [])"
      unfolding write_range_times_def [abs_def] start if_not_P [OF False] rtsp_time_format.simps
      by (intro writes_bind writes_sprintf writes_bound writes_skip start)
    then show ?thesis using False by (simp add: range_spec_def)
  qed
qed

lemma writes_range_time:
  assumes "range_writable time_format r"
  shows "writes (write_range_time time_format r) (range_time_text time_format r)"
  using assms writes_skip writes_sprintf
  by (auto simp: range_writable_def range_time_text_def write_range_time_def [abs_def] split: sum.splits)

lemma fails_range_times:
  assumes "time_fmt (range_start r) = time_fmt (range_stop r) \<or> time_fmt (range_stop r) = RTSP_TIME_FORMAT_UNKNOWN"
    and "\<not> (time_fmt (range_start r) = RTSP_TIME_FORMAT_NPT \<and>
     (time_fmt (range_stop r) = RTSP_TIME_FORMAT_NPT \<and>
        \<not> (npt_infinity (time_npt (range_start r)) \<noteq> 0 \<and>
           npt_infinity (time_npt (range_start r)) = npt_infinity (time_npt (range_stop r))) \<and>
        npt_now (time_npt (range_stop r)) = 0 \<or>
      time_fmt (range_stop r) = RTSP_TIME_FORMAT_UNKNOWN))"
  shows "fails (write_range_times r)"
proof (cases "time_fmt (range_start r) = RTSP_TIME_FORMAT_NPT")
  case False
  then show ?thesis by (cases "time_fmt (range_start r)") (auto simp: fails_def write_range_times_def)
next
  case True
  with assms have "time_fmt (range_stop r) = RTSP_TIME_FORMAT_NPT" by auto
  with True assms(2) have bad: "npt_infinity (time_npt (range_start r)) \<noteq> 0 \<and>
      npt_infinity (time_npt (range_start r)) = npt_infinity (time_npt (range_stop r)) \<or>
      npt_now (time_npt (range_stop r)) \<noteq> 0" by auto
  have "fails (\<lambda>s :: rtsp_string. if npt_infinity (time_npt (range_start r)) \<noteq> 0 \<and>
      npt_infinity (time_npt (range_start r)) = npt_infinity (time_npt (range_stop r))
    then Inl (Err (- EINVAL))
    else if npt_now (time_npt (range_stop r)) \<noteq> 0 then Inl (Err (- EINVAL)) else v s)" for v
    using bad by (auto simp: fails_def)
  with True \<open>time_fmt (range_stop r) = RTSP_TIME_FORMAT_NPT\<close> show ?thesis
    unfolding write_range_times_def [abs_def] rtsp_time_format.simps if_P [OF refl]
    by (simp only: rtsp_time_format.simps if_P) (intro fails_bind2)
qed

lemma range_write_invalid:
  assumes "\<not> range_writable time_format r"
  shows "\<exists>e. rtsp_range_header_write time_format r s = Inl e"
proof (cases "time_fmt (range_start r) \<noteq> time_fmt (range_stop r) \<and>
    time_fmt (range_stop r) \<noteq> RTSP_TIME_FORMAT_UNKNOWN")
  case True
  then show ?thesis by (simp add: rtsp_range_header_write_def)
next
  case False
  have "fails (write_range_times r) \<or> fails (write_range_time time_format r)"
  proof (rule disjCI)
    assume a: "\<not> fails (write_range_time time_format r)"
    have "range_time r > 0 \<longrightarrow> (\<exists>t. time_format (range_time r) = Inr t)"
      using a by (cases "time_format (range_time r)") (auto simp: fails_def write_range_time_def)
    with assms False show "fails (write_range_times r)"
      by (intro fails_range_times) (auto simp: range_writable_def)
  qed
  then have "fails (\<lambda>s. bindr (rtsp_sprintf s ''Range: '') (\<lambda>s. bindr (write_range_times r s) (\<lambda>s.
        bindr (write_range_time time_format r s) (\<lambda>s. rtsp_sprintf s CRLF))))"
    by (elim disjE) (rule fails_bind2, rule fails_bind1, assumption,
        rule fails_bind2, rule fails_bind2, rule fails_bind1, assumption)
  with False show ?thesis by (simp add: rtsp_range_header_write_def fails_def)
qed

interpretation range_header: bounded_writer "rtsp_range_header_write time_format"
  "range_writable time_format" "range_text time_format" for time_format
proof
  fix r assume ok: "range_writable time_format r"
  then have "\<not> (time_fmt (range_start r) \<noteq> time_fmt (range_stop r) \<and>
      time_fmt (range_stop r) \<noteq> RTSP_TIME_FORMAT_UNKNOWN)" by (auto simp: range_writable_def)
  then show "writes (rtsp_range_header_write time_format r) (range_text time_format r)"
    unfolding rtsp_range_header_write_def [abs_def] range_text_def
    by (simp only: if_False) (intro writes_bind writes_sprintf writes_range_times [OF ok] writes_range_time [OF ok])
qed (rule range_write_invalid)

section \<open>Reading a Range header back\<close>

definition npt_time :: "rtsp_time_npt \<Rightarrow> rtsp_time" where
  "npt_time t = time_zero\<lparr>time_fmt := RTSP_TIME_FORMAT_NPT, time_npt := t\<rparr>"

definition wf_range :: "rtsp_range \<Rightarrow> bool" where
  "wf_range r \<longleftrightarrow>
     (\<exists>t. wf_npt t \<and> range_start r = npt_time t) \<and>
     (range_stop r = time_zero \<or> (\<exists>t. wf_npt t \<and> range_stop r = npt_time t))"

lemma npt_text_chars:
  assumes "npt_usec t = 0" "c \<in> set (npt_text t)"
  shows "is_digit c \<or> c = CHR '':''"
  using assms show_nat_digits
  by (auto simp: npt_text_def Let_def pad0_def is_digit_def split: if_splits)

lemma bound_text_chars:
  assumes "wf_npt t" "c \<in> set (bound_text t)"
  shows "c \<noteq> CHR '';'' \<and> c \<noteq> CHR ''='' \<and> c \<noteq> CHR ''-''"
  using assms npt_text_chars [of t c]
  by (auto simp: bound_text_def wf_npt_def is_digit_def split: if_splits)

lemma show_nat_length_32: "length (show_nat (unat (w :: 32 word))) \<le> 10"
proof -
  have "unat w < 10 ^ 10" using unsigned_less [where 'a = nat and w = w] by simp
  then show ?thesis by (subst show_nat_length) simp_all
qed

lemma length_npt_text:
  assumes "npt_usec t = 0"
  shows "length (npt_text t) \<le> 32"
proof -
  have pad: "length (pad0 2 (show_nat (unat (w :: 32 word)))) \<le> 10" for w
    using show_nat_length_32 [of w] by (simp add: pad0_def)
  have hms: "length a \<le> 10 \<Longrightarrow> length b \<le> 10 \<Longrightarrow> length c \<le> 10 \<Longrightarrow>
      length (a @ '':'' @ b @ '':'' @ c @ []) \<le> 32" for a b c :: string by simp
  have s: "length a \<le> 10 \<Longrightarrow> length (a @ []) \<le> 32" for a :: string by simp
  show ?thesis
    unfolding npt_text_def Let_def assms npt_fraction_0
    by (split if_split) (intro conjI impI hms s pad show_nat_length_32)
qed

lemma length_bound_text: "wf_npt t \<Longrightarrow> length (bound_text t) \<le> 32"
  using length_npt_text [of t] by (auto simp: bound_text_def wf_npt_def)

lemma npt_text_not_Nil: "npt_text t \<noteq> []"
  by (simp add: npt_text_def Let_def)

lemma read_bound_text:
  assumes "wf_npt t"
  shows "read_bound (bound_text t) time_zero = Inr (npt_time t)"
proof -
  have u: "npt_usec t = 0" using assms by (auto simp: wf_npt_def)
  consider (now) "npt_now t = 1" "npt_infinity t = 0" "npt_sec t = 0"
    | (inf) "npt_now t = 0" "npt_infinity t = 1" "npt_sec t = 0"
    | (fin) "npt_now t = 0" "npt_infinity t = 0" "npt_sec t < 2 ^ 32"
    using assms by (auto simp: wf_npt_def)
  then show ?thesis
  proof cases
    case now
    then have "npt_zero\<lparr>npt_now := 1\<rparr> = t" using u by (simp add: npt_zero_def)
    moreover have "npt_read ''now'' npt_zero = Inr (npt_zero\<lparr>npt_now := 1\<rparr>)"
      by (simp add: npt_read_def strchr_cut_none)
    ultimately show ?thesis using now
      by (simp add: read_bound_def bound_text_def rtsp_time_read_def npt_time_def time_zero_def)
  next
    case inf
    then have "npt_zero\<lparr>npt_infinity := 1\<rparr> = t" using u by (simp add: npt_zero_def)
    then show ?thesis using inf
      by (simp add: read_bound_def bound_text_def npt_time_def time_zero_def)
  next
    case fin
    then have "npt_zero\<lparr>npt_sec := npt_sec t\<rparr> = t" using u by (simp add: npt_zero_def)
    then show ?thesis using fin npt_read_whole [OF fin(3) u] npt_text_not_Nil [of t]
      by (simp add: read_bound_def bound_text_def rtsp_time_read_def npt_time_def time_zero_def)
  qed
qed

lemma read_npt_range_text:
  assumes "wf_range r"
  shows "read_npt_range (range_spec r) = Inr (r\<lparr>range_time := 0\<rparr>)"
    "length (range_spec r) \<le> 69" "CHR '';'' \<notin> set (range_spec r)"
proof -
  obtain a where a: "wf_npt a" "range_start r = npt_time a" using assms by (auto simp: wf_range_def)
  have eq: "strchr_cut (CHR ''='') (''npt='' @ v) = (''npt'', Some v)" for v
    using strchr_cut_append [of "CHR ''=''" "''npt''" v] by simp
  have dash: "CHR ''-'' \<notin> set (bound_text a)" using bound_text_chars [OF a(1)] by blast
  have fmt: "time_fmt (npt_time t) = RTSP_TIME_FORMAT_NPT" "time_npt (npt_time t) = t" for t
    by (simp_all add: npt_time_def)
  show "length (range_spec r) \<le> 69" "CHR '';'' \<notin> set (range_spec r)"
    using assms length_bound_text bound_text_chars a
    by (fastforce simp: wf_range_def range_spec_def fmt time_zero_def dest: length_bound_text)+
  show "read_npt_range (range_spec r) = Inr (r\<lparr>range_time := 0\<rparr>)"
  proof (cases "range_stop r = time_zero")
    case True
    then have "range_spec r = ''npt='' @ bound_text a"
      using a by (simp add: range_spec_def fmt time_zero_def)
    then show ?thesis
      using a(2) True by (simp only: read_npt_range_def eq)
        (simp add: strchr_cut_none [OF dash] read_bound_text [OF a(1)])
  next
    case False
    then obtain b where b: "wf_npt b" "range_stop r = npt_time b" using assms by (auto simp: wf_range_def)
    then have "range_spec r = ''npt='' @ bound_text a @ CHR ''-'' # bound_text b"
      using a by (simp add: range_spec_def fmt)
    then show ?thesis
      using a(2) b(2) by (simp only: read_npt_range_def eq)
        (simp add: strchr_cut_append [OF dash] read_bound_text [OF a(1)] read_bound_text [OF b(1)])
  qed
qed

lemma check_range_read: "read_npt_range str = Inr r \<Longrightarrow> check_range r = Inr ()"
  by (auto simp: read_npt_range_def read_bound_def rtsp_time_read_def bindr_Inr_iff check_range_def
      time_zero_def npt_zero_def split: prod.splits option.splits if_splits)

lemma range_read_text:
  assumes "wf_range r"
    and "range_time r > 0 \<longrightarrow> (\<exists>t off. time_format (range_time r) = Inr t \<and>
      time_parse (iso8601_z t) = Inr (range_time r, off))"
  shows "rtsp_range_header_read time_parse (Some (range_spec r @ range_time_text time_format r)) = Inr r"
    (is "rtsp_range_header_read time_parse (Some ?v) = Inr r")
proof -
  note spec = read_npt_range_text [OF assms(1)]
  have check: "check_range (r\<lparr>range_time := 0\<rparr>) = Inr ()" by (rule check_range_read [OF spec(1)])
  show ?thesis
  proof (cases "range_time r > 0")
    case False
    then have "range_time r = 0" using word_neq_0_conv by blast
    then show ?thesis using spec(2) check
      by (simp add: rtsp_range_header_read_def range_time_text_def strchr_cut_none [OF spec(3)] spec(1)
          read_range_time_def)
  next
    case True
    with assms(2) obtain t off where t: "time_format (range_time r) = Inr t"
      "time_parse (iso8601_z t) = Inr (range_time r, off)" by blast
    have v: "?v = range_spec r @ CHR '';'' # (''time='' @ iso8601_z t)"
      using True t(1) by (simp add: range_time_text_def)
    have "length (iso8601_z t) \<le> 16" by (auto simp: iso8601_z_def)
    then have "length ?v < 4096" using spec(2) unfolding v by simp
    moreover have "strchr_cut (CHR '';'') ?v = (range_spec r, Some (''time='' @ iso8601_z t))"
      unfolding v by (rule strchr_cut_append [OF spec(3)])
    moreover have "has_prefix (''time='' @ iso8601_z t) ''time''" by (simp add: has_prefix_def)
    moreover have "strchr_cut (CHR ''='') (''time='' @ iso8601_z t) = (''time'', Some (iso8601_z t))"
      using strchr_cut_append [of "CHR ''=''" "''time''"] by simp
    ultimately show ?thesis
      unfolding rtsp_range_header_read_def read_range_time_def
      by (simp only: option.case prod.case not_le [symmetric] if_False if_True spec(1) check bindr_simps t(2))
        simp
  qed
qed

text \<open>
  C38: Reading the Range header that was written gives back the range, for bounds that are
  \<open>now\<close>, infinite or a whole number of seconds below \<open>2 ^ 32\<close>, when the library reads back
  the time it formatted.
\<close>

theorem range_roundtrip:
  assumes "rs_ok s" "rtsp_range_header_write time_format r s = Inr s'" "wf_range r"
    and "range_time r > 0 \<longrightarrow> (\<exists>t off. time_format (range_time r) = Inr t \<and>
      time_parse (iso8601_z t) = Inr (range_time r, off))"
  shows "\<exists>v. rs_str s' = rs_str s @ ''Range: '' @ v @ CRLF \<and>
    rtsp_range_header_read time_parse (Some v) = Inr r"
  using range_header.write_success(1) [OF assms(1,2)] range_read_text [of r time_format time_parse, OF assms(3,4)]
  by (intro exI [of _ "range_spec r @ range_time_text time_format r"]) (simp add: range_text_def)

text \<open>
  The checks of the range reader against two infinite ends and a stop of \<open>now\<close> never
  reject anything, since they are made when the stop is absent: \<open>npt=-\<close> and \<open>npt=0-now\<close> are
  accepted, and the writer refuses to write either range.
\<close>

theorem range_check_vacuous:
  "(read_npt_range str = Inr r \<longrightarrow> check_range r = Inr ()) \<and>
   (\<forall>text \<in> {''npt=-'', ''npt=0-now''}. \<exists>r. rtsp_range_header_read time_parse (Some text) = Inr r \<and>
     (\<forall>s. \<exists>e. rtsp_range_header_write time_format r s = Inl e))"
proof (intro conjI impI ballI)
  fix t assume "t \<in> {''npt=-'', ''npt=0-now''}"
  then consider "t = ''npt=-''" | "t = ''npt=0-now''" by auto
  then show "\<exists>r. rtsp_range_header_read time_parse (Some t) = Inr r \<and>
     (\<forall>s. \<exists>e. rtsp_range_header_write time_format r s = Inl e)"
  proof cases
    case 1
    let ?inf = "npt_time (npt_zero\<lparr>npt_infinity := 1\<rparr>)"
    let ?r = "\<lparr>range_start = ?inf, range_stop = ?inf, range_time = 0\<rparr>"
    have "read_bound [] time_zero = Inr ?inf"
      by (simp add: read_bound_def npt_time_def time_zero_def)
    then have "read_npt_range t = Inr ?r" using 1 by (simp add: read_npt_range_def strchr_cut_def)
    with check_range_read [OF this] have "rtsp_range_header_read time_parse (Some t) = Inr ?r"
      using 1 by (simp add: rtsp_range_header_read_def strchr_cut_def read_range_time_def)
    moreover have "\<not> range_writable time_format ?r" by (simp add: range_writable_def npt_time_def time_zero_def)
    ultimately show ?thesis using range_header.wr_invalid by blast
  next
    case 2
    let ?r = "\<lparr>range_start = npt_time npt_zero, range_stop = npt_time (npt_zero\<lparr>npt_now := 1\<rparr>),
      range_time = 0\<rparr>"
    have "read_bound ''0'' time_zero = Inr (npt_time npt_zero)"
      "read_bound ''now'' time_zero = Inr (npt_time (npt_zero\<lparr>npt_now := 1\<rparr>))" by code_simp+
    then have "read_npt_range t = Inr ?r" using 2 by (simp add: read_npt_range_def strchr_cut_def)
    with check_range_read [OF this] have "rtsp_range_header_read time_parse (Some t) = Inr ?r"
      using 2 by (simp add: rtsp_range_header_read_def strchr_cut_def read_range_time_def)
    moreover have "\<not> range_writable time_format ?r"
      by (simp add: range_writable_def npt_time_def time_zero_def npt_zero_def)
    ultimately show ?thesis using range_header.wr_invalid by blast
  qed
qed (rule check_range_read)

definition example_range :: rtsp_range where
  "example_range = \<lparr>range_start = npt_time (npt_zero\<lparr>npt_now := 1\<rparr>),
     range_stop = npt_time (npt_zero\<lparr>npt_sec := 5025\<rparr>), range_time = 1704164645\<rparr>"

text \<open>\<open>npt=now-1:23:45;time=20240102T030405Z\<close>, with a library that knows this one time.\<close>

lemma range_roundtrip_witness:
  defines "time_format \<equiv> \<lambda>_ :: 64 word. Inr ''20240102T030405+0000'' :: string result"
    and "time_parse \<equiv> \<lambda>s. if s = ''20240102T030405Z'' then Inr (1704164645 :: 64 word, 0 :: int)
      else Inl (Err (- EINVAL))"
  shows "\<exists>v. rtsp_range_header_read time_parse (Some v) = Inr example_range"
proof -
  have "wf_npt (npt_zero\<lparr>npt_now := 1\<rparr>)" "wf_npt (npt_zero\<lparr>npt_sec := 5025\<rparr>)"
    by (simp_all add: wf_npt_def npt_zero_def)
  then have "wf_range example_range" by (auto simp: wf_range_def example_range_def)
  moreover have "range_writable time_format example_range"
    by (simp add: range_writable_def example_range_def time_format_def npt_time_def npt_zero_def)
  then obtain s' where "rtsp_range_header_write time_format example_range
      \<lparr>rs_str = [], rs_max_len = Suc (length (range_text time_format example_range))\<rparr> = Inr s'"
    using range_header.write_fits by fastforce
  moreover have "\<exists>t off. time_format (range_time example_range) = Inr t \<and>
      time_parse (iso8601_z t) = Inr (range_time example_range, off)"
    by (simp add: time_format_def time_parse_def iso8601_z_def example_range_def)
  ultimately show ?thesis
    using range_roundtrip [of "\<lparr>rs_str = [], rs_max_len = Suc (length (range_text time_format example_range))\<rparr>"
        time_format example_range s' time_parse]
    by (auto simp: rs_ok_def)
qed

lemma range_check_vacuous_witness:
  "(\<exists>r. read_npt_range ''npt=-'' = Inr r \<and> check_range r = Inr ()) \<and>
   (\<exists>r. rtsp_range_header_read (\<lambda>_. Inl UB) (Some ''npt=0-now'') = Inr r)"
proof -
  have "\<exists>r. read_npt_range ''npt=-'' = Inr r"
    by (simp add: read_npt_range_def strchr_cut_def read_bound_def)
  then show ?thesis using range_check_vacuous [of "''npt=-''" _ "\<lambda>_. Inl UB"] by blast
qed

section \<open>Durations\<close>

lemma sint_word_of_int: "- (2 ^ 63) \<le> i \<Longrightarrow> i < 2 ^ 63 \<Longrightarrow> sint (word_of_int i :: 64 word) = i"
  by (simp add: signed_of_int signed_take_bit_int_eq_self)

lemma add_s64_of_int:
  assumes "- (2 ^ 63) \<le> d" "d < 2 ^ 63" "- (2 ^ 63) \<le> d + i" "d + i < 2 ^ 63"
  shows "add_s64 (word_of_int d) i = Inr (word_of_int (d + i))"
  using assms by (simp add: add_s64_def sint_word_of_int)

lemma duration_sums:
  assumes "0 \<le> a" "a < 2 ^ 43" "0 \<le> b" "b < 2 ^ 43" "0 \<le> u" "u < 2 ^ 32" "0 \<le> v" "v < 2 ^ 32"
  shows "add_s64 (word_of_int (b * 1000000)) v = Inr (word_of_int (b * 1000000 + v))"
    "add_s64 (word_of_int (b * 1000000 + v) - word_of_int (a * 1000000)) (- u)
     = Inr (word_of_int (b * 1000000 + v - (a * 1000000 + u)))"
    "sint (word_of_int (b * 1000000 + v - (a * 1000000 + u)) :: 64 word)
     = b * 1000000 + v - (a * 1000000 + u)"
proof -
  have bounds: "a < 8796093022208" "b < 8796093022208" "u < 4294967296" "v < 4294967296"
    using assms by simp_all
  show "add_s64 (word_of_int (b * 1000000)) v = Inr (word_of_int (b * 1000000 + v))"
    using assms(1,3,5,7) bounds by (intro add_s64_of_int) simp_all
  have "word_of_int (b * 1000000 + v) - word_of_int (a * 1000000)
      = (word_of_int (b * 1000000 + v - a * 1000000) :: 64 word)" by simp
  moreover have "b * 1000000 + v - a * 1000000 + - u = b * 1000000 + v - (a * 1000000 + u)" by simp
  ultimately show "add_s64 (word_of_int (b * 1000000 + v) - word_of_int (a * 1000000)) (- u)
     = Inr (word_of_int (b * 1000000 + v - (a * 1000000 + u)))"
    using assms(1,3,5,7) bounds add_s64_of_int [of "b * 1000000 + v - a * 1000000" "- u"] by simp
  show "sint (word_of_int (b * 1000000 + v - (a * 1000000 + u)) :: 64 word)
     = b * 1000000 + v - (a * 1000000 + u)"
    using assms(1,3,5,7) bounds by (intro sint_word_of_int) simp_all
qed

definition npt_us :: "rtsp_time_npt \<Rightarrow> int" where
  "npt_us t = uint (npt_sec t) * 1000000 + uint (npt_usec t)"

text \<open>
  C39: The duration of a finite NPT range is the exact difference of its ends in microseconds,
  for ends below \<open>2 ^ 43\<close> seconds.
\<close>

theorem range_duration_exact:
  assumes "time_fmt (range_start r) = RTSP_TIME_FORMAT_NPT" "time_fmt (range_stop r) = RTSP_TIME_FORMAT_NPT"
    and "\<forall>t \<in> {time_npt (range_start r), time_npt (range_stop r)}.
      npt_now t = 0 \<and> npt_infinity t = 0 \<and> npt_sec t < 2 ^ 43"
  shows "\<exists>d. rtsp_range_get_duration_us (Some r) = Inr d \<and>
    sint d = npt_us (time_npt (range_stop r)) - npt_us (time_npt (range_start r))"
proof -
  define A B where "A = time_npt (range_start r)" and "B = time_npt (range_stop r)"
  have sec: "uint (npt_sec t) < 2 ^ 43" if "t \<in> {A, B}" for t
    using assms(3) that by (auto simp: A_def B_def word_less_def)
  have usec: "uint (npt_usec t) < 2 ^ 32" for t using unsigned_less [where w = "npt_usec t"] by simp
  have w: "npt_sec t * 1000000 = word_of_int (uint (npt_sec t) * 1000000)"
    "int (unat (npt_usec t)) = uint (npt_usec t)" for t by simp_all
  note ends = _ sec [of A, OF insertI1] _ sec [of B, OF insertI2, OF singletonI] _ usec [of A] _ usec [of B]
  have "add_s64 (npt_sec B * 1000000) (int (unat (npt_usec B))) = Inr (word_of_int (npt_us B))"
    unfolding w npt_us_def by (rule duration_sums(1) [OF ends]) simp_all
  moreover have "add_s64 (word_of_int (npt_us B) - npt_sec A * 1000000) (- int (unat (npt_usec A)))
      = Inr (word_of_int (npt_us B - npt_us A))"
    unfolding w npt_us_def by (rule duration_sums(2) [OF ends]) simp_all
  ultimately have "rtsp_range_get_duration_us (Some r) = Inr (word_of_int (npt_us B - npt_us A))"
    using assms by (simp add: rtsp_range_get_duration_us_def A_def B_def)
  moreover have "sint (word_of_int (npt_us B - npt_us A) :: 64 word) = npt_us B - npt_us A"
    unfolding npt_us_def by (rule duration_sums(3) [OF ends]) simp_all
  ultimately show ?thesis by (auto simp: A_def B_def)
qed

lemma range_duration_exact_witness:
  "\<exists>d. rtsp_range_get_duration_us (Some \<lparr>range_start = npt_time (npt_zero\<lparr>npt_sec := 10\<rparr>),
      range_stop = npt_time (npt_zero\<lparr>npt_sec := 4, npt_usec := 500000\<rparr>), range_time = 0\<rparr>) = Inr d \<and>
    sint d = - 5500000"
  using range_duration_exact [of "\<lparr>range_start = npt_time (npt_zero\<lparr>npt_sec := 10\<rparr>),
      range_stop = npt_time (npt_zero\<lparr>npt_sec := 4, npt_usec := 500000\<rparr>), range_time = 0\<rparr>"]
  by (simp add: npt_time_def npt_zero_def npt_us_def)

section \<open>Microseconds\<close>

text \<open>The two conversions of \<open>common.h\<close>; the flag says whether the pointer for the result is set.\<close>

definition rtsp_time_us_to_npt :: "64 word \<Rightarrow> bool \<Rightarrow> rtsp_time_npt result" where
  "rtsp_time_us_to_npt time_us out =
     (if \<not> out then Inl (Err (- EINVAL))
      else
        let sec = time_us div 1000000 in
        Inr \<lparr>npt_now = 0, npt_infinity = 0, npt_sec = sec, npt_usec = ucast (time_us - sec * 1000000)\<rparr>)"

definition rtsp_time_npt_to_us :: "rtsp_time_npt option \<Rightarrow> bool \<Rightarrow> 64 word result" where
  "rtsp_time_npt_to_us t out =
     (case t of
        None \<Rightarrow> Inl (Err (- EINVAL))
      | Some n \<Rightarrow>
          if \<not> out then Inl (Err (- EINVAL))
          else if npt_now n \<noteq> 0 \<or> npt_infinity n \<noteq> 0 then Inl (Err (- EINVAL))
          else Inr (npt_sec n * 1000000 + ucast (npt_usec n)))"

lemma us_to_npt_remainder: "(us :: 64 word) - us div 1000000 * 1000000 = us mod 1000000"
  by (metis add_diff_cancel_left' div_mult_mod_eq)

lemma us_to_npt_fields:
  assumes "rtsp_time_us_to_npt us out = Inr n"
  shows "npt_now n = 0" "npt_infinity n = 0" "unat (npt_sec n) = unat us div 1000000"
    "unat (npt_usec n) = unat us mod 1000000"
proof -
  have n: "npt_now n = 0" "npt_infinity n = 0" "npt_sec n = us div 1000000" "npt_usec n = ucast (us mod 1000000)"
    using assms by (auto simp: rtsp_time_us_to_npt_def Let_def us_to_npt_remainder split: if_splits)
  show "npt_now n = 0" "npt_infinity n = 0" "unat (npt_sec n) = unat us div 1000000"
    by (simp_all add: n unat_div)
  have "unat us mod 1000000 < 2 ^ 32"
    by (rule less_trans [of _ 1000000]) simp_all
  then show "unat (npt_usec n) = unat us mod 1000000"
    by (simp add: n(4) unsigned_ucast_eq unat_mod take_bit_nat_eq_self)
qed

lemma us_npt_roundtrip:
  assumes "rtsp_time_us_to_npt us out = Inr n"
  shows "rtsp_time_npt_to_us (Some n) True = Inr us"
proof -
  have "npt_sec n = us div 1000000" "npt_usec n = ucast (us mod 1000000)"
    using assms by (auto simp: rtsp_time_us_to_npt_def Let_def us_to_npt_remainder split: if_splits)
  moreover have "ucast (npt_usec n) = us mod 1000000"
    by (rule word_unat_eq_iff [THEN iffD2]) (use us_to_npt_fields(4) [OF assms] in
      \<open>simp add: unsigned_ucast_eq unat_mod take_bit_nat_eq_self less_trans [OF mod_less_divisor]\<close>)
  ultimately show ?thesis
    using us_to_npt_fields(1,2) [OF assms] div_mult_mod_eq [of us 1000000] by (simp add: rtsp_time_npt_to_us_def)
qed

text \<open>The exact value that the durations are measured by.\<close>

lemma npt_us_converted:
  assumes "rtsp_time_us_to_npt us out = Inr n"
  shows "npt_us n = uint us"
proof -
  have "npt_us n = int (unat (npt_sec n) * 1000000 + unat (npt_usec n))"
    by (simp add: npt_us_def)
  also have "\<dots> = int (unat us)"
    unfolding us_to_npt_fields(3,4) [OF assms] by (simp only: div_mult_mod_eq)
  finally show ?thesis by simp
qed

section \<open>Negative stops\<close>

lemma round_to_neg:
  assumes "round_to p emin emax r = Fin q" "0 < r"
  shows "round_to p emin emax (- r) = Fin (- q)"
  using assms by (auto simp: round_to_def Let_def split: if_splits)

text \<open>
  A stop that starts with a minus sign, as in \<open>npt=0--5\<close>, makes the reader convert a negative
  floating-point number to an unsigned integer, which C leaves undefined.
\<close>

theorem range_negative_stop_undefined:
  assumes "1 \<le> n" "n < 2 ^ 24" "m < 2 ^ 24"
  shows "rtsp_range_header_read time_parse (Some (''npt='' @ show_nat m @ ''--'' @ show_nat n)) = Inl UB"
proof -
  have eq: "strchr_cut (CHR ''='') (''npt='' @ v) = (''npt'', Some v)" for v
    using strchr_cut_append [of "CHR ''=''" "''npt''" v] by simp
  have chars: "c \<notin> set (show_nat k)" if "\<not> is_digit c" for c k using show_nat_digits that by blast
  have dash: "strchr_cut (CHR ''-'') (show_nat m @ ''--'' @ show_nat n) = (show_nat m, Some (CHR ''-'' # show_nat n))"
    using strchr_cut_append [OF chars [of "CHR ''-''" m]] by (simp add: is_digit_def)
  have digs: "digits (show_nat k)" for k by simp
  have conv: "lift_float to_float (atof (show_nat m)) = Fin (of_nat m)"
    using atof_digits [OF digs, of m] assms(3)
    by (simp add: parse_show_nat lift_float_def to_float_nat)
  have start: "\<exists>t. read_bound (show_nat m) time_zero = Inr t"
  proof -
    have "show_nat m \<noteq> ''now''" using chars [of "CHR ''n''" m] by (auto simp: is_digit_def)
    then have "npt_read (show_nat m) npt_zero = Inr (npt_zero\<lparr>npt_sec := of_int (int m), npt_usec := 0\<rparr>)"
      using assms(3) by (simp add: npt_read_def strchr_cut_none [OF digits_no_colon [OF digs]] conv
          to_unsigned_nat read_usec_nat Let_def)
    then show ?thesis by (simp add: read_bound_def rtsp_time_read_def time_zero_def)
  qed
  have neg: "lift_float to_float (atof (CHR ''-'' # show_nat n)) = Fin (- of_nat n)"
  proof -
    have "scan_sign (dropWhile isspace (CHR ''-'' # show_nat n)) = (True, show_nat n)"
      by (simp add: scan_sign_def isspace_def)
    moreover have "scan_mantissa 10 (show_nat n) = (show_nat n, 0, [])"
      by (simp add: scan_mantissa_def digits_first [OF digs])
    moreover have "to_double (- of_nat n) = Fin (- of_nat n)"
      unfolding to_double_def using round_to_nat [of n 53 "- 1074" 1024] assms
      by (intro round_to_neg) simp_all
    moreover have "to_float (- of_nat n) = Fin (- of_nat n)"
      unfolding to_float_def using round_to_nat [of n 24 "- 149" 128] assms
      by (intro round_to_neg) simp_all
    ultimately show ?thesis
      using digits_not_prefix [OF digs, of n]
      by (simp add: atof_def scan_exponent_def powz_def parse_show_nat lift_float_def split: prod.splits)
  qed
  have stop: "read_bound (CHR ''-'' # show_nat n) time_zero = Inl UB"
  proof -
    have "CHR '':'' \<notin> set (CHR ''-'' # show_nat n)" using digits_no_colon [OF digs] by simp
    moreover have "to_unsigned 64 (Fin (- of_nat n)) = Inl UB"
      using assms(1) by (simp add: to_unsigned_def truncate_rat_def)
    ultimately show ?thesis
      by (simp add: read_bound_def rtsp_time_read_def time_zero_def npt_read_def strchr_cut_none neg Let_def)
  qed
  have "read_npt_range (''npt='' @ show_nat m @ ''--'' @ show_nat n) = Inl UB"
    using start stop by (simp only: read_npt_range_def eq) (auto simp: dash [simplified])
  moreover have "length (''npt='' @ show_nat m @ ''--'' @ show_nat n) < 4096"
    using show_nat_length [of 8 m] show_nat_length [of 8 n] assms by simp
  moreover have "strchr_cut (CHR '';'') (''npt='' @ show_nat m @ ''--'' @ show_nat n)
      = (''npt='' @ show_nat m @ ''--'' @ show_nat n, None)"
    by (rule strchr_cut_none) (use chars [of "CHR '';''"] in \<open>auto simp: is_digit_def\<close>)
  ultimately show ?thesis
    unfolding rtsp_range_header_read_def by (simp only: option.case prod.case not_le [symmetric] if_False bindr_simps)
qed

lemma range_negative_stop_undefined_witness:
  "rtsp_range_header_read (\<lambda>_. Inl UB) (Some ''npt=0--5'') = Inl UB"
  using range_negative_stop_undefined [of 5 0 "\<lambda>_. Inl UB"]
  by (simp add: show_nat.simps digit_char_def char_of_def bit_simps)

end
