(* ===== verification/RtspLines.thy ===== *)
theory RtspLines
  imports RtspPrelude
begin

text \<open>
  The text framing of RTSP messages in \<open>src/rtsp.c\<close>: the bounded substring search
  \<open>rtsp_strnstr\<close>, the search for the end of a header \<open>find_double_newline\<close>, and the lines
  and fields of a header. A buffer of \<open>slen\<close> readable bytes is a list of that length.
\<close>

section \<open>The end of a header\<close>

text \<open>The loop of \<open>rtsp_strnstr\<close> for the pattern \<open>c # needle\<close>; \<open>i\<close> counts the bytes passed.\<close>

fun strnstr_loop :: "char \<Rightarrow> string \<Rightarrow> string \<Rightarrow> nat \<Rightarrow> nat option" where
  "strnstr_loop c needle [] i = None"
| "strnstr_loop c needle (sc # s) i =
     (if Suc (length s) > length needle then
        if sc = c \<and> take (length needle) s = needle then Some i
        else if sc = NUL then None
        else strnstr_loop c needle s (Suc i)
      else None)"

definition rtsp_strnstr :: "string \<Rightarrow> string \<Rightarrow> nat option" where
  "rtsp_strnstr s needle =
     (case needle of
        [] \<Rightarrow> Some 0
      | c # rest \<Rightarrow> if length rest \<ge> length s then None else strnstr_loop c rest s 0)"

text \<open>Position and length of the first double newline, by kind of newline.\<close>

definition find_double_newline :: "string \<Rightarrow> (nat \<times> nat) option" where
  "find_double_newline s =
     (case rtsp_strnstr s [CR, LF, CR, LF] of Some i \<Rightarrow> Some (i, 4) | None \<Rightarrow>
     (case rtsp_strnstr s [LF, CR, LF, CR] of Some i \<Rightarrow> Some (i, 4) | None \<Rightarrow>
     (case rtsp_strnstr s [LF, LF] of Some i \<Rightarrow> Some (i, 2) | None \<Rightarrow>
     (case rtsp_strnstr s [CR, CR] of Some i \<Rightarrow> Some (i, 2) | None \<Rightarrow> None))))"

section \<open>Fields\<close>

text \<open>\<open>name: value\<close>: one space after the colon belongs to neither.\<close>

definition field_value :: "string \<Rightarrow> (string \<times> string) option" where
  "field_value p =
     (case strchr_cut (CHR '':'') p of
        (field, Some v) \<Rightarrow> Some (field, case v of [] \<Rightarrow> [] | c # r \<Rightarrow> if c = CHR '' '' then r else v)
      | (_, None) \<Rightarrow> None)"

section \<open>Searching finds the first occurrence\<close>

lemma strnstr_loop_found:
  "strnstr_loop c needle s i = Some j \<Longrightarrow>
   i \<le> j \<and> j - i + Suc (length needle) \<le> length s \<and>
   take (Suc (length needle)) (drop (j - i) s) = c # needle \<and> NUL \<notin> set (take (j - i) s) \<and>
   (\<forall>k < j - i. take (Suc (length needle)) (drop k s) \<noteq> c # needle)"
proof (induction c needle s i rule: strnstr_loop.induct)
  case (1 c needle i)
  then show ?case by simp
next
  case (2 c needle sc s i)
  show ?case
  proof (cases "sc = c \<and> take (length needle) s = needle")
    case True
    then have "length needle \<le> length s" by (metis length_take min.cobounded1)
    with 2(2) True show ?thesis by (auto split: if_splits)
  next
    case False
    with 2(2) have rec: "strnstr_loop c needle s (Suc i) = Some j" "sc \<noteq> NUL" "Suc (length s) > length needle"
      by (auto split: if_splits)
    from 2(1) [OF rec(3) False rec(2,1)]
    have IH: "Suc i \<le> j" "j - Suc i + Suc (length needle) \<le> length s"
      "take (Suc (length needle)) (drop (j - Suc i) s) = c # needle" "NUL \<notin> set (take (j - Suc i) s)"
      "\<forall>k < j - Suc i. take (Suc (length needle)) (drop k s) \<noteq> c # needle" by auto
    then obtain d where d: "j - i = Suc d" "j - Suc i = d" by (metis Suc_diff_Suc Suc_le_eq)
    have "\<forall>k < Suc d. take (Suc (length needle)) (drop k (sc # s)) \<noteq> c # needle"
      using IH(5) False d by (auto simp: less_Suc_eq_0_disj)
    with IH d rec(2) show ?thesis by auto
  qed
qed

lemma strnstr_loop_none:
  "strnstr_loop c needle s i = None \<Longrightarrow> take (Suc (length needle)) (drop k s) = c # needle \<Longrightarrow>
   NUL \<in> set (take k s)"
proof (induction c needle s i arbitrary: k rule: strnstr_loop.induct)
  case (1 c needle i)
  then show ?case by simp
next
  case (2 c needle sc s i)
  have len: "length needle < Suc (length s)"
  proof (rule ccontr)
    assume "\<not> ?thesis"
    then have "length (take (Suc (length needle)) (drop k (sc # s))) < Suc (length needle)" by simp
    with 2(3) show False by simp
  qed
  show ?case
  proof (cases k)
    case 0
    with 2(2,3) len show ?thesis by (auto split: if_splits)
  next
    case (Suc l)
    show ?thesis
    proof (cases "sc = NUL")
      case True then show ?thesis using Suc by simp
    next
      case False
      with 2(2) len have "\<not> (sc = c \<and> take (length needle) s = needle)" "strnstr_loop c needle s (Suc i) = None"
        by (auto split: if_splits)
      from 2(1) [OF len this(1) False this(2)] 2(3) Suc show ?thesis by auto
    qed
  qed
qed

text \<open>
  The bounded search returns the first occurrence of a non-empty pattern, never reading
  past the buffer, and only when no NUL byte precedes it; otherwise it returns NULL.
\<close>

theorem strnstr_first_occurrence:
  assumes "needle \<noteq> []"
  shows "rtsp_strnstr s needle = Some i \<longleftrightarrow>
    i + length needle \<le> length s \<and> take (length needle) (drop i s) = needle \<and>
    NUL \<notin> set (take i s) \<and> (\<forall>k < i. take (length needle) (drop k s) \<noteq> needle)"
proof -
  obtain c rest where n: "needle = c # rest" using assms by (cases needle) auto
  show ?thesis
  proof
    assume "rtsp_strnstr s needle = Some i"
    then have "strnstr_loop c rest s 0 = Some i" by (simp add: rtsp_strnstr_def n split: if_splits)
    from strnstr_loop_found [OF this] show "i + length needle \<le> length s \<and> take (length needle) (drop i s) = needle \<and>
      NUL \<notin> set (take i s) \<and> (\<forall>k < i. take (length needle) (drop k s) \<noteq> needle)" by (simp add: n)
  next
    assume R: "i + length needle \<le> length s \<and> take (length needle) (drop i s) = needle \<and>
      NUL \<notin> set (take i s) \<and> (\<forall>k < i. take (length needle) (drop k s) \<noteq> needle)"
    then have eq: "rtsp_strnstr s needle = strnstr_loop c rest s 0" by (simp add: rtsp_strnstr_def n)
    have "strnstr_loop c rest s 0 \<noteq> None" using strnstr_loop_none [of c rest s 0 i] R n by auto
    then obtain j where j: "strnstr_loop c rest s 0 = Some j" by blast
    from strnstr_loop_found [OF this] have
      "take (length needle) (drop j s) = needle" "\<forall>k < j. take (length needle) (drop k s) \<noteq> needle"
      by (simp_all add: n)
    with R have "j = i" by (metis linorder_neqE_nat)
    with eq j show "rtsp_strnstr s needle = Some i" by simp
  qed
qed

lemma strnstr_first_occurrence_witness:
  "rtsp_strnstr ''GET /a /b'' '' /'' = Some 3"
  by (subst strnstr_first_occurrence) (simp_all add: numeral_eq_Suc All_less_Suc)

section \<open>Headers made of lines\<close>

definition crlf_lines :: "string list \<Rightarrow> string" where
  "crlf_lines ls = concat (map (\<lambda>l. l @ CRLF) ls)"

text \<open>A line: not empty, without line terminators and NUL.\<close>

definition is_line :: "string \<Rightarrow> bool" where
  "is_line l \<longleftrightarrow> l \<noteq> [] \<and> CR \<notin> set l \<and> LF \<notin> set l \<and> NUL \<notin> set l"

lemma strnstr_skip:
  assumes "CR \<notin> set a" "NUL \<notin> set a" "length b > length needle"
  shows "strnstr_loop CR needle (a @ b) i = strnstr_loop CR needle b (i + length a)"
  using assms by (induction a arbitrary: i) auto

lemma strnstr_newline:
  "c \<noteq> CR \<Longrightarrow> length r \<ge> 2 \<Longrightarrow>
   strnstr_loop CR [LF, CR, LF] (CR # LF # c # r) i = strnstr_loop CR [LF, CR, LF] (c # r) (i + 2)"
  by simp

lemma strnstr_lines:
  assumes "\<forall>l \<in> set ls. is_line l" "ls \<noteq> []"
  shows "strnstr_loop CR [LF, CR, LF] (crlf_lines ls @ CRLF @ body) i = Some (i + length (crlf_lines ls) - 2)"
  using assms
proof (induction ls arbitrary: i)
  case Nil
  then show ?case by simp
next
  case (Cons l ls)
  have l: "CR \<notin> set l" "NUL \<notin> set l" using Cons.prems by (auto simp: is_line_def)
  show ?case
  proof (cases ls)
    case Nil
    then have "crlf_lines (l # ls) @ CRLF @ body = l @ CR # LF # CR # LF # body" by (simp add: crlf_lines_def)
    then show ?thesis using strnstr_skip [OF l, of "[LF, CR, LF]" "CR # LF # CR # LF # body"] Nil
      by (simp add: crlf_lines_def)
  next
    case (Cons m ms)
    then obtain d m' where m: "m = d # m'" "d \<noteq> CR" using Cons.prems by (cases m) (auto simp: is_line_def)
    let ?rest = "crlf_lines ls @ CRLF @ body"
    have rest: "?rest = d # m' @ CRLF @ crlf_lines ms @ CRLF @ body" using Cons m by (simp add: crlf_lines_def)
    have "strnstr_loop CR [LF, CR, LF] (crlf_lines (l # ls) @ CRLF @ body) i
        = strnstr_loop CR [LF, CR, LF] (CR # LF # ?rest) (i + length l)"
      using strnstr_skip [OF l, of "[LF, CR, LF]" "CR # LF # ?rest" i] by (simp add: crlf_lines_def)
    also have "\<dots> = strnstr_loop CR [LF, CR, LF] ?rest (i + length l + 2)"
      unfolding rest by (rule strnstr_newline [OF m(2)]) simp
    also have "\<dots> = Some (i + length l + 2 + length (crlf_lines ls) - 2)"
      using Cons.IH Cons.prems Cons by auto
    also have "\<dots> = Some (i + length (crlf_lines (l # ls)) - 2)" by (simp add: crlf_lines_def)
    finally show ?thesis .
  qed
qed

lemma find_end_of_lines:
  assumes "\<forall>l \<in> set ls. is_line l" "ls \<noteq> []"
  shows "find_double_newline (crlf_lines ls @ CRLF @ body) = Some (length (crlf_lines ls) - 2, 4)"
proof -
  have "length (crlf_lines ls) \<ge> 3" using assms
    by (cases ls) (auto simp: crlf_lines_def is_line_def neq_Nil_conv)
  then have "rtsp_strnstr (crlf_lines ls @ CRLF @ body) [CR, LF, CR, LF] = Some (length (crlf_lines ls) - 2)"
    using strnstr_lines [OF assms, of body 0] by (simp add: rtsp_strnstr_def)
  then show ?thesis by (simp add: find_double_newline_def)
qed

lemma strtok_all_delim: "c \<in> d \<Longrightarrow> strtok_all d (c # s) = strtok_all d s"
  by (subst (1 2) strtok_all.simps) (simp add: strtok_r_def)

lemma strtok_all_token:
  "a \<noteq> [] \<Longrightarrow> set a \<inter> d = {} \<Longrightarrow> c \<in> d \<Longrightarrow> strtok_all d (a @ c # b) = a # strtok_all d b"
  by (subst strtok_all.simps) (simp add: strtok_r_token)

lemma strtok_all_Nil [simp]: "strtok_all d [] = []"
  by (subst strtok_all.simps) simp

lemma take_crlf_lines: "take (length (crlf_lines (ls @ [l])) - 2) (crlf_lines (ls @ [l]) @ r) = crlf_lines ls @ l"
  by (simp add: crlf_lines_def)

lemma strtok_lines:
  assumes "\<forall>l \<in> set (ls @ [l]). is_line l"
  shows "strtok_all {CR, LF} (crlf_lines ls @ l) = ls @ [l]"
  using assms
proof (induction ls)
  case Nil
  then have "strtok_r {CR, LF} l = (Some l, [])" by (intro strtok_r_last) (auto simp: is_line_def)
  then show ?case by (subst strtok_all.simps) (simp add: crlf_lines_def)
next
  case (Cons k ks)
  then have "k \<noteq> []" "set k \<inter> {CR, LF} = {}" by (auto simp: is_line_def)
  from strtok_all_token [OF this, of CR] have
    "strtok_all {CR, LF} (crlf_lines (k # ks) @ l) = k # strtok_all {CR, LF} (LF # crlf_lines ks @ l)"
    by (simp add: crlf_lines_def)
  with Cons show ?case by (simp add: strtok_all_delim)
qed

text \<open>The first line and what is left for the next \<open>strtok_r\<close>.\<close>

lemma strtok_first_line:
  assumes "\<forall>k \<in> set (k # ks). is_line k"
  shows "\<exists>temp. strtok_r {CR, LF} (take (length (crlf_lines (k # ks)) - 2) (crlf_lines (k # ks) @ r)) = (Some k, temp) \<and>
    strtok_all {CR, LF} temp = ks"
proof -
  have k: "k \<noteq> []" "set k \<inter> {CR, LF} = {}" using assms by (auto simp: is_line_def)
  show ?thesis
  proof (cases ks rule: rev_cases)
    case Nil
    then show ?thesis using take_crlf_lines [of "[]" k r] strtok_r_last [OF k] by (simp add: crlf_lines_def)
  next
    case (snoc js j)
    have "take (length (crlf_lines (k # ks)) - 2) (crlf_lines (k # ks) @ r) = k @ CR # (LF # crlf_lines js @ j)"
      using take_crlf_lines [of "k # js" j r] snoc by (simp add: crlf_lines_def)
    moreover have "strtok_all {CR, LF} (crlf_lines js @ j) = ks"
      using strtok_lines [of js j] assms snoc by simp
    ultimately show ?thesis using strtok_r_token [OF k, of CR] by (simp add: strtok_all_delim)
  qed
qed

lemma field_value_text:
  "CHR '':'' \<notin> set name \<Longrightarrow> field_value (name @ '': '' @ v) = Some (name, v)"
  using strchr_cut_append [of "CHR '':''" name] by (simp add: field_value_def)

end
