(* ===== verification/RtspFields.thy ===== *)
theory RtspFields
  imports RtspLines RtspMethods RtspHeaders RtspTransport RtspAuth RtspRange
begin

text \<open>
  The header fields that requests and responses share in \<open>src/rtsp.c\<close>: one writer per field
  and the line it produces, and the reading of that line. \<open>time_local_format\<close> and
  \<open>time_local_parse\<close> of libfutils are parameters, with the two formats the sources use.
\<close>

datatype time_format_id = TIME_FMT_RFC1123 | TIME_FMT_ISO8601_SHORT

type_synonym time_formatter = "time_format_id \<Rightarrow> 64 word \<Rightarrow> string result"
type_synonym time_parser = "string \<Rightarrow> (64 word \<times> int) result"

section \<open>Writers with a precondition\<close>

text \<open>\<open>is_writer w ok t\<close>: when \<open>ok\<close> the writer \<open>w\<close> appends \<open>t\<close>, otherwise it fails.\<close>

definition is_writer :: "(rtsp_string \<Rightarrow> rtsp_string result) \<Rightarrow> bool \<Rightarrow> string \<Rightarrow> bool" where
  "is_writer w ok t \<longleftrightarrow> (ok \<longrightarrow> writes w t) \<and> (\<not> ok \<longrightarrow> fails w)"

named_theorems is_writer_intros "composition of writers with preconditions"

lemma is_writer_bind [is_writer_intros]:
  "is_writer w a s \<Longrightarrow> is_writer v b t \<Longrightarrow> is_writer (\<lambda>x. bindr (w x) v) (a \<and> b) (s @ t)"
  using writes_bind fails_bind1 [of w v] fails_bind2 [of v w] by (auto simp: is_writer_def)

lemma is_writer_sprintf [is_writer_intros]: "is_writer (\<lambda>s. rtsp_sprintf s t) True t"
  by (simp add: is_writer_def writes_sprintf)

lemma is_writer_when [is_writer_intros]:
  "is_writer w ok t \<Longrightarrow>
   is_writer (\<lambda>s. if c then w s else Inr s) (c \<longrightarrow> ok) (if c then t else [])"
  using writes_skip by (auto simp: is_writer_def)

lemma is_writer_eq: "is_writer w a t \<Longrightarrow> a = b \<Longrightarrow> t = u \<Longrightarrow> is_writer w b u"
  by simp

lemma is_writer_bounded: "bounded_writer wr okh render \<Longrightarrow> is_writer (wr h) (okh h) (render h)"
  by (auto simp: bounded_writer_def is_writer_def fails_def)

section \<open>The shared fields\<close>

definition write_text :: "string \<Rightarrow> string option \<Rightarrow> rtsp_string \<Rightarrow> rtsp_string result" where
  "write_text name v s =
     (if v \<noteq> None \<and> v \<noteq> Some [] then rtsp_sprintf s (name @ '': '' @ the v @ CRLF) else Inr s)"

definition write_cseq :: "int \<Rightarrow> rtsp_string \<Rightarrow> rtsp_string result" where
  "write_cseq cseq s =
     (if cseq \<ge> 0 then rtsp_sprintf s (''CSeq: '' @ show_int cseq @ CRLF) else Inr s)"

definition write_date :: "time_formatter \<Rightarrow> 64 word \<Rightarrow> rtsp_string \<Rightarrow> rtsp_string result" where
  "write_date time_format date s =
     (if date > 0 then
        bindr (time_format TIME_FMT_RFC1123 date) (\<lambda>t. rtsp_sprintf s (''Date: '' @ t @ CRLF))
      else Inr s)"

definition write_session :: "string option \<Rightarrow> 32 word \<Rightarrow> rtsp_string \<Rightarrow> rtsp_string result" where
  "write_session session_id timeout s =
     (if session_id \<noteq> None \<and> session_id \<noteq> Some [] then rtsp_session_header_write session_id timeout s
      else Inr s)"

definition write_scale :: "c_float \<Rightarrow> rtsp_string \<Rightarrow> rtsp_string result" where
  "write_scale scale s =
     (if scale \<noteq> Fin 0 then rtsp_sprintf s (''Scale: '' @ fixed2 scale @ CRLF) else Inr s)"

definition write_range :: "time_formatter \<Rightarrow> rtsp_range \<Rightarrow> rtsp_string \<Rightarrow> rtsp_string result" where
  "write_range time_format r s =
     (if time_fmt (range_start r) \<noteq> RTSP_TIME_FORMAT_UNKNOWN
      then rtsp_range_header_write (time_format TIME_FMT_ISO8601_SHORT) r s else Inr s)"

fun write_ext :: "(string \<times> string) list \<Rightarrow> rtsp_string \<Rightarrow> rtsp_string result" where
  "write_ext [] s = Inr s"
| "write_ext ((key, value) # ext) s =
     bindr (rtsp_sprintf s (key @ '': '' @ value @ CRLF)) (write_ext ext)"

section \<open>Their lines\<close>

definition line_if :: "bool \<Rightarrow> string \<Rightarrow> string \<Rightarrow> string list" where
  "line_if c name v = (if c then [name @ '': '' @ v] else [])"

definition text_line :: "string \<Rightarrow> string option \<Rightarrow> string list" where
  "text_line name v = line_if (v \<noteq> None \<and> v \<noteq> Some []) name (the v)"

definition ext_lines :: "(string \<times> string) list \<Rightarrow> string list" where
  "ext_lines ext = map (\<lambda>(key, value). key @ '': '' @ value) ext"

definition date_text :: "time_formatter \<Rightarrow> 64 word \<Rightarrow> string" where
  "date_text time_format date =
     (case time_format TIME_FMT_RFC1123 date of Inl _ \<Rightarrow> [] | Inr t \<Rightarrow> t)"

definition range_line :: "time_formatter \<Rightarrow> rtsp_range \<Rightarrow> string" where
  "range_line time_format r =
     range_spec r @ range_time_text (time_format TIME_FMT_ISO8601_SHORT) r"

lemma crlf_lines_append [simp]: "crlf_lines (a @ b) = crlf_lines a @ crlf_lines b"
  by (simp add: crlf_lines_def)

lemma crlf_lines_if: "crlf_lines (line_if c name v) = (if c then name @ '': '' @ v @ CRLF else [])"
  by (simp add: line_if_def crlf_lines_def)

lemma is_writer_text [is_writer_intros]:
  "is_writer (write_text name v) True (crlf_lines (text_line name v))"
  unfolding write_text_def [abs_def] text_line_def crlf_lines_if
  by (rule is_writer_eq, rule is_writer_when, rule is_writer_sprintf) simp_all

lemma is_writer_cseq [is_writer_intros]:
  "is_writer (write_cseq c) True (crlf_lines (line_if (c \<ge> 0) ''CSeq'' (show_int c)))"
  unfolding write_cseq_def [abs_def] crlf_lines_if
  by (rule is_writer_eq, rule is_writer_when, rule is_writer_sprintf) simp_all

lemma is_writer_date [is_writer_intros]:
  "is_writer (write_date tf d) (d > 0 \<longrightarrow> (\<exists>t. tf TIME_FMT_RFC1123 d = Inr t))
     (crlf_lines (line_if (d > 0) ''Date'' (date_text tf d)))"
  using writes_sprintf writes_skip
  by (cases "tf TIME_FMT_RFC1123 d")
    (auto simp: write_date_def [abs_def] crlf_lines_if date_text_def is_writer_def fails_def)

lemma is_writer_session [is_writer_intros]:
  "is_writer (write_session i t) True
     (crlf_lines (line_if (i \<noteq> None \<and> i \<noteq> Some []) ''Session'' (session_text (the i) t)))"
  using is_writer_when [OF is_writer_bounded [OF session.bounded_writer_axioms, of "(i, t)"],
      of "i \<noteq> None \<and> i \<noteq> Some []", unfolded prod.case]
  unfolding write_session_def [abs_def] crlf_lines_if
  by (rule is_writer_eq) simp_all

lemma is_writer_scale [is_writer_intros]:
  "is_writer (write_scale x) True (crlf_lines (line_if (x \<noteq> Fin 0) ''Scale'' (fixed2 x)))"
  unfolding write_scale_def [abs_def] crlf_lines_if
  by (rule is_writer_eq, rule is_writer_when, rule is_writer_sprintf) simp_all

lemma is_writer_range [is_writer_intros]:
  "is_writer (write_range tf r)
     (time_fmt (range_start r) \<noteq> RTSP_TIME_FORMAT_UNKNOWN \<longrightarrow> range_writable (tf TIME_FMT_ISO8601_SHORT) r)
     (crlf_lines (line_if (time_fmt (range_start r) \<noteq> RTSP_TIME_FORMAT_UNKNOWN) ''Range'' (range_line tf r)))"
  unfolding write_range_def [abs_def] crlf_lines_if
  by (rule is_writer_eq, rule is_writer_when, rule is_writer_bounded [OF range_header.bounded_writer_axioms])
    (simp_all add: range_text_def range_line_def)

lemma is_writer_ext [is_writer_intros]: "is_writer (write_ext ext) True (crlf_lines (ext_lines ext))"
proof (induction ext)
  case Nil
  then show ?case using writes_skip by (simp add: is_writer_def ext_lines_def crlf_lines_def)
next
  case (Cons e ext)
  obtain key v where e: "e = (key, v)" by (cases e)
  have w: "write_ext (e # ext) = (\<lambda>s. bindr (rtsp_sprintf s (key @ '': '' @ v @ CRLF)) (write_ext ext))"
    by (simp add: e fun_eq_iff)
  show ?case
    unfolding w by (rule is_writer_eq [OF is_writer_bind [OF is_writer_sprintf Cons]])
      (simp_all add: e ext_lines_def crlf_lines_def)
qed

section \<open>Reading the shared fields\<close>

definition wf_scale :: "c_float \<Rightarrow> bool" where
  "wf_scale x \<longleftrightarrow> (\<exists>n. n < 2 ^ 24 \<and> (x = Fin (of_nat n) \<or> 0 < n \<and> x = Fin (- of_nat n)))"

lemma fixed2_nat: "fixed2 (Fin (of_nat n)) = show_nat n @ ''.00''"
proof -
  have "round_even (of_nat n * 100) = int n * 100" using round_even_int [of "int n * 100"] by simp
  then show ?thesis
    by (simp add: fixed2_def Let_def pad0_def show_nat.simps [of 0] digit_char_def char_of_def bit_simps nat_mult_distrib numeral_2_eq_2)
qed

lemma fixed2_neg: "0 < n \<Longrightarrow> fixed2 (Fin (- of_nat n)) = CHR ''-'' # show_nat n @ ''.00''"
  using fixed2_nat [of n] by (simp add: fixed2_def Let_def)

lemma atof_fixed2:
  assumes "n < 2 ^ 24"
  shows "lift_float to_float (atof (show_nat n @ ''.00'')) = Fin (of_nat n)"
    "0 < n \<Longrightarrow> lift_float to_float (atof (CHR ''-'' # show_nat n @ ''.00'')) = Fin (- of_nat n)"
proof -
  obtain c t where ct: "show_nat n = c # t" by (cases "show_nat n") auto
  have c: "is_digit c" using show_nat_digits [of c n] ct by simp
  have dig: "\<forall>c \<in> set (show_nat n). digit_in 10 c" using show_nat_digits by (auto simp: is_digit_digit_in)
  have "\<not> digit_in 10 (CHR ''.'')" "digit_in 10 (CHR ''0'')" by (simp_all add: is_digit_digit_in is_digit_def)
  then have m: "scan_mantissa 10 (show_nat n @ ''.00'') = (show_nat n @ ''00'', 2, [])"
    using dig by (simp add: scan_mantissa_def takeWhile_append dropWhile_append)
  have "parse_digits 10 (show_nat n @ ''00'') = n * 100"
    using parse_digits_snoc [of 10 "show_nat n @ ''0''" "CHR ''0''"] parse_digits_snoc [of 10 "show_nat n" "CHR ''0''"]
    by (simp add: parse_show_nat dval_def digit_val_def is_digit_def)
  then have v: "of_nat (parse_digits 10 (show_nat n @ ''00'')) * powz 10 (0 - int 2) = (of_nat n :: rat)"
    by (simp add: powz_def numeral_2_eq_2)
  have np: "\<not> has_prefix_nocase (show_nat n @ ''.00'') ''inf''" "\<not> has_prefix_nocase (show_nat n @ ''.00'') ''nan''"
    using c by (auto simp: ct has_prefix_nocase_def tolower_def is_upper_def is_digit_def)
  have nx: "\<not> has_prefix_nocase (show_nat n @ ''.00'') ''0x''"
    using dig c ct by (cases t) (auto simp: has_prefix_nocase_def tolower_def is_upper_def is_digit_def is_digit_digit_in)
  have n53: "n < 2 ^ 53" using assms by simp
  have "dropWhile isspace (show_nat n @ ''.00'') = show_nat n @ ''.00''" "scan_sign (show_nat n @ ''.00'') = (False, show_nat n @ ''.00'')"
    using is_digit_not_special [OF c] by (simp_all add: ct scan_sign_def)
  then show "lift_float to_float (atof (show_nat n @ ''.00'')) = Fin (of_nat n)"
    using m v np nx to_double_nat [OF n53] to_float_nat [OF assms]
    by (simp add: atof_def scan_exponent_def lift_float_def split: prod.splits)
  assume "0 < n"
  have "dropWhile isspace (CHR ''-'' # show_nat n @ ''.00'') = CHR ''-'' # show_nat n @ ''.00''"
    "scan_sign (CHR ''-'' # show_nat n @ ''.00'') = (True, show_nat n @ ''.00'')"
    by (simp_all add: scan_sign_def isspace_def)
  moreover have "to_double (- of_nat n) = Fin (- of_nat n)" "to_float (- of_nat n) = Fin (- of_nat n)"
    using round_to_neg [OF _ , of 53 "- 1074" 1024 "of_nat n"] round_to_neg [of 24 "- 149" 128 "of_nat n"]
      to_double_nat [OF n53] to_float_nat [OF assms] \<open>0 < n\<close> by (simp_all add: to_double_def to_float_def)
  ultimately show "lift_float to_float (atof (CHR ''-'' # show_nat n @ ''.00'')) = Fin (- of_nat n)"
    using m v np nx
    by (simp add: atof_def scan_exponent_def lift_float_def split: prod.splits)
qed

lemma scale_read_text: "wf_scale x \<Longrightarrow> lift_float to_float (atof (fixed2 x)) = x"
  unfolding wf_scale_def by (elim exE conjE disjE) (simp_all only: fixed2_nat fixed2_neg atof_fixed2)

section \<open>The loop over the header lines\<close>

text \<open>
  Requests and responses are read by the same loop: every line that holds a colon is split there,
  one space after the colon is skipped and the field is handed to \<open>read_field\<close>, whose flag
  tells whether reading goes on.
\<close>

fun read_fields ::
  "(string \<Rightarrow> string \<Rightarrow> 'h \<Rightarrow> (bool \<times> 'h) result) \<Rightarrow> string list \<Rightarrow> 'h \<Rightarrow> 'h result" where
  "read_fields read_field [] header = Inr header"
| "read_fields read_field (p # ps) header =
     (case field_value p of
        None \<Rightarrow> read_fields read_field ps header
      | Some (field, value) \<Rightarrow>
          bindr (read_field field value header) (\<lambda>(continue, header).
          if continue then read_fields read_field ps header else Inr header))"

lemma read_fields_line_if:
  assumes "CHR '':'' \<notin> set name" "c \<Longrightarrow> rf name v h = Inr (True, h')" "\<not> c \<Longrightarrow> h' = h"
  shows "read_fields rf (line_if c name v @ ps) h = read_fields rf ps h'"
  using assms field_value_text [of name v] by (cases c) (simp_all add: line_if_def)

lemmas field_name_simps = has_prefix_nocase_def tolower_def is_upper_def char_of_def bit_simps

definition wf_text :: "string option \<Rightarrow> bool" where
  "wf_text v \<longleftrightarrow> v \<noteq> Some []"

definition wf_session :: "string option \<Rightarrow> 32 word \<Rightarrow> bool" where
  "wf_session sid timeout \<longleftrightarrow>
     (case sid of None \<Rightarrow> timeout = 0 | Some s \<Rightarrow> s \<noteq> [] \<and> CHR '';'' \<notin> set s)"

definition wf_date :: "time_formatter \<Rightarrow> time_parser \<Rightarrow> 64 word \<Rightarrow> bool" where
  "wf_date tf tp date \<longleftrightarrow>
     (date > 0 \<longrightarrow> (\<exists>t off. tf TIME_FMT_RFC1123 date = Inr t \<and> tp t = Inr (date, off)))"

definition wf_range_field :: "time_formatter \<Rightarrow> time_parser \<Rightarrow> rtsp_range \<Rightarrow> bool" where
  "wf_range_field tf tp r \<longleftrightarrow>
     r = range_zero \<or>
     (wf_range r \<and> (range_time r > 0 \<longrightarrow> (\<exists>t off. tf TIME_FMT_ISO8601_SHORT (range_time r) = Inr t \<and>
        tp (iso8601_z t) = Inr (range_time r, off))))"

definition wf_ext :: "(string \<times> string) list \<Rightarrow> bool" where
  "wf_ext ext \<longleftrightarrow> (\<forall>(key, value) \<in> set ext. CHR '':'' \<notin> set key \<and> has_prefix_nocase key ''X-'')"

text \<open>
  What of a field goes on its line: an empty text is not written, a scale is written with two
  decimals and read as a \<open>float\<close>, a session timeout goes with its session id.
\<close>

definition text_sent :: "string option \<Rightarrow> string option" where
  "text_sent v = (if v = Some [] then None else v)"

definition scale_sent :: "c_float \<Rightarrow> c_float" where
  "scale_sent x = (if x = Fin 0 then Fin 0 else lift_float to_float (atof (fixed2 x)))"

definition timeout_sent :: "string option \<Rightarrow> 32 word \<Rightarrow> 32 word" where
  "timeout_sent sid timeout = (if text_sent sid = None then 0 else timeout)"

lemma text_sent_id [simp]: "wf_text v \<Longrightarrow> text_sent v = v"
  by (simp add: text_sent_def wf_text_def)

lemma text_sent_simps [simp]: "text_sent None = None" "text_sent (Some (c # s)) = Some (c # s)"
  by (simp_all add: text_sent_def)

lemma scale_sent_id [simp]: "wf_scale x \<Longrightarrow> scale_sent x = x"
  by (simp add: scale_sent_def scale_read_text)

lemma scale_sent_0 [simp]: "scale_sent (Fin 0) = Fin 0"
  by (simp add: scale_sent_def)

lemma session_sent_id:
  "wf_session sid timeout \<Longrightarrow> text_sent sid = sid \<and> timeout_sent sid timeout = timeout"
  by (auto simp: wf_session_def timeout_sent_def text_sent_def split: option.splits)

lemma timeout_sent_simps [simp]:
  "timeout_sent None t = 0" "timeout_sent (Some (c # s)) t = t"
  by (simp_all add: timeout_sent_def)

definition clean_session :: "string option \<Rightarrow> bool" where
  "clean_session sid \<longleftrightarrow> (\<forall>s. sid = Some s \<longrightarrow> CHR '';'' \<notin> set s)"

lemma wf_clean_session: "wf_session sid timeout \<Longrightarrow> clean_session sid"
  by (auto simp: wf_session_def clean_session_def)

lemma session_read_sent:
  assumes "clean_session sid"
  shows "text_sent sid = None \<and> timeout_sent sid timeout = 0 \<and> (sid = None \<or> sid = Some []) \<or>
    (\<exists>s. sid = Some s \<and> s \<noteq> [] \<and> text_sent sid = Some s \<and> timeout_sent sid timeout = timeout \<and>
      rtsp_session_header_read (Some (session_text s timeout)) = Inr (s, timeout))"
  using assms session_read_text by (cases sid) (auto simp: clean_session_def text_sent_def timeout_sent_def)

lemma read_fields_text_line:
  assumes "CHR '':'' \<notin> set name" "\<And>t. rf name t h = Inr (True, f (Some t) h)"
    "f None h = h"
  shows "read_fields rf (text_line name v @ ps) h = read_fields rf ps (f (text_sent v) h)"
  unfolding text_line_def using assms
  by (intro read_fields_line_if) (auto simp: text_sent_def)

lemma atoi_show_pos: "0 \<le> i \<Longrightarrow> i < 2 ^ 31 \<Longrightarrow> atoi (show_int i) = i"
  using atoi_show_int [of "[]" i] by simp

lemma ext_key_other:
  assumes "has_prefix_nocase key ''X-''"
    "n \<in> {CHR ''C'', CHR ''D'', CHR ''S'', CHR ''T'', CHR ''A'', CHR ''U'', CHR ''R'', CHR ''W'', CHR ''P''}"
  shows "\<not> has_prefix_nocase key (n # ns)"
proof -
  have x: "tolower (CHR ''X'') = CHR ''x''" by (simp add: tolower_def is_upper_def char_of_def bit_simps)
  obtain c k where k: "key = c # k" "tolower c = CHR ''x''"
    using assms(1) x by (cases key) (simp_all add: has_prefix_nocase_def)
  have "tolower n \<noteq> CHR ''x''"
    using assms(2) by (auto simp: tolower_def is_upper_def char_of_def bit_simps)
  then show ?thesis using k by (auto simp: has_prefix_nocase_def)
qed

lemma read_fields_ext:
  assumes "\<And>key v h. has_prefix_nocase key ''X-'' \<Longrightarrow> rf key v h = Inr (True, add (key, v) h)"
  shows "wf_ext ext \<Longrightarrow> read_fields rf (ext_lines ext) h = Inr (fold add ext h)"
proof (induction ext arbitrary: h)
  case Nil
  then show ?case by (simp add: ext_lines_def)
next
  case (Cons e ext)
  obtain key v where e: "e = (key, v)" by (cases e)
  with Cons.prems have key: "CHR '':'' \<notin> set key" "has_prefix_nocase key ''X-''" by (auto simp: wf_ext_def)
  show ?case
    using Cons field_value_text [OF key(1), of v] assms [OF key(2)] by (simp add: e ext_lines_def wf_ext_def)
qed

section \<open>Copies of fields\<close>

lemma transport_copy_new: "rtsp_transport_header_copy t rtsp_transport_header_new = t"
  by (rule rtsp_transport_header.equality)
    (simp_all add: rtsp_transport_header_copy_def rtsp_transport_header_new_def)

lemma authorization_copy_id: "rtsp_authorization_header_copy a rtsp_authorization_header_new = a"
  by (rule rtsp_authorization_header.equality)
    (simp_all add: rtsp_authorization_header_copy_def rtsp_authorization_header_new_def)

end
