(* ===== verification/RtspRequest.thy ===== *)
theory RtspRequest
  imports RtspFields
begin

text \<open>
  Request headers of \<open>src/rtsp.c\<close>: \<open>struct rtsp_request_header\<close>, its clear and copy functions,
  the writer \<open>rtsp_request_header_write\<close> and the reader \<open>rtsp_request_header_read\<close>, with
  their round trip. A nullable string is an option, an array with its count is a list.
\<close>

section \<open>Data\<close>

record rtsp_request_header =
  req_method :: rtsp_method_type
  req_uri :: "string option"
  req_cseq :: int
  req_date :: "64 word"
  req_session_id :: "string option"
  req_session_timeout :: "32 word"
  req_transport :: "rtsp_transport_header list"
  req_authorization :: "rtsp_authorization_header option"
  req_content_type :: "string option"
  req_scale :: c_float
  req_user_agent :: "string option"
  req_server :: "string option"
  req_accept :: "string option"
  req_range :: rtsp_range
  req_content_length :: int
  req_ext :: "(string \<times> string) list"

definition rtsp_request_header_clear :: rtsp_request_header where
  "rtsp_request_header_clear =
     \<lparr>req_method = RTSP_METHOD_TYPE_UNKNOWN, req_uri = None, req_cseq = 0, req_date = 0,
      req_session_id = None, req_session_timeout = 0, req_transport = [], req_authorization = None,
      req_content_type = None, req_scale = Fin 0, req_user_agent = None, req_server = None,
      req_accept = None, req_range = range_zero, req_content_length = 0, req_ext = []\<rparr>"

definition rtsp_request_header_copy_ext ::
  "(string \<times> string) list \<Rightarrow> rtsp_request_header \<Rightarrow> rtsp_request_header" where
  "rtsp_request_header_copy_ext ext header = (if ext = [] then header else header\<lparr>req_ext := ext\<rparr>)"

definition rtsp_request_header_copy ::
  "rtsp_request_header \<Rightarrow> rtsp_request_header \<Rightarrow> rtsp_request_header" where
  "rtsp_request_header_copy src dst =
     rtsp_request_header_copy_ext (req_ext src)
       (dst\<lparr>req_method := req_method src, req_uri := req_uri src, req_cseq := req_cseq src,
            req_date := req_date src, req_session_id := req_session_id src,
            req_session_timeout := req_session_timeout src,
            req_transport :=
              map (\<lambda>t. rtsp_transport_header_copy t rtsp_transport_header_new) (req_transport src),
            req_content_type := req_content_type src, req_scale := req_scale src,
            req_authorization :=
              (case req_authorization src of
                 None \<Rightarrow> req_authorization dst
               | Some a \<Rightarrow> Some (rtsp_authorization_header_copy a rtsp_authorization_header_new)),
            req_user_agent := req_user_agent src, req_server := req_server src,
            req_accept := req_accept src, req_range := req_range src,
            req_content_length := req_content_length src\<rparr>)"

section \<open>Writing\<close>

definition write_transports :: "rtsp_transport_header list \<Rightarrow> rtsp_string \<Rightarrow> rtsp_string result" where
  "write_transports ts s =
     (if ts \<noteq> [] then rtsp_transport_header_write (map Some ts) s else Inr s)"

definition write_authorization ::
  "rtsp_authorization_header option \<Rightarrow> rtsp_string \<Rightarrow> rtsp_string result" where
  "write_authorization auth s =
     (case auth of None \<Rightarrow> Inr s | Some a \<Rightarrow> rtsp_authorization_header_write a s)"

definition rtsp_request_header_write ::
  "time_formatter \<Rightarrow> rtsp_request_header \<Rightarrow> rtsp_string \<Rightarrow> rtsp_string result" where
  "rtsp_request_header_write time_format header str =
     (if req_uri header = None \<or> req_uri header = Some [] then Inl (Err (- EINVAL))
      else if rtsp_method_type_str (req_method header) = ''UNKNOWN'' then Inl (Err (- EINVAL))
      else
        bindr (rtsp_sprintf str
          (rtsp_method_type_str (req_method header) @ '' '' @ the (req_uri header) @ '' RTSP/1.0'' @ CRLF)) (\<lambda>s.
        bindr (write_cseq (req_cseq header) s) (\<lambda>s.
        bindr (write_date time_format (req_date header) s) (\<lambda>s.
        bindr (write_session (req_session_id header) (req_session_timeout header) s) (\<lambda>s.
        bindr (write_transports (req_transport header) s) (\<lambda>s.
        bindr (write_authorization (req_authorization header) s) (\<lambda>s.
        bindr (write_text ''Content-Type'' (req_content_type header) s) (\<lambda>s.
        bindr (write_scale (req_scale header) s) (\<lambda>s.
        bindr (write_text ''User-Agent'' (req_user_agent header) s) (\<lambda>s.
        bindr (write_text ''Server'' (req_server header) s) (\<lambda>s.
        bindr (write_text ''Accept'' (req_accept header) s) (\<lambda>s.
        bindr (write_range time_format (req_range header) s) (\<lambda>s.
        bindr (if req_content_length header > 0
               then rtsp_sprintf s (''Content-Length: '' @ show_int (req_content_length header) @ CRLF)
               else Inr s) (\<lambda>s.
        bindr (write_ext (req_ext header) s) (\<lambda>s.
        rtsp_sprintf s CRLF)))))))))))))))"

section \<open>Reading\<close>

text \<open>
  One field of the header. The flag tells whether reading goes on: a Transport field without any
  transport ends it with success.
\<close>

definition read_request_field ::
  "time_parser \<Rightarrow> string \<Rightarrow> string \<Rightarrow> rtsp_request_header \<Rightarrow> (bool \<times> rtsp_request_header) result" where
  "read_request_field time_parse field value header =
     (let is = has_prefix_nocase field; next = (\<lambda>h. Inr (True, h)) in
      if is ''CSeq'' then next (header\<lparr>req_cseq := atoi value\<rparr>)
      else if is ''Date'' then
        bindr (time_parse value) (\<lambda>(epoch_sec, _). next (header\<lparr>req_date := epoch_sec\<rparr>))
      else if is ''Session'' then
        bindr (rtsp_session_header_read (Some value)) (\<lambda>(sid, timeout).
          next (header\<lparr>req_session_id := Some sid, req_session_timeout := timeout\<rparr>))
      else if is ''Transport'' then
        bindr (rtsp_transport_header_read (Some value) RTSP_TRANSPORT_MAX_COUNT) (\<lambda>(ret, ts).
          if ret < 0 then Inl (Err ret) else Inr (ts \<noteq> [], header\<lparr>req_transport := ts\<rparr>))
      else if is ''Content-Type'' then next (header\<lparr>req_content_type := Some value\<rparr>)
      else if is ''Scale'' then next (header\<lparr>req_scale := lift_float to_float (atof value)\<rparr>)
      else if is ''Authorization'' then
        bindr (rtsp_authorization_header_read (Some value)) (\<lambda>auth.
          next (header\<lparr>req_authorization := Some auth\<rparr>))
      else if is ''User-Agent'' then next (header\<lparr>req_user_agent := Some value\<rparr>)
      else if is ''Server'' then next (header\<lparr>req_server := Some value\<rparr>)
      else if is ''Accept'' then next (header\<lparr>req_accept := Some value\<rparr>)
      else if is ''Range'' then
        bindr (rtsp_range_header_read time_parse (Some value)) (\<lambda>r. next (header\<lparr>req_range := r\<rparr>))
      else if is ''Content-Length'' then next (header\<lparr>req_content_length := atoi value\<rparr>)
      else if is ''X-'' then next (header\<lparr>req_ext := req_ext header @ [(field, value)]\<rparr>)
      else next header)"

definition read_request_line :: "string \<Rightarrow> (rtsp_method_type \<times> string) result" where
  "read_request_line p =
     (case strtok_r {CHR '' ''} p of
        (meth, temp2) \<Rightarrow>
          (case strtok_r {CHR '' ''} temp2 of
             (uri, temp2) \<Rightarrow>
               if rtsp_method_type_enum meth = RTSP_METHOD_TYPE_UNKNOWN then Inl (Err (- EPROTO))
               else if uri = None then Inl (Err (- EPROTO))
               else if fst (strtok_r {CR, LF} temp2) \<noteq> Some ''RTSP/1.0'' then Inl (Err (- EPROTO))
               else Inr (rtsp_method_type_enum meth, the uri)))"

text \<open>The header and the offset of the body.\<close>

definition rtsp_request_header_read ::
  "time_parser \<Rightarrow> string \<Rightarrow> (rtsp_request_header \<times> nat) result" where
  "rtsp_request_header_read time_parse str =
     (case find_double_newline str of
        None \<Rightarrow> Inl (Err (- EPROTO))
      | Some (p, nl_len) \<Rightarrow>
          (case strtok_r {CR, LF} (take p str) of
             (None, _) \<Rightarrow> Inl (Err (- EPROTO))
           | (Some line, temp) \<Rightarrow>
               bindr (read_request_line line) (\<lambda>(meth, uri).
               bindr (read_fields (read_request_field time_parse) (strtok_all {CR, LF} temp)
                  (rtsp_request_header_clear\<lparr>req_method := meth, req_uri := Some uri\<rparr>)) (\<lambda>header.
               Inr (header, p + nl_len)))))"

section \<open>The lines of a request\<close>

definition request_line :: "rtsp_request_header \<Rightarrow> string" where
  "request_line h = rtsp_method_type_str (req_method h) @ '' '' @ the (req_uri h) @ '' RTSP/1.0''"

definition auth_lines :: "rtsp_authorization_header option \<Rightarrow> string" where
  "auth_lines auth = (case auth of None \<Rightarrow> [] | Some a \<Rightarrow> ''Authorization: '' @ auth_line a)"

definition request_lines1 :: "time_formatter \<Rightarrow> rtsp_request_header \<Rightarrow> string list" where
  "request_lines1 tf h =
     line_if (req_cseq h \<ge> 0) ''CSeq'' (show_int (req_cseq h)) @
     line_if (req_date h > 0) ''Date'' (date_text tf (req_date h)) @
     line_if (req_session_id h \<noteq> None \<and> req_session_id h \<noteq> Some []) ''Session''
       (session_text (the (req_session_id h)) (req_session_timeout h)) @
     line_if (req_transport h \<noteq> []) ''Transport'' (transport_text (map Some (req_transport h)))"

definition request_lines2 :: "time_formatter \<Rightarrow> rtsp_request_header \<Rightarrow> string list" where
  "request_lines2 tf h =
     text_line ''Content-Type'' (req_content_type h) @
     line_if (req_scale h \<noteq> Fin 0) ''Scale'' (fixed2 (req_scale h)) @
     text_line ''User-Agent'' (req_user_agent h) @
     text_line ''Server'' (req_server h) @
     text_line ''Accept'' (req_accept h) @
     line_if (time_fmt (range_start (req_range h)) \<noteq> RTSP_TIME_FORMAT_UNKNOWN) ''Range'' (range_line tf (req_range h)) @
     line_if (req_content_length h > 0) ''Content-Length'' (show_int (req_content_length h)) @
     ext_lines (req_ext h)"

definition request_text :: "time_formatter \<Rightarrow> rtsp_request_header \<Rightarrow> string" where
  "request_text tf h = request_line h @ CRLF @ crlf_lines (request_lines1 tf h) @
     auth_lines (req_authorization h) @ crlf_lines (request_lines2 tf h) @ CRLF"

definition request_writable :: "time_formatter \<Rightarrow> rtsp_request_header \<Rightarrow> bool" where
  "request_writable tf h \<longleftrightarrow>
     req_uri h \<noteq> None \<and> req_uri h \<noteq> Some [] \<and> req_method h \<noteq> RTSP_METHOD_TYPE_UNKNOWN \<and>
     (req_date h > 0 \<longrightarrow> (\<exists>t. tf TIME_FMT_RFC1123 (req_date h) = Inr t)) \<and>
     (req_transport h \<noteq> [] \<longrightarrow> transport_writable (map Some (req_transport h))) \<and>
     (req_authorization h \<noteq> None \<longrightarrow> auth_writable (the (req_authorization h))) \<and>
     (time_fmt (range_start (req_range h)) \<noteq> RTSP_TIME_FORMAT_UNKNOWN \<longrightarrow>
        range_writable (tf TIME_FMT_ISO8601_SHORT) (req_range h))"

lemma is_writer_transports [is_writer_intros]:
  "is_writer (write_transports ts) (ts \<noteq> [] \<longrightarrow> transport_writable (map Some ts))
     (crlf_lines (line_if (ts \<noteq> []) ''Transport'' (transport_text (map Some ts))))"
  unfolding write_transports_def [abs_def] crlf_lines_if
  by (rule is_writer_eq, rule is_writer_when, rule is_writer_bounded [OF transport.bounded_writer_axioms]) simp_all

lemma is_writer_authorization [is_writer_intros]:
  "is_writer (write_authorization auth) (auth \<noteq> None \<longrightarrow> auth_writable (the auth)) (auth_lines auth)"
proof (cases auth)
  case None
  then show ?thesis using writes_skip by (simp add: write_authorization_def [abs_def] auth_lines_def is_writer_def)
next
  case (Some a)
  show ?thesis
    unfolding Some write_authorization_def [abs_def] auth_lines_def option.case
    by (rule is_writer_eq [OF is_writer_bounded [OF authorization.bounded_writer_axioms]]) simp_all
qed

lemma is_writer_content_length:
  "is_writer (\<lambda>s. if i > 0 then rtsp_sprintf s (''Content-Length: '' @ show_int i @ CRLF) else Inr s) True
     (crlf_lines (line_if (i > 0) ''Content-Length'' (show_int i)))"
  unfolding crlf_lines_if by (rule is_writer_eq, rule is_writer_when, rule is_writer_sprintf) simp_all

lemma method_str_unknown: "rtsp_method_type_str m = ''UNKNOWN'' \<longleftrightarrow> m = RTSP_METHOD_TYPE_UNKNOWN"
  by (cases m) (simp_all add: rtsp_method_type_str_def)

interpretation request: bounded_writer "rtsp_request_header_write tf" "request_writable tf" "request_text tf" for tf
proof
  fix h s
  have w: "is_writer (rtsp_request_header_write tf h) (request_writable tf h) (request_text tf h)"
  proof (cases "req_uri h \<noteq> None \<and> req_uri h \<noteq> Some [] \<and> req_method h \<noteq> RTSP_METHOD_TYPE_UNKNOWN")
    case False
    then show ?thesis
      by (auto simp: is_writer_def fails_def rtsp_request_header_write_def request_writable_def method_str_unknown)
  next
    case True
    then have u: "\<not> (req_uri h = None \<or> req_uri h = Some [])" "\<not> rtsp_method_type_str (req_method h) = ''UNKNOWN''"
      by (auto simp: method_str_unknown)
    show ?thesis
      unfolding rtsp_request_header_write_def [abs_def] if_not_P [OF u(1)] if_not_P [OF u(2)]
      by (rule is_writer_eq, (rule is_writer_intros is_writer_content_length)+)
        (use True in \<open>auto simp: request_writable_def request_text_def request_line_def request_lines1_def request_lines2_def\<close>)
  qed
  show "request_writable tf h \<Longrightarrow> writes (rtsp_request_header_write tf h) (request_text tf h)"
    "\<not> request_writable tf h \<Longrightarrow> \<exists>e. rtsp_request_header_write tf h s = Inl e"
    using w by (auto simp: is_writer_def fails_def)
qed

section \<open>Reading a request back\<close>

lemma read_field_names:
  "read_request_field tp ''CSeq'' v h = Inr (True, h\<lparr>req_cseq := atoi v\<rparr>)"
  "read_request_field tp ''Date'' v h = bindr (tp v) (\<lambda>(epoch_sec, _). Inr (True, h\<lparr>req_date := epoch_sec\<rparr>))"
  "read_request_field tp ''Session'' v h = bindr (rtsp_session_header_read (Some v)) (\<lambda>(sid, timeout).
     Inr (True, h\<lparr>req_session_id := Some sid, req_session_timeout := timeout\<rparr>))"
  "read_request_field tp ''Transport'' v h =
     bindr (rtsp_transport_header_read (Some v) RTSP_TRANSPORT_MAX_COUNT) (\<lambda>(ret, ts).
       if ret < 0 then Inl (Err ret) else Inr (ts \<noteq> [], h\<lparr>req_transport := ts\<rparr>))"
  "read_request_field tp ''Content-Type'' v h = Inr (True, h\<lparr>req_content_type := Some v\<rparr>)"
  "read_request_field tp ''Scale'' v h = Inr (True, h\<lparr>req_scale := lift_float to_float (atof v)\<rparr>)"
  "read_request_field tp ''Authorization'' v h = bindr (rtsp_authorization_header_read (Some v)) (\<lambda>auth.
     Inr (True, h\<lparr>req_authorization := Some auth\<rparr>))"
  "read_request_field tp ''User-Agent'' v h = Inr (True, h\<lparr>req_user_agent := Some v\<rparr>)"
  "read_request_field tp ''Server'' v h = Inr (True, h\<lparr>req_server := Some v\<rparr>)"
  "read_request_field tp ''Accept'' v h = Inr (True, h\<lparr>req_accept := Some v\<rparr>)"
  "read_request_field tp ''Range'' v h = bindr (rtsp_range_header_read tp (Some v)) (\<lambda>r.
     Inr (True, h\<lparr>req_range := r\<rparr>))"
  "read_request_field tp ''Content-Length'' v h = Inr (True, h\<lparr>req_content_length := atoi v\<rparr>)"
  by (simp_all add: read_request_field_def field_name_simps)

text \<open>
  The headers that can be read back, and what of them the peer reads: a negative CSeq, an empty
  text, a timeout without session id and a Content-Length that is not positive are not written,
  and the scale and the Authorization lose what their lines do not carry.
\<close>

definition wf_request :: "time_formatter \<Rightarrow> time_parser \<Rightarrow> rtsp_request_header \<Rightarrow> bool" where
  "wf_request tf tp h \<longleftrightarrow>
     (\<exists>u. req_uri h = Some u \<and> u \<noteq> [] \<and> CHR '' '' \<notin> set u) \<and>
     req_cseq h < 2 ^ 31 \<and> wf_date tf tp (req_date h) \<and> clean_session (req_session_id h) \<and>
     (\<forall>t \<in> set (req_transport h). wf_transport t) \<and> length (req_transport h) \<le> RTSP_TRANSPORT_MAX_COUNT \<and>
     (\<forall>a. req_authorization h = Some a \<longrightarrow> clean_authorization a) \<and>
     wf_range_field tf tp (req_range h) \<and> req_content_length h < 2 ^ 31 \<and> wf_ext (req_ext h)"

definition request_sent :: "rtsp_request_header \<Rightarrow> rtsp_request_header" where
  "request_sent h =
     h\<lparr>req_cseq := max 0 (req_cseq h), req_session_id := text_sent (req_session_id h),
       req_session_timeout := timeout_sent (req_session_id h) (req_session_timeout h),
       req_authorization := map_option auth_sent (req_authorization h),
       req_content_type := text_sent (req_content_type h), req_scale := scale_sent (req_scale h),
       req_user_agent := text_sent (req_user_agent h), req_server := text_sent (req_server h),
       req_accept := text_sent (req_accept h), req_content_length := max 0 (req_content_length h)\<rparr>"

text \<open>Everything is read back as it was when every field that is set is one that is written.\<close>

lemma request_sent_id:
  assumes "0 \<le> req_cseq h" "wf_session (req_session_id h) (req_session_timeout h)"
    "\<forall>a. req_authorization h = Some a \<longrightarrow> wf_authorization a"
    "wf_text (req_content_type h)" "wf_scale (req_scale h)" "wf_text (req_user_agent h)"
    "wf_text (req_server h)" "wf_text (req_accept h)" "0 \<le> req_content_length h"
  shows "request_sent h = h"
  using assms session_sent_id [OF assms(2)]
  by (intro rtsp_request_header.equality)
    (auto simp: request_sent_def max_def auth_sent_id intro: option.map_ident_strong)

definition all_request_lines :: "time_formatter \<Rightarrow> rtsp_request_header \<Rightarrow> string list" where
  "all_request_lines tf h = request_lines1 tf h @
     (case req_authorization h of None \<Rightarrow> [] | Some a \<Rightarrow> [''Authorization: '' @ auth_text a]) @
     request_lines2 tf h"

lemma request_text_lines:
  assumes "\<forall>a. req_authorization h = Some a \<longrightarrow> clean_authorization a"
  shows "request_text tf h = crlf_lines (request_line h # all_request_lines tf h) @ CRLF"
  using assms
  by (cases "req_authorization h")
    (auto simp: request_text_def all_request_lines_def auth_lines_def clean_auth_line crlf_lines_def)

lemma read_request_lines1:
  assumes "wf_request tf tp h"
  shows "read_fields (read_request_field tp) (request_lines1 tf h @ ps)
      (rtsp_request_header_clear\<lparr>req_method := m, req_uri := u\<rparr>)
    = read_fields (read_request_field tp) ps
      (rtsp_request_header_clear\<lparr>req_method := m, req_uri := u, req_cseq := max 0 (req_cseq h),
         req_date := req_date h, req_session_id := text_sent (req_session_id h),
         req_session_timeout := timeout_sent (req_session_id h) (req_session_timeout h), req_transport := req_transport h\<rparr>)"
proof -
  have date: "req_date h = 0 \<or> (\<exists>off. tp (date_text tf (req_date h)) = Inr (req_date h, off))"
    using assms by (auto simp: wf_request_def wf_date_def date_text_def word_gt_0)
  note sess = session_read_sent [of "req_session_id h" "req_session_timeout h"]
  have cs: "clean_session (req_session_id h)" using assms by (simp add: wf_request_def)
  have trsp: "req_transport h = [] \<or>
      rtsp_transport_header_read (Some (transport_text (map Some (req_transport h)))) RTSP_TRANSPORT_MAX_COUNT
        = Inr (0, req_transport h)"
    using assms transport_read_header [of "req_transport h" RTSP_TRANSPORT_MAX_COUNT] by (auto simp: wf_request_def)
  let ?h0 = "rtsp_request_header_clear\<lparr>req_method := m, req_uri := u\<rparr>"
  let ?h1 = "?h0\<lparr>req_cseq := max 0 (req_cseq h)\<rparr>"
  let ?h2 = "?h1\<lparr>req_date := req_date h\<rparr>"
  let ?h3 = "?h2\<lparr>req_session_id := text_sent (req_session_id h),
     req_session_timeout := timeout_sent (req_session_id h) (req_session_timeout h)\<rparr>"
  let ?h4 = "?h3\<lparr>req_transport := req_transport h\<rparr>"
  have 1: "read_fields (read_request_field tp) (line_if (req_cseq h \<ge> 0) ''CSeq'' (show_int (req_cseq h)) @ ls) ?h0
      = read_fields (read_request_field tp) ls ?h1" for ls
    using assms by (intro read_fields_line_if)
      (auto simp: read_field_names atoi_show_pos wf_request_def rtsp_request_header_clear_def max_def)
  have 2: "read_fields (read_request_field tp) (line_if (req_date h > 0) ''Date'' (date_text tf (req_date h)) @ ls) ?h1
      = read_fields (read_request_field tp) ls ?h2" for ls
    using date by (intro read_fields_line_if) (auto simp: read_field_names word_gt_0 rtsp_request_header_clear_def)
  have 3: "read_fields (read_request_field tp) (line_if (req_session_id h \<noteq> None \<and> req_session_id h \<noteq> Some []) ''Session''
       (session_text (the (req_session_id h)) (req_session_timeout h)) @ ls) ?h2 = read_fields (read_request_field tp) ls ?h3" for ls
    using sess [OF cs] by (intro read_fields_line_if) (auto simp: read_field_names rtsp_request_header_clear_def)
  have 4: "read_fields (read_request_field tp) (line_if (req_transport h \<noteq> []) ''Transport''
       (transport_text (map Some (req_transport h))) @ ls) ?h3 = read_fields (read_request_field tp) ls ?h4" for ls
    using trsp by (intro read_fields_line_if) (auto simp: read_field_names rtsp_request_header_clear_def)
  show ?thesis by (simp only: request_lines1_def append_assoc 1 2 3 4)
qed

lemma read_request_ext:
  "wf_ext ext \<Longrightarrow> read_fields (read_request_field tp) (ext_lines ext) h = Inr (h\<lparr>req_ext := req_ext h @ ext\<rparr>)"
proof -
  have f: "fold (\<lambda>e. req_ext_update (\<lambda>x. x @ [e])) es g = g\<lparr>req_ext := req_ext g @ es\<rparr>" for es g
    by (induction es arbitrary: g) simp_all
  show "wf_ext ext \<Longrightarrow> ?thesis"
    by (subst read_fields_ext [where add = "\<lambda>e. req_ext_update (\<lambda>x. x @ [e])"])
      (simp_all add: f read_request_field_def ext_key_other)
qed

lemma read_request_lines2:
  assumes "wf_request tf tp h" "req_content_type g = None" "req_scale g = Fin 0" "req_user_agent g = None"
    "req_server g = None" "req_accept g = None" "req_range g = range_zero" "req_content_length g = 0"
    "req_ext g = []"
  shows "read_fields (read_request_field tp) (request_lines2 tf h) g
    = Inr (g\<lparr>req_content_type := text_sent (req_content_type h), req_scale := scale_sent (req_scale h),
        req_user_agent := text_sent (req_user_agent h), req_server := text_sent (req_server h),
        req_accept := text_sent (req_accept h), req_range := req_range h,
        req_content_length := max 0 (req_content_length h), req_ext := req_ext h\<rparr>)"
proof -
  have wf: "wf_ext (req_ext h)" "req_content_length h < 2 ^ 31"
    using assms(1) by (simp_all add: wf_request_def)
  have rng: "req_range h = range_zero \<or>
      time_fmt (range_start (req_range h)) = RTSP_TIME_FORMAT_NPT \<and>
      rtsp_range_header_read tp (Some (range_line tf (req_range h))) = Inr (req_range h)"
    using assms(1) range_read_text [of "req_range h" "tf TIME_FMT_ISO8601_SHORT" tp]
    by (auto simp: wf_request_def wf_range_field_def range_line_def wf_range_def npt_time_def)
  have zero: "time_fmt (range_start range_zero) = RTSP_TIME_FORMAT_UNKNOWN"
    by (simp add: range_zero_def time_zero_def)
  let ?g1 = "g\<lparr>req_content_type := text_sent (req_content_type h)\<rparr>"
  let ?g2 = "?g1\<lparr>req_scale := scale_sent (req_scale h)\<rparr>"
  let ?g3 = "?g2\<lparr>req_user_agent := text_sent (req_user_agent h)\<rparr>"
  let ?g4 = "?g3\<lparr>req_server := text_sent (req_server h)\<rparr>"
  let ?g5 = "?g4\<lparr>req_accept := text_sent (req_accept h)\<rparr>"
  let ?g6 = "?g5\<lparr>req_range := req_range h\<rparr>"
  let ?g7 = "?g6\<lparr>req_content_length := max 0 (req_content_length h)\<rparr>"
  have 1: "read_fields (read_request_field tp) (text_line ''Content-Type'' (req_content_type h) @ ls) g
      = read_fields (read_request_field tp) ls ?g1" for ls
    using assms(2) by (intro read_fields_text_line) (simp_all add: read_field_names)
  have 2: "read_fields (read_request_field tp) (line_if (req_scale h \<noteq> Fin 0) ''Scale'' (fixed2 (req_scale h)) @ ls) ?g1
      = read_fields (read_request_field tp) ls ?g2" for ls
    using assms(3) by (intro read_fields_line_if) (simp_all add: read_field_names scale_sent_def)
  have 3: "read_fields (read_request_field tp) (text_line ''User-Agent'' (req_user_agent h) @ ls) ?g2
      = read_fields (read_request_field tp) ls ?g3" for ls
    using assms(4) by (intro read_fields_text_line) (simp_all add: read_field_names)
  have 4: "read_fields (read_request_field tp) (text_line ''Server'' (req_server h) @ ls) ?g3
      = read_fields (read_request_field tp) ls ?g4" for ls
    using assms(5) by (intro read_fields_text_line) (simp_all add: read_field_names)
  have 5: "read_fields (read_request_field tp) (text_line ''Accept'' (req_accept h) @ ls) ?g4
      = read_fields (read_request_field tp) ls ?g5" for ls
    using assms(6) by (intro read_fields_text_line) (simp_all add: read_field_names)
  have 6: "read_fields (read_request_field tp) (line_if (time_fmt (range_start (req_range h)) \<noteq> RTSP_TIME_FORMAT_UNKNOWN) ''Range''
       (range_line tf (req_range h)) @ ls) ?g5 = read_fields (read_request_field tp) ls ?g6" for ls
    using rng assms(7) zero by (intro read_fields_line_if) (auto simp: read_field_names)
  have 7: "read_fields (read_request_field tp) (line_if (req_content_length h > 0) ''Content-Length''
       (show_int (req_content_length h)) @ ls) ?g6 = read_fields (read_request_field tp) ls ?g7" for ls
    using wf assms(8) by (intro read_fields_line_if) (simp_all add: read_field_names atoi_show_pos max_def)
  show ?thesis
    by (simp only: request_lines2_def append_assoc 1 2 3 4 5 6 7 read_request_ext [OF wf(1)])
      (simp add: assms(9))
qed

lemma rtsp_version_line: "strtok_r {CR, LF} ''RTSP/1.0'' = (Some ''RTSP/1.0'', [])"
  by (simp add: strtok_r_def)

lemma method_str_token:
  "m \<noteq> RTSP_METHOD_TYPE_UNKNOWN \<Longrightarrow> rtsp_method_type_str m \<noteq> [] \<and>
   set (rtsp_method_type_str m) \<inter> {CHR '' ''} = {} \<and> rtsp_method_type_enum (Some (rtsp_method_type_str m)) = m"
  by (cases m) (simp_all add: rtsp_method_type_str_def rtsp_method_type_enum_def method_types_def)

lemma read_request_line_text:
  assumes "req_method h \<noteq> RTSP_METHOD_TYPE_UNKNOWN" "req_uri h = Some u" "u \<noteq> []" "CHR '' '' \<notin> set u"
  shows "read_request_line (request_line h) = Inr (req_method h, u)"
proof -
  note m = method_str_token [OF assms(1)]
  have "request_line h = rtsp_method_type_str (req_method h) @ CHR '' '' # (u @ CHR '' '' # ''RTSP/1.0'')"
    using assms(2) by (simp add: request_line_def)
  then show ?thesis
    using m assms strtok_r_token [of "rtsp_method_type_str (req_method h)" "{CHR '' ''}" "CHR '' ''"]
      strtok_r_token [of u "{CHR '' ''}" "CHR '' ''"] rtsp_version_line
    by (simp add: read_request_line_def)
qed

lemma read_request_all_lines:
  assumes "wf_request tf tp h"
  shows "read_fields (read_request_field tp) (all_request_lines tf h)
    (rtsp_request_header_clear\<lparr>req_method := req_method h, req_uri := req_uri h\<rparr>) = Inr (request_sent h)"
proof -
  let ?h4 = "rtsp_request_header_clear\<lparr>req_method := req_method h, req_uri := req_uri h, req_cseq := max 0 (req_cseq h),
         req_date := req_date h, req_session_id := text_sent (req_session_id h),
         req_session_timeout := timeout_sent (req_session_id h) (req_session_timeout h), req_transport := req_transport h\<rparr>"
  let ?h5 = "?h4\<lparr>req_authorization := map_option auth_sent (req_authorization h)\<rparr>"
  have "read_fields (read_request_field tp) ((case req_authorization h of None \<Rightarrow> []
      | Some a \<Rightarrow> [''Authorization: '' @ auth_text a]) @ ps) ?h4 = read_fields (read_request_field tp) ps ?h5" for ps
  proof (cases "req_authorization h")
    case None
    then show ?thesis by (simp add: rtsp_request_header_clear_def)
  next
    case (Some a)
    then have "rtsp_authorization_header_read (Some (auth_text a)) = Inr (auth_sent a)"
      using assms auth_read_sent by (simp add: wf_request_def)
    then show ?thesis
      using Some field_value_text [of "''Authorization''" "auth_text a"] by (simp add: read_field_names)
  qed
  then show ?thesis
    unfolding all_request_lines_def
    by (simp only: read_request_lines1 [OF assms])
      (subst read_request_lines2 [OF assms], simp_all add: rtsp_request_header_clear_def request_sent_def)
qed

lemma request_read_text:
  assumes "wf_request tf tp h" "req_method h \<noteq> RTSP_METHOD_TYPE_UNKNOWN"
    "\<forall>l \<in> set (request_line h # all_request_lines tf h). is_line l"
  shows "rtsp_request_header_read tp (request_text tf h @ body) = Inr (request_sent h, length (request_text tf h))"
    "find_double_newline (request_text tf h @ body) = Some (length (request_text tf h) - 4, 4)"
    "length (request_text tf h) \<ge> 4"
proof -
  let ?ls = "request_line h # all_request_lines tf h"
  have eq: "request_text tf h = crlf_lines ?ls @ CRLF"
    using assms(1) by (intro request_text_lines) (simp add: wf_request_def)
  have len: "length (crlf_lines ?ls) \<ge> 2" by (simp add: crlf_lines_def)
  then show "length (request_text tf h) \<ge> 4" by (simp add: eq)
  have f: "find_double_newline (request_text tf h @ body) = Some (length (crlf_lines ?ls) - 2, 4)"
    using find_end_of_lines [OF assms(3), of body] by (simp add: eq)
  with len show "find_double_newline (request_text tf h @ body) = Some (length (request_text tf h) - 4, 4)"
    by (simp add: eq)
  obtain u where u: "req_uri h = Some u" "u \<noteq> []" "CHR '' '' \<notin> set u"
    using assms(1) by (auto simp: wf_request_def)
  from strtok_first_line [OF assms(3), of "CRLF @ body"] obtain temp where
    "strtok_r {CR, LF} (take (length (crlf_lines ?ls) - 2) (request_text tf h @ body)) = (Some (request_line h), temp)"
    "strtok_all {CR, LF} temp = all_request_lines tf h" by (auto simp: eq)
  then show "rtsp_request_header_read tp (request_text tf h @ body) = Inr (request_sent h, length (request_text tf h))"
    using read_request_line_text [OF assms(2) u] read_request_all_lines [OF assms(1)] f len
    by (simp add: rtsp_request_header_read_def u(1)) (simp add: eq)
qed

text \<open>
  C10: What the peer reads of a request header that was written, and the offset of what follows it.
  The uri has no space, the numbers fit an \<open>int\<close>, a date is one that the formatter and the parser of
  the time library agree on, a session id has no semicolon, there are at most
  \<open>RTSP_TRANSPORT_MAX_COUNT\<close> transports, each with at most one interleaved pair and without
  separators in its texts, an Authorization can be sent, the range is empty or an NPT range within
  bounds, the extension fields have names with \<open>X-\<close> and without colon, and no line holds a line
  terminator. All other fields are arbitrary: of those that the writer leaves out or rounds, the
  peer reads the initial or the rounded value (\<open>request_sent\<close>).
\<close>

theorem request_roundtrip:
  assumes "rtsp_request_header_write tf h \<lparr>rs_str = [], rs_max_len = n\<rparr> = Inr s'" "0 < n"
    and "wf_request tf tp h" "\<forall>l \<in> set (request_line h # all_request_lines tf h). is_line l"
  shows "rtsp_request_header_read tp (rs_str s' @ body) = Inr (request_sent h, length (rs_str s'))"
proof -
  have ok: "rs_ok \<lparr>rs_str = [], rs_max_len = n\<rparr>" using assms(2) by (simp add: rs_ok_def)
  have "request_writable tf h" using request.write_cases [OF ok] assms(1) by simp
  then have "req_method h \<noteq> RTSP_METHOD_TYPE_UNKNOWN" by (simp add: request_writable_def)
  with request_read_text(1) [OF assms(3) _ assms(4)] request.write_success(1) [OF ok assms(1)]
  show ?thesis by simp
qed

definition example_request :: rtsp_request_header where
  "example_request = rtsp_request_header_clear
     \<lparr>req_method := RTSP_METHOD_TYPE_PLAY, req_uri := Some ''rtsp://h/s'', req_cseq := 7,
      req_session_id := Some ''AB'', req_scale := Fin 2, req_user_agent := Some ''vlc'',
      req_ext := [(''X-a'', ''b'')]\<rparr>"

lemma example_request_lines:
  "request_line example_request = ''PLAY rtsp://h/s RTSP/1.0''"
  "all_request_lines tf example_request =
     [''CSeq: 7'', ''Session: AB'', ''Scale: 2.00'', ''User-Agent: vlc'', ''X-a: b'']"
proof -
  have "fixed2 (Fin 2) = ''2.00''"
    using fixed2_nat [of 2] by (simp add: show_nat.simps digit_char_def char_of_def bit_simps)
  then show "request_line example_request = ''PLAY rtsp://h/s RTSP/1.0''"
    "all_request_lines tf example_request =
     [''CSeq: 7'', ''Session: AB'', ''Scale: 2.00'', ''User-Agent: vlc'', ''X-a: b'']"
    by (simp_all add: request_line_def all_request_lines_def request_lines1_def request_lines2_def
        example_request_def rtsp_request_header_clear_def line_if_def text_line_def ext_lines_def
        session_text_def rtsp_method_type_str_def show_int_def show_nat.simps digit_char_def
        char_of_def bit_simps range_zero_def time_zero_def)
qed

lemma wf_example_request: "wf_request tf tp example_request"
  by (simp add: wf_request_def example_request_def rtsp_request_header_clear_def wf_date_def
      clean_session_def wf_range_field_def wf_ext_def RTSP_TRANSPORT_MAX_COUNT_def
      has_prefix_nocase_def)

lemma example_request_sent: "request_sent example_request = example_request"
proof -
  have "wf_scale (Fin 2)" by (auto simp: wf_scale_def intro!: exI [of _ 2])
  then show ?thesis
    by (intro request_sent_id) (simp_all add: example_request_def rtsp_request_header_clear_def
        wf_session_def wf_text_def)
qed

lemma example_request_is_lines:
  "\<forall>l \<in> set (request_line example_request # all_request_lines tf example_request). is_line l"
  by (simp add: example_request_lines is_line_def)

lemma request_roundtrip_witness:
  "rtsp_request_header_read (\<lambda>_. Inl UB)
    (''PLAY rtsp://h/s RTSP/1.0'' @ CRLF @ ''CSeq: 7'' @ CRLF @ ''Session: AB'' @ CRLF @ ''Scale: 2.00'' @ CRLF @
     ''User-Agent: vlc'' @ CRLF @ ''X-a: b'' @ CRLF @ CRLF @ ''body'') = Inr (example_request, 88)"
proof -
  let ?tf = "\<lambda>_ _. Inl UB" and ?tp = "\<lambda>_. Inl UB"
  have rendered: "request_text ?tf example_request = ''PLAY rtsp://h/s RTSP/1.0'' @ CRLF @ ''CSeq: 7'' @ CRLF @
      ''Session: AB'' @ CRLF @ ''Scale: 2.00'' @ CRLF @ ''User-Agent: vlc'' @ CRLF @ ''X-a: b'' @ CRLF @ CRLF"
    by (subst request_text_lines)
      (simp_all add: example_request_lines crlf_lines_def, simp add: example_request_def rtsp_request_header_clear_def)
  have "request_writable ?tf example_request"
    by (simp add: request_writable_def example_request_def rtsp_request_header_clear_def range_zero_def time_zero_def)
  from request.write_fits [OF this, of "\<lparr>rs_str = [], rs_max_len = 1000\<rparr>"]
  have "rtsp_request_header_write ?tf example_request \<lparr>rs_str = [], rs_max_len = 1000\<rparr> =
      Inr \<lparr>rs_str = request_text ?tf example_request, rs_max_len = 1000\<rparr>" by (simp add: rendered)
  from request_roundtrip [OF this _ wf_example_request example_request_is_lines, of ?tp "''body''"]
  show ?thesis by (simp add: rendered example_request_sent)
qed

section \<open>Copying\<close>

lemma request_copy_clear: "rtsp_request_header_copy h rtsp_request_header_clear = h"
  by (rule rtsp_request_header.equality)
    (simp_all add: rtsp_request_header_copy_def rtsp_request_header_copy_ext_def
      rtsp_request_header_clear_def transport_copy_new authorization_copy_id split: option.split)

end
