(* ===== verification/RtspResponse.thy ===== *)
theory RtspResponse
  imports RtspRequest
begin

text \<open>
  Response headers of \<open>src/rtsp.c\<close>: \<open>struct rtsp_response_header\<close>, its clear and copy functions,
  the writer \<open>rtsp_response_header_write\<close> and the reader \<open>rtsp_response_header_read\<close>, with their
  round trip. The challenge (\<open>authenticate\<close>) is read but never written.
\<close>

section \<open>Data\<close>

record rtsp_response_header =
  resp_status_code :: int
  resp_status_string :: "string option"
  resp_cseq :: int
  resp_date :: "64 word"
  resp_session_id :: "string option"
  resp_session_timeout :: "32 word"
  resp_transport :: "rtsp_transport_header option"
  resp_authenticate :: "rtsp_authorization_header option"
  resp_content_type :: "string option"
  resp_scale :: c_float
  resp_public_methods :: "32 word"
  resp_allowed_methods :: "32 word"
  resp_rtp_info :: "rtsp_rtp_info_header list"
  resp_server :: "string option"
  resp_range :: rtsp_range
  resp_content_length :: int
  resp_content_encoding :: "string option"
  resp_content_language :: "string option"
  resp_content_base :: "string option"
  resp_content_location :: "string option"
  resp_ext :: "(string \<times> string) list"

definition rtsp_response_header_clear :: rtsp_response_header where
  "rtsp_response_header_clear =
     \<lparr>resp_status_code = 0, resp_status_string = None, resp_cseq = 0, resp_date = 0,
      resp_session_id = None, resp_session_timeout = 0, resp_transport = None,
      resp_authenticate = None, resp_content_type = None, resp_scale = Fin 0,
      resp_public_methods = 0, resp_allowed_methods = 0, resp_rtp_info = [], resp_server = None,
      resp_range = range_zero, resp_content_length = 0, resp_content_encoding = None,
      resp_content_language = None, resp_content_base = None, resp_content_location = None,
      resp_ext = []\<rparr>"

definition rtsp_response_header_copy_ext ::
  "(string \<times> string) list \<Rightarrow> rtsp_response_header \<Rightarrow> rtsp_response_header" where
  "rtsp_response_header_copy_ext ext header = (if ext = [] then header else header\<lparr>resp_ext := ext\<rparr>)"

definition rtsp_response_header_copy ::
  "rtsp_response_header \<Rightarrow> rtsp_response_header \<Rightarrow> rtsp_response_header" where
  "rtsp_response_header_copy src dst =
     rtsp_response_header_copy_ext (resp_ext src)
       (dst\<lparr>resp_status_code := resp_status_code src, resp_status_string := resp_status_string src,
            resp_cseq := resp_cseq src, resp_date := resp_date src,
            resp_session_id := resp_session_id src, resp_session_timeout := resp_session_timeout src,
            resp_transport :=
              map_option (\<lambda>t. rtsp_transport_header_copy t rtsp_transport_header_new) (resp_transport src),
            resp_authenticate :=
              (case resp_authenticate src of
                 None \<Rightarrow> resp_authenticate dst
               | Some a \<Rightarrow> Some (rtsp_authorization_header_copy a rtsp_authorization_header_new)),
            resp_content_type := resp_content_type src, resp_scale := resp_scale src,
            resp_public_methods := resp_public_methods src,
            resp_allowed_methods := resp_allowed_methods src,
            resp_rtp_info :=
              map (\<lambda>r. rtsp_rtp_info_header_copy r rtsp_rtp_info_header_new) (resp_rtp_info src),
            resp_server := resp_server src, resp_range := resp_range src,
            resp_content_length := resp_content_length src,
            resp_content_encoding := resp_content_encoding src,
            resp_content_language := resp_content_language src,
            resp_content_base := resp_content_base src,
            resp_content_location := resp_content_location src\<rparr>)"

section \<open>Writing\<close>

definition write_methods ::
  "(32 word \<Rightarrow> rtsp_string \<Rightarrow> rtsp_string result) \<Rightarrow> 32 word \<Rightarrow> rtsp_string \<Rightarrow> rtsp_string result" where
  "write_methods header_write methods s = (if methods > 0 then header_write methods s else Inr s)"

definition write_rtp_info :: "rtsp_rtp_info_header list \<Rightarrow> rtsp_string \<Rightarrow> rtsp_string result" where
  "write_rtp_info rs s = (if rs \<noteq> [] then rtsp_rtp_info_header_write (map Some rs) s else Inr s)"

definition write_transport :: "rtsp_transport_header option \<Rightarrow> rtsp_string \<Rightarrow> rtsp_string result" where
  "write_transport t s = (if t \<noteq> None then rtsp_transport_header_write [t] s else Inr s)"

definition rtsp_response_header_write ::
  "time_formatter \<Rightarrow> rtsp_response_header \<Rightarrow> rtsp_string \<Rightarrow> rtsp_string result" where
  "rtsp_response_header_write time_format header str =
     (if resp_status_code header = 0 then Inl (Err (- EINVAL))
      else if resp_status_string header = None \<or> resp_status_string header = Some [] then Inl (Err (- EINVAL))
      else
        bindr (rtsp_sprintf str
          (''RTSP/1.0 '' @ show_int (resp_status_code header) @ '' '' @ the (resp_status_string header) @ CRLF)) (\<lambda>s.
        bindr (write_cseq (resp_cseq header) s) (\<lambda>s.
        bindr (write_date time_format (resp_date header) s) (\<lambda>s.
        bindr (write_session (resp_session_id header) (resp_session_timeout header) s) (\<lambda>s.
        bindr (write_transport (resp_transport header) s) (\<lambda>s.
        bindr (write_text ''Content-Type'' (resp_content_type header) s) (\<lambda>s.
        bindr (write_scale (resp_scale header) s) (\<lambda>s.
        bindr (write_methods rtsp_public_header_write (resp_public_methods header) s) (\<lambda>s.
        bindr (write_methods rtsp_allow_header_write (resp_allowed_methods header) s) (\<lambda>s.
        bindr (write_rtp_info (resp_rtp_info header) s) (\<lambda>s.
        bindr (write_text ''Server'' (resp_server header) s) (\<lambda>s.
        bindr (write_range time_format (resp_range header) s) (\<lambda>s.
        bindr (rtsp_sprintf s (''Content-Length: '' @ show_int (resp_content_length header) @ CRLF)) (\<lambda>s.
        bindr (write_text ''Content-Encoding'' (resp_content_encoding header) s) (\<lambda>s.
        bindr (write_text ''Content-Language'' (resp_content_language header) s) (\<lambda>s.
        bindr (write_text ''Content-Base'' (resp_content_base header) s) (\<lambda>s.
        bindr (write_text ''Content-Location'' (resp_content_location header) s) (\<lambda>s.
        bindr (write_ext (resp_ext header) s) (\<lambda>s.
        rtsp_sprintf s CRLF)))))))))))))))))))"

section \<open>Reading\<close>

text \<open>
  One field of the header. A Transport or RTP-Info field without any entry ends the reading with
  success, and only the first entry of either is kept.
\<close>

definition read_response_field ::
  "time_parser \<Rightarrow> string \<Rightarrow> string \<Rightarrow> rtsp_response_header \<Rightarrow> (bool \<times> rtsp_response_header) result" where
  "read_response_field time_parse field value header =
     (let is = has_prefix_nocase field; next = (\<lambda>h. Inr (True, h)) in
      if is ''CSeq'' then next (header\<lparr>resp_cseq := atoi value\<rparr>)
      else if is ''Date'' then
        bindr (time_parse value) (\<lambda>(epoch_sec, _). next (header\<lparr>resp_date := epoch_sec\<rparr>))
      else if is ''Session'' then
        bindr (rtsp_session_header_read (Some value)) (\<lambda>(sid, timeout).
          next (header\<lparr>resp_session_id := Some sid, resp_session_timeout := timeout\<rparr>))
      else if is ''Transport'' then
        bindr (rtsp_transport_header_read (Some value) 1) (\<lambda>(ret, ts).
          if ret < 0 then Inl (Err ret)
          else case ts of
            [] \<Rightarrow> Inr (False, header)
          | t # _ \<Rightarrow> next (header\<lparr>resp_transport := Some t\<rparr>))
      else if is ''WWW-Authenticate'' then
        bindr (rtsp_authorization_header_read (Some value)) (\<lambda>auth.
          next (header\<lparr>resp_authenticate := Some auth\<rparr>))
      else if is ''Content-Type'' then next (header\<lparr>resp_content_type := Some value\<rparr>)
      else if is ''Scale'' then next (header\<lparr>resp_scale := lift_float to_float (atof value)\<rparr>)
      else if is ''Public'' then
        bindr (rtsp_public_header_read (Some value)) (\<lambda>m. next (header\<lparr>resp_public_methods := m\<rparr>))
      else if is ''Allow'' then
        bindr (rtsp_allow_header_read (Some value)) (\<lambda>m. next (header\<lparr>resp_allowed_methods := m\<rparr>))
      else if is ''RTP-Info'' then
        bindr (rtsp_rtp_info_header_read (Some value) 1) (\<lambda>(ret, rs).
          if ret < 0 then Inl (Err ret) else Inr (rs \<noteq> [], header\<lparr>resp_rtp_info := rs\<rparr>))
      else if is ''Server'' then next (header\<lparr>resp_server := Some value\<rparr>)
      else if is ''Range'' then
        bindr (rtsp_range_header_read time_parse (Some value)) (\<lambda>r. next (header\<lparr>resp_range := r\<rparr>))
      else if is ''Content-Length'' then next (header\<lparr>resp_content_length := atoi value\<rparr>)
      else if is ''Content-Encoding'' then next (header\<lparr>resp_content_encoding := Some value\<rparr>)
      else if is ''Content-Language'' then next (header\<lparr>resp_content_language := Some value\<rparr>)
      else if is ''Content-Base'' then next (header\<lparr>resp_content_base := Some value\<rparr>)
      else if is ''Content-Location'' then next (header\<lparr>resp_content_location := Some value\<rparr>)
      else if is ''X-'' then next (header\<lparr>resp_ext := resp_ext header @ [(field, value)]\<rparr>)
      else next header)"

definition read_status_line :: "string \<Rightarrow> (int \<times> string) result" where
  "read_status_line p =
     (case strtok_r {CHR '' ''} p of
        (version, temp2) \<Rightarrow>
          (case strtok_r {CHR '' ''} temp2 of
             (code_str, temp2) \<Rightarrow>
               (case strtok_r {CR, LF} temp2 of
                  (reason, _) \<Rightarrow>
                    if version \<noteq> Some ''RTSP/1.0'' then Inl (Err (- EPROTO))
                    else if code_str = None \<or> reason = None then Inl (Err (- EPROTO))
                    else Inr (atoi (the code_str), the reason))))"

text \<open>The header and the offset of the body.\<close>

definition rtsp_response_header_read ::
  "time_parser \<Rightarrow> string \<Rightarrow> (rtsp_response_header \<times> nat) result" where
  "rtsp_response_header_read time_parse msg =
     (case find_double_newline msg of
        None \<Rightarrow> Inl (Err (- EPROTO))
      | Some (p, nl_len) \<Rightarrow>
          (case strtok_r {CR, LF} (take p msg) of
             (None, _) \<Rightarrow> Inl (Err (- EPROTO))
           | (Some line, temp) \<Rightarrow>
               bindr (read_status_line line) (\<lambda>(status, reason).
               bindr (read_fields (read_response_field time_parse) (strtok_all {CR, LF} temp)
                  (rtsp_response_header_clear
                     \<lparr>resp_status_code := status, resp_status_string := Some reason\<rparr>)) (\<lambda>header.
               Inr (header, p + nl_len)))))"

section \<open>The lines of a response\<close>

definition response_line :: "rtsp_response_header \<Rightarrow> string" where
  "response_line h =
     ''RTSP/1.0 '' @ show_int (resp_status_code h) @ '' '' @ the (resp_status_string h)"

definition response_lines1 :: "time_formatter \<Rightarrow> rtsp_response_header \<Rightarrow> string list" where
  "response_lines1 tf h =
     line_if (resp_cseq h \<ge> 0) ''CSeq'' (show_int (resp_cseq h)) @
     line_if (resp_date h > 0) ''Date'' (date_text tf (resp_date h)) @
     line_if (resp_session_id h \<noteq> None \<and> resp_session_id h \<noteq> Some []) ''Session''
       (session_text (the (resp_session_id h)) (resp_session_timeout h)) @
     line_if (resp_transport h \<noteq> None) ''Transport'' (transport_text [resp_transport h]) @
     text_line ''Content-Type'' (resp_content_type h) @
     line_if (resp_scale h \<noteq> Fin 0) ''Scale'' (fixed2 (resp_scale h)) @
     line_if (resp_public_methods h > 0) ''Public'' (methods_text (resp_public_methods h)) @
     line_if (resp_allowed_methods h > 0) ''Allow'' (methods_text (resp_allowed_methods h)) @
     line_if (resp_rtp_info h \<noteq> []) ''RTP-Info'' (rtp_info_text (map Some (resp_rtp_info h)))"

definition response_lines2 :: "time_formatter \<Rightarrow> rtsp_response_header \<Rightarrow> string list" where
  "response_lines2 tf h =
     text_line ''Server'' (resp_server h) @
     line_if (time_fmt (range_start (resp_range h)) \<noteq> RTSP_TIME_FORMAT_UNKNOWN) ''Range''
       (range_line tf (resp_range h)) @
     line_if True ''Content-Length'' (show_int (resp_content_length h)) @
     text_line ''Content-Encoding'' (resp_content_encoding h) @
     text_line ''Content-Language'' (resp_content_language h) @
     text_line ''Content-Base'' (resp_content_base h) @
     text_line ''Content-Location'' (resp_content_location h) @
     ext_lines (resp_ext h)"

definition all_response_lines :: "time_formatter \<Rightarrow> rtsp_response_header \<Rightarrow> string list" where
  "all_response_lines tf h = response_line h # response_lines1 tf h @ response_lines2 tf h"

definition response_text :: "time_formatter \<Rightarrow> rtsp_response_header \<Rightarrow> string" where
  "response_text tf h = crlf_lines (all_response_lines tf h) @ CRLF"

definition response_writable :: "time_formatter \<Rightarrow> rtsp_response_header \<Rightarrow> bool" where
  "response_writable tf h \<longleftrightarrow>
     resp_status_code h \<noteq> 0 \<and> resp_status_string h \<noteq> None \<and> resp_status_string h \<noteq> Some [] \<and>
     (resp_date h > 0 \<longrightarrow> (\<exists>t. tf TIME_FMT_RFC1123 (resp_date h) = Inr t)) \<and>
     (resp_transport h \<noteq> None \<longrightarrow> transport_writable [resp_transport h]) \<and>
     (time_fmt (range_start (resp_range h)) \<noteq> RTSP_TIME_FORMAT_UNKNOWN \<longrightarrow>
        range_writable (tf TIME_FMT_ISO8601_SHORT) (resp_range h))"

lemma is_writer_transport [is_writer_intros]:
  "is_writer (write_transport t) (t \<noteq> None \<longrightarrow> transport_writable [t])
     (crlf_lines (line_if (t \<noteq> None) ''Transport'' (transport_text [t])))"
  unfolding write_transport_def [abs_def] crlf_lines_if
  by (rule is_writer_eq, rule is_writer_when, rule is_writer_bounded [OF transport.bounded_writer_axioms]) simp_all

lemma is_writer_methods:
  assumes "bounded_writer wr (\<lambda>m. m \<noteq> 0) (\<lambda>m. name @ '': '' @ methods_text m @ CRLF)"
  shows "is_writer (write_methods wr m) True (crlf_lines (line_if (m > 0) name (methods_text m)))"
  unfolding write_methods_def [abs_def] crlf_lines_if
  by (rule is_writer_eq, rule is_writer_when, rule is_writer_bounded [OF assms]) (simp_all add: word_gt_0)

lemma is_writer_public: "is_writer (write_methods rtsp_public_header_write m) True
    (crlf_lines (line_if (m > 0) ''Public'' (methods_text m)))"
  using public.bounded_writer_axioms by (intro is_writer_methods) simp

lemma is_writer_allow: "is_writer (write_methods rtsp_allow_header_write m) True
    (crlf_lines (line_if (m > 0) ''Allow'' (methods_text m)))"
  using allow.bounded_writer_axioms by (intro is_writer_methods) simp

lemma is_writer_rtp_info [is_writer_intros]:
  "is_writer (write_rtp_info rs) True
     (crlf_lines (line_if (rs \<noteq> []) ''RTP-Info'' (rtp_info_text (map Some rs))))"
  unfolding write_rtp_info_def [abs_def] crlf_lines_if
  by (rule is_writer_eq, rule is_writer_when, rule is_writer_bounded [OF rtp_info.bounded_writer_axioms]) simp_all

interpretation response: bounded_writer "rtsp_response_header_write tf" "response_writable tf" "response_text tf" for tf
proof
  fix h s
  have w: "is_writer (rtsp_response_header_write tf h) (response_writable tf h) (response_text tf h)"
  proof (cases "resp_status_code h \<noteq> 0 \<and> resp_status_string h \<noteq> None \<and> resp_status_string h \<noteq> Some []")
    case False
    then show ?thesis
      by (auto simp: is_writer_def fails_def rtsp_response_header_write_def response_writable_def)
  next
    case True
    then have u: "\<not> resp_status_code h = 0" "\<not> (resp_status_string h = None \<or> resp_status_string h = Some [])"
      by auto
    show ?thesis
      unfolding rtsp_response_header_write_def [abs_def] if_not_P [OF u(1)] if_not_P [OF u(2)]
      by (rule is_writer_eq, (rule is_writer_intros is_writer_public is_writer_allow)+)
        (use True in \<open>auto simp: response_writable_def response_text_def all_response_lines_def
           response_line_def response_lines1_def response_lines2_def crlf_lines_def line_if_def\<close>)
  qed
  show "response_writable tf h \<Longrightarrow> writes (rtsp_response_header_write tf h) (response_text tf h)"
    "\<not> response_writable tf h \<Longrightarrow> \<exists>e. rtsp_response_header_write tf h s = Inl e"
    using w by (auto simp: is_writer_def fails_def)
qed

section \<open>Reading a response back\<close>

lemma read_response_names:
  "read_response_field tp ''CSeq'' v h = Inr (True, h\<lparr>resp_cseq := atoi v\<rparr>)"
  "read_response_field tp ''Date'' v h = bindr (tp v) (\<lambda>(epoch_sec, _). Inr (True, h\<lparr>resp_date := epoch_sec\<rparr>))"
  "read_response_field tp ''Session'' v h = bindr (rtsp_session_header_read (Some v)) (\<lambda>(sid, timeout).
     Inr (True, h\<lparr>resp_session_id := Some sid, resp_session_timeout := timeout\<rparr>))"
  "read_response_field tp ''Transport'' v h =
     bindr (rtsp_transport_header_read (Some v) 1) (\<lambda>(ret, ts).
       if ret < 0 then Inl (Err ret)
       else case ts of [] \<Rightarrow> Inr (False, h) | t # _ \<Rightarrow> Inr (True, h\<lparr>resp_transport := Some t\<rparr>))"
  "read_response_field tp ''Content-Type'' v h = Inr (True, h\<lparr>resp_content_type := Some v\<rparr>)"
  "read_response_field tp ''Scale'' v h = Inr (True, h\<lparr>resp_scale := lift_float to_float (atof v)\<rparr>)"
  "read_response_field tp ''Public'' v h = bindr (rtsp_public_header_read (Some v)) (\<lambda>m.
     Inr (True, h\<lparr>resp_public_methods := m\<rparr>))"
  "read_response_field tp ''Allow'' v h = bindr (rtsp_allow_header_read (Some v)) (\<lambda>m.
     Inr (True, h\<lparr>resp_allowed_methods := m\<rparr>))"
  "read_response_field tp ''RTP-Info'' v h = bindr (rtsp_rtp_info_header_read (Some v) 1) (\<lambda>(ret, rs).
     if ret < 0 then Inl (Err ret) else Inr (rs \<noteq> [], h\<lparr>resp_rtp_info := rs\<rparr>))"
  "read_response_field tp ''Server'' v h = Inr (True, h\<lparr>resp_server := Some v\<rparr>)"
  "read_response_field tp ''Range'' v h = bindr (rtsp_range_header_read tp (Some v)) (\<lambda>r.
     Inr (True, h\<lparr>resp_range := r\<rparr>))"
  "read_response_field tp ''Content-Length'' v h = Inr (True, h\<lparr>resp_content_length := atoi v\<rparr>)"
  "read_response_field tp ''Content-Encoding'' v h = Inr (True, h\<lparr>resp_content_encoding := Some v\<rparr>)"
  "read_response_field tp ''Content-Language'' v h = Inr (True, h\<lparr>resp_content_language := Some v\<rparr>)"
  "read_response_field tp ''Content-Base'' v h = Inr (True, h\<lparr>resp_content_base := Some v\<rparr>)"
  "read_response_field tp ''Content-Location'' v h = Inr (True, h\<lparr>resp_content_location := Some v\<rparr>)"
  by (simp_all add: read_response_field_def field_name_simps)

text \<open>
  The headers that can be read back, and what of them the peer reads. The writer has no code for the
  challenge (\<open>WWW-Authenticate\<close>), a negative CSeq, an empty text or a timeout without session id;
  the lists of methods name the eleven known ones, and the reader has room for one RTP-Info entry
  while the writer writes them all.
\<close>

definition wf_response :: "time_formatter \<Rightarrow> time_parser \<Rightarrow> rtsp_response_header \<Rightarrow> bool" where
  "wf_response tf tp h \<longleftrightarrow>
     - (2 ^ 31) \<le> resp_status_code h \<and> resp_status_code h < 2 ^ 31 \<and>
     resp_cseq h < 2 ^ 31 \<and> wf_date tf tp (resp_date h) \<and> clean_session (resp_session_id h) \<and>
     (\<forall>t. resp_transport h = Some t \<longrightarrow> wf_transport t) \<and>
     (\<forall>r \<in> set (resp_rtp_info h). wf_rtp_info r) \<and> wf_range_field tf tp (resp_range h) \<and>
     - (2 ^ 31) \<le> resp_content_length h \<and> resp_content_length h < 2 ^ 31 \<and> wf_ext (resp_ext h)"

definition response_sent :: "rtsp_response_header \<Rightarrow> rtsp_response_header" where
  "response_sent h =
     h\<lparr>resp_cseq := max 0 (resp_cseq h), resp_session_id := text_sent (resp_session_id h),
       resp_session_timeout := timeout_sent (resp_session_id h) (resp_session_timeout h),
       resp_authenticate := None,
       resp_content_type := text_sent (resp_content_type h), resp_scale := scale_sent (resp_scale h),
       resp_public_methods := resp_public_methods h AND 0x7FF,
       resp_allowed_methods := resp_allowed_methods h AND 0x7FF,
       resp_rtp_info := take 1 (resp_rtp_info h), resp_server := text_sent (resp_server h),
       resp_content_encoding := text_sent (resp_content_encoding h),
       resp_content_language := text_sent (resp_content_language h),
       resp_content_base := text_sent (resp_content_base h),
       resp_content_location := text_sent (resp_content_location h)\<rparr>"

text \<open>Everything is read back as it was when every field that is set is one that is written.\<close>

definition response_exact :: "rtsp_response_header \<Rightarrow> bool" where
  "response_exact h \<longleftrightarrow>
     0 \<le> resp_cseq h \<and> wf_session (resp_session_id h) (resp_session_timeout h) \<and>
     resp_authenticate h = None \<and> wf_text (resp_content_type h) \<and> wf_scale (resp_scale h) \<and>
     resp_public_methods h AND 0x7FF = resp_public_methods h \<and>
     resp_allowed_methods h AND 0x7FF = resp_allowed_methods h \<and> length (resp_rtp_info h) \<le> 1 \<and>
     wf_text (resp_server h) \<and> wf_text (resp_content_encoding h) \<and> wf_text (resp_content_language h) \<and>
     wf_text (resp_content_base h) \<and> wf_text (resp_content_location h)"

lemma response_sent_id: "response_exact h \<Longrightarrow> response_sent h = h"
  using session_sent_id [of "resp_session_id h" "resp_session_timeout h"]
  by (intro rtsp_response_header.equality) (auto simp: response_sent_def response_exact_def max_def)

lemma read_response_ext:
  "wf_ext ext \<Longrightarrow> read_fields (read_response_field tp) (ext_lines ext) h = Inr (h\<lparr>resp_ext := resp_ext h @ ext\<rparr>)"
proof -
  have f: "fold (\<lambda>e. resp_ext_update (\<lambda>x. x @ [e])) es g = g\<lparr>resp_ext := resp_ext g @ es\<rparr>" for es g
    by (induction es arbitrary: g) simp_all
  show "wf_ext ext \<Longrightarrow> ?thesis"
    by (subst read_fields_ext [where add = "\<lambda>e. resp_ext_update (\<lambda>x. x @ [e])"])
      (simp_all add: f read_response_field_def ext_key_other)
qed

abbreviation response_start :: "int \<Rightarrow> string option \<Rightarrow> rtsp_response_header" where
  "response_start status reason \<equiv>
     rtsp_response_header_clear\<lparr>resp_status_code := status, resp_status_string := reason\<rparr>"

definition response_half :: "rtsp_response_header \<Rightarrow> rtsp_response_header" where
  "response_half h =
     (response_start (resp_status_code h) (resp_status_string h))
       \<lparr>resp_cseq := max 0 (resp_cseq h), resp_date := resp_date h, resp_session_id := text_sent (resp_session_id h),
        resp_session_timeout := timeout_sent (resp_session_id h) (resp_session_timeout h), resp_transport := resp_transport h,
        resp_content_type := text_sent (resp_content_type h), resp_scale := scale_sent (resp_scale h),
        resp_public_methods := resp_public_methods h AND 0x7FF, resp_allowed_methods := resp_allowed_methods h AND 0x7FF,
        resp_rtp_info := take 1 (resp_rtp_info h)\<rparr>"

lemma read_methods_text:
  "rtsp_public_header_read (Some (methods_text m)) = Inr (m AND 0x7FF)"
  "rtsp_allow_header_read (Some (methods_text m)) = Inr (m AND 0x7FF)"
  by (simp_all add: rtsp_public_header_read_def rtsp_allow_header_read_def rtsp_methods_read_def methods_read_text)

lemma read_response_lines1:
  assumes "wf_response tf tp h"
  shows "read_fields (read_response_field tp) (response_lines1 tf h @ ps)
      (response_start (resp_status_code h) (resp_status_string h))
    = read_fields (read_response_field tp) ps (response_half h)"
proof -
  let ?rf = "read_response_field tp"
  have date: "resp_date h = 0 \<or> (\<exists>off. tp (date_text tf (resp_date h)) = Inr (resp_date h, off))"
    using assms by (auto simp: wf_response_def wf_date_def date_text_def word_gt_0)
  note sess = session_read_sent [of "resp_session_id h" "resp_session_timeout h"]
  have cs: "clean_session (resp_session_id h)" using assms by (simp add: wf_response_def)
  have trsp: "resp_transport h = None \<or> (\<exists>t. resp_transport h = Some t \<and>
      rtsp_transport_header_read (Some (transport_text [resp_transport h])) 1 = Inr (0, [t]))"
  proof (cases "resp_transport h")
    case (Some t)
    then have "wf_transport t" using assms by (simp add: wf_response_def)
    from transport_read_header [of "[t]" 1] this show ?thesis by (simp only: Some) simp
  qed simp
  have rtpi: "resp_rtp_info h = [] \<or>
      rtsp_rtp_info_header_read (Some (rtp_info_text (map Some (resp_rtp_info h)))) 1 = Inr (0, take 1 (resp_rtp_info h))"
    using assms rtp_info_read_take [of "resp_rtp_info h" 1] by (auto simp: wf_response_def)
  have wf: "resp_cseq h < 2 ^ 31" using assms by (simp add: wf_response_def)
  let ?h0 = "response_start (resp_status_code h) (resp_status_string h)"
  let ?h1 = "?h0\<lparr>resp_cseq := max 0 (resp_cseq h)\<rparr>"
  let ?h2 = "?h1\<lparr>resp_date := resp_date h\<rparr>"
  let ?h3 = "?h2\<lparr>resp_session_id := text_sent (resp_session_id h), resp_session_timeout := timeout_sent (resp_session_id h) (resp_session_timeout h)\<rparr>"
  let ?h4 = "?h3\<lparr>resp_transport := resp_transport h\<rparr>"
  let ?h5 = "?h4\<lparr>resp_content_type := text_sent (resp_content_type h)\<rparr>"
  let ?h6 = "?h5\<lparr>resp_scale := scale_sent (resp_scale h)\<rparr>"
  let ?h7 = "?h6\<lparr>resp_public_methods := resp_public_methods h AND 0x7FF\<rparr>"
  let ?h8 = "?h7\<lparr>resp_allowed_methods := resp_allowed_methods h AND 0x7FF\<rparr>"
  note z = rtsp_response_header_clear_def word_gt_0
  have 1: "read_fields ?rf (line_if (resp_cseq h \<ge> 0) ''CSeq'' (show_int (resp_cseq h)) @ ls) ?h0
      = read_fields ?rf ls ?h1" for ls
    using wf by (intro read_fields_line_if) (auto simp: read_response_names atoi_show_pos max_def z)
  have 2: "read_fields ?rf (line_if (resp_date h > 0) ''Date'' (date_text tf (resp_date h)) @ ls) ?h1
      = read_fields ?rf ls ?h2" for ls
    using date by (intro read_fields_line_if) (auto simp: read_response_names z)
  have 3: "read_fields ?rf (line_if (resp_session_id h \<noteq> None \<and> resp_session_id h \<noteq> Some []) ''Session''
       (session_text (the (resp_session_id h)) (resp_session_timeout h)) @ ls) ?h2 = read_fields ?rf ls ?h3" for ls
    using sess [OF cs] by (intro read_fields_line_if) (auto simp: read_response_names z)
  have 4: "read_fields ?rf (line_if (resp_transport h \<noteq> None) ''Transport''
       (transport_text [resp_transport h]) @ ls) ?h3 = read_fields ?rf ls ?h4" for ls
    using trsp by (intro read_fields_line_if) (auto simp: read_response_names z)
  have 5: "read_fields ?rf (text_line ''Content-Type'' (resp_content_type h) @ ls) ?h4 = read_fields ?rf ls ?h5" for ls
    by (intro read_fields_text_line) (simp_all add: read_response_names z)
  have 6: "read_fields ?rf (line_if (resp_scale h \<noteq> Fin 0) ''Scale'' (fixed2 (resp_scale h)) @ ls) ?h5
      = read_fields ?rf ls ?h6" for ls
    by (intro read_fields_line_if) (simp_all add: read_response_names scale_sent_def z)
  have 7: "read_fields ?rf (line_if (resp_public_methods h > 0) ''Public'' (methods_text (resp_public_methods h)) @ ls) ?h6
      = read_fields ?rf ls ?h7" for ls
    by (intro read_fields_line_if) (auto simp: read_response_names read_methods_text z)
  have 8: "read_fields ?rf (line_if (resp_allowed_methods h > 0) ''Allow'' (methods_text (resp_allowed_methods h)) @ ls) ?h7
      = read_fields ?rf ls ?h8" for ls
    by (intro read_fields_line_if) (auto simp: read_response_names read_methods_text z)
  have 9: "read_fields ?rf (line_if (resp_rtp_info h \<noteq> []) ''RTP-Info''
       (rtp_info_text (map Some (resp_rtp_info h))) @ ls) ?h8 = read_fields ?rf ls (response_half h)" for ls
    using rtpi by (intro read_fields_line_if) (auto simp: read_response_names response_half_def z)
  show ?thesis by (simp only: response_lines1_def append_assoc 1 2 3 4 5 6 7 8 9)
qed

lemma read_response_lines2:
  assumes "wf_response tf tp h"
  shows "read_fields (read_response_field tp) (response_lines2 tf h) (response_half h) = Inr (response_sent h)"
proof -
  let ?rf = "read_response_field tp"
  have wf: "wf_ext (resp_ext h)" using assms by (simp add: wf_response_def)
  have rng: "resp_range h = range_zero \<or>
      time_fmt (range_start (resp_range h)) = RTSP_TIME_FORMAT_NPT \<and>
      rtsp_range_header_read tp (Some (range_line tf (resp_range h))) = Inr (resp_range h)"
    using assms range_read_text [of "resp_range h" "tf TIME_FMT_ISO8601_SHORT" tp]
    by (auto simp: wf_response_def wf_range_field_def range_line_def wf_range_def npt_time_def)
  have zero: "time_fmt (range_start range_zero) = RTSP_TIME_FORMAT_UNKNOWN"
    by (simp add: range_zero_def time_zero_def)
  let ?g1 = "(response_half h)\<lparr>resp_server := text_sent (resp_server h)\<rparr>"
  let ?g2 = "?g1\<lparr>resp_range := resp_range h\<rparr>"
  let ?g3 = "?g2\<lparr>resp_content_length := resp_content_length h\<rparr>"
  let ?g4 = "?g3\<lparr>resp_content_encoding := text_sent (resp_content_encoding h)\<rparr>"
  let ?g5 = "?g4\<lparr>resp_content_language := text_sent (resp_content_language h)\<rparr>"
  let ?g6 = "?g5\<lparr>resp_content_base := text_sent (resp_content_base h)\<rparr>"
  let ?g7 = "?g6\<lparr>resp_content_location := text_sent (resp_content_location h)\<rparr>"
  note z = rtsp_response_header_clear_def response_half_def
  have 1: "read_fields ?rf (text_line ''Server'' (resp_server h) @ ls) (response_half h) = read_fields ?rf ls ?g1" for ls
    by (intro read_fields_text_line) (simp_all add: read_response_names z)
  have 2: "read_fields ?rf (line_if (time_fmt (range_start (resp_range h)) \<noteq> RTSP_TIME_FORMAT_UNKNOWN) ''Range''
       (range_line tf (resp_range h)) @ ls) ?g1 = read_fields ?rf ls ?g2" for ls
    using rng zero by (intro read_fields_line_if) (auto simp: read_response_names z)
  have 3: "read_fields ?rf (line_if True ''Content-Length'' (show_int (resp_content_length h)) @ ls) ?g2
      = read_fields ?rf ls ?g3" for ls
    using assms atoi_show_int [of "[]" "resp_content_length h"]
    by (intro read_fields_line_if) (simp_all add: read_response_names wf_response_def)
  have 4: "read_fields ?rf (text_line ''Content-Encoding'' (resp_content_encoding h) @ ls) ?g3 = read_fields ?rf ls ?g4" for ls
    by (intro read_fields_text_line) (simp_all add: read_response_names z)
  have 5: "read_fields ?rf (text_line ''Content-Language'' (resp_content_language h) @ ls) ?g4 = read_fields ?rf ls ?g5" for ls
    by (intro read_fields_text_line) (simp_all add: read_response_names z)
  have 6: "read_fields ?rf (text_line ''Content-Base'' (resp_content_base h) @ ls) ?g5 = read_fields ?rf ls ?g6" for ls
    by (intro read_fields_text_line) (simp_all add: read_response_names z)
  have 7: "read_fields ?rf (text_line ''Content-Location'' (resp_content_location h) @ ls) ?g6 = read_fields ?rf ls ?g7" for ls
    by (intro read_fields_text_line) (simp_all add: read_response_names z)
  show ?thesis
    by (simp only: response_lines2_def append_assoc 1 2 3 4 5 6 7 read_response_ext [OF wf])
      (simp add: z response_sent_def)
qed

lemma show_int_token: "show_int i \<noteq> []" "set (show_int i) \<inter> {CHR '' ''} = {}"
  using show_nat_digits [of "CHR '' ''" "nat i"] show_nat_digits [of "CHR '' ''" "nat (- i)"]
  by (auto simp: is_digit_def show_int_def)

lemma read_status_line_text:
  assumes "- (2 ^ 31) \<le> resp_status_code h" "resp_status_code h < 2 ^ 31"
    "resp_status_string h = Some reason" "reason \<noteq> []" "is_line (response_line h)"
  shows "read_status_line (response_line h) = Inr (resp_status_code h, reason)"
proof -
  have line: "response_line h =
      ''RTSP/1.0'' @ CHR '' '' # (show_int (resp_status_code h) @ CHR '' '' # reason)"
    by (simp add: response_line_def assms(3))
  then have "set reason \<inter> {CR, LF} = {}" using assms(5) by (auto simp: is_line_def)
  then have "strtok_r {CR, LF} reason = (Some reason, [])" using assms(4) by (rule_tac strtok_r_last)
  moreover have "strtok_r {CHR '' ''} (''RTSP/1.0'' @ CHR '' '' # s) = (Some ''RTSP/1.0'', s)" for s
    by (rule strtok_r_token) simp_all
  moreover have "strtok_r {CHR '' ''} (show_int i @ CHR '' '' # s) = (Some (show_int i), s)" for i s
    by (rule strtok_r_token [OF show_int_token]) simp
  ultimately show ?thesis
    using assms(1,2) atoi_show_int [of "[]" "resp_status_code h"]
    unfolding line read_status_line_def by (simp del: append.simps)
qed

lemma response_read_text:
  assumes "wf_response tf tp h" "resp_status_string h \<noteq> None" "resp_status_string h \<noteq> Some []"
    "\<forall>l \<in> set (all_response_lines tf h). is_line l"
  shows "rtsp_response_header_read tp (response_text tf h @ body) = Inr (response_sent h, length (response_text tf h))"
    "find_double_newline (response_text tf h @ body) = Some (length (response_text tf h) - 4, 4)"
    "length (response_text tf h) \<ge> 4"
proof -
  let ?ls = "all_response_lines tf h"
  have ls: "?ls = response_line h # response_lines1 tf h @ response_lines2 tf h"
    by (simp add: all_response_lines_def)
  have len: "length (crlf_lines ?ls) \<ge> 2" by (simp add: crlf_lines_def ls)
  then show "length (response_text tf h) \<ge> 4" by (simp add: response_text_def)
  have f: "find_double_newline (response_text tf h @ body) = Some (length (crlf_lines ?ls) - 2, 4)"
    using find_end_of_lines [OF assms(4), of body] by (simp add: response_text_def ls)
  with len show "find_double_newline (response_text tf h @ body) = Some (length (response_text tf h) - 4, 4)"
    by (simp add: response_text_def)
  obtain reason where reason: "resp_status_string h = Some reason" "reason \<noteq> []"
    using assms(2,3) by auto
  have "- (2 ^ 31) \<le> resp_status_code h" "resp_status_code h < 2 ^ 31" "is_line (response_line h)"
    using assms(1,4) by (simp_all add: wf_response_def ls)
  from read_status_line_text [OF this(1,2) reason this(3)]
  have st: "read_status_line (response_line h) = Inr (resp_status_code h, reason)" .
  have lines: "read_fields (read_response_field tp) (response_lines1 tf h @ response_lines2 tf h)
      (response_start (resp_status_code h) (Some reason)) = Inr (response_sent h)"
    using read_response_lines1 [OF assms(1)] read_response_lines2 [OF assms(1)] reason by simp
  from strtok_first_line [of "response_line h" "response_lines1 tf h @ response_lines2 tf h" "CRLF @ body"]
  obtain temp where
    "strtok_r {CR, LF} (take (length (crlf_lines ?ls) - 2) (response_text tf h @ body)) = (Some (response_line h), temp)"
    "strtok_all {CR, LF} temp = response_lines1 tf h @ response_lines2 tf h"
    using assms(4) by (auto simp: response_text_def ls)
  then show "rtsp_response_header_read tp (response_text tf h @ body) = Inr (response_sent h, length (response_text tf h))"
    using st lines f len by (simp add: rtsp_response_header_read_def) (simp add: response_text_def)
qed

text \<open>
  C11: What the peer reads of a response header that was written, and the offset of what follows it.
  The status, the CSeq and the Content-Length fit an \<open>int\<close>, a date is one that the formatter and the
  parser of the time library agree on, a session id has no semicolon, a transport has at most one
  interleaved pair and no separators in its texts, the urls of the RTP-Info have neither comma nor
  semicolon, the range is empty or an NPT range within bounds, the extension fields have names with
  \<open>X-\<close> and without colon, and no line holds a line terminator. All other fields are arbitrary: of
  those that are not written, or not read, the peer has the initial value, in particular no
  challenge and only the first of the RTP-Info entries (\<open>response_sent\<close>).
\<close>

theorem response_roundtrip:
  assumes "rtsp_response_header_write tf h \<lparr>rs_str = [], rs_max_len = n\<rparr> = Inr s'" "0 < n"
    and "wf_response tf tp h" "\<forall>l \<in> set (all_response_lines tf h). is_line l"
  shows "rtsp_response_header_read tp (rs_str s' @ body) = Inr (response_sent h, length (rs_str s'))"
proof -
  have ok: "rs_ok \<lparr>rs_str = [], rs_max_len = n\<rparr>" using assms(2) by (simp add: rs_ok_def)
  have "response_writable tf h" using response.write_cases [OF ok] assms(1) by simp
  then have "resp_status_string h \<noteq> None" "resp_status_string h \<noteq> Some []" by (simp_all add: response_writable_def)
  with response_read_text(1) [OF assms(3) _ _ assms(4)] response.write_success(1) [OF ok assms(1)]
  show ?thesis by simp
qed

definition example_response :: rtsp_response_header where
  "example_response = rtsp_response_header_clear
     \<lparr>resp_status_code := 200, resp_status_string := Some ''OK'', resp_cseq := 7,
      resp_session_id := Some ''AB'', resp_session_timeout := 60, resp_public_methods := 5,
      resp_content_length := 4, resp_content_base := Some ''rtsp://h/''\<rparr>"

lemma example_response_lines:
  "all_response_lines tf example_response =
     [''RTSP/1.0 200 OK'', ''CSeq: 7'', ''Session: AB;timeout=60'', ''Public: OPTIONS,ANNOUNCE'',
      ''Content-Length: 4'', ''Content-Base: rtsp://h/'']"
  by (simp add: all_response_lines_def response_lines1_def response_lines2_def response_line_def
        example_response_def rtsp_response_header_clear_def line_if_def text_line_def ext_lines_def
        session_text_def methods_text_def method_names_def method_flags_def show_int_def
        show_nat.simps digit_char_def char_of_def bit_simps range_zero_def time_zero_def)

lemma wf_example_response: "wf_response tf tp example_response"
  by (simp add: wf_response_def example_response_def rtsp_response_header_clear_def wf_date_def
      clean_session_def wf_range_field_def wf_ext_def)

lemma example_response_sent: "response_sent example_response = example_response"
proof -
  have "wf_scale (Fin 0)" by (auto simp: wf_scale_def intro!: exI [of _ 0])
  then show ?thesis
    by (intro response_sent_id) (simp add: response_exact_def example_response_def
        rtsp_response_header_clear_def wf_session_def wf_text_def)
qed

text \<open>The answer to a PLAY of two medias, of which the peer reads one; a challenge is not even written.\<close>

definition example_play_response :: rtsp_response_header where
  "example_play_response = example_response
     \<lparr>resp_authenticate := Some rtsp_authorization_header_new,
      resp_rtp_info := [rtsp_rtp_info_header_new\<lparr>rtpi_url := Some ''video'', rtpi_seq_valid := True, rtpi_seq := 3\<rparr>,
        rtsp_rtp_info_header_new\<lparr>rtpi_url := Some ''audio''\<rparr>]\<rparr>"

lemma example_play_lines:
  "all_response_lines tf example_play_response =
     [''RTSP/1.0 200 OK'', ''CSeq: 7'', ''Session: AB;timeout=60'', ''Public: OPTIONS,ANNOUNCE'',
      ''RTP-Info: url=video;seq=3,url=audio'', ''Content-Length: 4'', ''Content-Base: rtsp://h/'']"
  by (simp add: all_response_lines_def response_lines1_def response_lines2_def response_line_def
        example_play_response_def example_response_def rtsp_response_header_clear_def line_if_def text_line_def
        ext_lines_def session_text_def methods_text_def method_names_def method_flags_def show_int_def
        show_nat.simps digit_char_def char_of_def bit_simps range_zero_def time_zero_def rtp_info_fields_def
        rtp_info_skipped_def rtsp_rtp_info_header_new_def)

lemma response_roundtrip_witness:
  "rtsp_response_header_read (\<lambda>_. Inl UB)
    (''RTSP/1.0 200 OK'' @ CRLF @ ''CSeq: 7'' @ CRLF @ ''Session: AB;timeout=60'' @ CRLF @
     ''Public: OPTIONS,ANNOUNCE'' @ CRLF @ ''RTP-Info: url=video;seq=3,url=audio'' @ CRLF @
     ''Content-Length: 4'' @ CRLF @ ''Content-Base: rtsp://h/'' @ CRLF @ CRLF @ ''body'') =
   Inr (example_response\<lparr>resp_rtp_info :=
     [rtsp_rtp_info_header_new\<lparr>rtpi_url := Some ''video'', rtpi_seq_valid := True, rtpi_seq := 3\<rparr>]\<rparr>, 159)"
proof -
  let ?tf = "\<lambda>_ _. Inl UB" and ?tp = "\<lambda>_. Inl UB"
  have rendered: "response_text ?tf example_play_response = ''RTSP/1.0 200 OK'' @ CRLF @ ''CSeq: 7'' @ CRLF @
     ''Session: AB;timeout=60'' @ CRLF @ ''Public: OPTIONS,ANNOUNCE'' @ CRLF @
     ''RTP-Info: url=video;seq=3,url=audio'' @ CRLF @ ''Content-Length: 4'' @ CRLF @
     ''Content-Base: rtsp://h/'' @ CRLF @ CRLF"
    by (simp add: response_text_def example_play_lines crlf_lines_def)
  have "response_writable ?tf example_play_response"
    by (simp add: response_writable_def example_play_response_def example_response_def
        rtsp_response_header_clear_def range_zero_def time_zero_def)
  from response.write_fits [OF this, of "\<lparr>rs_str = [], rs_max_len = 1000\<rparr>"]
  have "rtsp_response_header_write ?tf example_play_response \<lparr>rs_str = [], rs_max_len = 1000\<rparr> =
      Inr \<lparr>rs_str = response_text ?tf example_play_response, rs_max_len = 1000\<rparr>" by (simp add: rendered)
  moreover have "\<forall>l \<in> set (all_response_lines ?tf example_play_response). is_line l"
    by (simp add: example_play_lines is_line_def)
  moreover have "wf_response ?tf ?tp example_play_response"
    using wf_example_response [of ?tf ?tp]
    by (simp add: wf_response_def example_play_response_def wf_rtp_info_def rtsp_rtp_info_header_new_def)
  moreover have "response_sent example_play_response = example_response\<lparr>resp_rtp_info :=
     [rtsp_rtp_info_header_new\<lparr>rtpi_url := Some ''video'', rtpi_seq_valid := True, rtpi_seq := 3\<rparr>]\<rparr>"
    using example_response_sent
    by (simp add: response_sent_def example_play_response_def example_response_def rtsp_response_header_clear_def)
  ultimately show ?thesis
    using response_roundtrip [of ?tf example_play_response 1000 _ ?tp "''body''"]
    by (simp add: rendered)
qed

section \<open>Copying\<close>

lemma rtp_info_copy_new: "rtsp_rtp_info_header_copy r rtsp_rtp_info_header_new = r"
  by (rule rtsp_rtp_info_header.equality)
    (simp_all add: rtsp_rtp_info_header_copy_def rtsp_rtp_info_header_new_def)

lemma response_copy_clear: "rtsp_response_header_copy h rtsp_response_header_clear = h"
  by (rule rtsp_response_header.equality)
    (simp_all add: rtsp_response_header_copy_def rtsp_response_header_copy_ext_def
      rtsp_response_header_clear_def transport_copy_new authorization_copy_id rtp_info_copy_new
      option.map_ident_strong split: option.split)

end
