(* ===== verification/RtspMessage.thy ===== *)
theory RtspMessage
  imports RtspResponse
begin

text \<open>
  Message framing of \<open>src/rtsp.c\<close>: the parser context, interleaved packets, the extraction of the
  next message from the reception buffer and the loop over complete messages of the two receive
  callbacks (\<open>rtsp_server_pomp_cb\<close>, \<open>tskt_client_data_cb\<close>).

  A pointer into the reception buffer is the suffix of the buffer that it points to; the length
  that comes with it is a separate field, so that a length beyond the buffer stays visible.
  The tokenizers write NUL bytes into the header they parse. The model performs the writes over the
  double newline; the other ones lie before it and are only read again if fewer bytes than the
  header are consumed, which takes a negative Content-Length.
\<close>

section \<open>Data\<close>

datatype rtsp_message_type =
    RTSP_MESSAGE_TYPE_UNKNOWN
  | RTSP_MESSAGE_TYPE_REQUEST
  | RTSP_MESSAGE_TYPE_RESPONSE
  | RTSP_MESSAGE_TYPE_INTERLEAVED

record rtsp_interleaved_info =
  ilv_channel :: "8 word"
  ilv_data :: "string option"
  ilv_len :: "16 word"

text \<open>The union of the two headers; the type of the message says which one is valid.\<close>

datatype rtsp_header =
    NoHeader
  | ReqHeader (req_header: rtsp_request_header)
  | RespHeader (resp_header: rtsp_response_header)

record rtsp_message =
  msg_type :: rtsp_message_type
  msg_total_len :: "64 word"
  msg_header :: rtsp_header
  msg_body :: "string option"
  msg_body_len :: "64 word"
  msg_interleaved :: rtsp_interleaved_info

record rtsp_message_parser_ctx =
  ctx_msg :: rtsp_message
  ctx_header_len :: "64 word"

definition RTSP_SESSION_DESCRIPTION_MAX_LEN :: nat where "RTSP_SESSION_DESCRIPTION_MAX_LEN = 65535"

definition rtsp_message_clear :: rtsp_message where
  "rtsp_message_clear =
     \<lparr>msg_type = RTSP_MESSAGE_TYPE_UNKNOWN, msg_total_len = 0, msg_header = NoHeader,
      msg_body = None, msg_body_len = 0,
      msg_interleaved = \<lparr>ilv_channel = 0, ilv_data = None, ilv_len = 0\<rparr>\<rparr>"

definition parser_ctx_init :: rtsp_message_parser_ctx where
  "parser_ctx_init = \<lparr>ctx_msg = rtsp_message_clear, ctx_header_len = 0\<rparr>"

section \<open>Buffer\<close>

text \<open>
  \<open>rem\<close> is the signed difference of the lengths; a copy from outside the buffer is undefined.
\<close>

definition rtsp_buffer_remove_first_bytes :: "string \<Rightarrow> 64 word \<Rightarrow> string result" where
  "rtsp_buffer_remove_first_bytes data count =
     (if count = 0 then Inr data
      else
        let rem = sint (of_nat (length data) - count) in
        if rem \<le> 0 then Inr []
        else if unat count + nat rem \<le> length data then Inr (take (nat rem) (drop (unat count) data))
        else Inl UB)"

section \<open>Interleaved packets\<close>

text \<open>The buffer is a string; its bytes as numbers.\<close>

definition byte_of :: "char \<Rightarrow> 8 word" where "byte_of c = word_of_nat (code c)"
definition char_of_byte :: "8 word \<Rightarrow> char" where "char_of_byte b = char_of (unat b)"

definition rtsp_parse_interleaved :: "string \<Rightarrow> rtsp_message \<Rightarrow> rtsp_message result" where
  "rtsp_parse_interleaved raw_data msg =
     (case raw_data of
        c0 # c1 # c2 # c3 # payload \<Rightarrow>
          if code c0 \<noteq> 0x24 then Inl (Err (- EINVAL))
          else
            let pkt_len = (word_cat (byte_of c2) (byte_of c3) :: 16 word) in
            if length raw_data < 4 + unat pkt_len then Inl (Err (- EAGAIN))
            else Inr (msg\<lparr>msg_type := RTSP_MESSAGE_TYPE_INTERLEAVED,
                          msg_interleaved :=
                            \<lparr>ilv_channel = byte_of c1, ilv_data = Some payload, ilv_len = pkt_len\<rparr>,
                          msg_total_len := 4 + ucast pkt_len\<rparr>)
      | _ \<Rightarrow> Inl (Err (- EINVAL)))"

text \<open>Reading beyond the payload is undefined.\<close>

definition rtsp_build_interleaved :: "rtsp_interleaved_info option \<Rightarrow> string result" where
  "rtsp_build_interleaved info =
     (case info of
        None \<Rightarrow> Inl (Err (- EINVAL))
      | Some i \<Rightarrow>
          (case ilv_data i of
             None \<Rightarrow> Inl (Err (- EINVAL))
           | Some payload \<Rightarrow>
               if ilv_len i = 0 then Inl (Err (- EINVAL))
               else if ilv_len i > 0xFFFF - 4 then Inl (Err (- EINVAL))
               else if length payload < unat (ilv_len i) then Inl UB
               else
                 Inr ([CHR ''$'', char_of_byte (ilv_channel i),
                       char_of_byte (ucast (drop_bit 8 (ilv_len i))), char_of_byte (ucast (ilv_len i))] @
                      take (unat (ilv_len i)) payload)))"

section \<open>The next message\<close>

text \<open>
  The header found in the buffer is parsed into the context. The result holds the return value, the
  number of bytes to skip, the buffer with the double newline overwritten, and the context.
\<close>

definition read_header ::
  "time_parser \<Rightarrow> string \<Rightarrow> (rtsp_message_type \<times> rtsp_header \<times> int) result" where
  "read_header time_parse raw =
     (if length raw \<ge> 8 \<and> take 8 raw = ''RTSP/1.0'' then
        bindr (rtsp_response_header_read time_parse raw) (\<lambda>(resp, _).
          Inr (RTSP_MESSAGE_TYPE_RESPONSE, RespHeader resp, resp_content_length resp))
      else
        bindr (rtsp_request_header_read time_parse raw) (\<lambda>(req, _).
          Inr (RTSP_MESSAGE_TYPE_REQUEST, ReqHeader req, req_content_length req)))"

definition wipe :: "string \<Rightarrow> nat \<Rightarrow> nat \<Rightarrow> string" where
  "wipe data p n = take p data @ replicate n NUL @ drop (p + n) data"

definition start_message ::
  "time_parser \<Rightarrow> string \<Rightarrow> rtsp_message_parser_ctx \<Rightarrow>
   (int \<times> 64 word \<times> string \<times> rtsp_message_parser_ctx) result" where
  "start_message time_parse data ctx =
     (if msg_type (ctx_msg ctx) \<noteq> RTSP_MESSAGE_TYPE_UNKNOWN then Inr (0, 0, data, ctx)
      else
        (case find_double_newline data of
           None \<Rightarrow> Inr (- EAGAIN, 0, data, ctx)
         | Some (p, nl_len) \<Rightarrow>
             let header_len = of_nat (p + nl_len); data' = wipe data p nl_len in
             (case read_header time_parse (take (p + nl_len) data) of
                Inl UB \<Rightarrow> Inl UB
              | Inl (Err ret) \<Rightarrow>
                  Inr (ret, header_len, data', \<lparr>ctx_msg = rtsp_message_clear, ctx_header_len = header_len\<rparr>)
              | Inr (ty, header, content_length) \<Rightarrow>
                  Inr (0, 0, data',
                    \<lparr>ctx_msg = (ctx_msg ctx)\<lparr>msg_type := ty, msg_header := header,
                                            msg_body_len := word_of_int content_length\<rparr>,
                     ctx_header_len = header_len\<rparr>))))"

definition copy_header :: "rtsp_header \<Rightarrow> rtsp_header" where
  "copy_header header =
     (case header of
        NoHeader \<Rightarrow> NoHeader
      | ReqHeader req \<Rightarrow> ReqHeader (rtsp_request_header_copy req rtsp_request_header_clear)
      | RespHeader resp \<Rightarrow> RespHeader (rtsp_response_header_copy resp rtsp_response_header_clear))"

definition finish_message ::
  "string \<Rightarrow> rtsp_message_parser_ctx \<Rightarrow> int \<times> rtsp_message \<times> rtsp_message_parser_ctx" where
  "finish_message data ctx0 =
     (let ctx = ctx0\<lparr>ctx_msg := (ctx_msg ctx0)\<lparr>msg_total_len := msg_body_len (ctx_msg ctx0) + ctx_header_len ctx0\<rparr>\<rparr> in
      if of_nat (length data) < msg_total_len (ctx_msg ctx) then (- EAGAIN, rtsp_message_clear, ctx)
      else
        (0, rtsp_message_clear
              \<lparr>msg_header := copy_header (msg_header (ctx_msg ctx)),
               msg_type := msg_type (ctx_msg ctx),
               msg_body := Some (drop (unat (ctx_header_len ctx)) data),
               msg_body_len := msg_body_len (ctx_msg ctx),
               msg_total_len := msg_total_len (ctx_msg ctx)\<rparr>,
         ctx\<lparr>ctx_msg := rtsp_message_clear\<rparr>))"

definition rtsp_get_next_message ::
  "time_parser \<Rightarrow> string \<Rightarrow> rtsp_message_parser_ctx \<Rightarrow>
   (int \<times> rtsp_message \<times> string \<times> rtsp_message_parser_ctx) result" where
  "rtsp_get_next_message time_parse data ctx =
     (case rtsp_parse_interleaved data rtsp_message_clear of
        Inr msg \<Rightarrow> Inr (0, msg, data, ctx)
      | Inl UB \<Rightarrow> Inl UB
      | Inl (Err ret) \<Rightarrow>
          if ret \<noteq> - EINVAL then Inr (ret, rtsp_message_clear, data, ctx)
          else
            bindr (start_message time_parse data ctx) (\<lambda>(ret, skip, data, ctx).
            if ret \<noteq> 0 then Inr (ret, rtsp_message_clear\<lparr>msg_total_len := skip\<rparr>, data, ctx)
            else
              case finish_message data ctx of
                (ret, msg, ctx) \<Rightarrow> Inr (ret, msg, data, ctx)))"

section \<open>The loop over complete messages\<close>

lemma strnstr_found:
  assumes "rtsp_strnstr s (c # needle) = Some i"
  shows "i + Suc (length needle) \<le> length s \<and> take (Suc (length needle)) (drop i s) = c # needle"
proof -
  have "strnstr_loop c needle s 0 = Some i" using assms by (simp add: rtsp_strnstr_def split: if_splits)
  from strnstr_loop_found [OF this] show ?thesis by auto
qed

lemma find_double_newline_found:
  assumes "find_double_newline s = Some (p, n)"
  shows "p + n \<le> length s" "n \<noteq> 0" "NUL \<notin> set (take n (drop p s))"
proof -
  have *: "(rtsp_strnstr s [CR, LF, CR, LF] = Some p \<and> n = 4) \<or> (rtsp_strnstr s [LF, CR, LF, CR] = Some p \<and> n = 4) \<or>
    (rtsp_strnstr s [LF, LF] = Some p \<and> n = 2) \<or> (rtsp_strnstr s [CR, CR] = Some p \<and> n = 2)"
    using assms by (auto simp: find_double_newline_def split: option.splits)
  have "p + n \<le> length s \<and> n \<noteq> 0 \<and> NUL \<notin> set (take n (drop p s))"
    by (insert *, elim disjE conjE) (drule strnstr_found, simp add: numeral_eq_Suc)+
  then show "p + n \<le> length s" "n \<noteq> 0" "NUL \<notin> set (take n (drop p s))" by auto
qed

definition text_bytes :: "string \<Rightarrow> nat" where
  "text_bytes s = length (filter (\<lambda>c. c \<noteq> NUL) s)"

lemma text_bytes_append [simp]: "text_bytes (a @ b) = text_bytes a + text_bytes b"
  by (simp add: text_bytes_def)

lemma text_bytes_take_drop: "text_bytes (take n s) \<le> text_bytes s" "text_bytes (drop n s) \<le> text_bytes s"
  using text_bytes_append [of "take n s" "drop n s"] by simp_all

lemma text_bytes_full: "NUL \<notin> set s \<Longrightarrow> text_bytes s = length s"
proof -
  assume "NUL \<notin> set s"
  then have "filter (\<lambda>c. c \<noteq> NUL) s = s" by (intro filter_True) auto
  then show ?thesis by (simp add: text_bytes_def)
qed

lemma length_wipe: "p + n \<le> length s \<Longrightarrow> length (wipe s p n) = length s"
  by (simp add: wipe_def)

lemma text_bytes_wipe:
  assumes "p + n \<le> length s" "NUL \<notin> set (take n (drop p s))"
  shows "text_bytes (wipe s p n) + n = text_bytes s"
proof -
  have "s = take p s @ take n (drop p s) @ drop (p + n) s"
    by (metis append_take_drop_id drop_drop add.commute)
  then have "text_bytes s = text_bytes (take p s) + text_bytes (take n (drop p s)) + text_bytes (drop (p + n) s)"
    by (metis text_bytes_append add.assoc)
  then show ?thesis
    using text_bytes_full [OF assms(2)] assms(1) by (simp add: wipe_def text_bytes_def)
qed

lemma remove_first_bytes_shrinks:
  assumes "rtsp_buffer_remove_first_bytes data count = Inr data'"
  shows "length data' \<le> length data" "text_bytes data' \<le> text_bytes data"
proof -
  have "data' = data \<or> data' = [] \<or> (\<exists>m k. data' = take m (drop k data))"
    using assms by (auto simp: rtsp_buffer_remove_first_bytes_def Let_def split: if_splits)
  moreover have "text_bytes (take m (drop k data)) \<le> text_bytes data" for m k
    using text_bytes_take_drop le_trans by blast
  ultimately show "length data' \<le> length data" "text_bytes data' \<le> text_bytes data"
    by (auto simp: text_bytes_def)
qed

lemma remove_first_bytes_drop:
  assumes "unat count \<le> length data" "length data < 2 ^ 63"
  shows "rtsp_buffer_remove_first_bytes data count = Inr (drop (unat count) data)"
proof -
  have b: "int (unat count) \<le> int (length data)" "0 \<le> int (unat count)" "int (length data) < 2 ^ 63"
    using assms by (simp_all only: of_nat_le_iff of_nat_less_numeral_power_cancel_iff)
  have "of_nat (length data) - count = word_of_int (int (length data) - int (unat count))" by simp
  then have "sint (of_nat (length data) - count) = int (length data) - int (unat count)"
    by (simp only:) (rule sint_word_of_int; insert b; linarith)
  also have "\<dots> = int (length data - unat count)" using assms(1) by (subst of_nat_diff) simp_all
  finally have "sint (of_nat (length data) - count) = int (length data - unat count)" .
  then show ?thesis
    using assms by (auto simp only: rtsp_buffer_remove_first_bytes_def Let_def nat_int of_nat_le_0_iff
        le_add_diff_inverse order.refl if_True) (simp_all add: drop_all)
qed

text \<open>
  Bytes in the buffer, bytes in it that are not yet overwritten, and a pending header: every
  message returned by the parser uses up one of them.
\<close>

definition loop_measure :: "string \<Rightarrow> rtsp_message_parser_ctx \<Rightarrow> nat" where
  "loop_measure data ctx =
     length data + text_bytes data + (if msg_type (ctx_msg ctx) = RTSP_MESSAGE_TYPE_UNKNOWN then 0 else 1)"

lemma parse_interleaved_total_len:
  assumes "rtsp_parse_interleaved data m = Inr msg"
  shows "0 < unat (msg_total_len msg)" "unat (msg_total_len msg) \<le> length data"
    "msg_type msg = RTSP_MESSAGE_TYPE_INTERLEAVED"
proof -
  obtain l :: "16 word" where l: "msg_total_len msg = 4 + ucast l" "4 + unat l \<le> length data"
    and t: "msg_type msg = RTSP_MESSAGE_TYPE_INTERLEAVED"
    using assms by (auto simp: rtsp_parse_interleaved_def Let_def split: list.splits if_splits)
  have "unat (4 + ucast l :: 64 word) = 4 + unat l"
    using unsigned_less [where 'a = nat and w = l] by (subst unat_add_lem [THEN iffD1]) (simp_all add: unsigned_ucast_eq take_bit_nat_eq_self)
  with l t show "0 < unat (msg_total_len msg)" "unat (msg_total_len msg) \<le> length data"
    "msg_type msg = RTSP_MESSAGE_TYPE_INTERLEAVED" by simp_all
qed


lemma parse_interleaved_error:
  "rtsp_parse_interleaved data m = Inl e \<Longrightarrow> e = Err (- EINVAL) \<or> e = Err (- EAGAIN)"
  by (auto simp: rtsp_parse_interleaved_def Let_def split: list.splits if_splits)

lemma start_message_shrinks:
  assumes "start_message tp data ctx = Inr (0, skip, data', ctx')"
  shows "length data' = length data"
    "text_bytes data' + (if msg_type (ctx_msg ctx) = RTSP_MESSAGE_TYPE_UNKNOWN then 1 else 0) \<le> text_bytes data"
proof -
  have "length data' = length data \<and>
    text_bytes data' + (if msg_type (ctx_msg ctx) = RTSP_MESSAGE_TYPE_UNKNOWN then 1 else 0) \<le> text_bytes data"
  proof (cases "msg_type (ctx_msg ctx) = RTSP_MESSAGE_TYPE_UNKNOWN")
    case True
    then obtain p n where pn: "find_double_newline data = Some (p, n)" "data' = wipe data p n"
      using assms by (auto simp: start_message_def Let_def split: option.splits sum.splits failure.splits)
    from find_double_newline_found [OF pn(1)] show ?thesis
      using True text_bytes_wipe [of p n data] length_wipe [of p n data] pn(2) by auto
  next
    case False
    then show ?thesis using assms by (simp add: start_message_def)
  qed
  then show "length data' = length data"
    "text_bytes data' + (if msg_type (ctx_msg ctx) = RTSP_MESSAGE_TYPE_UNKNOWN then 1 else 0) \<le> text_bytes data"
    by auto
qed

lemma get_next_message_progress:
  assumes "rtsp_get_next_message tp data ctx = Inr (0, msg, data', ctx')"
    and "rtsp_buffer_remove_first_bytes data' (msg_total_len msg) = Inr data''"
  shows "loop_measure data'' ctx' < loop_measure data ctx"
proof (cases "rtsp_parse_interleaved data rtsp_message_clear")
  case (Inr m)
  then have eq: "msg = m" "data' = data" "ctx' = ctx"
    using assms(1) by (auto simp: rtsp_get_next_message_def)
  note len = parse_interleaved_total_len [OF Inr]
  have "length data'' < length data"
    using assms(2) len by (auto simp: eq rtsp_buffer_remove_first_bytes_def Let_def split: if_splits)
  then show ?thesis using remove_first_bytes_shrinks [OF assms(2)] by (simp add: eq loop_measure_def)
next
  case (Inl e)
  then obtain skip ctx1 where s: "start_message tp data ctx = Inr (0, skip, data', ctx1)"
    and f: "finish_message data' ctx1 = (0, msg, ctx')"
    using assms(1) parse_interleaved_error [OF Inl]
    by (auto simp: rtsp_get_next_message_def bindr_Inr_iff split: if_splits prod.splits)
  have "ctx_msg ctx' = rtsp_message_clear"
    using f by (auto simp: finish_message_def Let_def split: if_splits)
  then have "msg_type (ctx_msg ctx') = RTSP_MESSAGE_TYPE_UNKNOWN" by (simp add: rtsp_message_clear_def)
  then show ?thesis
    using start_message_shrinks [OF s] remove_first_bytes_shrinks [OF assms(2)]
    by (auto simp: loop_measure_def split: if_splits)
qed

text \<open>
  The loop of the receive callbacks: the messages handed on, the return value that ended it, and
  the buffer and context left for the next reception. The handlers do not touch the buffer.
\<close>

function message_loop ::
  "time_parser \<Rightarrow> string \<Rightarrow> rtsp_message_parser_ctx \<Rightarrow>
   (rtsp_message list \<times> int \<times> string \<times> rtsp_message_parser_ctx) result" where
  "message_loop time_parse data ctx =
     bindr (rtsp_get_next_message time_parse data ctx) (\<lambda>(ret, msg, data, ctx).
     bindr (rtsp_buffer_remove_first_bytes data (msg_total_len msg)) (\<lambda>data.
     if ret \<noteq> 0 then Inr ([], ret, data, ctx)
     else
       bindr (message_loop time_parse data ctx) (\<lambda>(msgs, rest).
       Inr (msg # msgs, rest))))"
  by pat_completeness auto
termination
  by (relation "measure (\<lambda>(_, data, ctx). loop_measure data ctx)") (auto intro: get_next_message_progress)

declare message_loop.simps [simp del]

text \<open>One reception: the data is appended to the buffer, then the loop runs.\<close>

definition receive ::
  "time_parser \<Rightarrow> string \<Rightarrow> string \<times> rtsp_message_parser_ctx \<Rightarrow>
   (rtsp_message list \<times> int \<times> string \<times> rtsp_message_parser_ctx) result" where
  "receive time_parse chunk st = (case st of (buf, ctx) \<Rightarrow> message_loop time_parse (buf @ chunk) ctx)"

section \<open>Incomplete headers\<close>

lemma strnstr_nth:
  assumes "rtsp_strnstr s (c # needle) = Some i" "j \<le> length needle"
  shows "i + j < length s" "s ! (i + j) = (c # needle) ! j"
proof -
  note f = strnstr_found [OF assms(1)]
  then show "i + j < length s" using assms(2) by simp
  have "take (Suc (length needle)) (drop i s) ! j = drop i s ! j" using assms(2) by (intro nth_take) simp
  also have "\<dots> = s ! (i + j)" using f by (intro nth_drop) simp
  finally show "s ! (i + j) = (c # needle) ! j" using f by simp
qed

text \<open>Two adjacent line terminators of a header are CR LF, or the LF and CR before its last byte.\<close>

lemma crlf_pairs:
  assumes "\<forall>l \<in> set ls. is_line l" "Suc i < length (crlf_lines ls @ CRLF)"
    and "(crlf_lines ls @ CRLF) ! i \<in> {CR, LF}" "(crlf_lines ls @ CRLF) ! Suc i \<in> {CR, LF}"
  shows "(crlf_lines ls @ CRLF) ! i = CR \<and> (crlf_lines ls @ CRLF) ! Suc i = LF \<or>
    (crlf_lines ls @ CRLF) ! i = LF \<and> (crlf_lines ls @ CRLF) ! Suc i = CR \<and> i + 3 = length (crlf_lines ls @ CRLF)"
  using assms
proof (induction ls arbitrary: i)
  case Nil
  then show ?case by (simp add: crlf_lines_def)
next
  case (Cons l ls)
  let ?T = "crlf_lines ls @ CRLF"
  have T: "crlf_lines (l # ls) @ CRLF = l @ CR # LF # ?T" by (simp add: crlf_lines_def)
  have l: "l ! j \<notin> {CR, LF}" if "j < length l" for j
    using Cons.prems(1) nth_mem [OF that] by (auto simp: is_line_def)
  consider "i < length l" | "i = length l" | "i = Suc (length l)" | k where "i = length l + 2 + k"
    by (metis less_SucE less_imp_add_positive linorder_neqE_nat Suc_1 add_2_eq_Suc' add.commute Suc_lessI less_or_eq_imp_le nat_le_iff_add)
  then show ?case
  proof cases
    case 1
    then show ?thesis using Cons.prems(3) l [OF 1] by (simp only: T) (simp add: nth_append)
  next
    case 2
    then show ?thesis by (simp only: T) (simp add: nth_append)
  next
    case 3
    show ?thesis
    proof (cases ls)
      case Nil
      then show ?thesis using 3 by (simp only: T) (simp add: nth_append crlf_lines_def)
    next
      case (Cons m ms)
      then have "?T ! 0 \<notin> {CR, LF}"
        using Cons.prems(1) by (cases m) (auto simp: is_line_def crlf_lines_def)
      then show ?thesis using 3 Cons.prems(4) by (simp only: T) (simp add: nth_append)
    qed
  next
    case 4
    have "(crlf_lines (l # ls) @ CRLF) ! i = ?T ! k" "(crlf_lines (l # ls) @ CRLF) ! Suc i = ?T ! Suc k"
      "length (crlf_lines (l # ls) @ CRLF) = length l + 2 + length ?T"
      by (simp_all only: T 4) (simp_all add: nth_append)
    then show ?thesis using Cons.IH [of k] Cons.prems 4 by simp
  qed
qed

lemma find_double_newline_prefix:
  assumes "\<forall>l \<in> set ls. is_line l" "k < length (crlf_lines ls @ CRLF)"
  shows "find_double_newline (take k (crlf_lines ls @ CRLF)) = None"
proof -
  define T where "T = crlf_lines ls @ CRLF"
  let ?s = "take k T"
  have pair: "?s ! i = CR \<and> ?s ! Suc i = LF \<or> ?s ! i = LF \<and> ?s ! Suc i = CR \<and> i + 3 = length T"
    if "Suc i < length ?s" "?s ! i \<in> {CR, LF}" "?s ! Suc i \<in> {CR, LF}" for i
    using crlf_pairs [OF assms(1), of i, folded T_def] that by simp
  have len: "length ?s < length T" using assms(2) by (simp add: T_def [symmetric])
  have "rtsp_strnstr ?s [CR, LF, CR, LF] \<noteq> Some i" for i
  proof
    assume f: "rtsp_strnstr ?s [CR, LF, CR, LF] = Some i"
    from strnstr_nth [OF f, of 1] strnstr_nth [OF f, of 2] strnstr_nth [OF f, of 3] pair [of "i + 1"] len
    show False by (simp add: numeral_eq_Suc)
  qed
  moreover have "rtsp_strnstr ?s [LF, CR, LF, CR] \<noteq> Some i" for i
  proof
    assume f: "rtsp_strnstr ?s [LF, CR, LF, CR] = Some i"
    from strnstr_nth [OF f, of 0] strnstr_nth [OF f, of 1] strnstr_nth [OF f, of 3] pair [of i] len
    show False by (simp add: numeral_eq_Suc)
  qed
  moreover have "rtsp_strnstr ?s [c, c] \<noteq> Some i" if "c \<in> {CR, LF}" for c i
  proof
    assume f: "rtsp_strnstr ?s [c, c] = Some i"
    from strnstr_nth [OF f, of 0] strnstr_nth [OF f, of 1] pair [of i] that
    show False by auto
  qed
  ultimately show ?thesis unfolding T_def [symmetric] by (auto simp: find_double_newline_def split: option.splits)
qed

section \<open>Bytes and characters\<close>

lemma byte_of_char [simp]: "byte_of (char_of_byte b) = b"
  using unsigned_less [where 'a = nat and w = b] by (simp add: byte_of_def char_of_byte_def)

lemma cat_bytes: "word_cat (ucast (drop_bit 8 l) :: 8 word) (ucast l :: 8 word) = (l :: 16 word)"
  by (intro bit_word_eqI) (auto simp: bit_simps)

definition packet :: "8 word \<Rightarrow> string \<Rightarrow> string" where
  "packet channel payload =
     [CHR ''$'', char_of_byte channel, char_of_byte (ucast (drop_bit 8 (of_nat (length payload) :: 16 word))),
      char_of_byte (ucast (of_nat (length payload) :: 16 word))] @ payload"

lemma length_packet: "length (packet c p) = 4 + length p"
  by (simp add: packet_def)

text \<open>Enough of a packet gives the packet, and too little of it asks for more.\<close>

lemma parse_packet:
  assumes "length p < 2 ^ 16"
  shows "rtsp_parse_interleaved (packet c p @ rest) m =
    Inr (m\<lparr>msg_type := RTSP_MESSAGE_TYPE_INTERLEAVED,
           msg_interleaved := \<lparr>ilv_channel = c, ilv_data = Some (p @ rest), ilv_len = of_nat (length p)\<rparr>,
           msg_total_len := of_nat (4 + length p)\<rparr>)"
proof -
  have u: "unat (of_nat (length p) :: 16 word) = length p" using assms by (simp add: unat_of_nat)
  have "(ucast (of_nat (length p) :: 16 word) :: 64 word) = of_nat (length p)"
    using u by (simp add: word_unat_eq_iff unsigned_ucast_eq unat_of_nat take_bit_nat_eq_self)
  then show ?thesis
    using u by (simp add: rtsp_parse_interleaved_def packet_def cat_bytes Let_def)
qed

lemma parse_short: "length s < 4 \<Longrightarrow> rtsp_parse_interleaved s m = Inl (Err (- EINVAL))"
  by (auto simp: rtsp_parse_interleaved_def split: list.split)

lemma parse_packet_prefix:
  assumes "length p < 2 ^ 16" "k < length (packet c p)"
  shows "rtsp_parse_interleaved (take k (packet c p)) m = Inl (Err (if k < 4 then - EINVAL else - EAGAIN))"
proof (cases "k < 4")
  case True
  then show ?thesis by (simp add: parse_short)
next
  case False
  then obtain j where "k = 4 + j" using nat_le_iff_add by (metis not_less)
  then have k: "k = Suc (Suc (Suc (Suc j)))" by simp
  have "unat (of_nat (length p) :: 16 word) = length p" using assms by (simp add: unat_of_nat)
  then show ?thesis
    using assms(2) by (simp add: k rtsp_parse_interleaved_def packet_def cat_bytes Let_def)
qed

lemma parse_text:
  assumes "s = [] \<or> hd s \<noteq> CHR ''$''"
  shows "rtsp_parse_interleaved s m = Inl (Err (- EINVAL))"
proof -
  have "c = CHR ''$''" if "code c = 0x24" for c
  proof -
    have "c = char_of (code c)" by (simp only: char_of_char)
    then show ?thesis unfolding that by (simp add: char_of_def bit_simps)
  qed
  then show ?thesis using assms by (auto simp: rtsp_parse_interleaved_def split: list.split)
qed

end
