(* ===== verification/RtspStream.thy ===== *)
theory RtspStream
  imports RtspMessage
begin

text \<open>
  The receive loop as a refinement of a sequence of frames: whatever well-formed requests, responses
  and interleaved packets a peer sends and however the transport cuts them, the loop over
  \<open>rtsp_get_next_message\<close> delivers these frames. Then the bounds of what is delivered, and two ways
  to make the parser lose the stream.
\<close>

section \<open>The stream of frames\<close>

text \<open>
  The abstract view of a connection: a sequence of frames. \<open>delivered\<close> maps the message handed to
  the callback to the frame it stands for.
\<close>

datatype frame =
    FRequest rtsp_request_header string
  | FResponse rtsp_response_header string
  | FInterleaved "8 word" string

fun head_text :: "time_formatter \<Rightarrow> frame \<Rightarrow> string" where
  "head_text tf (FRequest h body) = request_text tf h"
| "head_text tf (FResponse h body) = response_text tf h"
| "head_text tf (FInterleaved channel payload) = packet channel payload"

fun frame_body :: "frame \<Rightarrow> string" where
  "frame_body (FRequest h body) = body"
| "frame_body (FResponse h body) = body"
| "frame_body (FInterleaved channel payload) = []"

fun frame_header :: "frame \<Rightarrow> rtsp_message_type \<times> rtsp_header" where
  "frame_header (FRequest h body) = (RTSP_MESSAGE_TYPE_REQUEST, ReqHeader h)"
| "frame_header (FResponse h body) = (RTSP_MESSAGE_TYPE_RESPONSE, RespHeader h)"
| "frame_header (FInterleaved channel payload) = (RTSP_MESSAGE_TYPE_INTERLEAVED, NoHeader)"

fun is_text :: "frame \<Rightarrow> bool" where
  "is_text (FInterleaved channel payload) = False"
| "is_text f = True"

definition frame_bytes :: "time_formatter \<Rightarrow> frame \<Rightarrow> string" where
  "frame_bytes tf f = head_text tf f @ frame_body f"

definition stream_bytes :: "time_formatter \<Rightarrow> frame list \<Rightarrow> string" where
  "stream_bytes tf fs = concat (map (frame_bytes tf) fs)"

fun wf_frame :: "time_formatter \<Rightarrow> time_parser \<Rightarrow> frame \<Rightarrow> bool" where
  "wf_frame tf tp (FRequest h body) \<longleftrightarrow>
     wf_request tf tp h \<and> request_sent h = h \<and> req_method h \<noteq> RTSP_METHOD_TYPE_UNKNOWN \<and>
     (\<forall>l \<in> set (request_line h # all_request_lines tf h). is_line l) \<and>
     req_content_length h = int (length body)"
| "wf_frame tf tp (FResponse h body) \<longleftrightarrow>
     wf_response tf tp h \<and> response_sent h = h \<and>
     resp_status_string h \<noteq> None \<and> resp_status_string h \<noteq> Some [] \<and>
     (\<forall>l \<in> set (all_response_lines tf h). is_line l) \<and>
     resp_content_length h = int (length body)"
| "wf_frame tf tp (FInterleaved channel payload) \<longleftrightarrow>
     length payload < 2 ^ 16 \<and>
     (\<forall>b \<in> {10, 13}. \<not> (channel = b \<and> ucast (drop_bit 8 (of_nat (length payload) :: 16 word)) = b))"

definition delivered :: "rtsp_message \<Rightarrow> frame" where
  "delivered msg =
     (case msg_header msg of
        ReqHeader h \<Rightarrow> FRequest h (take (unat (msg_body_len msg)) (the (msg_body msg)))
      | RespHeader h \<Rightarrow> FResponse h (take (unat (msg_body_len msg)) (the (msg_body msg)))
      | NoHeader \<Rightarrow>
          FInterleaved (ilv_channel (msg_interleaved msg))
            (take (unat (ilv_len (msg_interleaved msg))) (the (ilv_data (msg_interleaved msg)))))"

text \<open>A message that stands for a frame also announces its kind and the length of its body.\<close>

definition carries :: "frame \<Rightarrow> rtsp_message \<Rightarrow> bool" where
  "carries f msg \<longleftrightarrow>
     delivered msg = f \<and> (msg_type msg, msg_header msg) = frame_header f \<and>
     (is_text f \<longrightarrow> msg_body_len msg = of_nat (length (frame_body f)) \<and>
        (\<exists>rest. msg_body msg = Some (frame_body f @ rest)))"

lemma carries_delivered: "list_all2 carries fs ms \<Longrightarrow> map delivered ms = fs"
  by (induction rule: list_all2_induct) (simp_all add: carries_def)

subsection \<open>What the framing needs of a header\<close>

lemma method_str_head:
  "m \<noteq> RTSP_METHOD_TYPE_UNKNOWN \<Longrightarrow>
   \<exists>a b r. rtsp_method_type_str m = a # b # r \<and> a \<noteq> CHR ''$'' \<and> b \<noteq> CHR ''T''"
  by (cases m) (simp_all add: rtsp_method_type_str_def)

lemma request_text_head:
  assumes "wf_request tf tp h" "req_method h \<noteq> RTSP_METHOD_TYPE_UNKNOWN"
  shows "\<exists>a b r. request_text tf h = a # b # r \<and> a \<noteq> CHR ''$'' \<and> b \<noteq> CHR ''T''"
proof -
  obtain a b r where "rtsp_method_type_str (req_method h) = a # b # r" "a \<noteq> CHR ''$''" "b \<noteq> CHR ''T''"
    using method_str_head [OF assms(2)] by blast
  then show ?thesis by (simp add: request_text_def request_line_def)
qed

lemma text_frame:
  assumes "wf_frame tf tp f" "is_text f"
  shows "\<exists>ls. head_text tf f = crlf_lines ls @ CRLF \<and> ls \<noteq> [] \<and> (\<forall>l \<in> set ls. is_line l)"
    "hd (head_text tf f) \<noteq> CHR ''$''" "head_text tf f \<noteq> []"
    "read_header tp (head_text tf f) =
       Inr (fst (frame_header f), snd (frame_header f), int (length (frame_body f)))"
    "fst (frame_header f) \<noteq> RTSP_MESSAGE_TYPE_UNKNOWN"
    "copy_header (snd (frame_header f)) = snd (frame_header f)"
proof -
  have "(\<exists>ls. head_text tf f = crlf_lines ls @ CRLF \<and> ls \<noteq> [] \<and> (\<forall>l \<in> set ls. is_line l)) \<and>
    hd (head_text tf f) \<noteq> CHR ''$'' \<and> head_text tf f \<noteq> [] \<and>
    read_header tp (head_text tf f) =
       Inr (fst (frame_header f), snd (frame_header f), int (length (frame_body f))) \<and>
    fst (frame_header f) \<noteq> RTSP_MESSAGE_TYPE_UNKNOWN \<and>
    copy_header (snd (frame_header f)) = snd (frame_header f)"
  proof (cases f)
    case (FRequest h body)
    with assms(1) have wf: "wf_request tf tp h" "req_method h \<noteq> RTSP_METHOD_TYPE_UNKNOWN"
      "\<forall>l \<in> set (request_line h # all_request_lines tf h). is_line l"
      "req_content_length h = int (length body)" "request_sent h = h" by simp_all
    have eq: "request_text tf h = crlf_lines (request_line h # all_request_lines tf h) @ CRLF"
      using wf(1) by (intro request_text_lines) (simp add: wf_request_def)
    obtain a b r where ab: "request_text tf h = a # b # r" "a \<noteq> CHR ''$''" "b \<noteq> CHR ''T''"
      using request_text_head [OF wf(1,2)] by blast
    then have "take 8 (request_text tf h) \<noteq> ''RTSP/1.0''" by (cases r) (simp_all add: numeral_eq_Suc)
    then have "read_header tp (request_text tf h) = Inr (RTSP_MESSAGE_TYPE_REQUEST, ReqHeader h, int (length body))"
      using request_read_text(1) [OF wf(1-3), of "[]"] wf(4,5) by (simp add: read_header_def)
    moreover have "\<exists>ls. request_text tf h = crlf_lines ls @ CRLF \<and> ls \<noteq> [] \<and> (\<forall>l \<in> set ls. is_line l)"
      using eq wf(3) by (intro exI [of _ "request_line h # all_request_lines tf h"]) simp
    ultimately show ?thesis
      using ab by (simp add: FRequest copy_header_def request_copy_clear)
  next
    case (FResponse h body)
    with assms(1) have wf: "wf_response tf tp h" "resp_status_string h \<noteq> None" "resp_status_string h \<noteq> Some []"
      "\<forall>l \<in> set (all_response_lines tf h). is_line l"
      "resp_content_length h = int (length body)" "response_sent h = h" by simp_all
    obtain r where r: "response_text tf h = ''RTSP/1.0'' @ r"
      by (simp add: response_text_def all_response_lines_def response_line_def crlf_lines_def)
    then have "read_header tp (response_text tf h) = Inr (RTSP_MESSAGE_TYPE_RESPONSE, RespHeader h, int (length body))"
      using response_read_text(1) [OF wf(1-4), of "[]"] wf(5,6) by (simp add: read_header_def)
    moreover have "\<exists>ls. response_text tf h = crlf_lines ls @ CRLF \<and> ls \<noteq> [] \<and> (\<forall>l \<in> set ls. is_line l)"
      using wf(4) by (intro exI [of _ "all_response_lines tf h"]) (simp add: response_text_def all_response_lines_def)
    moreover have "response_text tf h \<noteq> []" "hd (response_text tf h) \<noteq> CHR ''$''" using r by simp_all
    ultimately show ?thesis
      by (simp add: FResponse copy_header_def response_copy_clear)
  next
    case (FInterleaved c p)
    then show ?thesis using assms(2) by simp
  qed
  then show "\<exists>ls. head_text tf f = crlf_lines ls @ CRLF \<and> ls \<noteq> [] \<and> (\<forall>l \<in> set ls. is_line l)"
    "hd (head_text tf f) \<noteq> CHR ''$''" "head_text tf f \<noteq> []"
    "read_header tp (head_text tf f) =
       Inr (fst (frame_header f), snd (frame_header f), int (length (frame_body f)))"
    "fst (frame_header f) \<noteq> RTSP_MESSAGE_TYPE_UNKNOWN"
    "copy_header (snd (frame_header f)) = snd (frame_header f)"
    by blast+
qed

lemma text_frame_found:
  assumes "wf_frame tf tp f" "is_text f"
  shows "find_double_newline (head_text tf f @ x) = Some (length (head_text tf f) - 4, 4)"
    "4 \<le> length (head_text tf f)"
    "k < length (head_text tf f) \<Longrightarrow> find_double_newline (take k (head_text tf f)) = None"
proof -
  obtain ls where ls: "head_text tf f = crlf_lines ls @ CRLF" "ls \<noteq> []" "\<forall>l \<in> set ls. is_line l"
    using text_frame(1) [OF assms] by blast
  have "2 \<le> length (crlf_lines ls)" using ls(2) by (cases ls) (simp_all add: crlf_lines_def)
  then show "4 \<le> length (head_text tf f)"
    "find_double_newline (head_text tf f @ x) = Some (length (head_text tf f) - 4, 4)"
    using find_end_of_lines [OF ls(3,2), of x] by (simp_all add: ls(1))
  show "k < length (head_text tf f) \<Longrightarrow> find_double_newline (take k (head_text tf f)) = None"
    using find_double_newline_prefix [OF ls(3), of k] by (simp only: ls(1))
qed

definition wiped :: "string \<Rightarrow> string" where
  "wiped header = take (length header - 4) header @ replicate 4 NUL"

lemma wipe_head: "4 \<le> length t \<Longrightarrow> wipe (t @ x) (length t - 4) 4 = wiped t @ x"
  by (simp add: wipe_def wiped_def)

lemma length_wiped: "4 \<le> length t \<Longrightarrow> length (wiped t) = length t"
  by (simp add: wiped_def)


subsection \<open>One call of the parser\<close>

definition idle :: "rtsp_message_parser_ctx \<Rightarrow> bool" where
  "idle ctx \<longleftrightarrow> ctx_msg ctx = rtsp_message_clear"

text \<open>The header of the frame has been parsed, its body is incomplete.\<close>

definition pending :: "time_formatter \<Rightarrow> frame \<Rightarrow> rtsp_message_parser_ctx \<Rightarrow> bool" where
  "pending tf f ctx \<longleftrightarrow>
     msg_type (ctx_msg ctx) = fst (frame_header f) \<and> msg_header (ctx_msg ctx) = snd (frame_header f) \<and>
     msg_body_len (ctx_msg ctx) = of_nat (length (frame_body f)) \<and>
     ctx_header_len ctx = of_nat (length (head_text tf f))"

lemma idle_type: "idle ctx \<Longrightarrow> msg_type (ctx_msg ctx) = RTSP_MESSAGE_TYPE_UNKNOWN"
  by (simp add: idle_def rtsp_message_clear_def)

lemma start_text:
  assumes "wf_frame tf tp f" "is_text f"
    and "idle ctx \<and> h = head_text tf f \<or> pending tf f ctx \<and> h = wiped (head_text tf f)"
  shows "\<exists>ctx'. start_message tp (h @ x) ctx = Inr (0, 0, wiped (head_text tf f) @ x, ctx') \<and> pending tf f ctx'"
  using assms(3)
proof (elim disjE conjE)
  assume i: "idle ctx" and h: "h = head_text tf f"
  note found = text_frame_found [OF assms(1,2)]
  have t: "take (length (head_text tf f)) (head_text tf f @ x) = head_text tf f" by simp
  show ?thesis
    using idle_type [OF i] found(1) [of x] found(2) text_frame(4) [OF assms(1,2)]
    by (simp add: h start_message_def Let_def t wipe_head pending_def)
next
  assume "pending tf f ctx" "h = wiped (head_text tf f)"
  then show ?thesis using text_frame(5) [OF assms(1,2)] by (simp add: start_message_def pending_def)
qed

lemma finish_text:
  assumes "pending tf f ctx" "length (head_text tf f) + length (frame_body f) < 2 ^ 63" "length data < 2 ^ 63"
    "copy_header (snd (frame_header f)) = snd (frame_header f)"
  shows "length data < length (frame_bytes tf f) \<Longrightarrow>
      \<exists>ctx'. finish_message data ctx = (- EAGAIN, rtsp_message_clear, ctx') \<and> pending tf f ctx'"
    "length (frame_bytes tf f) \<le> length data \<Longrightarrow>
      \<exists>ctx' msg. finish_message data ctx = (0, msg, ctx') \<and> idle ctx' \<and>
        (msg_type msg, msg_header msg) = frame_header f \<and> msg_body_len msg = of_nat (length (frame_body f)) \<and>
        msg_body msg = Some (drop (length (head_text tf f)) data) \<and>
        msg_total_len msg = of_nat (length (frame_bytes tf f))"
proof -
  have n: "unat (of_nat n :: 64 word) = n" if "n < 2 ^ 63" for n
    using that by (simp add: unat_of_nat)
  have "length (frame_bytes tf f) < 2 ^ 63" using assms(2) by (simp add: frame_bytes_def)
  from n [OF this] have u: "unat (of_nat (length (head_text tf f)) :: 64 word) = length (head_text tf f)"
    "unat (of_nat (length data) :: 64 word) = length data"
    "unat (of_nat (length (frame_bytes tf f)) :: 64 word) = length (frame_bytes tf f)"
    using n assms(2,3) by simp_all
  have total: "of_nat (length (frame_body f)) + of_nat (length (head_text tf f)) =
      (of_nat (length (frame_bytes tf f)) :: 64 word)"
    by (simp add: frame_bytes_def)
  have less: "(of_nat (length data) :: 64 word) < of_nat (length (frame_bytes tf f)) \<longleftrightarrow>
      length data < length (frame_bytes tf f)"
    by (simp only: word_less_nat_alt u)
  show "length data < length (frame_bytes tf f) \<Longrightarrow>
      \<exists>ctx'. finish_message data ctx = (- EAGAIN, rtsp_message_clear, ctx') \<and> pending tf f ctx'"
    using assms(1) less by (simp add: finish_message_def Let_def total pending_def)
  show "length (frame_bytes tf f) \<le> length data \<Longrightarrow>
      \<exists>ctx' msg. finish_message data ctx = (0, msg, ctx') \<and> idle ctx' \<and>
        (msg_type msg, msg_header msg) = frame_header f \<and> msg_body_len msg = of_nat (length (frame_body f)) \<and>
        msg_body msg = Some (drop (length (head_text tf f)) data) \<and>
        msg_total_len msg = of_nat (length (frame_bytes tf f))"
    using assms(1,4) less u(1) by (simp add: finish_message_def Let_def total idle_def pending_def)
qed

lemma get_next_text:
  assumes "rtsp_parse_interleaved data rtsp_message_clear = Inl (Err (- EINVAL))"
    and "start_message tp data ctx = Inr (0, skip, data', ctx1)" "finish_message data' ctx1 = (ret, msg, ctx2)"
  shows "rtsp_get_next_message tp data ctx = Inr (ret, msg, data', ctx2)"
  using assms by (simp add: rtsp_get_next_message_def)

lemma get_text_frame:
  assumes "wf_frame tf tp f" "is_text f" "length (frame_bytes tf f) < 2 ^ 63" "length (h @ x) < 2 ^ 63"
    and h: "idle ctx \<and> h = head_text tf f \<or> pending tf f ctx \<and> h = wiped (head_text tf f)"
  shows "length x < length (frame_body f) \<Longrightarrow>
      \<exists>ctx'. rtsp_get_next_message tp (h @ x) ctx =
          Inr (- EAGAIN, rtsp_message_clear, wiped (head_text tf f) @ x, ctx') \<and> pending tf f ctx'"
    "x = frame_body f @ rest \<Longrightarrow>
      \<exists>msg ctx'. rtsp_get_next_message tp (h @ x) ctx = Inr (0, msg, wiped (head_text tf f) @ x, ctx') \<and>
        idle ctx' \<and> carries f msg \<and> msg_total_len msg = of_nat (length (frame_bytes tf f))"
proof -
  note tf = text_frame [OF assms(1,2)] and found = text_frame_found [OF assms(1,2)]
  have "length h = length (head_text tf f)" using h length_wiped [OF found(2)] by auto
  then have len: "length (wiped (head_text tf f) @ x) < 2 ^ 63"
    "length (wiped (head_text tf f) @ x) = length (head_text tf f) + length x"
    using assms(4) length_wiped [OF found(2)] by simp_all
  have "h @ x \<noteq> [] \<and> hd (h @ x) \<noteq> CHR ''$''"
    using h tf(2,3) found(2)
    by (cases "length (head_text tf f) = 4") (auto simp: wiped_def hd_append neq_Nil_conv take_Cons' numeral_eq_Suc)
  then have p: "rtsp_parse_interleaved (h @ x) rtsp_message_clear = Inl (Err (- EINVAL))"
    by (simp add: parse_text)
  obtain ctx1 where s: "start_message tp (h @ x) ctx = Inr (0, 0, wiped (head_text tf f) @ x, ctx1)"
    "pending tf f ctx1"
    using start_text [OF assms(1,2) h] by blast
  have b: "length (head_text tf f) + length (frame_body f) < 2 ^ 63" using assms(3) by (simp add: frame_bytes_def)
  note fin = finish_text [OF s(2) b len(1) tf(6)]
  show "length x < length (frame_body f) \<Longrightarrow>
      \<exists>ctx'. rtsp_get_next_message tp (h @ x) ctx =
          Inr (- EAGAIN, rtsp_message_clear, wiped (head_text tf f) @ x, ctx') \<and> pending tf f ctx'"
    using fin(1) get_next_text [OF p s(1)] len(2) by (auto simp: frame_bytes_def)
  assume x: "x = frame_body f @ rest"
  then obtain ctx' msg where m: "finish_message (wiped (head_text tf f) @ x) ctx1 = (0, msg, ctx')" "idle ctx'"
    "(msg_type msg, msg_header msg) = frame_header f" "msg_body_len msg = of_nat (length (frame_body f))"
    "msg_body msg = Some (drop (length (head_text tf f)) (wiped (head_text tf f) @ x))"
    "msg_total_len msg = of_nat (length (frame_bytes tf f))"
    using fin(2) len(2) by (auto simp: frame_bytes_def)
  have "unat (of_nat (length (frame_body f)) :: 64 word) = length (frame_body f)"
    using b by (simp add: unat_of_nat)
  then have "carries f msg"
    using m(3-5) length_wiped [OF found(2)] assms(2) x by (cases f) (simp_all add: carries_def delivered_def)
  then show "\<exists>msg ctx'. rtsp_get_next_message tp (h @ x) ctx = Inr (0, msg, wiped (head_text tf f) @ x, ctx') \<and>
        idle ctx' \<and> carries f msg \<and> msg_total_len msg = of_nat (length (frame_bytes tf f))"
    using get_next_text [OF p s(1) m(1)] m(2,6) by blast
qed

lemma find_in_three:
  assumes "\<not> (a = CR \<and> b = CR)" "\<not> (a = LF \<and> b = LF)"
  shows "find_double_newline [] = None" "find_double_newline [CHR ''$''] = None"
    "find_double_newline [CHR ''$'', a] = None" "find_double_newline [CHR ''$'', a, b] = None"
  using assms by (simp_all add: find_double_newline_def rtsp_strnstr_def)

lemma find_in_short_packet:
  assumes "k < 4" "\<forall>b \<in> {10, 13}. \<not> (c = b \<and> ucast (drop_bit 8 (of_nat (length p) :: 16 word)) = b)"
  shows "find_double_newline (take k (packet c p)) = None"
proof -
  let ?hi = "ucast (drop_bit 8 (of_nat (length p) :: 16 word)) :: 8 word"
  have b: "b = 13" if "char_of_byte b = CR" for b
  proof -
    have "b = byte_of CR" using that byte_of_char [of b] by simp
    then show ?thesis by (simp add: byte_of_def)
  qed
  have b': "b = 10" if "char_of_byte b = LF" for b
  proof -
    have "b = byte_of LF" using that byte_of_char [of b] by simp
    then show ?thesis by (simp add: byte_of_def)
  qed
  have nl: "\<not> (c = 10 \<and> ?hi = 10)" "\<not> (c = 13 \<and> ?hi = 13)" using assms(2) by blast+
  have "\<not> (char_of_byte c = CR \<and> char_of_byte ?hi = CR)" "\<not> (char_of_byte c = LF \<and> char_of_byte ?hi = LF)"
    using nl b b' by metis+
  note three = find_in_three [OF this]
  have "k = 0 \<or> k = 1 \<or> k = 2 \<or> k = 3" using assms(1) by auto
  then have "take k (packet c p) \<in> {[], [CHR ''$''], [CHR ''$'', char_of_byte c], [CHR ''$'', char_of_byte c, char_of_byte ?hi]}"
    by (elim disjE) (simp_all add: packet_def)
  then show ?thesis by (elim insertE emptyE) (simp_all only: three)
qed

lemma get_incomplete:
  assumes "wf_frame tf tp f" "idle ctx" "k < length (head_text tf f)"
  shows "rtsp_get_next_message tp (take k (head_text tf f)) ctx =
    Inr (- EAGAIN, rtsp_message_clear, take k (head_text tf f), ctx)"
proof (cases "is_text f")
  case True
  have "take k (head_text tf f) = [] \<or> hd (take k (head_text tf f)) \<noteq> CHR ''$''"
    using text_frame(2,3) [OF assms(1) True] by (cases k) (auto simp: neq_Nil_conv)
  then show ?thesis
    using text_frame_found(3) [OF assms(1) True assms(3)] idle_type [OF assms(2)] parse_text
    by (simp add: rtsp_get_next_message_def start_message_def rtsp_message_clear_def)
next
  case False
  then obtain c p where f: "f = FInterleaved c p" by (cases f) simp_all
  with assms have "length p < 2 ^ 16" "k < length (packet c p)"
    and nl: "\<forall>b \<in> {10, 13}. \<not> (c = b \<and> ucast (drop_bit 8 (of_nat (length p) :: 16 word)) = b)" by auto
  from parse_packet_prefix [OF this(1,2), of rtsp_message_clear] show ?thesis
    using find_in_short_packet [OF _ nl] idle_type [OF assms(2)]
    by (simp add: f rtsp_get_next_message_def start_message_def rtsp_message_clear_def)
qed

lemma get_packet:
  assumes "length p < 2 ^ 16"
  shows "\<exists>msg. rtsp_get_next_message tp (packet c p @ rest) ctx = Inr (0, msg, packet c p @ rest, ctx) \<and>
    carries (FInterleaved c p) msg \<and> msg_total_len msg = of_nat (length (packet c p))"
proof -
  have "unat (of_nat (length p) :: 16 word) = length p" using assms by (simp add: unat_of_nat)
  then show ?thesis
    using parse_packet [OF assms, of c rest rtsp_message_clear]
    by (simp add: rtsp_get_next_message_def carries_def delivered_def length_packet rtsp_message_clear_def)
qed

subsection \<open>Any number of receptions\<close>

text \<open>
  \<open>partial tf fs s (buf, ctx)\<close>: the bytes \<open>s\<close> of the frames \<open>fs\<close> have been received and not yet
  delivered, and the buffer and the context of the parser stand for them.
\<close>

definition partial ::
  "time_formatter \<Rightarrow> frame list \<Rightarrow> string \<Rightarrow> string \<times> rtsp_message_parser_ctx \<Rightarrow> bool" where
  "partial tf fs s st \<longleftrightarrow>
     (case st of (buf, ctx) \<Rightarrow>
        (idle ctx \<and> buf = s) \<or>
        (\<exists>f fs' t. fs = f # fs' \<and> is_text f \<and> s = head_text tf f @ t \<and>
           buf = wiped (head_text tf f) @ t \<and> pending tf f ctx))"

lemma step_complete:
  assumes "wf_frame tf tp f" "partial tf (f # fs) s (buf, ctx)" "s @ c = frame_bytes tf f @ c'"
    "length (s @ c) < 2 ^ 63"
  shows "\<exists>msg data' ctx'. rtsp_get_next_message tp (buf @ c) ctx = Inr (0, msg, data', ctx') \<and>
    rtsp_buffer_remove_first_bytes data' (msg_total_len msg) = Inr c' \<and> idle ctx' \<and> carries f msg"
proof -
  have len: "length (frame_bytes tf f) + length c' < 2 ^ 63" using assms(3,4) by (metis length_append)
  then have u: "unat (of_nat (length (frame_bytes tf f)) :: 64 word) = length (frame_bytes tf f)"
    by (simp add: unat_of_nat)
  have rem: "rtsp_buffer_remove_first_bytes (w @ frame_body f @ c') (of_nat (length (frame_bytes tf f))) = Inr c'"
    if "length w = length (head_text tf f)" for w
    using that len u by (subst remove_first_bytes_drop) (simp_all add: frame_bytes_def)
  show ?thesis
  proof (cases "is_text f")
    case True
    obtain h x where h: "buf @ c = h @ x" "idle ctx \<and> h = head_text tf f \<or> pending tf f ctx \<and> h = wiped (head_text tf f)"
      "x = frame_body f @ c'"
      using assms(2,3) by (auto simp: partial_def frame_bytes_def)
    have lh: "length h = length (head_text tf f)"
      using h(2) length_wiped [OF text_frame_found(2) [OF assms(1) True]] by auto
    then have "length (h @ x) < 2 ^ 63" "length (frame_bytes tf f) < 2 ^ 63"
      using len by (simp_all add: h(3) frame_bytes_def)
    then obtain msg ctx' where "rtsp_get_next_message tp (h @ x) ctx = Inr (0, msg, wiped (head_text tf f) @ x, ctx')"
      "idle ctx'" "carries f msg" "msg_total_len msg = of_nat (length (frame_bytes tf f))"
      using get_text_frame(2) [OF assms(1) True _ _ h(2,3)] by blast
    then show ?thesis
      using rem [OF length_wiped [OF text_frame_found(2) [OF assms(1) True]]] by (auto simp: h(1,3))
  next
    case False
    then obtain ch p where f: "f = FInterleaved ch p" by (cases f) simp_all
    then have i: "idle ctx" "buf @ c = packet ch p @ c'" and p: "length p < 2 ^ 16"
      using assms(1-3) by (auto simp: partial_def frame_bytes_def)
    from get_packet [OF p, of tp ch c' ctx] rem [of "packet ch p"] i show ?thesis
      by (auto simp: f frame_bytes_def)
  qed
qed

lemma step_incomplete:
  assumes "wf_frame tf tp f" "partial tf (f # fs) s (buf, ctx)" "s @ c @ later = frame_bytes tf f @ rest"
    "length (s @ c) < length (frame_bytes tf f)" "length (frame_bytes tf f) < 2 ^ 63"
  shows "\<exists>buf' ctx'. rtsp_get_next_message tp (buf @ c) ctx = Inr (- EAGAIN, rtsp_message_clear, buf', ctx') \<and>
    partial tf (f # fs) (s @ c) (buf', ctx')"
proof -
  have k: "s @ c = take (length (s @ c)) (frame_bytes tf f)"
    using arg_cong [OF assms(3), of "take (length (s @ c))"] assms(4) by simp
  have gen: "\<exists>buf' ctx'. rtsp_get_next_message tp (h @ x) ctx = Inr (- EAGAIN, rtsp_message_clear, buf', ctx') \<and>
      partial tf (f # fs) (s @ c) (buf', ctx')"
    if t: "is_text f" "s @ c = head_text tf f @ x"
      and h: "idle ctx \<and> h = head_text tf f \<or> pending tf f ctx \<and> h = wiped (head_text tf f)" for h x
  proof -
    have "length h = length (head_text tf f)"
      using h length_wiped [OF text_frame_found(2) [OF assms(1) t(1)]] by auto
    then have "length (h @ x) < 2 ^ 63" "length x < length (frame_body f)"
      using assms(4,5) t(2) by (simp_all add: frame_bytes_def)
    from get_text_frame(1) [OF assms(1) t(1) assms(5) this(1) h this(2)] show ?thesis
      using t by (auto simp: partial_def)
  qed
  show ?thesis
  proof (cases "idle ctx \<and> buf = s")
    case True
    show ?thesis
    proof (cases "length (s @ c) < length (head_text tf f)")
      case less: True
      then have eq: "s @ c = take (length (s @ c)) (head_text tf f)" using k by (simp add: frame_bytes_def)
      show ?thesis
        using True get_incomplete [OF assms(1) _ less, of ctx] unfolding eq [symmetric]
        by (auto simp: partial_def)
    next
      case False
      then have "is_text f" using assms(4) by (cases f) (simp_all add: frame_bytes_def)
      moreover obtain x where "s @ c = head_text tf f @ x"
        using k False by (metis (no_types, lifting) frame_bytes_def not_less take_all take_append)
      ultimately show ?thesis using gen [of x "head_text tf f"] True by simp
    qed
  next
    case False
    then obtain t where "is_text f" "s = head_text tf f @ t" "buf = wiped (head_text tf f) @ t" "pending tf f ctx"
      using assms(2) by (auto simp: partial_def)
    then show ?thesis using gen [of "t @ c" "wiped (head_text tf f)"] by simp
  qed
qed

lemma get_next_nothing:
  assumes "idle ctx"
  shows "rtsp_get_next_message tp [] ctx = Inr (- EAGAIN, rtsp_message_clear, [], ctx)"
  using idle_type [OF assms] parse_short [of "[]"]
  by (simp add: rtsp_get_next_message_def start_message_def find_double_newline_def rtsp_strnstr_def
      rtsp_message_clear_def)

lemma message_loop_again:
  "rtsp_get_next_message tp data ctx = Inr (- EAGAIN, rtsp_message_clear, buf, ctx') \<Longrightarrow>
   message_loop tp data ctx = Inr ([], - EAGAIN, buf, ctx')"
  by (subst message_loop.simps) (simp add: rtsp_buffer_remove_first_bytes_def rtsp_message_clear_def)

lemma message_loop_stream:
  assumes "\<forall>f \<in> set fs. wf_frame tf tp f" "length (stream_bytes tf fs) < 2 ^ 63"
    and "partial tf fs s (buf, ctx)" "s @ c @ later = stream_bytes tf fs"
  shows "\<exists>ms fs1 fs2 s' buf' ctx'. message_loop tp (buf @ c) ctx = Inr (ms, - EAGAIN, buf', ctx') \<and>
    fs = fs1 @ fs2 \<and> list_all2 carries fs1 ms \<and> partial tf fs2 s' (buf', ctx') \<and>
    s' @ later = stream_bytes tf fs2 \<and> (later = [] \<longrightarrow> fs2 = [])"
  using assms
proof (induction fs arbitrary: s buf ctx c)
  case Nil
  then have "idle ctx" "buf @ c = []" "later = []" by (auto simp: partial_def stream_bytes_def)
  moreover from this have "message_loop tp (buf @ c) ctx = Inr ([], - EAGAIN, [], ctx)"
    using message_loop_again get_next_nothing by simp
  ultimately show ?case by (auto simp: partial_def stream_bytes_def)
next
  case (Cons f fs)
  have f: "wf_frame tf tp f" "length (frame_bytes tf f) + length (stream_bytes tf fs) < 2 ^ 63"
    and eq: "s @ c @ later = frame_bytes tf f @ stream_bytes tf fs"
    using Cons.prems by (simp_all add: stream_bytes_def)
  show ?case
  proof (cases "length (s @ c) < length (frame_bytes tf f)")
    case True
    then obtain buf' ctx' where "rtsp_get_next_message tp (buf @ c) ctx = Inr (- EAGAIN, rtsp_message_clear, buf', ctx')"
      "partial tf (f # fs) (s @ c) (buf', ctx')"
      using step_incomplete [OF f(1) Cons.prems(3) eq True] f(2) by auto
    moreover have "later \<noteq> []" using True eq by (metis append.right_neutral length_append not_add_less1)
    ultimately show ?thesis
      using message_loop_again Cons.prems(4)
      by (intro exI [of _ "[]"] exI [of _ "f # fs"] exI [of _ "s @ c"] exI [of _ buf'] exI [of _ ctx']) simp
  next
    case False
    define c' where "c' = drop (length (frame_bytes tf f)) (s @ c)"
    have eq': "(s @ c) @ later = frame_bytes tf f @ stream_bytes tf fs" using eq by simp
    have "take (length (frame_bytes tf f)) (s @ c) = frame_bytes tf f"
      using arg_cong [OF eq', of "take (length (frame_bytes tf f))"] False by (simp only: take_append) simp
    then have c1: "s @ c = frame_bytes tf f @ c'"
      using append_take_drop_id [of "length (frame_bytes tf f)" "s @ c"] by (simp only: c'_def)
    have "frame_bytes tf f @ c' @ later = frame_bytes tf f @ stream_bytes tf fs"
      using eq' unfolding c1 by simp
    then have c': "s @ c = frame_bytes tf f @ c'" "c' @ later = stream_bytes tf fs"
      using c1 by simp_all
    have "length (s @ c) < 2 ^ 63"
      using f(2) arg_cong [OF c'(2), of length] unfolding c1 by simp
    from step_complete [OF f(1) Cons.prems(3) c'(1) this]
    obtain msg data' ctx' where m: "rtsp_get_next_message tp (buf @ c) ctx = Inr (0, msg, data', ctx')"
      "rtsp_buffer_remove_first_bytes data' (msg_total_len msg) = Inr c'" "idle ctx'" "carries f msg" by blast
    have "partial tf fs [] ([], ctx')" using m(3) by (simp add: partial_def)
    moreover have "\<forall>f \<in> set fs. wf_frame tf tp f" "length (stream_bytes tf fs) < 2 ^ 63"
      using Cons.prems(1) f(2) by simp_all
    ultimately
    obtain ms fs1 fs2 s' buf2 ctx2 where IH: "message_loop tp c' ctx' = Inr (ms, - EAGAIN, buf2, ctx2)"
      "fs = fs1 @ fs2" "list_all2 carries fs1 ms" "partial tf fs2 s' (buf2, ctx2)"
      "s' @ later = stream_bytes tf fs2" "later = [] \<longrightarrow> fs2 = []"
      using Cons.IH [of "[]" "[]" ctx' c'] c'(2) by (simp only: append_Nil) blast
    then have "message_loop tp (buf @ c) ctx = Inr (msg # ms, - EAGAIN, buf2, ctx2)"
      using m by (subst message_loop.simps) simp
    with IH m(4) show ?thesis
      by (intro exI [of _ "msg # ms"] exI [of _ "f # fs1"] exI [of _ fs2] exI [of _ s'] exI [of _ buf2] exI [of _ ctx2]) simp
  qed
qed

text \<open>A sequence of receptions.\<close>

fun receive_all ::
  "time_parser \<Rightarrow> string list \<Rightarrow> string \<times> rtsp_message_parser_ctx \<Rightarrow>
   (rtsp_message list \<times> string \<times> rtsp_message_parser_ctx) result" where
  "receive_all time_parse [] st = Inr ([], st)"
| "receive_all time_parse (chunk # chunks) st =
     bindr (receive time_parse chunk st) (\<lambda>(msgs, ret, st).
     bindr (receive_all time_parse chunks st) (\<lambda>(msgs', st).
     Inr (msgs @ msgs', st)))"

lemma receive_all_stream:
  assumes "\<forall>f \<in> set fs. wf_frame tf tp f" "length (stream_bytes tf fs) < 2 ^ 63"
    and "partial tf fs s (buf, ctx)" "s @ concat chunks = stream_bytes tf fs" "chunks = [] \<longrightarrow> fs = []"
  shows "\<exists>ms ctx'. receive_all tp chunks (buf, ctx) = Inr (ms, [], ctx') \<and> idle ctx' \<and> list_all2 carries fs ms"
  using assms
proof (induction chunks arbitrary: fs s buf ctx)
  case Nil
  then show ?case by (auto simp: partial_def stream_bytes_def)
next
  case (Cons chunk chunks)
  then obtain ms fs1 fs2 s' buf' ctx' where l: "message_loop tp (buf @ chunk) ctx = Inr (ms, - EAGAIN, buf', ctx')"
    "fs = fs1 @ fs2" "list_all2 carries fs1 ms" "partial tf fs2 s' (buf', ctx')"
    "s' @ concat chunks = stream_bytes tf fs2" "concat chunks = [] \<longrightarrow> fs2 = []"
    using message_loop_stream [OF Cons.prems(1-3), of chunk "concat chunks"]
    by (simp only: concat.simps append_assoc) blast
  have "length (stream_bytes tf fs2) < 2 ^ 63" using Cons.prems(2) l(2) by (simp add: stream_bytes_def)
  then obtain ms' ctx2 where "receive_all tp chunks (buf', ctx') = Inr (ms', [], ctx2)" "idle ctx2"
    "list_all2 carries fs2 ms'"
    using Cons.IH [OF _ _ l(4,5)] Cons.prems(1) l(2,6) by auto
  with l show ?case by (auto simp: receive_def list_all2_appendI)
qed

text \<open>Between two messages, the frames that are received are the messages.\<close>

lemma receive_all_idle:
  assumes "\<forall>f \<in> set fs. wf_frame tf tp f" "length (stream_bytes tf fs) < 2 ^ 63"
    and "concat chunks = stream_bytes tf fs" "idle ctx"
  shows "\<exists>ms ctx'. receive_all tp chunks ([], ctx) = Inr (ms, [], ctx') \<and> idle ctx' \<and> list_all2 carries fs ms"
proof -
  have "frame_bytes tf f \<noteq> []" if "wf_frame tf tp f" for f
    using text_frame(3) [OF that] by (cases f) (auto simp: frame_bytes_def packet_def)
  then have "chunks = [] \<longrightarrow> fs = []"
    using assms(1,3) by (cases fs) (auto simp: stream_bytes_def)
  moreover have "partial tf fs [] ([], ctx)"
    using assms(4) by (simp add: partial_def)
  ultimately show ?thesis
    using receive_all_stream [OF assms(1,2), of "[]" "[]" ctx chunks] assms(3) by simp
qed

text \<open>
  C1: However the bytes of a sequence of well-formed requests, responses and interleaved packets are
  cut into receptions, the receive loop hands on exactly these frames, in order, and leaves an empty
  buffer.
\<close>

theorem stream_reassembly:
  assumes "\<forall>f \<in> set fs. wf_frame tf tp f" "length (stream_bytes tf fs) < 2 ^ 63"
    and "concat chunks = stream_bytes tf fs"
  shows "\<exists>ms ctx. receive_all tp chunks ([], parser_ctx_init) = Inr (ms, [], ctx) \<and> idle ctx \<and>
    map delivered ms = fs"
proof -
  have "idle parser_ctx_init"
    by (simp add: idle_def parser_ctx_init_def)
  from receive_all_idle [OF assms this] show ?thesis
    using carries_delivered by blast
qed

lemma example_request_fields:
  "req_method example_request = RTSP_METHOD_TYPE_PLAY" "req_content_length example_request = 0"
  "req_authorization example_request = None"
  by (simp_all add: example_request_def rtsp_request_header_clear_def)

lemma example_response_fields:
  "resp_status_string example_response = Some ''OK''" "resp_content_length example_response = 4"
  by (simp_all add: example_response_def rtsp_response_header_clear_def)

lemma wf_example_frames:
  "wf_frame tf tp (FRequest example_request [])" "wf_frame tf tp (FResponse example_response ''body'')"
  using wf_example_request [of tf tp] wf_example_response [of tf tp] example_request_is_lines [of tf]
  by (simp_all add: example_request_fields example_response_fields example_response_lines is_line_def
      example_request_sent example_response_sent)

lemma stream_reassembly_witness:
  "\<exists>ms ctx. receive_all (\<lambda>_. Inl UB)
      [take 10 (stream_bytes (\<lambda>_ _. Inl UB)
         [FRequest example_request [], FInterleaved 1 ''ab'', FResponse example_response ''body'']),
       drop 10 (stream_bytes (\<lambda>_ _. Inl UB)
         [FRequest example_request [], FInterleaved 1 ''ab'', FResponse example_response ''body''])]
      ([], parser_ctx_init) = Inr (ms, [], ctx) \<and>
    map delivered ms = [FRequest example_request [], FInterleaved 1 ''ab'', FResponse example_response ''body'']"
proof -
  let ?tf = "\<lambda>_ _. Inl UB" and ?tp = "\<lambda>_. Inl UB"
  let ?fs = "[FRequest example_request [], FInterleaved 1 ''ab'', FResponse example_response ''body'']"
  have "\<forall>f \<in> set ?fs. wf_frame ?tf ?tp f"
    using wf_example_frames [of ?tf ?tp] by (simp del: wf_frame.simps(1,2))
  moreover have "length (stream_bytes ?tf ?fs) < 2 ^ 63"
  proof -
    have "length (request_text ?tf example_request) = 88"
      by (subst request_text_lines)
        (simp_all add: example_request_lines crlf_lines_def, simp add: example_request_fields)
    then show ?thesis
      by (simp add: stream_bytes_def frame_bytes_def length_packet response_text_def example_response_lines
          crlf_lines_def)
  qed
  ultimately show ?thesis
    using stream_reassembly [of ?fs ?tf ?tp "[take 10 (stream_bytes ?tf ?fs), drop 10 (stream_bytes ?tf ?fs)]"]
    by auto
qed

section \<open>Properties of single packets and messages\<close>

text \<open>
  A packet that was built is parsed back, whatever follows it in the buffer: same channel, same
  length, same payload.
\<close>

theorem interleaved_roundtrip:
  assumes "rtsp_build_interleaved (Some info) = Inr buf"
  shows "\<exists>msg data. rtsp_parse_interleaved (buf @ rest) m = Inr msg \<and>
    msg_type msg = RTSP_MESSAGE_TYPE_INTERLEAVED \<and> msg_total_len msg = of_nat (length buf) \<and>
    msg_interleaved msg = \<lparr>ilv_channel = ilv_channel info, ilv_data = Some data, ilv_len = ilv_len info\<rparr> \<and>
    take (unat (ilv_len info)) data = take (unat (ilv_len info)) (the (ilv_data info))"
proof -
  obtain payload where p: "ilv_data info = Some payload" "unat (ilv_len info) \<le> length payload"
    "buf = packet (ilv_channel info) (take (unat (ilv_len info)) payload)"
    using assms by (auto simp: rtsp_build_interleaved_def packet_def min_def split: option.splits if_splits)
  have "length (take (unat (ilv_len info)) payload) < 2 ^ 16"
    using unsigned_less [where 'a = nat and w = "ilv_len info"] p(2) by simp
  from parse_packet [OF this, of "ilv_channel info" rest m] p show ?thesis
    by (simp add: length_packet min_def)
qed

lemma interleaved_roundtrip_witness:
  "\<exists>msg data. rtsp_parse_interleaved (''$'' @ [CHR 0x01, CHR 0x00, CHR 0x02] @ ''ab'' @ ''$'') rtsp_message_clear = Inr msg \<and>
    take 2 data = ''ab'' \<and>
    msg_interleaved msg = \<lparr>ilv_channel = 1, ilv_data = Some data, ilv_len = 2\<rparr>"
proof -
  have "rtsp_build_interleaved (Some \<lparr>ilv_channel = 1, ilv_data = Some ''ab'', ilv_len = 2\<rparr>) =
      Inr (''$'' @ [CHR 0x01, CHR 0x00, CHR 0x02] @ ''ab'')"
    by (simp add: rtsp_build_interleaved_def char_of_byte_def char_of_def bit_simps)
  from interleaved_roundtrip [OF this, of "''$''" rtsp_message_clear] show ?thesis by auto
qed

text \<open>
  What a pending header promises: it is text and its length is within the buffer.
\<close>

definition ctx_ok :: "string \<Rightarrow> rtsp_message_parser_ctx \<Rightarrow> bool" where
  "ctx_ok data ctx \<longleftrightarrow>
     msg_type (ctx_msg ctx) \<noteq> RTSP_MESSAGE_TYPE_INTERLEAVED \<and>
     (msg_type (ctx_msg ctx) \<noteq> RTSP_MESSAGE_TYPE_UNKNOWN \<longrightarrow> unat (ctx_header_len ctx) \<le> length data)"

lemma start_message_ok:
  assumes "start_message tp data ctx = Inr (ret, skip, data', ctx')" "length data < 2 ^ 63" "ctx_ok data ctx"
  shows "length data' = length data" "unat skip \<le> length data" "ret = 0 \<Longrightarrow> unat (ctx_header_len ctx') \<le> length data \<and> ctx_ok data' ctx'"
    "ret \<noteq> 0 \<Longrightarrow> ctx_ok (drop (unat skip) data') ctx'"
proof -
  have idle: "msg_type rtsp_message_clear = RTSP_MESSAGE_TYPE_UNKNOWN" by (simp add: rtsp_message_clear_def)
  have "length data' = length data \<and> unat skip \<le> length data \<and>
    (ret = 0 \<longrightarrow> unat (ctx_header_len ctx') \<le> length data \<and> ctx_ok data' ctx') \<and> (ret \<noteq> 0 \<longrightarrow> ctx_ok (drop (unat skip) data') ctx')"
  proof (cases "msg_type (ctx_msg ctx) = RTSP_MESSAGE_TYPE_UNKNOWN")
    case False
    then show ?thesis using assms by (simp add: start_message_def ctx_ok_def)
  next
    case True
    show ?thesis
    proof (cases "find_double_newline data")
      case None
      then show ?thesis using assms(1,3) True by (auto simp: start_message_def ctx_ok_def)
    next
      case (Some pn)
      obtain p n where pn: "pn = (p, n)" by (cases pn)
      note f = find_double_newline_found [OF Some [unfolded pn]]
      have "unat (of_nat (p + n) :: 64 word) = p + n"
        using f(1) assms(2) by (simp only: unat_of_nat) simp
      moreover have "ty \<noteq> RTSP_MESSAGE_TYPE_INTERLEAVED" if "read_header tp raw = Inr (ty, h, l)" for raw ty h l
        using that by (auto simp: read_header_def bindr_Inr_iff split: if_splits)
      ultimately show ?thesis
        using assms(1) True Some pn f(1) length_wipe [OF f(1)] idle
        by (auto simp: start_message_def ctx_ok_def Let_def simp del: of_nat_add
            split: sum.splits failure.splits)
    qed
  qed
  then show "length data' = length data" "unat skip \<le> length data" "ret = 0 \<Longrightarrow> unat (ctx_header_len ctx') \<le> length data \<and> ctx_ok data' ctx'"
    "ret \<noteq> 0 \<Longrightarrow> ctx_ok (drop (unat skip) data') ctx'" by blast+
qed

lemma finish_message_ok:
  assumes "finish_message data ctx = (ret, msg, ctx')" "length data < 2 ^ 63" "ctx_ok data ctx"
    "unat (ctx_header_len ctx) \<le> length data"
  shows "ret \<noteq> 0 \<Longrightarrow> msg_total_len msg = 0 \<and> ctx_ok data ctx'"
    "ret = 0 \<Longrightarrow> 0 \<le> sint (msg_body_len msg) \<Longrightarrow> unat (msg_total_len msg) \<le> length data \<and>
       msg_type msg \<noteq> RTSP_MESSAGE_TYPE_INTERLEAVED \<and> unat (msg_body_len msg) \<le> length (the (msg_body msg))"
    "ret = 0 \<Longrightarrow> idle ctx'"
proof -
  let ?b = "msg_body_len (ctx_msg ctx)"
  have n: "unat (of_nat (length data) :: 64 word) = length data" using assms(2) by (simp add: unat_of_nat)
  show "ret \<noteq> 0 \<Longrightarrow> msg_total_len msg = 0 \<and> ctx_ok data ctx'"
    using assms(1,3) by (auto simp: finish_message_def Let_def ctx_ok_def rtsp_message_clear_def split: if_splits)
  show "ret = 0 \<Longrightarrow> idle ctx'"
    using assms(1) by (auto simp: finish_message_def Let_def idle_def split: if_splits)
  assume ret: "ret = 0" "0 \<le> sint (msg_body_len msg)"
  then have m: "msg_body_len msg = ?b" "msg_total_len msg = ?b + ctx_header_len ctx"
    "msg_type msg = msg_type (ctx_msg ctx)" "msg_body msg = Some (drop (unat (ctx_header_len ctx)) data)"
    "\<not> of_nat (length data) < ?b + ctx_header_len ctx"
    using assms(1) by (auto simp: finish_message_def Let_def split: if_splits)
  have "unat ?b < 2 ^ 63"
  proof -
    have lt: "sint ?b < 2 ^ 63" using sint_lt [of ?b] by simp
    have "uint ?b = uint (word_of_int (sint ?b) :: 64 word)" by simp
    also have "\<dots> = sint ?b"
      using ret(2) lt by (simp only: unsigned_of_int m(1)) (simp add: take_bit_int_eq_self)
    finally have "uint ?b < 2 ^ 63" using lt by simp
    then have "int (unat ?b) < int (2 ^ 63)" by simp
    then show ?thesis by (simp only: of_nat_less_iff)
  qed
  then have "unat (?b + ctx_header_len ctx) = unat ?b + unat (ctx_header_len ctx)"
    using assms(2,4) by (subst unat_add_lem [THEN iffD1]) simp_all
  moreover have "unat (?b + ctx_header_len ctx) \<le> length data"
    using m(5) by (simp only: not_less word_le_nat_alt n)
  ultimately show "unat (msg_total_len msg) \<le> length data \<and>
       msg_type msg \<noteq> RTSP_MESSAGE_TYPE_INTERLEAVED \<and> unat (msg_body_len msg) \<le> length (the (msg_body msg))"
    using assms(3) by (simp add: m ctx_ok_def)
qed

lemma parse_interleaved_ok:
  assumes "rtsp_parse_interleaved data m = Inr msg"
  shows "unat (ilv_len (msg_interleaved msg)) \<le> length (the (ilv_data (msg_interleaved msg)))"
  using assms by (auto simp: rtsp_parse_interleaved_def Let_def split: list.splits if_splits)

text \<open>
  C12: A message taken from the buffer with a non-negative body length lies inside the buffer: header
  and body (or the packet) together are \<open>total_len\<close> bytes, no more than the buffer holds, and the
  slices handed on are as long as announced. The bytes to skip after a failure are in the buffer
  too, and what is promised about a pending header holds again after they are skipped.
\<close>

theorem message_in_bounds:
  assumes "rtsp_get_next_message tp data ctx = Inr (ret, msg, data', ctx')" "length data < 2 ^ 63"
    and "ctx_ok data ctx"
  shows "length data' = length data \<and>
    (ret \<noteq> 0 \<longrightarrow> unat (msg_total_len msg) \<le> length data \<and> ctx_ok (drop (unat (msg_total_len msg)) data') ctx') \<and>
    (ret = 0 \<and> 0 \<le> sint (msg_body_len msg) \<longrightarrow> unat (msg_total_len msg) \<le> length data \<and>
       (if msg_type msg = RTSP_MESSAGE_TYPE_INTERLEAVED
        then unat (ilv_len (msg_interleaved msg)) \<le> length (the (ilv_data (msg_interleaved msg)))
        else unat (msg_body_len msg) \<le> length (the (msg_body msg))))"
proof (cases "rtsp_parse_interleaved data rtsp_message_clear")
  case (Inr m)
  then have "msg = m" "data' = data" "ctx' = ctx" "ret = 0"
    using assms(1) by (auto simp: rtsp_get_next_message_def)
  then show ?thesis using parse_interleaved_total_len [OF Inr] parse_interleaved_ok [OF Inr] by simp
next
  case (Inl e)
  have clear: "msg_total_len rtsp_message_clear = 0" by (simp add: rtsp_message_clear_def)
  show ?thesis
  proof (cases "e = Err (- EINVAL)")
    case False
    then show ?thesis
      using assms(1,3) parse_interleaved_error [OF Inl] Inl clear by (auto simp: rtsp_get_next_message_def)
  next
    case True
    obtain ret1 skip ctx1 where s: "start_message tp data ctx = Inr (ret1, skip, data', ctx1)"
      and f: "if ret1 \<noteq> 0 then ret = ret1 \<and> msg = rtsp_message_clear\<lparr>msg_total_len := skip\<rparr> \<and> ctx' = ctx1
        else finish_message data' ctx1 = (ret, msg, ctx')"
      using assms(1) Inl True by (auto simp: rtsp_get_next_message_def bindr_Inr_iff split: if_splits prod.splits)
    note ok = start_message_ok [OF s assms(2,3)]
    show ?thesis
    proof (cases "ret1 = 0")
      case False
      then show ?thesis using f ok by simp
    next
      case True
      with f have fin: "finish_message data' ctx1 = (ret, msg, ctx')" by simp
      from finish_message_ok [OF fin] ok(1,3) True assms(2) show ?thesis by auto
    qed
  qed
qed

lemma message_in_bounds_witness:
  "length ([CHR ''$'', CHR 0x01, CHR 0x00]) = 3 \<and>
   (case rtsp_get_next_message (\<lambda>_. Inl UB) ([CHR ''$'', CHR 0x01, CHR 0x00]) parser_ctx_init of
      Inr (ret, msg, data', ctx') \<Rightarrow> length data' = 3 \<and> unat (msg_total_len msg) \<le> 3
    | Inl e \<Rightarrow> False)"
proof -
  let ?d = "[CHR ''$'', CHR 0x01, CHR 0x00]"
  have g: "rtsp_get_next_message (\<lambda>_. Inl UB) ?d parser_ctx_init = Inr (- EAGAIN, rtsp_message_clear, ?d, parser_ctx_init)"
    by (simp add: rtsp_get_next_message_def rtsp_parse_interleaved_def start_message_def parser_ctx_init_def
        rtsp_message_clear_def find_double_newline_def rtsp_strnstr_def)
  have "ctx_ok ?d parser_ctx_init" by (simp add: ctx_ok_def parser_ctx_init_def rtsp_message_clear_def)
  from message_in_bounds [OF g _ this] show ?thesis by (simp add: g rtsp_message_clear_def)
qed

text \<open>
  C13: The receive loop ends on every buffer, by a return value other than success, after at most
  two messages per byte (plus the one that was pending).
\<close>

theorem message_loop_bound:
  assumes "message_loop tp data ctx = Inr (ms, ret, buf, ctx')"
  shows "ret \<noteq> 0 \<and> length ms \<le> 2 * length data + 1"
proof -
  have "ret \<noteq> 0 \<and> length ms \<le> loop_measure data ctx"
    using assms
  proof (induction tp data ctx arbitrary: ms rule: message_loop.induct)
    case (1 tp data ctx)
    obtain ret1 msg data1 ctx1 data2 where g: "rtsp_get_next_message tp data ctx = Inr (ret1, msg, data1, ctx1)"
      and r: "rtsp_buffer_remove_first_bytes data1 (msg_total_len msg) = Inr data2"
      using 1(2) by (subst (asm) message_loop.simps) (auto simp: bindr_Inr_iff)
    show ?case
    proof (cases "ret1 = 0")
      case False
      then show ?thesis using 1(2) g r by (subst (asm) message_loop.simps) simp
    next
      case True
      then obtain ms1 where m: "message_loop tp data2 ctx1 = Inr (ms1, ret, buf, ctx')" "ms = msg # ms1"
        using 1(2) g r by (subst (asm) message_loop.simps) (auto simp: bindr_Inr_iff)
      from get_next_message_progress [OF g [unfolded True] r]
        1(1) [OF g refl refl refl r _ m(1)] True m(2) show ?thesis by simp
    qed
  qed
  moreover have "loop_measure data ctx \<le> 2 * length data + 1"
    using length_filter_le [of "\<lambda>c. c \<noteq> NUL" data] by (auto simp: loop_measure_def text_bytes_def le_SucI)
  ultimately show ?thesis by linarith
qed

lemma message_loop_bound_witness:
  "\<exists>ms ret buf ctx. message_loop (\<lambda>_. Inl UB) [] parser_ctx_init = Inr (ms, ret, buf, ctx) \<and>
     ret \<noteq> 0 \<and> length ms \<le> 1"
proof -
  have "message_loop (\<lambda>_. Inl UB) [] parser_ctx_init = Inr ([], - EAGAIN, [], parser_ctx_init)"
    by (rule message_loop_again [OF get_next_nothing]) (simp add: idle_def parser_ctx_init_def)
  from message_loop_bound [OF this] this show ?thesis by auto
qed

section \<open>Two ways to lose the stream\<close>

lemma find_after_nul: "find_double_newline (NUL # s) = None"
  by (simp add: find_double_newline_def rtsp_strnstr_def)

text \<open>A buffer that starts with NUL never yields a message again, whatever is received.\<close>

lemma get_next_after_nul:
  "idle ctx \<Longrightarrow> rtsp_get_next_message tp (NUL # s) ctx = Inr (- EAGAIN, rtsp_message_clear, NUL # s, ctx)"
  using parse_text [of "NUL # s"] idle_type [of ctx]
  by (simp add: rtsp_get_next_message_def start_message_def find_after_nul rtsp_message_clear_def)

lemma receive_after_nul:
  "idle ctx \<Longrightarrow> receive_all tp chunks (NUL # s, ctx) = Inr ([], NUL # s @ concat chunks, ctx)"
proof (induction chunks arbitrary: s)
  case Nil
  then show ?case by simp
next
  case (Cons c cs)
  have "message_loop tp (NUL # s @ c) ctx = Inr ([], - EAGAIN, NUL # s @ c, ctx)"
    by (rule message_loop_again [OF get_next_after_nul [OF Cons.prems]])
  then show ?case using Cons.IH [OF Cons.prems, of "s @ c"] by (simp add: receive_def)
qed

lemma finish_enough:
  assumes "\<not> of_nat (length data) < msg_body_len (ctx_msg ctx) + ctx_header_len ctx"
  shows "\<exists>msg ctx'. finish_message data ctx = (0, msg, ctx') \<and> idle ctx' \<and>
    msg_total_len msg = msg_body_len (ctx_msg ctx) + ctx_header_len ctx \<and>
    msg_body_len msg = msg_body_len (ctx_msg ctx)"
  using assms by (simp add: finish_message_def Let_def idle_def)

text \<open>
  C40: A header with a Content-Length from -1 down to minus the length of its double newline is
  accepted, with a body length near \<open>2 ^ 64\<close>; it is handed on as a message, and the bytes left in
  the buffer keep the parser from ever finding another message, whatever is received later.
\<close>

theorem negative_length_blocks:
  assumes "idle ctx" "data \<noteq> []" "hd data \<noteq> CHR ''$''" "length data < 2 ^ 63"
    and "find_double_newline data = Some (p, n)"
    and "read_header tp (take (p + n) data) = Inr (ty, header, - int k)" "0 < k" "k \<le> n"
  shows "\<exists>msg data' residue ctx'. rtsp_get_next_message tp data ctx = Inr (0, msg, data', ctx') \<and>
    unat (msg_body_len msg) = 2 ^ 64 - k \<and>
    rtsp_buffer_remove_first_bytes data' (msg_total_len msg) = Inr residue \<and>
    (\<forall>chunks. receive_all tp chunks (residue, ctx') = Inr ([], residue @ concat chunks, ctx'))"
proof -
  note f = find_double_newline_found [OF assms(5)]
  have n: "n \<le> p + n" by simp
  have par: "rtsp_parse_interleaved data rtsp_message_clear = Inl (Err (- EINVAL))"
    using assms(2,3) by (simp add: parse_text)
  let ?hl = "of_nat (p + n) :: 64 word"
  let ?m = "(ctx_msg ctx)\<lparr>msg_type := ty, msg_header := header, msg_body_len := word_of_int (- int k)\<rparr>"
  let ?c1 = "\<lparr>ctx_msg = ?m, ctx_header_len = ?hl\<rparr>"
  have s: "start_message tp data ctx = Inr (0, 0, wipe data p n, ?c1)"
    using idle_type [OF assms(1)] assms(5,6) by (simp add: start_message_def Let_def del: of_nat_add)
  have total: "word_of_int (- int k) + ?hl = of_nat (p + n - k)"
    using assms(8) by (simp add: of_nat_diff)
  have u: "unat (of_nat m :: 64 word) = m" if "m < 2 ^ 63" for m using that by (simp add: unat_of_nat)
  have lw: "length (wipe data p n) = length data" by (rule length_wipe [OF f(1)])
  have nless: "\<not> of_nat (length (wipe data p n)) < (of_nat (p + n - k) :: 64 word)"
    using f(1) assms(4) u [of "length data"] u [of "p + n - k"] by (simp add: lw word_less_nat_alt)
  have c1: "msg_body_len (ctx_msg ?c1) = word_of_int (- int k)" "ctx_header_len ?c1 = ?hl" by simp_all
  have "\<exists>msg ctx'. finish_message (wipe data p n) ?c1 = (0, msg, ctx') \<and> idle ctx' \<and>
    msg_total_len msg = of_nat (p + n - k) \<and> msg_body_len msg = word_of_int (- int k)"
    using finish_enough [of "wipe data p n" ?c1, unfolded c1 total, OF nless] .
  then obtain msg ctx' where fin: "finish_message (wipe data p n) ?c1 = (0, msg, ctx')" and m: "idle ctx'"
    "msg_total_len msg = of_nat (p + n - k)" "msg_body_len msg = word_of_int (- int k)" by blast
  define residue where "residue = drop (p + n - k) (wipe data p n)"
  have rem: "rtsp_buffer_remove_first_bytes (wipe data p n) (msg_total_len msg) = Inr residue"
    using f(1) assms(4) u [of "p + n - k"] lw by (subst remove_first_bytes_drop) (simp_all add: m(2) residue_def)
  have "residue = replicate k NUL @ drop (p + n) data"
    using f(1) assms(8) by (simp add: residue_def wipe_def)
  then obtain r where r: "residue = NUL # r" using assms(7) by (cases k) simp_all
  have "unat (msg_body_len msg) = 2 ^ 64 - k"
  proof -
    have k: "k < 2 ^ 63" using assms(4,8) f(1) by simp
    have "uint (word_of_int (- int k) :: 64 word) = (- int k) mod 2 ^ 64"
      by (simp only: unsigned_of_int take_bit_eq_mod) simp
    also have "\<dots> = 2 ^ 64 - int k" using assms(7) k by (simp add: zmod_zminus1_eq_if)
    finally have "uint (msg_body_len msg) = int (2 ^ 64 - k)" using k by (simp add: m(3) of_nat_diff)
    then show ?thesis by (metis nat_int unat_eq_nat_uint)
  qed
  then show ?thesis
    using get_next_text [OF par s fin] rem receive_after_nul [OF m(1)] by (auto simp: r)
qed

definition example_negative :: rtsp_response_header where
  "example_negative = example_response\<lparr>resp_content_length := - 1\<rparr>"

lemma example_negative_lines:
  "all_response_lines tf example_negative =
     [''RTSP/1.0 200 OK'', ''CSeq: 7'', ''Session: AB;timeout=60'', ''Public: OPTIONS,ANNOUNCE'',
      ''Content-Length: -1'', ''Content-Base: rtsp://h/'']"
  by (simp add: all_response_lines_def response_lines1_def response_lines2_def response_line_def example_negative_def
        example_response_def rtsp_response_header_clear_def line_if_def text_line_def ext_lines_def
        session_text_def methods_text_def method_names_def method_flags_def show_int_def
        show_nat.simps digit_char_def char_of_def bit_simps range_zero_def time_zero_def)

lemma negative_length_blocks_witness:
  "\<exists>msg data' residue ctx'.
     rtsp_get_next_message (\<lambda>_. Inl UB) (response_text (\<lambda>_ _. Inl UB) example_negative) parser_ctx_init =
       Inr (0, msg, data', ctx') \<and>
     unat (msg_body_len msg) = 2 ^ 64 - 1 \<and>
     rtsp_buffer_remove_first_bytes data' (msg_total_len msg) = Inr residue \<and>
     (\<forall>chunks. receive_all (\<lambda>_. Inl UB) chunks (residue, ctx') = Inr ([], residue @ concat chunks, ctx'))"
proof -
  let ?tf = "\<lambda>_ _. Inl UB" and ?tp = "\<lambda>_. Inl UB"
  let ?d = "response_text ?tf example_negative"
  have wf: "wf_response ?tf ?tp example_negative"
    using wf_example_response [of ?tf ?tp] by (simp add: wf_response_def example_negative_def)
  have sent: "response_sent example_negative = example_negative"
    using example_response_sent by (simp add: example_negative_def response_sent_def example_response_def
        rtsp_response_header_clear_def)
  have str: "resp_status_string example_negative = Some ''OK''" "resp_content_length example_negative = - 1"
    by (simp_all add: example_negative_def example_response_fields)
  have lines: "\<forall>l \<in> set (all_response_lines ?tf example_negative). is_line l"
    by (simp add: example_negative_lines is_line_def)
  from str have ne: "resp_status_string example_negative \<noteq> None" "resp_status_string example_negative \<noteq> Some []" by simp_all
  note rd = response_read_text(1,2) [OF wf ne lines, of "[]"] response_read_text(3) [OF wf ne lines]
  obtain r where r: "?d = ''RTSP/1.0'' @ r" "length ?d = 123"
    by (simp add: response_text_def example_negative_lines crlf_lines_def)
  have hd: "read_header ?tp (take (length ?d - 4 + 4) ?d) = Inr (RTSP_MESSAGE_TYPE_RESPONSE, RespHeader example_negative, - int 1)"
    using rd(1,3) r(1) str(2) sent by (simp add: read_header_def)
  have "idle parser_ctx_init" "?d \<noteq> []" "hd ?d \<noteq> CHR ''$''" "length ?d < 2 ^ 63"
    using r by (simp_all add: idle_def parser_ctx_init_def)
  from negative_length_blocks [OF this rd(2) [simplified] hd] show ?thesis by simp
qed

text \<open>
  The first three bytes of an interleaved packet on channel 10 whose length is between 2560 and
  2815, received alone, are taken for a text header ended by a double newline: they are refused and
  dropped, so the rest of the packet is read as something else.
\<close>

theorem packet_start_misread:
  assumes "idle ctx" "length p < 2 ^ 16" "ucast (drop_bit 8 (of_nat (length p) :: 16 word)) = (10 :: 8 word)"
  shows "\<exists>ctx'. idle ctx' \<and> receive tp (take 3 (packet 10 p)) ([], ctx) = Inr ([], - EPROTO, [], ctx')"
proof -
  have nl: "char_of_byte 10 = LF" by (simp add: char_of_byte_def char_of_def bit_simps)
  have d: "take 3 (packet 10 p) = [CHR ''$'', LF, LF]" by (simp add: packet_def assms(3) nl)
  have two: "replicate 2 NUL = [NUL, NUL]" by (simp add: numeral_eq_Suc)
  have f: "find_double_newline [CHR ''$'', LF, LF] = Some (1, 2)"
    by (simp add: find_double_newline_def rtsp_strnstr_def)
  have "strtok_r {CR, LF} [CHR ''$''] = (Some [CHR ''$''], [])" by (simp add: strtok_r_def)
  moreover have "read_request_line [CHR ''$''] = Inl (Err (- EPROTO))"
    by (simp add: read_request_line_def strtok_r_def rtsp_method_type_enum_def method_types_def)
  ultimately have h: "read_header tp [CHR ''$'', LF, LF] = Inl (Err (- EPROTO))"
    using f by (simp add: read_header_def rtsp_request_header_read_def)
  have "\<exists>ctx'. rtsp_get_next_message tp [CHR ''$'', LF, LF] ctx =
      Inr (- EPROTO, rtsp_message_clear\<lparr>msg_total_len := 3\<rparr>, [CHR ''$'', NUL, NUL], ctx') \<and> idle ctx'"
    using h f idle_type [OF assms(1)] parse_short [of "[CHR ''$'', LF, LF]"]
    by (simp add: rtsp_get_next_message_def start_message_def Let_def wipe_def idle_def two)
  then obtain ctx' where g: "rtsp_get_next_message tp [CHR ''$'', LF, LF] ctx =
      Inr (- EPROTO, rtsp_message_clear\<lparr>msg_total_len := 3\<rparr>, [CHR ''$'', NUL, NUL], ctx')" "idle ctx'" by blast
  then have "message_loop tp [CHR ''$'', LF, LF] ctx = Inr ([], - EPROTO, [], ctx')"
    by (subst message_loop.simps) (simp add: remove_first_bytes_drop)
  then show ?thesis using g(2) by (simp add: receive_def d)
qed

lemma packet_start_misread_witness:
  "\<exists>ctx'. idle ctx' \<and> receive (\<lambda>_. Inl UB) (take 3 (packet 10 (replicate 2560 (CHR ''x'')))) ([], parser_ctx_init) =
     Inr ([], - EPROTO, [], ctx')"
  by (rule packet_start_misread) (simp_all add: idle_def parser_ctx_init_def)

end
