(* ===== verification/RtspEffects.thy ===== *)
theory RtspEffects
  imports RtspPrelude
begin

text \<open>
  What the models of the server and of the client share: linked lists whose nodes are changed in
  place, walks over linked lists whose nodes the callbacks of the application may free, and a rule
  calculus for results (\<open>ensures\<close>).
\<close>

section \<open>Changing the nodes of a list\<close>

definition update_where :: "('a \<Rightarrow> bool) \<Rightarrow> ('a \<Rightarrow> 'a) \<Rightarrow> 'a list \<Rightarrow> 'a list" where
  "update_where p f xs = map (\<lambda>x. if p x then f x else x) xs"

lemma update_where_none: "a \<notin> g ` set xs \<Longrightarrow> update_where (\<lambda>x. g x = a) f xs = xs"
  by (auto simp: update_where_def intro!: map_idI)

lemma update_where_append [simp]: "update_where p f (xs @ ys) = update_where p f xs @ update_where p f ys"
  by (simp add: update_where_def)

lemma update_where_Cons [simp]: "update_where p f (x # xs) = (if p x then f x else x) # update_where p f xs"
  by (simp add: update_where_def)

lemma length_update_where [simp]: "length (update_where p f xs) = length xs"
  by (simp add: update_where_def)

lemma map_update_where: "(\<And>x. g (f x) = g x) \<Longrightarrow> map g (update_where p f xs) = map g xs"
  by (simp add: update_where_def)

lemma find_update_where:
  assumes "\<And>x. g (f x) = g x"
  shows "find (\<lambda>x. g x = b) (update_where (\<lambda>x. g x = a) f xs) =
         (if a = b then map_option f (find (\<lambda>x. g x = b) xs) else find (\<lambda>x. g x = b) xs)"
  using assms by (induction xs) (auto simp: update_where_def)

lemma find_update_where_other:
  assumes "\<And>x. P (f x) = P x"
  shows "find P (update_where q f xs) = map_option (\<lambda>x. if q x then f x else x) (find P xs)"
  using assms by (induction xs) (auto simp: update_where_def)

lemma find_split:
  assumes "find (\<lambda>x. g x = a) xs = Some x" "distinct (map g xs)"
  shows "\<exists>us vs. xs = us @ x # vs \<and> g x = a \<and> a \<notin> g ` set us \<and> a \<notin> g ` set vs"
proof -
  from assms(1) have x: "x \<in> set xs" "g x = a"
    by (auto simp: find_Some_iff)
  then obtain us vs where "xs = us @ x # vs"
    by (meson split_list)
  with x assms(2) show ?thesis
    by (intro exI [of _ us] exI [of _ vs]) auto
qed

lemma find_by_key: "x \<in> set xs \<Longrightarrow> distinct (map g xs) \<Longrightarrow> find (\<lambda>y. g y = g x) xs = Some x"
  by (induction xs) (auto simp: image_iff)

lemma length_filter_other:
  assumes "distinct (map g xs)" "a \<in> g ` set xs"
  shows "length (filter (\<lambda>x. g x \<noteq> a) xs) = length xs - 1"
proof -
  have "length (filter (\<lambda>x. g x \<noteq> a) xs) = length (removeAll a (map g xs))"
    by (induction xs) auto
  also have "\<dots> = length (remove1 a (map g xs))"
    using assms(1) by (simp add: distinct_remove1_removeAll)
  finally show ?thesis
    using assms(2) by (simp add: length_remove1)
qed

lemma distinct_replace:
  assumes "distinct (as @ xs @ bs)" "distinct ys" "\<And>y. y \<in> set ys \<Longrightarrow> y \<in> set (as @ bs) \<Longrightarrow> y \<in> set xs"
  shows "distinct (as @ ys @ bs)"
  using assms by auto

section \<open>Walks over lists\<close>

fun call_each :: "('a \<Rightarrow> 's \<Rightarrow> 's result) \<Rightarrow> 'a list \<Rightarrow> 's \<Rightarrow> 's result" where
  "call_each f [] st = Inr st"
| "call_each f (x # xs) st = bindr (f x st) (call_each f xs)"

text \<open>
  The walks over linked lists, whose nodes the callbacks may free. \<open>list_walk_entry_forward\<close> reads the
  next node after the body, so that the body must not free the current one; the \<open>_safe\<close> variant reads
  it before, so that the body must not free the next one. Nodes freed otherwise are not visited.
\<close>

fun walk :: "('a \<Rightarrow> 's \<Rightarrow> bool) \<Rightarrow> ('a \<Rightarrow> 's \<Rightarrow> 's result) \<Rightarrow> 'a list \<Rightarrow>
    's \<Rightarrow> 's result" where
  "walk live f [] st = Inr st"
| "walk live f (x # xs) st =
     (if live x st then bindr (f x st) (\<lambda>st'. if live x st' then walk live f xs st' else Inl UB)
      else walk live f xs st)"

fun walk_safe :: "('a \<Rightarrow> 's \<Rightarrow> bool) \<Rightarrow> ('a \<Rightarrow> 's \<Rightarrow> 's result) \<Rightarrow> 'a list \<Rightarrow>
    's \<Rightarrow> 's result" where
  "walk_safe live f [] st = Inr st"
| "walk_safe live f (x # xs) st =
     (if live x st then
        bindr (f x st) (\<lambda>st'.
          case find (\<lambda>y. live y st) xs of
            None \<Rightarrow> Inr st'
          | Some y \<Rightarrow> if live y st' then walk_safe live f xs st' else Inl UB)
      else walk_safe live f xs st)"

section \<open>Rules for results\<close>

definition ensures :: "('a \<Rightarrow> bool) \<Rightarrow> 'a result \<Rightarrow> bool" where
  "ensures P r \<longleftrightarrow> (\<forall>x. r = Inr x \<longrightarrow> P x)"

lemma ensures_Inr [simp]: "ensures P (Inr x) = P x"
  by (simp add: ensures_def)

lemma ensures_Inl [simp]: "ensures P (Inl err)"
  by (simp add: ensures_def)

lemma ensures_bind: "ensures Q r \<Longrightarrow> (\<And>x. Q x \<Longrightarrow> ensures P (f x)) \<Longrightarrow> ensures P (bindr r f)"
  by (cases r) auto

lemma ensures_any: "(\<And>x. ensures P (f x)) \<Longrightarrow> ensures P (bindr r f)"
  by (cases r) auto

lemma ensuresD: "ensures P r \<Longrightarrow> r = Inr x \<Longrightarrow> P x"
  by simp

lemma call_each_ensures:
  assumes "P st" "\<And>x st. P st \<Longrightarrow> ensures P (f x st)"
  shows "ensures P (call_each f xs st)"
  using assms(1) by (induction xs arbitrary: st) (auto intro!: ensures_bind [OF assms(2)])

lemma walk_ensures:
  assumes "P st" "\<And>x st. P st \<Longrightarrow> ensures P (f x st)"
  shows "ensures P (walk live f xs st)"
  using assms(1) by (induction xs arbitrary: st) (auto intro!: ensures_bind [OF assms(2)])

lemma walk_safe_ensures:
  assumes "P st" "\<And>x st. P st \<Longrightarrow> ensures P (f x st)"
  shows "ensures P (walk_safe live f xs st)"
  using assms(1) by (induction xs arbitrary: st) (auto intro!: ensures_bind [OF assms(2)] split: option.split)

end
