(* ===== verification/RtspServerState.thy ===== *)
theory RtspServerState
  imports RtspStream RtspUrl RtspEffects
begin

text \<open>
  The state of the server: \<open>struct rtsp_server\<close> with its sessions, their medias and the pending
  requests (\<open>src/rtsp_server_priv.h\<close>), and the operations of \<open>src/rtsp_server_session.c\<close> and
  \<open>src/rtsp_server_request.c\<close>. A structure is known by its address, a number that is never
  reused; what is handed to libpomp and to the application is recorded as output.
\<close>

section \<open>Data\<close>

record server_media =
  sm_addr :: nat
  sm_uri :: "string option"
  sm_path :: string
  sm_userdata :: nat
  sm_is_tearing_down :: bool

record server_session =
  ss_addr :: nat
  ss_session_id :: string
  ss_uri :: "string option"
  ss_timeout_ms :: "32 word"
  ss_timer :: "32 word option"
  ss_playing :: bool
  ss_recording :: bool
  ss_range :: rtsp_range
  ss_scale :: c_float
  ss_op_in_progress :: rtsp_method_type
  ss_media_count :: nat
  ss_medias :: "server_media list"

record pending_media =
  pm_media :: nat
  pm_replied :: bool

record pending_request =
  pr_addr :: nat
  pr_conn :: "nat option"
  pr_request_header :: rtsp_request_header
  pr_response_header :: rtsp_response_header
  pr_timeout :: "64 word"
  pr_first_reply :: bool
  pr_in_callback :: bool
  pr_replied :: bool
  pr_body :: "string option"
  pr_media_count :: nat
  pr_medias :: "pending_media list"

datatype rtsp_server_teardown_reason =
    RTSP_SERVER_TEARDOWN_REASON_CLIENT_REQUEST
  | RTSP_SERVER_TEARDOWN_REASON_SESSION_TIMEOUT
  | RTSP_SERVER_TEARDOWN_REASON_FORCED_TEARDOWN

definition rtsp_server_teardown_reason_str :: "rtsp_server_teardown_reason \<Rightarrow> string" where
  "rtsp_server_teardown_reason_str val =
     (case val of
        RTSP_SERVER_TEARDOWN_REASON_CLIENT_REQUEST \<Rightarrow> ''CLIENT_REQUEST''
      | RTSP_SERVER_TEARDOWN_REASON_SESSION_TIMEOUT \<Rightarrow> ''SESSION_TIMEOUT''
      | RTSP_SERVER_TEARDOWN_REASON_FORCED_TEARDOWN \<Rightarrow> ''FORCED_TEARDOWN'')"

text \<open>What leaves the server: bytes for one connection, and bytes for all of them.\<close>

datatype server_output = SentTo nat string | Broadcast string

record rtsp_server =
  srv_max_msg_size :: nat
  srv_software_name :: string
  srv_reply_timeout_ms :: "32 word"
  srv_session_timeout_ms :: "32 word"
  srv_session_count :: nat
  srv_sessions :: "server_session list"
  srv_pending_request_count :: nat
  srv_pending_requests :: "pending_request list"
  srv_cseq :: "32 word"
  srv_idle :: "nat list"
  srv_next_addr :: nat
  srv_output :: "server_output list"

text \<open>
  The environment of one operation: the monotonic clock in microseconds, the formatting of dates,
  the result of sending to a connection and to all of them, and the successful draws of
  \<open>futils_random64\<close>, which fails after them.
\<close>

record server_env =
  env_now :: "64 word"
  env_format :: time_formatter
  env_send :: "nat \<Rightarrow> string \<Rightarrow> int"
  env_broadcast :: "string \<Rightarrow> int"
  env_random :: "64 word list"

definition RTSP_SERVER_SESSION_ID_LENGTH :: nat where "RTSP_SERVER_SESSION_ID_LENGTH = 8"

section \<open>Lists of nodes\<close>

abbreviation find_session :: "rtsp_server \<Rightarrow> nat \<Rightarrow> server_session option" where
  "find_session srv a \<equiv> find (\<lambda>s. ss_addr s = a) (srv_sessions srv)"

abbreviation find_request :: "rtsp_server \<Rightarrow> nat \<Rightarrow> pending_request option" where
  "find_request srv a \<equiv> find (\<lambda>p. pr_addr p = a) (srv_pending_requests srv)"

definition set_session :: "nat \<Rightarrow> (server_session \<Rightarrow> server_session) \<Rightarrow> rtsp_server \<Rightarrow> rtsp_server" where
  "set_session a f srv =
     srv\<lparr>srv_sessions := update_where (\<lambda>s. ss_addr s = a) f (srv_sessions srv)\<rparr>"

definition set_request :: "nat \<Rightarrow> (pending_request \<Rightarrow> pending_request) \<Rightarrow> rtsp_server \<Rightarrow> rtsp_server" where
  "set_request a f srv =
     srv\<lparr>srv_pending_requests := update_where (\<lambda>p. pr_addr p = a) f (srv_pending_requests srv)\<rparr>"

text \<open>\<open>media->session\<close>: the session that holds the media; none when the media has been freed.\<close>

definition media_session :: "rtsp_server \<Rightarrow> nat \<Rightarrow> server_session option" where
  "media_session srv m = find (\<lambda>s. m \<in> set (map sm_addr (ss_medias s))) (srv_sessions srv)"

section \<open>Sessions\<close>

definition session_id_eq :: "string \<Rightarrow> string \<Rightarrow> bool" where
  "session_id_eq a b \<longleftrightarrow> take RTSP_SERVER_SESSION_ID_LENGTH a = take RTSP_SERVER_SESSION_ID_LENGTH b"

text \<open>The delay the session timer is set to; without a timer nothing is set.\<close>

definition session_delay :: "32 word \<Rightarrow> 32 word" where
  "session_delay timeout_ms = (12 * timeout_ms + 9) div 10"

definition rtsp_server_session_reset_timeout :: "server_session \<Rightarrow> server_session" where
  "rtsp_server_session_reset_timeout s =
     s\<lparr>ss_timer := map_option (\<lambda>_. session_delay (ss_timeout_ms s)) (ss_timer s)\<rparr>"

definition session_id_of :: "64 word \<Rightarrow> string" where
  "session_id_of id64 = pad0 16 (show_hex digit_char (unat id64))"

definition rtsp_server_session_add ::
  "server_env \<Rightarrow> 32 word \<Rightarrow> string option \<Rightarrow> rtsp_server \<Rightarrow> nat option \<times> rtsp_server" where
  "rtsp_server_session_add e timeout_ms uri srv =
     (case find (\<lambda>sid. \<not> (\<exists>s \<in> set (srv_sessions srv). session_id_eq (ss_session_id s) sid))
             (map session_id_of (env_random e)) of
        None \<Rightarrow> (None, srv)
      | Some sid \<Rightarrow>
          let a = srv_next_addr srv;
              session = \<lparr>ss_addr = a, ss_session_id = sid, ss_uri = uri, ss_timeout_ms = timeout_ms,
                         ss_timer = (if timeout_ms > 0 then Some (session_delay timeout_ms) else None),
                         ss_playing = False, ss_recording = False, ss_range = range_zero,
                         ss_scale = Fin 0, ss_op_in_progress = RTSP_METHOD_TYPE_UNKNOWN,
                         ss_media_count = 0, ss_medias = []\<rparr>
          in (Some a, srv\<lparr>srv_next_addr := a + 1, srv_sessions := srv_sessions srv @ [session],
                          srv_session_count := srv_session_count srv + 1\<rparr>))"

definition rtsp_server_session_remove :: "nat \<Rightarrow> rtsp_server \<Rightarrow> int \<times> rtsp_server" where
  "rtsp_server_session_remove a srv =
     (case find_session srv a of
        None \<Rightarrow> (- ENOENT, srv)
      | Some s \<Rightarrow>
          (0, srv\<lparr>srv_sessions := remove1 s (srv_sessions srv),
                  srv_session_count := srv_session_count srv - 1,
                  srv_idle := removeAll a (srv_idle srv)\<rparr>))"

definition rtsp_server_session_find :: "rtsp_server \<Rightarrow> string \<Rightarrow> server_session option" where
  "rtsp_server_session_find srv session_id =
     find (\<lambda>s. session_id_eq (ss_session_id s) session_id) (srv_sessions srv)"

section \<open>Medias of a session\<close>

definition rtsp_server_session_media_find :: "server_session \<Rightarrow> string \<Rightarrow> server_media option" where
  "rtsp_server_session_media_find session path = find (\<lambda>m. sm_path m = path) (ss_medias session)"

text \<open>A NULL path is refused, as is one that the session has.\<close>

definition rtsp_server_session_media_add ::
  "nat \<Rightarrow> string option \<Rightarrow> string option \<Rightarrow> rtsp_server \<Rightarrow> nat option \<times> rtsp_server" where
  "rtsp_server_session_media_add session uri path srv =
     (case (find_session srv session, path) of
        (Some s, Some p) \<Rightarrow>
          if rtsp_server_session_media_find s p \<noteq> None then (None, srv)
          else
            let a = srv_next_addr srv;
                media = \<lparr>sm_addr = a, sm_uri = uri, sm_path = p, sm_userdata = 0, sm_is_tearing_down = False\<rparr>
            in (Some a, (set_session session
                  (\<lambda>s. s\<lparr>ss_medias := ss_medias s @ [media], ss_media_count := ss_media_count s + 1\<rparr>) srv)
                  \<lparr>srv_next_addr := a + 1\<rparr>)
      | _ \<Rightarrow> (None, srv))"

definition rtsp_server_session_media_remove :: "nat \<Rightarrow> nat \<Rightarrow> rtsp_server \<Rightarrow> int \<times> rtsp_server" where
  "rtsp_server_session_media_remove session media srv =
     (case find_session srv session of
        None \<Rightarrow> (- EINVAL, srv)
      | Some s \<Rightarrow>
          if media \<notin> set (map sm_addr (ss_medias s)) then (- ENOENT, srv)
          else
            (0, set_session session
                  (\<lambda>s. s\<lparr>ss_medias := filter (\<lambda>m. sm_addr m \<noteq> media) (ss_medias s),
                         ss_media_count := ss_media_count s - 1\<rparr>) srv))"

section \<open>Pending requests\<close>

definition rtsp_server_pending_request_add ::
  "server_env \<Rightarrow> nat option \<Rightarrow> 32 word \<Rightarrow> rtsp_server \<Rightarrow> nat \<times> rtsp_server" where
  "rtsp_server_pending_request_add e conn timeout srv =
     (let a = srv_next_addr srv;
          request = \<lparr>pr_addr = a, pr_conn = conn, pr_request_header = rtsp_request_header_clear,
                     pr_response_header = rtsp_response_header_clear,
                     pr_timeout = (if timeout > 0 then env_now e + ucast timeout * 1000 else 0),
                     pr_first_reply = True, pr_in_callback = False, pr_replied = False, pr_body = None,
                     pr_media_count = 0, pr_medias = []\<rparr>
      in (a, srv\<lparr>srv_next_addr := a + 1, srv_pending_requests := srv_pending_requests srv @ [request],
                 srv_pending_request_count := srv_pending_request_count srv + 1\<rparr>))"

definition rtsp_server_pending_request_remove :: "nat \<Rightarrow> rtsp_server \<Rightarrow> int \<times> rtsp_server" where
  "rtsp_server_pending_request_remove a srv =
     (case find_request srv a of
        None \<Rightarrow> (- ENOENT, srv)
      | Some p \<Rightarrow>
          (0, srv\<lparr>srv_pending_requests := remove1 p (srv_pending_requests srv),
                  srv_pending_request_count := srv_pending_request_count srv - 1\<rparr>))"

definition rtsp_server_pending_request_find :: "rtsp_server \<Rightarrow> nat \<Rightarrow> int" where
  "rtsp_server_pending_request_find srv a = (if find_request srv a \<noteq> None then 0 else - ENOENT)"

definition rtsp_server_pending_request_media_add :: "nat \<Rightarrow> nat \<Rightarrow> rtsp_server \<Rightarrow> rtsp_server" where
  "rtsp_server_pending_request_media_add request media srv =
     set_request request
       (\<lambda>p. p\<lparr>pr_medias := pr_medias p @ [\<lparr>pm_media = media, pm_replied = False\<rparr>],
              pr_media_count := pr_media_count p + 1\<rparr>) srv"

text \<open>The media is named by its position in the list of the request.\<close>

definition rtsp_server_pending_request_media_remove :: "nat \<Rightarrow> nat \<Rightarrow> rtsp_server \<Rightarrow> int \<times> rtsp_server" where
  "rtsp_server_pending_request_media_remove request i srv =
     (case find_request srv request of
        None \<Rightarrow> (- EINVAL, srv)
      | Some p \<Rightarrow>
          if i \<ge> length (pr_medias p) then (- ENOENT, srv)
          else
            (0, set_request request
                  (\<lambda>p. p\<lparr>pr_medias := take i (pr_medias p) @ drop (i + 1) (pr_medias p),
                         pr_media_count := pr_media_count p - 1\<rparr>) srv))"

end
