(* ===== verification/RtspServerReply.thy ===== *)
theory RtspServerReply
  imports RtspServerState
begin

text \<open>
  The replies of the server (\<open>src/rtsp_server.c\<close>): \<open>error_response\<close> and the functions
  \<open>rtsp_server_reply_to_*\<close> by which the application answers a pending request. Each returns the C
  return value and the new state; \<open>Inl UB\<close> stands for the use of a freed media or a NULL pointer.
\<close>

section \<open>Building and sending a response\<close>

text \<open>\<open>RTSP_STATUS_CLASS\<close> (of a status that is not negative)\<close>

definition is_error_status :: "int \<Rightarrow> bool" where
  "is_error_status status \<longleftrightarrow> status < 0 \<or> status div 100 > 2"

definition response_common ::
  "server_env \<Rightarrow> rtsp_server \<Rightarrow> int \<Rightarrow> pending_request \<Rightarrow> rtsp_response_header \<Rightarrow> rtsp_response_header" where
  "response_common e srv status p h =
     h\<lparr>resp_status_code := fst (rtsp_status_get status),
       resp_status_string := Some (snd (rtsp_status_get status)),
       resp_cseq := req_cseq (pr_request_header p),
       resp_server := Some (srv_software_name srv),
       resp_date := env_now e div 1000000\<rparr>"

definition write_response ::
  "server_env \<Rightarrow> rtsp_server \<Rightarrow> rtsp_response_header \<Rightarrow> string \<Rightarrow> string result" where
  "write_response e srv h body =
     bindr (rtsp_response_header_write (env_format e) h
       \<lparr>rs_str = [], rs_max_len = srv_max_msg_size srv\<rparr>) (\<lambda>s.
     bindr (if body = [] then Inr s else rtsp_sprintf s body) (\<lambda>s.
     Inr (rs_str s)))"

definition send_to :: "server_env \<Rightarrow> nat \<Rightarrow> string \<Rightarrow> rtsp_server \<Rightarrow> int \<times> rtsp_server" where
  "send_to e conn s srv = (env_send e conn s, srv\<lparr>srv_output := srv_output srv @ [SentTo conn s]\<rparr>)"

text \<open>
  The response header of the request is written, followed by the body, and sent. The flag tells
  whether writing failed, which callers answer with an error status.
\<close>

definition respond ::
  "server_env \<Rightarrow> nat \<Rightarrow> rtsp_response_header \<Rightarrow> string \<Rightarrow> nat \<Rightarrow> rtsp_server \<Rightarrow>
   (int \<times> bool \<times> rtsp_server) result" where
  "respond e conn h body r srv0 =
     (let srv = set_request r (\<lambda>p. p\<lparr>pr_response_header := h\<rparr>) srv0 in
      case write_response e srv h body of
        Inl UB \<Rightarrow> Inl UB
      | Inl (Err ret) \<Rightarrow> Inr (ret, True, srv)
      | Inr s \<Rightarrow> (case send_to e conn s srv of (ret, srv) \<Rightarrow> Inr (ret, False, srv)))"

definition error_response :: "server_env \<Rightarrow> nat \<Rightarrow> int \<Rightarrow> rtsp_server \<Rightarrow> (int \<times> rtsp_server) result" where
  "error_response e r status srv =
     (case find_request srv r of
        None \<Rightarrow> Inr (- EINVAL, srv)
      | Some p \<Rightarrow>
          if status = 0 then Inr (- EINVAL, srv)
          else
            (case pr_conn p of
               None \<Rightarrow> Inr (- ECONNRESET, srv)
             | Some conn \<Rightarrow>
                 bindr (respond e conn (response_common e srv status p (pr_response_header p)) [] r srv)
                   (\<lambda>(ret, _, srv). Inr (ret, srv))))"

definition error_response_if :: "server_env \<Rightarrow> nat \<Rightarrow> int \<Rightarrow> rtsp_server \<Rightarrow> rtsp_server result" where
  "error_response_if e r error_status srv =
     (if error_status \<noteq> 0 then bindr (error_response e r error_status srv) (\<lambda>(_, srv). Inr srv)
      else Inr srv)"

section \<open>End of a reply\<close>

definition clear_op :: "server_session \<Rightarrow> server_session" where
  "clear_op s = s\<lparr>ss_op_in_progress := RTSP_METHOD_TYPE_UNKNOWN\<rparr>"

text \<open>
  The request is marked as replied; outside of the handler that called the application it is
  removed, with the operation in progress of its session.
\<close>

definition finish_reply :: "nat \<Rightarrow> nat option \<Rightarrow> rtsp_server \<Rightarrow> rtsp_server" where
  "finish_reply r session srv0 =
     (let srv = set_request r (\<lambda>p. p\<lparr>pr_replied := True\<rparr>) srv0 in
      case find_request srv r of
        None \<Rightarrow> srv
      | Some p \<Rightarrow>
          if pr_in_callback p then srv
          else
            let srv = (case session of None \<Rightarrow> srv | Some a \<Rightarrow> set_session a clear_op srv) in
            snd (rtsp_server_pending_request_remove r srv))"

text \<open>The medias marked as torn down are removed, and the session when no other media is left.\<close>

definition remove_torn_down :: "nat \<Rightarrow> rtsp_server \<Rightarrow> rtsp_server" where
  "remove_torn_down session srv0 =
     (case find_session srv0 session of
        None \<Rightarrow> srv0
      | Some s \<Rightarrow>
          let srv = fold (\<lambda>m srv. if sm_is_tearing_down m
                                 then snd (rtsp_server_session_media_remove session (sm_addr m) srv) else srv)
                      (ss_medias s) srv0 in
          if \<exists>m \<in> set (ss_medias s). \<not> sm_is_tearing_down m then srv
          else snd (rtsp_server_session_remove session srv))"

section \<open>Replies to ANNOUNCE, DESCRIBE and SETUP\<close>

definition rtsp_server_reply_to_announce ::
  "server_env \<Rightarrow> nat \<Rightarrow> int \<Rightarrow> (string \<times> string) list \<Rightarrow> rtsp_server \<Rightarrow> (int \<times> rtsp_server) result" where
  "rtsp_server_reply_to_announce e r status ext srv =
     (case find_request srv r of
        None \<Rightarrow> Inr (- ENOENT, srv)
      | Some p \<Rightarrow>
          bindr
            (case pr_conn p of
               None \<Rightarrow> Inr (- ECONNRESET, 0, srv)
             | Some conn \<Rightarrow>
                 if is_error_status status then Inr (0, status, srv)
                 else
                   bindr (respond e conn
                     (rtsp_response_header_copy_ext ext (response_common e srv status p (pr_response_header p)))
                     [] r srv) (\<lambda>(ret, failed, srv).
                   Inr (ret, if failed then 500 else 0, srv)))
            (\<lambda>(ret, error_status, srv).
          bindr (error_response_if e r error_status srv) (\<lambda>srv.
          Inr (ret, finish_reply r None srv))))"

definition rtsp_server_reply_to_describe ::
  "server_env \<Rightarrow> nat \<Rightarrow> int \<Rightarrow> (string \<times> string) list \<Rightarrow> string option \<Rightarrow> rtsp_server \<Rightarrow>
   (int \<times> rtsp_server) result" where
  "rtsp_server_reply_to_describe e r status ext session_description srv =
     (case find_request srv r of
        None \<Rightarrow> Inr (- ENOENT, srv)
      | Some p \<Rightarrow>
          bindr
            (case pr_conn p of
               None \<Rightarrow> Inr (- ECONNRESET, 0, srv)
             | Some conn \<Rightarrow>
                 if is_error_status status then Inr (0, status, srv)
                 else if session_description = None \<or> session_description = Some [] then
                   Inr (- EINVAL, 500, srv)
                 else if length (the session_description) \<ge> RTSP_SESSION_DESCRIPTION_MAX_LEN then
                   Inr (- EINVAL, 500, srv)
                 else
                   bindr (respond e conn
                     (rtsp_response_header_copy_ext ext
                       ((response_common e srv status p (pr_response_header p))
                          \<lparr>resp_content_length := int (length (the session_description)),
                           resp_content_type := Some ''application/sdp'',
                           resp_content_base := req_uri (pr_request_header p)\<rparr>))
                     (the session_description) r srv) (\<lambda>(ret, failed, srv).
                   Inr (ret, if failed then 500 else 0, srv)))
            (\<lambda>(ret, error_status, srv).
          bindr (error_response_if e r error_status srv) (\<lambda>srv.
          Inr (ret, finish_reply r None srv))))"

text \<open>The transport of the answer to SETUP, from the one transport of the request.\<close>

definition setup_transport ::
  "rtsp_transport_header \<Rightarrow> 16 word \<Rightarrow> 16 word \<Rightarrow> bool \<Rightarrow> 32 word \<Rightarrow> rtsp_transport_header" where
  "setup_transport t src_stream src_control valid ssrc_value =
     rtsp_transport_header_new
       \<lparr>transport_protocol := Some ''RTP'', transport_profile := Some ''AVP'',
        lower_transport := lower_transport t, delivery := delivery t, trsp_method := trsp_method t,
        interleaved := (if lower_transport t = RTSP_LOWER_TRANSPORT_TCP then interleaved t
                        else interleaved rtsp_transport_header_new),
        dst_stream_port := dst_stream_port t, dst_control_port := dst_control_port t,
        src_stream_port := src_stream, src_control_port := src_control,
        ssrc_valid := valid, ssrc := ssrc_value\<rparr>"

text \<open>
  A failed setup of the first media of a session schedules the removal of the session; a failed
  setup of a later media leaves that media in the session.
\<close>

definition setup_failed :: "nat \<Rightarrow> rtsp_server \<Rightarrow> rtsp_server" where
  "setup_failed session srv =
     (case find_session srv session of
        None \<Rightarrow> srv
      | Some s \<Rightarrow>
          if ss_media_count s = 1 then srv\<lparr>srv_idle := srv_idle srv @ [session]\<rparr> else srv)"

definition set_userdata :: "nat \<Rightarrow> nat \<Rightarrow> server_session \<Rightarrow> server_session" where
  "set_userdata m userdata s =
     s\<lparr>ss_medias := update_where (\<lambda>x. sm_addr x = m) (\<lambda>x. x\<lparr>sm_userdata := userdata\<rparr>) (ss_medias s)\<rparr>"

definition rtsp_server_reply_to_setup ::
  "server_env \<Rightarrow> nat \<Rightarrow> nat \<Rightarrow> int \<Rightarrow> 16 word \<Rightarrow> 16 word \<Rightarrow> bool \<Rightarrow> 32 word \<Rightarrow> (string \<times> string) list \<Rightarrow>
   nat \<Rightarrow> rtsp_server \<Rightarrow> (int \<times> rtsp_server) result" where
  "rtsp_server_reply_to_setup e r m status src_stream src_control valid ssrc_value ext userdata srv =
     (case media_session srv m of
        None \<Rightarrow> Inl UB
      | Some session \<Rightarrow>
          (case find_request srv r of
             None \<Rightarrow> Inr (- ENOENT, srv)
           | Some p \<Rightarrow>
               bindr
                 (let srv = set_session (ss_addr session) (set_userdata m userdata) srv in
                  case pr_conn p of
                    None \<Rightarrow> Inr (- ECONNRESET, True, 0, srv)
                  | Some conn \<Rightarrow>
                      if is_error_status status then Inr (0, True, status, srv)
                      else if src_stream = 0 \<or> src_control = 0 then Inr (- EINVAL, True, 500, srv)
                      else
                        (case req_transport (pr_request_header p) of
                           [] \<Rightarrow> Inl UB
                         | t # _ \<Rightarrow>
                             bindr (respond e conn
                               (rtsp_response_header_copy_ext ext
                                 ((response_common e srv status p (pr_response_header p))
                                    \<lparr>resp_session_id := Some (ss_session_id session),
                                     resp_session_timeout := ss_timeout_ms session div 1000,
                                     resp_transport := Some (setup_transport t src_stream src_control valid ssrc_value)\<rparr>))
                               [] r srv) (\<lambda>(ret, failed, srv).
                             Inr (ret, ret < 0, if failed then 500 else 0, srv))))
                 (\<lambda>(ret, failed, error_status, srv).
               bindr (error_response_if e r error_status srv) (\<lambda>srv.
               Inr (ret, finish_reply r (Some (ss_addr session))
                      (if failed then setup_failed (ss_addr session) srv else srv))))))"

section \<open>Replies for each media\<close>

text \<open>
  PLAY, PAUSE, RECORD and TEARDOWN are answered media by media: the response leaves with the reply
  for the last media, an error is sent at once. What the four functions do differently:
  a missing range, the agreement of the replies (with the session changed by the first one),
  a note in the response header for each media, the change of the session at the end, the fields of
  the response, and what follows the removal of the request. \<open>mr_null_check\<close> tells whether the
  request pointer is tested before it is used at the end.
\<close>

record media_reply =
  mr_range_missing :: bool
  mr_keeps_first :: bool
  mr_agree :: "bool \<Rightarrow> server_session \<Rightarrow> server_session \<times> bool"
  mr_note :: "server_media \<Rightarrow> rtsp_response_header \<Rightarrow> rtsp_response_header"
  mr_complete :: "server_session \<Rightarrow> server_session"
  mr_fill :: "server_session \<Rightarrow> pending_request \<Rightarrow> rtsp_response_header \<Rightarrow> rtsp_response_header"
  mr_null_check :: bool
  mr_after :: "nat \<Rightarrow> rtsp_server \<Rightarrow> rtsp_server"

fun update_first :: "('a \<Rightarrow> bool) \<Rightarrow> ('a \<Rightarrow> 'a) \<Rightarrow> 'a list \<Rightarrow> 'a list" where
  "update_first p f [] = []"
| "update_first p f (x # xs) = (if p x then f x # xs else x # update_first p f xs)"

definition mark_replied :: "nat \<Rightarrow> pending_request \<Rightarrow> pending_request" where
  "mark_replied m p =
     p\<lparr>pr_medias := update_first (\<lambda>x. pm_media x = m) (\<lambda>x. x\<lparr>pm_replied := True\<rparr>) (pr_medias p)\<rparr>"

text \<open>The answer for a media leaves its note in the response header and marks the media.\<close>

definition note_media :: "media_reply \<Rightarrow> server_session \<Rightarrow> nat \<Rightarrow> pending_request \<Rightarrow> pending_request" where
  "note_media mr session m p =
     mark_replied m
       (case find (\<lambda>x. sm_addr x = m) (ss_medias session) of
          None \<Rightarrow> p
        | Some media \<Rightarrow> p\<lparr>pr_response_header := mr_note mr media (pr_response_header p)\<rparr>)"

definition replied_count :: "pending_request \<Rightarrow> nat" where
  "replied_count p = length (filter pm_replied (pr_medias p))"

text \<open>
  The body of the four functions up to the label \<open>out\<close>: return value, error status, whether the
  request is done, state.
\<close>

definition media_reply_body ::
  "server_env \<Rightarrow> media_reply \<Rightarrow> pending_request \<Rightarrow> server_session \<Rightarrow> nat \<Rightarrow> int \<Rightarrow> (string \<times> string) list \<Rightarrow>
   rtsp_server \<Rightarrow> (int \<times> int \<times> bool \<times> rtsp_server) result" where
  "media_reply_body e mr p session m status ext srv =
     (case pr_conn p of
        None \<Rightarrow> Inr (- ECONNRESET, 0, True, srv)
      | Some conn \<Rightarrow>
          if is_error_status status then Inr (0, status, True, srv)
          else if mr_range_missing mr then Inr (- EINVAL, 500, True, srv)
          else if m \<notin> set (map pm_media (pr_medias p)) then Inr (- ENOENT, 500, True, srv)
          else
            (let first = pr_first_reply p;
                 srv = set_session (ss_addr session) (\<lambda>s. fst (mr_agree mr first s)) srv;
                 srv = set_request (pr_addr p) (\<lambda>p. p\<lparr>pr_first_reply := first \<and> mr_keeps_first mr\<rparr>) srv in
             if \<not> snd (mr_agree mr first session) then Inr (- EPROTO, 500, True, srv)
             else
               let srv = set_request (pr_addr p) (note_media mr session m) srv;
                   p' = note_media mr session m p in
               if replied_count p' \<noteq> pr_media_count p then Inr (0, 0, False, srv)
               else
                 let srv = set_session (ss_addr session) (mr_complete mr) srv;
                     session' = mr_complete mr (fst (mr_agree mr first session)) in
                 bindr (respond e conn
                   (rtsp_response_header_copy_ext ext
                     (mr_fill mr session' p' (response_common e srv status p' (pr_response_header p'))))
                   [] (pr_addr p) srv) (\<lambda>(ret, failed, srv).
                 Inr (ret, if failed then 500 else 0, True, srv))))"

definition media_reply ::
  "server_env \<Rightarrow> media_reply \<Rightarrow> nat \<Rightarrow> nat \<Rightarrow> int \<Rightarrow> (string \<times> string) list \<Rightarrow> rtsp_server \<Rightarrow>
   (int \<times> rtsp_server) result" where
  "media_reply e mr r m status ext srv =
     (case media_session srv m of
        None \<Rightarrow> Inl UB
      | Some session \<Rightarrow>
          (case find_request srv r of
             None \<Rightarrow> if mr_null_check mr then Inr (- ENOENT, srv) else Inl UB
           | Some p \<Rightarrow>
               bindr (media_reply_body e mr p session m status ext srv) (\<lambda>(ret, error_status, complete, srv).
               bindr (error_response_if e r error_status srv) (\<lambda>srv.
               if \<not> complete then Inr (ret, srv)
               else
                 let srv = finish_reply r (Some (ss_addr session)) srv in
                 Inr (ret, if pr_in_callback p then srv else mr_after mr (ss_addr session) srv)))))"

text \<open>Comparison of floats: NaN differs from everything.\<close>

definition float_eq :: "c_float \<Rightarrow> c_float \<Rightarrow> bool" where
  "float_eq a b \<longleftrightarrow> a = b \<and> (case a of NaN _ \<Rightarrow> False | _ \<Rightarrow> True)"

definition agree_range :: "rtsp_range option \<Rightarrow> bool \<Rightarrow> server_session \<Rightarrow> server_session \<times> bool" where
  "agree_range rng first s0 =
     (let s = (if first then s0\<lparr>ss_range := the rng\<rparr> else s0) in
      (s, rtsp_range_cmp rng (Some (ss_range s))))"

definition agree_range_scale ::
  "rtsp_range option \<Rightarrow> c_float \<Rightarrow> bool \<Rightarrow> server_session \<Rightarrow> server_session \<times> bool" where
  "agree_range_scale rng scale first s0 =
     (let s = (if first then s0\<lparr>ss_range := the rng, ss_scale := scale\<rparr> else s0) in
      (s, rtsp_range_cmp rng (Some (ss_range s)) \<and> float_eq scale (ss_scale s)))"

definition response_session ::
  "server_session \<Rightarrow> pending_request \<Rightarrow> rtsp_response_header \<Rightarrow> rtsp_response_header" where
  "response_session s p h =
     h\<lparr>resp_session_id := Some (ss_session_id s), resp_session_timeout := ss_timeout_ms s div 1000\<rparr>"

definition RTSP_RTP_INFO_MAX_COUNT :: nat where "RTSP_RTP_INFO_MAX_COUNT = 10"

definition note_rtp_info ::
  "bool \<Rightarrow> 16 word \<Rightarrow> bool \<Rightarrow> 32 word \<Rightarrow> server_media \<Rightarrow> rtsp_response_header \<Rightarrow> rtsp_response_header" where
  "note_rtp_info seq_valid seq rtptime_valid rtptime media h =
     (if (seq_valid \<or> rtptime_valid) \<and> length (resp_rtp_info h) < RTSP_RTP_INFO_MAX_COUNT then
        h\<lparr>resp_rtp_info := resp_rtp_info h @
            [\<lparr>rtpi_url = Some (sm_path media), rtpi_seq_valid = seq_valid, rtpi_seq = seq,
              rtpi_rtptime_valid = rtptime_valid, rtpi_rtptime = rtptime\<rparr>]\<rparr>
      else h)"

definition rtsp_server_reply_to_play ::
  "server_env \<Rightarrow> nat \<Rightarrow> nat \<Rightarrow> int \<Rightarrow> rtsp_range option \<Rightarrow> c_float \<Rightarrow> bool \<Rightarrow> 16 word \<Rightarrow> bool \<Rightarrow> 32 word \<Rightarrow>
   (string \<times> string) list \<Rightarrow> rtsp_server \<Rightarrow> (int \<times> rtsp_server) result" where
  "rtsp_server_reply_to_play e r m status rng scale seq_valid seq rtptime_valid rtptime ext srv =
     media_reply e
       \<lparr>mr_range_missing = (rng = None), mr_keeps_first = False, mr_agree = agree_range_scale rng scale,
        mr_note = note_rtp_info seq_valid seq rtptime_valid rtptime,
        mr_complete = (\<lambda>s. s\<lparr>ss_playing := True\<rparr>),
        mr_fill = (\<lambda>s p h. (response_session s p h)\<lparr>resp_range := ss_range s, resp_scale := ss_scale s\<rparr>),
        mr_null_check = True, mr_after = (\<lambda>_ srv. srv)\<rparr> r m status ext srv"

definition rtsp_server_reply_to_pause ::
  "server_env \<Rightarrow> nat \<Rightarrow> nat \<Rightarrow> int \<Rightarrow> rtsp_range option \<Rightarrow> (string \<times> string) list \<Rightarrow> rtsp_server \<Rightarrow>
   (int \<times> rtsp_server) result" where
  "rtsp_server_reply_to_pause e r m status rng ext srv =
     media_reply e
       \<lparr>mr_range_missing = (rng = None), mr_keeps_first = False, mr_agree = agree_range rng,
        mr_note = (\<lambda>_ h. h),
        mr_complete = (\<lambda>s. s\<lparr>ss_playing := False, ss_recording := False\<rparr>),
        mr_fill = (\<lambda>s p h. (response_session s p h)\<lparr>resp_range := ss_range s\<rparr>),
        mr_null_check = True, mr_after = (\<lambda>_ srv. srv)\<rparr> r m status ext srv"

definition rtsp_server_reply_to_record ::
  "server_env \<Rightarrow> nat \<Rightarrow> nat \<Rightarrow> int \<Rightarrow> rtsp_range option \<Rightarrow> (string \<times> string) list \<Rightarrow> rtsp_server \<Rightarrow>
   (int \<times> rtsp_server) result" where
  "rtsp_server_reply_to_record e r m status rng ext srv =
     media_reply e
       \<lparr>mr_range_missing = (rng = None), mr_keeps_first = False, mr_agree = agree_range rng,
        mr_note = (\<lambda>_ h. h), mr_complete = (\<lambda>s. s\<lparr>ss_recording := True\<rparr>),
        mr_fill = (\<lambda>s p h. (response_session s p h)\<lparr>resp_range := ss_range s\<rparr>),
        mr_null_check = False, mr_after = (\<lambda>_ srv. srv)\<rparr> r m status ext srv"

text \<open>The answer repeats the session identifier of the request.\<close>

definition rtsp_server_reply_to_teardown ::
  "server_env \<Rightarrow> nat \<Rightarrow> nat \<Rightarrow> int \<Rightarrow> (string \<times> string) list \<Rightarrow> rtsp_server \<Rightarrow> (int \<times> rtsp_server) result" where
  "rtsp_server_reply_to_teardown e r m status ext srv =
     media_reply e
       \<lparr>mr_range_missing = False, mr_keeps_first = True, mr_agree = (\<lambda>_ s. (s, True)),
        mr_note = (\<lambda>_ h. h), mr_complete = (\<lambda>s. s),
        mr_fill = (\<lambda>s p h. h\<lparr>resp_session_id := req_session_id (pr_request_header p),
                             resp_session_timeout := ss_timeout_ms s div 1000\<rparr>),
        mr_null_check = True, mr_after = remove_torn_down\<rparr> r m status ext srv"

end
