(* ===== verification/RtspServer.thy ===== *)
theory RtspServer
  imports RtspServerReply
begin

text \<open>
  The request handlers, timers and events of \<open>src/rtsp_server.c\<close>. The callbacks of the application
  are a parameter: a function of the call, which may answer at once by the reply functions, on the
  state of the server. A callback that the application does not provide is a flag. Of the arguments of
  the C callbacks a call keeps what names the request, the session and the media; the others are
  fields of the request header, which is in the state.
\<close>

section \<open>Callbacks\<close>

datatype server_call =
    CallDescribe "string option" "string option" nat
  | CallAnnounce "string option" "string option" nat
  | CallSetup "string option" nat nat nat string
  | CallPlay nat nat nat
  | CallPause nat nat nat
  | CallRecord nat nat nat
  | CallTeardown nat rtsp_server_teardown_reason "nat option" nat
  | CallRequestTimeout nat rtsp_method_type
  | CallInterleavedData nat rtsp_interleaved_info

record rtsp_server_cbs =
  cbs_call :: "server_call \<Rightarrow> rtsp_server \<Rightarrow> rtsp_server result"
  cbs_has_announce :: bool
  cbs_has_record :: bool
  cbs_has_interleaved_data :: bool

definition request_live :: "pending_request \<Rightarrow> rtsp_server \<Rightarrow> bool" where
  "request_live p srv \<longleftrightarrow> find_request srv (pr_addr p) \<noteq> None"

definition media_live :: "nat \<Rightarrow> nat \<Rightarrow> rtsp_server \<Rightarrow> bool" where
  "media_live a m srv \<longleftrightarrow>
     (case find_session srv a of None \<Rightarrow> False | Some s \<Rightarrow> m \<in> set (map sm_addr (ss_medias s)))"

text \<open>The nodes of a request are not freed while it is handled, but their medias may be.\<close>

definition call_medias :: "(nat \<Rightarrow> rtsp_server \<Rightarrow> rtsp_server result) \<Rightarrow> nat list \<Rightarrow> rtsp_server \<Rightarrow> rtsp_server result" where
  "call_medias f = call_each (\<lambda>m srv. if media_session srv m = None then Inl UB else f m srv)"

section \<open>Frames of the handlers\<close>

abbreviation enter_callback :: "nat \<Rightarrow> rtsp_server \<Rightarrow> rtsp_server" where
  "enter_callback r \<equiv> set_request r (\<lambda>p. p\<lparr>pr_in_callback := True\<rparr>)"

text \<open>The label \<open>out\<close>: a request answered by the callback is removed now.\<close>

definition leave_callback ::
  "nat \<Rightarrow> nat option \<Rightarrow> int \<Rightarrow> rtsp_server \<Rightarrow> (bool \<times> rtsp_server) result" where
  "leave_callback r session ret srv0 =
     (let srv = set_request r (\<lambda>p. p\<lparr>pr_in_callback := False\<rparr>) srv0 in
      case find_request srv r of
        None \<Rightarrow> Inl UB
      | Some p \<Rightarrow>
          if ret = 0 \<and> pr_replied p then
            (case session of
               None \<Rightarrow> Inr (True, snd (rtsp_server_pending_request_remove r srv))
             | Some a \<Rightarrow>
                 if find_session srv a = None then Inl UB
                 else Inr (True, snd (rtsp_server_pending_request_remove r (set_session a clear_op srv))))
          else Inr (False, srv))"

text \<open>A handler returns the C return value, the status to report for a failure, and the state.\<close>

type_synonym handled = "(int \<times> int \<times> rtsp_server) result"

text \<open>A failure before the callback is reached: the end of the handler only clears the flag.\<close>

definition handler_fails :: "nat \<Rightarrow> int \<Rightarrow> int \<Rightarrow> rtsp_server \<Rightarrow> handled" where
  "handler_fails r ret status srv =
     Inr (ret, status, set_request r (\<lambda>p. p\<lparr>pr_in_callback := False\<rparr>) srv)"

section \<open>OPTIONS, DESCRIBE, ANNOUNCE, SETUP\<close>

definition rtsp_server_options :: "server_env \<Rightarrow> pending_request \<Rightarrow> rtsp_server \<Rightarrow> handled" where
  "rtsp_server_options e p srv =
     (case pr_conn p of
        None \<Rightarrow> Inr (- ECONNRESET, 0, srv)
      | Some conn \<Rightarrow>
          bindr (respond e conn
            ((response_common e srv 200 p (pr_response_header p))
               \<lparr>resp_public_methods :=
                  0x002 OR 0x008 OR 0x040 OR 0x010 OR 0x020 OR 0x080 OR 0x004 OR 0x400\<rparr>)
            [] (pr_addr p) srv) (\<lambda>(ret, _, srv).
          Inr (ret, 0,
            if ret = 0 then snd (rtsp_server_pending_request_remove (pr_addr p) srv) else srv)))"

definition rtsp_server_describe :: "rtsp_server_cbs \<Rightarrow> pending_request \<Rightarrow> rtsp_server \<Rightarrow> handled" where
  "rtsp_server_describe cbs p srv =
     (let r = pr_addr p in
      case rtsp_url_parse_host_and_path (req_uri (pr_request_header p)) of
        Inl UB \<Rightarrow> Inl UB
      | Inl (Err ret) \<Rightarrow> handler_fails r ret 0 srv
      | Inr (host, path) \<Rightarrow>
          bindr (cbs_call cbs (CallDescribe (Some host) path r) (enter_callback r srv)) (\<lambda>srv.
          bindr (leave_callback r None 0 srv) (\<lambda>(_, srv).
          Inr (0, 0, srv))))"

definition rtsp_server_announce_req ::
  "server_env \<Rightarrow> rtsp_server_cbs \<Rightarrow> pending_request \<Rightarrow> rtsp_server \<Rightarrow> handled" where
  "rtsp_server_announce_req e cbs p srv =
     (let r = pr_addr p in
      case rtsp_url_parse_host_and_path (req_uri (pr_request_header p)) of
        Inl UB \<Rightarrow> Inl UB
      | Inl (Err ret) \<Rightarrow> handler_fails r ret 0 srv
      | Inr (host, path) \<Rightarrow>
          bindr
            (if cbs_has_announce cbs then
               cbs_call cbs (CallAnnounce (Some host) path r) (enter_callback r srv)
             else
               bindr (rtsp_server_reply_to_announce e r (- ENOSYS) [] (enter_callback r srv))
                 (\<lambda>(_, srv). Inr srv)) (\<lambda>srv.
          bindr (leave_callback r None 0 srv) (\<lambda>(_, srv).
          Inr (0, 0, srv))))"

text \<open>
  The session of a SETUP: a new one for the uri up to its last slash, or the one that is named.
  The result is the address and whether it was created, or a failure with its status.
\<close>

definition setup_session ::
  "server_env \<Rightarrow> pending_request \<Rightarrow> string \<Rightarrow> rtsp_server \<Rightarrow> ((int \<times> int) + (nat \<times> bool)) \<times> rtsp_server" where
  "setup_session e p content_base srv =
     (case req_session_id (pr_request_header p) of
        None \<Rightarrow>
          (case rtsp_server_session_add e (srv_session_timeout_ms srv) (Some content_base) srv of
             (None, srv) \<Rightarrow> (Inl (- 12, 0), srv)
           | (Some a, srv) \<Rightarrow> (Inr (a, True), srv))
      | Some sid \<Rightarrow>
          (case rtsp_server_session_find srv sid of
             None \<Rightarrow> (Inl (- ENOENT, 454), srv)
           | Some s \<Rightarrow> (Inr (ss_addr s, False), srv)))"

definition rtsp_server_setup ::
  "server_env \<Rightarrow> rtsp_server_cbs \<Rightarrow> string \<Rightarrow> pending_request \<Rightarrow> rtsp_server \<Rightarrow> handled" where
  "rtsp_server_setup e cbs dst_address p srv =
     (let r = pr_addr p; header = pr_request_header p in
      if dst_address = [] then Inr (- EINVAL, 0, srv)
      else if length (req_transport header) \<noteq> 1 then handler_fails r (- ENOSYS) 0 srv
      else
        (case rtsp_url_parse_host_and_path (req_uri header) of
           Inl UB \<Rightarrow> Inl UB
         | Inl (Err ret) \<Rightarrow> handler_fails r ret 0 srv
         | Inr (host, path) \<Rightarrow>
             (case strrchr_cut (CHR ''/'') (the (req_uri header)) of
                (_, None) \<Rightarrow> handler_fails r (- EINVAL) 0 srv
              | (content_base, Some _) \<Rightarrow>
                  (case setup_session e p content_base srv of
                     (Inl (ret, status), srv) \<Rightarrow> handler_fails r ret status srv
                   | (Inr (a, created), srv) \<Rightarrow>
                       (case rtsp_server_session_media_add a (req_uri header) path srv of
                          (None, srv) \<Rightarrow>
                            handler_fails r (- EPROTO) 0
                              (if created then snd (rtsp_server_session_remove a srv) else srv)
                        | (Some m, srv) \<Rightarrow>
                            let srv = set_session a (\<lambda>s. (rtsp_server_session_reset_timeout s)
                                        \<lparr>ss_op_in_progress := req_method header\<rparr>) srv in
                            bindr (cbs_call cbs (CallSetup path a r m dst_address) (enter_callback r srv)) (\<lambda>srv.
                            bindr (leave_callback r (Some a) 0 srv) (\<lambda>(_, srv).
                            Inr (0, 0, srv))))))))"

section \<open>PLAY, PAUSE, RECORD, TEARDOWN, GET_PARAMETER\<close>

text \<open>
  The common start: the uri must parse, and the session of the request must exist and have medias.
\<close>

definition request_session ::
  "pending_request \<Rightarrow> rtsp_server \<Rightarrow> ((int \<times> int) + (string option \<times> server_session)) result" where
  "request_session p srv =
     (case rtsp_url_parse_path (req_uri (pr_request_header p)) of
        Inl UB \<Rightarrow> Inl UB
      | Inl (Err ret) \<Rightarrow> Inr (Inl (ret, 0))
      | Inr path \<Rightarrow>
          (case rtsp_server_session_find srv (the (req_session_id (pr_request_header p))) of
             None \<Rightarrow> Inr (Inl (- ENOENT, 454))
           | Some s \<Rightarrow> if ss_media_count s = 0 then Inr (Inl (- ENOENT, 454)) else Inr (Inr (path, s))))"

definition start_operation :: "pending_request \<Rightarrow> server_session \<Rightarrow> rtsp_server \<Rightarrow> rtsp_server" where
  "start_operation p s srv =
     enter_callback (pr_addr p)
       (set_session (ss_addr s) (\<lambda>s. (rtsp_server_session_reset_timeout s)
          \<lparr>ss_op_in_progress := req_method (pr_request_header p)\<rparr>) srv)"

abbreviation add_medias :: "nat \<Rightarrow> nat list \<Rightarrow> rtsp_server \<Rightarrow> rtsp_server" where
  "add_medias r ms \<equiv> fold (rtsp_server_pending_request_media_add r) ms"

text \<open>\<open>each\<close> is called for every media of the session that the request has been given.\<close>

definition media_request ::
  "(nat \<Rightarrow> nat \<Rightarrow> rtsp_server \<Rightarrow> rtsp_server result) \<Rightarrow> pending_request \<Rightarrow> rtsp_server \<Rightarrow> handled" where
  "media_request each p srv =
     (let r = pr_addr p in
      if req_session_id (pr_request_header p) = None then Inr (- EINVAL, 0, srv)
      else
        bindr (request_session p srv) (\<lambda>found.
        case found of
          Inl (ret, status) \<Rightarrow> handler_fails r ret status srv
        | Inr (path, s) \<Rightarrow>
            let ms = map sm_addr (ss_medias s);
                srv = add_medias r ms (start_operation p s srv) in
            bindr (call_medias (each (ss_addr s)) (map pm_media (pr_medias p) @ ms) srv) (\<lambda>srv.
            bindr (leave_callback r (Some (ss_addr s)) 0
                     (set_request r (\<lambda>p. p\<lparr>pr_first_reply := True\<rparr>) srv)) (\<lambda>(_, srv).
            Inr (0, 0, srv)))))"

definition rtsp_server_play :: "rtsp_server_cbs \<Rightarrow> pending_request \<Rightarrow> rtsp_server \<Rightarrow> handled" where
  "rtsp_server_play cbs p = media_request (\<lambda>a m. cbs_call cbs (CallPlay a (pr_addr p) m)) p"

definition rtsp_server_pause :: "rtsp_server_cbs \<Rightarrow> pending_request \<Rightarrow> rtsp_server \<Rightarrow> handled" where
  "rtsp_server_pause cbs p = media_request (\<lambda>a m. cbs_call cbs (CallPause a (pr_addr p) m)) p"

definition rtsp_server_record ::
  "server_env \<Rightarrow> rtsp_server_cbs \<Rightarrow> pending_request \<Rightarrow> rtsp_server \<Rightarrow> handled" where
  "rtsp_server_record e cbs p =
     media_request (\<lambda>a m srv.
       if cbs_has_record cbs then cbs_call cbs (CallRecord a (pr_addr p) m) srv
       else
         bindr (rtsp_server_reply_to_record e (pr_addr p) m (- ENOSYS)
                  (Some (req_range (pr_request_header p))) [] srv) (\<lambda>(_, srv). Inr srv)) p"

text \<open>
  The medias a TEARDOWN is for: the one with the path, or else those whose path starts with a path
  without slash, or else (a path with a slash that no media has) all of them.
\<close>

definition teardown_selects :: "string option \<Rightarrow> server_session \<Rightarrow> server_media \<Rightarrow> bool" where
  "teardown_selects path s m =
     (let found = (case path of None \<Rightarrow> False | Some p \<Rightarrow> rtsp_server_session_media_find s p \<noteq> None);
          whole = (case path of None \<Rightarrow> [] | Some p \<Rightarrow> p);
          is_prefix = CHR ''/'' \<notin> set whole in
      if found then sm_path m = whole
      else is_prefix \<longrightarrow> take (length whole) whole = take (length whole) (sm_path m))"

definition rtsp_server_teardown :: "rtsp_server_cbs \<Rightarrow> pending_request \<Rightarrow> rtsp_server \<Rightarrow> handled" where
  "rtsp_server_teardown cbs p srv =
     (let r = pr_addr p in
      if req_session_id (pr_request_header p) = None then Inr (- EINVAL, 0, srv)
      else
        case rtsp_url_parse_path (req_uri (pr_request_header p)) of
          Inl UB \<Rightarrow> Inl UB
        | Inl (Err ret) \<Rightarrow> handler_fails r ret 0 srv
        | Inr path \<Rightarrow>
            if path \<noteq> None \<and> CHR ''/'' \<notin> set (the path) \<and> length (the path) \<ge> PATH_MAX then
              handler_fails r (- ENAMETOOLONG) 0 srv
            else
              bindr (request_session p srv) (\<lambda>found.
              case found of
                Inl (ret, status) \<Rightarrow> handler_fails r ret status srv
              | Inr (_, s) \<Rightarrow>
                  let ms = map sm_addr (filter (teardown_selects path s) (ss_medias s));
                      srv = add_medias r ms (start_operation p s srv);
                      srv = set_session (ss_addr s) (\<lambda>s. s\<lparr>ss_medias :=
                              update_where (\<lambda>m. sm_addr m \<in> set ms) (\<lambda>m. m\<lparr>sm_is_tearing_down := True\<rparr>) (ss_medias s)\<rparr>) srv in
                  if map pm_media (pr_medias p) @ ms = [] then handler_fails r (- ENOENT) 0 srv
                  else
                    bindr (call_medias (\<lambda>m. cbs_call cbs (CallTeardown (ss_addr s)
                              RTSP_SERVER_TEARDOWN_REASON_CLIENT_REQUEST (Some r) m))
                            (map pm_media (pr_medias p) @ ms) srv) (\<lambda>srv.
                    bindr (leave_callback r (Some (ss_addr s)) 0 srv) (\<lambda>(removed, srv).
                    Inr (0, 0, if removed then remove_torn_down (ss_addr s) srv else srv)))))"

definition rtsp_server_get_parameter :: "server_env \<Rightarrow> pending_request \<Rightarrow> rtsp_server \<Rightarrow> handled" where
  "rtsp_server_get_parameter e p srv =
     (if req_session_id (pr_request_header p) = None then Inr (- EINVAL, 0, srv)
      else
        (case pr_conn p of
           None \<Rightarrow> Inr (- ECONNRESET, 0, srv)
         | Some conn \<Rightarrow>
             bindr (request_session p srv) (\<lambda>found.
             case found of
               Inl (ret, status) \<Rightarrow> Inr (ret, status, srv)
             | Inr (_, s) \<Rightarrow>
                 bindr (respond e conn
                   ((response_common e srv 200 p (pr_response_header p))
                      \<lparr>resp_session_id := req_session_id (pr_request_header p),
                       resp_session_timeout := ss_timeout_ms s div 1000\<rparr>)
                   [] (pr_addr p) (set_session (ss_addr s) rtsp_server_session_reset_timeout srv))
                   (\<lambda>(ret, _, srv).
                 Inr (ret, 0,
                   if ret = 0 then snd (rtsp_server_pending_request_remove (pr_addr p) srv) else srv)))))"

section \<open>Requests\<close>

text \<open>
  The copy of the body. A length that is not in the buffer is one close to \<open>2 ^ 64\<close>: allocating it
  fails and leaves the body out, except for the length whose successor is zero.
\<close>

definition copy_body :: "rtsp_message \<Rightarrow> string option result" where
  "copy_body msg =
     (case msg_body msg of
        None \<Rightarrow> Inr None
      | Some b \<Rightarrow>
          if msg_body_len msg = 0 then Inr None
          else if unat (msg_body_len msg) \<le> length b then Inr (Some (take (unat (msg_body_len msg)) b))
          else if msg_body_len msg + 1 = 0 \<or> unat (msg_body_len msg) < 2 ^ 63 then Inl UB
          else Inr None)"

definition dispatch_request ::
  "server_env \<Rightarrow> rtsp_server_cbs \<Rightarrow> string \<Rightarrow> pending_request \<Rightarrow> rtsp_server \<Rightarrow> handled" where
  "dispatch_request e cbs dst_address p srv =
     (case req_method (pr_request_header p) of
        RTSP_METHOD_TYPE_OPTIONS \<Rightarrow> rtsp_server_options e p srv
      | RTSP_METHOD_TYPE_DESCRIBE \<Rightarrow> rtsp_server_describe cbs p srv
      | RTSP_METHOD_TYPE_ANNOUNCE \<Rightarrow> rtsp_server_announce_req e cbs p srv
      | RTSP_METHOD_TYPE_SETUP \<Rightarrow> rtsp_server_setup e cbs dst_address p srv
      | RTSP_METHOD_TYPE_PLAY \<Rightarrow> rtsp_server_play cbs p srv
      | RTSP_METHOD_TYPE_PAUSE \<Rightarrow> rtsp_server_pause cbs p srv
      | RTSP_METHOD_TYPE_TEARDOWN \<Rightarrow> rtsp_server_teardown cbs p srv
      | RTSP_METHOD_TYPE_GET_PARAMETER \<Rightarrow> rtsp_server_get_parameter e p srv
      | RTSP_METHOD_TYPE_RECORD \<Rightarrow> rtsp_server_record e cbs p srv
      | _ \<Rightarrow> Inr (0, 0, srv))"

definition rtsp_server_request_process ::
  "server_env \<Rightarrow> rtsp_server_cbs \<Rightarrow> nat \<Rightarrow> string \<Rightarrow> rtsp_message \<Rightarrow> rtsp_server \<Rightarrow> rtsp_server result" where
  "rtsp_server_request_process e cbs conn dst_address msg srv =
     (case rtsp_server_pending_request_add e (Some conn) (srv_reply_timeout_ms srv) srv of
        (r, srv) \<Rightarrow>
          bindr (copy_body msg) (\<lambda>body.
          let fill = (\<lambda>p. p\<lparr>pr_request_header :=
                        rtsp_request_header_copy (req_header (msg_header msg)) (pr_request_header p),
                      pr_body := body\<rparr>);
              srv = set_request r fill srv in
          case find_request srv r of
            None \<Rightarrow> Inl UB
          | Some p \<Rightarrow>
              bindr (dispatch_request e cbs dst_address p srv) (\<lambda>(err, status, srv).
              if err < 0 then
                bindr (error_response e r (if status div 100 > 2 then status else err) srv) (\<lambda>(_, srv).
                Inr (snd (rtsp_server_pending_request_remove r srv)))
              else Inr srv)))"

text \<open>
  One reception from a connection: the bytes are framed and every message is handled; a response
  only leaves a log line. The server has one buffer of received bytes for all its connections.
\<close>

definition process_message ::
  "server_env \<Rightarrow> rtsp_server_cbs \<Rightarrow> nat \<Rightarrow> string \<Rightarrow> rtsp_message \<Rightarrow> rtsp_server \<Rightarrow> rtsp_server result" where
  "process_message e cbs conn dst_address msg srv =
     (if msg_type msg = RTSP_MESSAGE_TYPE_REQUEST
      then rtsp_server_request_process e cbs conn dst_address msg srv
      else if msg_type msg = RTSP_MESSAGE_TYPE_INTERLEAVED \<and> cbs_has_interleaved_data cbs
      then cbs_call cbs (CallInterleavedData conn (msg_interleaved msg)) srv
      else Inr srv)"

definition rtsp_server_pomp_cb ::
  "time_parser \<Rightarrow> server_env \<Rightarrow> rtsp_server_cbs \<Rightarrow> nat \<Rightarrow> string \<Rightarrow> string \<Rightarrow>
   rtsp_server \<times> string \<times> rtsp_message_parser_ctx \<Rightarrow> (rtsp_server \<times> string \<times> rtsp_message_parser_ctx) result" where
  "rtsp_server_pomp_cb time_parse e cbs conn dst_address data st =
     (case st of (srv, buf) \<Rightarrow>
        bindr (receive time_parse data buf) (\<lambda>(msgs, _, buf).
        bindr (call_each (process_message e cbs conn dst_address) msgs srv) (\<lambda>srv.
        Inr (srv, buf))))"

section \<open>Timers and events\<close>

definition expired :: "server_env \<Rightarrow> pending_request \<Rightarrow> bool" where
  "expired e p \<longleftrightarrow> pr_timeout p > 0 \<and> env_now e > pr_timeout p"

definition expire_request ::
  "server_env \<Rightarrow> rtsp_server_cbs \<Rightarrow> pending_request \<Rightarrow> rtsp_server \<Rightarrow> rtsp_server result" where
  "expire_request e cbs p srv =
     (if expired e p then
        bindr (error_response e (pr_addr p) 500 srv) (\<lambda>(_, srv).
        bindr (cbs_call cbs (CallRequestTimeout (pr_addr p) (req_method (pr_request_header p))) srv) (\<lambda>srv.
        Inr (snd (rtsp_server_pending_request_remove (pr_addr p) srv))))
      else Inr srv)"

definition rtsp_server_timer_cb ::
  "server_env \<Rightarrow> rtsp_server_cbs \<Rightarrow> rtsp_server \<Rightarrow> rtsp_server result" where
  "rtsp_server_timer_cb e cbs srv =
     walk_safe request_live (expire_request e cbs) (srv_pending_requests srv) srv"

definition rtsp_server_session_timer_cb :: "rtsp_server_cbs \<Rightarrow> nat \<Rightarrow> rtsp_server \<Rightarrow> rtsp_server result" where
  "rtsp_server_session_timer_cb cbs a srv =
     (case find_session srv a of
        None \<Rightarrow> Inl UB
      | Some s \<Rightarrow>
          bindr (walk (media_live a) (\<lambda>m. cbs_call cbs (CallTeardown a
                    RTSP_SERVER_TEARDOWN_REASON_SESSION_TIMEOUT None m)) (map sm_addr (ss_medias s)) srv) (\<lambda>srv.
          Inr (snd (rtsp_server_session_remove a srv))))"

definition rtsp_server_session_remove_idle :: "rtsp_server \<Rightarrow> rtsp_server" where
  "rtsp_server_session_remove_idle srv =
     (case srv_idle srv of
        [] \<Rightarrow> srv
      | a # rest \<Rightarrow> snd (rtsp_server_session_remove a (srv\<lparr>srv_idle := rest\<rparr>)))"

text \<open>A connection is closed: it is not available to the pending requests any more.\<close>

definition rtsp_server_disconnected :: "nat \<Rightarrow> rtsp_server \<Rightarrow> rtsp_server" where
  "rtsp_server_disconnected conn srv =
     srv\<lparr>srv_pending_requests :=
           update_where (\<lambda>p. pr_conn p = Some conn) (\<lambda>p. p\<lparr>pr_conn := None\<rparr>) (srv_pending_requests srv)\<rparr>"

section \<open>Requests of the server\<close>

definition send_request ::
  "server_env \<Rightarrow> rtsp_request_header \<Rightarrow> string \<Rightarrow> rtsp_server \<Rightarrow> (int \<times> rtsp_server) result" where
  "send_request e header body srv =
     (case bindr (rtsp_request_header_write (env_format e) header
                    \<lparr>rs_str = [], rs_max_len = srv_max_msg_size srv\<rparr>)
             (\<lambda>s. if body = [] then Inr s else rtsp_sprintf s body) of
        Inl UB \<Rightarrow> Inl UB
      | Inl (Err ret) \<Rightarrow> Inr (ret, srv)
      | Inr s \<Rightarrow> Inr (env_broadcast e (rs_str s), srv\<lparr>srv_output := srv_output srv @ [Broadcast (rs_str s)]\<rparr>))"

definition rtsp_server_send_teardown ::
  "server_env \<Rightarrow> string option \<Rightarrow> string \<Rightarrow> (string \<times> string) list \<Rightarrow> rtsp_server \<Rightarrow> (int \<times> rtsp_server) result" where
  "rtsp_server_send_teardown e uri session_id ext srv =
     (if uri = None \<or> uri = Some [] then Inr (- EINVAL, srv)
      else
        send_request e
          (rtsp_request_header_copy_ext ext
            (rtsp_request_header_clear
               \<lparr>req_method := RTSP_METHOD_TYPE_TEARDOWN, req_cseq := sint (srv_cseq srv),
                req_session_id := Some session_id, req_uri := uri\<rparr>))
          [] (srv\<lparr>srv_cseq := srv_cseq srv + 1\<rparr>))"

definition rtsp_server_announce ::
  "server_env \<Rightarrow> string option \<Rightarrow> (string \<times> string) list \<Rightarrow> string option \<Rightarrow> rtsp_server \<Rightarrow>
   (int \<times> rtsp_server) result" where
  "rtsp_server_announce e uri ext session_description srv =
     (if uri = None \<or> uri = Some [] then Inr (- EINVAL, srv)
      else if session_description = None \<or> session_description = Some [] then Inr (- EINVAL, srv)
      else if length (the session_description) \<ge> RTSP_SESSION_DESCRIPTION_MAX_LEN then Inr (- EINVAL, srv)
      else
        send_request e
          (rtsp_request_header_copy_ext ext
            (rtsp_request_header_clear
               \<lparr>req_method := RTSP_METHOD_TYPE_ANNOUNCE, req_cseq := sint (srv_cseq srv),
                req_content_length := int (length (the session_description)),
                req_content_type := Some ''application/sdp'', req_date := env_now e div 1000000,
                req_server := Some (srv_software_name srv), req_uri := Some (CHR ''/'' # the uri)\<rparr>))
          (the session_description) (srv\<lparr>srv_cseq := srv_cseq srv + 1\<rparr>))"

definition rtsp_server_force_teardown ::
  "server_env \<Rightarrow> rtsp_server_cbs \<Rightarrow> string \<Rightarrow> string option \<Rightarrow> (string \<times> string) list \<Rightarrow> rtsp_server \<Rightarrow>
   (int \<times> rtsp_server) result" where
  "rtsp_server_force_teardown e cbs session_id path ext srv =
     (case rtsp_server_session_find srv session_id of
        None \<Rightarrow> Inr (- ENOENT, srv)
      | Some s \<Rightarrow>
          (case (case path of None \<Rightarrow> Some None
                 | Some p \<Rightarrow> map_option Some (rtsp_server_session_media_find s p)) of
             None \<Rightarrow> Inr (- ENOENT, srv)
           | Some media \<Rightarrow>
               if ss_op_in_progress s = RTSP_METHOD_TYPE_TEARDOWN then Inr (- EALREADY, srv)
               else if ss_op_in_progress s \<noteq> RTSP_METHOD_TYPE_UNKNOWN then Inr (- EBUSY, srv)
               else
                 bindr (walk (media_live (ss_addr s)) (\<lambda>m srv.
                           if media = None \<or> map_option sm_addr media = Some m then
                             cbs_call cbs (CallTeardown (ss_addr s)
                               RTSP_SERVER_TEARDOWN_REASON_FORCED_TEARDOWN None m) srv
                           else Inr srv)
                         (map sm_addr (ss_medias s)) srv) (\<lambda>srv.
                 bindr (rtsp_server_send_teardown e
                         (case media of None \<Rightarrow> ss_uri s | Some m \<Rightarrow> sm_uri m) (ss_session_id s) ext srv)
                         (\<lambda>(_, srv).
                 Inr (case media of
                        None \<Rightarrow> rtsp_server_session_remove (ss_addr s) srv
                      | Some m \<Rightarrow> rtsp_server_session_media_remove (ss_addr s) (sm_addr m) srv)))))"

definition rtsp_server_send_interleaved ::
  "server_env \<Rightarrow> 8 word \<Rightarrow> string option \<Rightarrow> nat \<Rightarrow> rtsp_server \<Rightarrow> (int \<times> rtsp_server) result" where
  "rtsp_server_send_interleaved e channel data len srv =
     (if data = None \<or> len = 0 \<or> len > 0xFFFF then Inr (- EINVAL, srv)
      else
        (case rtsp_build_interleaved (Some \<lparr>ilv_channel = channel, ilv_data = data, ilv_len = of_nat len\<rparr>) of
           Inl UB \<Rightarrow> Inl UB
         | Inl (Err ret) \<Rightarrow> Inr (ret, srv)
         | Inr s \<Rightarrow> Inr (env_broadcast e s, srv\<lparr>srv_output := srv_output srv @ [Broadcast s]\<rparr>)))"

section \<open>Creation and destruction\<close>

text \<open>
  The checks of the arguments and the defaults; the listening socket and the event loop are not
  part of the state.
\<close>

definition rtsp_server_new :: "string option \<Rightarrow> 16 word \<Rightarrow> int \<Rightarrow> int \<Rightarrow> rtsp_server result" where
  "rtsp_server_new software_name port reply_timeout_ms session_timeout_ms =
     (if port = 0 then Inl (Err (- EINVAL))
      else Inr \<lparr>srv_max_msg_size = 2 * 4096 - 1,
                srv_software_name = (case software_name of None \<Rightarrow> ''librtsp_server'' | Some n \<Rightarrow> n),
                srv_reply_timeout_ms = (if reply_timeout_ms = 0 then 1000 else word_of_int reply_timeout_ms),
                srv_session_timeout_ms = (if session_timeout_ms = 0 then 60000 else word_of_int session_timeout_ms),
                srv_session_count = 0, srv_sessions = [], srv_pending_request_count = 0,
                srv_pending_requests = [], srv_cseq = 1, srv_idle = [], srv_next_addr = 0, srv_output = []\<rparr>)"

definition rtsp_server_destroy :: "rtsp_server_cbs \<Rightarrow> rtsp_server \<Rightarrow> rtsp_server result" where
  "rtsp_server_destroy cbs srv =
     bindr (walk_safe request_live (\<lambda>p srv.
              bindr (cbs_call cbs (CallRequestTimeout (pr_addr p) (req_method (pr_request_header p))) srv) (\<lambda>srv.
              Inr (snd (rtsp_server_pending_request_remove (pr_addr p) srv))))
            (srv_pending_requests srv) srv) (\<lambda>srv.
     Inr (fold (\<lambda>s srv. snd (rtsp_server_session_remove (ss_addr s) srv)) (srv_sessions srv) srv))"

end
