(* ===== verification/RtspServerFrame.thy ===== *)
theory RtspServerFrame
  imports RtspServer
begin

text \<open>
  How the functions of the server are composed of a few changes of its state, stated once as
  interfaces: whatever these changes keep, every reply function keeps, hence an application that
  calls the reply functions from its callbacks, hence every handler, timer and event of the server.
\<close>

section \<open>Applications\<close>

text \<open>
  An application is a function from the call it gets and the state of the server to the functions of
  the server it calls before it returns. It may answer now, several times, or not at all.
\<close>

datatype api_call =
    ReplyAnnounce nat int "(string \<times> string) list"
  | ReplyDescribe nat int "(string \<times> string) list" "string option"
  | ReplySetup nat nat int "16 word" "16 word" bool "32 word" "(string \<times> string) list" nat
  | ReplyPlay nat nat int "rtsp_range option" c_float bool "16 word" bool "32 word" "(string \<times> string) list"
  | ReplyPause nat nat int "rtsp_range option" "(string \<times> string) list"
  | ReplyRecord nat nat int "rtsp_range option" "(string \<times> string) list"
  | ReplyTeardown nat nat int "(string \<times> string) list"
  | SendAnnounce "string option" "(string \<times> string) list" "string option"
  | SendInterleaved "8 word" "string option" nat

fun api_step :: "server_env \<Rightarrow> api_call \<Rightarrow> rtsp_server \<Rightarrow> (int \<times> rtsp_server) result" where
  "api_step e (ReplyAnnounce r status ext) srv = rtsp_server_reply_to_announce e r status ext srv"
| "api_step e (ReplyDescribe r status ext sdp) srv = rtsp_server_reply_to_describe e r status ext sdp srv"
| "api_step e (ReplySetup r m status p1 p2 valid ssrc_value ext u) srv =
     rtsp_server_reply_to_setup e r m status p1 p2 valid ssrc_value ext u srv"
| "api_step e (ReplyPlay r m status rng scale sv seq tv rtptime ext) srv =
     rtsp_server_reply_to_play e r m status rng scale sv seq tv rtptime ext srv"
| "api_step e (ReplyPause r m status rng ext) srv = rtsp_server_reply_to_pause e r m status rng ext srv"
| "api_step e (ReplyRecord r m status rng ext) srv = rtsp_server_reply_to_record e r m status rng ext srv"
| "api_step e (ReplyTeardown r m status ext) srv = rtsp_server_reply_to_teardown e r m status ext srv"
| "api_step e (SendAnnounce uri ext sdp) srv = rtsp_server_announce e uri ext sdp srv"
| "api_step e (SendInterleaved channel data n) srv = rtsp_server_send_interleaved e channel data n srv"

definition run_api :: "server_env \<Rightarrow> api_call list \<Rightarrow> rtsp_server \<Rightarrow> rtsp_server result" where
  "run_api e = call_each (\<lambda>c srv. bindr (api_step e c srv) (\<lambda>(_, srv). Inr srv))"

text \<open>The callbacks that an application provides besides those that are required.\<close>

record application =
  app_calls :: "server_call \<Rightarrow> rtsp_server \<Rightarrow> api_call list"
  app_has_announce :: bool
  app_has_record :: bool
  app_has_interleaved_data :: bool

definition app_cbs :: "server_env \<Rightarrow> application \<Rightarrow> rtsp_server_cbs" where
  "app_cbs e app =
     \<lparr>cbs_call = (\<lambda>c srv. run_api e (app_calls app c srv) srv), cbs_has_announce = app_has_announce app,
      cbs_has_record = app_has_record app, cbs_has_interleaved_data = app_has_interleaved_data app\<rparr>"

lemma call_medias_ensures:
  assumes "P srv" "\<And>x srv. P srv \<Longrightarrow> ensures P (f x srv)"
  shows "ensures P (call_medias f ms srv)"
  unfolding call_medias_def by (rule call_each_ensures [where P = P, OF assms(1)]) (simp add: assms(2))

section \<open>What a change of a session or of a request leaves alone\<close>

definition session_shape :: "server_session \<Rightarrow> nat \<times> string \<times> nat \<times> (nat \<times> string) list" where
  "session_shape s = (ss_addr s, take RTSP_SERVER_SESSION_ID_LENGTH (ss_session_id s), ss_media_count s,
                      map (\<lambda>m. (sm_addr m, sm_path m)) (ss_medias s))"

definition request_shape ::
  "pending_request \<Rightarrow> nat \<times> nat option \<times> rtsp_request_header \<times> 64 word \<times> nat \<times> nat list" where
  "request_shape p = (pr_addr p, pr_conn p, pr_request_header p, pr_timeout p, pr_media_count p,
                      map pm_media (pr_medias p))"

lemma session_shape_simps [simp]:
  "session_shape (s\<lparr>ss_op_in_progress := op\<rparr>) = session_shape s"
  "session_shape (s\<lparr>ss_timer := t\<rparr>) = session_shape s"
  "session_shape (s\<lparr>ss_playing := b\<rparr>) = session_shape s"
  "session_shape (s\<lparr>ss_recording := b\<rparr>) = session_shape s"
  "session_shape (s\<lparr>ss_range := rng\<rparr>) = session_shape s"
  "session_shape (s\<lparr>ss_scale := sc\<rparr>) = session_shape s"
  "session_shape (clear_op s) = session_shape s"
  "session_shape (rtsp_server_session_reset_timeout s) = session_shape s"
  by (simp_all add: session_shape_def clear_op_def rtsp_server_session_reset_timeout_def)

lemma session_shape_medias:
  assumes "\<And>m. (sm_addr (f m), sm_path (f m)) = (sm_addr m, sm_path m)"
  shows "session_shape (s\<lparr>ss_medias := update_where p f (ss_medias s)\<rparr>) = session_shape s"
  using assms by (auto simp: session_shape_def update_where_def comp_def)

lemma session_shape_userdata [simp]: "session_shape (set_userdata m u s) = session_shape s"
  unfolding set_userdata_def by (rule session_shape_medias) simp

lemma session_shape_tear [simp]:
  "session_shape (s\<lparr>ss_medias := update_where p (\<lambda>m. m\<lparr>sm_is_tearing_down := True\<rparr>) (ss_medias s)\<rparr>)
     = session_shape s"
  by (rule session_shape_medias) simp

lemma session_shape_agree [simp]:
  "session_shape (fst (agree_range rng first s)) = session_shape s"
  "session_shape (fst (agree_range_scale rng scale first s)) = session_shape s"
  by (simp_all add: agree_range_def agree_range_scale_def Let_def)

lemma map_update_first:
  "(\<And>x. g (f x) = g x) \<Longrightarrow> map g (update_first p f xs) = map g xs"
  by (induction xs) auto

lemma request_shape_simps [simp]:
  "request_shape (p\<lparr>pr_response_header := h\<rparr>) = request_shape p"
  "request_shape (p\<lparr>pr_first_reply := b\<rparr>) = request_shape p"
  "request_shape (p\<lparr>pr_in_callback := b\<rparr>) = request_shape p"
  "request_shape (p\<lparr>pr_replied := b\<rparr>) = request_shape p"
  "request_shape (mark_replied m p) = request_shape p"
  by (simp_all add: request_shape_def mark_replied_def map_update_first)

lemma request_shape_note [simp]: "request_shape (note_media mr s m p) = request_shape p"
  by (simp add: note_media_def split: option.split)

section \<open>The changes that replies are made of\<close>

locale reply_frame =
  fixes I :: "rtsp_server \<Rightarrow> bool"
  assumes session_change: "I srv \<Longrightarrow> (\<And>s. session_shape (f s) = session_shape s) \<Longrightarrow> I (set_session a f srv)"
    and request_change: "I srv \<Longrightarrow> (\<And>p. request_shape (g p) = request_shape p) \<Longrightarrow> I (set_request r g srv)"
    and session_remove: "I srv \<Longrightarrow> I (snd (rtsp_server_session_remove a srv))"
    and media_remove: "I srv \<Longrightarrow> I (snd (rtsp_server_session_media_remove a m srv))"
    and request_remove: "I srv \<Longrightarrow> I (snd (rtsp_server_pending_request_remove r srv))"
    and output_grow: "I srv \<Longrightarrow> I (srv\<lparr>srv_output := srv_output srv @ xs\<rparr>)"
    and idle_add: "I srv \<Longrightarrow> find_session srv a \<noteq> None \<Longrightarrow> I (srv\<lparr>srv_idle := srv_idle srv @ [a]\<rparr>)"
    and cseq_change: "I srv \<Longrightarrow> I (srv\<lparr>srv_cseq := n\<rparr>)"
begin

lemmas changes = session_change request_change session_remove media_remove request_remove output_grow
  idle_add cseq_change

lemma respond_keeps: "I srv \<Longrightarrow> ensures (\<lambda>(ret, failed, srv). I srv) (respond e conn h body r srv)"
  by (auto simp: respond_def send_to_def Let_def ensures_def intro!: request_change output_grow
      split: sum.splits failure.splits prod.splits)

lemma error_response_keeps: "I srv \<Longrightarrow> ensures (\<lambda>(ret, srv). I srv) (error_response e r status srv)"
  unfolding error_response_def
  by (auto split: option.splits intro!: ensures_bind [OF respond_keeps])

lemma error_response_if_keeps: "I srv \<Longrightarrow> ensures I (error_response_if e r status srv)"
  unfolding error_response_if_def by (auto intro!: ensures_bind [OF error_response_keeps])

lemma finish_reply_keeps: "I srv \<Longrightarrow> I (finish_reply r session srv)"
  by (auto simp: finish_reply_def Let_def intro!: changes split: option.splits)

lemma remove_torn_down_keeps: "I srv \<Longrightarrow> I (remove_torn_down a srv)"
proof -
  have *: "I srv \<Longrightarrow> I (fold (\<lambda>m srv. if sm_is_tearing_down m
      then snd (rtsp_server_session_media_remove a (sm_addr m) srv) else srv) ms srv)" for ms srv
    by (induction ms arbitrary: srv) (auto intro: media_remove)
  show "I srv \<Longrightarrow> I (remove_torn_down a srv)"
    by (auto simp: remove_torn_down_def Let_def intro!: * session_remove split: option.splits)
qed

lemma setup_failed_keeps: "I srv \<Longrightarrow> I (setup_failed a srv)"
  by (auto simp: setup_failed_def intro!: idle_add split: option.splits)

lemma announce_reply_keeps:
  "I srv \<Longrightarrow> ensures (\<lambda>(ret, srv). I srv) (rtsp_server_reply_to_announce e r status ext srv)"
  unfolding rtsp_server_reply_to_announce_def
  by (auto split: option.splits intro!: ensures_bind [where Q = "\<lambda>(ret, status, srv). I srv"]
      ensures_bind [OF respond_keeps] ensures_bind [OF error_response_if_keeps] finish_reply_keeps)

lemma describe_reply_keeps:
  "I srv \<Longrightarrow> ensures (\<lambda>(ret, srv). I srv) (rtsp_server_reply_to_describe e r status ext sdp srv)"
  unfolding rtsp_server_reply_to_describe_def
  by (auto split: option.splits intro!: ensures_bind [where Q = "\<lambda>(ret, status, srv). I srv"]
      ensures_bind [OF respond_keeps] ensures_bind [OF error_response_if_keeps] finish_reply_keeps)

lemma setup_reply_keeps:
  "I srv \<Longrightarrow> ensures (\<lambda>(ret, srv). I srv)
     (rtsp_server_reply_to_setup e r m status p1 p2 valid ssrc_value ext userdata srv)"
  unfolding rtsp_server_reply_to_setup_def
  by (auto split: option.splits list.splits simp: Let_def
      intro!: ensures_bind [where Q = "\<lambda>(ret, failed, status, srv). I srv"] ensures_bind [OF respond_keeps]
        ensures_bind [OF error_response_if_keeps] finish_reply_keeps setup_failed_keeps session_change)

lemma media_reply_keeps:
  assumes "I srv" and "\<And>first s. session_shape (fst (mr_agree mr first s)) = session_shape s"
    and "\<And>s. session_shape (mr_complete mr s) = session_shape s"
    and "\<And>a srv. I srv \<Longrightarrow> I (mr_after mr a srv)"
  shows "ensures (\<lambda>(ret, srv). I srv) (media_reply e mr r m status ext srv)"
proof -
  have body: "ensures (\<lambda>(ret, status, complete, srv). I srv) (media_reply_body e mr p s m status ext srv)" for p s
    unfolding media_reply_body_def
    using assms by (auto split: option.splits simp: Let_def
      intro!: ensures_bind [OF respond_keeps] session_change request_change)
  show ?thesis
    unfolding media_reply_def
    using assms by (auto split: option.splits simp: Let_def
      intro!: ensures_bind [OF body] ensures_bind [OF error_response_if_keeps] finish_reply_keeps assms(4))
qed

lemma media_replies_keep:
  assumes "I srv"
  shows "ensures (\<lambda>(ret, srv). I srv)
           (rtsp_server_reply_to_play e r m status rng scale seq_valid seq rtptime_valid rtptime ext srv)"
    and "ensures (\<lambda>(ret, srv). I srv) (rtsp_server_reply_to_pause e r m status rng ext srv)"
    and "ensures (\<lambda>(ret, srv). I srv) (rtsp_server_reply_to_record e r m status rng ext srv)"
    and "ensures (\<lambda>(ret, srv). I srv) (rtsp_server_reply_to_teardown e r m status ext srv)"
  unfolding rtsp_server_reply_to_play_def rtsp_server_reply_to_pause_def rtsp_server_reply_to_record_def
    rtsp_server_reply_to_teardown_def
  by (rule media_reply_keeps; simp add: assms remove_torn_down_keeps)+

lemma send_request_keeps: "I srv \<Longrightarrow> ensures (\<lambda>(ret, srv). I srv) (send_request e header body srv)"
  by (auto simp: send_request_def ensures_def intro!: output_grow split: sum.splits failure.splits)

lemma send_teardown_keeps:
  "I srv \<Longrightarrow> ensures (\<lambda>(ret, srv). I srv) (rtsp_server_send_teardown e uri session_id ext srv)"
  unfolding rtsp_server_send_teardown_def by (simp add: send_request_keeps cseq_change)

lemma announce_keeps: "I srv \<Longrightarrow> ensures (\<lambda>(ret, srv). I srv) (rtsp_server_announce e uri ext sdp srv)"
  unfolding rtsp_server_announce_def by (simp add: send_request_keeps cseq_change)

lemma send_interleaved_keeps:
  "I srv \<Longrightarrow> ensures (\<lambda>(ret, srv). I srv) (rtsp_server_send_interleaved e channel data n srv)"
  unfolding rtsp_server_send_interleaved_def by (simp add: output_grow split: sum.split failure.split)

lemma api_step_keeps: "I srv \<Longrightarrow> ensures (\<lambda>(ret, srv). I srv) (api_step e c srv)"
  by (cases c) (simp_all only: api_step.simps announce_reply_keeps describe_reply_keeps setup_reply_keeps
      media_replies_keep announce_keeps send_interleaved_keeps)

lemma run_api_keeps: "I srv \<Longrightarrow> ensures I (run_api e calls srv)"
  unfolding run_api_def
  by (rule call_each_ensures) (auto intro!: ensures_bind [OF api_step_keeps])

lemma app_keeps: "I srv \<Longrightarrow> ensures I (cbs_call (app_cbs e app) c srv)"
  by (simp add: app_cbs_def run_api_keeps)

end

section \<open>Callbacks that keep what the replies keep\<close>

locale application_frame = reply_frame +
  fixes cbs :: rtsp_server_cbs
  assumes call_keeps: "I srv \<Longrightarrow> ensures I (cbs_call cbs c srv)"
begin

lemma expire_request_keeps: "I srv \<Longrightarrow> ensures I (expire_request e cbs p srv)"
  unfolding expire_request_def
  by (auto intro!: ensures_bind [OF error_response_keeps] ensures_bind [OF call_keeps] request_remove)

lemma timer_keeps: "I srv \<Longrightarrow> ensures I (rtsp_server_timer_cb e cbs srv)"
  unfolding rtsp_server_timer_cb_def by (rule walk_safe_ensures) (simp_all add: expire_request_keeps)

lemma session_timer_keeps: "I srv \<Longrightarrow> ensures I (rtsp_server_session_timer_cb cbs a srv)"
  unfolding rtsp_server_session_timer_cb_def
  by (auto split: option.split intro!: ensures_bind [OF walk_ensures] call_keeps session_remove)

lemma force_teardown_keeps:
  "I srv \<Longrightarrow> ensures (\<lambda>(ret, srv). I srv) (rtsp_server_force_teardown e cbs session_id path ext srv)"
proof -
  assume I: "I srv"
  have calls: "ensures I (walk live (\<lambda>m srv. if q m then cbs_call cbs (c m) srv else Inr srv) ms srv)" for live q c ms
    by (rule walk_ensures [where P = I, OF I]) (simp add: call_keeps)
  have all_calls: "ensures I (walk live (\<lambda>m. cbs_call cbs (c m)) ms srv)" for live c ms
    by (rule walk_ensures [where P = I, OF I call_keeps])
  show ?thesis
    unfolding rtsp_server_force_teardown_def
    by (auto simp: I case_prod_beta' session_remove media_remove simp del: walk.simps
        split: option.split intro!: ensures_bind [OF calls] ensures_bind [OF all_calls] ensures_bind [OF send_teardown_keeps])
qed

lemma destroy_keeps: "I srv \<Longrightarrow> ensures I (rtsp_server_destroy cbs srv)"
proof -
  have *: "I srv \<Longrightarrow> I (fold (\<lambda>s srv. snd (rtsp_server_session_remove (ss_addr s) srv)) ss srv)" for ss srv
    by (induction ss arbitrary: srv) (auto intro: session_remove)
  show "I srv \<Longrightarrow> ensures I (rtsp_server_destroy cbs srv)"
    unfolding rtsp_server_destroy_def
    by (auto intro!: ensures_bind [OF walk_safe_ensures] ensures_bind [OF call_keeps] request_remove *)
qed

end

section \<open>The changes that handling a request is made of\<close>

locale server_frame = application_frame +
  assumes request_fill: "I srv \<Longrightarrow> I (set_request r (\<lambda>p. p\<lparr>pr_request_header := h p, pr_body := b\<rparr>) srv)"
    and request_media_add: "I srv \<Longrightarrow> I (rtsp_server_pending_request_media_add r m srv)"
    and session_add: "I srv \<Longrightarrow> I (snd (rtsp_server_session_add e t uri srv))"
    and media_add: "I srv \<Longrightarrow> I (snd (rtsp_server_session_media_add a uri path srv))"
    and idle_run: "I srv \<Longrightarrow> srv_idle srv = a # rest \<Longrightarrow> I (srv\<lparr>srv_idle := rest\<rparr>)"
    and disconnect: "I srv \<Longrightarrow> I (rtsp_server_disconnected c srv)"
begin

lemma leave_callback_keeps:
  "I srv \<Longrightarrow> ensures (\<lambda>(removed, srv). I srv) (leave_callback r session ret srv)"
  by (auto simp: leave_callback_def Let_def intro!: changes split: option.splits)

lemma enter_callback_keeps: "I srv \<Longrightarrow> I (enter_callback r srv)"
  by (rule request_change) simp_all

lemma handler_fails_keeps: "I srv \<Longrightarrow> ensures (\<lambda>(ret, status, srv). I srv) (handler_fails r ret status srv)"
  by (auto simp: handler_fails_def intro!: request_change)

lemma options_keeps: "I srv \<Longrightarrow> ensures (\<lambda>(ret, status, srv). I srv) (rtsp_server_options e p srv)"
  unfolding rtsp_server_options_def
  by (auto split: option.split intro!: ensures_bind [OF respond_keeps] request_remove)

lemma describe_keeps: "I srv \<Longrightarrow> ensures (\<lambda>(ret, status, srv). I srv) (rtsp_server_describe cbs p srv)"
  unfolding rtsp_server_describe_def
  by (auto simp: Let_def handler_fails_keeps split: sum.split failure.split
      intro!: ensures_bind [OF call_keeps] ensures_bind [OF leave_callback_keeps] enter_callback_keeps)

lemma announce_req_keeps:
  "I srv \<Longrightarrow> ensures (\<lambda>(ret, status, srv). I srv) (rtsp_server_announce_req e cbs p srv)"
  unfolding rtsp_server_announce_req_def
  by (auto simp: Let_def handler_fails_keeps split: sum.split failure.split
      intro!: ensures_bind [OF call_keeps] ensures_bind [OF leave_callback_keeps] enter_callback_keeps
        ensures_bind [OF ensures_bind [where P = I, OF announce_reply_keeps]])

lemma setup_session_keeps:
  "I srv \<Longrightarrow> setup_session e p base srv = (res, srv') \<Longrightarrow> I srv'"
  using session_add [of srv e "srv_session_timeout_ms srv" "Some base"]
  by (auto simp: setup_session_def split: option.splits prod.splits)

lemma start_operation_keeps: "I srv \<Longrightarrow> I (start_operation p s srv)"
  by (auto simp: start_operation_def intro!: changes)

lemma add_medias_keeps: "I srv \<Longrightarrow> I (add_medias r ms srv)"
  by (induction ms arbitrary: srv) (auto intro: request_media_add)

lemma setup_keeps:
  assumes I: "I srv"
  shows "ensures (\<lambda>(ret, status, srv). I srv) (rtsp_server_setup e cbs dst_address p srv)"
proof -
  have added: "I srv \<Longrightarrow> rtsp_server_session_media_add a uri path srv = (res, srv') \<Longrightarrow> I srv'"
    for a uri path srv res srv' using media_add [of srv a uri path] by simp
  have started: "I srv \<Longrightarrow> I (set_session a (\<lambda>s. (rtsp_server_session_reset_timeout s)
      \<lparr>ss_op_in_progress := req_method h\<rparr>) srv)" for a h srv
    by (rule session_change) simp_all
  show ?thesis
    unfolding rtsp_server_setup_def Let_def
    by (auto simp: I split: sum.split failure.split prod.split option.split
      dest: setup_session_keeps [OF I] added intro: session_remove
      intro!: handler_fails_keeps ensures_bind [OF call_keeps] ensures_bind [OF leave_callback_keeps]
        enter_callback_keeps started)
qed

lemma get_parameter_keeps: "I srv \<Longrightarrow> ensures (\<lambda>(ret, status, srv). I srv) (rtsp_server_get_parameter e p srv)"
  unfolding rtsp_server_get_parameter_def
  by (auto split: option.split sum.split intro!: ensures_any [where r = "request_session p srv" for p srv]
      ensures_bind [OF respond_keeps] request_remove session_change)

lemma media_request_keeps:
  assumes "I srv" "\<And>a m srv. I srv \<Longrightarrow> ensures I (each a m srv)"
  shows "ensures (\<lambda>(ret, status, srv). I srv) (media_request each p srv)"
proof -
  have calls: "I srv \<Longrightarrow> ensures I (call_medias (each a) ms srv)" for a ms srv
    by (rule call_medias_ensures [where P = I, OF _ assms(2)])
  show ?thesis
    unfolding media_request_def
    by (auto simp: Let_def handler_fails_keeps assms split: sum.split
      intro!: ensures_any [where r = "request_session p srv" for p srv] ensures_bind [OF calls] ensures_bind [OF leave_callback_keeps]
        add_medias_keeps start_operation_keeps request_change)
qed

lemma media_requests_keep:
  assumes "I srv"
  shows "ensures (\<lambda>(ret, status, srv). I srv) (rtsp_server_play cbs p srv)"
    and "ensures (\<lambda>(ret, status, srv). I srv) (rtsp_server_pause cbs p srv)"
    and "ensures (\<lambda>(ret, status, srv). I srv) (rtsp_server_record e cbs p srv)"
  unfolding rtsp_server_play_def rtsp_server_pause_def rtsp_server_record_def
  by (rule media_request_keeps; auto simp: assms call_keeps intro!: ensures_bind [OF media_replies_keep(3)])+

lemma teardown_keeps: "I srv \<Longrightarrow> ensures (\<lambda>(ret, status, srv). I srv) (rtsp_server_teardown cbs p srv)"
proof -
  have calls: "I srv \<Longrightarrow> ensures I (call_medias (\<lambda>m. cbs_call cbs (c m)) ms srv)" for c ms srv
    by (rule call_medias_ensures [where P = I, OF _ call_keeps])
  have marked: "I srv \<Longrightarrow> I (set_session a (\<lambda>s. s\<lparr>ss_medias := update_where q
      (\<lambda>m. m\<lparr>sm_is_tearing_down := True\<rparr>) (ss_medias s)\<rparr>) srv)" for a q srv
    by (rule session_change) simp_all
  show "I srv \<Longrightarrow> ?thesis"
    unfolding rtsp_server_teardown_def
    by (auto simp: Let_def handler_fails_keeps split: sum.split failure.split
      intro!: ensures_any [where r = "request_session p srv" for p srv] ensures_bind [OF calls] ensures_bind [OF leave_callback_keeps]
        handler_fails_keeps marked add_medias_keeps start_operation_keeps remove_torn_down_keeps)
qed

lemma dispatch_request_keeps:
  "I srv \<Longrightarrow> ensures (\<lambda>(ret, status, srv). I srv) (dispatch_request e cbs dst_address p srv)"
  unfolding dispatch_request_def
  by (simp add: options_keeps describe_keeps announce_req_keeps setup_keeps media_requests_keep
      teardown_keeps get_parameter_keeps split: rtsp_method_type.split)

lemma remove_idle_keeps: "I srv \<Longrightarrow> I (rtsp_server_session_remove_idle srv)"
  by (auto simp: rtsp_server_session_remove_idle_def intro: session_remove idle_run split: list.split)

end

locale receiving_frame = server_frame +
  assumes request_add: "I srv \<Longrightarrow> I (snd (rtsp_server_pending_request_add e conn t srv))"
begin

lemma request_process_keeps:
  assumes "I srv"
  shows "ensures I (rtsp_server_request_process e cbs conn dst_address msg srv)"
proof -
  obtain r srv1 where eq: "rtsp_server_pending_request_add e (Some conn) (srv_reply_timeout_ms srv) srv = (r, srv1)"
    by fastforce
  then have "I srv1"
    using request_add [OF assms, of e "Some conn" "srv_reply_timeout_ms srv"] by simp
  then show ?thesis
    unfolding rtsp_server_request_process_def Let_def eq
    by (auto split: option.split intro!: request_fill request_remove
      ensures_any [where r = "copy_body m" for m] ensures_bind [OF dispatch_request_keeps]
      ensures_bind [OF error_response_keeps])
qed

lemma process_message_keeps: "I srv \<Longrightarrow> ensures I (process_message e cbs conn dst_address msg srv)"
  by (simp add: process_message_def request_process_keeps call_keeps)

lemma pomp_cb_keeps:
  "I srv \<Longrightarrow> ensures (\<lambda>(srv, buf). I srv) (rtsp_server_pomp_cb time_parse e cbs conn dst_address data (srv, buf))"
  unfolding rtsp_server_pomp_cb_def
  by (auto intro!: ensures_any [where r = "receive time_parse data buf" for data buf]
      ensures_bind [where Q = I, OF call_each_ensures [where P = I, OF _ process_message_keeps]])

end

end
