(* ===== verification/RtspServerInvariant.thy ===== *)
theory RtspServerInvariant
  imports RtspServerFrame
begin

text \<open>
  The server as a step relation over the events of its event loop, the invariant of its state
  (counts, addresses, session identifiers, paths, scheduled removals), and its preservation, by the
  interpretation of the interfaces of the handlers on the model of the server.
\<close>

section \<open>Invariant\<close>

abbreviation media_addrs :: "server_session \<Rightarrow> nat list" where
  "media_addrs s \<equiv> map sm_addr (ss_medias s)"

definition session_key :: "server_session \<Rightarrow> string" where
  "session_key s = take RTSP_SERVER_SESSION_ID_LENGTH (ss_session_id s)"

text \<open>Addresses are below \<open>n\<close>, the next one to be given.\<close>

definition session_ok :: "nat \<Rightarrow> server_session \<Rightarrow> bool" where
  "session_ok n s \<longleftrightarrow>
     ss_addr s < n \<and> (\<forall>m \<in> set (media_addrs s). m < n) \<and>
     ss_media_count s = length (ss_medias s) \<and> distinct (map sm_path (ss_medias s))"

definition sessions_ok :: "nat \<Rightarrow> server_session list \<Rightarrow> bool" where
  "sessions_ok n ss \<longleftrightarrow>
     distinct (map ss_addr ss) \<and> distinct (concat (map media_addrs ss)) \<and>
     distinct (map session_key ss) \<and> (\<forall>s \<in> set ss. session_ok n s)"

definition requests_ok :: "nat \<Rightarrow> pending_request list \<Rightarrow> bool" where
  "requests_ok n ps \<longleftrightarrow>
     distinct (map pr_addr ps) \<and> (\<forall>p \<in> set ps. pr_addr p < n \<and> pr_media_count p = length (pr_medias p))"

definition server_ok :: "rtsp_server \<Rightarrow> bool" where
  "server_ok srv \<longleftrightarrow>
     sessions_ok (srv_next_addr srv) (srv_sessions srv) \<and>
     requests_ok (srv_next_addr srv) (srv_pending_requests srv) \<and>
     srv_session_count srv = length (srv_sessions srv) \<and>
     srv_pending_request_count srv = length (srv_pending_requests srv) \<and>
     set (srv_idle srv) \<subseteq> ss_addr ` set (srv_sessions srv)"

section \<open>One session or request among the others\<close>

lemma session_ok_mono: "session_ok n s \<Longrightarrow> n \<le> n' \<Longrightarrow> session_ok n' s"
  by (fastforce simp: session_ok_def)

lemma sessions_ok_replace:
  assumes "sessions_ok n (us @ s # vs)" "n \<le> n'" "session_ok n' s'" "ss_addr s' = ss_addr s"
    and "session_key s' = session_key s" "distinct (media_addrs s')"
    and "\<And>m. m \<in> set (media_addrs s') \<Longrightarrow> m \<in> set (media_addrs s) \<or> n \<le> m"
  shows "sessions_ok n' (us @ s' # vs)"
proof -
  have old: "\<forall>m \<in> set (concat (map media_addrs us) @ concat (map media_addrs vs)). m < n"
    using assms(1) by (auto simp: sessions_ok_def session_ok_def)
  have "distinct (concat (map media_addrs us) @ media_addrs s @ concat (map media_addrs vs))"
    using assms(1) by (simp add: sessions_ok_def)
  then have "distinct (concat (map media_addrs us) @ media_addrs s' @ concat (map media_addrs vs))"
  proof (rule distinct_replace [OF _ assms(6)])
    show "y \<in> set (media_addrs s)" if "y \<in> set (media_addrs s')"
        "y \<in> set (concat (map media_addrs us) @ concat (map media_addrs vs))" for y
      using old assms(7) that by (meson leD)
  qed
  moreover have "\<forall>s \<in> set (us @ s' # vs). session_ok n' s"
    using assms(1-3) by (auto simp: sessions_ok_def intro: session_ok_mono)
  ultimately show ?thesis
    using assms(1,4,5) by (simp add: sessions_ok_def)
qed

lemma sessions_ok_drop:
  assumes "sessions_ok n (us @ s # vs)"
  shows "sessions_ok n (us @ vs)"
proof -
  have "distinct (concat (map media_addrs us) @ media_addrs s @ concat (map media_addrs vs))"
    using assms by (simp add: sessions_ok_def)
  then have "distinct (concat (map media_addrs us) @ [] @ concat (map media_addrs vs))"
    by (rule distinct_replace) simp_all
  with assms show ?thesis
    by (simp add: sessions_ok_def)
qed

lemma sessions_ok_mono: "sessions_ok n ss \<Longrightarrow> n \<le> n' \<Longrightarrow> sessions_ok n' ss"
  by (fastforce simp: sessions_ok_def session_ok_def)

lemma requests_ok_drop: "requests_ok n (us @ p # vs) \<Longrightarrow> requests_ok n (us @ vs)"
  by (simp add: requests_ok_def)

lemma requests_ok_mono: "requests_ok n ps \<Longrightarrow> n \<le> n' \<Longrightarrow> requests_ok n' ps"
  by (fastforce simp: requests_ok_def)

lemma server_ok_session:
  assumes "server_ok srv" "find_session srv a = Some s"
  shows "\<exists>us vs. srv_sessions srv = us @ s # vs \<and> ss_addr s = a \<and>
           a \<notin> ss_addr ` set us \<and> a \<notin> ss_addr ` set vs"
  using assms by (intro find_split) (simp_all add: server_ok_def sessions_ok_def)

lemma server_ok_request:
  assumes "server_ok srv" "find_request srv r = Some p"
  shows "\<exists>us vs. srv_pending_requests srv = us @ p # vs \<and> pr_addr p = r \<and>
           r \<notin> pr_addr ` set us \<and> r \<notin> pr_addr ` set vs"
  using assms by (intro find_split) (simp_all add: server_ok_def requests_ok_def)

section \<open>Changes that keep the shape\<close>

lemma shape_views:
  "map ss_addr ss = map fst (map session_shape ss)"
  "map media_addrs ss = map (\<lambda>x. map fst (snd (snd (snd x)))) (map session_shape ss)"
  "map session_key ss = map (fst \<circ> snd) (map session_shape ss)"
  "(\<forall>s \<in> set ss. session_ok n s) =
     (\<forall>x \<in> set (map session_shape ss). fst x < n \<and> (\<forall>m \<in> set (map fst (snd (snd (snd x)))). m < n) \<and>
        fst (snd (snd x)) = length (snd (snd (snd x))) \<and> distinct (map snd (snd (snd (snd x)))))"
  by (auto simp: session_key_def session_ok_def session_shape_def comp_def)

lemma sessions_ok_cong: "map session_shape ss = map session_shape ss' \<Longrightarrow> sessions_ok n ss = sessions_ok n ss'"
  unfolding sessions_ok_def shape_views by simp

lemma set_session_ok:
  assumes "server_ok srv" "\<And>s. session_shape (f s) = session_shape s"
  shows "server_ok (set_session a f srv)"
proof -
  have eq: "map session_shape (update_where p f ss) = map session_shape ss" for p ss
    by (rule map_update_where) (rule assms(2))
  then have "map ss_addr (update_where p f ss) = map ss_addr ss" for p ss
    by (metis shape_views(1))
  then have "ss_addr ` set (update_where p f ss) = ss_addr ` set ss" for p ss
    by (metis set_map)
  with assms(1) sessions_ok_cong [OF eq] show ?thesis
    by (simp add: server_ok_def set_session_def)
qed

lemma requests_ok_update:
  assumes "requests_ok n ps"
    and "\<And>p. p \<in> set ps \<Longrightarrow> pr_addr (f p) = pr_addr p \<and>
           (pr_media_count p = length (pr_medias p) \<longrightarrow> pr_media_count (f p) = length (pr_medias (f p)))"
  shows "requests_ok n (update_where q f ps)"
proof -
  have "map pr_addr (update_where q f ps) = map pr_addr ps"
    using assms(2) by (simp add: update_where_def)
  moreover have "pr_addr p < n \<and> pr_media_count p = length (pr_medias p)" if "p \<in> set (update_where q f ps)" for p
    using assms that by (auto simp: requests_ok_def update_where_def split: if_splits)
  ultimately show ?thesis
    using assms(1) by (simp add: requests_ok_def)
qed

lemma set_request_ok:
  assumes "server_ok srv"
    and "\<And>p. pr_addr (f p) = pr_addr p \<and>
           (pr_media_count p = length (pr_medias p) \<longrightarrow> pr_media_count (f p) = length (pr_medias (f p)))"
  shows "server_ok (set_request r f srv)"
  using assms by (simp add: server_ok_def set_request_def requests_ok_update)

lemma request_shape_ok:
  "request_shape (f p) = request_shape p \<Longrightarrow> pr_addr (f p) = pr_addr p \<and>
     (pr_media_count p = length (pr_medias p) \<longrightarrow> pr_media_count (f p) = length (pr_medias (f p)))"
  by (auto simp: request_shape_def dest: arg_cong [where f = length])

section \<open>Removals and additions\<close>

lemma session_remove_ok:
  assumes ok: "server_ok srv"
  shows "server_ok (snd (rtsp_server_session_remove a srv))"
proof (cases "find_session srv a")
  case None
  with ok show ?thesis
    by (simp add: rtsp_server_session_remove_def)
next
  case (Some s)
  then obtain us vs where split: "srv_sessions srv = us @ s # vs" "ss_addr s = a"
      "a \<notin> ss_addr ` set us" "a \<notin> ss_addr ` set vs"
    using server_ok_session [OF ok] by blast
  then have "remove1 s (srv_sessions srv) = us @ vs"
    by (auto simp: remove1_append)
  with ok Some split show ?thesis
    by (auto simp: server_ok_def rtsp_server_session_remove_def intro: sessions_ok_drop)
qed

lemma request_remove_ok:
  assumes ok: "server_ok srv"
  shows "server_ok (snd (rtsp_server_pending_request_remove r srv))"
proof (cases "find_request srv r")
  case None
  with ok show ?thesis
    by (simp add: rtsp_server_pending_request_remove_def)
next
  case (Some p)
  then obtain us vs where split: "srv_pending_requests srv = us @ p # vs" "pr_addr p = r"
      "r \<notin> pr_addr ` set us" "r \<notin> pr_addr ` set vs"
    using server_ok_request [OF ok] by blast
  then have "remove1 p (srv_pending_requests srv) = us @ vs"
    by (auto simp: remove1_append)
  with ok Some split show ?thesis
    by (auto simp: server_ok_def rtsp_server_pending_request_remove_def intro: requests_ok_drop)
qed

lemma media_change_ok:
  assumes ok: "server_ok srv" and s: "find_session srv a = Some s" and n: "srv_next_addr srv \<le> n"
    and new: "session_ok n (f s)" "ss_addr (f s) = ss_addr s" "session_key (f s) = session_key s"
      "distinct (media_addrs (f s))"
      "\<And>m. m \<in> set (media_addrs (f s)) \<Longrightarrow> m \<in> set (media_addrs s) \<or> srv_next_addr srv \<le> m"
  shows "server_ok ((set_session a f srv)\<lparr>srv_next_addr := n\<rparr>)"
proof -
  obtain us vs where split: "srv_sessions srv = us @ s # vs" "ss_addr s = a"
      "a \<notin> ss_addr ` set us" "a \<notin> ss_addr ` set vs"
    using server_ok_session [OF ok s] by blast
  have "sessions_ok n (us @ f s # vs)"
    using ok by (intro sessions_ok_replace [OF _ n new]) (simp_all add: server_ok_def split)
  with ok new(2) n split show ?thesis
    by (auto simp: server_ok_def set_session_def update_where_none intro: requests_ok_mono)
qed

lemma server_ok_medias:
  assumes "server_ok srv" "find_session srv a = Some s"
  shows "session_ok (srv_next_addr srv) s" "distinct (media_addrs s)"
  using server_ok_session [OF assms] assms(1) by (auto simp: server_ok_def sessions_ok_def)

lemma media_remove_ok:
  assumes ok: "server_ok srv"
  shows "server_ok (snd (rtsp_server_session_media_remove a m srv))"
proof (cases "\<exists>s. find_session srv a = Some s \<and> m \<in> set (media_addrs s)")
  case False
  with ok show ?thesis
    by (auto simp: rtsp_server_session_media_remove_def split: option.split)
next
  case True
  then obtain s where s: "find_session srv a = Some s" "m \<in> set (media_addrs s)"
    by blast
  let ?f = "\<lambda>s. s\<lparr>ss_medias := filter (\<lambda>x. sm_addr x \<noteq> m) (ss_medias s),
                  ss_media_count := ss_media_count s - 1\<rparr>"
  have "server_ok ((set_session a ?f srv)\<lparr>srv_next_addr := srv_next_addr srv\<rparr>)"
    using server_ok_medias [OF ok s(1)] s(2)
    by (intro media_change_ok [OF ok s(1)])
      (auto simp: session_ok_def session_key_def distinct_map_filter length_filter_other)
  with s show ?thesis
    by (simp add: rtsp_server_session_media_remove_def set_session_def)
qed

lemma media_add_ok:
  assumes ok: "server_ok srv"
  shows "server_ok (snd (rtsp_server_session_media_add a uri path srv))"
proof (cases "\<exists>s p. find_session srv a = Some s \<and> path = Some p \<and> rtsp_server_session_media_find s p = None")
  case False
  with ok show ?thesis
    by (auto simp: rtsp_server_session_media_add_def split: option.split)
next
  case True
  then obtain s p where s: "find_session srv a = Some s" "path = Some p" "rtsp_server_session_media_find s p = None"
    by blast
  let ?m = "\<lparr>sm_addr = srv_next_addr srv, sm_uri = uri, sm_path = p, sm_userdata = 0, sm_is_tearing_down = False\<rparr>"
  let ?f = "\<lambda>s. s\<lparr>ss_medias := ss_medias s @ [?m], ss_media_count := ss_media_count s + 1\<rparr>"
  have "server_ok ((set_session a ?f srv)\<lparr>srv_next_addr := srv_next_addr srv + 1\<rparr>)"
    using server_ok_medias [OF ok s(1)] s(3)
    by (intro media_change_ok [OF ok s(1)])
      (auto simp: session_ok_def session_key_def rtsp_server_session_media_find_def find_None_iff)
  with s show ?thesis
    by (simp add: rtsp_server_session_media_add_def Let_def)
qed

lemma session_add_ok:
  assumes ok: "server_ok srv"
  shows "server_ok (snd (rtsp_server_session_add e t uri srv))"
proof -
  have *: "sessions_ok (Suc (srv_next_addr srv)) (srv_sessions srv @ [s])"
    if "ss_addr s = srv_next_addr srv" "ss_medias s = []" "ss_media_count s = 0"
      "\<not> (\<exists>x \<in> set (srv_sessions srv). session_id_eq (ss_session_id x) (ss_session_id s))" for s
  proof -
    have "sessions_ok (Suc (srv_next_addr srv)) (srv_sessions srv)"
      using ok by (auto simp: server_ok_def intro: sessions_ok_mono)
    moreover have "\<forall>x \<in> set (srv_sessions srv). ss_addr x < srv_next_addr srv"
      using ok by (auto simp: server_ok_def sessions_ok_def session_ok_def)
    ultimately show ?thesis
      using that by (auto simp: sessions_ok_def session_ok_def session_key_def session_id_eq_def)
  qed
  show ?thesis
  proof (cases "find (\<lambda>sid. \<not> (\<exists>s \<in> set (srv_sessions srv). session_id_eq (ss_session_id s) sid))
             (map session_id_of (env_random e))")
    case None
    with ok show ?thesis
      by (simp add: rtsp_server_session_add_def)
  next
    case (Some sid)
    then have new: "\<not> (\<exists>s \<in> set (srv_sessions srv). session_id_eq (ss_session_id s) sid)"
      unfolding find_Some_iff by blast
    from ok have "requests_ok (srv_next_addr srv + 1) (srv_pending_requests srv)"
      by (auto simp: server_ok_def intro: requests_ok_mono)
    with ok new show ?thesis
      unfolding rtsp_server_session_add_def Some Let_def by (simp add: server_ok_def *) blast
  qed
qed

lemma request_add_ok: "server_ok srv \<Longrightarrow> server_ok (snd (rtsp_server_pending_request_add e conn t srv))"
  by (fastforce simp: rtsp_server_pending_request_add_def Let_def server_ok_def requests_ok_def
      intro: sessions_ok_mono)

lemma disconnected_ok: "server_ok srv \<Longrightarrow> server_ok (rtsp_server_disconnected conn srv)"
  by (simp add: server_ok_def rtsp_server_disconnected_def requests_ok_update)

lemma server_ok_simps [simp]:
  "server_ok (srv\<lparr>srv_output := xs\<rparr>) = server_ok srv"
  "server_ok (srv\<lparr>srv_cseq := n\<rparr>) = server_ok srv"
  by (simp_all add: server_ok_def)

interpretation ok: reply_frame server_ok
proof
  show "server_ok srv \<Longrightarrow> (\<And>p. request_shape (g p) = request_shape p) \<Longrightarrow> server_ok (set_request r g srv)" for srv g r
    by (rule set_request_ok) (auto dest: request_shape_ok)
  show "server_ok srv \<Longrightarrow> find_session srv a \<noteq> None \<Longrightarrow> server_ok (srv\<lparr>srv_idle := srv_idle srv @ [a]\<rparr>)" for srv a
    by (auto simp: server_ok_def find_Some_iff)
qed (simp_all add: set_session_ok session_remove_ok media_remove_ok request_remove_ok)

interpretation ok: receiving_frame server_ok "app_cbs e app" for e app
proof
  show "server_ok srv \<Longrightarrow> server_ok (set_request r (\<lambda>p. p\<lparr>pr_request_header := h p, pr_body := b\<rparr>) srv)" for srv r h b
    by (rule set_request_ok) auto
  show "server_ok srv \<Longrightarrow> server_ok (rtsp_server_pending_request_media_add r m srv)" for srv r m
    unfolding rtsp_server_pending_request_media_add_def by (rule set_request_ok) auto
  show "server_ok srv \<Longrightarrow> srv_idle srv = a # rest \<Longrightarrow> server_ok (srv\<lparr>srv_idle := rest\<rparr>)" for srv a rest
    by (simp add: server_ok_def)
qed (simp_all add: ok.app_keeps request_add_ok session_add_ok media_add_ok disconnected_ok)

section \<open>Steps\<close>

text \<open>What the event loop gives to the server; a session expires only while it has a timer.\<close>

datatype server_event =
    Received nat string string
  | RequestTimer
  | SessionTimer nat
  | IdleRun
  | Disconnected nat
  | Called api_call
  | ForceTeardown string "string option" "(string \<times> string) list"

type_synonym server_state = "rtsp_server \<times> string \<times> rtsp_message_parser_ctx"

inductive server_step :: "time_parser \<Rightarrow> application \<Rightarrow> server_state \<Rightarrow> server_event \<Rightarrow> server_state \<Rightarrow> bool"
  for time_parse app where
  step_received:
    "rtsp_server_pomp_cb time_parse e (app_cbs e app) conn dst data st = Inr st' \<Longrightarrow>
     server_step time_parse app st (Received conn dst data) st'"
| step_timer:
    "rtsp_server_timer_cb e (app_cbs e app) srv = Inr srv' \<Longrightarrow>
     server_step time_parse app (srv, buf) RequestTimer (srv', buf)"
| step_session_timer:
    "find_session srv a = Some s \<Longrightarrow> ss_timer s \<noteq> None \<Longrightarrow>
     rtsp_server_session_timer_cb (app_cbs e app) a srv = Inr srv' \<Longrightarrow>
     server_step time_parse app (srv, buf) (SessionTimer a) (srv', buf)"
| step_idle:
    "srv_idle srv \<noteq> [] \<Longrightarrow>
     server_step time_parse app (srv, buf) IdleRun (rtsp_server_session_remove_idle srv, buf)"
| step_disconnected:
    "server_step time_parse app (srv, buf) (Disconnected conn) (rtsp_server_disconnected conn srv, buf)"
| step_called:
    "api_step e c srv = Inr (ret, srv') \<Longrightarrow>
     server_step time_parse app (srv, buf) (Called c) (srv', buf)"
| step_force_teardown:
    "rtsp_server_force_teardown e (app_cbs e app) sid path ext srv = Inr (ret, srv') \<Longrightarrow>
     server_step time_parse app (srv, buf) (ForceTeardown sid path ext) (srv', buf)"

inductive_cases server_stepE: "server_step time_parse app st ev st'"

inductive server_reachable :: "time_parser \<Rightarrow> application \<Rightarrow> server_state \<Rightarrow> bool"
  for time_parse app where
  reachable_new:
    "rtsp_server_new name port reply_ms session_ms = Inr srv \<Longrightarrow>
     server_reachable time_parse app (srv, [], parser_ctx_init)"
| reachable_step:
    "server_reachable time_parse app st \<Longrightarrow> server_step time_parse app st ev st' \<Longrightarrow>
     server_reachable time_parse app st'"

lemma server_new_ok: "rtsp_server_new name port reply_ms session_ms = Inr srv \<Longrightarrow> server_ok srv"
  by (auto simp: rtsp_server_new_def server_ok_def sessions_ok_def requests_ok_def split: if_splits)

lemma server_step_ok: "server_step time_parse app st ev st' \<Longrightarrow> server_ok (fst st) \<Longrightarrow> server_ok (fst st')"
proof (induction rule: server_step.induct)
  case (step_received e conn dst data st st')
  then show ?case
    using ensuresD [OF ok.pomp_cb_keeps] by (cases st; cases st') fastforce
next
  case (step_timer e srv srv' buf)
  then show ?case
    using ensuresD [OF ok.timer_keeps] by simp
next
  case (step_session_timer srv a s e srv' buf)
  then show ?case
    using ensuresD [OF ok.session_timer_keeps] by simp
next
  case (step_called e c srv ret srv' buf)
  then show ?case
    using ensuresD [OF ok.api_step_keeps] by fastforce
next
  case (step_force_teardown e sid path ext srv ret srv' buf)
  then show ?case
    using ensuresD [OF ok.force_teardown_keeps] by fastforce
qed (simp_all add: ok.remove_idle_keeps disconnected_ok)

text \<open>
  C6: In every state the server reaches, whatever the connections send and whatever the application
  calls from its callbacks or outside of them: the counters are the lengths of the lists, every
  session, media and request has its own address, no two sessions have the same identifier, no two
  medias of a session have the same path, and a removal is scheduled only for a session that exists.
\<close>

theorem server_invariant:
  assumes "server_reachable time_parse app (srv, buf)"
  shows "server_ok srv"
proof -
  have "server_reachable time_parse app st \<Longrightarrow> server_ok (fst st)" for st
    by (induction rule: server_reachable.induct) (auto intro: server_new_ok server_step_ok)
  from this [OF assms] show ?thesis
    by simp
qed

end
