(* ===== verification/RtspServerTimers.thy ===== *)
theory RtspServerTimers
  imports RtspServerInvariant
begin

text \<open>
  How long a request waits: the deadline it gets when it is received, and the timer that removes the
  requests whose deadline has passed.
\<close>

section \<open>The requests that wait\<close>

definition deadline :: "server_env \<Rightarrow> rtsp_server \<Rightarrow> 64 word" where
  "deadline e srv = (if srv_reply_timeout_ms srv > 0 then env_now e + ucast (srv_reply_timeout_ms srv) * 1000 else 0)"

definition waiting :: "rtsp_server \<Rightarrow> (nat \<times> 64 word) set" where
  "waiting srv = set (map (\<lambda>p. (pr_addr p, pr_timeout p)) (srv_pending_requests srv))"

definition waits_within :: "(nat \<times> 64 word) set \<Rightarrow> rtsp_server \<Rightarrow> bool" where
  "waits_within R srv \<longleftrightarrow> server_ok srv \<and> waiting srv \<subseteq> R"

lemma waiting_simps [simp]:
  "waiting (srv\<lparr>srv_output := xs\<rparr>) = waiting srv"
  "waiting (srv\<lparr>srv_idle := ys\<rparr>) = waiting srv"
  "waiting (srv\<lparr>srv_cseq := n\<rparr>) = waiting srv"
  "waiting (srv\<lparr>srv_next_addr := a\<rparr>) = waiting srv"
  "waiting (set_session a f srv) = waiting srv"
  by (simp_all add: waiting_def set_session_def)

lemma waiting_set_request:
  "(\<And>p. pr_addr (f p) = pr_addr p \<and> pr_timeout (f p) = pr_timeout p) \<Longrightarrow>
   waiting (set_request r f srv) = waiting srv"
  by (simp add: waiting_def set_request_def map_update_where del: set_map)

lemma waiting_session_ops [simp]:
  "waiting (snd (rtsp_server_session_remove a srv)) = waiting srv"
  "waiting (snd (rtsp_server_session_media_remove a m srv)) = waiting srv"
  "waiting (snd (rtsp_server_session_add e t uri srv)) = waiting srv"
  "waiting (snd (rtsp_server_session_media_add a uri path srv)) = waiting srv"
  by (auto simp: rtsp_server_session_remove_def rtsp_server_session_media_remove_def
      rtsp_server_session_add_def rtsp_server_session_media_add_def Let_def split: option.split)
    (simp_all add: waiting_def)

lemma waiting_request_remove: "waiting (snd (rtsp_server_pending_request_remove r srv)) \<subseteq> waiting srv"
  by (simp add: waiting_def rtsp_server_pending_request_remove_def image_mono set_remove1_subset split: option.split)

lemma waiting_disconnected: "waiting (rtsp_server_disconnected c srv) = waiting srv"
  by (simp add: waiting_def rtsp_server_disconnected_def map_update_where del: set_map)

interpretation waits: reply_frame "waits_within R" for R
proof
  show "waits_within R srv \<Longrightarrow> (\<And>p. request_shape (g p) = request_shape p) \<Longrightarrow>
      waits_within R (set_request r g srv)" for srv g r
    unfolding waits_within_def
    by (subst waiting_set_request) (auto simp: request_shape_def intro: ok.request_change)
  show "waits_within R srv \<Longrightarrow> waits_within R (snd (rtsp_server_pending_request_remove r srv))" for srv r
    using waiting_request_remove by (fastforce simp: waits_within_def request_remove_ok)
qed (simp_all add: waits_within_def set_session_ok session_remove_ok media_remove_ok ok.idle_add)

interpretation waits: server_frame "waits_within R" "app_cbs e app" for R e app
proof
  show "waits_within R srv \<Longrightarrow> ensures (waits_within R) (cbs_call (app_cbs e app) c srv)" for srv c
    by (rule waits.app_keeps)
  show "waits_within R srv \<Longrightarrow>
      waits_within R (set_request r (\<lambda>p. p\<lparr>pr_request_header := h p, pr_body := b\<rparr>) srv)" for srv r h b
    unfolding waits_within_def
    by (subst waiting_set_request) (simp_all add: ok.request_fill)
  show "waits_within R srv \<Longrightarrow> waits_within R (rtsp_server_pending_request_media_add r m srv)" for srv r m
    using ok.request_media_add [of srv r m] unfolding waits_within_def rtsp_server_pending_request_media_add_def
    by (subst waiting_set_request) simp_all
  show "waits_within R srv \<Longrightarrow> srv_idle srv = a # rest \<Longrightarrow> waits_within R (srv\<lparr>srv_idle := rest\<rparr>)" for srv a rest
    using ok.idle_run [of srv a rest] by (simp add: waits_within_def)
qed (simp_all add: waits_within_def session_add_ok media_add_ok disconnected_ok waiting_disconnected)

section \<open>Receiving a request\<close>

lemma request_process_waiting:
  assumes "server_ok srv" "rtsp_server_request_process e (app_cbs e app) conn dst msg srv = Inr srv'"
  shows "waiting srv' \<subseteq> insert (srv_next_addr srv, deadline e srv) (waiting srv)"
proof -
  let ?add = "rtsp_server_pending_request_add e (Some conn) (srv_reply_timeout_ms srv) srv"
  have "waits_within (insert (srv_next_addr srv, deadline e srv) (waiting srv)) (snd ?add)"
    using request_add_ok [OF assms(1), of e "Some conn" "srv_reply_timeout_ms srv"]
    by (auto simp: waits_within_def waiting_def rtsp_server_pending_request_add_def deadline_def Let_def)
  then have "ensures (waits_within (insert (srv_next_addr srv, deadline e srv) (waiting srv)))
      (rtsp_server_request_process e (app_cbs e app) conn dst msg srv)"
    unfolding rtsp_server_request_process_def Let_def
    by (auto simp: case_prod_beta' split: option.split
      intro!: waits.request_fill waits.request_remove ensures_any [where r = "copy_body m" for m]
        ensures_bind [OF waits.dispatch_request_keeps] ensures_bind [OF waits.error_response_keeps])
  with assms(2) show ?thesis
    by (simp add: waits_within_def)
qed

section \<open>The timer\<close>

lemma request_remove_gone:
  assumes "server_ok srv"
  shows "r \<notin> fst ` waiting (snd (rtsp_server_pending_request_remove r srv))"
proof (cases "find_request srv r")
  case None
  then have "r \<notin> pr_addr ` set (srv_pending_requests srv)"
    by (auto simp: find_None_iff)
  then show ?thesis
    using None by (auto simp: rtsp_server_pending_request_remove_def waiting_def)
next
  case (Some p)
  then obtain us vs where "srv_pending_requests srv = us @ p # vs" "pr_addr p = r"
      "r \<notin> pr_addr ` set us" "r \<notin> pr_addr ` set vs"
    using server_ok_request [OF assms] by blast
  then show ?thesis
    using Some by (auto simp: rtsp_server_pending_request_remove_def waiting_def remove1_append)
qed

lemma expire_request_waiting:
  assumes "waits_within R srv" "expire_request e (app_cbs e app) p srv = Inr srv'"
  shows "waits_within (if expired e p then {w \<in> R. fst w \<noteq> pr_addr p} else R) srv'"
proof -
  have "waits_within R srv'"
    by (rule ensuresD [OF waits.expire_request_keeps [OF assms(1)] assms(2)])
  moreover have "pr_addr p \<notin> fst ` waiting srv'" if "expired e p"
  proof -
    from assms(2) that obtain srv1 ret srv2
      where 1: "error_response e (pr_addr p) 500 srv = Inr (ret, srv1)"
        and 2: "cbs_call (app_cbs e app) (CallRequestTimeout (pr_addr p) (req_method (pr_request_header p))) srv1 = Inr srv2"
        and 3: "srv' = snd (rtsp_server_pending_request_remove (pr_addr p) srv2)"
      by (auto simp: expire_request_def bindr_Inr_iff)
    have "server_ok srv"
      using assms(1) by (simp add: waits_within_def)
    then have "server_ok srv2"
      using ensuresD [OF ok.error_response_keeps 1] ensuresD [OF ok.call_keeps 2] by simp
    then show ?thesis
      unfolding 3 by (rule request_remove_gone)
  qed
  ultimately show ?thesis
    by (force simp: waits_within_def)
qed

lemma dead_request: "\<not> request_live p srv \<Longrightarrow> pr_addr p \<notin> fst ` waiting srv"
  by (auto simp: request_live_def waiting_def find_None_iff)

lemma expire_all_waiting:
  "walk_safe request_live (expire_request e (app_cbs e app)) ps srv = Inr srv' \<Longrightarrow> waits_within R srv \<Longrightarrow>
   waits_within {w \<in> R. \<not> (\<exists>p \<in> set ps. expired e p \<and> fst w = pr_addr p)} srv'"
proof (induction ps arbitrary: srv R)
  case (Cons p ps)
  show ?case
  proof (cases "request_live p srv")
    case False
    then have "waits_within {w \<in> R. fst w \<noteq> pr_addr p} srv"
      using Cons.prems(2) dead_request [OF False] by (force simp: waits_within_def)
    from Cons.IH [OF _ this] Cons.prems(1) False show ?thesis
      by (auto simp: waits_within_def)
  next
    case True
    let ?R = "R \<inter> waiting srv"
    from Cons.prems(1) True obtain srv1 where 1: "expire_request e (app_cbs e app) p srv = Inr srv1"
        "(case find (\<lambda>q. request_live q srv) ps of None \<Rightarrow> Inr srv1
          | Some y \<Rightarrow> if request_live y srv1 then walk_safe request_live (expire_request e (app_cbs e app)) ps srv1 else Inl UB) = Inr srv'"
      by (auto simp: bindr_Inr_iff)
    have "waits_within ?R srv"
      using Cons.prems(2) by (simp add: waits_within_def)
    note after = expire_request_waiting [OF this 1(1)]
    show ?thesis
    proof (cases "find (\<lambda>q. request_live q srv) ps")
      case None
      then have "\<forall>q \<in> set ps. pr_addr q \<notin> fst ` waiting srv"
        using dead_request by (auto simp: find_None_iff)
      with after 1(2) None show ?thesis
        by (auto simp: waits_within_def split: if_splits) force+
    next
      case (Some y)
      with 1(2) have "walk_safe request_live (expire_request e (app_cbs e app)) ps srv1 = Inr srv'"
        by (simp split: if_splits)
      from Cons.IH [OF this after] show ?thesis
        by (auto simp: waits_within_def split: if_splits)
    qed
  qed
qed simp

lemma timer_waiting:
  assumes "server_ok srv" "rtsp_server_timer_cb e (app_cbs e app) srv = Inr srv'"
  shows "waiting srv' \<subseteq> {w \<in> waiting srv. \<not> (0 < snd w \<and> snd w < env_now e)}"
proof -
  have "waits_within {w \<in> waiting srv. \<not> (\<exists>p \<in> set (srv_pending_requests srv). expired e p \<and> fst w = pr_addr p)} srv'"
    using assms(2) unfolding rtsp_server_timer_cb_def
    by (rule expire_all_waiting) (simp add: waits_within_def assms(1))
  then show ?thesis
    by (force simp: waits_within_def waiting_def expired_def)
qed

text \<open>
  C8: No request is left unanswered for ever: whatever the application does with a received request,
  once its deadline (the reply timeout after the reception, when there is one) has passed, the next
  run of the timer leaves neither that request nor any other whose deadline has passed.
\<close>

theorem request_does_not_linger:
  assumes "server_ok srv"
    and "rtsp_server_request_process e (app_cbs e app) conn dst msg srv = Inr srv1"
    and "rtsp_server_timer_cb e' (app_cbs e' app') srv1 = Inr srv2"
    and "0 < deadline e srv" "deadline e srv < env_now e'"
  shows "(\<forall>p \<in> set (srv_pending_requests srv2). \<not> expired e' p \<and> pr_addr p \<noteq> srv_next_addr srv) \<and>
         waiting srv2 \<subseteq> waiting srv"
proof -
  have old: "fst w < srv_next_addr srv" if "w \<in> waiting srv" for w
    using assms(1) that by (auto simp: server_ok_def requests_ok_def waiting_def)
  have "server_ok srv1"
    by (rule ensuresD [OF ok.request_process_keeps [OF assms(1)] assms(2)])
  note timer_waiting [OF this assms(3)]
  also have "{w \<in> waiting srv1. \<not> (0 < snd w \<and> snd w < env_now e')} \<subseteq>
      {w \<in> waiting srv. \<not> (0 < snd w \<and> snd w < env_now e')}"
    using request_process_waiting [OF assms(1,2)] assms(4,5) by auto
  finally have sub: "waiting srv2 \<subseteq> {w \<in> waiting srv. \<not> (0 < snd w \<and> snd w < env_now e')}" .
  have "\<not> expired e' p \<and> pr_addr p \<noteq> srv_next_addr srv" if "p \<in> set (srv_pending_requests srv2)" for p
  proof -
    have "(pr_addr p, pr_timeout p) \<in> waiting srv2"
      using that by (auto simp: waiting_def)
    with sub old show ?thesis
      by (fastforce simp: expired_def)
  qed
  with sub show ?thesis
    by blast
qed

end
