(* ===== verification/RtspServerAnswers.thy ===== *)
theory RtspServerAnswers
  imports RtspServerInvariant
begin

text \<open>
  What the clients of the server receive: the text of one response, the error for a session that
  does not exist, and the single response to a request that the application answers media by media.
\<close>

section \<open>Finding what has been changed\<close>

lemma find_set_request:
  "(\<And>p. pr_addr (f p) = pr_addr p) \<Longrightarrow> find_request (set_request r f srv) r = map_option f (find_request srv r)"
  by (simp add: set_request_def find_update_where)

lemma find_set_session:
  "(\<And>s. ss_addr (f s) = ss_addr s) \<Longrightarrow> find_session (set_session a f srv) a = map_option f (find_session srv a)"
  by (simp add: set_session_def find_update_where)

lemma set_request_fields [simp]:
  "srv_sessions (set_request r f srv) = srv_sessions srv"
  "srv_output (set_request r f srv) = srv_output srv"
  "srv_max_msg_size (set_request r f srv) = srv_max_msg_size srv"
  "srv_software_name (set_request r f srv) = srv_software_name srv"
  by (simp_all add: set_request_def)

lemma set_session_fields [simp]:
  "srv_pending_requests (set_session a f srv) = srv_pending_requests srv"
  "srv_output (set_session a f srv) = srv_output srv"
  "srv_max_msg_size (set_session a f srv) = srv_max_msg_size srv"
  "srv_software_name (set_session a f srv) = srv_software_name srv"
  by (simp_all add: set_session_def)

lemma distinct_left: "distinct (as @ bs @ cs) \<Longrightarrow> x \<in> set bs \<Longrightarrow> x \<notin> set as"
  by auto

lemma media_session_found:
  assumes "server_ok srv" "find_session srv a = Some s" "m \<in> set (media_addrs s)"
  shows "media_session srv m = Some s"
proof -
  obtain us vs where split: "srv_sessions srv = us @ s # vs"
    using server_ok_session [OF assms(1,2)] by blast
  have "distinct (concat (map media_addrs us) @ media_addrs s @ concat (map media_addrs vs))"
    using assms(1) by (simp add: server_ok_def sessions_ok_def split)
  from distinct_left [OF this assms(3)]
  have "find (\<lambda>s. m \<in> set (media_addrs s)) us = None"
    by (simp add: find_None_iff)
  then have "find (\<lambda>s. m \<in> set (media_addrs s)) (us @ s # vs) = Some s"
    using assms(3) by (induction us) (auto split: if_splits)
  then show ?thesis
    by (simp add: media_session_def split)
qed

section \<open>At most one message to the connection\<close>

definition sends_at_most_one :: "nat \<Rightarrow> rtsp_server \<Rightarrow> rtsp_server \<Rightarrow> bool" where
  "sends_at_most_one c srv srv' \<longleftrightarrow>
     srv_output srv' = srv_output srv \<or> (\<exists>t. srv_output srv' = srv_output srv @ [SentTo c t])"

lemma respond_outputs:
  "respond e c h body r srv = Inr (ret, failed, srv') \<Longrightarrow>
   if failed then srv_output srv' = srv_output srv
   else \<exists>t. write_response e (set_request r (\<lambda>p. p\<lparr>pr_response_header := h\<rparr>) srv) h body = Inr t \<and>
            srv_output srv' = srv_output srv @ [SentTo c t]"
  by (auto simp: respond_def send_to_def Let_def split: sum.splits failure.splits)

lemma respond_keeps_request:
  "respond e c h body r srv = Inr (ret, failed, srv') \<Longrightarrow>
   find_request srv' r = map_option (\<lambda>p. p\<lparr>pr_response_header := h\<rparr>) (find_request srv r)"
  by (auto simp: respond_def send_to_def Let_def find_set_request split: sum.splits failure.splits)

lemma error_response_outputs:
  assumes "error_response e r status srv = Inr (ret, srv')" "find_request srv r = Some p" "pr_conn p = Some c"
  shows "sends_at_most_one c srv srv'"
  using assms
  by (auto simp: error_response_def sends_at_most_one_def bindr_Inr_iff dest!: respond_outputs split: if_splits)

lemma finish_reply_output [simp]: "srv_output (finish_reply r session srv) = srv_output srv"
  by (auto simp: finish_reply_def rtsp_server_pending_request_remove_def Let_def split: option.split)

lemma session_ops_output [simp]:
  "srv_output (snd (rtsp_server_session_remove a srv)) = srv_output srv"
  "srv_output (snd (rtsp_server_session_media_remove a m srv)) = srv_output srv"
  by (auto simp: rtsp_server_session_remove_def rtsp_server_session_media_remove_def split: option.split)

lemma remove_torn_down_output [simp]: "srv_output (remove_torn_down a srv) = srv_output srv"
proof -
  have *: "srv_output (fold (\<lambda>m srv. if sm_is_tearing_down m
      then snd (rtsp_server_session_media_remove a (sm_addr m) srv) else srv) ms srv) = srv_output srv" for ms srv
    by (induction ms arbitrary: srv) simp_all
  show ?thesis
    by (simp add: remove_torn_down_def Let_def * split: option.split)
qed

section \<open>Answers media by media\<close>

definition replied_medias :: "pending_request \<Rightarrow> nat set" where
  "replied_medias p = set (map pm_media (filter pm_replied (pr_medias p)))"

lemma replied_mark:
  "m \<in> set (map pm_media (pr_medias p)) \<Longrightarrow> replied_medias (mark_replied m p) = insert m (replied_medias p)"
proof -
  have "m \<in> set (map pm_media xs) \<Longrightarrow>
      set (map pm_media (filter pm_replied (update_first (\<lambda>x. pm_media x = m) (\<lambda>x. x\<lparr>pm_replied := True\<rparr>) xs))) =
      insert m (set (map pm_media (filter pm_replied xs)))" for xs
    by (induction xs) (auto simp del: set_map set_filter)
  then show "m \<in> set (map pm_media (pr_medias p)) \<Longrightarrow> ?thesis"
    by (simp add: replied_medias_def mark_replied_def)
qed

lemma replied_count_card: "distinct (map pm_media (pr_medias p)) \<Longrightarrow> replied_count p = card (replied_medias p)"
proof -
  assume "distinct (map pm_media (pr_medias p))"
  then have "distinct (map pm_media (filter pm_replied (pr_medias p)))"
    by (simp add: distinct_map_filter)
  from distinct_card [OF this] show ?thesis
    by (simp add: replied_count_def replied_medias_def)
qed

text \<open>The request \<open>r\<close> is being answered for the medias \<open>ms\<close> of the session \<open>a\<close>, with \<open>D\<close> answered.\<close>

definition answering ::
  "(server_session \<Rightarrow> bool) \<Rightarrow> nat \<Rightarrow> nat \<Rightarrow> nat \<Rightarrow> nat list \<Rightarrow> nat set \<Rightarrow> rtsp_server \<Rightarrow> bool" where
  "answering agreed c r a ms D srv \<longleftrightarrow> server_ok srv \<and> distinct ms \<and>
     (case (find_request srv r, find_session srv a) of
        (Some p, Some s) \<Rightarrow>
          pr_conn p = Some c \<and> map pm_media (pr_medias p) = ms \<and> replied_medias p = D \<and>
          set ms \<subseteq> set (media_addrs s) \<and> (pr_first_reply p \<or> agreed s)
      | _ \<Rightarrow> False)"

definition agreeing :: "media_reply \<Rightarrow> (server_session \<Rightarrow> bool) \<Rightarrow> bool" where
  "agreeing mr agreed \<longleftrightarrow> \<not> mr_range_missing mr \<and>
     (\<forall>s. snd (mr_agree mr True s) \<and> agreed (fst (mr_agree mr True s))) \<and>
     (\<forall>s. agreed s \<longrightarrow> snd (mr_agree mr False s) \<and> agreed (fst (mr_agree mr False s))) \<and>
     (\<forall>first s. session_shape (fst (mr_agree mr first s)) = session_shape s) \<and>
     (\<forall>s. session_shape (mr_complete mr s) = session_shape s) \<and>
     (\<forall>a srv. srv_output (mr_after mr a srv) = srv_output srv)"

lemma session_shape_addrs:
  "session_shape s' = session_shape s \<Longrightarrow> ss_addr s' = ss_addr s \<and> media_addrs s' = media_addrs s"
proof -
  have "ss_addr t = fst (session_shape t) \<and> media_addrs t = map fst (snd (snd (snd (session_shape t))))" for t
    by (simp add: session_shape_def comp_def)
  then show "session_shape s' = session_shape s \<Longrightarrow> ?thesis"
    by metis
qed

lemma request_shape_parts:
  "request_shape p' = request_shape p \<Longrightarrow> pr_addr p' = pr_addr p \<and> pr_conn p' = pr_conn p \<and>
     pr_media_count p' = pr_media_count p \<and> map pm_media (pr_medias p') = map pm_media (pr_medias p)"
  by (simp add: request_shape_def)


lemma replied_note:
  "m \<in> set (map pm_media (pr_medias p)) \<Longrightarrow> replied_medias (note_media mr s m p) = insert m (replied_medias p)"
  unfolding note_media_def by (subst replied_mark) (auto simp: replied_medias_def split: option.split)

lemma note_media_addr [simp]: "pr_addr (note_media mr s m p) = pr_addr p"
  using request_shape_parts [OF request_shape_note] by blast

lemma all_replied_iff:
  assumes "distinct (map pm_media (pr_medias p))" "m \<in> set (map pm_media (pr_medias p))"
    and "pr_media_count p = length (pr_medias p)"
  shows "replied_count (note_media mr s m p) = pr_media_count p \<longleftrightarrow>
         insert m (replied_medias p) = set (map pm_media (pr_medias p))"
proof -
  let ?ms = "set (map pm_media (pr_medias p))"
  have "distinct (map pm_media (pr_medias (note_media mr s m p)))"
    using assms(1) request_shape_parts [OF request_shape_note [of mr s m p]] by metis
  then have count: "replied_count (note_media mr s m p) = card (insert m (replied_medias p))"
    using assms(2) by (simp only: replied_count_card replied_note)
  have total: "pr_media_count p = card ?ms"
    using distinct_card [OF assms(1)] assms(3) by simp
  have "insert m (replied_medias p) \<subseteq> ?ms"
    using assms(2) by (auto simp: replied_medias_def)
  from card_subset_eq [OF finite_set this] show ?thesis
    unfolding count total by (intro iffI) simp_all
qed

text \<open>The state after the answer for one media, before it is known whether it was the last.\<close>

definition noted :: "media_reply \<Rightarrow> pending_request \<Rightarrow> server_session \<Rightarrow> nat \<Rightarrow> rtsp_server \<Rightarrow> rtsp_server" where
  "noted mr p s m srv =
     set_request (pr_addr p) (note_media mr s m)
       (set_request (pr_addr p) (\<lambda>q. q\<lparr>pr_first_reply := pr_first_reply p \<and> mr_keeps_first mr\<rparr>)
         (set_session (ss_addr s) (\<lambda>s. fst (mr_agree mr (pr_first_reply p) s)) srv))"

lemma answeringE:
  assumes "answering agreed c r a ms D srv"
  obtains p s where "server_ok srv" "distinct ms" "find_request srv r = Some p" "find_session srv a = Some s"
    "pr_addr p = r" "ss_addr s = a" "pr_conn p = Some c" "map pm_media (pr_medias p) = ms" "replied_medias p = D"
    "set ms \<subseteq> set (media_addrs s)" "pr_first_reply p \<or> agreed s" "pr_media_count p = length (pr_medias p)"
proof -
  from assms obtain p s where *: "server_ok srv" "distinct ms" "find_request srv r = Some p" "find_session srv a = Some s"
    "pr_conn p = Some c" "map pm_media (pr_medias p) = ms" "replied_medias p = D"
    "set ms \<subseteq> set (media_addrs s)" "pr_first_reply p \<or> agreed s"
    by (auto simp: answering_def split: option.splits)
  moreover have "pr_addr p = r" "ss_addr s = a"
    using *(3,4) by (auto simp: find_Some_iff)
  moreover have "pr_media_count p = length (pr_medias p)"
    using server_ok_request [OF *(1,3)] *(1) by (auto simp: server_ok_def requests_ok_def)
  ultimately show ?thesis
    by (intro that)
qed

lemma noted_answering:
  assumes "answering agreed c r a ms D srv" "agreeing mr agreed" "m \<in> set ms"
    and "find_request srv r = Some p" "find_session srv a = Some s"
  shows "answering agreed c r a ms (insert m D) (noted mr p s m srv)"
  using assms(1)
proof (rule answeringE)
  fix p' s'
  assume *: "server_ok srv" "distinct ms" "find_request srv r = Some p'" "find_session srv a = Some s'"
    "pr_addr p' = r" "ss_addr s' = a" "pr_conn p' = Some c" "map pm_media (pr_medias p') = ms" "replied_medias p' = D"
    "set ms \<subseteq> set (media_addrs s')" "pr_first_reply p' \<or> agreed s'" "pr_media_count p' = length (pr_medias p')"
  have [simp]: "p' = p" "s' = s"
    using assms(4,5) *(3,4) by simp_all
  let ?f = "\<lambda>s. fst (mr_agree mr (pr_first_reply p) s)"
  let ?q = "p\<lparr>pr_first_reply := pr_first_reply p \<and> mr_keeps_first mr\<rparr>"
  have shape: "session_shape (?f s) = session_shape s" for s
    using assms(2) by (simp add: agreeing_def)
  have "server_ok (noted mr p s m srv)"
    unfolding noted_def by (intro ok.request_change set_session_ok *(1)) (simp_all add: shape)
  moreover have "find_request (noted mr p s m srv) r = Some (note_media mr s m ?q)"
    using assms(4) *(5) by (simp add: noted_def find_set_request)
  moreover have "find_session (noted mr p s m srv) a = Some (?f s)"
    using assms(5) *(6) session_shape_addrs [OF shape] by (simp add: noted_def find_set_session)
  moreover have "request_shape (note_media mr s m ?q) = request_shape p"
    by simp
  note request_shape_parts [OF this]
  moreover have "replied_medias (note_media mr s m ?q) = insert m D"
    using assms(3) *(8,9) by (subst replied_note) (simp_all add: replied_medias_def)
  moreover have "agreed (?f s)"
    using assms(2) *(11) by (cases "pr_first_reply p") (auto simp: agreeing_def)
  ultimately show ?thesis
    using * session_shape_addrs [OF shape, of s] by (simp add: answering_def)
qed

lemma noted_output [simp]: "srv_output (noted mr p s m srv) = srv_output srv"
  by (simp add: noted_def)

lemma partial_answer:
  assumes "answering agreed c r a ms D srv" "agreeing mr agreed" "m \<in> set ms" "insert m D \<noteq> set ms"
    and "\<not> is_error_status status"
  shows "\<exists>srv'. media_reply e mr r m status ext srv = Inr (0, srv') \<and>
           answering agreed c r a ms (insert m D) srv' \<and> srv_output srv' = srv_output srv"
  using assms(1)
proof (rule answeringE)
  fix p s
  assume *: "server_ok srv" "distinct ms" "find_request srv r = Some p" "find_session srv a = Some s"
    "pr_addr p = r" "ss_addr s = a" "pr_conn p = Some c" "map pm_media (pr_medias p) = ms" "replied_medias p = D"
    "set ms \<subseteq> set (media_addrs s)" "pr_first_reply p \<or> agreed s" "pr_media_count p = length (pr_medias p)"
  have in_ms: "m \<in> set (map pm_media (pr_medias p))" and m: "m \<in> set (media_addrs s)"
    using assms(3) *(8,10) by auto
  have agree: "snd (mr_agree mr (pr_first_reply p) s)"
    using assms(2) *(11) by (cases "pr_first_reply p") (auto simp: agreeing_def)
  have more_left: "replied_count (note_media mr s m p) \<noteq> pr_media_count p"
    using all_replied_iff [of p m mr s] in_ms assms(4) *(2,8,9,12) by metis
  have "media_reply_body e mr p s m status ext srv = Inr (0, 0, False, noted mr p s m srv)"
    using assms(2,5) *(7) in_ms agree more_left
    by (simp add: media_reply_body_def agreeing_def Let_def noted_def del: set_map)
  then have "media_reply e mr r m status ext srv = Inr (0, noted mr p s m srv)"
    by (simp add: media_reply_def media_session_found [OF *(1,4) m] *(3) error_response_if_def)
  then show ?thesis
    using noted_answering [OF assms(1-3) *(3,4)] by simp
qed

lemma final_answer:
  assumes "answering agreed c r a ms D srv" "agreeing mr agreed" "m \<in> set ms"
    and "media_reply e mr r m status ext srv = Inr (ret, srv')"
    and "\<not> is_error_status status" "insert m D = set ms"
  shows "sends_at_most_one c srv srv'"
  using assms(1)
proof (rule answeringE)
  fix p s
  assume *: "server_ok srv" "distinct ms" "find_request srv r = Some p" "find_session srv a = Some s"
    "pr_addr p = r" "ss_addr s = a" "pr_conn p = Some c" "map pm_media (pr_medias p) = ms" "replied_medias p = D"
    "set ms \<subseteq> set (media_addrs s)" "pr_first_reply p \<or> agreed s" "pr_media_count p = length (pr_medias p)"
  have in_ms: "m \<in> set (map pm_media (pr_medias p))" and m: "m \<in> set (media_addrs s)"
    using assms(3) *(8,10) by auto
  have agree: "snd (mr_agree mr (pr_first_reply p) s)"
    using assms(2) *(11) by (cases "pr_first_reply p") (auto simp: agreeing_def)
  have all: "replied_count (note_media mr s m p) = pr_media_count p"
    using all_replied_iff [of p m mr s] in_ms assms(6) *(2,8,9,12) by metis
  let ?srv1 = "set_session (ss_addr s) (mr_complete mr) (noted mr p s m srv)"
  let ?h = "rtsp_response_header_copy_ext ext (mr_fill mr (mr_complete mr (fst (mr_agree mr (pr_first_reply p) s)))
     (note_media mr s m p) (response_common e ?srv1 status (note_media mr s m p) (pr_response_header (note_media mr s m p))))"
  have body: "media_reply_body e mr p s m status ext srv =
      bindr (respond e c ?h [] (pr_addr p) ?srv1) (\<lambda>(ret, failed, srv). Inr (ret, if failed then 500 else 0, True, srv))"
    using assms(2,5) *(7) in_ms agree all
    by (simp add: media_reply_body_def agreeing_def Let_def noted_def del: set_map)
  have out1: "srv_output ?srv1 = srv_output srv"
    by simp
  have find1: "\<exists>q. find_request ?srv1 r = Some q \<and> pr_conn q = Some c"
    using noted_answering [OF assms(1-3) *(3,4)] by (auto elim: answeringE)
  from assms(4) obtain ret1 failed srv2 srv3 where
      2: "respond e c ?h [] (pr_addr p) ?srv1 = Inr (ret1, failed, srv2)" and
      3: "error_response_if e r (if failed then 500 else 0) srv2 = Inr srv3" and
      4: "srv_output srv' = srv_output srv3"
    using assms(2) by (auto simp: media_reply_def media_session_found [OF *(1,4) m] *(3) body bindr_Inr_iff
      agreeing_def Let_def split: if_splits)
  show ?thesis
  proof (cases failed)
    case True
    then have "srv_output srv2 = srv_output srv"
      using respond_outputs [OF 2] out1 by simp
    moreover obtain q where "find_request srv2 r = Some q" "pr_conn q = Some c"
      using respond_keeps_request [OF 2] find1 *(5) by auto
    ultimately show ?thesis
      using 3 4 True error_response_outputs [of e r 500 srv2]
      by (auto simp: error_response_if_def bindr_Inr_iff sends_at_most_one_def)
  next
    case False
    then show ?thesis
      using respond_outputs [OF 2] 3 4 out1 by (auto simp: error_response_if_def sends_at_most_one_def)
  qed
qed

section \<open>The whole sequence of answers\<close>

definition answer_medias ::
  "(nat \<Rightarrow> rtsp_server \<Rightarrow> (int \<times> rtsp_server) result) \<Rightarrow> nat list \<Rightarrow> rtsp_server \<Rightarrow> rtsp_server result" where
  "answer_medias reply = call_each (\<lambda>m srv. bindr (reply m srv) (\<lambda>(_, srv). Inr srv))"

lemma partial_answers:
  assumes "answering agreed c r a ms D srv" "\<And>m. agreeing (mr m) agreed" "set xs \<subseteq> set ms"
    and "D \<union> set xs \<noteq> set ms" "D \<subseteq> set ms" "\<not> is_error_status status"
  shows "\<exists>srv'. answer_medias (\<lambda>m. media_reply e (mr m) r m status ext) xs srv = Inr srv' \<and>
           answering agreed c r a ms (D \<union> set xs) srv' \<and> srv_output srv' = srv_output srv"
  using assms(1,3-5)
proof (induction xs arbitrary: D srv)
  case Nil
  then show ?case
    by (simp add: answer_medias_def)
next
  case (Cons m xs)
  then have "m \<in> set ms" "insert m D \<noteq> set ms"
    by auto
  from partial_answer [OF Cons.prems(1) assms(2) this assms(6)]
  obtain srv1 where 1: "media_reply e (mr m) r m status ext srv = Inr (0, srv1)"
      "answering agreed c r a ms (insert m D) srv1" "srv_output srv1 = srv_output srv"
    by blast
  with Cons.IH [OF 1(2)] Cons.prems show ?case
    by (simp add: answer_medias_def)
qed

lemma answered_once:
  assumes "answering agreed c r a ms {} srv" "\<And>m. agreeing (mr m) agreed" "set (xs @ [m]) = set ms" "m \<notin> set xs"
    and "\<not> is_error_status status"
  shows "\<exists>srv1. answer_medias (\<lambda>m. media_reply e (mr m) r m status ext) xs srv = Inr srv1 \<and>
           srv_output srv1 = srv_output srv \<and> find_request srv1 r \<noteq> None \<and>
           (\<forall>ret srv2. media_reply e (mr m) r m status ext srv1 = Inr (ret, srv2) \<longrightarrow> sends_at_most_one c srv srv2)"
proof -
  have "set xs \<subseteq> set ms" "{} \<union> set xs \<noteq> set ms" "m \<in> set ms" "insert m (set xs) = set ms"
    using assms(3,4) by auto
  with partial_answers [where mr = mr and e = e and ext = ext, OF assms(1,2) this(1,2) _ assms(5)]
  obtain srv1 where 1: "answer_medias (\<lambda>m. media_reply e (mr m) r m status ext) xs srv = Inr srv1"
      "answering agreed c r a ms (set xs) srv1" "srv_output srv1 = srv_output srv"
    by auto
  moreover have "find_request srv1 r \<noteq> None"
    using 1(2) by (auto elim: answeringE)
  moreover have "sends_at_most_one c srv srv2" if "media_reply e (mr m) r m status ext srv1 = Inr (ret, srv2)" for ret srv2
    using final_answer [OF 1(2) assms(2) \<open>m \<in> set ms\<close> that assms(5) \<open>insert m (set xs) = set ms\<close>] 1(3)
    by (simp add: sends_at_most_one_def)
  ultimately show ?thesis
    by blast
qed

definition waits_for_medias :: "nat \<Rightarrow> nat \<Rightarrow> nat \<Rightarrow> nat list \<Rightarrow> rtsp_server \<Rightarrow> bool" where
  "waits_for_medias c r a ms srv \<longleftrightarrow> server_ok srv \<and> distinct ms \<and>
     (case (find_request srv r, find_session srv a) of
        (Some p, Some s) \<Rightarrow>
          pr_conn p = Some c \<and> map pm_media (pr_medias p) = ms \<and> (\<forall>x \<in> set (pr_medias p). \<not> pm_replied x) \<and>
          set ms \<subseteq> set (media_addrs s) \<and> pr_first_reply p
      | _ \<Rightarrow> False)"

lemma waits_answering: "waits_for_medias c r a ms srv \<Longrightarrow> answering agreed c r a ms {} srv"
  by (auto simp: waits_for_medias_def answering_def replied_medias_def filter_empty_conv split: option.splits)

text \<open>
  C14: A PLAY request for several medias gets one response. While the application accepts it media by
  media, in any order, with one range and one scale, nothing is sent before the answer for the last
  media, and that one sends at most one message, to the connection of the request.
\<close>

theorem play_answered_once:
  assumes "waits_for_medias c r a ms srv" "set (xs @ [m]) = set ms" "m \<notin> set xs"
    and "\<not> is_error_status status" "rtsp_range_cmp (Some rng) (Some rng)" "float_eq scale scale"
  shows "\<exists>srv1. answer_medias (\<lambda>m. rtsp_server_reply_to_play e r m status (Some rng) scale
                   (sv m) (seq m) (tv m) (rtptime m) ext) xs srv = Inr srv1 \<and>
           srv_output srv1 = srv_output srv \<and> find_request srv1 r \<noteq> None \<and>
           (\<forall>ret srv2. rtsp_server_reply_to_play e r m status (Some rng) scale
                   (sv m) (seq m) (tv m) (rtptime m) ext srv1 = Inr (ret, srv2) \<longrightarrow> sends_at_most_one c srv srv2)"
  unfolding rtsp_server_reply_to_play_def
  by (rule answered_once [OF waits_answering [OF assms(1), where agreed = "\<lambda>s. ss_range s = rng \<and> ss_scale s = scale"]
        _ assms(2-4)])
    (simp add: agreeing_def agree_range_scale_def assms(5,6))

end
