(* ===== verification/RtspServerErrors.thy ===== *)
theory RtspServerErrors
  imports RtspServerAnswers RtspServerTimers
begin

text \<open>
  The errors the server answers: what the client reads of them, the session that does not exist, and
  the requests that are answered twice or leave their session blocked.
\<close>

section \<open>One error response\<close>

lemma write_response_fits:
  assumes "response_writable (env_format e) h"
    and "length (response_text (env_format e) h) < srv_max_msg_size srv"
  shows "write_response e srv h [] = Inr (response_text (env_format e) h)"
  using response.write_fits [OF assms(1), of "\<lparr>rs_str = [], rs_max_len = srv_max_msg_size srv\<rparr>"] assms(2)
  by (simp add: write_response_def)

lemma respond_fits:
  assumes "response_writable (env_format e) h"
    and "length (response_text (env_format e) h) < srv_max_msg_size srv"
  shows "respond e c h [] r srv =
    Inr (env_send e c (response_text (env_format e) h), False,
         (set_request r (\<lambda>p. p\<lparr>pr_response_header := h\<rparr>) srv)
           \<lparr>srv_output := srv_output srv @ [SentTo c (response_text (env_format e) h)]\<rparr>)"
  using write_response_fits [OF assms(1), of "set_request r (\<lambda>p. p\<lparr>pr_response_header := h\<rparr>) srv"] assms(2)
  by (simp add: respond_def send_to_def)

text \<open>The response header of an error reported for a request that nothing has been noted for.\<close>

definition error_header :: "server_env \<Rightarrow> rtsp_server \<Rightarrow> int \<Rightarrow> pending_request \<Rightarrow> rtsp_response_header" where
  "error_header e srv status p = response_common e srv status p (pr_response_header p)"

definition error_text :: "server_env \<Rightarrow> rtsp_server \<Rightarrow> int \<Rightarrow> pending_request \<Rightarrow> string" where
  "error_text e srv status p = response_text (env_format e) (error_header e srv status p)"

lemma status_string: "snd (rtsp_status_get status) \<noteq> []" "is_line (snd (rtsp_status_get status))"
    "100 \<le> fst (rtsp_status_get status)" "fst (rtsp_status_get status) < 1000"
proof -
  have "\<forall>x \<in> set status_table. snd x \<noteq> [] \<and> is_line (snd x) \<and> 100 \<le> fst x \<and> fst x < 1000"
    by (simp add: status_table_def is_line_def)
  with rtsp_status_get_listed [of status]
  show "snd (rtsp_status_get status) \<noteq> []" "is_line (snd (rtsp_status_get status))"
    "100 \<le> fst (rtsp_status_get status)" "fst (rtsp_status_get status) < 1000"
    by blast+
qed

text \<open>The clock can be printed as a date, and the name of the server fits on a line.\<close>

definition dates_written :: "server_env \<Rightarrow> time_parser \<Rightarrow> bool" where
  "dates_written e tp \<longleftrightarrow> wf_date (env_format e) tp (env_now e div 1000000) \<and>
     (env_now e div 1000000 > 0 \<longrightarrow> is_line (date_text (env_format e) (env_now e div 1000000)))"

definition fresh_response :: "pending_request \<Rightarrow> bool" where
  "fresh_response p \<longleftrightarrow> pr_response_header p = rtsp_response_header_clear"

lemma error_header_writable:
  assumes "dates_written e tp" "fresh_response p"
  shows "response_writable (env_format e) (error_header e srv status p)"
  using assms status_string [of status]
  by (auto simp: response_writable_def error_header_def response_common_def dates_written_def wf_date_def
      fresh_response_def rtsp_response_header_clear_def range_zero_def time_zero_def)

lemma error_response_sends:
  assumes "find_request srv r = Some p" "pr_conn p = Some c" "status \<noteq> 0"
    and "response_writable (env_format e) (error_header e srv status p)"
    and "length (error_text e srv status p) < srv_max_msg_size srv"
  shows "error_response e r status srv =
    Inr (env_send e c (error_text e srv status p),
         (set_request r (\<lambda>p'. p'\<lparr>pr_response_header := error_header e srv status p\<rparr>) srv)
           \<lparr>srv_output := srv_output srv @ [SentTo c (error_text e srv status p)]\<rparr>)"
  using assms by (simp add: error_response_def respond_fits error_text_def error_header_def)

lemma is_line_append: "is_line (a @ b) \<longleftrightarrow> (a @ b \<noteq> []) \<and> (a = [] \<or> is_line a) \<and> (b = [] \<or> is_line b)"
  by (auto simp: is_line_def)

lemma show_int_line: "is_line (show_int k)"
proof -
  have "\<not> is_digit CR" "\<not> is_digit LF" "\<not> is_digit NUL" "CHR ''-'' \<notin> {CR, LF, NUL}"
    by (simp_all add: is_digit_def)
  then show ?thesis
    using show_nat_digits [of _ "nat k"] show_nat_digits [of _ "nat (- k)"]
    by (auto simp: is_line_def show_int_def)
qed

text \<open>Lines are checked field by field.\<close>

lemma is_line_Cons: "is_line (x # l) \<longleftrightarrow> x \<noteq> CR \<and> x \<noteq> LF \<and> x \<noteq> NUL \<and> (l = [] \<or> is_line l)"
  by (auto simp: is_line_def)

lemma line_if_lines: "is_line n \<Longrightarrow> (\<forall>l \<in> set (line_if b n v). is_line l) \<longleftrightarrow> (b \<longrightarrow> v = [] \<or> is_line v)"
  by (auto simp: line_if_def is_line_append is_line_Cons)

lemma text_line_lines:
  "is_line n \<Longrightarrow> (\<forall>l \<in> set (text_line n v). is_line l) \<longleftrightarrow> (\<forall>t. v = Some t \<longrightarrow> t = [] \<or> is_line t)"
  by (cases v) (auto simp: text_line_def line_if_lines)

lemmas written_lines = all_response_lines_def response_line_def response_lines1_def response_lines2_def
  ext_lines_def ball_Un line_if_lines text_line_lines is_line_Cons is_line_append show_int_line

text \<open>
  The rest of the header that earlier replies to the request have prepared can be written and read:
  without the fields that an error sets itself.
\<close>

definition reply_rest :: "rtsp_response_header \<Rightarrow> rtsp_response_header" where
  "reply_rest h = h\<lparr>resp_status_code := 200, resp_status_string := Some ''OK'', resp_cseq := 0,
     resp_server := None, resp_date := 0\<rparr>"

definition reply_prepared :: "time_formatter \<Rightarrow> time_parser \<Rightarrow> rtsp_response_header \<Rightarrow> bool" where
  "reply_prepared tf tp h \<longleftrightarrow>
     wf_response tf tp (reply_rest h) \<and> response_writable tf (reply_rest h) \<and>
     (\<forall>l \<in> set (all_response_lines tf (reply_rest h)). is_line l)"

lemma reply_prepared_clear: "reply_prepared tf tp rtsp_response_header_clear"
  by (simp add: reply_prepared_def reply_rest_def wf_response_def response_writable_def
      rtsp_response_header_clear_def wf_date_def clean_session_def wf_range_field_def wf_ext_def
      range_zero_def time_zero_def written_lines)

lemma fresh_prepared: "fresh_response p \<Longrightarrow> reply_prepared tf tp (pr_response_header p)"
  by (simp add: fresh_response_def reply_prepared_clear)

lemma prepared_error_header:
  assumes "dates_written e tp" "is_line (srv_software_name srv)"
    and "0 \<le> req_cseq (pr_request_header p)" "req_cseq (pr_request_header p) < 2 ^ 31"
    and "reply_prepared (env_format e) tp (pr_response_header p)"
  shows "response_writable (env_format e) (error_header e srv status p)"
    "wf_response (env_format e) tp (error_header e srv status p)"
    "\<forall>l \<in> set (all_response_lines (env_format e) (error_header e srv status p)). is_line l"
proof -
  let ?g = "reply_rest (pr_response_header p)"
  have h: "error_header e srv status p = ?g\<lparr>resp_status_code := fst (rtsp_status_get status),
       resp_status_string := Some (snd (rtsp_status_get status)), resp_cseq := req_cseq (pr_request_header p),
       resp_server := Some (srv_software_name srv), resp_date := env_now e div 1000000\<rparr>"
    by (simp add: error_header_def response_common_def reply_rest_def)
  have g: "wf_response (env_format e) tp ?g" "response_writable (env_format e) ?g"
      "\<forall>l \<in> set (all_response_lines (env_format e) ?g). is_line l"
    using assms(5) by (simp_all add: reply_prepared_def)
  show "wf_response (env_format e) tp (error_header e srv status p)"
    unfolding h using g(1) assms(1-4) status_string [of status] by (simp add: wf_response_def dates_written_def)
  show "response_writable (env_format e) (error_header e srv status p)"
    unfolding h using g(2) assms(1) status_string [of status]
    by (auto simp: response_writable_def dates_written_def wf_date_def)
  show "\<forall>l \<in> set (all_response_lines (env_format e) (error_header e srv status p)). is_line l"
    unfolding h using g(3) assms(1,2) status_string [of status]
    by (simp add: written_lines dates_written_def)
qed

text \<open>An error is one message without body, whose header is the one prepared, with the error in it.\<close>

lemma prepared_error_read:
  assumes "find_request srv r = Some p" "pr_conn p = Some c" "status \<noteq> 0"
    and "reply_prepared (env_format e) tp (pr_response_header p)"
    and "dates_written e tp" "is_line (srv_software_name srv)"
    and "0 \<le> req_cseq (pr_request_header p)" "req_cseq (pr_request_header p) < 2 ^ 31"
    and "length (error_text e srv status p) < srv_max_msg_size srv"
  shows "\<exists>t srv' h. error_response e r status srv = Inr (env_send e c t, srv') \<and>
           srv_output srv' = srv_output srv @ [SentTo c t] \<and>
           rtsp_response_header_read tp (t @ rest) = Inr (h, length t) \<and>
           (resp_status_code h, the (resp_status_string h)) = rtsp_status_get status \<and>
           resp_cseq h = req_cseq (pr_request_header p) \<and>
           resp_content_length h = resp_content_length (pr_response_header p)"
proof -
  let ?h = "error_header e srv status p"
  note prep = prepared_error_header [OF assms(5-8,4)]
  have str: "resp_status_string ?h \<noteq> None" "resp_status_string ?h \<noteq> Some []"
    using status_string(1) [of status] by (simp_all add: error_header_def response_common_def)
  have "rtsp_response_header_read tp (error_text e srv status p @ rest) =
      Inr (response_sent ?h, length (error_text e srv status p))"
    unfolding error_text_def by (rule response_read_text(1) [OF prep(2) str prep(3)])
  moreover have "(resp_status_code (response_sent ?h), the (resp_status_string (response_sent ?h))) = rtsp_status_get status"
      "resp_cseq (response_sent ?h) = req_cseq (pr_request_header p)"
      "resp_content_length (response_sent ?h) = resp_content_length (pr_response_header p)"
    using assms(7) by (simp_all add: response_sent_def error_header_def response_common_def)
  ultimately show ?thesis
    unfolding error_response_sends [OF assms(1-3) prep(1) assms(9)]
    by (intro exI [of _ "error_text e srv status p"] exI [of _ "response_sent ?h"] exI conjI)
      (rule refl | assumption | simp)+
qed

text \<open>
  C17: The client that is sent an error reads the status line of the reported status or errno and the
  CSeq of its own request; exactly one message is sent, a header without a body. The Content-Length
  that it announces is the one that the response of the request had before: 0 as long as no reply to
  the request has been prepared. Whatever had been prepared can be written and read (its lines are
  lines, its dates, ranges and transports are well-formed), the CSeq is a nonnegative \<open>int\<close>, the clock
  can be printed and the error fits a message.
\<close>

theorem error_answer_read:
  assumes "find_request srv r = Some p" "pr_conn p = Some c" "status \<noteq> 0"
    and "reply_prepared (env_format e) tp (pr_response_header p)"
    and "dates_written e tp" "is_line (srv_software_name srv)"
    and "0 \<le> req_cseq (pr_request_header p)" "req_cseq (pr_request_header p) < 2 ^ 31"
    and "length (error_text e srv status p) < srv_max_msg_size srv"
  shows "\<exists>t srv' h. error_response e r status srv = Inr (env_send e c t, srv') \<and>
           srv_output srv' = srv_output srv @ [SentTo c t] \<and>
           rtsp_response_header_read tp (t @ rest) = Inr (h, length t) \<and>
           (resp_status_code h, the (resp_status_string h)) = rtsp_status_get status \<and>
           resp_cseq h = req_cseq (pr_request_header p) \<and>
           resp_content_length h = resp_content_length (pr_response_header p) \<and>
           (fresh_response p \<longrightarrow> resp_content_length h = 0)"
proof -
  have "fresh_response p \<Longrightarrow> resp_content_length (pr_response_header p) = 0"
    by (simp add: fresh_response_def rtsp_response_header_clear_def)
  with prepared_error_read [OF assms, of rest] show ?thesis by metis
qed

text \<open>
  The case that is not fresh: a description that fits its own limit but not the message is refused
  with a 500 that still announces the length of the description, with no body after it. The client
  takes the next bytes of the connection for that body.
\<close>

lemma write_response_too_long:
  assumes "response_writable (env_format e) h" "body \<noteq> []" "0 < srv_max_msg_size srv"
    and "srv_max_msg_size srv \<le> length (response_text (env_format e) h) + length body"
  shows "\<exists>ret. write_response e srv h body = Inl (Err ret)"
proof -
  let ?s = "\<lparr>rs_str = [], rs_max_len = srv_max_msg_size srv\<rparr>"
  have ok: "rs_ok ?s" using assms(3) by (simp add: rs_ok_def)
  show ?thesis
  proof (cases "length (response_text (env_format e) h) < srv_max_msg_size srv")
    case True
    then show ?thesis
      using response.write_fits [OF assms(1), of ?s] assms(2,4)
      by (auto simp: write_response_def rtsp_sprintf_def)
  next
    case False
    then show ?thesis
      using response.write_overflow [OF assms(1) ok] by (auto simp: write_response_def)
  qed
qed

definition describe_prepared :: "server_env \<Rightarrow> rtsp_server \<Rightarrow> pending_request \<Rightarrow> string \<Rightarrow> rtsp_response_header" where
  "describe_prepared e srv p sdp = (response_common e srv 200 p (pr_response_header p))
     \<lparr>resp_content_length := int (length sdp), resp_content_type := Some ''application/sdp'',
      resp_content_base := req_uri (pr_request_header p)\<rparr>"

lemma describe_too_long_error:
  assumes "find_request srv r = Some p" "pr_conn p = Some c" "pr_in_callback p" "fresh_response p"
    and "sdp \<noteq> []" "length sdp < RTSP_SESSION_DESCRIPTION_MAX_LEN"
    and "srv_max_msg_size srv \<le> length (response_text (env_format e) (describe_prepared e srv p sdp)) + length sdp"
    and "dates_written e tp" "is_line (srv_software_name srv)"
    and "0 \<le> req_cseq (pr_request_header p)" "req_cseq (pr_request_header p) < 2 ^ 31"
    and "req_uri (pr_request_header p) = Some uri" "is_line uri"
    and "p' = p\<lparr>pr_response_header := describe_prepared e srv p sdp\<rparr>"
    and "length (error_text e srv 500 p') < srv_max_msg_size srv"
  shows "\<exists>ret t srv' h. rtsp_server_reply_to_describe e r 200 [] (Some sdp) srv = Inr (ret, srv') \<and>
           srv_output srv' = srv_output srv @ [SentTo c t] \<and>
           rtsp_response_header_read tp t = Inr (h, length t) \<and>
           resp_status_code h = 500 \<and> resp_content_length h = int (length sdp)"
proof -
  let ?g = "describe_prepared e srv p sdp"
  let ?srv = "set_request r (\<lambda>p. p\<lparr>pr_response_header := ?g\<rparr>) srv"
  have len: "int (length sdp) < 2 ^ 31" using assms(6) by (simp add: RTSP_SESSION_DESCRIPTION_MAX_LEN_def)
  have prep: "reply_prepared (env_format e) tp ?g"
    using len assms(4,12,13)
    by (simp add: reply_prepared_def describe_prepared_def reply_rest_def response_common_def fresh_response_def
        wf_response_def response_writable_def rtsp_response_header_clear_def wf_date_def clean_session_def
        wf_range_field_def wf_ext_def range_zero_def time_zero_def written_lines)
  have w: "response_writable (env_format e) ?g"
    using assms(4,8) status_string [of 200]
    by (auto simp: response_writable_def describe_prepared_def response_common_def dates_written_def
        wf_date_def fresh_response_def rtsp_response_header_clear_def range_zero_def time_zero_def)
  have max: "0 < srv_max_msg_size srv" using assms(15) by simp
  have "write_response e ?srv ?g sdp = write_response e srv ?g sdp"
    by (simp add: write_response_def set_request_def)
  then obtain ret where fail: "write_response e ?srv ?g sdp = Inl (Err ret)"
    using write_response_too_long [OF w assms(5) max assms(7)] by auto
  have found: "find_request ?srv r = Some p'" using assms(1,14) by (simp add: find_set_request)
  have err: "error_text e ?srv 500 p' = error_text e srv 500 p'"
    by (simp add: error_text_def error_header_def response_common_def set_request_def)
  have p': "pr_conn p' = Some c" "pr_response_header p' = ?g" "pr_request_header p' = pr_request_header p"
    using assms(2,14) by simp_all
  have st: "rtsp_status_get 500 = (500, ''Internal Server Error'')"
    by (simp add: rtsp_status_get_def status_table_def)
  obtain t srv' h where sent: "error_response e r 500 ?srv = Inr (env_send e c t, srv')"
      "srv_output srv' = srv_output ?srv @ [SentTo c t]" "rtsp_response_header_read tp (t @ []) = Inr (h, length t)"
      "(resp_status_code h, the (resp_status_string h)) = rtsp_status_get 500"
      "resp_content_length h = resp_content_length (pr_response_header p')"
    using prepared_error_read [OF found p'(1), of 500 e tp "[]"] prep assms(8-11,15) p' err
    by (auto simp: set_request_def)
  let ?fin = "finish_reply r None srv'"
  have out: "srv_output ?fin = srv_output srv'"
    by (simp add: finish_reply_def Let_def set_request_def rtsp_server_pending_request_remove_def split: option.split)
  have "rtsp_server_reply_to_describe e r 200 [] (Some sdp) srv = Inr (ret, ?fin)"
    using assms(1,2,5,6) fail sent(1)
    by (simp add: rtsp_server_reply_to_describe_def is_error_status_def respond_def Let_def
        error_response_if_def rtsp_response_header_copy_ext_def describe_prepared_def)
  moreover have "resp_content_length h = int (length sdp)"
    using sent(5) p'(2) by (simp add: describe_prepared_def)
  ultimately show ?thesis
    using sent(2-4) st out by (intro exI [of _ ret] exI [of _ t] exI [of _ ?fin] exI [of _ h]) (simp add: set_request_def)
qed

section \<open>A request for a session that does not exist\<close>

text \<open>The handlers that look their session up before anything else, once the uri has been parsed.\<close>

definition session_methods :: "rtsp_method_type list" where
  "session_methods = [RTSP_METHOD_TYPE_PLAY, RTSP_METHOD_TYPE_PAUSE, RTSP_METHOD_TYPE_RECORD,
     RTSP_METHOD_TYPE_GET_PARAMETER]"

lemma dispatch_unknown_session:
  assumes "req_method (pr_request_header p) \<in> set session_methods" "pr_conn p = Some c"
    and "req_session_id (pr_request_header p) = Some sid" "rtsp_server_session_find srv sid = None"
    and "rtsp_url_parse_path (req_uri (pr_request_header p)) = Inr path"
  shows "\<exists>srv'. dispatch_request e cbs dst p srv = Inr (- ENOENT, 454, srv') \<and>
    (srv' = srv \<or> srv' = set_request (pr_addr p) (\<lambda>p. p\<lparr>pr_in_callback := False\<rparr>) srv)"
proof -
  have "request_session p srv = Inr (Inl (- ENOENT, 454))"
    using assms(3-5) by (simp add: request_session_def)
  then show ?thesis
    using assms(1-3)
    by (auto simp: session_methods_def dispatch_request_def rtsp_server_play_def rtsp_server_pause_def
        rtsp_server_record_def rtsp_server_get_parameter_def media_request_def handler_fails_def)
qed

lemma find_skip: "a \<notin> g ` set xs \<Longrightarrow> find (\<lambda>x. g x = a) (xs @ ys) = find (\<lambda>x. g x = a) ys"
  by (induction xs) auto

lemma remove_added:
  assumes "\<And>q. pr_addr (f q) = pr_addr q" "r \<notin> pr_addr ` set (srv_pending_requests srv)" "pr_addr p = r"
    and "srv_pending_requests srv' = update_where (\<lambda>p. pr_addr p = r) f (srv_pending_requests srv @ [p])"
  shows "srv_pending_requests (snd (rtsp_server_pending_request_remove r srv')) = srv_pending_requests srv"
proof -
  have eq: "srv_pending_requests srv' = srv_pending_requests srv @ [f p]"
    using assms(2-4) by (simp add: update_where_none)
  have "find_request srv' r = Some (f p)"
    unfolding eq using assms(1-3) by (simp add: find_skip)
  moreover have "f p \<notin> set (srv_pending_requests srv)"
    using imageI [of "f p" "set (srv_pending_requests srv)" pr_addr] assms(1-3) by auto
  ultimately show ?thesis
    by (simp add: rtsp_server_pending_request_remove_def eq remove1_append)
qed

text \<open>A request as it is when its handler is called.\<close>

definition received_request ::
  "server_env \<Rightarrow> nat \<Rightarrow> rtsp_server \<Rightarrow> rtsp_request_header \<Rightarrow> string option \<Rightarrow> pending_request" where
  "received_request e conn srv h body =
     \<lparr>pr_addr = srv_next_addr srv, pr_conn = Some conn, pr_request_header = h,
      pr_response_header = rtsp_response_header_clear, pr_timeout = deadline e srv, pr_first_reply = True,
      pr_in_callback = False, pr_replied = False, pr_body = body, pr_media_count = 0, pr_medias = []\<rparr>"

definition with_request :: "pending_request \<Rightarrow> rtsp_server \<Rightarrow> rtsp_server" where
  "with_request p srv =
     srv\<lparr>srv_next_addr := srv_next_addr srv + 1, srv_pending_requests := srv_pending_requests srv @ [p],
         srv_pending_request_count := srv_pending_request_count srv + 1\<rparr>"

lemma with_request_find:
  assumes "server_ok srv" "pr_addr p = srv_next_addr srv"
  shows "find_request (with_request p srv) (pr_addr p) = Some p"
    and "pr_addr p \<notin> pr_addr ` set (srv_pending_requests srv)"
proof -
  show *: "pr_addr p \<notin> pr_addr ` set (srv_pending_requests srv)"
    using assms by (fastforce simp: server_ok_def requests_ok_def)
  then show "find_request (with_request p srv) (pr_addr p) = Some p"
    by (simp add: with_request_def find_skip)
qed

lemma request_process_eq:
  assumes "server_ok srv" "copy_body msg = Inr body"
    and "p = received_request e conn srv (req_header (msg_header msg)) body"
  shows "rtsp_server_request_process e cbs conn dst msg srv =
    bindr (dispatch_request e cbs dst p (with_request p srv)) (\<lambda>(err, status, srv).
      if err < 0 then
        bindr (error_response e (pr_addr p) (if status div 100 > 2 then status else err) srv) (\<lambda>(_, srv).
        Inr (snd (rtsp_server_pending_request_remove (pr_addr p) srv)))
      else Inr srv)"
proof -
  let ?q = "\<lparr>pr_addr = srv_next_addr srv, pr_conn = Some conn, pr_request_header = rtsp_request_header_clear,
      pr_response_header = rtsp_response_header_clear, pr_timeout = deadline e srv, pr_first_reply = True,
      pr_in_callback = False, pr_replied = False, pr_body = None, pr_media_count = 0, pr_medias = []\<rparr>"
  let ?fill = "\<lambda>p. p\<lparr>pr_request_header := rtsp_request_header_copy (req_header (msg_header msg)) (pr_request_header p),
      pr_body := body\<rparr>"
  have "srv_next_addr srv \<notin> pr_addr ` set (srv_pending_requests srv)"
    using with_request_find(2) [OF assms(1), of ?q] by simp
  then have "set_request (srv_next_addr srv) ?fill (with_request ?q srv) = with_request p srv"
    by (simp add: set_request_def with_request_def update_where_none assms(3) received_request_def request_copy_clear)
  moreover have "rtsp_server_pending_request_add e (Some conn) (srv_reply_timeout_ms srv) srv =
      (srv_next_addr srv, with_request ?q srv)"
    by (simp add: rtsp_server_pending_request_add_def with_request_def deadline_def Let_def)
  moreover have p: "pr_addr p = srv_next_addr srv"
    by (simp add: assms(3) received_request_def)
  moreover note with_request_find(1) [OF assms(1) p]
  ultimately show ?thesis
    unfolding p by (simp add: rtsp_server_request_process_def assms(2))
qed

text \<open>
  C18: PLAY, PAUSE, RECORD and GET_PARAMETER for a session the server does not have are answered with
  one 454 response on the connection they came from, the request is forgotten, and neither the other
  pending requests nor the sessions change; the application is not called.
\<close>

theorem unknown_session_454:
  assumes h: "req_header (msg_header msg) = h" and p_def: "p = received_request e conn srv h body"
    and "server_ok srv" "copy_body msg = Inr body"
    and "req_method h \<in> set session_methods" "req_session_id h = Some sid"
    and "rtsp_server_session_find srv sid = None" "rtsp_url_parse_path (req_uri h) = Inr path"
    and "dates_written e tp" "length (error_text e srv 454 p) < srv_max_msg_size srv"
  shows "\<exists>srv'. rtsp_server_request_process e cbs conn dst msg srv = Inr srv' \<and>
           srv_output srv' = srv_output srv @ [SentTo conn (error_text e srv 454 p)] \<and>
           srv_pending_requests srv' = srv_pending_requests srv \<and> srv_sessions srv' = srv_sessions srv"
proof -
  have p: "pr_addr p = srv_next_addr srv" "pr_conn p = Some conn" "pr_request_header p = h" "fresh_response p"
      "p\<lparr>pr_in_callback := False\<rparr> = p"
    by (simp_all add: p_def received_request_def fresh_response_def)
  note found = with_request_find [OF assms(3) p(1)]
  have "rtsp_server_session_find (with_request p srv) sid = None"
    using assms(7) by (simp add: rtsp_server_session_find_def with_request_def)
  then obtain srv1 where 1: "dispatch_request e cbs dst p (with_request p srv) = Inr (- ENOENT, 454, srv1)"
      "srv1 = with_request p srv \<or> srv1 = set_request (pr_addr p) (\<lambda>p. p\<lparr>pr_in_callback := False\<rparr>) (with_request p srv)"
    using dispatch_unknown_session [of p conn sid "with_request p srv" path e cbs dst] assms(5-8) p by auto
  have srv1: "srv1 = with_request p srv"
    using 1(2) found(2) p(5) by (auto simp: set_request_def with_request_def update_where_none)
  have same: "error_text e srv1 454 p = error_text e srv 454 p"
    by (simp add: srv1 error_text_def error_header_def response_common_def with_request_def)
  have "error_response e (pr_addr p) 454 srv1 = Inr (env_send e conn (error_text e srv 454 p),
      (set_request (pr_addr p) (\<lambda>p'. p'\<lparr>pr_response_header := error_header e srv1 454 p\<rparr>) srv1)
         \<lparr>srv_output := srv_output srv1 @ [SentTo conn (error_text e srv 454 p)]\<rparr>)" (is "_ = Inr (_, ?srv2)")
    using found(1) p(2) error_header_writable [OF assms(9) p(4)] assms(10)
    by (subst error_response_sends [where p = p and c = conn]) (simp_all add: srv1 same [unfolded srv1], simp add: with_request_def)
  moreover have "srv_pending_requests (snd (rtsp_server_pending_request_remove (pr_addr p) ?srv2)) = srv_pending_requests srv"
    by (rule remove_added [where f = "\<lambda>p'. p'\<lparr>pr_response_header := error_header e srv1 454 p\<rparr>" and p = p])
      (use found(2) in \<open>simp_all add: srv1 with_request_def set_request_def\<close>)
  moreover have "srv_output (snd (rtsp_server_pending_request_remove (pr_addr p) ?srv2)) = srv_output ?srv2"
      "srv_sessions (snd (rtsp_server_pending_request_remove (pr_addr p) ?srv2)) = srv_sessions ?srv2"
    by (simp_all add: rtsp_server_pending_request_remove_def split: option.split)
  moreover have "srv_output srv1 = srv_output srv" "srv_sessions srv1 = srv_sessions srv"
    by (simp_all add: srv1 with_request_def)
  ultimately show ?thesis
    using request_process_eq [OF assms(3,4) p_def [folded h]] 1(1) by simp
qed

section \<open>A request that is refused twice\<close>

lemma refused_in_callback:
  assumes "media_session srv m = Some s" "find_request srv r = Some p" "pr_conn p = Some c" "pr_in_callback p"
    and "is_error_status status" "response_writable (env_format e) (error_header e srv status p)"
    and "length (error_text e srv status p) < srv_max_msg_size srv"
  shows "media_reply e mr r m status ext srv =
    Inr (0, (set_request r (\<lambda>p'. p'\<lparr>pr_replied := True\<rparr>)
       (set_request r (\<lambda>p'. p'\<lparr>pr_response_header := error_header e srv status p\<rparr>) srv))
         \<lparr>srv_output := srv_output srv @ [SentTo c (error_text e srv status p)]\<rparr>)"
proof -
  have "status \<noteq> 0"
    using assms(5) by (auto simp: is_error_status_def)
  note sent = error_response_sends [OF assms(2,3) this assms(6,7)]
  show ?thesis
    using assms(1-5) \<open>status \<noteq> 0\<close> sent
    by (simp add: media_reply_def media_reply_body_def error_response_if_def finish_reply_def Let_def
        find_set_request) (simp add: set_request_def)
qed

text \<open>
  An application that refuses a PLAY media by media, as it is called, has the server send the
  client two responses to one request: the second refusal is not held back, although the request has
  been answered.
\<close>

theorem refused_play_answered_twice:
  assumes "media_session srv m1 = Some s1" "media_session srv m2 = Some s2" "find_request srv r = Some p"
    and "pr_conn p = Some c" "pr_in_callback p" "is_error_status status" "fresh_response p" "dates_written e tp"
    and "length (error_text e srv status p) < srv_max_msg_size srv"
  shows "\<exists>srv'. answer_medias (\<lambda>m. rtsp_server_reply_to_play e r m status rng scale sv seq tv rtptime ext) [m1, m2] srv = Inr srv' \<and>
           srv_output srv' = srv_output srv @ [SentTo c (error_text e srv status p), SentTo c (error_text e srv status p)]"
proof -
  have w: "response_writable (env_format e) (error_header e srv status p)"
    by (rule error_header_writable [OF assms(8,7)])
  let ?h = "error_header e srv status p"
  define srv1 where "srv1 = (set_request r (\<lambda>p'. p'\<lparr>pr_replied := True\<rparr>)
       (set_request r (\<lambda>p'. p'\<lparr>pr_response_header := ?h\<rparr>) srv))
         \<lparr>srv_output := srv_output srv @ [SentTo c (error_text e srv status p)]\<rparr>"
  have media: "media_session srv1 m2 = Some s2"
    using assms(2) by (simp add: srv1_def media_session_def)
  have find1: "find_request srv1 r = Some (p\<lparr>pr_response_header := ?h, pr_replied := True\<rparr>)"
    using assms(3) by (simp add: srv1_def find_set_request)
  have same: "error_header e srv1 status (p\<lparr>pr_response_header := ?h, pr_replied := True\<rparr>) = ?h"
    by (simp add: error_header_def response_common_def srv1_def)
  then have text1: "error_text e srv1 status (p\<lparr>pr_response_header := ?h, pr_replied := True\<rparr>) = error_text e srv status p"
    by (simp add: error_text_def)
  have out1: "srv_output srv1 = srv_output srv @ [SentTo c (error_text e srv status p)]"
      "srv_max_msg_size srv1 = srv_max_msg_size srv"
    by (simp_all add: srv1_def)
  show ?thesis
    unfolding rtsp_server_reply_to_play_def answer_medias_def
    using refused_in_callback [OF assms(1,3-6) w assms(9), folded srv1_def]
      refused_in_callback [OF media find1 _ _ assms(6), of c e] assms(4,5,9) w
    by (simp add: same text1 out1)
qed

section \<open>A session that stays blocked\<close>

lemma session_find_set:
  assumes "\<And>s. ss_session_id (f s) = ss_session_id s" "rtsp_server_session_find srv sid = Some s" "ss_addr s = a"
  shows "rtsp_server_session_find (set_session a f srv) sid = Some (f s)"
  using assms(2,3) unfolding rtsp_server_session_find_def
  by (simp add: set_session_def find_update_where_other assms(1))

text \<open>
  A TEARDOWN for a path that no media of the session has is refused with \<open>-ENOENT\<close>, but it
  leaves its operation in progress on the session, so that, until another request has been answered, the
  application cannot tear the session down: \<open>rtsp_server_force_teardown\<close> returns \<open>-EALREADY\<close>.
\<close>

theorem unmatched_teardown_blocks:
  assumes "req_method (pr_request_header p) = RTSP_METHOD_TYPE_TEARDOWN"
    and "req_session_id (pr_request_header p) = Some sid" "rtsp_server_session_find srv sid = Some s"
    and "ss_media_count s \<noteq> 0" "rtsp_url_parse_path (req_uri (pr_request_header p)) = Inr (Some path)"
    and "length path < PATH_MAX" "list_all (\<lambda>m. \<not> teardown_selects (Some path) s m) (ss_medias s)"
    and "pr_medias p = []"
  shows "\<exists>srv'. rtsp_server_teardown cbs p srv = Inr (- ENOENT, 0, srv') \<and>
           rtsp_server_force_teardown e cbs sid None ext srv' = Inr (- EALREADY, srv')"
proof -
  have none: "filter (teardown_selects (Some path) s) (ss_medias s) = []"
    using assms(7) by (auto simp: filter_empty_conv list_all_iff)
  define f :: "server_session \<Rightarrow> server_session" where "f = (\<lambda>s. (rtsp_server_session_reset_timeout s)\<lparr>ss_op_in_progress := RTSP_METHOD_TYPE_TEARDOWN\<rparr>)"
  define g :: "server_session \<Rightarrow> server_session" where "g = (\<lambda>s. s\<lparr>ss_medias := update_where (\<lambda>m. sm_addr m \<in> {}) (\<lambda>m. m\<lparr>sm_is_tearing_down := True\<rparr>) (ss_medias s)\<rparr>)"
  define srv' where "srv' = set_request (pr_addr p) (\<lambda>p. p\<lparr>pr_in_callback := False\<rparr>) (set_session (ss_addr s) g
      (enter_callback (pr_addr p) (set_session (ss_addr s) f srv)))"
  have "rtsp_server_teardown cbs p srv = Inr (- ENOENT, 0, srv')"
    using assms(1-6,8) none
    by (simp add: rtsp_server_teardown_def request_session_def start_operation_def handler_fails_def Let_def
        srv'_def f_def g_def)
  moreover have "rtsp_server_session_find (set_session (ss_addr s) f srv) sid = Some (f s)"
    by (rule session_find_set [OF _ assms(3)]) (simp_all add: f_def rtsp_server_session_reset_timeout_def)
  then have "rtsp_server_session_find (enter_callback (pr_addr p) (set_session (ss_addr s) f srv)) sid = Some (f s)"
    by (simp add: rtsp_server_session_find_def)
  from session_find_set [OF _ this] have "rtsp_server_session_find srv' sid = Some (g (f s))"
    by (simp add: srv'_def rtsp_server_session_find_def g_def f_def rtsp_server_session_reset_timeout_def)
  then have "rtsp_server_force_teardown e cbs sid None ext srv' = Inr (- EALREADY, srv')"
    by (simp add: rtsp_server_force_teardown_def g_def f_def)
  ultimately show ?thesis
    by blast
qed

end
