(* ===== verification/RtspServerSessions.thy ===== *)
theory RtspServerSessions
  imports RtspServerAnswers RtspServerErrors
begin

text \<open>
  What the list of sessions stands for: a table from session identifiers (their first eight characters)
  to the paths of the medias. The operations of \<open>src/rtsp_server_session.c\<close> implement the operations
  of the table, and the end of a TEARDOWN removes what it selected.
\<close>

section \<open>The table of the sessions\<close>

definition session_table :: "rtsp_server \<Rightarrow> string \<Rightarrow> string list option" where
  "session_table srv = map_of (map (\<lambda>s. (session_key s, map sm_path (ss_medias s))) (srv_sessions srv))"

lemma session_table_split:
  assumes "server_ok srv" "srv_sessions srv = us @ s # vs"
  shows "session_table srv (session_key s) = Some (map sm_path (ss_medias s))"
    and "session_key s \<notin> session_key ` set us" "session_key s \<notin> session_key ` set vs"
proof -
  show *: "session_key s \<notin> session_key ` set us" "session_key s \<notin> session_key ` set vs"
    using assms by (auto simp: server_ok_def sessions_ok_def)
  have "map_of (map (\<lambda>s. (session_key s, map sm_path (ss_medias s))) us) (session_key s) = None"
    using *(1) by (auto simp: map_of_eq_None_iff comp_def)
  then show "session_table srv (session_key s) = Some (map sm_path (ss_medias s))"
    by (simp add: session_table_def assms(2) map_add_def)
qed

lemma map_of_drop:
  "k \<notin> fst ` set xs \<Longrightarrow> k \<notin> fst ` set ys \<Longrightarrow> map_of (xs @ ys) = (map_of (xs @ (k, v) # ys))(k := None)"
  by (induction xs) (auto simp: fun_eq_iff map_of_eq_None_iff)

lemma map_of_replace:
  "k \<notin> fst ` set xs \<Longrightarrow> map_of (xs @ (k, w) # ys) = (map_of (xs @ (k, v) # ys))(k \<mapsto> w)"
  by (induction xs) (auto simp: fun_eq_iff)

lemma table_session_remove:
  assumes ok: "server_ok srv" and s: "find_session srv a = Some s"
  shows "session_table (snd (rtsp_server_session_remove a srv)) = (session_table srv)(session_key s := None)"
proof -
  obtain us vs where split: "srv_sessions srv = us @ s # vs" "ss_addr s = a"
      "a \<notin> ss_addr ` set us" "a \<notin> ss_addr ` set vs"
    using server_ok_session [OF ok s] by blast
  then have eq: "remove1 s (srv_sessions srv) = us @ vs"
    by (auto simp: remove1_append)
  let ?t = "\<lambda>ss. map (\<lambda>s. (session_key s, map sm_path (ss_medias s))) ss"
  have "map_of (?t us @ ?t vs) = (map_of (?t us @ (session_key s, map sm_path (ss_medias s)) # ?t vs))(session_key s := None)"
    using session_table_split(2,3) [OF ok split(1)] by (intro map_of_drop) (auto simp: image_image)
  moreover have "session_table (snd (rtsp_server_session_remove a srv)) = map_of (?t us @ ?t vs)"
    using s by (simp add: rtsp_server_session_remove_def session_table_def eq)
  moreover have "session_table srv = map_of (?t us @ (session_key s, map sm_path (ss_medias s)) # ?t vs)"
    by (simp add: session_table_def split(1))
  ultimately show ?thesis
    by simp
qed

lemma table_set_session:
  assumes ok: "server_ok srv" and s: "find_session srv a = Some s" and key: "session_key (f s) = session_key s"
  shows "session_table (set_session a f srv) = (session_table srv)(session_key s \<mapsto> map sm_path (ss_medias (f s)))"
proof -
  obtain us vs where split: "srv_sessions srv = us @ s # vs" "ss_addr s = a"
      "a \<notin> ss_addr ` set us" "a \<notin> ss_addr ` set vs"
    using server_ok_session [OF ok s] by blast
  let ?t = "\<lambda>ss. map (\<lambda>s. (session_key s, map sm_path (ss_medias s))) ss"
  have "map_of (?t us @ (session_key s, map sm_path (ss_medias (f s))) # ?t vs) =
      (map_of (?t us @ (session_key s, map sm_path (ss_medias s)) # ?t vs))(session_key s \<mapsto> map sm_path (ss_medias (f s)))"
    using session_table_split(2) [OF ok split(1)] by (intro map_of_replace) (auto simp: image_image)
  then show ?thesis
    using split by (simp add: session_table_def set_session_def update_where_none key)
qed

lemma table_session_find:
  "rtsp_server_session_find srv sid = Some s \<Longrightarrow> server_ok srv \<Longrightarrow>
   session_table srv (take RTSP_SERVER_SESSION_ID_LENGTH sid) = Some (map sm_path (ss_medias s))"
proof -
  assume "rtsp_server_session_find srv sid = Some s" and ok: "server_ok srv"
  then have "s \<in> set (srv_sessions srv)" "session_key s = take RTSP_SERVER_SESSION_ID_LENGTH sid"
    by (auto simp: rtsp_server_session_find_def find_Some_iff session_id_eq_def session_key_def)
  then show ?thesis
    using session_table_split(1) [OF ok] by (metis split_list)
qed

lemma table_session_find_none:
  "rtsp_server_session_find srv sid = None \<Longrightarrow> session_table srv (take RTSP_SERVER_SESSION_ID_LENGTH sid) = None"
  by (auto simp: rtsp_server_session_find_def find_None_iff session_id_eq_def session_key_def session_table_def
      map_of_eq_None_iff)

lemma table_simps [simp]:
  "session_table (srv\<lparr>srv_next_addr := n\<rparr>) = session_table srv"
  by (simp add: session_table_def)

lemma table_session_add:
  assumes ok: "server_ok srv" and add: "rtsp_server_session_add e t uri srv = (Some a, srv')"
  shows "\<exists>s. find_session srv' a = Some s \<and> session_table srv (session_key s) = None \<and>
             session_table srv' = (session_table srv)(session_key s \<mapsto> [])"
proof -
  obtain sid where sid: "find (\<lambda>sid. \<not> (\<exists>s \<in> set (srv_sessions srv). session_id_eq (ss_session_id s) sid))
             (map session_id_of (env_random e)) = Some sid"
    using add by (cases "find (\<lambda>sid. \<not> (\<exists>s \<in> set (srv_sessions srv). session_id_eq (ss_session_id s) sid))
             (map session_id_of (env_random e))") (simp_all add: rtsp_server_session_add_def)
  then have "\<forall>x \<in> set (srv_sessions srv). \<not> session_id_eq (ss_session_id x) sid"
    unfolding find_Some_iff by blast
  moreover note add [unfolded rtsp_server_session_add_def sid option.case Let_def]
  ultimately obtain s where s: "srv_sessions srv' = srv_sessions srv @ [s]" "ss_addr s = a" "ss_medias s = []"
      "a = srv_next_addr srv" "\<forall>x \<in> set (srv_sessions srv). \<not> session_id_eq (ss_session_id x) (ss_session_id s)"
    by force
  then have key: "session_key s \<notin> session_key ` set (srv_sessions srv)"
    by (auto simp: session_key_def session_id_eq_def)
  have "a \<notin> ss_addr ` set (srv_sessions srv)"
    using ok s(4) by (auto simp: server_ok_def sessions_ok_def session_ok_def)
  then have "find_session srv' a = Some s"
    using s by (simp add: find_skip)
  moreover have none: "session_table srv (session_key s) = None"
    using key by (auto simp: session_table_def map_of_eq_None_iff)
  moreover have "session_table srv' = (session_table srv)(session_key s \<mapsto> [])"
    using none s(3) by (auto simp: session_table_def s(1) fun_eq_iff map_add_def split: option.split)
  ultimately show ?thesis
    by blast
qed

lemma table_media_add:
  assumes ok: "server_ok srv" and s: "find_session srv a = Some s"
    and add: "rtsp_server_session_media_add a uri (Some path) srv = (res, srv')"
  shows "if path \<in> set (map sm_path (ss_medias s)) then res = None \<and> srv' = srv
         else res \<noteq> None \<and> session_table srv' = (session_table srv)(session_key s \<mapsto> map sm_path (ss_medias s) @ [path])"
proof -
  have found: "rtsp_server_session_media_find s path = None \<longleftrightarrow> path \<notin> set (map sm_path (ss_medias s))"
    by (auto simp: rtsp_server_session_media_find_def find_None_iff)
  show ?thesis
    using add s found
    by (auto simp: rtsp_server_session_media_add_def Let_def session_key_def table_set_session [OF ok s] split: if_splits)
qed

text \<open>
  C15: The list of sessions implements a table from identifiers to the paths of the medias: adding a
  session enters a new empty row, adding a media appends its path to the row or is refused when the
  path is in it, removing a session deletes its row, and looking an identifier up (by its first eight
  characters) finds the session of the row or nothing.
\<close>

theorem session_table_refinement:
  assumes "server_ok srv"
  shows "(\<forall>e t uri a srv'. rtsp_server_session_add e t uri srv = (Some a, srv') \<longrightarrow>
            (\<exists>s. find_session srv' a = Some s \<and> session_table srv (session_key s) = None \<and>
                 session_table srv' = (session_table srv)(session_key s \<mapsto> []))) \<and>
         (\<forall>a s uri path res srv'. find_session srv a = Some s \<longrightarrow>
            rtsp_server_session_media_add a uri (Some path) srv = (res, srv') \<longrightarrow>
            (if path \<in> set (map sm_path (ss_medias s)) then res = None \<and> srv' = srv
             else res \<noteq> None \<and>
               session_table srv' = (session_table srv)(session_key s \<mapsto> map sm_path (ss_medias s) @ [path]))) \<and>
         (\<forall>a s. find_session srv a = Some s \<longrightarrow>
            session_table (snd (rtsp_server_session_remove a srv)) = (session_table srv)(session_key s := None)) \<and>
         (\<forall>sid. session_table srv (take RTSP_SERVER_SESSION_ID_LENGTH sid) =
            map_option (\<lambda>s. map sm_path (ss_medias s)) (rtsp_server_session_find srv sid))"
proof (intro conjI allI impI)
  show "session_table srv (take RTSP_SERVER_SESSION_ID_LENGTH sid) =
      map_option (\<lambda>s. map sm_path (ss_medias s)) (rtsp_server_session_find srv sid)" for sid
    using table_session_find [OF _ assms] table_session_find_none [of srv sid]
    by (cases "rtsp_server_session_find srv sid") auto
qed (rule table_session_add [OF assms] table_media_add [OF assms] table_session_remove [OF assms]; assumption)+

section \<open>The end of a TEARDOWN\<close>

definition other_sessions :: "nat \<Rightarrow> rtsp_server \<Rightarrow> server_session list" where
  "other_sessions a srv = filter (\<lambda>s. ss_addr s \<noteq> a) (srv_sessions srv)"

lemma other_set_session:
  "(\<And>s. ss_addr (f s) = ss_addr s) \<Longrightarrow> other_sessions a (set_session a f srv) = other_sessions a srv"
proof -
  assume f: "\<And>s. ss_addr (f s) = ss_addr s"
  have "filter (\<lambda>s. ss_addr s \<noteq> a) (update_where (\<lambda>s. ss_addr s = a) f ss) = filter (\<lambda>s. ss_addr s \<noteq> a) ss" for ss
    by (induction ss) (auto simp: f update_where_def)
  then show ?thesis
    by (simp add: other_sessions_def set_session_def)
qed

lemma media_remove_found:
  assumes "find_session srv a = Some s" "m \<in> set (media_addrs s)"
  shows "\<exists>s'. find_session (snd (rtsp_server_session_media_remove a m srv)) a = Some s' \<and>
           ss_medias s' = filter (\<lambda>x. sm_addr x \<noteq> m) (ss_medias s)"
    and "other_sessions a (snd (rtsp_server_session_media_remove a m srv)) = other_sessions a srv"
  using assms by (simp_all add: rtsp_server_session_media_remove_def find_set_session other_set_session)

lemma session_removed:
  assumes "server_ok srv"
  shows "find_session (snd (rtsp_server_session_remove a srv)) a = None \<and>
    other_sessions a (snd (rtsp_server_session_remove a srv)) = other_sessions a srv"
proof (cases "find_session srv a")
  case None
  then show ?thesis
    by (simp add: rtsp_server_session_remove_def)
next
  case (Some s)
  then obtain us vs where split: "srv_sessions srv = us @ s # vs" "ss_addr s = a"
      "a \<notin> ss_addr ` set us" "a \<notin> ss_addr ` set vs"
    using server_ok_session [OF assms] by blast
  then have eq: "remove1 s (srv_sessions srv) = us @ vs"
    by (auto simp: remove1_append)
  moreover have "find (\<lambda>s. ss_addr s = a) (us @ vs) = None"
    using find_skip [OF split(3), of vs] find_skip [OF split(4), of "[]"] by simp
  ultimately show ?thesis
    using Some split by (simp add: rtsp_server_session_remove_def other_sessions_def)
qed

lemma medias_removed:
  assumes "find_session srv a = Some s" "distinct (map sm_addr ms)" "set (map sm_addr (filter P ms)) \<subseteq> set (media_addrs s)"
  defines "srv' \<equiv> fold (\<lambda>m srv. if P m then snd (rtsp_server_session_media_remove a (sm_addr m) srv) else srv) ms srv"
  shows "other_sessions a srv' = other_sessions a srv \<and>
    (\<exists>s'. find_session srv' a = Some s' \<and>
       ss_medias s' = filter (\<lambda>x. sm_addr x \<notin> set (map sm_addr (filter P ms))) (ss_medias s))"
  unfolding srv'_def using assms(1-3)
proof (induction ms arbitrary: srv s)
  case (Cons m ms)
  let ?f = "\<lambda>m srv. if P m then snd (rtsp_server_session_media_remove a (sm_addr m) srv) else srv"
  let ?srv1 = "snd (rtsp_server_session_media_remove a (sm_addr m) srv)"
  show ?case
  proof (cases "P m")
    case False
    with Cons.IH [OF Cons.prems(1)] Cons.prems(2,3) show ?thesis
      by simp
  next
    case True
    then have m: "sm_addr m \<in> set (media_addrs s)"
      using Cons.prems(3) by simp
    obtain s1 where s1: "find_session (snd (rtsp_server_session_media_remove a (sm_addr m) srv)) a = Some s1"
        "ss_medias s1 = filter (\<lambda>x. sm_addr x \<noteq> sm_addr m) (ss_medias s)"
      using media_remove_found(1) [OF Cons.prems(1) m] by blast
    have "set (map sm_addr (filter P (m # ms))) - {sm_addr m} \<subseteq> set (media_addrs s) - {sm_addr m}"
      using Cons.prems(3) by (rule Diff_mono) simp
    also have "set (media_addrs s) - {sm_addr m} = set (media_addrs s1)"
      unfolding s1(2) by auto
    also have "set (map sm_addr (filter P (m # ms))) - {sm_addr m} = set (map sm_addr (filter P ms))"
      using Cons.prems(2) True by (auto simp: image_iff)
    finally have "set (map sm_addr (filter P ms)) \<subseteq> set (media_addrs s1)" .
    from Cons.IH [OF s1(1) _ this] Cons.prems(2)
    have IH: "other_sessions a (fold ?f ms ?srv1) = other_sessions a ?srv1 \<and>
        (\<exists>s'. find_session (fold ?f ms ?srv1) a = Some s' \<and>
          ss_medias s' = filter (\<lambda>x. sm_addr x \<notin> set (map sm_addr (filter P ms))) (ss_medias s1))"
      by (simp del: set_map)
    have eq: "filter (\<lambda>x. sm_addr x \<notin> set (map sm_addr (filter P (m # ms)))) (ss_medias s) =
        filter (\<lambda>x. sm_addr x \<notin> set (map sm_addr (filter P ms))) (ss_medias s1)"
      unfolding s1(2) filter_filter using True by (intro filter_cong) auto
    have step: "fold ?f (m # ms) srv = fold ?f ms ?srv1"
      using True by simp
    show ?thesis
      unfolding step eq using IH media_remove_found(2) [OF Cons.prems(1) m] by (simp only: simp_thms)
  qed
qed simp

text \<open>
  C19: When a TEARDOWN has been answered, the medias it selected are removed from the session and the
  others stay, in their order; a session that has no other media is removed; the other sessions do
  not change.
\<close>

theorem teardown_removes_selected:
  assumes "server_ok srv" "find_session srv a = Some s"
  shows "other_sessions a (remove_torn_down a srv) = other_sessions a srv \<and>
    (if list_all sm_is_tearing_down (ss_medias s) then find_session (remove_torn_down a srv) a = None
     else map_option ss_medias (find_session (remove_torn_down a srv) a) =
       Some (filter (\<lambda>m. \<not> sm_is_tearing_down m) (ss_medias s)))"
proof -
  define srv1 where "srv1 = fold (\<lambda>m srv. if sm_is_tearing_down m
      then snd (rtsp_server_session_media_remove a (sm_addr m) srv) else srv) (ss_medias s) srv"
  have d: "distinct (media_addrs s)"
    by (rule server_ok_medias(2) [OF assms])
  have 1: "other_sessions a srv1 = other_sessions a srv"
      "\<exists>s'. find_session srv1 a = Some s' \<and> ss_medias s' =
         filter (\<lambda>x. sm_addr x \<notin> set (map sm_addr (filter sm_is_tearing_down (ss_medias s)))) (ss_medias s)"
    using medias_removed [OF assms(2) d, of sm_is_tearing_down] by (auto simp: srv1_def)
  have kept: "filter (\<lambda>x. sm_addr x \<notin> set (map sm_addr (filter sm_is_tearing_down (ss_medias s)))) (ss_medias s)
      = filter (\<lambda>m. \<not> sm_is_tearing_down m) (ss_medias s)"
    using d by (intro filter_cong refl) (auto simp: distinct_map inj_on_def)
  have "server_ok srv1"
  proof -
    have "server_ok srv \<Longrightarrow> server_ok (fold (\<lambda>m srv. if sm_is_tearing_down m
      then snd (rtsp_server_session_media_remove a (sm_addr m) srv) else srv) ms srv)" for ms srv
      by (induction ms arbitrary: srv) (auto intro: media_remove_ok)
    with assms(1) show ?thesis
      by (simp add: srv1_def)
  qed
  then have gone: "find_session (snd (rtsp_server_session_remove a srv1)) a = None \<and>
      other_sessions a (snd (rtsp_server_session_remove a srv1)) = other_sessions a srv1"
    by (rule session_removed)
  have eq: "remove_torn_down a srv = (if list_all sm_is_tearing_down (ss_medias s)
      then snd (rtsp_server_session_remove a srv1) else srv1)"
    using assms(2) by (auto simp: remove_torn_down_def srv1_def list_all_iff Let_def)
  show ?thesis
    unfolding eq using 1 gone kept by auto
qed

end
