(* ===== verification/RtspServerExamples.thy ===== *)
theory RtspServerExamples
  imports RtspServerSessions
begin

text \<open>
  The properties of the server applied to concrete states: a new server, and one whose session has two
  medias and a PLAY request that waits for its answers.
\<close>

section \<open>States\<close>

definition plain_server :: rtsp_server where
  "plain_server =
     \<lparr>srv_max_msg_size = 8191, srv_software_name = ''librtsp_server'', srv_reply_timeout_ms = 1000,
      srv_session_timeout_ms = 60000, srv_session_count = 0, srv_sessions = [], srv_pending_request_count = 0,
      srv_pending_requests = [], srv_cseq = 1, srv_idle = [], srv_next_addr = 0, srv_output = []\<rparr>"

definition plain_env :: "64 word \<Rightarrow> server_env" where
  "plain_env now = \<lparr>env_now = now, env_format = (\<lambda>_ _. Inr ''now''), env_send = (\<lambda>_ _. 0), env_broadcast = (\<lambda>_. 0),
     env_random = [1]\<rparr>"

definition silent_app :: application where
  "silent_app = \<lparr>app_calls = (\<lambda>_ _. []), app_has_announce = True, app_has_record = True,
     app_has_interleaved_data = False\<rparr>"

definition example_media :: "nat \<Rightarrow> string \<Rightarrow> server_media" where
  "example_media a path = \<lparr>sm_addr = a, sm_uri = None, sm_path = path, sm_userdata = 0, sm_is_tearing_down = False\<rparr>"

definition example_session :: server_session where
  "example_session = \<lparr>ss_addr = 0, ss_session_id = ''0000000000000001'', ss_uri = None, ss_timeout_ms = 60000,
     ss_timer = Some 72000, ss_playing = False, ss_recording = False, ss_range = range_zero, ss_scale = Fin 0,
     ss_op_in_progress = RTSP_METHOD_TYPE_PLAY, ss_media_count = 2,
     ss_medias = [example_media 1 ''video'', example_media 2 ''audio'']\<rparr>"

definition play_request :: pending_request where
  "play_request = \<lparr>pr_addr = 3, pr_conn = Some 9,
     pr_request_header = rtsp_request_header_clear\<lparr>req_method := RTSP_METHOD_TYPE_PLAY, req_cseq := 7\<rparr>,
     pr_response_header = rtsp_response_header_clear, pr_timeout = 0, pr_first_reply = True,
     pr_in_callback = True, pr_replied = False, pr_body = None, pr_media_count = 2,
     pr_medias = [\<lparr>pm_media = 1, pm_replied = False\<rparr>, \<lparr>pm_media = 2, pm_replied = False\<rparr>]\<rparr>"

definition playing_server :: rtsp_server where
  "playing_server = plain_server\<lparr>srv_session_count := 1, srv_sessions := [example_session],
     srv_pending_request_count := 1, srv_pending_requests := [play_request], srv_next_addr := 4\<rparr>"

lemmas example_defs = plain_server_def plain_env_def example_media_def example_session_def play_request_def
  playing_server_def rtsp_request_header_clear_def rtsp_response_header_clear_def

lemma plain_server_new: "rtsp_server_new None 554 0 0 = Inr plain_server"
  by (simp add: rtsp_server_new_def plain_server_def)

lemma plain_server_ok: "server_ok plain_server"
  by (rule server_new_ok [OF plain_server_new])

lemma playing_server_ok: "server_ok playing_server"
  by (simp add: server_ok_def sessions_ok_def requests_ok_def session_ok_def session_key_def example_defs)

lemma dates_plain: "now < 1000000 \<Longrightarrow> dates_written (plain_env now) tp"
  by (simp add: dates_written_def plain_env_def wf_date_def div_word_less)

section \<open>Witnesses\<close>

lemma server_invariant_witness:
  "\<exists>srv. server_reachable (\<lambda>_. Inl UB) silent_app (srv, [], parser_ctx_init) \<and> srv_output srv \<noteq> [] \<and> server_ok srv"
proof -
  let ?call = "SendInterleaved 0 (Some ''abc'') 3"
  have "\<exists>srv. api_step (plain_env 0) ?call plain_server = Inr (0, srv) \<and> srv_output srv \<noteq> []"
    by (simp add: rtsp_server_send_interleaved_def rtsp_build_interleaved_def example_defs)
  then obtain srv where srv: "api_step (plain_env 0) ?call plain_server = Inr (0, srv)" "srv_output srv \<noteq> []"
    by blast
  have "server_reachable (\<lambda>_. Inl UB) silent_app (srv, [], parser_ctx_init)"
    by (rule reachable_step [OF reachable_new [OF plain_server_new] step_called [OF srv(1)]])
  with server_invariant [OF this] srv(2) show ?thesis
    by blast
qed

definition parameter_request :: rtsp_message where
  "parameter_request = rtsp_message_clear\<lparr>msg_type := RTSP_MESSAGE_TYPE_REQUEST,
     msg_header := ReqHeader (rtsp_request_header_clear\<lparr>req_method := RTSP_METHOD_TYPE_SET_PARAMETER,
       req_uri := Some ''*'', req_cseq := 7\<rparr>)\<rparr>"

lemma parameter_request_waits:
  "rtsp_server_request_process (plain_env 0) cbs 3 [] parameter_request plain_server =
     Inr (with_request (received_request (plain_env 0) 3 plain_server (req_header (msg_header parameter_request)) None) plain_server)"
  by (subst request_process_eq [OF plain_server_ok _ refl, of _ None])
    (simp_all add: parameter_request_def copy_body_def dispatch_request_def received_request_def
      rtsp_request_header_clear_def rtsp_message_clear_def)

lemma request_does_not_linger_witness:
  "\<exists>srv1 srv2. rtsp_server_request_process (plain_env 0) (app_cbs (plain_env 0) silent_app) 3 [] parameter_request plain_server = Inr srv1 \<and>
     srv_pending_requests srv1 \<noteq> [] \<and>
     rtsp_server_timer_cb (plain_env 2000000) (app_cbs (plain_env 2000000) silent_app) srv1 = Inr srv2 \<and>
     srv_pending_requests srv2 = []"
proof -
  let ?h = "req_header (msg_header parameter_request)"
  define p where "p = received_request (plain_env 0) 3 plain_server ?h None"
  define srv1 where "srv1 = with_request p plain_server"
  have p: "pr_addr p = 0" "pr_conn p = Some 3" "fresh_response p" "expired (plain_env 2000000) p"
    by (simp_all add: p_def received_request_def fresh_response_def expired_def deadline_def example_defs)
  have pending: "srv_pending_requests srv1 = [p]" "find_request srv1 0 = Some p"
    using p(1) by (simp_all add: srv1_def with_request_def plain_server_def)
  have "dates_written (plain_env 2000000) (\<lambda>_. Inr (2, 0))"
    by (simp add: dates_written_def plain_env_def wf_date_def date_text_def is_line_def)
  note w = error_header_writable [OF this p(3)]
  have "length (error_text (plain_env 2000000) srv1 500 p) < srv_max_msg_size srv1"
    by (simp add: error_text_def error_header_def response_common_def response_text_def all_response_lines_def
        response_line_def response_lines1_def response_lines2_def line_if_def text_line_def ext_lines_def
        srv1_def with_request_def p_def received_request_def parameter_request_def rtsp_message_clear_def
        example_defs rtsp_status_get_def status_table_def date_text_def range_zero_def time_zero_def
        show_int_def show_nat.simps crlf_lines_def)
  note sent = error_response_sends [OF pending(2) p(2) _ w this]
  have "\<exists>srv2. rtsp_server_timer_cb (plain_env 2000000) (app_cbs (plain_env 2000000) silent_app) srv1 = Inr srv2 \<and>
      srv_pending_requests srv2 = []"
    using p pending
    by (simp add: rtsp_server_timer_cb_def expire_request_def request_live_def sent app_cbs_def silent_app_def run_api_def
        rtsp_server_pending_request_remove_def set_request_def update_where_def)
  then obtain srv2 where srv2: "rtsp_server_timer_cb (plain_env 2000000) (app_cbs (plain_env 2000000) silent_app) srv1 = Inr srv2"
    by blast
  have received: "rtsp_server_request_process (plain_env 0) (app_cbs (plain_env 0) silent_app) 3 [] parameter_request plain_server = Inr srv1"
    by (simp add: parameter_request_waits srv1_def p_def)
  have "waiting plain_server = {}"
    by (simp add: waiting_def plain_server_def)
  with request_does_not_linger [OF plain_server_ok received srv2] have "srv_pending_requests srv2 = []"
    by (simp add: deadline_def plain_server_def plain_env_def waiting_def)
  with received srv2 pending show ?thesis
    by auto
qed

lemma play_answered_once_witness:
  "waits_for_medias 9 3 0 [1, 2] playing_server \<and>
   (\<exists>srv1. answer_medias (\<lambda>m. rtsp_server_reply_to_play (plain_env 0) 3 m 200 (Some range_zero) (Fin 1) False 0 False 0 [])
      [2] playing_server = Inr srv1 \<and> srv_output srv1 = [])"
proof -
  have w: "waits_for_medias 9 3 0 [1, 2] playing_server"
    unfolding waits_for_medias_def by (simp add: playing_server_ok) (simp add: example_defs)
  moreover have "rtsp_range_cmp (Some range_zero) (Some range_zero)" "float_eq (Fin 1) (Fin 1)" "\<not> is_error_status 200"
    by (simp_all add: rtsp_range_cmp_def rtsp_time_cmp_def range_zero_def time_zero_def float_eq_def is_error_status_def)
  moreover have "srv_output playing_server = []"
    by (simp add: example_defs)
  ultimately show ?thesis
    using play_answered_once [OF w, of "[2]" 1 200 range_zero "Fin 1" "plain_env 0" "\<lambda>_. False" "\<lambda>_. 0" "\<lambda>_. False" "\<lambda>_. 0" "[]"]
    by auto
qed


lemma refused_play_answered_twice_witness:
  "\<exists>srv' t. answer_medias (\<lambda>m. rtsp_server_reply_to_play (plain_env 0) 3 m 404 None (Fin 1) False 0 False 0 []) [1, 2]
      playing_server = Inr srv' \<and> srv_output srv' = [SentTo 9 t, SentTo 9 t]"
proof -
  have "length (error_text (plain_env 0) playing_server 404 play_request) < srv_max_msg_size playing_server"
    by (simp add: error_text_def error_header_def response_common_def response_text_def all_response_lines_def
        response_line_def response_lines1_def response_lines2_def line_if_def text_line_def ext_lines_def
        example_defs rtsp_status_get_def status_table_def range_zero_def time_zero_def
        show_int_def show_nat.simps crlf_lines_def)
  moreover have "media_session playing_server 1 = Some example_session" "media_session playing_server 2 = Some example_session"
      "find_request playing_server 3 = Some play_request" "pr_conn play_request = Some 9"
      "pr_in_callback play_request" "is_error_status 404" "fresh_response play_request" "srv_output playing_server = []"
    by (simp_all add: media_session_def is_error_status_def fresh_response_def example_defs)
  moreover note dates_plain [of 0 "\<lambda>_. Inl UB"]
  ultimately show ?thesis
    using refused_play_answered_twice [where srv = playing_server and r = 3 and p = play_request and e = "plain_env 0"
        and tp = "\<lambda>_. Inl UB" and rng = None and ext = "[]" and ?m1.0 = 1 and ?m2.0 = 2 and ?s1.0 = example_session
        and ?s2.0 = example_session and c = 9
        and status = 404 and scale = "Fin 1" and sv = False and seq = 0 and tv = False and rtptime = 0] by auto
qed

lemma error_answer_read_witness:
  "\<exists>t srv' h. error_response (plain_env 0) 3 (- ENOENT) playing_server = Inr (0, srv') \<and>
     srv_output srv' = [SentTo 9 t] \<and> rtsp_response_header_read (\<lambda>_. Inl UB) (t @ ''body'') = Inr (h, length t) \<and>
     resp_status_code h = 404 \<and> resp_cseq h = 7 \<and> resp_content_length h = 0"
proof -
  have "length (error_text (plain_env 0) playing_server (- ENOENT) play_request) < srv_max_msg_size playing_server"
    by (simp add: error_text_def error_header_def response_common_def response_text_def all_response_lines_def
        response_line_def response_lines1_def response_lines2_def line_if_def text_line_def ext_lines_def
        example_defs rtsp_status_get_def errno_status_def status_table_def range_zero_def time_zero_def
        show_int_def show_nat.simps crlf_lines_def)
  moreover have "find_request playing_server 3 = Some play_request" "pr_conn play_request = Some 9"
      "fresh_response play_request" "is_line (srv_software_name playing_server)"
      "req_cseq (pr_request_header play_request) = 7" "srv_output playing_server = []"
    by (simp_all add: fresh_response_def is_line_def example_defs)
  moreover have "rtsp_status_get (- ENOENT) = (404, ''Not Found'')"
    by (simp add: rtsp_status_get_def errno_status_def status_table_def)
  moreover have "env_send (plain_env 0) c t = 0" for c t
    by (simp add: plain_env_def)
  moreover have "reply_prepared (env_format (plain_env 0)) (\<lambda>_. Inl UB) (pr_response_header play_request)"
    by (rule fresh_prepared) (simp add: fresh_response_def example_defs)
  moreover note dates_plain [of 0 "\<lambda>_. Inl UB"]
  ultimately show ?thesis
    using error_answer_read [where srv = playing_server and r = 3 and p = play_request and e = "plain_env 0"
        and tp = "\<lambda>_. Inl UB" and rest = "''body''" and status = "- ENOENT"]
    by auto
qed

lemma session_table_refinement_witness:
  "session_table playing_server ''00000000'' = Some [''video'', ''audio''] \<and>
   session_table (snd (rtsp_server_session_remove 0 playing_server)) ''00000000'' = None"
proof -
  have "find_session playing_server 0 = Some example_session" "session_key example_session = ''00000000''"
      "rtsp_server_session_find playing_server ''00000000'' = Some example_session"
      "map sm_path (ss_medias example_session) = [''video'', ''audio'']"
    by (simp_all add: session_key_def rtsp_server_session_find_def session_id_eq_def RTSP_SERVER_SESSION_ID_LENGTH_def
        numeral_eq_Suc example_defs)
  moreover note session_table_refinement [OF playing_server_ok]
  then have "session_table (snd (rtsp_server_session_remove 0 playing_server)) =
        (session_table playing_server)(session_key example_session := None)"
      "session_table playing_server (take RTSP_SERVER_SESSION_ID_LENGTH ''00000000'') =
        map_option (\<lambda>s. map sm_path (ss_medias s)) (rtsp_server_session_find playing_server ''00000000'')"
    using calculation by blast+
  ultimately show ?thesis
    by (simp add: RTSP_SERVER_SESSION_ID_LENGTH_def)
qed

lemma teardown_removes_selected_witness:
  "find_session playing_server 0 = Some example_session \<and>
   map_option ss_medias (find_session (remove_torn_down 0 playing_server) 0) = Some (ss_medias example_session)"
proof -
  have s: "find_session playing_server 0 = Some example_session"
    by (simp add: example_defs)
  moreover have "\<not> list_all sm_is_tearing_down (ss_medias example_session)"
      "filter (\<lambda>m. \<not> sm_is_tearing_down m) (ss_medias example_session) = ss_medias example_session"
    by (simp_all add: example_defs)
  ultimately show ?thesis
    using teardown_removes_selected [OF playing_server_ok s] by simp
qed

lemma example_path: "rtsp_url_parse_path (Some ''rtsp://cam/door'') = Inr (Some ''door'')"
  by (simp add: rtsp_url_parse_path_def url_eval)

definition pause_request :: rtsp_message where
  "pause_request = rtsp_message_clear\<lparr>msg_type := RTSP_MESSAGE_TYPE_REQUEST,
     msg_header := ReqHeader (rtsp_request_header_clear\<lparr>req_method := RTSP_METHOD_TYPE_PAUSE,
       req_uri := Some ''rtsp://cam/door'', req_cseq := 7, req_session_id := Some ''12345678''\<rparr>)\<rparr>"

lemma unknown_session_454_witness:
  "\<exists>srv' t. rtsp_server_request_process (plain_env 0) (app_cbs (plain_env 0) silent_app) 3 [] pause_request playing_server = Inr srv' \<and>
     srv_output srv' = [SentTo 3 t] \<and> srv_pending_requests srv' = srv_pending_requests playing_server"
proof -
  let ?h = "req_header (msg_header pause_request)"
  define p where "p = received_request (plain_env 0) 3 playing_server ?h None"
  have "length (error_text (plain_env 0) playing_server 454 p) < srv_max_msg_size playing_server"
    by (simp add: error_text_def error_header_def response_common_def response_text_def all_response_lines_def
        response_line_def response_lines1_def response_lines2_def line_if_def text_line_def ext_lines_def
        p_def received_request_def pause_request_def rtsp_message_clear_def
        example_defs rtsp_status_get_def status_table_def range_zero_def time_zero_def
        show_int_def show_nat.simps crlf_lines_def)
  moreover have "copy_body pause_request = Inr None" "req_method ?h \<in> set session_methods"
      "req_session_id ?h = Some ''12345678''" "rtsp_server_session_find playing_server ''12345678'' = None"
      "rtsp_url_parse_path (req_uri ?h) = Inr (Some ''door'')" "srv_output playing_server = []"
    by (simp_all add: copy_body_def pause_request_def rtsp_message_clear_def session_methods_def example_path
        rtsp_server_session_find_def session_id_eq_def RTSP_SERVER_SESSION_ID_LENGTH_def numeral_eq_Suc example_defs)
  moreover note dates_plain [of 0 "\<lambda>_. Inl UB"]
  ultimately show ?thesis
    using unknown_session_454 [OF refl p_def playing_server_ok,
        where cbs = "app_cbs (plain_env 0) silent_app" and dst = "[]" and tp = "\<lambda>_. Inl UB"
          and sid = "''12345678''" and path = "Some ''door''"] by auto
qed

definition door_request :: pending_request where
  "door_request = play_request\<lparr>pr_request_header := rtsp_request_header_clear\<lparr>req_method := RTSP_METHOD_TYPE_TEARDOWN,
     req_uri := Some ''rtsp://cam/door'', req_session_id := Some ''00000000''\<rparr>, pr_medias := []\<rparr>"

lemma unmatched_teardown_blocks_witness:
  "\<exists>srv'. rtsp_server_teardown (app_cbs (plain_env 0) silent_app) door_request playing_server = Inr (- ENOENT, 0, srv') \<and>
     rtsp_server_force_teardown (plain_env 0) (app_cbs (plain_env 0) silent_app) ''00000000'' None [] srv' = Inr (- EALREADY, srv')"
proof (rule unmatched_teardown_blocks)
  show "rtsp_server_session_find playing_server ''00000000'' = Some example_session"
    by (simp add: rtsp_server_session_find_def session_id_eq_def RTSP_SERVER_SESSION_ID_LENGTH_def numeral_eq_Suc
        example_defs)
  show "rtsp_url_parse_path (req_uri (pr_request_header door_request)) = Inr (Some ''door'')"
    by (simp add: door_request_def example_path)
  show "list_all (\<lambda>m. \<not> teardown_selects (Some ''door'') example_session m) (ss_medias example_session)"
    by (simp add: teardown_selects_def rtsp_server_session_media_find_def example_defs)
qed (simp_all add: door_request_def example_session_def PATH_MAX_def)

end
