(* ===== verification/RtspClientState.thy ===== *)
theory RtspClientState
  imports RtspStream RtspUrl RtspEffects RtspClientAuth
begin

text \<open>
  The state of the client: \<open>struct rtsp_client\<close> with its sessions and their medias
  (\<open>src/rtsp_client_priv.h\<close>), and the operations of \<open>src/rtsp_client_session.c\<close>. A session and a
  media are known by their address, a number that is never reused. What the client hands to the
  socket, to the resolver and to the application is recorded as output.
\<close>

section \<open>Data\<close>

datatype rtsp_client_conn_state =
    RTSP_CLIENT_CONN_STATE_DISCONNECTED
  | RTSP_CLIENT_CONN_STATE_CONNECTING
  | RTSP_CLIENT_CONN_STATE_CONNECTED
  | RTSP_CLIENT_CONN_STATE_DISCONNECTING

datatype rtsp_client_req_status =
    RTSP_CLIENT_REQ_STATUS_OK
  | RTSP_CLIENT_REQ_STATUS_CANCELED
  | RTSP_CLIENT_REQ_STATUS_FAILED
  | RTSP_CLIENT_REQ_STATUS_ABORTED
  | RTSP_CLIENT_REQ_STATUS_TIMEOUT

definition rtsp_client_conn_state_str :: "rtsp_client_conn_state \<Rightarrow> string" where
  "rtsp_client_conn_state_str val =
     (case val of
        RTSP_CLIENT_CONN_STATE_DISCONNECTED \<Rightarrow> ''DISCONNECTED''
      | RTSP_CLIENT_CONN_STATE_CONNECTING \<Rightarrow> ''CONNECTING''
      | RTSP_CLIENT_CONN_STATE_CONNECTED \<Rightarrow> ''CONNECTED''
      | RTSP_CLIENT_CONN_STATE_DISCONNECTING \<Rightarrow> ''DISCONNECTING'')"

definition rtsp_client_req_status_str :: "rtsp_client_req_status \<Rightarrow> string" where
  "rtsp_client_req_status_str val =
     (case val of
        RTSP_CLIENT_REQ_STATUS_OK \<Rightarrow> ''OK''
      | RTSP_CLIENT_REQ_STATUS_CANCELED \<Rightarrow> ''CANCELED''
      | RTSP_CLIENT_REQ_STATUS_FAILED \<Rightarrow> ''FAILED''
      | RTSP_CLIENT_REQ_STATUS_ABORTED \<Rightarrow> ''ABORTED''
      | RTSP_CLIENT_REQ_STATUS_TIMEOUT \<Rightarrow> ''TIMEOUT'')"

definition RTSP_CLIENT_SESSION_ID_LENGTH :: nat where "RTSP_CLIENT_SESSION_ID_LENGTH = 8"
definition RTSP_CLIENT_MAX_FAILED_REQUESTS :: "32 word" where "RTSP_CLIENT_MAX_FAILED_REQUESTS = 5"
definition RTSP_CLIENT_MAX_FAILED_KEEP_ALIVE :: "32 word" where "RTSP_CLIENT_MAX_FAILED_KEEP_ALIVE = 3"
definition RTSP_CLIENT_RESOLV_TIMEOUT_MS :: "32 word" where "RTSP_CLIENT_RESOLV_TIMEOUT_MS = 5000"
definition RTSP_CLIENT_DEFAULT_RESP_TIMEOUT_MS :: "32 word" where
  "RTSP_CLIENT_DEFAULT_RESP_TIMEOUT_MS = 4000"

type_synonym channel_pair = "8 word \<times> 8 word"

record client_media =
  cm_addr :: nat
  cm_path :: string
  cm_userdata :: nat
  cm_channel_pair :: channel_pair

record client_session =
  cs_addr :: nat
  cs_id :: string
  cs_timer :: "32 word option"
  cs_content_base :: "string option"
  cs_timeout_ms :: "32 word"
  cs_failed_keep_alive :: "32 word"
  cs_keep_alive_in_progress :: bool
  cs_internal_teardown :: bool
  cs_media_count :: nat
  cs_medias :: "client_media list"

text \<open>
  The calls of \<open>struct rtsp_client_cbs\<close>, with the arguments that they get. The last number of a
  completion is the pointer that the application gave with the request.
\<close>

type_synonym header_ext = "(string \<times> string) list"

datatype client_call =
    CallReadyToSend
  | CallInterleaved "8 word" "string option" "16 word"
  | CallConnectionState rtsp_client_conn_state
  | CallSessionRemoved string int
  | CallOptionsResp rtsp_client_req_status int "32 word" header_ext nat
  | CallDescribeResp rtsp_client_req_status int "string option" header_ext string nat
  | CallAnnounceResp rtsp_client_req_status int header_ext nat
  | CallSetupResp "string option" rtsp_client_req_status int "16 word" "16 word" bool "32 word" header_ext nat
  | CallPlayResp "string option" rtsp_client_req_status int "rtsp_range option" c_float bool "16 word"
      bool "32 word" header_ext nat
  | CallPauseResp "string option" rtsp_client_req_status int "rtsp_range option" header_ext nat
  | CallRecordResp "string option" rtsp_client_req_status int header_ext nat
  | CallTeardownResp "string option" rtsp_client_req_status int header_ext nat
  | CallServerAnnounce "string option" header_ext string
  | CallServerTeardown "string option" string header_ext

datatype client_output =
    Sent string
  | Called client_call
  | Resolve nat "string option"
  | ResolveCancel nat
  | Connect "string option" "16 word"
  | Stop

record rtsp_client =
  cl_sock :: bool
  cl_software_name :: string
  cl_auth :: "rtsp_authorization_header option"
  cl_server_auth :: "rtsp_authorization_header option"
  cl_channel_used :: "bool list"
  cl_url :: "rtsp_url_rec option"
  cl_url_addr :: nat
  cl_url_str :: "string option"
  cl_resolv_id :: nat
  cl_resolv_timer :: "32 word option"
  cl_ttls_init :: bool
  cl_ssl_ctx :: bool
  cl_conn_state :: rtsp_client_conn_state
  cl_cseq :: "32 word"
  cl_methods_allowed :: "32 word"
  cl_sessions :: "client_session list"
  cl_failed_requests :: "32 word"
  cl_req_header :: rtsp_request_header
  cl_req_is_pending :: bool
  cl_req_is_internal :: bool
  cl_req_uri :: "string option"
  cl_req_content_base :: "string option"
  cl_req_userdata :: nat
  cl_req_timer :: "32 word option"
  cl_next_addr :: nat
  cl_output :: "client_output list"

datatype client_callback =
    ReadyToSendCb | InterleavedDataCb | ConnectionStateCb | SessionRemovedCb | OptionsRespCb | DescribeRespCb
  | AnnounceRespCb | SetupRespCb | PlayRespCb | PauseRespCb | RecordRespCb | TeardownRespCb
  | ServerAnnounceCb | ServerTeardownCb

text \<open>
  The callbacks of the application are a parameter: a function of the call, which may itself use the
  client, on the state of the client, and the set of the callbacks that are provided.
\<close>

record rtsp_client_cbs =
  ccbs_call :: "client_call \<Rightarrow> rtsp_client \<Rightarrow> rtsp_client result"
  ccbs_has :: "client_callback \<Rightarrow> bool"

definition call_app :: "rtsp_client_cbs \<Rightarrow> client_call \<Rightarrow> rtsp_client \<Rightarrow> rtsp_client result" where
  "call_app cbs k c = ccbs_call cbs k (c\<lparr>cl_output := cl_output c @ [Called k]\<rparr>)"

section \<open>Nodes\<close>

abbreviation find_client_session :: "rtsp_client \<Rightarrow> nat \<Rightarrow> client_session option" where
  "find_client_session c a \<equiv> find (\<lambda>s. cs_addr s = a) (cl_sessions c)"

definition set_client_session ::
  "nat \<Rightarrow> (client_session \<Rightarrow> client_session) \<Rightarrow> rtsp_client \<Rightarrow> rtsp_client" where
  "set_client_session a f c =
     c\<lparr>cl_sessions := update_where (\<lambda>s. cs_addr s = a) f (cl_sessions c)\<rparr>"

definition client_session_live :: "client_session \<Rightarrow> rtsp_client \<Rightarrow> bool" where
  "client_session_live s c \<longleftrightarrow> find_client_session c (cs_addr s) \<noteq> None"

text \<open>The use of a session or of a media that has been freed is undefined.\<close>

definition deref_session :: "nat \<Rightarrow> rtsp_client \<Rightarrow> client_session result" where
  "deref_session a c = (case find_client_session c a of None \<Rightarrow> Inl UB | Some s \<Rightarrow> Inr s)"

definition deref_media :: "client_session \<Rightarrow> nat \<Rightarrow> client_media result" where
  "deref_media s m = (case find (\<lambda>x. cm_addr x = m) (cs_medias s) of None \<Rightarrow> Inl UB | Some x \<Rightarrow> Inr x)"

section \<open>Channels\<close>

definition is_channel_pair_valid :: "channel_pair \<Rightarrow> bool" where
  "is_channel_pair_valid pair \<longleftrightarrow> fst pair \<noteq> snd pair"

definition set_channel_pair_used :: "channel_pair \<Rightarrow> bool \<Rightarrow> bool list \<Rightarrow> bool list" where
  "set_channel_pair_used pair used channel_used =
     (if is_channel_pair_valid pair
      then channel_used[unat (fst pair) := used, unat (snd pair) := used] else channel_used)"

abbreviation set_channels :: "channel_pair \<Rightarrow> bool \<Rightarrow> rtsp_client \<Rightarrow> rtsp_client" where
  "set_channels pair used c \<equiv> c\<lparr>cl_channel_used := set_channel_pair_used pair used (cl_channel_used c)\<rparr>"

section \<open>Medias of a session\<close>

definition rtsp_client_session_media_find :: "client_session \<Rightarrow> string option \<Rightarrow> client_media option" where
  "rtsp_client_session_media_find session path =
     (case path of None \<Rightarrow> None | Some p \<Rightarrow> find (\<lambda>m. cm_path m = p) (cs_medias session))"

text \<open>A NULL session or path is refused, as is a path that the session has.\<close>

definition rtsp_client_session_media_add ::
  "nat option \<Rightarrow> string option \<Rightarrow> channel_pair option \<Rightarrow> rtsp_client \<Rightarrow> (nat option \<times> rtsp_client) result" where
  "rtsp_client_session_media_add session path channel_pair c =
     (case (session, path) of
        (Some a, Some p) \<Rightarrow>
          bindr (deref_session a c) (\<lambda>s.
          if rtsp_client_session_media_find s (Some p) \<noteq> None then Inr (None, c)
          else
            let m = cl_next_addr c;
                media = \<lparr>cm_addr = m, cm_path = p, cm_userdata = 0,
                         cm_channel_pair = (case channel_pair of None \<Rightarrow> (0, 0) | Some pair \<Rightarrow> pair)\<rparr>
            in Inr (Some m, (set_client_session a
                 (\<lambda>s. s\<lparr>cs_medias := cs_medias s @ [media], cs_media_count := cs_media_count s + 1\<rparr>) c)
                 \<lparr>cl_next_addr := m + 1\<rparr>))
      | _ \<Rightarrow> Inr (None, c))"

definition rtsp_client_session_media_remove :: "nat \<Rightarrow> nat \<Rightarrow> rtsp_client \<Rightarrow> int \<times> rtsp_client" where
  "rtsp_client_session_media_remove session media c =
     (case find_client_session c session of
        None \<Rightarrow> (- EINVAL, c)
      | Some s \<Rightarrow>
          if media \<notin> set (map cm_addr (cs_medias s)) then (- ENOENT, c)
          else
            (0, set_client_session session
                  (\<lambda>s. s\<lparr>cs_medias := filter (\<lambda>m. cm_addr m \<noteq> media) (cs_medias s),
                         cs_media_count := cs_media_count s - 1\<rparr>) c))"

text \<open>What both callers and the removal of a session do: the channels of the media are given back.\<close>

definition drop_media :: "nat \<Rightarrow> client_media \<Rightarrow> rtsp_client \<Rightarrow> rtsp_client" where
  "drop_media session m c =
     snd (rtsp_client_session_media_remove session (cm_addr m)
       (if is_channel_pair_valid (cm_channel_pair m) then set_channels (cm_channel_pair m) False c else c))"

section \<open>Sessions\<close>

definition client_session_id_eq :: "string \<Rightarrow> string \<Rightarrow> bool" where
  "client_session_id_eq a b \<longleftrightarrow>
     take RTSP_CLIENT_SESSION_ID_LENGTH a = take RTSP_CLIENT_SESSION_ID_LENGTH b"

definition rtsp_client_session_find :: "rtsp_client \<Rightarrow> string \<Rightarrow> client_session option" where
  "rtsp_client_session_find c session_id =
     find (\<lambda>s. client_session_id_eq (cs_id s) session_id) (cl_sessions c)"

definition new_client_session :: "nat \<Rightarrow> string \<Rightarrow> client_session" where
  "new_client_session a session_id =
     \<lparr>cs_addr = a, cs_id = session_id, cs_timer = None, cs_content_base = None, cs_timeout_ms = 0,
      cs_failed_keep_alive = 0, cs_keep_alive_in_progress = False, cs_internal_teardown = False,
      cs_media_count = 0, cs_medias = []\<rparr>"

definition rtsp_client_get_session ::
  "string option \<Rightarrow> bool \<Rightarrow> rtsp_client \<Rightarrow> nat option \<times> rtsp_client" where
  "rtsp_client_get_session session_id add c =
     (case session_id of
        None \<Rightarrow> (None, c)
      | Some sid \<Rightarrow>
          (case rtsp_client_session_find c sid of
             Some s \<Rightarrow> (Some (cs_addr s), c)
           | None \<Rightarrow>
               if \<not> add then (None, c)
               else
                 let a = cl_next_addr c in
                 (Some a, c\<lparr>cl_sessions := cl_sessions c @ [new_client_session a sid],
                            cl_next_addr := a + 1\<rparr>)))"

definition delete_client_session :: "nat \<Rightarrow> rtsp_client \<Rightarrow> rtsp_client" where
  "delete_client_session a c = c\<lparr>cl_sessions := filter (\<lambda>s. cs_addr s \<noteq> a) (cl_sessions c)\<rparr>"

text \<open>The session is freed after the callback, which therefore must not remove it itself.\<close>

definition rtsp_client_remove_session_internal ::
  "rtsp_client_cbs \<Rightarrow> string option \<Rightarrow> int \<Rightarrow> bool \<Rightarrow> rtsp_client \<Rightarrow> (int \<times> rtsp_client) result" where
  "rtsp_client_remove_session_internal cbs session_id status_code nexist_ok c =
     (case session_id of
        None \<Rightarrow> Inr (- EINVAL, c)
      | Some sid \<Rightarrow>
          (case rtsp_client_session_find c sid of
             None \<Rightarrow> Inr (if nexist_ok then 0 else - ENOENT, c)
           | Some s \<Rightarrow>
               bindr (call_app cbs (CallSessionRemoved (cs_id s) (rtsp_status_to_errno status_code))
                 (fold (drop_media (cs_addr s)) (cs_medias s) c)) (\<lambda>c.
               bindr (deref_session (cs_addr s) c) (\<lambda>_.
               Inr (0, delete_client_session (cs_addr s) c)))))"

definition rtsp_client_remove_all_sessions ::
  "rtsp_client_cbs \<Rightarrow> rtsp_client \<Rightarrow> rtsp_client result" where
  "rtsp_client_remove_all_sessions cbs c =
     walk_safe client_session_live
       (\<lambda>s c. bindr (rtsp_client_remove_session_internal cbs (Some (cs_id s)) 0 False c) (\<lambda>(_, c). Inr c))
       (cl_sessions c) c"

end
