(* ===== verification/RtspSocketOptions.thy ===== *)
theory RtspSocketOptions
  imports RtspClientState
begin

text \<open>
  The options of the sockets of \<open>src/rtsp_client.c\<close> and \<open>src/rtsp_server.c\<close>: the sizes of the socket
  buffers and the class selector, which the application may set before there is a socket, and the choice
  between a plain and a TLS socket. What libtransport-socket, libtransport-tls and the system return is a
  parameter; the calls made to them are a list.
\<close>

record sock_params =
  sp_txbuf_size :: "64 word"
  sp_rxbuf_size :: "64 word"
  sp_class_selector :: "32 word"

definition UINT32_MAX :: "32 word" where "UINT32_MAX = 0xFFFFFFFF"

definition new_sock_params :: sock_params where
  "new_sock_params = \<lparr>sp_txbuf_size = 0, sp_rxbuf_size = 0, sp_class_selector = UINT32_MAX\<rparr>"

datatype socket_call =
  SetRxbuf "64 word" | GetRxbuf | SetTxbuf "64 word" | GetTxbuf | SetClassSelector "32 word" |
  SetTos int int | SocketCallback int

record socket_env =
  se_set_rxbuf :: "64 word \<Rightarrow> int"
  se_get_rxbuf :: int
  se_set_txbuf :: "64 word \<Rightarrow> int"
  se_get_txbuf :: int
  se_set_class :: "32 word \<Rightarrow> int"

text \<open>The kernel reports twice the size that was set; \<open>got\<close> is converted to \<open>size_t\<close>.\<close>

definition size_result :: "64 word \<Rightarrow> int \<Rightarrow> int" where
  "size_result sz got =
     (if got < 0 then got else if word_of_int got \<noteq> 2 * sz then - ENOSYS else 0)"

section \<open>The client\<close>

definition set_socket_rxbuf_size :: "socket_env \<Rightarrow> sock_params \<Rightarrow> int \<times> socket_call list" where
  "set_socket_rxbuf_size e p =
     (let sz = sp_rxbuf_size p; ret = se_set_rxbuf e sz in
      if sz = 0 then (0, [])
      else if ret < 0 then (ret, [SetRxbuf sz])
      else (size_result sz (se_get_rxbuf e), [SetRxbuf sz, GetRxbuf]))"

definition set_socket_txbuf_size :: "socket_env \<Rightarrow> sock_params \<Rightarrow> int \<times> socket_call list" where
  "set_socket_txbuf_size e p =
     (let sz = sp_txbuf_size p; ret = se_set_txbuf e sz in
      if sz = 0 then (0, [])
      else if ret < 0 then (ret, [SetTxbuf sz])
      else (size_result sz (se_get_txbuf e), [SetTxbuf sz, GetTxbuf]))"

definition set_socket_class_selector :: "socket_env \<Rightarrow> sock_params \<Rightarrow> int \<times> socket_call list" where
  "set_socket_class_selector e p =
     (let class_selector = sp_class_selector p; ret = se_set_class e class_selector in
      if class_selector = UINT32_MAX then (0, [])
      else (if ret < 0 then ret else 0, [SetClassSelector class_selector]))"

definition tskt_client_socket_created_cb :: "socket_env \<Rightarrow> bool \<Rightarrow> int \<Rightarrow> sock_params \<Rightarrow> socket_call list" where
  "tskt_client_socket_created_cb e has_socket_cb fd p =
     snd (set_socket_rxbuf_size e p) @ snd (set_socket_txbuf_size e p) @ snd (set_socket_class_selector e p) @
     (if has_socket_cb then [SocketCallback fd] else [])"

text \<open>The socket to use: the one that was made, a TLS socket over it, or none.\<close>

definition tskt_client_socket_upgrade_cb :: "('s \<Rightarrow> int + 's) \<Rightarrow> rtsp_client \<Rightarrow> 's \<Rightarrow> 's option" where
  "tskt_client_socket_upgrade_cb ttls_socket_new c sock =
     (if (case cl_url c of Some u \<Rightarrow> url_scheme u | None \<Rightarrow> RTSP_URL_SCHEME_UNKNOWN) \<noteq> RTSP_URL_SCHEME_TCP_TLS
      then Some sock
      else (case ttls_socket_new sock of Inl _ \<Rightarrow> None | Inr tls \<Rightarrow> Some tls))"

definition rtsp_client_set_socket_txbuf_size ::
  "socket_env \<Rightarrow> rtsp_client \<Rightarrow> 64 word \<Rightarrow> sock_params \<Rightarrow> int \<times> sock_params \<times> socket_call list" where
  "rtsp_client_set_socket_txbuf_size e c sz p =
     (let p = p\<lparr>sp_txbuf_size := sz\<rparr> in
      if \<not> cl_sock c then (0, p, [])
      else (case set_socket_txbuf_size e p of (ret, calls) \<Rightarrow> (ret, p, calls)))"

definition rtsp_client_set_socket_rxbuf_size ::
  "socket_env \<Rightarrow> rtsp_client \<Rightarrow> 64 word \<Rightarrow> sock_params \<Rightarrow> int \<times> sock_params \<times> socket_call list" where
  "rtsp_client_set_socket_rxbuf_size e c sz p =
     (let p = p\<lparr>sp_rxbuf_size := sz\<rparr> in
      if \<not> cl_sock c then (0, p, [])
      else (case set_socket_rxbuf_size e p of (ret, calls) \<Rightarrow> (ret, p, calls)))"

definition rtsp_client_set_socket_class_selector ::
  "socket_env \<Rightarrow> rtsp_client \<Rightarrow> 32 word \<Rightarrow> sock_params \<Rightarrow> int \<times> sock_params \<times> socket_call list" where
  "rtsp_client_set_socket_class_selector e c class_selector p =
     (let p = p\<lparr>sp_class_selector := class_selector\<rparr> in
      if \<not> cl_sock c then (0, p, [])
      else (case set_socket_class_selector e p of (ret, calls) \<Rightarrow> (ret, p, calls)))"

section \<open>The server\<close>

definition IPTOS_PREC_FLASHOVERRIDE :: int where "IPTOS_PREC_FLASHOVERRIDE = 0x80"

definition pomp_socket_cb :: "bool \<Rightarrow> int \<Rightarrow> socket_call list" where
  "pomp_socket_cb has_socket_cb fd =
     SetTos fd IPTOS_PREC_FLASHOVERRIDE # (if has_socket_cb then [SocketCallback fd] else [])"

section \<open>What the options come to\<close>

lemma size_result_ok: "size_result sz got = 0 \<longleftrightarrow> got \<ge> 0 \<and> word_of_int got = 2 * sz"
  by (auto simp: size_result_def)

lemma option_stored:
  "fst (snd (rtsp_client_set_socket_txbuf_size e c sz p)) = p\<lparr>sp_txbuf_size := sz\<rparr>"
  "fst (snd (rtsp_client_set_socket_rxbuf_size e c sz p)) = p\<lparr>sp_rxbuf_size := sz\<rparr>"
  "fst (snd (rtsp_client_set_socket_class_selector e c class p)) = p\<lparr>sp_class_selector := class\<rparr>"
  by (simp_all add: rtsp_client_set_socket_txbuf_size_def rtsp_client_set_socket_rxbuf_size_def
      rtsp_client_set_socket_class_selector_def Let_def split: prod.split)

text \<open>
  An option that is set before there is a socket is applied when the socket is made, and one that keeps
  its default never is. The attempt is made even when another one fails.
\<close>

lemma created_applies_options:
  "SetRxbuf n \<in> set (tskt_client_socket_created_cb e b fd p) \<longleftrightarrow> sp_rxbuf_size p = n \<and> n \<noteq> 0"
  "SetTxbuf n \<in> set (tskt_client_socket_created_cb e b fd p) \<longleftrightarrow> sp_txbuf_size p = n \<and> n \<noteq> 0"
  "SetClassSelector k \<in> set (tskt_client_socket_created_cb e b fd p) \<longleftrightarrow>
     sp_class_selector p = k \<and> k \<noteq> UINT32_MAX"
  by (auto simp: tskt_client_socket_created_cb_def set_socket_rxbuf_size_def set_socket_txbuf_size_def
      set_socket_class_selector_def Let_def)

lemma new_client_sets_nothing:
  "tskt_client_socket_created_cb e b fd new_sock_params = (if b then [SocketCallback fd] else [])"
  by (simp add: tskt_client_socket_created_cb_def set_socket_rxbuf_size_def set_socket_txbuf_size_def
      set_socket_class_selector_def new_sock_params_def)

text \<open>A connection to an \<open>rtsps\<close> URL never uses the plain socket, when a TLS socket differs from it.\<close>

lemma rtsps_never_plain:
  assumes "cl_url c = Some u" "url_scheme u = RTSP_URL_SCHEME_TCP_TLS" "ttls_socket_new sock \<noteq> Inr sock"
  shows "tskt_client_socket_upgrade_cb ttls_socket_new c sock \<noteq> Some sock"
  using assms by (auto simp: tskt_client_socket_upgrade_cb_def split: sum.split)

end
