(* ===== verification/RtspClientRequest.thy ===== *)
theory RtspClientRequest
  imports RtspClientState
begin

text \<open>
  Requests of the client (\<open>src/rtsp_client.c\<close>): the URIs they name, the header that each of the API
  functions fills, sending, the timers of responses and keep-alives, and the allocation of interleaved
  channels. A function returns the C return value with the new state; \<open>Inl UB\<close> stands for undefined
  behaviour.
\<close>

section \<open>Environment\<close>

text \<open>
  The environment of one operation: the monotonic clock in seconds, the formatting of dates,
  \<open>inet_pton\<close>, MD5 and the client nonces; the return values of the calls of the socket, the resolver
  and TLS libraries.
\<close>

record client_env =
  cenv_now :: "64 word"
  cenv_format :: time_formatter
  cenv_is_ip :: "string \<Rightarrow> bool"
  cenv_md5 :: "string \<Rightarrow> 8 word list"
  cenv_random :: "string result"
  cenv_send :: "string \<Rightarrow> int"
  cenv_stop :: int
  cenv_connect :: "string option \<Rightarrow> 16 word \<Rightarrow> int"
  cenv_resolve :: "string option \<Rightarrow> int"
  cenv_ttls_init :: int
  cenv_ssl_ctx :: bool

type_synonym client_result = "(int \<times> rtsp_client) result"

text \<open>The functions of the application are composed of steps, the first failure of which is returned.\<close>

definition and_then :: "client_result \<Rightarrow> (rtsp_client \<Rightarrow> client_result) \<Rightarrow> client_result" where
  "and_then r f = bindr r (\<lambda>(res, c). if res < 0 then Inr (res, c) else f c)"

lemma and_then_simps [simp]:
  "and_then (Inl err) f = Inl err"
  "and_then (Inr (res, c)) f = (if res < 0 then Inr (res, c) else f c)"
  by (simp_all add: and_then_def)

section \<open>URIs\<close>

definition RTSP_SCHEME_TCP :: string where "RTSP_SCHEME_TCP = ''rtsp://''"

definition get_last_char :: "string \<Rightarrow> nat \<Rightarrow> char option" where
  "get_last_char s max_len = (if s = [] \<or> length s \<ge> max_len then None else Some (last s))"

text \<open>Without a path the URI is the URL of the server; printing a NULL URL is undefined.\<close>

definition make_uri :: "string option \<Rightarrow> rtsp_client \<Rightarrow> string option result" where
  "make_uri path c =
     (case path of
        None \<Rightarrow> Inr (cl_url_str c)
      | Some p \<Rightarrow>
          (case cl_url_str c of
             None \<Rightarrow> Inl UB
           | Some url \<Rightarrow> Inr (Some (url @ ''/'' @ p))))"

definition format_request_uri :: "string option \<Rightarrow> string option \<Rightarrow> string result" where
  "format_request_uri content_base control_url =
     (case control_url of
        None \<Rightarrow> Inl (Err (- EINVAL))
      | Some url \<Rightarrow>
          if has_prefix url RTSP_SCHEME_TCP then Inr url
          else
            (case content_base of
               None \<Rightarrow> Inl (Err (- EINVAL))
             | Some base \<Rightarrow>
                 Inr (base @ (if get_last_char base PATH_MAX = Some (CHR ''/'') then [] else ''/'') @ url)))"

text \<open>\<open>strnlen\<close> of a NULL URL is undefined.\<close>

definition client_uri_to_content_base :: "string option \<Rightarrow> rtsp_client \<Rightarrow> string option result" where
  "client_uri_to_content_base uri c =
     (case uri of
        None \<Rightarrow> Inr None
      | Some u \<Rightarrow>
          (case cl_url_str c of
             None \<Rightarrow> Inl UB
           | Some url \<Rightarrow>
               if url = [] \<or> length url \<ge> PATH_MAX then Inr None
               else if has_prefix u RTSP_SCHEME_TCP then Inr (Some u)
               else
                 let u = (if u \<noteq> [] \<and> hd u = CHR ''/'' then tl u else u) in
                 Inr (Some (url @ (if get_last_char url PATH_MAX \<noteq> Some (CHR ''/'') then ''/'' else []) @ u))))"

section \<open>Sending\<close>

definition send_raw_buf :: "client_env \<Rightarrow> string \<Rightarrow> rtsp_client \<Rightarrow> int \<times> rtsp_client" where
  "send_raw_buf e buf c =
     (if \<not> cl_sock c then (- EPROTO, c)
      else if cenv_send e buf < 0 then (cenv_send e buf, c)
      else (0, c\<lparr>cl_output := cl_output c @ [Sent buf]\<rparr>))"

text \<open>The request buffer has \<open>PIPE_BUF - 1\<close> bytes.\<close>

definition request_capacity :: nat where "request_capacity = 4095"

definition write_request ::
  "client_env \<Rightarrow> rtsp_request_header \<Rightarrow> string option \<Rightarrow> string result" where
  "write_request e h content =
     bindr (rtsp_request_header_write (cenv_format e) h \<lparr>rs_str = [], rs_max_len = request_capacity\<rparr>) (\<lambda>s.
     bindr (case content of None \<Rightarrow> Inr s | Some body \<Rightarrow> rtsp_sprintf s body) (\<lambda>s.
     Inr (rs_str s)))"

definition client_send_request ::
  "client_env \<Rightarrow> string option \<Rightarrow> 32 word \<Rightarrow> rtsp_client \<Rightarrow> client_result" where
  "client_send_request e content timeout_ms c =
     (case write_request e (cl_req_header c) content of
        Inl UB \<Rightarrow> Inl UB
      | Inl (Err res) \<Rightarrow> Inr (res, c)
      | Inr buf \<Rightarrow>
          (case send_raw_buf e buf c of
             (res, c) \<Rightarrow>
               if res < 0 then Inr (res, c)
               else Inr (0, if timeout_ms > 0 then c\<lparr>cl_req_timer := Some timeout_ms\<rparr> else c)))"

definition clear_pending_keep_alive_timer :: "rtsp_client \<Rightarrow> bool \<times> rtsp_client" where
  "clear_pending_keep_alive_timer c =
     (if \<exists>s \<in> set (cl_sessions c). cs_keep_alive_in_progress s
      then (True, c\<lparr>cl_req_timer := None\<rparr>) else (False, c))"

definition reset_keep_alive_timer :: "int \<Rightarrow> client_session \<Rightarrow> client_session" where
  "reset_keep_alive_timer timer_msec s =
     (if timer_msec = 0 then s
      else if timer_msec > 0 then s\<lparr>cs_timer := Some (word_of_int timer_msec)\<rparr>
      else s\<lparr>cs_timer := None\<rparr>)"

section \<open>Authorization\<close>

text \<open>The fields of the client that \<open>generate_authorization_header\<close> reads and writes.\<close>

definition auth_view :: "rtsp_client \<Rightarrow> client_auth" where
  "auth_view c =
     \<lparr>ca_auth = cl_auth c, ca_server_auth = cl_server_auth c,
      ca_url_user = (case cl_url c of None \<Rightarrow> None | Some u \<Rightarrow> url_user u),
      ca_url_pass = (case cl_url c of None \<Rightarrow> None | Some u \<Rightarrow> url_pass u),
      ca_req_method = req_method (cl_req_header c), ca_req_uri = req_uri (cl_req_header c),
      ca_req_authorization = req_authorization (cl_req_header c)\<rparr>"

definition put_auth :: "client_auth \<Rightarrow> rtsp_client \<Rightarrow> rtsp_client" where
  "put_auth a c =
     c\<lparr>cl_auth := ca_auth a, cl_server_auth := ca_server_auth a,
       cl_req_header := (cl_req_header c)\<lparr>req_authorization := ca_req_authorization a\<rparr>\<rparr>"

definition add_authorization :: "client_env \<Rightarrow> rtsp_client \<Rightarrow> client_result" where
  "add_authorization e c =
     (case generate_authorization_header (cenv_md5 e) (cenv_random e) (auth_view c) of
        Inl UB \<Rightarrow> Inl UB
      | Inl (Err res) \<Rightarrow> Inr (res, c)
      | Inr a \<Rightarrow> Inr (0, put_auth a c))"

section \<open>The parts that the requests have in common\<close>

abbreviation set_header :: "(rtsp_request_header \<Rightarrow> rtsp_request_header) \<Rightarrow> rtsp_client \<Rightarrow> rtsp_client" where
  "set_header f c \<equiv> c\<lparr>cl_req_header := f (cl_req_header c)\<rparr>"

text \<open>
  \<open>methods_allowed\<close> is zero until the server has answered OPTIONS. The numbers are the
  \<open>RTSP_METHOD_FLAG_*\<close> of \<open>include/rtsp/common.h\<close>.
\<close>

definition is_method_allowed :: "32 word \<Rightarrow> rtsp_client \<Rightarrow> bool" where
  "is_method_allowed flag c \<longleftrightarrow> cl_methods_allowed c = 0 \<or> cl_methods_allowed c AND flag \<noteq> 0"

text \<open>
  Only one request is pending at a time, except that a pending keep-alive is abandoned: its timer is
  cleared and the new request takes its place.
\<close>

definition begin_request :: "rtsp_client \<Rightarrow> client_result" where
  "begin_request c =
     (if cl_conn_state c \<noteq> RTSP_CLIENT_CONN_STATE_CONNECTED then Inr (- EPIPE, c)
      else
        (case clear_pending_keep_alive_timer c of
           (keep_alive_in_progress, c) \<Rightarrow>
             if cl_req_is_pending c \<and> \<not> keep_alive_in_progress then Inr (- EBUSY, c) else Inr (0, c)))"

definition new_header :: "rtsp_method_type \<Rightarrow> nat \<Rightarrow> rtsp_client \<Rightarrow> rtsp_client" where
  "new_header m userdata c =
     c\<lparr>cl_req_header := rtsp_request_header_clear\<lparr>req_method := m\<rparr>, cl_req_userdata := userdata\<rparr>"

definition address_header :: "string option \<Rightarrow> rtsp_client \<Rightarrow> rtsp_client" where
  "address_header uri c = set_header (\<lambda>h. h\<lparr>req_uri := uri, req_cseq := sint (cl_cseq c)\<rparr>) c"

text \<open>The end of every request: the rest of the header, sending, and the bookkeeping.\<close>

definition finish_header ::
  "(rtsp_request_header \<Rightarrow> rtsp_request_header) \<Rightarrow> header_ext \<Rightarrow> rtsp_client \<Rightarrow> rtsp_client" where
  "finish_header fill ext c =
     set_header (\<lambda>h. rtsp_request_header_copy_ext ext (fill (h\<lparr>req_user_agent := Some (cl_software_name c)\<rparr>))) c"

definition send_pending ::
  "client_env \<Rightarrow> string option \<Rightarrow> 32 word \<Rightarrow> rtsp_client \<Rightarrow> client_result" where
  "send_pending e content timeout_ms c =
     and_then (client_send_request e content timeout_ms c) (\<lambda>c.
     Inr (0, c\<lparr>cl_req_is_pending := True, cl_cseq := cl_cseq c + 1\<rparr>))"

text \<open>DESCRIBE and ANNOUNCE are sent without credentials when there is no nonce yet.\<close>

definition try_authorization :: "client_env \<Rightarrow> rtsp_client \<Rightarrow> client_result" where
  "try_authorization e c =
     bindr (add_authorization e c) (\<lambda>(res, c). Inr (if res = - EAGAIN then 0 else res, c))"

section \<open>OPTIONS, DESCRIBE, ANNOUNCE\<close>

definition rtsp_client_options ::
  "client_env \<Rightarrow> rtsp_client_cbs \<Rightarrow> header_ext \<Rightarrow> nat \<Rightarrow> 32 word \<Rightarrow> rtsp_client \<Rightarrow> client_result" where
  "rtsp_client_options e cbs ext req_userdata timeout_ms c =
     (if \<not> ccbs_has cbs OptionsRespCb then Inr (- ENOSYS, c)
      else
        and_then (begin_request c) (\<lambda>c.
        send_pending e None timeout_ms
          (finish_header id ext
            (address_header (Some ''*'') (new_header RTSP_METHOD_TYPE_OPTIONS req_userdata c)))))"

definition RTSP_CONTENT_TYPE_SDP :: string where "RTSP_CONTENT_TYPE_SDP = ''application/sdp''"

definition rtsp_client_describe ::
  "client_env \<Rightarrow> rtsp_client_cbs \<Rightarrow> string option \<Rightarrow> header_ext \<Rightarrow> nat \<Rightarrow> 32 word \<Rightarrow> rtsp_client \<Rightarrow> client_result" where
  "rtsp_client_describe e cbs path ext req_userdata timeout_ms c =
     (if \<not> ccbs_has cbs DescribeRespCb then Inr (- ENOSYS, c)
      else if \<not> is_method_allowed 0x002 c then Inr (- ENOSYS, c)
      else
        and_then (begin_request c) (\<lambda>c.
        bindr (make_uri path c) (\<lambda>uri.
        and_then (try_authorization e
          (address_header uri (new_header RTSP_METHOD_TYPE_DESCRIBE req_userdata c))) (\<lambda>c.
        send_pending e None timeout_ms
          (finish_header (\<lambda>h. h\<lparr>req_accept := Some RTSP_CONTENT_TYPE_SDP\<rparr>) ext c)))))"

definition rtsp_client_announce ::
  "client_env \<Rightarrow> rtsp_client_cbs \<Rightarrow> string option \<Rightarrow> string option \<Rightarrow> header_ext \<Rightarrow> nat \<Rightarrow> 32 word \<Rightarrow>
   rtsp_client \<Rightarrow> client_result" where
  "rtsp_client_announce e cbs path session_description ext req_userdata timeout_ms c =
     (case session_description of
        None \<Rightarrow> Inr (- EINVAL, c)
      | Some sdp \<Rightarrow>
          if sdp = [] then Inr (- EINVAL, c)
          else if \<not> ccbs_has cbs AnnounceRespCb then Inr (- ENOSYS, c)
          else if \<not> is_method_allowed 0x004 c then Inr (- ENOSYS, c)
          else if length sdp \<ge> RTSP_SESSION_DESCRIPTION_MAX_LEN then Inr (- EINVAL, c)
          else
            and_then (begin_request c) (\<lambda>c.
            bindr (make_uri path c) (\<lambda>uri.
            and_then (try_authorization e
              (address_header uri (new_header RTSP_METHOD_TYPE_ANNOUNCE req_userdata c))) (\<lambda>c.
            send_pending e (Some sdp) timeout_ms
              (finish_header (\<lambda>h. h\<lparr>req_content_type := Some RTSP_CONTENT_TYPE_SDP,
                                    req_content_length := int (length sdp)\<rparr>) ext c)))))"

section \<open>Allocation of interleaved channels\<close>

definition count_channel_unused :: "bool list \<Rightarrow> nat" where
  "count_channel_unused channel_used = length (filter (\<lambda>u. \<not> u) channel_used)"

definition check_channel_unused :: "bool list \<Rightarrow> 8 word \<Rightarrow> int" where
  "check_channel_unused channel_used channel = (if channel_used ! unat channel then - EEXIST else 0)"

text \<open>
  The loop over \<open>uint8_t i\<close> from an even number on: its index wraps around, so that it is left only
  when a pair of unused channels is found. \<open>None\<close> is the loop that does not end.
\<close>

partial_function (option) next_channels :: "bool list \<Rightarrow> 8 word \<Rightarrow> channel_pair option option" where
  "next_channels channel_used i =
     (if unat i < 256 - 1 then
        if \<not> channel_used ! unat i \<and> \<not> channel_used ! (unat i + 1) then Some (Some (i, i + 1))
        else next_channels channel_used (i + 2)
      else Some None)"

text \<open>A loop without effects that does not end is undefined in C (C11, 6.8.5).\<close>

definition allocate_interleaved_channels ::
  "channel_pair \<Rightarrow> rtsp_client \<Rightarrow> (int \<times> channel_pair \<times> rtsp_client) result" where
  "allocate_interleaved_channels pair c =
     (if is_channel_pair_valid pair then
        if check_channel_unused (cl_channel_used c) (fst pair) < 0 then Inr (- EEXIST, pair, c)
        else if check_channel_unused (cl_channel_used c) (snd pair) < 0 then Inr (- EEXIST, pair, c)
        else Inr (0, pair, set_channels pair True c)
      else
        (case next_channels (cl_channel_used c) 0 of
           None \<Rightarrow> Inl UB
         | Some found \<Rightarrow>
             let pair = (case found of None \<Rightarrow> pair | Some p \<Rightarrow> p) in
             Inr (0, pair, set_channels pair True c)))"

section \<open>SETUP\<close>

text \<open>The session that is named must exist and have the content base; NULL cannot be compared.\<close>

definition check_setup_session :: "string option \<Rightarrow> string \<Rightarrow> rtsp_client \<Rightarrow> int result" where
  "check_setup_session session_id base c =
     (if session_id = None \<or> session_id = Some [] then Inr 0
      else
        (case fst (rtsp_client_get_session session_id False c) of
           None \<Rightarrow> Inr (- ENOENT)
         | Some a \<Rightarrow>
             bindr (deref_session a c) (\<lambda>s.
             case cs_content_base s of
               None \<Rightarrow> Inl UB
             | Some b \<Rightarrow> Inr (if b \<noteq> base then - EINVAL else 0))))"

text \<open>The transport of the request, with its channels when it is interleaved.\<close>

definition setup_request_transport ::
  "rtsp_delivery \<Rightarrow> rtsp_lower_transport \<Rightarrow> 16 word \<Rightarrow> 16 word \<Rightarrow> rtsp_transport_method \<Rightarrow> rtsp_client \<Rightarrow>
   client_result" where
  "setup_request_transport dlv lower stream control meth c =
     (let th = rtsp_transport_header_new
            \<lparr>transport_protocol := Some ''RTP'', transport_profile := Some ''AVP'', lower_transport := lower,
             delivery := dlv, trsp_method := meth\<rparr>;
          with_transport = (\<lambda>th. set_header (\<lambda>h. h\<lparr>req_transport := [th]\<rparr>)) in
      if lower = RTSP_LOWER_TRANSPORT_TCP then
        let c = with_transport th c in
        if count_channel_unused (cl_channel_used c) < 2 then Inr (- E2BIG, c)
        else
          bindr (allocate_interleaved_channels (ucast stream, ucast control) c) (\<lambda>(res, pair, c).
          if res < 0 then Inr (res, c)
          else Inr (0, with_transport (th\<lparr>interleaved := [pair]\<rparr>) c))
      else Inr (0, with_transport (th\<lparr>dst_stream_port := stream, dst_control_port := control\<rparr>) c))"

definition setup_ports_ok :: "rtsp_lower_transport \<Rightarrow> 16 word \<Rightarrow> 16 word \<Rightarrow> bool" where
  "setup_ports_ok lower stream control \<longleftrightarrow>
     (if lower = RTSP_LOWER_TRANSPORT_TCP
      then \<not> (stream \<noteq> 0 \<and> control \<noteq> 0 \<and> stream = control) \<and> stream \<le> 255 \<and> control \<le> 255
      else stream \<noteq> 0 \<and> control \<noteq> 0)"

definition rtsp_client_setup ::
  "client_env \<Rightarrow> rtsp_client_cbs \<Rightarrow> string option \<Rightarrow> string option \<Rightarrow> string option \<Rightarrow> rtsp_delivery \<Rightarrow>
   rtsp_lower_transport \<Rightarrow> 16 word \<Rightarrow> 16 word \<Rightarrow> rtsp_transport_method \<Rightarrow> header_ext \<Rightarrow> nat \<Rightarrow> 32 word \<Rightarrow>
   rtsp_client \<Rightarrow> client_result" where
  "rtsp_client_setup e cbs content_base resource_url session_id dlv lower stream control meth ext
       req_userdata timeout_ms c =
     (if content_base = None \<or> content_base = Some [] \<or> resource_url = None \<or> resource_url = Some []
      then Inr (- EINVAL, c)
      else if \<not> setup_ports_ok lower stream control then Inr (- EINVAL, c)
      else if \<not> ccbs_has cbs SetupRespCb then Inr (- ENOSYS, c)
      else if \<not> is_method_allowed 0x008 c then Inr (- ENOSYS, c)
      else
        and_then (begin_request c) (\<lambda>c.
        case rtsp_url_strip_credentials (cenv_is_ip e) content_base of
          Inl UB \<Rightarrow> Inl UB
        | Inl (Err res) \<Rightarrow> Inr (res, c)
        | Inr base \<Rightarrow>
            bindr (check_setup_session session_id base c) (\<lambda>res.
            if res < 0 then Inr (res, c)
            else
              let c = new_header RTSP_METHOD_TYPE_SETUP req_userdata c in
              case format_request_uri (Some base) resource_url of
                Inl UB \<Rightarrow> Inl UB
              | Inl (Err res) \<Rightarrow> Inr (res, c)
              | Inr uri \<Rightarrow>
                  let c = address_header (Some uri)
                            (c\<lparr>cl_req_uri := Some uri, cl_req_content_base := Some base\<rparr>) in
                  and_then (add_authorization e c) (\<lambda>c.
                  and_then (setup_request_transport dlv lower stream control meth c) (\<lambda>c.
                  send_pending e None timeout_ms
                    (finish_header (\<lambda>h. h\<lparr>req_session_id := session_id\<rparr>) ext c))))))"

section \<open>PLAY, PAUSE, RECORD\<close>

text \<open>
  The three functions differ in their method, its flag, the callback that must be there and the
  fields they fill.
\<close>

definition session_request ::
  "client_env \<Rightarrow> rtsp_client_cbs \<Rightarrow> rtsp_method_type \<Rightarrow> 32 word \<Rightarrow> client_callback \<Rightarrow>
   (rtsp_request_header \<Rightarrow> rtsp_request_header) \<Rightarrow> string option \<Rightarrow> rtsp_range option \<Rightarrow> header_ext \<Rightarrow> nat \<Rightarrow>
   32 word \<Rightarrow> rtsp_client \<Rightarrow> client_result" where
  "session_request e cbs m flag cb fill session_id rng_opt ext req_userdata timeout_ms c =
     (case (session_id, rng_opt) of
        (Some sid, Some rng) \<Rightarrow>
          if sid = [] then Inr (- EINVAL, c)
          else if \<not> ccbs_has cbs cb then Inr (- ENOSYS, c)
          else if \<not> is_method_allowed flag c then Inr (- ENOSYS, c)
          else
            and_then (begin_request c) (\<lambda>c.
            case fst (rtsp_client_get_session session_id False c) of
              None \<Rightarrow> Inr (- ENOENT, c)
            | Some a \<Rightarrow>
                bindr (deref_session a c) (\<lambda>s.
                and_then (add_authorization e
                  (address_header (cs_content_base s) (new_header m req_userdata c))) (\<lambda>c.
                send_pending e None timeout_ms
                  (finish_header (\<lambda>h. fill (h\<lparr>req_session_id := session_id, req_range := rng\<rparr>)) ext c))))
      | _ \<Rightarrow> Inr (- EINVAL, c))"

definition rtsp_client_play ::
  "client_env \<Rightarrow> rtsp_client_cbs \<Rightarrow> string option \<Rightarrow> rtsp_range option \<Rightarrow> c_float \<Rightarrow> header_ext \<Rightarrow> nat \<Rightarrow>
   32 word \<Rightarrow> rtsp_client \<Rightarrow> client_result" where
  "rtsp_client_play e cbs session_id rng scale =
     session_request e cbs RTSP_METHOD_TYPE_PLAY 0x010 PlayRespCb (\<lambda>h. h\<lparr>req_scale := scale\<rparr>) session_id rng"

definition rtsp_client_pause ::
  "client_env \<Rightarrow> rtsp_client_cbs \<Rightarrow> string option \<Rightarrow> rtsp_range option \<Rightarrow> header_ext \<Rightarrow> nat \<Rightarrow> 32 word \<Rightarrow>
   rtsp_client \<Rightarrow> client_result" where
  "rtsp_client_pause e cbs session_id rng =
     session_request e cbs RTSP_METHOD_TYPE_PAUSE 0x020 PauseRespCb id session_id rng"

definition rtsp_client_record ::
  "client_env \<Rightarrow> rtsp_client_cbs \<Rightarrow> string option \<Rightarrow> rtsp_range option \<Rightarrow> header_ext \<Rightarrow> nat \<Rightarrow> 32 word \<Rightarrow>
   rtsp_client \<Rightarrow> client_result" where
  "rtsp_client_record e cbs session_id rng =
     session_request e cbs RTSP_METHOD_TYPE_RECORD 0x400 RecordRespCb id session_id rng"

section \<open>TEARDOWN\<close>

definition send_teardown ::
  "client_env \<Rightarrow> rtsp_client_cbs \<Rightarrow> string option \<Rightarrow> string option \<Rightarrow> header_ext \<Rightarrow> nat \<Rightarrow> 32 word \<Rightarrow> bool \<Rightarrow>
   rtsp_client \<Rightarrow> client_result" where
  "send_teardown e cbs resource_url session_id ext req_userdata timeout_ms internal c =
     (if session_id = None \<or> session_id = Some [] then Inr (- EINVAL, c)
      else if \<not> ccbs_has cbs TeardownRespCb then Inr (- ENOSYS, c)
      else if \<not> is_method_allowed 0x040 c then Inr (- ENOSYS, c)
      else
        and_then (begin_request c) (\<lambda>c.
        case fst (rtsp_client_get_session session_id False c) of
          None \<Rightarrow> Inr (- ENOENT, c)
        | Some a \<Rightarrow>
            bindr (deref_session a c) (\<lambda>s.
            let c = new_header RTSP_METHOD_TYPE_TEARDOWN req_userdata c in
            case (if resource_url \<noteq> None \<and> resource_url \<noteq> Some []
                  then bindr (format_request_uri (cs_content_base s) resource_url) (\<lambda>uri. Inr (Some uri))
                  else Inr (cs_content_base s)) of
              Inl UB \<Rightarrow> Inl UB
            | Inl (Err res) \<Rightarrow> Inr (res, c)
            | Inr uri \<Rightarrow>
                and_then (add_authorization e (address_header uri c)) (\<lambda>c.
                and_then (client_send_request e None timeout_ms
                  (finish_header (\<lambda>h. h\<lparr>req_session_id := session_id\<rparr>) ext c)) (\<lambda>c.
                Inr (0, (set_client_session a (\<lambda>s. s\<lparr>cs_internal_teardown := internal\<rparr>) c)
                  \<lparr>cl_req_is_internal := internal, cl_req_is_pending := True, cl_cseq := cl_cseq c + 1\<rparr>))))))"

definition rtsp_client_teardown ::
  "client_env \<Rightarrow> rtsp_client_cbs \<Rightarrow> string option \<Rightarrow> string option \<Rightarrow> header_ext \<Rightarrow> nat \<Rightarrow> 32 word \<Rightarrow>
   rtsp_client \<Rightarrow> client_result" where
  "rtsp_client_teardown e cbs resource_url session_id ext req_userdata timeout_ms =
     send_teardown e cbs resource_url session_id ext req_userdata timeout_ms False"

section \<open>Keep-alive\<close>

definition send_keep_alive ::
  "client_env \<Rightarrow> rtsp_client_cbs \<Rightarrow> nat \<Rightarrow> 32 word \<Rightarrow> rtsp_client \<Rightarrow> client_result" where
  "send_keep_alive e cbs session timeout_ms c =
     (if \<not> is_method_allowed 0x080 c then Inr (- ENOSYS, c)
      else
        bindr (deref_session session c) (\<lambda>s.
        if cl_conn_state c \<noteq> RTSP_CLIENT_CONN_STATE_CONNECTED then
          let failed = cs_failed_keep_alive s + 1;
              c = set_client_session session (\<lambda>s. s\<lparr>cs_failed_keep_alive := failed\<rparr>) c in
          if failed \<ge> RTSP_CLIENT_MAX_FAILED_KEEP_ALIVE then
            bindr (rtsp_client_remove_session_internal cbs (Some (cs_id s)) (- EPIPE) False c) (\<lambda>(_, c).
            Inr (- EPIPE, c))
          else
            Inr (- EAGAIN, set_client_session session
              (reset_keep_alive_timer (sint (cs_timeout_ms s div RTSP_CLIENT_MAX_FAILED_KEEP_ALIVE))) c)
        else if cs_keep_alive_in_progress s then Inr (- EBUSY, c)
        else if cl_req_is_pending c then
          Inr (- EBUSY, set_client_session session (reset_keep_alive_timer (sint (cs_timeout_ms s div 2))) c)
        else
          let c = address_header (cs_content_base s)
                    (c\<lparr>cl_req_header := rtsp_request_header_clear\<lparr>req_method := RTSP_METHOD_TYPE_GET_PARAMETER\<rparr>\<rparr>) in
          and_then (add_authorization e c) (\<lambda>c.
          bindr (client_send_request e None timeout_ms
            (finish_header (\<lambda>h. h\<lparr>req_session_id := Some (cs_id s)\<rparr>) [] c)) (\<lambda>(res, c).
          if res = - EAGAIN \<or> res \<ge> 0 then
            let c = (if res = - EAGAIN then c\<lparr>cl_req_timer := Some timeout_ms\<rparr> else c) in
            Inr (0, (set_client_session session (\<lambda>s. s\<lparr>cs_keep_alive_in_progress := True\<rparr>) c)
              \<lparr>cl_req_is_pending := True, cl_cseq := cl_cseq c + 1\<rparr>)
          else Inr (res, c)))))"

text \<open>The timer of a session is set once; it is no longer set when it calls back.\<close>

definition rtsp_client_pomp_timer_cb ::
  "client_env \<Rightarrow> rtsp_client_cbs \<Rightarrow> nat \<Rightarrow> rtsp_client \<Rightarrow> rtsp_client result" where
  "rtsp_client_pomp_timer_cb e cbs session c =
     bindr (send_keep_alive e cbs session RTSP_CLIENT_DEFAULT_RESP_TIMEOUT_MS
       (set_client_session session (\<lambda>s. s\<lparr>cs_timer := None\<rparr>) c)) (\<lambda>(_, c). Inr c)"

section \<open>Interleaved data\<close>

definition rtsp_client_send_interleaved ::
  "client_env \<Rightarrow> 8 word \<Rightarrow> string option \<Rightarrow> nat \<Rightarrow> rtsp_client \<Rightarrow> client_result" where
  "rtsp_client_send_interleaved e channel data n c =
     (if data = None \<or> n = 0 \<or> n > 0xFFFF then Inr (- EINVAL, c)
      else if cl_conn_state c \<noteq> RTSP_CLIENT_CONN_STATE_CONNECTED then Inr (- EPIPE, c)
      else if \<not> cl_channel_used c ! unat channel then Inr (- ENOENT, c)
      else
        (case rtsp_build_interleaved (Some \<lparr>ilv_channel = channel, ilv_data = data, ilv_len = word_of_nat n\<rparr>) of
           Inl UB \<Rightarrow> Inl UB
         | Inl (Err res) \<Rightarrow> Inr (res, c)
         | Inr buf \<Rightarrow> Inr (send_raw_buf e buf c)))"

end
