(* ===== verification/RtspClient.thy ===== *)
theory RtspClient
  imports RtspClientRequest
begin

text \<open>
  What the client of \<open>src/rtsp_client.c\<close> does when something happens: the completion of a request by
  a response, a timeout, a disconnection or a cancellation, the messages of the server, the events
  of the socket and the resolver, and the connection functions of the API.
\<close>

section \<open>Connection state\<close>

definition set_connection_state ::
  "rtsp_client_cbs \<Rightarrow> rtsp_client_conn_state \<Rightarrow> rtsp_client \<Rightarrow> rtsp_client result" where
  "set_connection_state cbs new_state c =
     (if cl_conn_state c = new_state then Inr c
      else call_app cbs (CallConnectionState new_state) (c\<lparr>cl_conn_state := new_state\<rparr>))"

definition clear_remote_info :: "rtsp_client \<Rightarrow> rtsp_client" where
  "clear_remote_info c = c\<lparr>cl_url := None, cl_url_str := None, cl_auth := None, cl_server_auth := None\<rparr>"

section \<open>Completion of SETUP, PLAY and TEARDOWN\<close>

definition channel_pair_cmp :: "channel_pair \<Rightarrow> channel_pair \<Rightarrow> bool" where
  "channel_pair_cmp a b \<longleftrightarrow> fst a = fst b \<and> snd a = snd b"

definition update_interleaved_channels :: "channel_pair \<Rightarrow> channel_pair \<Rightarrow> rtsp_client \<Rightarrow> rtsp_client" where
  "update_interleaved_channels requested returned c =
     set_channels returned True
       (if \<not> channel_pair_cmp requested returned then set_channels requested False c else c)"

text \<open>
  The header of a response to a request that succeeded: its transport must be there. \<open>interleaved[0]\<close>
  of a transport without channels is the zeroed element of the array.
\<close>

definition setup_request_complete ::
  "rtsp_client_cbs \<Rightarrow> nat option \<Rightarrow> string option \<Rightarrow> string option \<Rightarrow> channel_pair \<Rightarrow> rtsp_client_req_status \<Rightarrow>
   rtsp_response_header \<Rightarrow> nat \<Rightarrow> rtsp_client \<Rightarrow> rtsp_client result" where
  "setup_request_complete cbs session session_id uri req_channels status resp_h req_userdata c =
     (if status = RTSP_CLIENT_REQ_STATUS_OK then
        (case resp_transport resp_h of
           None \<Rightarrow> Inl UB
         | Some t \<Rightarrow>
             let is_tcp = (lower_transport t = RTSP_LOWER_TRANSPORT_TCP);
                 first = (case interleaved t of [] \<Rightarrow> (0, 0) | p # _ \<Rightarrow> p);
                 stream_port = (if is_tcp then ucast (fst first) else src_stream_port t);
                 control_port = (if is_tcp then ucast (snd first) else src_control_port t);
                 ret_channels = (ucast stream_port, ucast control_port);
                 c = (if is_tcp then update_interleaved_channels req_channels ret_channels c else c) in
             bindr (call_app cbs (CallSetupResp session_id status (rtsp_status_to_errno (resp_status_code resp_h))
               stream_port control_port (ssrc_valid t) (ssrc t) (resp_ext resp_h) req_userdata) c) (\<lambda>c.
             case rtsp_url_parse_path uri of
               Inl UB \<Rightarrow> Inl UB
             | Inl (Err _) \<Rightarrow> Inr c
             | Inr path \<Rightarrow>
                 bindr (rtsp_client_session_media_add session path (if is_tcp then Some ret_channels else None) c)
                   (\<lambda>(_, c). Inr c)))
      else
        call_app cbs (CallSetupResp session_id status (rtsp_status_to_errno (resp_status_code resp_h))
          0 0 False 0 [] req_userdata)
          (if is_channel_pair_valid req_channels then set_channels req_channels False c else c))"

definition play_request_complete ::
  "rtsp_client_cbs \<Rightarrow> string option \<Rightarrow> rtsp_client_req_status \<Rightarrow> rtsp_response_header \<Rightarrow> nat \<Rightarrow>
   rtsp_client \<Rightarrow> rtsp_client result" where
  "play_request_complete cbs session_id status resp_h req_userdata c =
     (let errno = rtsp_status_to_errno (resp_status_code resp_h) in
      if status \<noteq> RTSP_CLIENT_REQ_STATUS_OK
      then call_app cbs (CallPlayResp session_id status errno None (Fin 0) False 0 False 0 [] req_userdata) c
      else
        let info = (case resp_rtp_info resp_h of [] \<Rightarrow> rtsp_rtp_info_header_new | i # _ \<Rightarrow> i) in
        call_app cbs (CallPlayResp session_id status errno (Some (resp_range resp_h)) (resp_scale resp_h)
          (rtpi_seq_valid info) (rtpi_seq info) (rtpi_rtptime_valid info) (rtpi_rtptime info) (resp_ext resp_h)
          req_userdata) c)"

text \<open>
  Returns whether the session has to be removed, when that is decided; a path that is neither that of
  a media nor that of the session leaves the request without completion.
\<close>

definition teardown_request_complete ::
  "rtsp_client_cbs \<Rightarrow> nat option \<Rightarrow> string option \<Rightarrow> string option \<Rightarrow> rtsp_client_req_status \<Rightarrow>
   rtsp_response_header \<Rightarrow> nat \<Rightarrow> bool \<Rightarrow> rtsp_client \<Rightarrow> (bool \<times> rtsp_client) result" where
  "teardown_request_complete cbs session session_id uri status resp_h req_userdata session_removed c =
     (let errno = rtsp_status_to_errno (resp_status_code resp_h) in
      case session of
        None \<Rightarrow>
          if cl_req_is_internal c then Inr (session_removed, c)
          else
            bindr (call_app cbs (CallTeardownResp session_id status errno (resp_ext resp_h) req_userdata) c) (\<lambda>c.
            Inr (session_removed, c\<lparr>cl_req_is_internal := False\<rparr>))
      | Some a \<Rightarrow>
          bindr (deref_session a c) (\<lambda>s.
          case rtsp_url_parse_path uri of
            Inl UB \<Rightarrow> Inl UB
          | Inl (Err _) \<Rightarrow> Inr (session_removed, c)
          | Inr path \<Rightarrow>
              (case rtsp_url_parse_path (cs_content_base s) of
                 Inl UB \<Rightarrow> Inl UB
               | Inl (Err _) \<Rightarrow> Inr (session_removed, c)
               | Inr base_path \<Rightarrow>
                   (case rtsp_client_session_media_find s path of
                      None \<Rightarrow>
                        if opt_str path \<noteq> opt_str base_path then Inr (session_removed, c)
                        else if cs_internal_teardown s then Inr (True, c)
                        else
                          bindr (call_app cbs (CallTeardownResp (Some (cs_id s)) status errno (resp_ext resp_h)
                            req_userdata) c) (\<lambda>c.
                          bindr (deref_session a c) (\<lambda>_.
                          Inr (True, (set_client_session a (\<lambda>s. s\<lparr>cs_internal_teardown := False\<rparr>) c)
                            \<lparr>cl_req_is_internal := False\<rparr>)))
                    | Some m \<Rightarrow>
                        bindr (if cs_internal_teardown s then Inr c
                               else
                                 bindr (call_app cbs (CallTeardownResp (Some (cs_id s)) status errno
                                   (resp_ext resp_h) req_userdata) c) (\<lambda>c.
                                 bindr (deref_session a c) (\<lambda>_.
                                 Inr ((set_client_session a (\<lambda>s. s\<lparr>cs_internal_teardown := False\<rparr>) c)
                                   \<lparr>cl_req_is_internal := False\<rparr>)))) (\<lambda>c.
                        bindr (deref_session a c) (\<lambda>s.
                        bindr (deref_media s (cm_addr m)) (\<lambda>m.
                        let c = drop_media a m c in
                        bindr (deref_session a c) (\<lambda>s.
                        Inr (cs_media_count s = 0, c)))))))))"

section \<open>Completion of a request\<close>

text \<open>The header that stands for a response that did not come.\<close>

definition dummy_response :: "string option \<Rightarrow> rtsp_client_req_status \<Rightarrow> rtsp_response_header" where
  "dummy_response session_id status =
     rtsp_response_header_clear
       \<lparr>resp_session_id := session_id,
        resp_status_code := (if status = RTSP_CLIENT_REQ_STATUS_TIMEOUT then 408 else 0)\<rparr>"

definition requested_channels :: "rtsp_request_header \<Rightarrow> channel_pair" where
  "requested_channels h =
     (case req_transport h of
        t # _ \<Rightarrow>
          if req_method h = RTSP_METHOD_TYPE_SETUP \<and> lower_transport t = RTSP_LOWER_TRANSPORT_TCP
          then (case interleaved t of p # _ \<Rightarrow> p | [] \<Rightarrow> (0, 0)) else (0, 0)
      | [] \<Rightarrow> (0, 0))"

definition completion_status :: "rtsp_client_req_status \<Rightarrow> int \<Rightarrow> rtsp_client_req_status" where
  "completion_status status status_code =
     (if status = RTSP_CLIENT_REQ_STATUS_OK \<and> status_code div 100 \<noteq> 2
      then RTSP_CLIENT_REQ_STATUS_FAILED else status)"

text \<open>The request is no longer pending, and the credentials follow the response.\<close>

definition close_request :: "rtsp_response_header \<Rightarrow> rtsp_client \<Rightarrow> rtsp_client" where
  "close_request resp_h c =
     (let c = put_auth (update_auth_from_server (resp_authenticate resp_h) (auth_view c)) c;
          c = c\<lparr>cl_req_header := rtsp_request_header_clear, cl_req_is_pending := False, cl_req_uri := None,
                cl_req_userdata := 0, cl_req_timer := None\<rparr> in
      put_auth (clear_cached_auth (resp_status_code resp_h) (resp_authenticate resp_h) (auth_view c)) c)"

definition keep_alive_delay :: "rtsp_response_header \<Rightarrow> 32 word" where
  "keep_alive_delay resp_h =
     (if resp_session_timeout resp_h > 0 then 800 * resp_session_timeout resp_h
      else RTSP_CLIENT_DEFAULT_RESP_TIMEOUT_MS) div 2"

text \<open>
  The session of the response: its keep-alive is over, its timer is set again, and the content base
  of a SETUP becomes that of the session.
\<close>

definition refresh_session :: "rtsp_response_header \<Rightarrow> nat \<Rightarrow> rtsp_client \<Rightarrow> rtsp_client" where
  "refresh_session resp_h a c =
     (set_client_session a
        (\<lambda>s. (reset_keep_alive_timer (sint (keep_alive_delay resp_h))
               (s\<lparr>cs_keep_alive_in_progress := False, cs_timeout_ms := keep_alive_delay resp_h\<rparr>))
             \<lparr>cs_content_base := (if cl_req_content_base c \<noteq> None \<and> cs_content_base s = None
                                  then cl_req_content_base c else cs_content_base s)\<rparr>) c)
       \<lparr>cl_req_content_base := None\<rparr>"

definition find_response_session ::
  "rtsp_method_type \<Rightarrow> string option \<Rightarrow> rtsp_response_header \<Rightarrow> rtsp_client \<Rightarrow> int \<times> nat option \<times> rtsp_client" where
  "find_response_session m session_id resp_h c =
     (if session_id = None then (0, None, c)
      else
        (case rtsp_client_get_session session_id (m = RTSP_METHOD_TYPE_SETUP) c of
           (None, c) \<Rightarrow>
             (if m \<in> {RTSP_METHOD_TYPE_OPTIONS, RTSP_METHOD_TYPE_ANNOUNCE, RTSP_METHOD_TYPE_DESCRIBE}
              then 0 else - ENOENT, None, c)
         | (Some a, c) \<Rightarrow> (0, Some a, refresh_session resp_h a c)))"

text \<open>
  A keep-alive has no callback. Without an answer it is sent again, and after the third failure the
  session is torn down: the first component.
\<close>

definition keep_alive_complete ::
  "client_env \<Rightarrow> rtsp_client_cbs \<Rightarrow> nat option \<Rightarrow> rtsp_client_req_status \<Rightarrow> rtsp_client \<Rightarrow>
   (bool \<times> rtsp_client) result" where
  "keep_alive_complete e cbs session status c =
     (case session of
        None \<Rightarrow> Inr (False, c)
      | Some a \<Rightarrow>
          bindr (deref_session a c) (\<lambda>s.
          if status = RTSP_CLIENT_REQ_STATUS_TIMEOUT then
            let failed = cs_failed_keep_alive s + 1;
                c = set_client_session a (\<lambda>s. s\<lparr>cs_failed_keep_alive := failed\<rparr>) c in
            if failed \<ge> RTSP_CLIENT_MAX_FAILED_KEEP_ALIVE
            then Inr (True, set_client_session a (reset_keep_alive_timer (- 1)) c)
            else bindr (send_keep_alive e cbs a RTSP_CLIENT_DEFAULT_RESP_TIMEOUT_MS c) (\<lambda>(_, c). Inr (False, c))
          else Inr (False, set_client_session a (\<lambda>s. s\<lparr>cs_failed_keep_alive := 0\<rparr>) c)))"

text \<open>
  The switch over the method of the request: the completion is reported to the application. The
  first component asks for an internal TEARDOWN, the second for the removal of the session.
\<close>

definition report_completion ::
  "client_env \<Rightarrow> rtsp_client_cbs \<Rightarrow> rtsp_request_header \<Rightarrow> nat \<Rightarrow> nat option \<Rightarrow> string option \<Rightarrow>
   rtsp_client_req_status \<Rightarrow> rtsp_response_header \<Rightarrow> string \<Rightarrow> rtsp_client \<Rightarrow>
   (bool \<times> bool \<times> rtsp_client) result" where
  "report_completion e cbs req userdata session session_id status resp_h body c =
     (let errno = rtsp_status_to_errno (resp_status_code resp_h);
          ext = resp_ext resp_h;
          session_removed = (resp_status_code resp_h = 454);
          finish = (\<lambda>c. Inr (False, session_removed, c)) in
      case req_method req of
        RTSP_METHOD_TYPE_OPTIONS \<Rightarrow>
          bindr (call_app cbs (CallOptionsResp status errno (resp_public_methods resp_h) ext userdata)
            (c\<lparr>cl_methods_allowed := resp_public_methods resp_h\<rparr>)) finish
      | RTSP_METHOD_TYPE_DESCRIBE \<Rightarrow>
          bindr (call_app cbs (CallDescribeResp status errno
            (case resp_content_base resp_h of
               Some b \<Rightarrow> Some b
             | None \<Rightarrow> (case resp_content_location resp_h of Some l \<Rightarrow> Some l | None \<Rightarrow> req_uri req))
            ext body userdata) c) finish
      | RTSP_METHOD_TYPE_ANNOUNCE \<Rightarrow>
          bindr (call_app cbs (CallAnnounceResp status errno ext userdata) c) finish
      | RTSP_METHOD_TYPE_SETUP \<Rightarrow>
          bindr (setup_request_complete cbs session session_id (req_uri req) (requested_channels req) status resp_h
            userdata c) finish
      | RTSP_METHOD_TYPE_PLAY \<Rightarrow>
          bindr (play_request_complete cbs session_id status resp_h userdata c) finish
      | RTSP_METHOD_TYPE_PAUSE \<Rightarrow>
          bindr (call_app cbs (CallPauseResp session_id status errno
            (if status = RTSP_CLIENT_REQ_STATUS_OK then Some (resp_range resp_h) else None) ext userdata) c) finish
      | RTSP_METHOD_TYPE_RECORD \<Rightarrow>
          bindr (call_app cbs (CallRecordResp session_id status errno ext userdata) c) finish
      | RTSP_METHOD_TYPE_TEARDOWN \<Rightarrow>
          bindr (teardown_request_complete cbs session session_id (req_uri req) status resp_h userdata
            session_removed c) (\<lambda>(session_removed, c). Inr (False, session_removed, c))
      | RTSP_METHOD_TYPE_GET_PARAMETER \<Rightarrow>
          bindr (keep_alive_complete e cbs session status c) (\<lambda>(internal_teardown, c).
          Inr (internal_teardown, session_removed, c))
      | _ \<Rightarrow> finish c)"

text \<open>
  What follows the switch: the internal TEARDOWN, the removal of the session, and the count of the
  requests that were not answered, which starts again.
\<close>

definition conclude_request ::
  "client_env \<Rightarrow> rtsp_client_cbs \<Rightarrow> rtsp_request_header \<Rightarrow> nat \<Rightarrow> nat option \<Rightarrow> string option \<Rightarrow>
   rtsp_client_req_status \<Rightarrow> rtsp_response_header \<Rightarrow> string \<Rightarrow> rtsp_client \<Rightarrow> rtsp_client result" where
  "conclude_request e cbs req userdata session session_id status resp_h sdp c =
     bindr (report_completion e cbs req userdata session session_id status resp_h sdp c)
       (\<lambda>(internal_teardown, session_removed, c).
     bindr (if internal_teardown then
              bindr (send_teardown e cbs None session_id [] 0 RTSP_CLIENT_DEFAULT_RESP_TIMEOUT_MS True c)
                (\<lambda>(err, c). Inr (session_removed \<or> err < 0, c))
            else Inr (session_removed, c)) (\<lambda>(session_removed, c).
     bindr (if session_removed then
              bindr (rtsp_client_remove_session_internal cbs session_id
                (if status = RTSP_CLIENT_REQ_STATUS_TIMEOUT then - ETIMEDOUT else resp_status_code resp_h)
                False c) (\<lambda>(_, c). Inr c)
            else Inr c) (\<lambda>c.
     Inr (if status = RTSP_CLIENT_REQ_STATUS_TIMEOUT then c else c\<lparr>cl_failed_requests := 0\<rparr>))))"

text \<open>
  A pending request is completed; the counting of timeouts is left to \<open>request_complete\<close>. The body is
  the copy of it that DESCRIBE makes: \<open>Inl UB\<close> when copying is undefined, an error when there is no memory.
\<close>

definition complete_request ::
  "client_env \<Rightarrow> rtsp_client_cbs \<Rightarrow> rtsp_response_header option \<Rightarrow> string result \<Rightarrow> rtsp_client_req_status \<Rightarrow>
   rtsp_client \<Rightarrow> client_result" where
  "complete_request e cbs resp body status0 c =
     (let req = cl_req_header c;
          resp_h = (case resp of None \<Rightarrow> dummy_response (req_session_id req) status0 | Some h \<Rightarrow> h);
          status = completion_status status0 (resp_status_code resp_h);
          session_id = (if resp_session_id resp_h \<noteq> None then resp_session_id resp_h else req_session_id req) in
      case find_response_session (req_method req) session_id resp_h (close_request resp_h c) of
        (res, session, c') \<Rightarrow>
          (case (if req_method req = RTSP_METHOD_TYPE_DESCRIBE then body else Inr []) of
             Inl UB \<Rightarrow> Inl UB
           | Inl (Err err) \<Rightarrow> Inr (err, c')
           | Inr sdp \<Rightarrow>
               bindr (conclude_request e cbs req (cl_req_userdata c) session session_id status resp_h sdp c') (\<lambda>c.
               Inr (res, c))))"

text \<open>\<open>request_complete\<close> with the status \<open>RTSP_CLIENT_REQ_STATUS_ABORTED\<close>, which no response has.\<close>

definition request_aborted :: "client_env \<Rightarrow> rtsp_client_cbs \<Rightarrow> rtsp_client \<Rightarrow> rtsp_client result" where
  "request_aborted e cbs c =
     (if \<not> cl_req_is_pending c then Inr c
      else
        bindr (complete_request e cbs None (Inr []) RTSP_CLIENT_REQ_STATUS_ABORTED c) (\<lambda>(_, c). Inr c))"

section \<open>Events of the socket\<close>

datatype tskt_client_event =
    TSKT_CLIENT_EVENT_CONNECTED
  | TSKT_CLIENT_EVENT_DISCONNECTED
  | TSKT_CLIENT_EVENT_READY_TO_SEND

definition tskt_client_event_cb ::
  "client_env \<Rightarrow> rtsp_client_cbs \<Rightarrow> tskt_client_event \<Rightarrow> rtsp_client \<Rightarrow> rtsp_client result" where
  "tskt_client_event_cb e cbs event c =
     (case event of
        TSKT_CLIENT_EVENT_CONNECTED \<Rightarrow>
          bindr (set_connection_state cbs RTSP_CLIENT_CONN_STATE_CONNECTED (c\<lparr>cl_sock := True\<rparr>)) (\<lambda>c.
          walk client_session_live
            (\<lambda>s c. bindr (send_keep_alive e cbs (cs_addr s) RTSP_CLIENT_DEFAULT_RESP_TIMEOUT_MS c) (\<lambda>(_, c). Inr c))
            (cl_sessions c) c)
      | TSKT_CLIENT_EVENT_DISCONNECTED \<Rightarrow>
          let c = c\<lparr>cl_sock := False\<rparr> in
          if cl_conn_state c = RTSP_CLIENT_CONN_STATE_DISCONNECTING then
            bindr (request_aborted e cbs (clear_remote_info c)) (\<lambda>c.
            set_connection_state cbs RTSP_CLIENT_CONN_STATE_DISCONNECTED c)
          else if cl_conn_state c = RTSP_CLIENT_CONN_STATE_CONNECTED then
            bindr (request_aborted e cbs c) (\<lambda>c.
            set_connection_state cbs RTSP_CLIENT_CONN_STATE_CONNECTING c)
          else Inr c
      | TSKT_CLIENT_EVENT_READY_TO_SEND \<Rightarrow>
          if ccbs_has cbs ReadyToSendCb then call_app cbs CallReadyToSend c else Inr c)"

text \<open>
  \<open>tskt_client_stop\<close> closes the connection and reports it to the callback before it returns, when
  there is one: the comments in \<open>rtsp_client_destroy\<close> and \<open>rtsp_client_disconnect\<close> rely on it.
\<close>

definition stop_socket :: "client_env \<Rightarrow> rtsp_client_cbs \<Rightarrow> rtsp_client \<Rightarrow> client_result" where
  "stop_socket e cbs c =
     bindr (let c = c\<lparr>cl_output := cl_output c @ [Stop]\<rparr> in
            if cl_sock c then tskt_client_event_cb e cbs TSKT_CLIENT_EVENT_DISCONNECTED c else Inr c) (\<lambda>c.
     Inr (cenv_stop e, c))"

definition connect_socket :: "client_env \<Rightarrow> rtsp_client \<Rightarrow> client_result" where
  "connect_socket e c =
     (case cl_url c of
        None \<Rightarrow> Inr (cenv_connect e None 0, c\<lparr>cl_output := cl_output c @ [Connect None 0]\<rparr>)
      | Some u \<Rightarrow>
          Inr (cenv_connect e (url_resolved_host u) (url_port u),
               c\<lparr>cl_output := cl_output c @ [Connect (url_resolved_host u) (url_port u)]\<rparr>))"

section \<open>Responses and timeouts\<close>

text \<open>After five requests in a row without an answer the client connects again.\<close>

definition count_failed_request ::
  "client_env \<Rightarrow> rtsp_client_cbs \<Rightarrow> rtsp_client \<Rightarrow> rtsp_client result" where
  "count_failed_request e cbs c =
     (let c = c\<lparr>cl_failed_requests := cl_failed_requests c + 1\<rparr> in
      if cl_failed_requests c \<ge> RTSP_CLIENT_MAX_FAILED_REQUESTS then
        bindr (stop_socket e cbs c) (\<lambda>(_, c).
        bindr (set_connection_state cbs RTSP_CLIENT_CONN_STATE_CONNECTING c) (\<lambda>c.
        bindr (connect_socket e c) (\<lambda>(_, c). Inr c)))
      else Inr c)"

definition request_complete ::
  "client_env \<Rightarrow> rtsp_client_cbs \<Rightarrow> rtsp_response_header option \<Rightarrow> string result \<Rightarrow> rtsp_client_req_status \<Rightarrow>
   rtsp_client \<Rightarrow> client_result" where
  "request_complete e cbs resp body status c =
     (if \<not> cl_req_is_pending c then Inr (0, c)
      else
        bindr (complete_request e cbs resp body status c) (\<lambda>(res, c).
        if status = RTSP_CLIENT_REQ_STATUS_TIMEOUT
        then bindr (count_failed_request e cbs c) (\<lambda>c. Inr (res, c))
        else Inr (res, c)))"

lemma request_complete_aborted:
  "bindr (request_complete e cbs None (Inr []) RTSP_CLIENT_REQ_STATUS_ABORTED c) (\<lambda>(_, c). Inr c) =
   request_aborted e cbs c"
  by (simp add: request_complete_def request_aborted_def bindr_assoc case_prod_beta')

definition rtsp_client_resp_timeout_cb ::
  "client_env \<Rightarrow> rtsp_client_cbs \<Rightarrow> rtsp_client \<Rightarrow> rtsp_client result" where
  "rtsp_client_resp_timeout_cb e cbs c =
     bindr (request_complete e cbs None (Inr []) RTSP_CLIENT_REQ_STATUS_TIMEOUT (c\<lparr>cl_req_timer := None\<rparr>)) (\<lambda>(_, c).
     Inr c)"

text \<open>
  A response with another CSeq is taken for the answer to a keep-alive when one is in progress.
\<close>

definition rtsp_client_response_process ::
  "client_env \<Rightarrow> rtsp_client_cbs \<Rightarrow> rtsp_response_header \<Rightarrow> string result \<Rightarrow> rtsp_client \<Rightarrow> client_result" where
  "rtsp_client_response_process e cbs resp_h body c =
     (if resp_cseq resp_h \<noteq> req_cseq (cl_req_header c) then
        (case find cs_keep_alive_in_progress (cl_sessions c) of
           None \<Rightarrow> Inr (- EPROTO, c)
         | Some s \<Rightarrow>
             Inr (0, set_client_session (cs_addr s)
               (\<lambda>s. reset_keep_alive_timer (sint (cs_timeout_ms s div 2))
                      (s\<lparr>cs_keep_alive_in_progress := False\<rparr>)) c))
      else request_complete e cbs (Some resp_h) body RTSP_CLIENT_REQ_STATUS_OK c)"

section \<open>Requests of the server\<close>

text \<open>The first component is the return value, the second the status to answer with.\<close>

definition teardown_request_process ::
  "rtsp_client_cbs \<Rightarrow> rtsp_request_header \<Rightarrow> rtsp_client \<Rightarrow> client_result" where
  "teardown_request_process cbs req c =
     (case fst (rtsp_client_get_session (req_session_id req) False c) of
        None \<Rightarrow> Inr (- ENOENT, c)
      | Some a \<Rightarrow>
          bindr (deref_session a c) (\<lambda>s.
          case rtsp_url_parse_path (req_uri req) of
            Inl UB \<Rightarrow> Inl UB
          | Inl (Err ret) \<Rightarrow> Inr (ret, c)
          | Inr None \<Rightarrow> Inr (- EINVAL, c)
          | Inr (Some path) \<Rightarrow>
              if cs_content_base s = None then Inl UB
              else
                let media = (if req_uri req \<noteq> cs_content_base s
                             then rtsp_client_session_media_find s (Some path) else None);
                    sid = the (req_session_id req) in
                if \<not> ccbs_has cbs ServerTeardownCb then Inl UB
                else
                  bindr (call_app cbs (CallServerTeardown (Some path) sid (req_ext req)) c) (\<lambda>c.
                  bindr (case media of
                           None \<Rightarrow> Inr (True, c)
                         | Some m \<Rightarrow>
                             bindr (deref_session a c) (\<lambda>s.
                             bindr (deref_media s (cm_addr m)) (\<lambda>m.
                             let c = drop_media a m c in
                             bindr (deref_session a c) (\<lambda>s.
                             Inr (cs_media_count s = 0, c))))) (\<lambda>(session_removed, c).
                  bindr (if session_removed
                         then bindr (rtsp_client_remove_session_internal cbs (Some sid) 200 False c) (\<lambda>(_, c). Inr c)
                         else Inr c) (\<lambda>c.
                  Inr (0, c))))))"

definition client_response :: "client_env \<Rightarrow> rtsp_request_header \<Rightarrow> int \<Rightarrow> rtsp_response_header" where
  "client_response e req status =
     rtsp_response_header_clear
       \<lparr>resp_cseq := req_cseq req, resp_status_code := status,
        resp_status_string := Some (rtsp_status_str status), resp_date := cenv_now e\<rparr>"

definition answer_server ::
  "client_env \<Rightarrow> rtsp_request_header \<Rightarrow> int \<Rightarrow> rtsp_client \<Rightarrow> client_result" where
  "answer_server e req status c =
     (case rtsp_response_header_write (cenv_format e) (client_response e req status)
             \<lparr>rs_str = [], rs_max_len = request_capacity\<rparr> of
        Inl UB \<Rightarrow> Inl UB
      | Inl (Err ret) \<Rightarrow> Inr (ret, c)
      | Inr s \<Rightarrow> Inr (0, snd (send_raw_buf e (rs_str s) c)))"

definition rtsp_client_request_process ::
  "client_env \<Rightarrow> rtsp_client_cbs \<Rightarrow> rtsp_request_header \<Rightarrow> string result \<Rightarrow> rtsp_client \<Rightarrow> client_result" where
  "rtsp_client_request_process e cbs req body c =
     (case req_method req of
        RTSP_METHOD_TYPE_ANNOUNCE \<Rightarrow>
          (case body of
             Inl UB \<Rightarrow> Inl UB
           | Inl (Err err) \<Rightarrow> Inr (err, c)
           | Inr sdp \<Rightarrow>
               bindr (client_uri_to_content_base (req_uri req) c) (\<lambda>content_base.
               bindr (call_app cbs (CallServerAnnounce content_base (req_ext req) sdp) c) (\<lambda>c.
               answer_server e req 200 c)))
      | RTSP_METHOD_TYPE_GET_PARAMETER \<Rightarrow> answer_server e req (if body = Inr [] then 200 else 501) c
      | RTSP_METHOD_TYPE_TEARDOWN \<Rightarrow>
          and_then (teardown_request_process cbs req c) (answer_server e req 200)
      | _ \<Rightarrow>
          bindr (answer_server e req 501 c) (\<lambda>(ret, c). Inr (if ret = 0 then - ENOSYS else ret, c)))"

section \<open>Receiving\<close>

definition rtsp_client_interleaved_process ::
  "rtsp_client_cbs \<Rightarrow> rtsp_interleaved_info \<Rightarrow> rtsp_client \<Rightarrow> client_result" where
  "rtsp_client_interleaved_process cbs info c =
     (if ccbs_has cbs InterleavedDataCb
      then bindr (call_app cbs (CallInterleaved (ilv_channel info) (ilv_data info) (ilv_len info)) c) (\<lambda>c.
           Inr (0, c))
      else Inr (0, c))"

text \<open>
  The body of a message as its handlers copy it. The length of the body may exceed what the buffer holds
  (\<open>negative_length_blocks\<close>): the copy then reads past the buffer, unless the memory for it, one byte
  more than the length, cannot be had; adding that byte may wrap around to nothing.
\<close>

abbreviation ENOMEM :: int where "ENOMEM \<equiv> 12"

definition message_body :: "rtsp_message \<Rightarrow> string result" where
  "message_body msg =
     (let n = msg_body_len msg; body = opt_str (msg_body msg) in
      if unat n \<le> length body then Inr (take (unat n) body)
      else if n + 1 = 0 \<or> unat n < 2 ^ 63 then Inl UB else Inl (Err (- ENOMEM)))"

definition client_message ::
  "client_env \<Rightarrow> rtsp_client_cbs \<Rightarrow> rtsp_message \<Rightarrow> rtsp_client \<Rightarrow> rtsp_client result" where
  "client_message e cbs msg c =
     bindr
       (if msg_type msg = RTSP_MESSAGE_TYPE_INTERLEAVED
        then rtsp_client_interleaved_process cbs (msg_interleaved msg) c
        else
          (case msg_header msg of
             ReqHeader h \<Rightarrow> rtsp_client_request_process e cbs h (message_body msg) c
           | RespHeader h \<Rightarrow> rtsp_client_response_process e cbs h (message_body msg) c
           | NoHeader \<Rightarrow> Inl UB))
       (\<lambda>(_, c). Inr c)"

text \<open>
  A reception: the data is appended to the response buffer and the complete messages are processed
  one after the other. The buffer and the parser context are not touched by anything else.
\<close>

definition tskt_client_data_cb ::
  "time_parser \<Rightarrow> client_env \<Rightarrow> rtsp_client_cbs \<Rightarrow> string \<Rightarrow> rtsp_client \<times> string \<times> rtsp_message_parser_ctx \<Rightarrow>
   (rtsp_client \<times> string \<times> rtsp_message_parser_ctx) result" where
  "tskt_client_data_cb time_parse e cbs data st =
     (case st of
        (c, buf) \<Rightarrow>
          bindr (receive time_parse data buf) (\<lambda>(msgs, _, buf).
          bindr (call_each (client_message e cbs) msgs c) (\<lambda>c.
          Inr (c, buf))))"

section \<open>Connecting and disconnecting\<close>

definition rtsp_client_disconnect :: "client_env \<Rightarrow> rtsp_client_cbs \<Rightarrow> rtsp_client \<Rightarrow> client_result" where
  "rtsp_client_disconnect e cbs c =
     (case cl_conn_state c of
        RTSP_CLIENT_CONN_STATE_DISCONNECTED \<Rightarrow> Inr (- EPROTO, c)
      | RTSP_CLIENT_CONN_STATE_DISCONNECTING \<Rightarrow> Inr (0, c)
      | state \<Rightarrow>
          let already_disconnected = (state = RTSP_CLIENT_CONN_STATE_CONNECTING) in
          bindr (set_connection_state cbs RTSP_CLIENT_CONN_STATE_DISCONNECTING c) (\<lambda>c.
          and_then (stop_socket e cbs c) (\<lambda>c.
          bindr (if already_disconnected
                 then bindr (request_aborted e cbs (clear_remote_info c))
                        (set_connection_state cbs RTSP_CLIENT_CONN_STATE_DISCONNECTED)
                 else Inr c) (\<lambda>c.
          bindr (rtsp_client_remove_all_sessions cbs c) (\<lambda>c.
          Inr (0, c))))))"

definition resolv_timer_cb :: "client_env \<Rightarrow> rtsp_client_cbs \<Rightarrow> rtsp_client \<Rightarrow> rtsp_client result" where
  "resolv_timer_cb e cbs c =
     bindr (rtsp_client_disconnect e cbs
       (c\<lparr>cl_resolv_timer := None, cl_output := cl_output c @ [ResolveCancel (cl_resolv_id c)]\<rparr>)) (\<lambda>(_, c). Inr c)"

text \<open>The answer of the resolver; \<open>None\<close> for any result but \<open>TSKT_RESOLV_ERROR_OK\<close>.\<close>

definition tskt_resolv_cb ::
  "client_env \<Rightarrow> rtsp_client_cbs \<Rightarrow> string option \<Rightarrow> rtsp_client \<Rightarrow> rtsp_client result" where
  "tskt_resolv_cb e cbs addr c =
     (let c = c\<lparr>cl_resolv_timer := None\<rparr>;
          fails = set_connection_state cbs RTSP_CLIENT_CONN_STATE_DISCONNECTED in
      case addr of
        None \<Rightarrow> fails c
      | Some a \<Rightarrow>
          (case cl_url c of
             None \<Rightarrow> fails c
           | Some u \<Rightarrow>
               bindr (rtsp_url_set_resolved_host (Some u) (Some a)) (\<lambda>u.
               bindr (connect_socket e (c\<lparr>cl_url := Some u\<rparr>)) (\<lambda>(res, c).
               if res < 0 then fails c else Inr c))))"

text \<open>
  The host of the new URL is used after the application has been told of the state: the URL must not
  have been freed by then.
\<close>

definition start_resolution ::
  "client_env \<Rightarrow> nat \<Rightarrow> string option \<Rightarrow> rtsp_client \<Rightarrow> client_result" where
  "start_resolution e url_addr host c =
     (let c = c\<lparr>cl_resolv_timer := Some RTSP_CLIENT_RESOLV_TIMEOUT_MS\<rparr> in
      if cl_url c = None \<or> cl_url_addr c \<noteq> url_addr then Inl UB
      else if cenv_resolve e host < 0 then Inr (cenv_resolve e host, c)
      else Inr (0, c\<lparr>cl_resolv_id := cl_resolv_id c + 1,
                     cl_output := cl_output c @ [Resolve (cl_resolv_id c + 1) host]\<rparr>))"

definition setup_tls :: "client_env \<Rightarrow> rtsp_client \<Rightarrow> client_result" where
  "setup_tls e c =
     (if (case cl_url c of None \<Rightarrow> True | Some u \<Rightarrow> url_scheme u \<noteq> RTSP_URL_SCHEME_TCP_TLS) then Inr (0, c)
      else if \<not> cl_ttls_init c \<and> cenv_ttls_init e < 0 then Inr (cenv_ttls_init e, c)
      else
        let c = c\<lparr>cl_ttls_init := True\<rparr> in
        if \<not> cl_ssl_ctx c \<and> \<not> cenv_ssl_ctx e then Inr (- EPROTO, c) else Inr (0, c\<lparr>cl_ssl_ctx := True\<rparr>))"

definition rtsp_client_connect ::
  "client_env \<Rightarrow> rtsp_client_cbs \<Rightarrow> string option \<Rightarrow> rtsp_client \<Rightarrow> client_result" where
  "rtsp_client_connect e cbs addr c =
     (if addr = None then Inr (- EINVAL, c)
      else if cl_conn_state c \<noteq> RTSP_CLIENT_CONN_STATE_DISCONNECTED then Inr (- EBUSY, c)
      else
        let c = clear_remote_info c;
            fails = (\<lambda>(res, c).
              bindr (set_connection_state cbs RTSP_CLIENT_CONN_STATE_DISCONNECTED c) (\<lambda>c.
              Inr (res, clear_remote_info c))) in
        case rtsp_url_parse (cenv_is_ip e) addr of
          Inl UB \<Rightarrow> Inl UB
        | Inl (Err res) \<Rightarrow> fails (res, c)
        | Inr url \<Rightarrow>
            let a = cl_url_addr c + 1;
                c = c\<lparr>cl_url := Some url, cl_url_addr := a,
                      cl_url_str := (case rtsp_url_strip_credentials (cenv_is_ip e) addr of
                                       Inl _ \<Rightarrow> None | Inr s \<Rightarrow> Some s)\<rparr> in
            bindr (set_connection_state cbs RTSP_CLIENT_CONN_STATE_CONNECTING c) (\<lambda>c.
            bindr (and_then (setup_tls e c) (start_resolution e a (url_host url))) (\<lambda>(res, c).
            if res < 0 then fails (res, c) else Inr (0, c))))"

section \<open>Other functions of the API\<close>

definition rtsp_client_get_remote_url :: "rtsp_client \<Rightarrow> rtsp_url_rec option" where
  "rtsp_client_get_remote_url c = cl_url c"

definition rtsp_client_remove_session ::
  "rtsp_client_cbs \<Rightarrow> string option \<Rightarrow> rtsp_client \<Rightarrow> client_result" where
  "rtsp_client_remove_session cbs session_id c = rtsp_client_remove_session_internal cbs session_id 408 False c"

definition rtsp_client_cancel :: "client_env \<Rightarrow> rtsp_client_cbs \<Rightarrow> rtsp_client \<Rightarrow> client_result" where
  "rtsp_client_cancel e cbs c = request_complete e cbs None (Inr []) RTSP_CLIENT_REQ_STATUS_CANCELED c"

definition RTSP_CLIENT_DEFAULT_SOFTWARE_NAME :: string where
  "RTSP_CLIENT_DEFAULT_SOFTWARE_NAME = ''librtsp_client''"

definition rtsp_client_new :: "string option \<Rightarrow> rtsp_client_cbs \<Rightarrow> rtsp_client result" where
  "rtsp_client_new software_name cbs =
     (if \<not> ccbs_has cbs ConnectionStateCb \<or> \<not> ccbs_has cbs SessionRemovedCb \<or> \<not> ccbs_has cbs ServerAnnounceCb
      then Inl (Err (- EINVAL))
      else Inr
        \<lparr>cl_sock = False,
         cl_software_name = (case software_name of None \<Rightarrow> RTSP_CLIENT_DEFAULT_SOFTWARE_NAME | Some s \<Rightarrow> s),
         cl_auth = None, cl_server_auth = None, cl_channel_used = replicate 256 False, cl_url = None,
         cl_url_addr = 0, cl_url_str = None, cl_resolv_id = 0, cl_resolv_timer = None, cl_ttls_init = False,
         cl_ssl_ctx = False, cl_conn_state = RTSP_CLIENT_CONN_STATE_DISCONNECTED, cl_cseq = 1,
         cl_methods_allowed = 0, cl_sessions = [], cl_failed_requests = 0,
         cl_req_header = rtsp_request_header_clear, cl_req_is_pending = False, cl_req_is_internal = False,
         cl_req_uri = None, cl_req_content_base = None, cl_req_userdata = 0, cl_req_timer = None,
         cl_next_addr = 0, cl_output = []\<rparr>)"

text \<open>The state when the memory is freed: the callbacks that remain have been called.\<close>

definition rtsp_client_destroy :: "client_env \<Rightarrow> rtsp_client_cbs \<Rightarrow> rtsp_client \<Rightarrow> rtsp_client result" where
  "rtsp_client_destroy e cbs c =
     bindr (stop_socket e cbs (c\<lparr>cl_req_timer := None\<rparr>)) (\<lambda>(_, c).
     bindr (rtsp_client_remove_all_sessions cbs c) (\<lambda>c.
     Inr (c\<lparr>cl_resolv_timer := None\<rparr>)))"

end
