(* ===== verification/RtspClientFrame.thy ===== *)
theory RtspClientFrame
  imports RtspClient
begin

text \<open>
  How the functions of the client are composed of a few changes of its state. The requests that the
  application makes are quiet: they leave alone what the view of the client shows. Whatever the other
  changes keep, every completion, message and event keeps, as does an application that uses the
  client from its callbacks.
\<close>

section \<open>Applications\<close>

text \<open>
  An application is a function from the call it gets and the state of the client to the functions of
  the client it uses before it returns; these may call it again, to the depth \<open>n\<close>.
\<close>

datatype client_api =
    ApiConnect "string option"
  | ApiDisconnect
  | ApiOptions header_ext nat "32 word"
  | ApiDescribe "string option" header_ext nat "32 word"
  | ApiAnnounce "string option" "string option" header_ext nat "32 word"
  | ApiSetup "string option" "string option" "string option" rtsp_delivery rtsp_lower_transport
      "16 word" "16 word" rtsp_transport_method header_ext nat "32 word"
  | ApiPlay "string option" "rtsp_range option" c_float header_ext nat "32 word"
  | ApiPause "string option" "rtsp_range option" header_ext nat "32 word"
  | ApiRecord "string option" "rtsp_range option" header_ext nat "32 word"
  | ApiTeardown "string option" "string option" header_ext nat "32 word"
  | ApiSendInterleaved "8 word" "string option" nat
  | ApiRemoveSession "string option"
  | ApiCancel

fun client_api_step :: "client_env \<Rightarrow> rtsp_client_cbs \<Rightarrow> client_api \<Rightarrow> rtsp_client \<Rightarrow> client_result" where
  "client_api_step e cbs (ApiConnect addr) = rtsp_client_connect e cbs addr"
| "client_api_step e cbs ApiDisconnect = rtsp_client_disconnect e cbs"
| "client_api_step e cbs (ApiOptions ext u t) = rtsp_client_options e cbs ext u t"
| "client_api_step e cbs (ApiDescribe path ext u t) = rtsp_client_describe e cbs path ext u t"
| "client_api_step e cbs (ApiAnnounce path sdp ext u t) = rtsp_client_announce e cbs path sdp ext u t"
| "client_api_step e cbs (ApiSetup base url sid dlv lower p1 p2 meth ext u t) =
     rtsp_client_setup e cbs base url sid dlv lower p1 p2 meth ext u t"
| "client_api_step e cbs (ApiPlay sid rng scale ext u t) = rtsp_client_play e cbs sid rng scale ext u t"
| "client_api_step e cbs (ApiPause sid rng ext u t) = rtsp_client_pause e cbs sid rng ext u t"
| "client_api_step e cbs (ApiRecord sid rng ext u t) = rtsp_client_record e cbs sid rng ext u t"
| "client_api_step e cbs (ApiTeardown url sid ext u t) = rtsp_client_teardown e cbs url sid ext u t"
| "client_api_step e cbs (ApiSendInterleaved ch data n) = rtsp_client_send_interleaved e ch data n"
| "client_api_step e cbs (ApiRemoveSession sid) = rtsp_client_remove_session cbs sid"
| "client_api_step e cbs ApiCancel = rtsp_client_cancel e cbs"

record client_application =
  capp_calls :: "client_call \<Rightarrow> rtsp_client \<Rightarrow> client_api list"
  capp_has :: "client_callback \<Rightarrow> bool"

definition run_client_api :: "client_env \<Rightarrow> rtsp_client_cbs \<Rightarrow> client_api list \<Rightarrow> rtsp_client \<Rightarrow> rtsp_client result" where
  "run_client_api e cbs = call_each (\<lambda>a c. bindr (client_api_step e cbs a c) (\<lambda>(_, c). Inr c))"

fun client_app_cbs :: "nat \<Rightarrow> client_env \<Rightarrow> client_application \<Rightarrow> rtsp_client_cbs" where
  "client_app_cbs 0 e app = \<lparr>ccbs_call = (\<lambda>k c. Inr c), ccbs_has = capp_has app\<rparr>"
| "client_app_cbs (Suc n) e app =
     \<lparr>ccbs_call = (\<lambda>k c. run_client_api e (client_app_cbs n e app) (capp_calls app k c) c),
      ccbs_has = capp_has app\<rparr>"

section \<open>The view of the client\<close>

definition reported_states :: "rtsp_client \<Rightarrow> rtsp_client_conn_state list" where
  "reported_states c =
     concat (map (\<lambda>x. case x of Called (CallConnectionState s) \<Rightarrow> [s] | _ \<Rightarrow> []) (cl_output c))"

definition client_session_shape :: "client_session \<Rightarrow> nat \<times> string \<times> nat \<times> (nat \<times> string) list" where
  "client_session_shape s = (cs_addr s, take RTSP_CLIENT_SESSION_ID_LENGTH (cs_id s), cs_media_count s,
                             map (\<lambda>m. (cm_addr m, cm_path m)) (cs_medias s))"

definition client_view where
  "client_view c = (cl_conn_state c, reported_states c, map client_session_shape (cl_sessions c),
                    cl_next_addr c, length (cl_channel_used c))"

lemma reported_states_simps [simp]:
  "reported_states (c\<lparr>cl_sock := b\<rparr>) = reported_states c"
  "reported_states (c\<lparr>cl_auth := a\<rparr>) = reported_states c"
  "reported_states (c\<lparr>cl_server_auth := a\<rparr>) = reported_states c"
  "reported_states (c\<lparr>cl_channel_used := u\<rparr>) = reported_states c"
  "reported_states (c\<lparr>cl_url := url\<rparr>) = reported_states c"
  "reported_states (c\<lparr>cl_url_addr := n\<rparr>) = reported_states c"
  "reported_states (c\<lparr>cl_url_str := s\<rparr>) = reported_states c"
  "reported_states (c\<lparr>cl_resolv_id := n\<rparr>) = reported_states c"
  "reported_states (c\<lparr>cl_resolv_timer := t\<rparr>) = reported_states c"
  "reported_states (c\<lparr>cl_ttls_init := b\<rparr>) = reported_states c"
  "reported_states (c\<lparr>cl_ssl_ctx := b\<rparr>) = reported_states c"
  "reported_states (c\<lparr>cl_conn_state := st\<rparr>) = reported_states c"
  "reported_states (c\<lparr>cl_cseq := w\<rparr>) = reported_states c"
  "reported_states (c\<lparr>cl_methods_allowed := w\<rparr>) = reported_states c"
  "reported_states (c\<lparr>cl_sessions := ss\<rparr>) = reported_states c"
  "reported_states (c\<lparr>cl_failed_requests := w\<rparr>) = reported_states c"
  "reported_states (c\<lparr>cl_req_header := h\<rparr>) = reported_states c"
  "reported_states (c\<lparr>cl_req_is_pending := b\<rparr>) = reported_states c"
  "reported_states (c\<lparr>cl_req_is_internal := b\<rparr>) = reported_states c"
  "reported_states (c\<lparr>cl_req_uri := s\<rparr>) = reported_states c"
  "reported_states (c\<lparr>cl_req_content_base := s\<rparr>) = reported_states c"
  "reported_states (c\<lparr>cl_req_userdata := n\<rparr>) = reported_states c"
  "reported_states (c\<lparr>cl_req_timer := t\<rparr>) = reported_states c"
  "reported_states (c\<lparr>cl_next_addr := n\<rparr>) = reported_states c"
  "reported_states (c\<lparr>cl_output := out @ xs\<rparr>) =
     reported_states (c\<lparr>cl_output := out\<rparr>) @ reported_states (c\<lparr>cl_output := xs\<rparr>)"
  by (simp_all add: reported_states_def)

lemma reported_states_output [simp]:
  "reported_states (c\<lparr>cl_output := []\<rparr>) = []"
  "reported_states (c\<lparr>cl_output := cl_output c\<rparr>) = reported_states c"
  "reported_states (c\<lparr>cl_output := Sent s # xs\<rparr>) = reported_states (c\<lparr>cl_output := xs\<rparr>)"
  "reported_states (c\<lparr>cl_output := Resolve n r # xs\<rparr>) = reported_states (c\<lparr>cl_output := xs\<rparr>)"
  "reported_states (c\<lparr>cl_output := ResolveCancel n # xs\<rparr>) = reported_states (c\<lparr>cl_output := xs\<rparr>)"
  "reported_states (c\<lparr>cl_output := Connect r p # xs\<rparr>) = reported_states (c\<lparr>cl_output := xs\<rparr>)"
  "reported_states (c\<lparr>cl_output := Stop # xs\<rparr>) = reported_states (c\<lparr>cl_output := xs\<rparr>)"
  "reported_states (c\<lparr>cl_output := [Called (CallConnectionState st)]\<rparr>) = [st]"
  by (simp_all add: reported_states_def)

lemma reported_states_called:
  "(\<And>st. k \<noteq> CallConnectionState st) \<Longrightarrow> reported_states (c\<lparr>cl_output := [Called k]\<rparr>) = []"
  by (cases k) (auto simp: reported_states_def)

lemma length_set_channel_pair_used [simp]: "length (set_channel_pair_used p b u) = length u"
  by (simp add: set_channel_pair_used_def)

lemma view_set_session:
  assumes "\<And>s. client_session_shape (f s) = client_session_shape s"
  shows "client_view (set_client_session a f c) = client_view c"
  using map_update_where [of client_session_shape f, OF assms] by (simp add: client_view_def set_client_session_def)

lemma client_session_shape_simps [simp]:
  "client_session_shape (s\<lparr>cs_timer := t\<rparr>) = client_session_shape s"
  "client_session_shape (s\<lparr>cs_content_base := b\<rparr>) = client_session_shape s"
  "client_session_shape (s\<lparr>cs_timeout_ms := w\<rparr>) = client_session_shape s"
  "client_session_shape (s\<lparr>cs_failed_keep_alive := w\<rparr>) = client_session_shape s"
  "client_session_shape (s\<lparr>cs_keep_alive_in_progress := k\<rparr>) = client_session_shape s"
  "client_session_shape (s\<lparr>cs_internal_teardown := k\<rparr>) = client_session_shape s"
  "client_session_shape (reset_keep_alive_timer msec s) = client_session_shape s"
  by (simp_all add: client_session_shape_def reset_keep_alive_timer_def)

lemma client_view_simps [simp]:
  "client_view (c\<lparr>cl_sock := b\<rparr>) = client_view c"
  "client_view (c\<lparr>cl_auth := a\<rparr>) = client_view c"
  "client_view (c\<lparr>cl_server_auth := a\<rparr>) = client_view c"
  "client_view (c\<lparr>cl_url := url\<rparr>) = client_view c"
  "client_view (c\<lparr>cl_url_addr := n\<rparr>) = client_view c"
  "client_view (c\<lparr>cl_url_str := s\<rparr>) = client_view c"
  "client_view (c\<lparr>cl_resolv_id := n\<rparr>) = client_view c"
  "client_view (c\<lparr>cl_resolv_timer := t\<rparr>) = client_view c"
  "client_view (c\<lparr>cl_ttls_init := b\<rparr>) = client_view c"
  "client_view (c\<lparr>cl_ssl_ctx := b\<rparr>) = client_view c"
  "client_view (c\<lparr>cl_cseq := w\<rparr>) = client_view c"
  "client_view (c\<lparr>cl_methods_allowed := w\<rparr>) = client_view c"
  "client_view (c\<lparr>cl_failed_requests := w\<rparr>) = client_view c"
  "client_view (c\<lparr>cl_req_header := h\<rparr>) = client_view c"
  "client_view (c\<lparr>cl_req_is_pending := b\<rparr>) = client_view c"
  "client_view (c\<lparr>cl_req_is_internal := b\<rparr>) = client_view c"
  "client_view (c\<lparr>cl_req_uri := s\<rparr>) = client_view c"
  "client_view (c\<lparr>cl_req_content_base := s\<rparr>) = client_view c"
  "client_view (c\<lparr>cl_req_userdata := n\<rparr>) = client_view c"
  "client_view (c\<lparr>cl_req_timer := t\<rparr>) = client_view c"
  "client_view (set_channels p u c) = client_view c"
  "client_view (c\<lparr>cl_output := cl_output c @ [Sent buf]\<rparr>) = client_view c"
  "client_view (c\<lparr>cl_output := cl_output c @ [Resolve n r]\<rparr>) = client_view c"
  "client_view (c\<lparr>cl_resolv_timer := t, cl_output := cl_output c @ [ResolveCancel n]\<rparr>) = client_view c"
  "client_view (c\<lparr>cl_output := cl_output c @ [Connect r port]\<rparr>) = client_view c"
  "client_view (c\<lparr>cl_output := cl_output c @ [Stop]\<rparr>) = client_view c"
  by (simp_all add: client_view_def)

section \<open>Requests are quiet\<close>

lemma view_update_interleaved [simp]: "client_view (update_interleaved_channels p p' c) = client_view c"
  by (simp add: update_interleaved_channels_def client_view_def)

lemma view_called:
  "(\<And>st. k \<noteq> CallConnectionState st) \<Longrightarrow> client_view (c\<lparr>cl_output := cl_output c @ [Called k]\<rparr>) = client_view c"
  by (simp add: client_view_def reported_states_called)

lemma view_header_steps [simp]:
  "client_view (new_header m u c) = client_view c"
  "client_view (address_header uri c) = client_view c"
  "client_view (finish_header fill ext c) = client_view c"
  "client_view (put_auth a c) = client_view c"
  "client_view (snd (send_raw_buf e buf c)) = client_view c"
  "client_view (clear_remote_info c) = client_view c"
  by (simp_all add: new_header_def address_header_def finish_header_def put_auth_def send_raw_buf_def
      clear_remote_info_def)

text \<open>\<open>quiet v\<close>: a function that leaves the client with the view \<open>v\<close> it had.\<close>

abbreviation "quiet v \<equiv> ensures (\<lambda>(_ :: int, c). client_view c = v)"

lemma quiet_and_then:
  "quiet v r \<Longrightarrow> (\<And>c. client_view c = v \<Longrightarrow> quiet v (f c)) \<Longrightarrow> quiet v (and_then r f)"
  unfolding and_then_def by (auto intro!: ensures_bind)

lemma ensures_if: "ensures P x \<Longrightarrow> ensures P y \<Longrightarrow> ensures P (if b then x else y)"
  by simp

lemma quiet_send_request: "client_view c = v \<Longrightarrow> quiet v (client_send_request e content t c)"
  by (simp add: client_send_request_def send_raw_buf_def split: sum.split failure.split)

lemma quiet_send_pending: "client_view c = v \<Longrightarrow> quiet v (send_pending e content t c)"
  unfolding send_pending_def by (auto intro!: quiet_and_then quiet_send_request)

lemma quiet_add_authorization: "client_view c = v \<Longrightarrow> quiet v (add_authorization e c)"
  by (simp add: add_authorization_def split: sum.split failure.split)

lemma quiet_try_authorization: "client_view c = v \<Longrightarrow> quiet v (try_authorization e c)"
  unfolding try_authorization_def by (auto intro!: ensures_bind [OF quiet_add_authorization])

lemma quiet_begin_request: "client_view c = v \<Longrightarrow> quiet v (begin_request c)"
  by (simp add: begin_request_def clear_pending_keep_alive_timer_def)

lemma quiet_allocate:
  "client_view c = v \<Longrightarrow> ensures (\<lambda>(res, pair, c). client_view c = v) (allocate_interleaved_channels pair c)"
  by (simp add: allocate_interleaved_channels_def Let_def split: option.split)

lemma quiet_transport: "client_view c = v \<Longrightarrow> quiet v (setup_request_transport dlv lower p1 p2 meth c)"
  unfolding setup_request_transport_def Let_def
  by (auto intro!: ensures_bind [OF quiet_allocate])

lemmas quiet_intros = quiet_and_then quiet_send_request quiet_send_pending quiet_add_authorization
  quiet_try_authorization quiet_begin_request quiet_transport ensures_any [where r = "make_uri path c" for path c]
  ensures_any [where r = "check_setup_session sid base c" for sid base c]
  ensures_any [where r = "deref_session a c" for a c]

lemma quiet_options: "client_view c = v \<Longrightarrow> quiet v (rtsp_client_options e cbs ext u t c)"
  by (auto simp: rtsp_client_options_def intro!: quiet_intros)

lemma quiet_describe: "client_view c = v \<Longrightarrow> quiet v (rtsp_client_describe e cbs path ext u t c)"
  by (auto simp: rtsp_client_describe_def intro!: quiet_intros)

lemma quiet_announce: "client_view c = v \<Longrightarrow> quiet v (rtsp_client_announce e cbs path sdp ext u t c)"
  by (auto simp: rtsp_client_announce_def intro!: quiet_intros split: option.split)

lemma quiet_setup:
  assumes "client_view c = v"
  shows "quiet v (rtsp_client_setup e cbs base url sid dlv lower p1 p2 meth ext u t c)"
  unfolding rtsp_client_setup_def Let_def
  by (intro ensures_if quiet_intros; auto simp: assms intro!: quiet_intros split: sum.split failure.split)

lemma quiet_session_request: "client_view c = v \<Longrightarrow> quiet v (session_request e cbs m flag cb fill sid rng ext u t c)"
  by (auto simp: session_request_def intro!: quiet_intros split: option.split)

lemma quiet_teardown:
  assumes "client_view c = v"
  shows "quiet v (send_teardown e cbs url sid ext u t internal c)"
  unfolding send_teardown_def Let_def
  by (intro ensures_if quiet_intros; auto simp: assms view_set_session intro!: quiet_intros
      split: option.split sum.split failure.split)

lemma quiet_send_interleaved: "client_view c = v \<Longrightarrow> quiet v (rtsp_client_send_interleaved e ch data n c)"
  by (auto simp: rtsp_client_send_interleaved_def send_raw_buf_def split: sum.split failure.split)

lemma quiet_connect_socket: "client_view c = v \<Longrightarrow> quiet v (connect_socket e c)"
  by (simp add: connect_socket_def split: option.split)

lemma quiet_answer: "client_view c = v \<Longrightarrow> quiet v (answer_server e req status c)"
  by (simp add: answer_server_def send_raw_buf_def split: sum.split failure.split)

section \<open>The changes that the client is made of\<close>

locale client_changes =
  fixes I :: "rtsp_client \<Rightarrow> bool"
  assumes keep: "I c \<Longrightarrow> client_view c' = client_view c \<Longrightarrow> I c'"
    and state: "I c \<Longrightarrow> new \<noteq> cl_conn_state c \<Longrightarrow>
      I (c\<lparr>cl_conn_state := new, cl_output := cl_output c @ [Called (CallConnectionState new)]\<rparr>)"
    and session_add: "I c \<Longrightarrow> I (snd (rtsp_client_get_session sid add c))"
    and session_delete: "I c \<Longrightarrow> I (delete_client_session a c)"
    and media_add: "I c \<Longrightarrow> ensures (\<lambda>(_, c). I c) (rtsp_client_session_media_add session path pair c)"
    and media_remove: "I c \<Longrightarrow> I (snd (rtsp_client_session_media_remove a m c))"
begin

lemma quiet_keeps: "I c \<Longrightarrow> (\<And>v. client_view c = v \<Longrightarrow> quiet v r) \<Longrightarrow> ensures (\<lambda>(_, c). I c) r"
  by (auto simp: ensures_def intro: keep)

lemma keeps [simp]:
  "I (c\<lparr>cl_sock := b\<rparr>) = I c" "I (c\<lparr>cl_url := url\<rparr>) = I c" "I (c\<lparr>cl_url_addr := n\<rparr>) = I c"
  "I (c\<lparr>cl_url_str := s\<rparr>) = I c" "I (c\<lparr>cl_resolv_id := n\<rparr>) = I c" "I (c\<lparr>cl_resolv_timer := t\<rparr>) = I c"
  "I (c\<lparr>cl_ttls_init := b\<rparr>) = I c" "I (c\<lparr>cl_ssl_ctx := b\<rparr>) = I c"
  "I (c\<lparr>cl_methods_allowed := w\<rparr>) = I c" "I (c\<lparr>cl_failed_requests := w\<rparr>) = I c"
  "I (c\<lparr>cl_req_is_pending := b\<rparr>) = I c" "I (c\<lparr>cl_req_is_internal := b\<rparr>) = I c"
  "I (c\<lparr>cl_req_content_base := s\<rparr>) = I c" "I (c\<lparr>cl_req_timer := t\<rparr>) = I c" "I (c\<lparr>cl_cseq := w\<rparr>) = I c"
  "I (set_channels p u c) = I c" "I (clear_remote_info c) = I c" "I (put_auth au c) = I c"
  "I (update_interleaved_channels p p' c) = I c"
  "I (c\<lparr>cl_output := cl_output c @ [Resolve n r]\<rparr>) = I c"
  "I (c\<lparr>cl_resolv_timer := t, cl_output := cl_output c @ [ResolveCancel n]\<rparr>) = I c"
  "I (c\<lparr>cl_output := cl_output c @ [Stop]\<rparr>) = I c"
  by (auto elim!: keep)

lemma session_keeps: "I c \<Longrightarrow> (\<And>s. client_session_shape (f s) = client_session_shape s) \<Longrightarrow> I (set_client_session a f c)"
  by (erule keep) (rule view_set_session)

lemma drop_media_keeps: "I c \<Longrightarrow> I (drop_media a m c)"
  by (simp add: drop_media_def media_remove)

lemma drop_medias_keeps: "I c \<Longrightarrow> I (fold (drop_media a) ms c)"
  by (induction ms arbitrary: c) (simp_all add: drop_media_keeps)

end

section \<open>Callbacks that keep what these changes keep\<close>

locale client_frame = client_changes +
  fixes cbs :: rtsp_client_cbs
  assumes call_keeps: "I c \<Longrightarrow> ensures I (ccbs_call cbs k c)"
begin

lemma call_app_keeps: "I c \<Longrightarrow> (\<And>st. k \<noteq> CallConnectionState st) \<Longrightarrow> ensures I (call_app cbs k c)"
  unfolding call_app_def by (rule call_keeps, erule keep) (rule view_called)

lemma set_connection_state_keeps: "I c \<Longrightarrow> ensures I (set_connection_state cbs new c)"
  using state [of c new] by (auto simp: set_connection_state_def call_app_def intro: call_keeps)

lemma remove_session_keeps:
  "I c \<Longrightarrow> ensures (\<lambda>(_, c). I c) (rtsp_client_remove_session_internal cbs sid status nexist_ok c)"
  unfolding rtsp_client_remove_session_internal_def
  by (auto split: option.split intro!: ensures_bind [OF call_app_keeps]
      ensures_any [where r = "deref_session a c" for a c] drop_medias_keeps session_delete)

lemma remove_all_sessions_keeps: "I c \<Longrightarrow> ensures I (rtsp_client_remove_all_sessions cbs c)"
  unfolding rtsp_client_remove_all_sessions_def
  by (rule walk_safe_ensures) (auto intro!: ensures_bind [OF remove_session_keeps])

lemma send_keep_alive_keeps: "I c \<Longrightarrow> ensures (\<lambda>(_, c). I c) (send_keep_alive e cbs a t c)"
proof -
  assume I: "I c"
  have filled: "I c' \<Longrightarrow> I (address_header uri (c'\<lparr>cl_req_header := h\<rparr>))"
    "I c' \<Longrightarrow> I (finish_header fill ext c')" for c' uri h fill ext
    by (erule keep; simp)+
  have auth: "I c' \<Longrightarrow> ensures (\<lambda>(_, c). I c) (add_authorization e c')" for c'
    by (rule quiet_keeps, assumption) (rule quiet_add_authorization)
  have sent: "I c' \<Longrightarrow> ensures (\<lambda>(_, c). I c) (client_send_request e content t c')" for content c'
    by (rule quiet_keeps, assumption) (rule quiet_send_request)
  show ?thesis
    unfolding send_keep_alive_def and_then_def Let_def
    by (intro ensures_if ensures_any [where r = "deref_session a c" for a c])
      (auto simp: I intro!: ensures_bind [OF remove_session_keeps] ensures_bind [OF auth] ensures_bind [OF sent]
        filled session_keeps)
qed

lemma setup_complete_keeps:
  "I c \<Longrightarrow> ensures I (setup_request_complete cbs session sid uri req_channels status resp_h u c)"
  unfolding setup_request_complete_def Let_def
  by (auto split: option.split sum.split failure.split intro!: ensures_bind [OF call_app_keeps] call_app_keeps
      ensures_bind [OF media_add])

lemma play_complete_keeps: "I c \<Longrightarrow> ensures I (play_request_complete cbs sid status resp_h u c)"
  by (simp add: play_request_complete_def Let_def call_app_keeps)

lemma teardown_complete_keeps:
  "I c \<Longrightarrow> ensures (\<lambda>(_, c). I c) (teardown_request_complete cbs session sid uri status resp_h u removed c)"
  unfolding teardown_request_complete_def Let_def
  by (auto split: option.split sum.split failure.split
      intro!: ensures_bind [where Q = I] ensures_bind [OF call_app_keeps] call_app_keeps
        ensures_any [where r = "deref_session a c" for a c] ensures_any [where r = "deref_media s m" for s m]
        session_keeps drop_media_keeps)

lemma keep_alive_complete_keeps:
  "I c \<Longrightarrow> ensures (\<lambda>(_, c). I c) (keep_alive_complete e cbs session status c)"
  unfolding keep_alive_complete_def Let_def
  by (auto split: option.split intro!: ensures_bind [OF send_keep_alive_keeps] session_keeps
        ensures_any [where r = "deref_session a c" for a c])

lemma close_request_keeps: "I c \<Longrightarrow> I (close_request resp_h c)"
  unfolding close_request_def Let_def by (erule keep) simp

lemma find_response_session_keeps:
  "I c \<Longrightarrow> find_response_session m sid resp_h c = (res, session, c') \<Longrightarrow> I c'"
  using session_add [of c sid "m = RTSP_METHOD_TYPE_SETUP"]
  by (auto simp: find_response_session_def refresh_session_def intro!: session_keeps
      split: if_splits prod.splits option.splits)

lemma report_completion_keeps:
  "I c \<Longrightarrow> ensures (\<lambda>(_, _, c). I c) (report_completion e cbs req u session sid status resp_h body c)"
  unfolding report_completion_def Let_def
  by (auto split: rtsp_method_type.split intro!: ensures_bind [OF call_app_keeps]
      ensures_bind [OF setup_complete_keeps] ensures_bind [OF play_complete_keeps]
      ensures_bind [OF teardown_complete_keeps] ensures_bind [OF keep_alive_complete_keeps])

lemma send_teardown_keeps:
  "I c \<Longrightarrow> ensures (\<lambda>(_, c). I c) (send_teardown e cbs url sid ext u t internal c)"
  by (rule quiet_keeps, assumption) (rule quiet_teardown)

lemma conclude_request_keeps:
  "I c \<Longrightarrow> ensures I (conclude_request e cbs req u session sid status resp_h sdp c)"
  unfolding conclude_request_def
  by (auto intro!: ensures_bind [OF report_completion_keeps] ensures_bind [where Q = "\<lambda>(_, c). I c"]
      ensures_bind [where Q = I] ensures_bind [OF send_teardown_keeps] ensures_bind [OF remove_session_keeps])

lemma complete_request_keeps:
  assumes "I c"
  shows "ensures (\<lambda>(_, c). I c) (complete_request e cbs resp body status c)"
proof -
  have "I (close_request h c)" for h
    using assms by (rule close_request_keeps)
  then show ?thesis
    unfolding complete_request_def Let_def
    by (auto split: prod.split sum.split failure.split dest!: find_response_session_keeps [rotated]
        intro!: ensures_bind [OF conclude_request_keeps] simp del: split_paired_All)
qed

lemma request_aborted_keeps: "I c \<Longrightarrow> ensures I (request_aborted e cbs c)"
  unfolding request_aborted_def by (auto intro!: ensures_bind [OF complete_request_keeps])

lemma event_keeps: "I c \<Longrightarrow> ensures I (tskt_client_event_cb e cbs event c)"
proof -
  assume I: "I c"
  have alive: "I c' \<Longrightarrow> ensures I (walk client_session_live
      (\<lambda>s c. bindr (send_keep_alive e cbs (cs_addr s) t c) (\<lambda>(_, c). Inr c)) ss c')" for ss t c'
    by (rule walk_ensures) (auto intro!: ensures_bind [OF send_keep_alive_keeps])
  show ?thesis
    unfolding tskt_client_event_cb_def Let_def
    by (auto simp: I split: tskt_client_event.split intro!: ensures_bind [OF set_connection_state_keeps] alive
        ensures_bind [OF request_aborted_keeps] set_connection_state_keeps call_app_keeps)
qed

lemma stop_socket_keeps: "I c \<Longrightarrow> ensures (\<lambda>(_, c). I c) (stop_socket e cbs c)"
  unfolding stop_socket_def Let_def
  by (intro ensures_bind [where Q = I]) (auto intro!: event_keeps)

lemma connect_socket_keeps: "I c \<Longrightarrow> ensures (\<lambda>(_, c). I c) (connect_socket e c)"
  by (rule quiet_keeps, assumption) (rule quiet_connect_socket)

lemma count_failed_keeps: "I c \<Longrightarrow> ensures I (count_failed_request e cbs c)"
  unfolding count_failed_request_def Let_def
  by (auto intro!: ensures_bind [OF stop_socket_keeps] ensures_bind [OF set_connection_state_keeps]
      ensures_bind [OF connect_socket_keeps])

lemma request_complete_keeps: "I c \<Longrightarrow> ensures (\<lambda>(_, c). I c) (request_complete e cbs resp body status c)"
  unfolding request_complete_def
  by (auto intro!: ensures_bind [OF complete_request_keeps] ensures_bind [OF count_failed_keeps])

lemma response_process_keeps:
  "I c \<Longrightarrow> ensures (\<lambda>(_, c). I c) (rtsp_client_response_process e cbs resp_h body c)"
  unfolding rtsp_client_response_process_def
  by (auto split: option.split intro!: request_complete_keeps session_keeps)

lemma answer_keeps: "I c \<Longrightarrow> ensures (\<lambda>(_, c). I c) (answer_server e req status c)"
  by (rule quiet_keeps, assumption) (rule quiet_answer)

lemma teardown_process_keeps: "I c \<Longrightarrow> ensures (\<lambda>(_, c). I c) (teardown_request_process cbs req c)"
  unfolding teardown_request_process_def Let_def
  by (auto split: option.split sum.split failure.split
      intro!: ensures_bind [OF call_app_keeps] call_app_keeps ensures_bind [where Q = "\<lambda>(_, c). I c"]
        ensures_bind [OF remove_session_keeps] ensures_bind [where Q = I]
        ensures_any [where r = "deref_session a c" for a c] ensures_any [where r = "deref_media s m" for s m]
        drop_media_keeps)

lemma request_process_keeps:
  "I c \<Longrightarrow> ensures (\<lambda>(_, c). I c) (rtsp_client_request_process e cbs req body c)"
  unfolding rtsp_client_request_process_def and_then_def
  by (auto split: rtsp_method_type.split sum.split failure.split intro!: ensures_bind [OF call_app_keeps] answer_keeps
      ensures_bind [OF answer_keeps] ensures_bind [OF teardown_process_keeps]
      ensures_any [where r = "client_uri_to_content_base uri c" for uri c])

lemma interleaved_process_keeps: "I c \<Longrightarrow> ensures (\<lambda>(_, c). I c) (rtsp_client_interleaved_process cbs info c)"
  unfolding rtsp_client_interleaved_process_def by (auto intro!: ensures_bind [OF call_app_keeps])

lemma message_keeps: "I c \<Longrightarrow> ensures I (client_message e cbs msg c)"
  unfolding client_message_def
  by (rule ensures_bind [where Q = "\<lambda>(_, c). I c"])
    (auto split: rtsp_header.split simp: interleaved_process_keeps request_process_keeps response_process_keeps)

lemma data_keeps:
  "I c \<Longrightarrow> ensures (\<lambda>(c, buf). I c) (tskt_client_data_cb time_parse e cbs data (c, buf))"
  unfolding tskt_client_data_cb_def
  by (auto intro!: ensures_any [where r = "receive time_parse data buf" for data buf]
      ensures_bind [where Q = I, OF call_each_ensures [where P = I, OF _ message_keeps]])

lemma disconnect_keeps: "I c \<Longrightarrow> ensures (\<lambda>(_, c). I c) (rtsp_client_disconnect e cbs c)"
  unfolding rtsp_client_disconnect_def Let_def and_then_def
  by (auto split: rtsp_client_conn_state.split intro!: ensures_bind [OF set_connection_state_keeps]
      ensures_bind [OF stop_socket_keeps] ensures_bind [OF request_aborted_keeps]
      ensures_bind [OF ensures_bind [OF request_aborted_keeps]] set_connection_state_keeps
      ensures_bind [OF remove_all_sessions_keeps])

lemma connect_keeps: "I c \<Longrightarrow> ensures (\<lambda>(_, c). I c) (rtsp_client_connect e cbs addr c)"
proof -
  assume I: "I c"
  have fails: "I c' \<Longrightarrow> ensures (\<lambda>(_, c). I c)
      (bindr (set_connection_state cbs RTSP_CLIENT_CONN_STATE_DISCONNECTED c') (\<lambda>c. Inr (res, clear_remote_info c)))"
    for c' and res :: int
    by (auto intro!: ensures_bind [OF set_connection_state_keeps])
  have tls: "I c' \<Longrightarrow> ensures (\<lambda>(_, c). I c) (setup_tls e c')" for c'
    by (simp add: setup_tls_def Let_def)
  have resolution: "I c' \<Longrightarrow> ensures (\<lambda>(_, c). I c) (start_resolution e a host c')" for a host c'
    by (auto simp: start_resolution_def Let_def client_view_def elim!: keep)
  show ?thesis
    unfolding rtsp_client_connect_def Let_def and_then_def
    by (auto simp: I split: sum.split failure.split intro!: fails ensures_bind [OF set_connection_state_keeps]
      tls resolution
      ensures_bind [where Q = "\<lambda>(_, c). I c"])
qed

lemma resolv_keeps:
  "I c \<Longrightarrow> ensures I (tskt_resolv_cb e cbs addr c)"
  "I c \<Longrightarrow> ensures I (resolv_timer_cb e cbs c)"
  unfolding tskt_resolv_cb_def resolv_timer_cb_def Let_def
  by (auto split: option.split intro!: set_connection_state_keeps ensures_bind [OF disconnect_keeps]
      ensures_any [where r = "rtsp_url_set_resolved_host u a" for u a] ensures_bind [OF connect_socket_keeps])

lemma timers_keep:
  "I c \<Longrightarrow> ensures I (rtsp_client_resp_timeout_cb e cbs c)"
  "I c \<Longrightarrow> ensures I (rtsp_client_pomp_timer_cb e cbs a c)"
  unfolding rtsp_client_resp_timeout_cb_def rtsp_client_pomp_timer_cb_def
  by (auto intro!: ensures_bind [OF request_complete_keeps] ensures_bind [OF send_keep_alive_keeps] session_keeps)

lemma destroy_keeps: "I c \<Longrightarrow> ensures I (rtsp_client_destroy e cbs c)"
  unfolding rtsp_client_destroy_def
  by (auto intro!: ensures_bind [OF stop_socket_keeps] ensures_bind [OF remove_all_sessions_keeps])

lemma api_keeps: "I c \<Longrightarrow> ensures (\<lambda>(_, c). I c) (client_api_step e cbs a c)"
proof (cases a)
  case (ApiRemoveSession sid)
  then show "I c \<Longrightarrow> ?thesis"
    by (simp add: rtsp_client_remove_session_def remove_session_keeps)
next
  case ApiCancel
  then show "I c \<Longrightarrow> ?thesis"
    by (simp add: rtsp_client_cancel_def request_complete_keeps)
qed (simp_all add: connect_keeps disconnect_keeps rtsp_client_play_def rtsp_client_pause_def rtsp_client_record_def
    rtsp_client_teardown_def send_teardown_keeps,
  (rule quiet_keeps, assumption, rule quiet_options quiet_describe quiet_announce quiet_setup
    quiet_session_request quiet_send_interleaved, assumption)+)

lemma run_api_keeps: "I c \<Longrightarrow> ensures I (run_client_api e cbs calls c)"
  unfolding run_client_api_def by (rule call_each_ensures) (auto intro!: ensures_bind [OF api_keeps])

end

end
