(* ===== verification/RtspClientInvariant.thy ===== *)
theory RtspClientInvariant
  imports RtspClientFrame
begin

text \<open>
  The client as a transition system: what the application, the socket, the resolver and the timers do
  to it, in any order. The invariant of its reachable states: the table of sessions and medias is
  consistent, and the application has been told of every change of the connection state.
\<close>

section \<open>Invariant\<close>

definition client_session_ok :: "nat \<Rightarrow> client_session \<Rightarrow> bool" where
  "client_session_ok n s \<longleftrightarrow>
     cs_addr s < n \<and> cs_media_count s = length (cs_medias s) \<and> distinct (map cm_path (cs_medias s)) \<and>
     distinct (map cm_addr (cs_medias s)) \<and> (\<forall>m \<in> set (cs_medias s). cm_addr m < n)"

definition client_sessions_ok :: "nat \<Rightarrow> client_session list \<Rightarrow> bool" where
  "client_sessions_ok n ss \<longleftrightarrow>
     distinct (map cs_addr ss) \<and> distinct (map (\<lambda>s. take RTSP_CLIENT_SESSION_ID_LENGTH (cs_id s)) ss) \<and>
     (\<forall>s \<in> set ss. client_session_ok n s)"

text \<open>
  The states reported to the application, from the initial one on: each differs from the one before,
  and the last is the state of the client.
\<close>

definition states_reported :: "rtsp_client \<Rightarrow> bool" where
  "states_reported c \<longleftrightarrow>
     successively (\<noteq>) (RTSP_CLIENT_CONN_STATE_DISCONNECTED # reported_states c) \<and>
     last (RTSP_CLIENT_CONN_STATE_DISCONNECTED # reported_states c) = cl_conn_state c"

definition client_ok :: "rtsp_client \<Rightarrow> bool" where
  "client_ok c \<longleftrightarrow>
     client_sessions_ok (cl_next_addr c) (cl_sessions c) \<and> length (cl_channel_used c) = 256 \<and> states_reported c"

section \<open>The sessions seen by their shapes\<close>

definition shape_ok :: "nat \<Rightarrow> nat \<times> string \<times> nat \<times> (nat \<times> string) list \<Rightarrow> bool" where
  "shape_ok n sh \<longleftrightarrow>
     (case sh of (a, i, k, ms) \<Rightarrow>
        a < n \<and> k = length ms \<and> distinct (map snd ms) \<and> distinct (map fst ms) \<and> (\<forall>m \<in> set ms. fst m < n))"

lemma client_session_ok_shape: "client_session_ok n s = shape_ok n (client_session_shape s)"
  by (auto simp: client_session_ok_def shape_ok_def client_session_shape_def comp_def)

lemma client_sessions_ok_shapes:
  "client_sessions_ok n ss \<longleftrightarrow>
     distinct (map fst (map client_session_shape ss)) \<and>
     distinct (map (fst \<circ> snd) (map client_session_shape ss)) \<and>
     (\<forall>sh \<in> set (map client_session_shape ss). shape_ok n sh)"
proof -
  have "map fst (map client_session_shape ss) = map cs_addr ss"
    "map (fst \<circ> snd) (map client_session_shape ss) = map (\<lambda>s. take RTSP_CLIENT_SESSION_ID_LENGTH (cs_id s)) ss"
    by (simp_all add: client_session_shape_def)
  then show ?thesis
    unfolding client_sessions_ok_def client_session_ok_shape by (metis (no_types, lifting) imageE image_eqI image_set)
qed

lemma client_ok_view: "client_view c' = client_view c \<Longrightarrow> client_ok c' = client_ok c"
  by (simp add: client_view_def client_ok_def client_sessions_ok_shapes states_reported_def)

lemma client_session_ok_mono: "client_session_ok n s \<Longrightarrow> n \<le> k \<Longrightarrow> client_session_ok k s"
  by (force simp: client_session_ok_def)

lemma client_session_found:
  "client_sessions_ok n ss \<Longrightarrow> find (\<lambda>s. cs_addr s = a) ss = Some s \<Longrightarrow> client_session_ok n s"
  by (auto simp: client_sessions_ok_def find_Some_iff)

lemma client_sessions_ok_update:
  assumes "client_sessions_ok n ss" "n \<le> k"
    and "\<And>s. s \<in> set ss \<Longrightarrow> cs_addr s = a \<Longrightarrow>
      cs_addr (f s) = a \<and> cs_id (f s) = cs_id s \<and> client_session_ok k (f s)"
  shows "client_sessions_ok k (update_where (\<lambda>s. cs_addr s = a) f ss)"
proof -
  let ?f = "\<lambda>s. if cs_addr s = a then f s else s"
  have "map cs_addr (map ?f ss) = map cs_addr ss"
    "map (\<lambda>s. take RTSP_CLIENT_SESSION_ID_LENGTH (cs_id s)) (map ?f ss) =
     map (\<lambda>s. take RTSP_CLIENT_SESSION_ID_LENGTH (cs_id s)) ss"
    using assms(3) by auto
  then show ?thesis
    using assms unfolding client_sessions_ok_def update_where_def by (auto simp: client_session_ok_mono simp del: map_map)
qed

section \<open>The changes keep the invariant\<close>

lemma client_ok_state:
  assumes "client_ok c" "new \<noteq> cl_conn_state c"
  shows "client_ok (c\<lparr>cl_conn_state := new, cl_output := cl_output c @ [Called (CallConnectionState new)]\<rparr>)"
proof -
  have "reported_states (c\<lparr>cl_conn_state := new, cl_output := cl_output c @ [Called (CallConnectionState new)]\<rparr>) =
      reported_states c @ [new]"
    by (simp add: reported_states_def)
  then show ?thesis
    using assms by (auto simp: client_ok_def states_reported_def successively_append_iff
        simp flip: append_Cons)
qed

lemma client_ok_session_add:
  assumes "client_ok c"
  shows "client_ok (snd (rtsp_client_get_session sid add c))"
proof (cases "sid = None \<or> rtsp_client_session_find c (the sid) \<noteq> None \<or> \<not> add")
  case True
  then show ?thesis
    using assms by (auto simp: rtsp_client_get_session_def split: option.split)
next
  case False
  then obtain i where i: "sid = Some i" "rtsp_client_session_find c i = None" "add"
    by auto
  let ?n = "cl_next_addr c"
  have new: "take RTSP_CLIENT_SESSION_ID_LENGTH i \<notin>
      set (map (\<lambda>s. take RTSP_CLIENT_SESSION_ID_LENGTH (cs_id s)) (cl_sessions c))"
    using i(2) by (auto simp: rtsp_client_session_find_def find_None_iff client_session_id_eq_def)
  have ok: "client_sessions_ok ?n (cl_sessions c)"
    using assms by (simp add: client_ok_def)
  then have fresh: "?n \<notin> set (map cs_addr (cl_sessions c))"
    by (auto simp: client_sessions_ok_def client_session_ok_def)
  from ok have "client_sessions_ok (?n + 1) (cl_sessions c @ [new_client_session ?n i])"
    using new fresh
    by (auto simp: client_sessions_ok_def new_client_session_def client_session_ok_mono
        client_session_ok_def [of _ "\<lparr>cs_addr = _, cs_id = _, cs_timer = _, cs_content_base = _,
          cs_timeout_ms = _, cs_failed_keep_alive = _, cs_keep_alive_in_progress = _,
          cs_internal_teardown = _, cs_media_count = _, cs_medias = _\<rparr>"])
  then show ?thesis
    using assms i by (simp add: rtsp_client_get_session_def Let_def client_ok_def states_reported_def)
qed

lemma client_ok_session_delete: "client_ok c \<Longrightarrow> client_ok (delete_client_session a c)"
  by (auto simp: client_ok_def delete_client_session_def client_sessions_ok_def states_reported_def
      distinct_map_filter)

lemma client_ok_media_add:
  assumes "client_ok c"
  shows "ensures (\<lambda>(_, c). client_ok c) (rtsp_client_session_media_add session path pair c)"
proof -
  have "client_ok ((set_client_session a (\<lambda>s. s\<lparr>cs_medias := cs_medias s @ [m],
      cs_media_count := cs_media_count s + 1\<rparr>) c)\<lparr>cl_next_addr := Suc (cl_next_addr c)\<rparr>)"
    if s: "find_client_session c a = Some s" "rtsp_client_session_media_find s (Some p) = None"
      and m: "cm_addr m = cl_next_addr c" "cm_path m = p" for a s p m
  proof -
    let ?n = "cl_next_addr c"
    from assms have ok: "client_sessions_ok ?n (cl_sessions c)"
      by (simp add: client_ok_def)
    have "client_sessions_ok (Suc ?n) (update_where (\<lambda>s. cs_addr s = a) (\<lambda>s. s\<lparr>cs_medias := cs_medias s @ [m],
        cs_media_count := cs_media_count s + 1\<rparr>) (cl_sessions c))"
    proof (rule client_sessions_ok_update [OF ok])
      fix t
      assume t: "t \<in> set (cl_sessions c)" "cs_addr t = a"
      have "t = s"
        using find_split [OF s(1)] ok t by (auto simp: client_sessions_ok_def)
      moreover have "client_session_ok ?n s"
        by (rule client_session_found [OF ok s(1)])
      ultimately show "cs_addr (t\<lparr>cs_medias := cs_medias t @ [m], cs_media_count := cs_media_count t + 1\<rparr>) = a \<and>
          cs_id (t\<lparr>cs_medias := cs_medias t @ [m], cs_media_count := cs_media_count t + 1\<rparr>) = cs_id t \<and>
          client_session_ok (Suc ?n) (t\<lparr>cs_medias := cs_medias t @ [m], cs_media_count := cs_media_count t + 1\<rparr>)"
        using s(2) m t by (auto simp: client_session_ok_def rtsp_client_session_media_find_def find_None_iff)
    qed simp
    then show ?thesis
      using assms by (simp add: client_ok_def set_client_session_def states_reported_def)
  qed
  then show ?thesis
    using assms
    by (auto simp: rtsp_client_session_media_add_def deref_session_def Let_def split: option.split)
qed

lemma client_ok_media_remove:
  assumes "client_ok c"
  shows "client_ok (snd (rtsp_client_session_media_remove a m c))"
proof -
  let ?f = "\<lambda>s. s\<lparr>cs_medias := filter (\<lambda>x. cm_addr x \<noteq> m) (cs_medias s), cs_media_count := cs_media_count s - 1\<rparr>"
  have "client_ok (set_client_session a ?f c)"
    if s: "find_client_session c a = Some s" "m \<in> set (map cm_addr (cs_medias s))" for s
  proof -
    from assms have ok: "client_sessions_ok (cl_next_addr c) (cl_sessions c)"
      by (simp add: client_ok_def)
    have "client_sessions_ok (cl_next_addr c) (update_where (\<lambda>s. cs_addr s = a) ?f (cl_sessions c))"
    proof (rule client_sessions_ok_update [OF ok order_refl])
      fix t
      assume t: "t \<in> set (cl_sessions c)" "cs_addr t = a"
      have "t = s"
        using find_split [OF s(1)] ok t by (auto simp: client_sessions_ok_def)
      moreover have "client_session_ok (cl_next_addr c) s"
        by (rule client_session_found [OF ok s(1)])
      ultimately show "cs_addr (?f t) = a \<and> cs_id (?f t) = cs_id t \<and> client_session_ok (cl_next_addr c) (?f t)"
        using s(2) t length_filter_other [of cm_addr "cs_medias s" m]
        by (auto simp: client_session_ok_def distinct_map_filter)
    qed
    then show ?thesis
      using assms by (simp add: client_ok_def set_client_session_def states_reported_def)
  qed
  then show ?thesis
    using assms by (auto simp: rtsp_client_session_media_remove_def split: option.split)
qed

interpretation ok: client_changes client_ok
proof unfold_locales
  show "client_ok c'" if "client_ok c" "client_view c' = client_view c" for c c'
    using that client_ok_view by blast
qed (rule client_ok_state client_ok_session_add client_ok_session_delete client_ok_media_add
    client_ok_media_remove; assumption)+

text \<open>Whatever an application does in its callbacks, to whatever depth.\<close>

lemma client_app_frame: "client_frame client_ok (client_app_cbs n e app)"
proof (induction n)
  case 0
  show ?case
    by unfold_locales simp
next
  case (Suc n)
  show ?case
    by unfold_locales (simp add: client_frame.run_api_keeps [OF Suc])
qed

interpretation ok: client_frame client_ok "client_app_cbs n e app" for n e app
  by (rule client_app_frame)

section \<open>Steps\<close>

type_synonym client_system = "rtsp_client \<times> string \<times> rtsp_message_parser_ctx"

text \<open>
  One thing that happens to a client: a call of the API, an event of the socket, data from the server,
  a timer that has been set, an answer of the resolver. The environment may differ from step to step.
\<close>

inductive client_step :: "nat \<Rightarrow> client_application \<Rightarrow> time_parser \<Rightarrow> client_system \<Rightarrow> client_system \<Rightarrow> bool"
  for n app time_parse where
  api: "client_api_step e (client_app_cbs n e app) a c = Inr (res, c') \<Longrightarrow>
    client_step n app time_parse (c, buf) (c', buf)"
| event: "tskt_client_event_cb e (client_app_cbs n e app) event c = Inr c' \<Longrightarrow>
    client_step n app time_parse (c, buf) (c', buf)"
| data: "tskt_client_data_cb time_parse e (client_app_cbs n e app) data st = Inr st' \<Longrightarrow>
    client_step n app time_parse st st'"
| response_timer: "cl_req_timer c \<noteq> None \<Longrightarrow>
    rtsp_client_resp_timeout_cb e (client_app_cbs n e app) c = Inr c' \<Longrightarrow>
    client_step n app time_parse (c, buf) (c', buf)"
| session_timer: "find_client_session c a = Some s \<Longrightarrow> cs_timer s \<noteq> None \<Longrightarrow>
    rtsp_client_pomp_timer_cb e (client_app_cbs n e app) a c = Inr c' \<Longrightarrow>
    client_step n app time_parse (c, buf) (c', buf)"
| resolved: "tskt_resolv_cb e (client_app_cbs n e app) addr c = Inr c' \<Longrightarrow>
    client_step n app time_parse (c, buf) (c', buf)"
| resolution_timer: "cl_resolv_timer c \<noteq> None \<Longrightarrow>
    resolv_timer_cb e (client_app_cbs n e app) c = Inr c' \<Longrightarrow>
    client_step n app time_parse (c, buf) (c', buf)"

inductive client_reachable :: "nat \<Rightarrow> client_application \<Rightarrow> time_parser \<Rightarrow> client_system \<Rightarrow> bool"
  for n app time_parse where
  start: "rtsp_client_new software_name (client_app_cbs n e app) = Inr c \<Longrightarrow>
    client_reachable n app time_parse (c, [], parser_ctx_init)"
| step: "client_reachable n app time_parse st \<Longrightarrow> client_step n app time_parse st st' \<Longrightarrow>
    client_reachable n app time_parse st'"

lemma client_step_ok: "client_step n app time_parse st st' \<Longrightarrow> client_ok (fst st) \<Longrightarrow> client_ok (fst st')"
proof (induction rule: client_step.induct)
  case (api e a c res c' buf)
  then show ?case using ok.api_keeps [of c e n e app a] by simp
next
  case (event e ev c c' buf)
  then show ?case using ok.event_keeps [of c e n e app ev] by simp
next
  case (data e data st st')
  then show ?case using ok.data_keeps [of "fst st" time_parse e n e app data "snd st"] by (cases st'; simp)
next
  case (response_timer c e c' buf)
  then show ?case using ok.timers_keep(1) [of c e n e app] by simp
next
  case (session_timer c a s e c' buf)
  then show ?case using ok.timers_keep(2) [of c e n e app a] by simp
next
  case (resolved e addr c c' buf)
  then show ?case using ok.resolv_keeps(1) [of c e n e app addr] by simp
next
  case (resolution_timer c e c' buf)
  then show ?case using ok.resolv_keeps(2) [of c e n e app] by simp
qed

lemma client_new_ok: "rtsp_client_new software_name cbs = Inr c \<Longrightarrow> client_ok c"
  by (auto simp: rtsp_client_new_def client_ok_def client_sessions_ok_def states_reported_def
      reported_states_def split: if_splits)

text \<open>
  C7: In every state that a client reaches, whatever the server sends, the application does in its
  callbacks and the network does: sessions differ in the eight characters of their identifier that
  are compared, their medias differ in their path and are counted right, the table of channels has
  256 entries, and the application has been told of every change of the connection state, in order,
  and of nothing else.
\<close>

theorem client_invariant:
  assumes "client_reachable n app time_parse (c, buf)"
  shows "distinct (map (\<lambda>s. take 8 (cs_id s)) (cl_sessions c)) \<and>
    (\<forall>s \<in> set (cl_sessions c). distinct (map cm_path (cs_medias s)) \<and> cs_media_count s = length (cs_medias s)) \<and>
    length (cl_channel_used c) = 256 \<and>
    successively (\<noteq>) (RTSP_CLIENT_CONN_STATE_DISCONNECTED # reported_states c) \<and>
    last (RTSP_CLIENT_CONN_STATE_DISCONNECTED # reported_states c) = cl_conn_state c"
proof -
  have "client_reachable n app time_parse st \<Longrightarrow> client_ok (fst st)" for st
    by (induction rule: client_reachable.induct) (simp_all add: client_new_ok client_step_ok)
  from this [OF assms] have "client_ok c"
    by simp
  then show ?thesis
    unfolding client_ok_def client_sessions_ok_def client_session_ok_def states_reported_def
      RTSP_CLIENT_SESSION_ID_LENGTH_def by blast
qed

end
