(* ===== verification/RtspClientChannels.thy ===== *)
theory RtspClientChannels
  imports RtspClientRequest
begin

text \<open>
  The allocation of interleaved channels: the loop of \<open>allocate_interleaved_channels\<close> against the
  first free pair of an even and the next channel, and what SETUP does when there is none.
\<close>

section \<open>The first free pair\<close>

definition free_pair :: "bool list \<Rightarrow> nat \<Rightarrow> bool" where
  "free_pair channel_used k \<longleftrightarrow> \<not> channel_used ! (2 * k) \<and> \<not> channel_used ! (2 * k + 1)"

definition pair_index :: "nat \<Rightarrow> 8 word" where "pair_index k = word_of_nat (2 * k)"

definition pair_channels :: "nat \<Rightarrow> channel_pair" where
  "pair_channels k = (pair_index k, pair_index k + 1)"

definition first_free_pair :: "bool list \<Rightarrow> channel_pair option" where
  "first_free_pair channel_used = map_option pair_channels (find (free_pair channel_used) [0..<128])"

lemma unat_pair: "k < 128 \<Longrightarrow> unat (pair_index k) = 2 * k"
  unfolding pair_index_def by (simp only: unat_of_nat) simp

lemma next_index:
  assumes "k < 128"
  shows "pair_index k + 2 = pair_index ((k + 1) mod 128)"
proof (cases "k = 127")
  case True
  then show ?thesis by (simp add: pair_index_def)
next
  case False
  with assms have "(k + 1) mod 128 = k + 1"
    by simp
  then show ?thesis by (simp add: pair_index_def)
qed

lemma next_channels_step:
  assumes "k < 128"
  shows "next_channels u (pair_index k) =
    (if free_pair u k then Some (Some (pair_channels k)) else next_channels u (pair_index ((k + 1) mod 128)))"
proof -
  have "unat (pair_index k) < 256 - 1"
    using assms by (simp add: unat_pair)
  then show ?thesis
    by (subst next_channels.simps) (simp only: if_True, simp only: unat_pair [OF assms] next_index [OF assms]
        free_pair_def pair_channels_def)
qed

lemma next_channels_found:
  assumes "find (free_pair u) [k..<128] = Some j" "k < 128"
  shows "next_channels u (pair_index k) = Some (Some (pair_channels j))"
  using assms
proof (induction "128 - k" arbitrary: k)
  case (Suc d)
  from Suc.prems(2) have up: "[k..<128] = k # [Suc k..<128]"
    by (rule upt_conv_Cons)
  show ?case
  proof (cases "free_pair u k")
    case True
    then show ?thesis using Suc.prems up by (simp add: next_channels_step)
  next
    case False
    with Suc.prems(1) up have found: "find (free_pair u) [Suc k..<128] = Some j"
      by simp
    then have "Suc k < 128"
      by (metis find.simps(1) not_less option.distinct(1) upt_rec)
    then show ?thesis
      using Suc.hyps(1) [of "Suc k"] Suc.hyps(2) False found Suc.prems(2) by (simp add: next_channels_step)
  qed
qed simp

lemma next_channels_never:
  assumes "next_channels u i = Some r" "even (unat i)" "\<forall>k < 128. \<not> free_pair u k"
  shows False
proof -
  have "even (unat i) \<longrightarrow> (\<forall>k < 128. \<not> free_pair u k) \<longrightarrow> False"
  proof (rule next_channels.raw_induct [where P = "\<lambda>u i r. even (unat i) \<longrightarrow> (\<forall>k < 128. \<not> free_pair u k) \<longrightarrow> False",
        OF _ assms(1)], intro impI)
    fix loop u and i :: "8 word" and r
    assume IH: "\<And>u i r. loop u i = Some r \<Longrightarrow> even (unat i) \<longrightarrow> (\<forall>k < 128. \<not> free_pair u k) \<longrightarrow> False"
      and eq: "(if unat i < 256 - 1 then if \<not> u ! unat i \<and> \<not> u ! (unat i + 1) then Some (Some (i, i + 1))
        else loop u (i + 2) else Some None) = Some r"
      and ev: "even (unat i)" and none: "\<forall>k < 128. \<not> free_pair u k"
    define k where "k = unat i div 2"
    have "unat i < 256"
      using unsigned_less [of i, where ?'a = nat] by simp
    then have k: "unat i = 2 * k" "k < 128"
      using ev by (auto simp: k_def)
    then have i: "i = pair_index k"
      by (metis pair_index_def of_nat_unat ucast_id)
    have "\<not> free_pair u k"
      using none k by blast
    then have "loop u (i + 2) = Some r"
      using eq k by (auto simp: free_pair_def split: if_splits)
    moreover have "even (unat (i + 2))"
      unfolding i next_index [OF k(2)] by (subst unat_pair) simp_all
    ultimately show False
      using IH [of u "i + 2" r] none by blast
  qed
  then show False
    using assms(2,3) by blast
qed

lemma next_channels_first_free_loop: "next_channels channel_used 0 = map_option Some (first_free_pair channel_used)"
proof (cases "find (free_pair channel_used) [0..<128]")
  case None
  then have "\<forall>k < 128. \<not> free_pair channel_used k"
    by (simp add: find_None_iff)
  then have "next_channels channel_used 0 = None"
    using next_channels_never [of channel_used 0] by (cases "next_channels channel_used 0") auto
  then show ?thesis
    using None by (simp add: first_free_pair_def)
next
  case (Some j)
  then show ?thesis
    using next_channels_found [OF Some] by (simp add: first_free_pair_def pair_index_def)
qed

text \<open>
  C20: The loop that looks for channels returns the first free pair when there is one, and never
  returns otherwise: its index of eight bits wraps around.
\<close>

theorem next_channels_first_free: "next_channels channel_used 0 = map_option Some (first_free_pair channel_used)"
  by (rule next_channels_first_free_loop)

lemma allocate_first_free:
  "\<not> is_channel_pair_valid pair \<Longrightarrow>
   allocate_interleaved_channels pair c =
     (case first_free_pair (cl_channel_used c) of
        None \<Rightarrow> Inl UB
      | Some p \<Rightarrow> Inr (0, p, set_channels p True c))"
  by (simp add: allocate_interleaved_channels_def next_channels_first_free_loop split: option.split)

text \<open>
  With one channel of each pair in use SETUP does not return, although 128 channels are unused.
\<close>

lemma half_used_channels_block:
  "first_free_pair (concat (replicate 128 [True, False])) = None"
  "count_channel_unused (concat (replicate 128 [True, False])) = 128"
  by code_simp+

end
