(* ===== verification/RtspClientCompletion.thy ===== *)
theory RtspClientCompletion
  imports RtspClientInvariant
begin

text \<open>
  A request that the client has accepted is completed once: by the response with its CSeq, by the
  timer that sending it has set, by a cancellation or by a disconnection.
\<close>

section \<open>Completions\<close>

text \<open>The status and the user pointer of a call that completes a request.\<close>

fun completion :: "client_call \<Rightarrow> (rtsp_client_req_status \<times> nat) list" where
  "completion (CallOptionsResp st errno methods ext u) = [(st, u)]"
| "completion (CallDescribeResp st errno base ext sdp u) = [(st, u)]"
| "completion (CallAnnounceResp st errno ext u) = [(st, u)]"
| "completion (CallSetupResp sid st errno p1 p2 v w ext u) = [(st, u)]"
| "completion (CallPlayResp sid st errno rng sc sv sq tv tm ext u) = [(st, u)]"
| "completion (CallPauseResp sid st errno rng ext u) = [(st, u)]"
| "completion (CallRecordResp sid st errno ext u) = [(st, u)]"
| "completion (CallTeardownResp sid st errno ext u) = [(st, u)]"
| "completion _ = []"

definition completions_in :: "client_output list \<Rightarrow> (rtsp_client_req_status \<times> nat) list" where
  "completions_in xs = concat (map (\<lambda>x. case x of Called k \<Rightarrow> completion k | _ \<Rightarrow> []) xs)"

abbreviation completions :: "rtsp_client \<Rightarrow> (rtsp_client_req_status \<times> nat) list" where
  "completions c \<equiv> completions_in (cl_output c)"

lemma completions_in_append [simp]: "completions_in (xs @ ys) = completions_in xs @ completions_in ys"
  by (simp add: completions_in_def)

lemma completions_in_Cons [simp]:
  "completions_in [] = []"
  "completions_in (Called k # xs) = completion k @ completions_in xs"
  "completions_in (Sent s # xs) = completions_in xs"
  "completions_in (Resolve n r # xs) = completions_in xs"
  "completions_in (ResolveCancel n # xs) = completions_in xs"
  "completions_in (Connect r p # xs) = completions_in xs"
  "completions_in (Stop # xs) = completions_in xs"
  by (simp_all add: completions_in_def)

section \<open>An application that does nothing in its callbacks\<close>

definition idle_app :: "rtsp_client_cbs \<Rightarrow> bool" where
  "idle_app cbs \<longleftrightarrow> (\<forall>k c. ccbs_call cbs k c = Inr c)"

lemma call_idle: "idle_app cbs \<Longrightarrow> call_app cbs k c = Inr (c\<lparr>cl_output := cl_output c @ [Called k]\<rparr>)"
  by (simp add: idle_app_def call_app_def)

text \<open>What removing a session or closing the connection leaves alone.\<close>

definition same_requests :: "rtsp_client \<Rightarrow> rtsp_client \<Rightarrow> bool" where
  "same_requests c c' \<longleftrightarrow> completions c' = completions c \<and> cl_req_is_pending c' = cl_req_is_pending c"

lemma same_requests_set_session [simp]: "same_requests c (set_client_session a f c') = same_requests c c'"
  by (simp add: same_requests_def set_client_session_def)

lemma drop_media_same [simp]: "same_requests c (drop_media a m c') = same_requests c c'"
  by (simp add: drop_media_def rtsp_client_session_media_remove_def same_requests_def set_client_session_def
      split: option.split)

lemma drop_medias_same: "same_requests c c' \<Longrightarrow> same_requests c (fold (drop_media a) ms c')"
  by (induction ms arbitrary: c') simp_all

lemma drop_media_finds: "find_client_session (drop_media a m c) b \<noteq> None \<longleftrightarrow> find_client_session c b \<noteq> None"
  by (auto simp: drop_media_def rtsp_client_session_media_remove_def set_client_session_def find_update_where
      split: option.split)

lemma drop_medias_find:
  "find_client_session (fold (drop_media a) ms c) b \<noteq> None \<longleftrightarrow> find_client_session c b \<noteq> None"
  by (induction ms arbitrary: c) (simp_all add: drop_media_finds del: not_None_eq)

lemma session_found_lives:
  assumes "rtsp_client_session_find c sid = Some s"
  shows "find_client_session c (cs_addr s) \<noteq> None"
proof -
  from assms have "s \<in> set (cl_sessions c)"
    by (auto simp: rtsp_client_session_find_def find_Some_iff)
  then show ?thesis
    by (auto simp: find_None_iff)
qed

lemma remove_session_idle:
  assumes "idle_app cbs"
  shows "\<exists>res c'. rtsp_client_remove_session_internal cbs sid status nexist_ok c = Inr (res, c') \<and> same_requests c c'"
proof (cases "sid = None \<or> rtsp_client_session_find c (the sid) = None")
  case True
  then show ?thesis
    by (auto simp: rtsp_client_remove_session_internal_def same_requests_def split: option.split)
next
  case False
  then obtain i s where s: "sid = Some i" "rtsp_client_session_find c i = Some s"
    by auto
  let ?c = "fold (drop_media (cs_addr s)) (cs_medias s) c"
  from s(2) have "find_client_session ?c (cs_addr s) \<noteq> None"
    by (simp add: drop_medias_find session_found_lives del: not_None_eq)
  moreover have "same_requests c ?c"
    by (rule drop_medias_same) (simp add: same_requests_def)
  ultimately show ?thesis
    using s by (auto simp: rtsp_client_remove_session_internal_def call_idle [OF assms] deref_session_def
        delete_client_session_def same_requests_def)
qed

lemma set_connection_state_idle:
  "idle_app cbs \<Longrightarrow> \<exists>c'. set_connection_state cbs new c = Inr c' \<and> same_requests c c' \<and>
     cl_sock c' = cl_sock c \<and> cl_conn_state c' = new"
  by (auto simp: set_connection_state_def call_idle same_requests_def)

lemma stop_idle:
  assumes "idle_app cbs" "\<not> cl_req_is_pending c"
  shows "\<exists>c'. stop_socket e cbs c = Inr (cenv_stop e, c') \<and> same_requests c c'"
proof -
  let ?c = "c\<lparr>cl_output := cl_output c @ [Stop]\<rparr>"
  have "\<exists>c'. tskt_client_event_cb e cbs TSKT_CLIENT_EVENT_DISCONNECTED ?c = Inr c' \<and> same_requests ?c c'"
    using set_connection_state_idle [OF assms(1), of _ "clear_remote_info (?c\<lparr>cl_sock := False\<rparr>)"]
      set_connection_state_idle [OF assms(1), of _ "?c\<lparr>cl_sock := False\<rparr>"] assms(2)
    by (auto simp: tskt_client_event_cb_def Let_def request_aborted_def clear_remote_info_def same_requests_def)
  then show ?thesis
    by (auto simp: stop_socket_def Let_def same_requests_def)
qed

lemma count_failed_idle:
  assumes "idle_app cbs" "\<not> cl_req_is_pending c"
  shows "\<exists>c'. count_failed_request e cbs c = Inr c' \<and> same_requests c c'"
proof -
  let ?c = "c\<lparr>cl_failed_requests := cl_failed_requests c + 1\<rparr>"
  obtain c1 where c1: "stop_socket e cbs ?c = Inr (cenv_stop e, c1)" "same_requests ?c c1"
    using stop_idle [OF assms(1), of ?c e] assms(2) by auto
  obtain c2 where c2: "set_connection_state cbs RTSP_CLIENT_CONN_STATE_CONNECTING c1 = Inr c2" "same_requests c1 c2"
    using set_connection_state_idle [OF assms(1)] by blast
  show ?thesis
    using c1 c2 by (auto simp: count_failed_request_def Let_def connect_socket_def same_requests_def split: option.split)
qed

section \<open>Completing a request\<close>

text \<open>The methods that complete with one call, whatever the response says and the session is.\<close>

definition plain_methods :: "rtsp_method_type set" where
  "plain_methods = {RTSP_METHOD_TYPE_OPTIONS, RTSP_METHOD_TYPE_DESCRIBE, RTSP_METHOD_TYPE_ANNOUNCE,
     RTSP_METHOD_TYPE_PLAY, RTSP_METHOD_TYPE_PAUSE, RTSP_METHOD_TYPE_RECORD}"

lemma close_request_same:
  "completions (close_request resp_h c) = completions c" "\<not> cl_req_is_pending (close_request resp_h c)"
  by (simp_all add: close_request_def Let_def put_auth_def)

lemma find_response_session_same:
  "find_response_session m sid resp_h c = (res, session, c') \<Longrightarrow> same_requests c c'"
  by (auto simp: find_response_session_def refresh_session_def rtsp_client_get_session_def same_requests_def
      set_client_session_def Let_def split: if_splits option.splits)

text \<open>
  A TEARDOWN is completed when the url that was asked for is that of a media of the session or that of
  the session itself, and the session is not being torn down by the client; a session that the
  client does not have any more makes no difference.
\<close>

definition teardown_target :: "string option \<Rightarrow> client_session \<Rightarrow> bool" where
  "teardown_target uri s \<longleftrightarrow>
     (case (rtsp_url_parse_path uri, rtsp_url_parse_path (cs_content_base s)) of
        (Inr path, Inr base_path) \<Rightarrow>
          \<not> cs_internal_teardown s \<and>
          (rtsp_client_session_media_find s path \<noteq> None \<or> opt_str path = opt_str base_path)
      | _ \<Rightarrow> False)"

definition teardown_known :: "string option \<Rightarrow> rtsp_client \<Rightarrow> bool" where
  "teardown_known sid c \<longleftrightarrow>
     (case fst (rtsp_client_get_session sid False c) of
        None \<Rightarrow> True
      | Some a \<Rightarrow>
          (case find_client_session c a of
             None \<Rightarrow> True | Some s \<Rightarrow> teardown_target (req_uri (cl_req_header c)) s))"

text \<open>What the session that the response belongs to has to be for the request to be completed.\<close>

definition completes ::
  "rtsp_request_header \<Rightarrow> rtsp_client_req_status \<Rightarrow> rtsp_response_header \<Rightarrow> nat option \<Rightarrow> rtsp_client \<Rightarrow> bool" where
  "completes req status resp_h session c \<longleftrightarrow>
     req_method req \<in> plain_methods \<or>
     req_method req = RTSP_METHOD_TYPE_SETUP \<and>
       (status = RTSP_CLIENT_REQ_STATUS_OK \<longrightarrow> resp_transport resp_h \<noteq> None) \<and>
       (\<forall>a. session = Some a \<longrightarrow> find_client_session c a \<noteq> None) \<or>
     req_method req = RTSP_METHOD_TYPE_TEARDOWN \<and> (session = None \<longrightarrow> \<not> cl_req_is_internal c) \<and>
       (\<forall>a. session = Some a \<longrightarrow>
          (\<exists>s. find_client_session c a = Some s \<and> teardown_target (req_uri req) s))"

lemma parse_path_defined: "rtsp_url_parse_path uri \<noteq> Inl UB"
proof -
  have ub: "r \<noteq> Inl UB \<Longrightarrow> (\<And>x. f x \<noteq> Inl UB) \<Longrightarrow> bindr r f \<noteq> Inl UB" for r :: "'a result" and f :: "'a \<Rightarrow> 'b result"
    by (cases r) auto
  have "parse_host_and_port h \<noteq> Inl UB" for h
    by (auto simp: parse_host_and_port_def split_host_port_def parse_port_def Let_def
        split: option.split prod.split list.split)
  then show ?thesis
    by (auto simp: rtsp_url_parse_path_def rtsp_url_parse_internal_def parse_authority_def parse_path_def Let_def
        bindr_Inl_iff split: option.split prod.split)
qed

lemma media_add_idle:
  assumes "\<forall>a. session = Some a \<longrightarrow> find_client_session c a \<noteq> None"
  shows "\<exists>res c'. rtsp_client_session_media_add session path pair c = Inr (res, c') \<and> same_requests c c'"
  using assms
  by (auto simp: rtsp_client_session_media_add_def deref_session_def Let_def same_requests_def set_client_session_def
      split: option.split)

lemma update_channels_same:
  "same_requests c (update_interleaved_channels p q c)"
  "cl_sessions (update_interleaved_channels p q c) = cl_sessions c"
  by (simp_all add: update_interleaved_channels_def same_requests_def)

lemma setup_ok_idle:
  assumes "idle_app cbs" "resp_transport resp_h \<noteq> None"
    and "\<forall>a. session = Some a \<longrightarrow> find_client_session c a \<noteq> None"
  shows "\<exists>c'. setup_request_complete cbs session sid uri pair RTSP_CLIENT_REQ_STATUS_OK resp_h u c = Inr c' \<and>
    completions c' = completions c @ [(RTSP_CLIENT_REQ_STATUS_OK, u)] \<and> cl_req_is_pending c' = cl_req_is_pending c"
proof -
  obtain tr where tr: "resp_transport resp_h = Some tr"
    using assms(2) by auto
  define is_tcp where "is_tcp = (lower_transport tr = RTSP_LOWER_TRANSPORT_TCP)"
  define ports where "ports = (let p = (case interleaved tr of [] \<Rightarrow> (0, 0) | p # _ \<Rightarrow> p) in
    if is_tcp then (ucast (fst p), ucast (snd p)) else (src_stream_port tr, src_control_port tr))"
  let ?ret = "(ucast (fst ports), ucast (snd ports))"
  define c1 where "c1 = (if is_tcp then update_interleaved_channels pair ?ret c else c)"
  have c1: "same_requests c c1" "cl_sessions c1 = cl_sessions c"
    by (auto simp: c1_def update_channels_same) (simp add: same_requests_def)
  let ?call = "CallSetupResp sid RTSP_CLIENT_REQ_STATUS_OK (rtsp_status_to_errno (resp_status_code resp_h))
     (fst ports) (snd ports) (ssrc_valid tr) (ssrc tr) (resp_ext resp_h) u"
  let ?c2 = "c1\<lparr>cl_output := cl_output c1 @ [Called ?call]\<rparr>"
  have ok: "completions ?c2 = completions c @ [(RTSP_CLIENT_REQ_STATUS_OK, u)]" "cl_req_is_pending ?c2 = cl_req_is_pending c"
    using c1(1) by (simp_all add: same_requests_def)
  have add: "\<exists>res c'. rtsp_client_session_media_add session path pr ?c2 = Inr (res, c') \<and> same_requests ?c2 c'" for path pr
    using assms(3) c1(2) by (intro media_add_idle) simp
  have eq: "setup_request_complete cbs session sid uri pair RTSP_CLIENT_REQ_STATUS_OK resp_h u c =
      (case rtsp_url_parse_path uri of
         Inl UB \<Rightarrow> Inl UB
       | Inl (Err _) \<Rightarrow> Inr ?c2
       | Inr path \<Rightarrow> bindr (rtsp_client_session_media_add session path (if is_tcp then Some ?ret else None) ?c2)
           (\<lambda>(_, c). Inr c))"
    unfolding setup_request_complete_def tr option.case Let_def c1_def ports_def is_tcp_def call_idle [OF assms(1)]
    by (cases "lower_transport tr = RTSP_LOWER_TRANSPORT_TCP"; cases "interleaved tr")
      (simp_all split: sum.split failure.split)
  show ?thesis
  proof (cases "rtsp_url_parse_path uri")
    case (Inl f)
    then show ?thesis
      using eq ok parse_path_defined [of uri] by (cases f) auto
  next
    case (Inr path)
    then show ?thesis
      using eq ok add [of path "if is_tcp then Some ?ret else None"] by (auto simp: same_requests_def)
  qed
qed

lemma teardown_idle:
  assumes "idle_app cbs" "session = None \<longrightarrow> \<not> cl_req_is_internal c"
    and "\<forall>a. session = Some a \<longrightarrow> (\<exists>s. find_client_session c a = Some s \<and> teardown_target uri s)"
  shows "\<exists>removed c'. teardown_request_complete cbs session sid uri status resp_h u r c = Inr (removed, c') \<and>
    completions c' = completions c @ [(status, u)] \<and> cl_req_is_pending c' = cl_req_is_pending c"
proof (cases session)
  case None
  then show ?thesis
    using assms(2) by (simp add: teardown_request_complete_def Let_def call_idle [OF assms(1)])
next
  case (Some a)
  then obtain s where s: "find_client_session c a = Some s" "teardown_target uri s"
    using assms(3) by auto
  then obtain path base_path where paths: "rtsp_url_parse_path uri = Inr path"
      "rtsp_url_parse_path (cs_content_base s) = Inr base_path" "\<not> cs_internal_teardown s"
      "rtsp_client_session_media_find s path \<noteq> None \<or> opt_str path = opt_str base_path"
    by (auto simp: teardown_target_def split: sum.splits)
  let ?call = "CallTeardownResp (Some (cs_id s)) status (rtsp_status_to_errno (resp_status_code resp_h)) (resp_ext resp_h) u"
  let ?c1 = "c\<lparr>cl_output := cl_output c @ [Called ?call]\<rparr>"
  let ?c2 = "(set_client_session a (\<lambda>s. s\<lparr>cs_internal_teardown := False\<rparr>) ?c1)\<lparr>cl_req_is_internal := False\<rparr>"
  have c2: "completions ?c2 = completions c @ [(status, u)]" "cl_req_is_pending ?c2 = cl_req_is_pending c"
    by (simp_all add: set_client_session_def)
  have found: "find_client_session ?c2 a = Some (s\<lparr>cs_internal_teardown := False\<rparr>)"
    using s(1) by (simp add: set_client_session_def find_update_where)
  show ?thesis
  proof (cases "rtsp_client_session_media_find s path")
    case None
    then show ?thesis
      using paths s(1) c2 by (auto simp: Some teardown_request_complete_def deref_session_def call_idle [OF assms(1)])
  next
    case media: (Some m)
    then have "m \<in> set (cs_medias s)"
      by (auto simp: rtsp_client_session_media_find_def find_Some_iff split: option.splits)
    then obtain m' where m': "find (\<lambda>x. cm_addr x = cm_addr m) (cs_medias s) = Some m'"
      by (cases "find (\<lambda>x. cm_addr x = cm_addr m) (cs_medias s)") (auto simp: find_None_iff)
    have "same_requests ?c2 (drop_media a m' ?c2)"
      by (subst drop_media_same) (simp add: same_requests_def)
    moreover obtain s' where "find_client_session (drop_media a m' ?c2) a = Some s'"
      using drop_media_finds [where a = a and b = a and m = m' and c = ?c2] found by auto
    ultimately show ?thesis
      using paths s(1) c2 found m' media
      by (simp add: Some teardown_request_complete_def deref_session_def deref_media_def call_idle [OF assms(1)]
          same_requests_def)
  qed
qed

lemma report_completion_idle:
  assumes "idle_app cbs" "completes req status resp_h session c"
  shows "\<exists>removed c'. report_completion e cbs req u session sid status resp_h body c = Inr (False, removed, c') \<and>
    completions c' = completions c @ [(status, u)] \<and> cl_req_is_pending c' = cl_req_is_pending c"
proof -
  consider "req_method req \<in> plain_methods"
    | "req_method req = RTSP_METHOD_TYPE_SETUP" "status \<noteq> RTSP_CLIENT_REQ_STATUS_OK"
    | "req_method req = RTSP_METHOD_TYPE_SETUP" "status = RTSP_CLIENT_REQ_STATUS_OK" "resp_transport resp_h \<noteq> None"
      "\<forall>a. session = Some a \<longrightarrow> find_client_session c a \<noteq> None"
    | "req_method req = RTSP_METHOD_TYPE_TEARDOWN" "session = None \<longrightarrow> \<not> cl_req_is_internal c"
      "\<forall>a. session = Some a \<longrightarrow> (\<exists>s. find_client_session c a = Some s \<and> teardown_target (req_uri req) s)"
    using assms(2) unfolding completes_def by blast
  then show ?thesis
  proof cases
    case 1
    then show ?thesis
      by (auto simp: plain_methods_def report_completion_def Let_def call_idle [OF assms(1)] play_request_complete_def)
  next
    case 2
    then show ?thesis
      by (auto simp: report_completion_def Let_def call_idle [OF assms(1)] setup_request_complete_def)
  next
    case 3
    then show ?thesis
      using setup_ok_idle [OF assms(1) 3(3,4), of sid "req_uri req" "requested_channels req" u]
      by (auto simp: report_completion_def Let_def)
  next
    case 4
    then show ?thesis
      using teardown_idle [OF assms(1) 4(2,3), of sid status resp_h u "resp_status_code resp_h = 454"]
      by (auto simp: report_completion_def Let_def)
  qed
qed

lemma conclude_request_idle:
  assumes "idle_app cbs" "completes req status resp_h session c"
  shows "\<exists>c'. conclude_request e cbs req u session sid status resp_h sdp c = Inr c' \<and>
    completions c' = completions c @ [(status, u)] \<and> cl_req_is_pending c' = cl_req_is_pending c"
proof -
  obtain removed c2 where c2: "report_completion e cbs req u session sid status resp_h sdp c = Inr (False, removed, c2)"
      "completions c2 = completions c @ [(status, u)]" "cl_req_is_pending c2 = cl_req_is_pending c"
    using report_completion_idle [OF assms] by blast
  obtain res c3 where c3: "rtsp_client_remove_session_internal cbs sid
      (if status = RTSP_CLIENT_REQ_STATUS_TIMEOUT then - ETIMEDOUT else resp_status_code resp_h) False c2 = Inr (res, c3)"
      "same_requests c2 c3"
    using remove_session_idle [OF assms(1)] by blast
  let ?c = "if removed then c3 else c2"
  have "conclude_request e cbs req u session sid status resp_h sdp c =
      Inr (if status = RTSP_CLIENT_REQ_STATUS_TIMEOUT then ?c else ?c\<lparr>cl_failed_requests := 0\<rparr>)"
    using c2(1) c3(1)
    by (cases "status = RTSP_CLIENT_REQ_STATUS_TIMEOUT") (simp_all add: conclude_request_def)
  then show ?thesis
    using c2 c3(2) by (auto simp: same_requests_def)
qed

lemma close_request_sessions:
  "cl_sessions (close_request resp_h c) = cl_sessions c"
  "cl_req_is_internal (close_request resp_h c) = cl_req_is_internal c"
  by (simp_all add: close_request_def Let_def put_auth_def)

lemma find_refreshed:
  "find_client_session (refresh_session resp_h a c) b \<noteq> None \<longleftrightarrow> find_client_session c b \<noteq> None"
  by (auto simp: refresh_session_def set_client_session_def find_update_where reset_keep_alive_timer_def)

lemma update_found:
  "find_client_session c a = Some s \<Longrightarrow> (\<And>x. cs_addr (f x) = cs_addr x) \<Longrightarrow>
   find_client_session (set_client_session a f c) a = Some (f s)"
  by (simp add: set_client_session_def find_update_where)

lemma refreshed_target:
  assumes "find_client_session c a = Some s" "teardown_target uri s"
  shows "\<exists>s'. find_client_session (refresh_session resp_h a c) a = Some s' \<and> teardown_target uri s'"
proof -
  let ?f = "\<lambda>s. (reset_keep_alive_timer (sint (keep_alive_delay resp_h))
               (s\<lparr>cs_keep_alive_in_progress := False, cs_timeout_ms := keep_alive_delay resp_h\<rparr>))
             \<lparr>cs_content_base := (if cl_req_content_base c \<noteq> None \<and> cs_content_base s = None
                                  then cl_req_content_base c else cs_content_base s)\<rparr>"
  have f: "cs_addr (?f s) = cs_addr s" "cs_medias (?f s) = cs_medias s"
      "cs_internal_teardown (?f s) = cs_internal_teardown s" for s
    by (simp_all add: reset_keep_alive_timer_def)
  have none: "rtsp_url_parse_path None = Inl (Err (- EINVAL))"
    by (simp add: rtsp_url_parse_path_def rtsp_url_parse_internal_def)
  have base: "cs_content_base s \<noteq> None"
    using assms(2) none by (cases "cs_content_base s") (simp_all add: teardown_target_def split: sum.splits)
  have "find_client_session (refresh_session resp_h a c) a = Some (?f s)"
  proof -
    have "cl_sessions (refresh_session resp_h a c) = cl_sessions (set_client_session a ?f c)"
      by (simp add: refresh_session_def)
    then show ?thesis by (simp only: update_found [OF assms(1), of ?f, OF f(1)])
  qed
  moreover have "cs_content_base (?f s) = cs_content_base s"
      "rtsp_client_session_media_find (?f s) = rtsp_client_session_media_find s"
    using base by (auto simp: rtsp_client_session_media_find_def fun_eq_iff reset_keep_alive_timer_def
        split: option.split)
  then have "teardown_target uri (?f s)"
    using assms(2) unfolding teardown_target_def f(3) by (simp only:)
  ultimately show ?thesis by blast
qed

text \<open>
  When a completion is reported once: a SETUP that succeeded names its transport, and a TEARDOWN of
  the application is for something that the client has, or for a session that it does not have.
\<close>

definition completable :: "rtsp_client_req_status \<Rightarrow> rtsp_response_header \<Rightarrow> string option \<Rightarrow> rtsp_client \<Rightarrow> bool" where
  "completable status resp_h sid c \<longleftrightarrow>
     (let m = req_method (cl_req_header c) in
      m \<in> plain_methods \<or>
      m = RTSP_METHOD_TYPE_SETUP \<and> (status = RTSP_CLIENT_REQ_STATUS_OK \<longrightarrow> resp_transport resp_h \<noteq> None) \<or>
      m = RTSP_METHOD_TYPE_TEARDOWN \<and> \<not> cl_req_is_internal c \<and> teardown_known sid c)"

lemma completable_timer: "completable status resp_h sid (c\<lparr>cl_req_timer := x\<rparr>) = completable status resp_h sid c"
  by (simp add: completable_def teardown_known_def rtsp_client_get_session_def rtsp_client_session_find_def Let_def
      split: option.split)

lemma response_session_completes:
  assumes "find_response_session (req_method (cl_req_header c)) sid resp_h (close_request resp_h c) = (res, session, c')"
    and "completable status resp_h sid c"
  shows "completes (cl_req_header c) status resp_h session c'"
proof -
  let ?req = "cl_req_header c" and ?c = "close_request resp_h c"
  consider "req_method ?req \<in> plain_methods"
    | "req_method ?req = RTSP_METHOD_TYPE_SETUP" "status = RTSP_CLIENT_REQ_STATUS_OK \<longrightarrow> resp_transport resp_h \<noteq> None"
    | "req_method ?req = RTSP_METHOD_TYPE_TEARDOWN" "\<not> cl_req_is_internal c" "teardown_known sid c"
    using assms(2) by (auto simp: completable_def Let_def)
  then show ?thesis
  proof cases
    case 1
    then show ?thesis by (simp add: completes_def)
  next
    case 2
    have "find_client_session c' a \<noteq> None" if "session = Some a" for a
    proof -
      obtain new c2 where g: "rtsp_client_get_session sid True ?c = (new, c2)"
        by fastforce
      moreover have "sid \<noteq> None"
        using assms(1) that by (cases sid) (simp_all add: find_response_session_def)
      ultimately have c2: "rtsp_client_get_session sid True ?c = (Some a, c2)" "c' = refresh_session resp_h a c2"
        using assms(1) 2(1) that by (cases new; simp add: find_response_session_def)+
      have "find_client_session c2 a \<noteq> None"
        using c2(1) by (cases sid; auto simp: rtsp_client_get_session_def rtsp_client_session_find_def new_client_session_def Let_def
            find_None_iff find_Some_iff simp del: not_None_eq split: option.splits)
          (use nth_mem in blast)
      then show ?thesis
        unfolding c2(2) find_refreshed .
    qed
    with 2 show ?thesis by (simp add: completes_def)
  next
    case 3
    have same: "rtsp_client_get_session sid False ?c = (fst (rtsp_client_get_session sid False c), ?c)"
      by (simp add: rtsp_client_get_session_def rtsp_client_session_find_def close_request_sessions split: option.split)
    show ?thesis
    proof (cases "fst (rtsp_client_get_session sid False c)")
      case None
      then have "session = None" "c' = ?c"
        using assms(1) same 3(1) by (auto simp: find_response_session_def split: if_splits)
      with 3 show ?thesis by (simp add: completes_def close_request_sessions)
    next
      case (Some a)
      then obtain s where s: "find_client_session c a = Some s"
        using session_found_lives by (auto simp: rtsp_client_get_session_def split: option.splits)
      have c': "session = Some a" "c' = refresh_session resp_h a ?c"
        using assms(1) same 3(1) Some
        by (auto simp: find_response_session_def rtsp_client_get_session_def split: if_splits option.splits)
      have "teardown_target (req_uri ?req) s"
        using 3(3) Some s by (simp add: teardown_known_def)
      with refreshed_target [where c = ?c and a = a and s = s] s 3(1) c' show ?thesis
        by (simp add: completes_def close_request_sessions)
    qed
  qed
qed

lemma complete_request_idle:
  assumes "idle_app cbs"
    and "h = (case resp of None \<Rightarrow> dummy_response (req_session_id (cl_req_header c)) status | Some h \<Rightarrow> h)"
    and "status' = completion_status status (resp_status_code h)"
    and "completable status' h
      (if resp_session_id h \<noteq> None then resp_session_id h else req_session_id (cl_req_header c)) c"
  shows "\<exists>res c'. complete_request e cbs resp (Inr body) status c = Inr (res, c') \<and>
    completions c' = completions c @ [(status', cl_req_userdata c)] \<and> \<not> cl_req_is_pending c'"
proof -
  let ?req = "cl_req_header c"
  let ?sid = "if resp_session_id h \<noteq> None then resp_session_id h else req_session_id ?req"
  let ?sdp = "if req_method ?req = RTSP_METHOD_TYPE_DESCRIBE then body else []"
  obtain res session c1 where c1: "find_response_session (req_method ?req) ?sid h (close_request h c) = (res, session, c1)"
    by (cases "find_response_session (req_method ?req) ?sid h (close_request h c)") auto
  obtain c2 where c2: "conclude_request e cbs ?req (cl_req_userdata c) session ?sid status' h ?sdp c1 = Inr c2"
      "completions c2 = completions c1 @ [(status', cl_req_userdata c)]" "cl_req_is_pending c2 = cl_req_is_pending c1"
    using conclude_request_idle [OF assms(1) response_session_completes [OF c1 assms(4)]] by blast
  have copied: "(if req_method ?req = RTSP_METHOD_TYPE_DESCRIBE then Inr body else Inr []) = (Inr ?sdp :: string result)"
    by simp
  have "complete_request e cbs resp (Inr body) status c = Inr (res, c2)"
    unfolding complete_request_def Let_def assms(2) [symmetric] assms(3) [symmetric] c1 prod.case copied sum.case
      c2(1) by simp
  then show ?thesis
    using find_response_session_same [OF c1] c2 by (auto simp: same_requests_def close_request_same)
qed

lemma request_complete_idle:
  assumes "idle_app cbs" "cl_req_is_pending c"
    and "h = (case resp of None \<Rightarrow> dummy_response (req_session_id (cl_req_header c)) status | Some h \<Rightarrow> h)"
    and "status' = completion_status status (resp_status_code h)"
    and "completable status' h
      (if resp_session_id h \<noteq> None then resp_session_id h else req_session_id (cl_req_header c)) c"
  shows "\<exists>res c'. request_complete e cbs resp (Inr body) status c = Inr (res, c') \<and>
    completions c' = completions c @ [(status', cl_req_userdata c)] \<and> \<not> cl_req_is_pending c'"
proof -
  obtain res c1 where c1: "complete_request e cbs resp (Inr body) status c = Inr (res, c1)"
      "completions c1 = completions c @ [(status', cl_req_userdata c)]" "\<not> cl_req_is_pending c1"
    using complete_request_idle [OF assms(1,3-5)] by blast
  obtain c2 where c2: "count_failed_request e cbs c1 = Inr c2" "same_requests c1 c2"
    using count_failed_idle [OF assms(1) c1(3)] by blast
  show ?thesis
    using assms(2) c1 c2 by (auto simp: request_complete_def same_requests_def)
qed

section \<open>The errors of the writers are negative\<close>

definition negative :: "'a result \<Rightarrow> bool" where
  "negative r \<longleftrightarrow> (\<forall>err. r = Inl (Err err) \<longrightarrow> err < 0)"

text \<open>What \<open>time_local_format\<close> of libfutils documents: an error is a negative errno.\<close>

definition negative_formatter :: "time_formatter \<Rightarrow> bool" where
  "negative_formatter fmt \<longleftrightarrow> (\<forall>f t. negative (fmt f t))"

lemma negative_simps [simp]:
  "negative (Inr x)" "negative (Inl UB)" "negative (Inl (Err err)) = (err < 0)"
  by (simp_all add: negative_def)

lemma negative_bind: "negative r \<Longrightarrow> (\<And>x. negative (f x)) \<Longrightarrow> negative (bindr r f)"
  by (cases r) (auto simp: negative_def bindr_Inl_iff)

lemma negative_sprintf [simp]: "negative (rtsp_sprintf s t)"
  by (simp add: rtsp_sprintf_def)

lemma negative_lists [simp]:
  "negative (write_ext ext s)" "negative (write_pairs first ps s)" "negative (append_fields first fs s)"
proof -
  show "negative (write_ext ext s)"
    by (induction ext arbitrary: s) (auto intro!: negative_bind)
  show "negative (write_pairs first ps s)"
    by (induction ps arbitrary: first s) (auto intro!: negative_bind)
  show "negative (append_fields first fs s)"
    by (induction fs arbitrary: first s) (auto intro!: negative_bind split: option.split)
qed

lemma negative_transport_one [simp]: "negative (transport_write_one t p q s)"
  by (auto simp: transport_write_one_def write_opt_def write_unsigned_def write_ports_def write_port_pair_def
      write_interleaved_def intro!: negative_bind split: option.split)

lemma negative_transport_from [simp]: "negative (transport_write_from ts s)"
  by (induction ts arbitrary: s) (auto intro!: negative_bind)

lemma negative_fields [simp]:
  "negative (write_text n v s)" "negative (write_cseq k s)" "negative (write_session sid w s)"
  "negative (write_transports ts s)" "negative (write_authorization auth s)" "negative (write_scale sc s)"
  by (auto simp: write_text_def write_cseq_def write_session_def rtsp_session_header_write_def write_transports_def
      rtsp_transport_header_write_def write_authorization_def rtsp_authorization_header_write_def write_scale_def
      intro!: negative_bind split: option.split rtsp_auth_type.split)

lemma negative_range_times [simp]: "negative (write_range_times r s)"
  by (auto simp: write_range_times_def rtsp_time_write_def intro!: negative_bind split: rtsp_time_format.split)

lemma write_request_negative:
  assumes "negative_formatter (cenv_format e)"
  shows "negative (write_request e h content)"
proof -
  have "negative (write_date (cenv_format e) d s)" "negative (write_range (cenv_format e) r s)" for d r s
    using assms by (auto simp: write_date_def write_range_def rtsp_range_header_write_def write_range_time_def
        negative_formatter_def intro!: negative_bind)
  then show ?thesis
    by (auto simp: write_request_def rtsp_request_header_write_def intro!: negative_bind split: option.split)
qed

section \<open>Accepting a request\<close>

definition filled :: "rtsp_method_type \<Rightarrow> nat \<Rightarrow> 32 word \<Rightarrow> rtsp_client \<Rightarrow> bool" where
  "filled m u cseq c \<longleftrightarrow>
     req_method (cl_req_header c) = m \<and> cl_req_userdata c = u \<and> cl_cseq c = cseq \<and>
     req_cseq (cl_req_header c) = sint cseq"

definition accepted :: "rtsp_method_type \<Rightarrow> nat \<Rightarrow> 32 word \<Rightarrow> 32 word \<Rightarrow> rtsp_client \<Rightarrow> bool" where
  "accepted m u t cseq c \<longleftrightarrow>
     cl_req_is_pending c \<and> req_method (cl_req_header c) = m \<and> cl_req_userdata c = u \<and>
     (t \<noteq> 0 \<longrightarrow> cl_req_timer c = Some t) \<and> req_cseq (cl_req_header c) = sint cseq"

text \<open>What holds when a function has not returned an error.\<close>

abbreviation succeeds :: "(rtsp_client \<Rightarrow> bool) \<Rightarrow> client_result \<Rightarrow> bool" where
  "succeeds P \<equiv> ensures (\<lambda>(res, c). res \<ge> 0 \<longrightarrow> P c)"

lemma succeeds_and_then: "succeeds Q r \<Longrightarrow> (\<And>c. Q c \<Longrightarrow> succeeds P (f c)) \<Longrightarrow> succeeds P (and_then r f)"
  unfolding and_then_def by (auto intro!: ensures_bind)

lemma filled_copy_ext [simp]:
  "req_method (rtsp_request_header_copy_ext ext h) = req_method h"
  "req_cseq (rtsp_request_header_copy_ext ext h) = req_cseq h"
  by (simp_all add: rtsp_request_header_copy_ext_def)

lemma filled_header:
  "cl_cseq c = cseq \<Longrightarrow> filled m u cseq (address_header uri (new_header m u c))"
  "cl_cseq c = cseq \<Longrightarrow> filled m u cseq (address_header uri
     ((new_header m u c)\<lparr>cl_req_uri := x, cl_req_content_base := y\<rparr>))"
  by (simp_all add: filled_def address_header_def new_header_def)

lemma filled_finish:
  "filled m u cseq c \<Longrightarrow>
   (\<And>h. req_method (fill h) = req_method h \<and> req_cseq (fill h) = req_cseq h) \<Longrightarrow>
   filled m u cseq (finish_header fill ext c)"
  by (simp add: filled_def finish_header_def)

lemma begin_cseq: "succeeds (\<lambda>c'. cl_cseq c' = cl_cseq c) (begin_request c)"
  by (simp add: begin_request_def clear_pending_keep_alive_timer_def)

lemma filled_authorization:
  "filled m u cseq c \<Longrightarrow> ensures (\<lambda>(res, c). filled m u cseq c) (add_authorization e c)"
  by (simp add: add_authorization_def put_auth_def filled_def split: sum.split failure.split)

lemma succeeds_authorization: "filled m u cseq c \<Longrightarrow> succeeds (filled m u cseq) (add_authorization e c)"
  using filled_authorization by (fastforce simp: ensures_def)

lemma succeeds_try_authorization: "filled m u cseq c \<Longrightarrow> succeeds (filled m u cseq) (try_authorization e c)"
  unfolding try_authorization_def by (auto intro!: ensures_bind [OF filled_authorization])

lemma succeeds_transport:
  "filled m u cseq c \<Longrightarrow> succeeds (filled m u cseq) (setup_request_transport dlv lower p1 p2 meth c)"
  by (auto simp: setup_request_transport_def allocate_interleaved_channels_def filled_def Let_def
      split: option.split)

lemma succeeds_send:
  assumes "negative_formatter (cenv_format e)" "filled m u cseq c"
  shows "succeeds (accepted m u t cseq) (send_pending e content t c)"
proof (cases "write_request e (cl_req_header c) content")
  case (Inl f)
  then show ?thesis
    using write_request_negative [OF assms(1), of "cl_req_header c" content]
    by (cases f) (auto simp: send_pending_def client_send_request_def negative_def)
next
  case (Inr buf)
  then show ?thesis
    using assms(2)
    by (auto simp: send_pending_def client_send_request_def send_raw_buf_def filled_def accepted_def word_gt_0)
qed

lemmas succeeds_intros = succeeds_and_then [OF begin_cseq] succeeds_and_then [OF succeeds_authorization]
  succeeds_and_then [OF succeeds_try_authorization] succeeds_and_then [OF succeeds_transport]
  succeeds_send filled_header filled_finish ensures_any [where r = "make_uri path c" for path c]
  ensures_any [where r = "check_setup_session sid base c" for sid base c]
  ensures_any [where r = "deref_session a c" for a c]

text \<open>The requests of the application with their method, user pointer and timeout.\<close>

fun api_request :: "client_api \<Rightarrow> (rtsp_method_type \<times> nat \<times> 32 word) option" where
  "api_request (ApiOptions ext u t) = Some (RTSP_METHOD_TYPE_OPTIONS, u, t)"
| "api_request (ApiDescribe path ext u t) = Some (RTSP_METHOD_TYPE_DESCRIBE, u, t)"
| "api_request (ApiAnnounce path sdp ext u t) = Some (RTSP_METHOD_TYPE_ANNOUNCE, u, t)"
| "api_request (ApiSetup base url sid dlv lower p1 p2 meth ext u t) = Some (RTSP_METHOD_TYPE_SETUP, u, t)"
| "api_request (ApiPlay sid rng scale ext u t) = Some (RTSP_METHOD_TYPE_PLAY, u, t)"
| "api_request (ApiPause sid rng ext u t) = Some (RTSP_METHOD_TYPE_PAUSE, u, t)"
| "api_request (ApiRecord sid rng ext u t) = Some (RTSP_METHOD_TYPE_RECORD, u, t)"
| "api_request (ApiTeardown url sid ext u t) = Some (RTSP_METHOD_TYPE_TEARDOWN, u, t)"
| "api_request _ = None"

lemma negative_uri: "format_request_uri base url = Inl (Err res) \<Longrightarrow> res < 0"
  by (auto simp: format_request_uri_def split: option.splits if_splits)

lemma negative_strip: "rtsp_url_strip_credentials is_ip url = Inl (Err res) \<Longrightarrow> res < 0"
proof -
  have port: "negative (parse_host_and_port h)" for h
    by (auto simp: parse_host_and_port_def split_host_port_def parse_port_def Let_def
        intro!: negative_bind split: option.split prod.split list.split)
  have "negative (rtsp_url_parse is_ip url)"
    by (auto simp: rtsp_url_parse_def rtsp_url_parse_internal_def parse_authority_def parse_path_def Let_def port
        intro!: negative_bind split: option.split prod.split)
  moreover have "negative (rtsp_url_to_str u)" for u
    by (auto simp: rtsp_url_to_str_def rtsp_url_to_str_internal_def Let_def split: option.split)
  ultimately have "negative (rtsp_url_strip_credentials is_ip url)"
    unfolding rtsp_url_strip_credentials_def by (rule negative_bind)
  then show "rtsp_url_strip_credentials is_ip url = Inl (Err res) \<Longrightarrow> res < 0"
    by simp
qed

lemma succeeds_client_send:
  assumes "negative_formatter (cenv_format e)" "filled m u cseq c"
  shows "succeeds (\<lambda>c'. filled m u cseq c' \<and> (t \<noteq> 0 \<longrightarrow> cl_req_timer c' = Some t)) (client_send_request e content t c)"
proof (cases "write_request e (cl_req_header c) content")
  case (Inl f)
  then show ?thesis
    using write_request_negative [OF assms(1), of "cl_req_header c" content]
    by (cases f) (auto simp: client_send_request_def negative_def)
next
  case (Inr buf)
  then show ?thesis
    using assms(2) by (auto simp: client_send_request_def send_raw_buf_def filled_def word_gt_0)
qed

lemma teardown_accepted:
  assumes "negative_formatter (cenv_format e)"
  shows "succeeds (\<lambda>c'. accepted RTSP_METHOD_TYPE_TEARDOWN u t (cl_cseq c) c' \<and> \<not> cl_req_is_internal c')
    (rtsp_client_teardown e cbs url sid ext u t c)"
proof -
  let ?P = "\<lambda>c'. accepted RTSP_METHOD_TYPE_TEARDOWN u t (cl_cseq c) c' \<and> \<not> cl_req_is_internal c'"
  have sent: "succeeds ?P (and_then (client_send_request e None t (finish_header (\<lambda>h. h\<lparr>req_session_id := sid\<rparr>) ext c2))
      (\<lambda>c. Inr (0, (set_client_session a (\<lambda>s. s\<lparr>cs_internal_teardown := False\<rparr>) c)
         \<lparr>cl_req_is_internal := False, cl_req_is_pending := True, cl_cseq := cl_cseq c + 1\<rparr>)))"
    if "filled RTSP_METHOD_TYPE_TEARDOWN u (cl_cseq c) c2" for c2 a
  proof (rule succeeds_and_then [OF succeeds_client_send [OF assms filled_finish [OF that]]])
    fix c3
    assume "filled RTSP_METHOD_TYPE_TEARDOWN u (cl_cseq c) c3 \<and> (t \<noteq> 0 \<longrightarrow> cl_req_timer c3 = Some t)"
    then show "succeeds ?P (Inr (0, (set_client_session a (\<lambda>s. s\<lparr>cs_internal_teardown := False\<rparr>) c3)
         \<lparr>cl_req_is_internal := False, cl_req_is_pending := True, cl_cseq := cl_cseq c3 + 1\<rparr>))"
      by (simp add: filled_def accepted_def set_client_session_def)
  qed simp
  have addressed: "succeeds ?P (case r of Inl UB \<Rightarrow> Inl UB | Inl (Err res) \<Rightarrow> Inr (res, c0)
      | Inr uri \<Rightarrow> and_then (add_authorization e (address_header uri (new_header RTSP_METHOD_TYPE_TEARDOWN u c1)))
          (\<lambda>c. and_then (client_send_request e None t (finish_header (\<lambda>h. h\<lparr>req_session_id := sid\<rparr>) ext c))
            (\<lambda>c. Inr (0, (set_client_session a (\<lambda>s. s\<lparr>cs_internal_teardown := False\<rparr>) c)
             \<lparr>cl_req_is_internal := False, cl_req_is_pending := True, cl_cseq := cl_cseq c + 1\<rparr>))))"
    if "cl_cseq c1 = cl_cseq c" "\<And>res. r = Inl (Err res) \<Longrightarrow> res < 0" for r c0 c1 a
  proof (cases r)
    case (Inl f)
    then show ?thesis using that(2) by (cases f) fastforce+
  next
    case (Inr uri)
    then show ?thesis
      by (simp only: sum.case) (rule succeeds_and_then [OF succeeds_authorization [OF filled_header(1) [OF that(1)]] sent])
  qed
  have negative: "res < 0" if "(if url \<noteq> None \<and> url \<noteq> Some [] then bindr (format_request_uri base url) (\<lambda>uri. Inr (Some uri))
      else Inr base) = Inl (Err res)" for base res
    using that by (auto simp: bindr_Inl_iff dest: negative_uri split: if_splits)
  show ?thesis
  proof (cases "sid = None \<or> sid = Some [] \<or> \<not> ccbs_has cbs TeardownRespCb \<or> \<not> is_method_allowed 0x040 c")
    case True
    then show ?thesis
      by (auto simp: rtsp_client_teardown_def send_teardown_def)
  next
    case False
    have "succeeds ?P (case fst (rtsp_client_get_session sid False c1) of None \<Rightarrow> Inr (- ENOENT, c1)
      | Some a \<Rightarrow> bindr (deref_session a c1) (\<lambda>s.
          case (if url \<noteq> None \<and> url \<noteq> Some [] then bindr (format_request_uri (cs_content_base s) url) (\<lambda>uri. Inr (Some uri))
                else Inr (cs_content_base s)) of
            Inl UB \<Rightarrow> Inl UB
          | Inl (Err res) \<Rightarrow> Inr (res, new_header RTSP_METHOD_TYPE_TEARDOWN u c1)
          | Inr uri \<Rightarrow> and_then (add_authorization e (address_header uri (new_header RTSP_METHOD_TYPE_TEARDOWN u c1)))
              (\<lambda>c. and_then (client_send_request e None t (finish_header (\<lambda>h. h\<lparr>req_session_id := sid\<rparr>) ext c))
                (\<lambda>c. Inr (0, (set_client_session a (\<lambda>s. s\<lparr>cs_internal_teardown := False\<rparr>) c)
                 \<lparr>cl_req_is_internal := False, cl_req_is_pending := True, cl_cseq := cl_cseq c + 1\<rparr>)))))"
      if "cl_cseq c1 = cl_cseq c" for c1
    proof (cases "fst (rtsp_client_get_session sid False c1)")
      case (Some a)
      show ?thesis
        unfolding Some option.case
        by (rule ensures_any, rule addressed [OF that], erule negative)
    qed simp
    note looked_up = succeeds_and_then [OF begin_cseq this]
    show ?thesis
      unfolding rtsp_client_teardown_def send_teardown_def Let_def
      using False looked_up by simp
  qed
qed

lemma api_accepted:
  assumes "negative_formatter (cenv_format e)" "api_request a = Some (m, u, t)"
  shows "succeeds (\<lambda>c'. accepted m u t (cl_cseq c) c' \<and> (m = RTSP_METHOD_TYPE_TEARDOWN \<longrightarrow> \<not> cl_req_is_internal c'))
    (client_api_step e cbs a c)"
proof (cases "m = RTSP_METHOD_TYPE_TEARDOWN")
  case True
  with assms show ?thesis
    using teardown_accepted [OF assms(1)] by (cases a) auto
next
  case False
  have session: "succeeds (accepted m u t (cl_cseq c)) (session_request e cbs m flag cb fill sid rng ext u t c)"
    if "\<And>h. req_method (fill h) = req_method h \<and> req_cseq (fill h) = req_cseq h" for m flag cb fill sid rng ext u t
    unfolding session_request_def using that assms(1) by (auto intro!: succeeds_intros split: option.split)
  have set_up: "succeeds (accepted RTSP_METHOD_TYPE_SETUP u t (cl_cseq c))
      (rtsp_client_setup e cbs base url sid dlv lower p1 p2 meth ext u t c)" for base url sid dlv lower p1 p2 meth ext u t
    unfolding rtsp_client_setup_def Let_def
    by (intro ensures_if succeeds_intros; auto simp: assms(1) dest: negative_uri negative_strip intro!: succeeds_intros
      split: sum.split failure.split)
  have "succeeds (accepted m u t (cl_cseq c)) (client_api_step e cbs a c)"
    using assms False
    by (cases a) (auto simp: set_up rtsp_client_options_def rtsp_client_describe_def rtsp_client_announce_def
        rtsp_client_play_def rtsp_client_pause_def rtsp_client_record_def intro!: succeeds_intros session split: option.split)
  with False show ?thesis by simp
qed

lemma api_request_methods:
  "api_request a = Some (m, u, t) \<Longrightarrow>
   m \<in> plain_methods \<union> {RTSP_METHOD_TYPE_SETUP, RTSP_METHOD_TYPE_TEARDOWN}"
  by (cases a) (auto simp: plain_methods_def)

text \<open>
  C9: A request that the application makes while none is pending, with a timeout, and that the client
  accepts is completed, by an application that does nothing in its callbacks: when nothing else
  happens the timer that sending has set completes it with the status TIMEOUT; a cancellation
  completes it with CANCELED, and the response that has its CSeq with OK or FAILED. Each of these calls
  the application back once, with its own pointer, and leaves the client free for the next request.
  There are two exceptions: a TEARDOWN whose url is neither that of a media of the session nor that of
  the session (a session that the client does not have is no exception), or whose session is being
  torn down by the client, and a SETUP whose response has a 2xx status and no Transport.
\<close>

theorem accepted_request_completes:
  assumes "negative_formatter (cenv_format e)" "idle_app cbs" "api_request a = Some (m, u, t)" "t \<noteq> 0"
    and "client_api_step e cbs a c = Inr (0, c1)"
  shows "cl_req_timer c1 = Some t \<and>
    ((m = RTSP_METHOD_TYPE_TEARDOWN \<longrightarrow> teardown_known (req_session_id (cl_req_header c1)) c1) \<longrightarrow>
      (\<exists>c2. rtsp_client_resp_timeout_cb e' cbs c1 = Inr c2 \<and>
        completions c2 = completions c1 @ [(RTSP_CLIENT_REQ_STATUS_TIMEOUT, u)] \<and> \<not> cl_req_is_pending c2) \<and>
      (\<exists>ret c2. rtsp_client_cancel e' cbs c1 = Inr (ret, c2) \<and>
        completions c2 = completions c1 @ [(RTSP_CLIENT_REQ_STATUS_CANCELED, u)] \<and> \<not> cl_req_is_pending c2)) \<and>
    (resp_cseq h = sint (cl_cseq c) \<and>
     (m = RTSP_METHOD_TYPE_SETUP \<and> resp_status_code h div 100 = 2 \<longrightarrow> resp_transport h \<noteq> None) \<and>
     (m = RTSP_METHOD_TYPE_TEARDOWN \<longrightarrow> teardown_known
        (if resp_session_id h \<noteq> None then resp_session_id h else req_session_id (cl_req_header c1)) c1) \<longrightarrow>
      (\<exists>ret c2. rtsp_client_response_process e' cbs h (Inr body) c1 = Inr (ret, c2) \<and>
         completions c2 = completions c1 @ [(if resp_status_code h div 100 = 2 then RTSP_CLIENT_REQ_STATUS_OK
           else RTSP_CLIENT_REQ_STATUS_FAILED, u)] \<and> \<not> cl_req_is_pending c2))"
proof -
  have acc: "accepted m u t (cl_cseq c) c1" "m = RTSP_METHOD_TYPE_TEARDOWN \<longrightarrow> \<not> cl_req_is_internal c1"
    using api_accepted [OF assms(1,3), of c cbs] assms(5) by simp_all
  then have timer: "cl_req_timer c1 = Some t"
    using assms(4) by (simp add: accepted_def)
  have m: "req_method (cl_req_header c1) = m" "m \<in> plain_methods \<union> {RTSP_METHOD_TYPE_SETUP, RTSP_METHOD_TYPE_TEARDOWN}"
    using api_request_methods [OF assms(3)] acc by (simp_all add: accepted_def)
  let ?sid = "req_session_id (cl_req_header c1)"
  have known: "completable st h' sid c1"
    if "m = RTSP_METHOD_TYPE_TEARDOWN \<longrightarrow> teardown_known sid c1"
      "m = RTSP_METHOD_TYPE_SETUP \<and> st = RTSP_CLIENT_REQ_STATUS_OK \<longrightarrow> resp_transport h' \<noteq> None" for st h' sid
    using that m acc(2) by (auto simp: completable_def Let_def)
  note completes = request_complete_idle [OF assms(2)]
  have dummy: "resp_session_id (dummy_response ?sid st) = ?sid" for st
    by (simp add: dummy_response_def)
  have same: "(if resp_session_id (dummy_response ?sid st) \<noteq> None then resp_session_id (dummy_response ?sid st) else ?sid) = ?sid" for st
    unfolding dummy by simp
  have timeout: "\<exists>c2. rtsp_client_resp_timeout_cb e' cbs c1 = Inr c2 \<and>
      completions c2 = completions c1 @ [(RTSP_CLIENT_REQ_STATUS_TIMEOUT, u)] \<and> \<not> cl_req_is_pending c2"
    if known1: "m = RTSP_METHOD_TYPE_TEARDOWN \<longrightarrow> teardown_known ?sid c1"
  proof -
    let ?c = "c1\<lparr>cl_req_timer := None\<rparr>" and ?h = "dummy_response ?sid RTSP_CLIENT_REQ_STATUS_TIMEOUT"
    have header: "cl_req_header ?c = cl_req_header c1" by simp
    have "completable RTSP_CLIENT_REQ_STATUS_TIMEOUT ?h
        (if resp_session_id ?h \<noteq> None then resp_session_id ?h else req_session_id (cl_req_header ?c)) ?c"
      unfolding header same completable_timer using known [OF known1] by simp
    then have "\<exists>res c'. request_complete e' cbs None (Inr []) RTSP_CLIENT_REQ_STATUS_TIMEOUT ?c = Inr (res, c') \<and>
        completions c' = completions ?c @ [(RTSP_CLIENT_REQ_STATUS_TIMEOUT, cl_req_userdata ?c)] \<and> \<not> cl_req_is_pending c'"
      by (intro completes [where h = ?h], use acc in \<open>simp add: accepted_def\<close>)
        (simp, simp add: completion_status_def, assumption)
    then show ?thesis
      using acc by (auto simp: rtsp_client_resp_timeout_cb_def accepted_def)
  qed
  have cancel: "\<exists>ret c2. rtsp_client_cancel e' cbs c1 = Inr (ret, c2) \<and>
      completions c2 = completions c1 @ [(RTSP_CLIENT_REQ_STATUS_CANCELED, u)] \<and> \<not> cl_req_is_pending c2"
    if known1: "m = RTSP_METHOD_TYPE_TEARDOWN \<longrightarrow> teardown_known ?sid c1"
  proof -
    let ?h = "dummy_response ?sid RTSP_CLIENT_REQ_STATUS_CANCELED"
    have "completable RTSP_CLIENT_REQ_STATUS_CANCELED ?h (if resp_session_id ?h \<noteq> None then resp_session_id ?h else ?sid) c1"
      unfolding same using known [OF known1] by simp
    then have "\<exists>res c'. request_complete e' cbs None (Inr []) RTSP_CLIENT_REQ_STATUS_CANCELED c1 = Inr (res, c') \<and>
        completions c' = completions c1 @ [(RTSP_CLIENT_REQ_STATUS_CANCELED, cl_req_userdata c1)] \<and> \<not> cl_req_is_pending c'"
      by (intro completes [where h = ?h], use acc in \<open>simp add: accepted_def\<close>)
        (simp, simp add: completion_status_def, assumption)
    then show ?thesis
      using acc by (auto simp: rtsp_client_cancel_def accepted_def)
  qed
  have response: "\<exists>ret c2. rtsp_client_response_process e' cbs h (Inr body) c1 = Inr (ret, c2) \<and>
         completions c2 = completions c1 @ [(if resp_status_code h div 100 = 2 then RTSP_CLIENT_REQ_STATUS_OK
           else RTSP_CLIENT_REQ_STATUS_FAILED, u)] \<and> \<not> cl_req_is_pending c2"
    if "resp_cseq h = sint (cl_cseq c)"
      "m = RTSP_METHOD_TYPE_SETUP \<and> resp_status_code h div 100 = 2 \<longrightarrow> resp_transport h \<noteq> None"
      "m = RTSP_METHOD_TYPE_TEARDOWN \<longrightarrow> teardown_known (if resp_session_id h \<noteq> None then resp_session_id h else ?sid) c1"
    using completes [of c1 h RTSP_CLIENT_REQ_STATUS_OK "Some h"
        "completion_status RTSP_CLIENT_REQ_STATUS_OK (resp_status_code h)" e' body]
      known [OF that(3), of "completion_status RTSP_CLIENT_REQ_STATUS_OK (resp_status_code h)" h] that acc
    by (auto simp: completion_status_def rtsp_client_response_process_def accepted_def)
  show ?thesis
    using timer timeout cancel response by blast
qed

end
