(* ===== verification/RtspClientKeepAlive.thy ===== *)
theory RtspClientKeepAlive
  imports RtspClientCompletion
begin

text \<open>
  The keep-alive of a session while the client is not connected: after the third expiry of its timer
  the session is given up, the application is told, and its channels are free again.
\<close>

section \<open>One session\<close>

lemma session_found_by_id:
  assumes "client_sessions_ok n (cl_sessions c)" "find_client_session c a = Some s"
  shows "rtsp_client_session_find c (cs_id s) = Some s"
proof -
  let ?key = "\<lambda>s. take RTSP_CLIENT_SESSION_ID_LENGTH (cs_id s)"
  from assms(2) have s: "s \<in> set (cl_sessions c)"
    by (auto simp: find_Some_iff)
  have "find (\<lambda>t. ?key t = ?key s) (cl_sessions c) = Some s"
  proof (cases "find (\<lambda>t. ?key t = ?key s) (cl_sessions c)")
    case None
    then show ?thesis using s by (auto simp: find_None_iff)
  next
    case (Some t)
    then have "t \<in> set (cl_sessions c)" "?key t = ?key s"
      by (auto simp: find_Some_iff)
    then have "t = s"
      using assms(1) s by (auto simp: client_sessions_ok_def distinct_map dest: inj_onD)
    then show ?thesis using Some by simp
  qed
  then show ?thesis
    by (simp add: rtsp_client_session_find_def client_session_id_eq_def)
qed

lemma find_set_client_session:
  "(\<And>s. cs_addr (f s) = cs_addr s) \<Longrightarrow>
   find_client_session (set_client_session a f c) a = map_option f (find_client_session c a)"
  by (simp add: set_client_session_def find_update_where)

lemma set_client_session_fields [simp]:
  "cl_conn_state (set_client_session a f c) = cl_conn_state c"
  "cl_methods_allowed (set_client_session a f c) = cl_methods_allowed c"
  "cl_output (set_client_session a f c) = cl_output c"
  "cl_channel_used (set_client_session a f c) = cl_channel_used c"
  "cl_next_addr (set_client_session a f c) = cl_next_addr c"
  "is_method_allowed flag (set_client_session a f c) = is_method_allowed flag c"
  by (simp_all add: set_client_session_def is_method_allowed_def)

lemma reset_keep_alive_fields [simp]:
  "cs_addr (reset_keep_alive_timer msec s) = cs_addr s"
  "cs_id (reset_keep_alive_timer msec s) = cs_id s"
  "cs_medias (reset_keep_alive_timer msec s) = cs_medias s"
  "cs_timeout_ms (reset_keep_alive_timer msec s) = cs_timeout_ms s"
  "cs_failed_keep_alive (reset_keep_alive_timer msec s) = cs_failed_keep_alive s"
  by (simp_all add: reset_keep_alive_timer_def)

section \<open>Expiries of the timer\<close>

text \<open>The session \<open>a\<close> of a client that is not connected, after a number of failed keep-alives.\<close>

definition offline :: "nat \<Rightarrow> client_session \<Rightarrow> 32 word \<Rightarrow> rtsp_client \<Rightarrow> rtsp_client \<Rightarrow> bool" where
  "offline a s failed c0 c \<longleftrightarrow>
     client_ok c \<and> cl_conn_state c \<noteq> RTSP_CLIENT_CONN_STATE_CONNECTED \<and> is_method_allowed 0x080 c \<and>
     cl_output c = cl_output c0 \<and> cl_channel_used c = cl_channel_used c0 \<and>
     (\<exists>t. find_client_session c a = Some t \<and> cs_id t = cs_id s \<and> cs_medias t = cs_medias s \<and>
        cs_timeout_ms t = cs_timeout_ms s \<and> cs_failed_keep_alive t = failed)"

text \<open>The delay to the next attempt is a third of the timeout of the session.\<close>

definition timer_armed :: "nat \<Rightarrow> 32 word \<Rightarrow> rtsp_client \<Rightarrow> bool" where
  "timer_armed a delay c \<longleftrightarrow> (\<exists>t. find_client_session c a = Some t \<and> cs_timer t = Some delay)"

lemma offline_set:
  assumes "offline a s failed c0 c"
    and "\<And>t. client_session_shape (f t) = client_session_shape t"
    and "\<And>t. cs_addr (f t) = cs_addr t \<and> cs_id (f t) = cs_id t \<and> cs_medias (f t) = cs_medias t \<and>
      cs_timeout_ms (f t) = cs_timeout_ms t"
    and "\<And>t. cs_failed_keep_alive t = failed \<Longrightarrow> cs_failed_keep_alive (f t) = failed'"
  shows "offline a s failed' c0 (set_client_session a f c)"
proof -
  obtain t where t: "find_client_session c a = Some t" "cs_id t = cs_id s" "cs_medias t = cs_medias s"
      "cs_timeout_ms t = cs_timeout_ms s" "cs_failed_keep_alive t = failed"
    using assms(1) by (auto simp: offline_def)
  have "find_client_session (set_client_session a f c) a = Some (f t)"
    using t(1) assms(3) by (simp add: find_set_client_session)
  moreover have "client_ok (set_client_session a f c) = client_ok c"
    by (rule client_ok_view) (rule view_set_session [OF assms(2)])
  moreover have "cs_id (f t) = cs_id s \<and> cs_medias (f t) = cs_medias s \<and> cs_timeout_ms (f t) = cs_timeout_ms s \<and>
      cs_failed_keep_alive (f t) = failed'"
    using t assms(3) [of t] assms(4) [of t] by simp
  ultimately show ?thesis
    using assms(1) unfolding offline_def set_client_session_fields by blast
qed

lemma third_of_timeout: "sint (w div 3 :: 32 word) = uint (w div 3)"
proof -
  have "uint (w div 3) < 2 ^ 31"
    using uint_lt2p [of w] by (simp add: uint_div)
  then show ?thesis
    by (simp add: sint_uint signed_take_bit_int_eq_self order_trans [of _ 0])
qed

lemma keep_alive_retried:
  assumes "offline a s failed c0 c" "failed + 1 < 3" "cs_timeout_ms s \<ge> 3"
  shows "\<exists>c'. rtsp_client_pomp_timer_cb e cbs a c = Inr c' \<and> offline a s (failed + 1) c0 c' \<and>
    timer_armed a (cs_timeout_ms s div 3) c'"
proof -
  let ?c = "set_client_session a (\<lambda>t. t\<lparr>cs_timer := None\<rparr>) c"
  have off: "offline a s failed c0 ?c"
    by (rule offline_set [OF assms(1)]) simp_all
  then obtain t where t: "find_client_session ?c a = Some t" "cs_timeout_ms t = cs_timeout_ms s"
      "cs_failed_keep_alive t = failed"
    by (auto simp: offline_def)
  let ?c1 = "set_client_session a (\<lambda>t. t\<lparr>cs_failed_keep_alive := failed + 1\<rparr>) ?c"
  let ?reset = "reset_keep_alive_timer (sint (cs_timeout_ms s div 3))"
  have off1: "offline a s (failed + 1) c0 ?c1"
    by (rule offline_set [OF off]) simp_all
  have off2: "offline a s (failed + 1) c0 (set_client_session a ?reset ?c1)"
    by (rule offline_set [OF off1]) simp_all
  have "cs_timeout_ms s div 3 \<noteq> 0"
    using assms(3) by (simp add: word_le_nat_alt unat_div word_unat_eq_iff)
  then have "sint (cs_timeout_ms s div 3) > 0"
    unfolding third_of_timeout by (simp add: word_neq_0_conv word_less_def)
  then have armed: "timer_armed a (cs_timeout_ms s div 3) (set_client_session a ?reset ?c1)"
    using t unfolding timer_armed_def
    by (auto simp: find_set_client_session reset_keep_alive_timer_def third_of_timeout simp del: map_option_eq_Some)
  have "rtsp_client_pomp_timer_cb e cbs a c = Inr (set_client_session a ?reset ?c1)"
    using off t assms(2)
    by (simp add: rtsp_client_pomp_timer_cb_def send_keep_alive_def deref_session_def offline_def Let_def
        RTSP_CLIENT_MAX_FAILED_KEEP_ALIVE_def not_le [symmetric])
  with off2 armed show ?thesis by blast
qed

section \<open>The channels of a session that is given up\<close>

lemma drop_media_channels [simp]:
  "cl_channel_used (drop_media a m c) = set_channel_pair_used (cm_channel_pair m) False (cl_channel_used c)"
  by (simp add: drop_media_def rtsp_client_session_media_remove_def set_channel_pair_used_def set_client_session_def
      split: option.split)

lemma drop_media_output [simp]: "cl_output (drop_media a m c) = cl_output c"
  by (simp add: drop_media_def rtsp_client_session_media_remove_def set_client_session_def split: option.split)

lemma drop_medias_output: "cl_output (fold (drop_media a) ms c) = cl_output c"
  by (induction ms arbitrary: c) simp_all

text \<open>A channel that is unused stays so, and each media gives its channels back.\<close>

lemma unused_stays: "\<not> u ! i \<Longrightarrow> \<not> u[k := False] ! i"
  by (cases "k = i"; cases "k < length u") (simp_all add: list_update_beyond)

lemma set_unused_stays: "\<not> u ! i \<Longrightarrow> \<not> set_channel_pair_used p False u ! i"
  by (simp add: set_channel_pair_used_def unused_stays)

lemma drop_medias_stay: "\<not> cl_channel_used c ! i \<Longrightarrow> \<not> cl_channel_used (fold (drop_media a) ms c) ! i"
  by (induction ms arbitrary: c) (simp_all add: set_unused_stays)

lemma set_pair_unused:
  assumes "length u = 256" "is_channel_pair_valid p"
  shows "\<not> set_channel_pair_used p False u ! unat (fst p)" "\<not> set_channel_pair_used p False u ! unat (snd p)"
  using assms unsigned_less [of "fst p", where ?'a = nat] unsigned_less [of "snd p", where ?'a = nat]
  by (simp_all add: set_channel_pair_used_def nth_list_update)

lemma drop_medias_unused:
  assumes "length (cl_channel_used c) = 256" "m \<in> set ms" "is_channel_pair_valid (cm_channel_pair m)"
  shows "\<not> cl_channel_used (fold (drop_media a) ms c) ! unat (fst (cm_channel_pair m)) \<and>
    \<not> cl_channel_used (fold (drop_media a) ms c) ! unat (snd (cm_channel_pair m))"
  using assms(1,2)
proof (induction ms arbitrary: c)
  case (Cons x ms)
  show ?case
  proof (cases "x = m")
    case True
    then show ?thesis
      using set_pair_unused [OF Cons.prems(1) assms(3)] by (simp add: drop_medias_stay)
  next
    case False
    then show ?thesis
      using Cons.IH [of "drop_media a x c"] Cons.prems by simp
  qed
qed simp

section \<open>Giving up\<close>

lemma keep_alive_given_up:
  assumes "idle_app cbs" "offline a s 2 c0 c"
  shows "\<exists>c'. rtsp_client_pomp_timer_cb e cbs a c = Inr c' \<and> find_client_session c' a = None \<and>
    cl_output c' = cl_output c0 @ [Called (CallSessionRemoved (cs_id s) (- EPIPE))] \<and>
    (\<forall>m \<in> set (cs_medias s). is_channel_pair_valid (cm_channel_pair m) \<longrightarrow>
       \<not> cl_channel_used c' ! unat (fst (cm_channel_pair m)) \<and> \<not> cl_channel_used c' ! unat (snd (cm_channel_pair m)))"
proof -
  let ?c = "set_client_session a (\<lambda>t. t\<lparr>cs_timer := None\<rparr>) c"
  let ?c1 = "set_client_session a (\<lambda>t. t\<lparr>cs_failed_keep_alive := 3\<rparr>) ?c"
  have off: "offline a s 2 c0 ?c"
    by (rule offline_set [OF assms(2)]) simp_all
  have off1: "offline a s 3 c0 ?c1"
    by (rule offline_set [OF off]) simp_all
  obtain t where t: "find_client_session ?c a = Some t" "cs_id t = cs_id s" "cs_failed_keep_alive t = 2"
    using off by (auto simp: offline_def)
  obtain t1 where t1: "find_client_session ?c1 a = Some t1" "cs_id t1 = cs_id s" "cs_medias t1 = cs_medias s"
    using off1 by (auto simp: offline_def)
  have ok: "client_ok ?c1" and same: "cl_output ?c1 = cl_output c0"
    using off1 by (simp_all add: offline_def)
  have found: "rtsp_client_session_find ?c1 (cs_id s) = Some t1"
    using session_found_by_id [OF _ t1(1), of "cl_next_addr ?c1"] ok t1(2) by (simp add: client_ok_def)
  have addr: "cs_addr t1 = a"
    using t1(1) by (auto simp: find_Some_iff)
  let ?c2 = "fold (drop_media a) (cs_medias s) ?c1"
  let ?c3 = "?c2\<lparr>cl_output := cl_output ?c2 @ [Called (CallSessionRemoved (cs_id s) (- EPIPE))]\<rparr>"
  have alive: "find_client_session ?c3 a \<noteq> None"
    using t1(1) drop_medias_find [where a = a and b = a and ms = "cs_medias s" and c = ?c1] by simp
  have "rtsp_client_remove_session_internal cbs (Some (cs_id s)) (- EPIPE) False ?c1 =
      Inr (0, delete_client_session a ?c3)"
    using found addr t1 alive call_idle [OF assms(1)]
    by (auto simp: rtsp_client_remove_session_internal_def deref_session_def rtsp_status_to_errno_def)
  then have "rtsp_client_pomp_timer_cb e cbs a c = Inr (delete_client_session a ?c3)"
    using off t
    by (simp add: rtsp_client_pomp_timer_cb_def send_keep_alive_def deref_session_def offline_def Let_def
        RTSP_CLIENT_MAX_FAILED_KEEP_ALIVE_def)
  moreover have "find_client_session (delete_client_session a ?c3) a = None"
    by (auto simp: delete_client_session_def find_None_iff)
  moreover have "cl_output (delete_client_session a ?c3) =
      cl_output c0 @ [Called (CallSessionRemoved (cs_id s) (- EPIPE))]"
    using same by (simp add: delete_client_session_def drop_medias_output)
  moreover have "\<not> cl_channel_used (delete_client_session a ?c3) ! unat (fst (cm_channel_pair m)) \<and>
      \<not> cl_channel_used (delete_client_session a ?c3) ! unat (snd (cm_channel_pair m))"
    if "m \<in> set (cs_medias s)" "is_channel_pair_valid (cm_channel_pair m)" for m
  proof -
    have "cl_channel_used (delete_client_session a ?c3) = cl_channel_used ?c2"
      by (simp add: delete_client_session_def)
    moreover have "length (cl_channel_used ?c1) = 256"
      using ok unfolding client_ok_def by blast
    ultimately show ?thesis
      using drop_medias_unused [OF _ that] by metis
  qed
  ultimately show ?thesis
    by blast
qed

text \<open>
  C16: While the client is not connected, the timer of a session that expires for the third time
  without a keep-alive having been answered removes the session: the first two times it is set again
  to a third of the timeout of the session; the third time the application is told that the session
  has been removed, and nothing else, and every channel of its medias is free again.
\<close>

theorem keep_alive_gives_up:
  assumes "idle_app cbs" "client_ok c" "cl_conn_state c \<noteq> RTSP_CLIENT_CONN_STATE_CONNECTED"
    and "is_method_allowed 0x080 c" "find_client_session c a = Some s"
    and "cs_failed_keep_alive s = 0" "cs_timeout_ms s \<ge> 3"
  shows "\<exists>c1 c2 c3. rtsp_client_pomp_timer_cb e1 cbs a c = Inr c1 \<and> timer_armed a (cs_timeout_ms s div 3) c1 \<and>
    rtsp_client_pomp_timer_cb e2 cbs a c1 = Inr c2 \<and> timer_armed a (cs_timeout_ms s div 3) c2 \<and>
    rtsp_client_pomp_timer_cb e3 cbs a c2 = Inr c3 \<and> find_client_session c3 a = None \<and>
    cl_output c3 = cl_output c @ [Called (CallSessionRemoved (cs_id s) (- EPIPE))] \<and>
    (\<forall>m \<in> set (cs_medias s). is_channel_pair_valid (cm_channel_pair m) \<longrightarrow>
       \<not> cl_channel_used c3 ! unat (fst (cm_channel_pair m)) \<and> \<not> cl_channel_used c3 ! unat (snd (cm_channel_pair m)))"
proof -
  have "offline a s 0 c c"
    using assms(2-6) by (simp add: offline_def)
  from keep_alive_retried [OF this _ assms(7), of e1 cbs] obtain c1 where
    c1: "rtsp_client_pomp_timer_cb e1 cbs a c = Inr c1" "offline a s 1 c c1" "timer_armed a (cs_timeout_ms s div 3) c1"
    by auto
  from keep_alive_retried [OF c1(2) _ assms(7), of e2 cbs] obtain c2 where
    c2: "rtsp_client_pomp_timer_cb e2 cbs a c1 = Inr c2" "offline a s 2 c c2" "timer_armed a (cs_timeout_ms s div 3) c2"
    by auto
  from keep_alive_given_up [OF assms(1) c2(2), of e3] c1 c2 show ?thesis
    by blast
qed

end
