(* ===== verification/RtspClientErrors.thy ===== *)
theory RtspClientErrors
  imports RtspClientKeepAlive
begin

text \<open>
  Where the client does not do what its documentation or its peer expects: requests refused while a
  keep-alive is in progress, TEARDOWN of medias that are not known, URLs of rtsps, and what is left
  over from a connection that has been closed.
\<close>

section \<open>A request that is refused during a keep-alive\<close>

definition keep_alive_pending :: "nat \<Rightarrow> int \<Rightarrow> rtsp_client \<Rightarrow> bool" where
  "keep_alive_pending a k c \<longleftrightarrow>
     client_sessions_ok (cl_next_addr c) (cl_sessions c) \<and> cl_conn_state c = RTSP_CLIENT_CONN_STATE_CONNECTED \<and>
     cl_req_is_pending c \<and> req_cseq (cl_req_header c) = k \<and>
     map cs_addr (filter cs_keep_alive_in_progress (cl_sessions c)) = [a]"

lemma only_keep_alive:
  assumes "map cs_addr (filter cs_keep_alive_in_progress ss) = [a]"
  shows "\<exists>s. find cs_keep_alive_in_progress ss = Some s \<and> cs_addr s = a"
    and "t \<in> set ss \<Longrightarrow> cs_keep_alive_in_progress t \<Longrightarrow> cs_addr t = a"
proof -
  from assms obtain s where s: "filter cs_keep_alive_in_progress ss = [s]" "cs_addr s = a"
    by (auto simp: map_eq_Cons_conv)
  have "find cs_keep_alive_in_progress ss =
      (case filter cs_keep_alive_in_progress ss of [] \<Rightarrow> None | x # _ \<Rightarrow> Some x)"
    by (induction ss) auto
  then show "\<exists>s. find cs_keep_alive_in_progress ss = Some s \<and> cs_addr s = a"
    using s by simp
  show "cs_addr t = a" if "t \<in> set ss" "cs_keep_alive_in_progress t"
  proof -
    from that have "t \<in> set (filter cs_keep_alive_in_progress ss)"
      by simp
    then show ?thesis
      using s by simp
  qed
qed

text \<open>
  C21: A request that is refused after it has taken the place of a pending keep-alive (here OPTIONS,
  which the socket has no room for) wedges the client: the answer to the keep-alive, which still
  arrives, no longer has the CSeq that is expected; it ends the keep-alive but not the pending request,
  whose timer has been cleared. From then on every request is refused with EBUSY, and no timer or
  response is left to change that.
\<close>

theorem refused_request_blocks:
  assumes "keep_alive_pending a k c" "sint (cl_cseq c) \<noteq> k" "ccbs_has cbs OptionsRespCb"
    and "rtsp_client_options e cbs ext u t c = Inr (res, c1)" "res < 0" "resp_cseq h = k"
  shows "\<exists>c2. rtsp_client_response_process e' cbs h body c1 = Inr (0, c2) \<and>
    cl_req_is_pending c2 \<and> cl_req_timer c2 = None \<and> begin_request c2 = Inr (- EBUSY, c2)"
proof -
  from assms(1) have ka: "cl_conn_state c = RTSP_CLIENT_CONN_STATE_CONNECTED" "cl_req_is_pending c"
    and one: "map cs_addr (filter cs_keep_alive_in_progress (cl_sessions c)) = [a]"
    by (simp_all add: keep_alive_pending_def)
  obtain s where s: "find cs_keep_alive_in_progress (cl_sessions c) = Some s" "cs_addr s = a"
    using only_keep_alive(1) [OF one] by blast
  then have "\<exists>s \<in> set (cl_sessions c). cs_keep_alive_in_progress s"
    by (auto simp: find_Some_iff)
  then have begins: "begin_request c = Inr (0, c\<lparr>cl_req_timer := None\<rparr>)"
    using ka by (simp add: begin_request_def clear_pending_keep_alive_timer_def)
  let ?c = "finish_header id ext (address_header (Some ''*'')
      (new_header RTSP_METHOD_TYPE_OPTIONS u (c\<lparr>cl_req_timer := None\<rparr>)))"
  have "client_send_request e None t ?c = Inr (res', c') \<Longrightarrow> res' < 0 \<Longrightarrow> c' = ?c" for res' c'
    by (auto simp: client_send_request_def send_raw_buf_def split: sum.splits failure.splits if_splits)
  moreover have "send_pending e None t ?c = Inr (res, c1)"
    using assms(3,4) begins by (simp add: rtsp_client_options_def)
  ultimately have c1: "c1 = ?c"
    using assms(5) by (auto simp: send_pending_def and_then_def bindr_Inr_iff split: if_splits)
  have fields: "cl_sessions c1 = cl_sessions c" "cl_req_is_pending c1" "cl_req_timer c1 = None"
    "cl_conn_state c1 = RTSP_CLIENT_CONN_STATE_CONNECTED" "req_cseq (cl_req_header c1) = sint (cl_cseq c)"
    using ka unfolding c1
    by (simp_all add: finish_header_def address_header_def new_header_def rtsp_request_header_copy_ext_def)
  let ?f = "\<lambda>s. reset_keep_alive_timer (sint (cs_timeout_ms s div 2)) (s\<lparr>cs_keep_alive_in_progress := False\<rparr>)"
  let ?c2 = "set_client_session a ?f c1"
  have processed: "rtsp_client_response_process e' cbs h body c1 = Inr (0, ?c2)"
    using assms(2,6) fields s by (simp add: rtsp_client_response_process_def)
  have "\<not> cs_keep_alive_in_progress t" if t: "t \<in> set (cl_sessions ?c2)" for t
  proof -
    from t obtain s where "s \<in> set (cl_sessions c)" "t = (if cs_addr s = a then ?f s else s)"
      by (auto simp: set_client_session_def update_where_def fields)
    then show ?thesis
      using only_keep_alive(2) [OF one, of s] by (auto simp: reset_keep_alive_timer_def)
  qed
  then have "begin_request ?c2 = Inr (- EBUSY, ?c2)"
    using fields by (auto simp: begin_request_def clear_pending_keep_alive_timer_def set_client_session_def)
  moreover have "cl_req_is_pending ?c2" "cl_req_timer ?c2 = None"
    using fields by (simp_all add: set_client_session_def)
  ultimately show ?thesis
    using processed by blast
qed

section \<open>Requests that leave a keep-alive without its timer\<close>

text \<open>
  PLAY for a session that is not known is refused, but the timer of the response to a keep-alive has
  been cleared by then: without a response, the session never gets another keep-alive.
\<close>

lemma unknown_session_disarms_keep_alive:
  assumes "keep_alive_pending a k c" "ccbs_has cbs PlayRespCb" "is_method_allowed 0x010 c" "sid \<noteq> []"
    and "rtsp_client_session_find c sid = None"
  shows "rtsp_client_play e cbs (Some sid) (Some rng) scale ext u t c = Inr (- ENOENT, c\<lparr>cl_req_timer := None\<rparr>)"
proof -
  from assms(1) have ka: "cl_conn_state c = RTSP_CLIENT_CONN_STATE_CONNECTED" "cl_req_is_pending c"
    and one: "map cs_addr (filter cs_keep_alive_in_progress (cl_sessions c)) = [a]"
    by (simp_all add: keep_alive_pending_def)
  obtain s where "find cs_keep_alive_in_progress (cl_sessions c) = Some s"
    using only_keep_alive(1) [OF one] by blast
  then have "\<exists>s \<in> set (cl_sessions c). cs_keep_alive_in_progress s"
    by (auto simp: find_Some_iff)
  then have "begin_request c = Inr (0, c\<lparr>cl_req_timer := None\<rparr>)"
    using ka by (simp add: begin_request_def clear_pending_keep_alive_timer_def)
  then show ?thesis
    using assms(2-5)
    by (simp add: rtsp_client_play_def session_request_def rtsp_client_get_session_def rtsp_client_session_find_def)
qed

section \<open>TEARDOWN\<close>

text \<open>
  The response to a TEARDOWN of a URL that is neither that of a media nor that of the session completes
  nothing: the application is not called back.
\<close>

lemma unknown_media_teardown_silent:
  assumes "find_client_session c a = Some s" "rtsp_url_parse_path uri = Inr path"
    and "rtsp_url_parse_path (cs_content_base s) = Inr base_path"
    and "rtsp_client_session_media_find s path = None" "opt_str path \<noteq> opt_str base_path"
  shows "teardown_request_complete cbs (Some a) sid uri status resp_h u removed c = Inr (removed, c)"
  using assms by (simp add: teardown_request_complete_def deref_session_def)

text \<open>
  A TEARDOWN by the server of a media that the client does not know removes the whole session.
\<close>

lemma server_teardown_of_unknown_media:
  assumes "idle_app cbs" "ccbs_has cbs ServerTeardownCb" "client_ok c"
    and "find_client_session c a = Some s" "req_session_id req = Some (cs_id s)"
    and "rtsp_url_parse_path (req_uri req) = Inr (Some path)" "cs_content_base s \<noteq> None"
    and "rtsp_client_session_media_find s (Some path) = None"
  shows "\<exists>c'. teardown_request_process cbs req c = Inr (0, c') \<and> find_client_session c' a = None"
proof -
  let ?c = "c\<lparr>cl_output := cl_output c @ [Called (CallServerTeardown (Some path) (cs_id s) (req_ext req))]\<rparr>"
  have addr: "cs_addr s = a"
    using assms(4) by (auto simp: find_Some_iff)
  have found: "rtsp_client_session_find c (cs_id s) = Some s"
    using session_found_by_id [OF _ assms(4)] assms(3) unfolding client_ok_def by blast
  let ?c1 = "fold (drop_media a) (cs_medias s) ?c"
  have "find_client_session ?c1 a \<noteq> None"
    using drop_medias_find [where a = a and b = a and ms = "cs_medias s" and c = ?c] assms(4) by simp
  then obtain t where "find_client_session ?c1 a = Some t"
    by blast
  then have removed: "\<exists>c'. rtsp_client_remove_session_internal cbs (Some (cs_id s)) 200 False ?c = Inr (0, c') \<and>
      find_client_session c' a = None"
    using found addr call_idle [OF assms(1)]
    by (auto simp: rtsp_client_remove_session_internal_def rtsp_client_session_find_def deref_session_def
        delete_client_session_def find_None_iff)
  then obtain c' where c': "rtsp_client_remove_session_internal cbs (Some (cs_id s)) 200 False ?c = Inr (0, c')"
      "find_client_session c' a = None"
    by blast
  have "teardown_request_process cbs req c = Inr (0, c')"
    using assms(2,4-8) found addr c'(1) call_idle [OF assms(1)]
    by (simp add: teardown_request_process_def rtsp_client_get_session_def deref_session_def Let_def)
  with c'(2) show ?thesis by blast
qed

text \<open>A TEARDOWN by the server for a session that is not known gets no response, in spite of the 454 prepared.\<close>

lemma server_teardown_unanswered:
  assumes "req_method req = RTSP_METHOD_TYPE_TEARDOWN"
    and "case req_session_id req of None \<Rightarrow> True | Some sid \<Rightarrow> rtsp_client_session_find c sid = None"
  shows "rtsp_client_request_process e cbs req body c = Inr (- ENOENT, c)"
  using assms by (auto simp: rtsp_client_request_process_def teardown_request_process_def
      rtsp_client_get_session_def split: option.splits)

section \<open>URLs\<close>

text \<open>An absolute URL of the control attribute is recognised for rtsp, but not for rtsps.\<close>

lemma rtsps_control_url_appended:
  "format_request_uri (Some ''rtsps://cam/live'') (Some ''rtsps://cam/live/track1'') =
     Inr ''rtsps://cam/live/rtsps://cam/live/track1''"
  "format_request_uri (Some ''rtsp://cam/live'') (Some ''rtsp://cam/live/track1'') =
     Inr ''rtsp://cam/live/track1''"
  by code_simp+

section \<open>Missing parts of the messages of the server\<close>

text \<open>The response 200 to SETUP without a Transport field makes the client use a NULL pointer.\<close>

lemma setup_without_transport_crashes:
  "resp_transport resp_h = None \<Longrightarrow>
   setup_request_complete cbs session sid uri pair RTSP_CLIENT_REQ_STATUS_OK resp_h u c = Inl UB"
  by (simp add: setup_request_complete_def)

text \<open>
  An ANNOUNCE that the server has sent just before the client disconnected (in the callback of the
  message before it) is processed without the URL of the server.
\<close>

lemma announce_after_disconnect_crashes:
  assumes "req_method req = RTSP_METHOD_TYPE_ANNOUNCE" "req_uri req \<noteq> None" "cl_url_str c = None"
  shows "rtsp_client_request_process e cbs req (Inr body) c = Inl UB"
  using assms by (auto simp: rtsp_client_request_process_def client_uri_to_content_base_def)

section \<open>What a closed connection leaves behind\<close>

text \<open>The callback for the connection state is also called for the state CONNECTING.\<close>

lemma connecting_is_reported:
  assumes "idle_app cbs" "cl_conn_state c = RTSP_CLIENT_CONN_STATE_DISCONNECTED"
  shows "set_connection_state cbs RTSP_CLIENT_CONN_STATE_CONNECTING c =
    Inr (c\<lparr>cl_conn_state := RTSP_CLIENT_CONN_STATE_CONNECTING,
           cl_output := cl_output c @ [Called (CallConnectionState RTSP_CLIENT_CONN_STATE_CONNECTING)]\<rparr>)"
  using assms by (simp add: set_connection_state_def call_idle)

text \<open>
  The answer of the resolver for an earlier URL, which disconnecting does not cancel, is taken for the
  URL that the application has connected to since.
\<close>

lemma stale_resolution_used:
  assumes "cl_url c = Some u" "cenv_connect e (Some addr) (url_port u) \<ge> 0"
  shows "\<exists>c'. tskt_resolv_cb e cbs (Some addr) c = Inr c' \<and>
    last (cl_output c') = Connect (Some addr) (url_port u) \<and> cl_url c' = Some (u\<lparr>url_resolved_host := Some addr\<rparr>)"
  using assms by (simp add: tskt_resolv_cb_def rtsp_url_set_resolved_host_def connect_socket_def)

end
