(* ===== verification/RtspExchange.thy ===== *)
theory RtspExchange
  imports RtspServerErrors RtspClientCompletion
begin

text \<open>
  The client and the server together: what one end has sent reaches the handler of the other end,
  however the connection cuts it, and an OPTIONS request goes all the way round.
\<close>

section \<open>Receptions\<close>

lemma call_each_append: "call_each f (xs @ ys) st = bindr (call_each f xs st) (call_each f ys)"
proof (induction xs arbitrary: st)
  case (Cons x xs)
  then have "call_each f (xs @ ys) = (\<lambda>st. bindr (call_each f xs st) (call_each f ys))"
    by (rule ext)
  then show ?case
    by (simp add: bindr_assoc)
qed simp

lemma receptions:
  assumes "\<And>data x st. g data (x, st) =
      bindr (receive tp data st) (\<lambda>(msgs, _, st). bindr (call_each f msgs x) (\<lambda>x. Inr (x, st)))"
    and "receive_all tp chunks st = Inr (msgs, st')"
  shows "call_each g chunks (x, st) = bindr (call_each f msgs x) (\<lambda>x. Inr (x, st'))"
  using assms(2)
proof (induction chunks arbitrary: x st msgs)
  case Nil
  then show ?case by simp
next
  case (Cons chunk chunks)
  from Cons.prems obtain ms1 ret st1 ms2 where "receive tp chunk st = Inr (ms1, ret, st1)"
      "receive_all tp chunks st1 = Inr (ms2, st')" "msgs = ms1 @ ms2"
    by (auto simp: bindr_Inr_iff)
  then show ?case
    by (simp add: assms(1) bindr_assoc call_each_append Cons.IH)
qed

lemma frame_received:
  assumes "wf_frame tf tp f" "concat chunks = frame_bytes tf f" "length (frame_bytes tf f) < 2 ^ 63" "idle ctx"
  shows "\<exists>msg ctx'. receive_all tp chunks ([], ctx) = Inr ([msg], [], ctx') \<and> idle ctx' \<and> carries f msg"
proof -
  have "\<exists>ms ctx'. receive_all tp chunks ([], ctx) = Inr (ms, [], ctx') \<and> idle ctx' \<and> list_all2 carries [f] ms"
    by (rule receive_all_idle) (use assms in \<open>simp_all add: stream_bytes_def\<close>)
  then show ?thesis
    by (auto simp: list_all2_Cons1)
qed

lemma body_length:
  assumes "wf_frame tf tp f" "length (frame_bytes tf f) < 2 ^ 63"
  shows "unat (of_nat (length (frame_body f)) :: 64 word) = length (frame_body f)"
  using assms(2) by (simp add: frame_bytes_def unat_of_nat)

text \<open>A request that a client has written reaches its handler in the server.\<close>

lemma server_hears_request:
  assumes "wf_frame tf tp (FRequest h body)" "concat chunks = request_text tf h @ body"
    and "length (request_text tf h @ body) < 2 ^ 63" "idle ctx"
  shows "\<exists>msg ctx'. idle ctx' \<and> msg_header msg = ReqHeader h \<and>
    copy_body msg = Inr (if body = [] then None else Some body) \<and>
    call_each (rtsp_server_pomp_cb tp e cbs conn dst) chunks (srv, [], ctx) =
      bindr (rtsp_server_request_process e cbs conn dst msg srv) (\<lambda>srv. Inr (srv, [], ctx'))"
proof -
  have bytes: "frame_bytes tf (FRequest h body) = request_text tf h @ body"
    by (simp add: frame_bytes_def)
  obtain msg ctx' where m: "receive_all tp chunks ([], ctx) = Inr ([msg], [], ctx')" "idle ctx'"
      "carries (FRequest h body) msg"
    using frame_received [OF assms(1), of chunks ctx] assms(2-4) unfolding bytes by blast
  have "copy_body msg = Inr (if body = [] then None else Some body)"
    using m(3) body_length [OF assms(1)] assms(3) unfolding bytes
    by (auto simp: carries_def copy_body_def)
  moreover have "call_each (rtsp_server_pomp_cb tp e cbs conn dst) chunks (srv, [], ctx) =
      bindr (call_each (process_message e cbs conn dst) [msg] srv) (\<lambda>srv. Inr (srv, [], ctx'))"
    by (rule receptions [OF _ m(1)]) (simp add: rtsp_server_pomp_cb_def)
  ultimately show ?thesis
    using m(2,3) by (intro exI [of _ msg] exI [of _ ctx']) (simp add: process_message_def carries_def bindr_assoc)
qed

text \<open>A response that a server has written reaches its handler in the client.\<close>

lemma client_hears_response:
  assumes "wf_frame tf tp (FResponse h body)" "concat chunks = response_text tf h @ body"
    and "length (response_text tf h @ body) < 2 ^ 63" "idle ctx"
  shows "\<exists>ctx'. idle ctx' \<and> call_each (tskt_client_data_cb tp e cbs) chunks (c, [], ctx) =
      bindr (rtsp_client_response_process e cbs h (Inr body) c) (\<lambda>(_, c). Inr (c, [], ctx'))"
proof -
  have bytes: "frame_bytes tf (FResponse h body) = response_text tf h @ body"
    by (simp add: frame_bytes_def)
  obtain msg ctx' where m: "receive_all tp chunks ([], ctx) = Inr ([msg], [], ctx')" "idle ctx'"
      "carries (FResponse h body) msg"
    using frame_received [OF assms(1), of chunks ctx] assms(2-4) unfolding bytes by blast
  have "client_message e cbs msg c = bindr (rtsp_client_response_process e cbs h (Inr body) c) (\<lambda>(_, c). Inr c)"
    using m(3) body_length [OF assms(1)] assms(3) unfolding bytes
    by (auto simp: carries_def client_message_def message_body_def opt_str_def Let_def)
  moreover have "call_each (tskt_client_data_cb tp e cbs) chunks (c, [], ctx) =
      bindr (call_each (client_message e cbs) [msg] c) (\<lambda>c. Inr (c, [], ctx'))"
    by (rule receptions [OF _ m(1)]) (simp add: tskt_client_data_cb_def)
  ultimately show ?thesis
    using m(2) by (intro exI [of _ ctx']) (simp add: bindr_assoc case_prod_beta')
qed

section \<open>Changes of a pending request\<close>

lemma set_request_twice:
  "(\<And>p. pr_addr (g p) = pr_addr p) \<Longrightarrow> set_request r f (set_request r g srv) = set_request r (\<lambda>p. f (g p)) srv"
  by (simp add: set_request_def update_where_def)

lemma set_request_output: "set_request r f (srv\<lparr>srv_output := out\<rparr>) = (set_request r f srv)\<lparr>srv_output := out\<rparr>"
  by (simp add: set_request_def)

lemma set_request_sessions: "set_request r f (srv\<lparr>srv_sessions := ss\<rparr>) = (set_request r f srv)\<lparr>srv_sessions := ss\<rparr>"
  by (simp add: set_request_def)

section \<open>Requests and answers without special fields\<close>

text \<open>What the requests of the client have in common; the session and the accepted type are optional.\<close>

definition plain_request ::
  "rtsp_method_type \<Rightarrow> string \<Rightarrow> rtsp_client \<Rightarrow> string option \<Rightarrow> string option \<Rightarrow> rtsp_request_header" where
  "plain_request m uri c sid accept = rtsp_request_header_clear\<lparr>req_method := m, req_uri := Some uri,
     req_cseq := sint (cl_cseq c), req_session_id := sid, req_accept := accept,
     req_user_agent := Some (cl_software_name c)\<rparr>"

lemma plain_request_writable:
  "m \<noteq> RTSP_METHOD_TYPE_UNKNOWN \<Longrightarrow> uri \<noteq> [] \<Longrightarrow> request_writable tf (plain_request m uri c sid accept)"
  by (simp add: request_writable_def plain_request_def rtsp_request_header_clear_def range_zero_def time_zero_def)

lemma method_line: "m \<noteq> RTSP_METHOD_TYPE_UNKNOWN \<Longrightarrow> is_line (rtsp_method_type_str m)"
  by (cases m) (simp_all add: rtsp_method_type_str_def is_line_def)

lemma request_written:
  assumes "request_writable (cenv_format e) h" "length (request_text (cenv_format e) h) < request_capacity"
  shows "write_request e h None = Inr (request_text (cenv_format e) h)"
  using request.write_fits [OF assms(1), of "\<lparr>rs_str = [], rs_max_len = request_capacity\<rparr>"] assms(2)
  by (simp add: write_request_def)

lemma begin_accepted:
  assumes "cl_conn_state c = RTSP_CLIENT_CONN_STATE_CONNECTED" "\<not> cl_req_is_pending c"
  shows "\<exists>c0. begin_request c = Inr (0, c0) \<and> (c0 = c \<or> c0 = c\<lparr>cl_req_timer := None\<rparr>)"
  using assms
  by (cases "\<exists>s \<in> set (cl_sessions c). cs_keep_alive_in_progress s")
    (simp_all add: begin_request_def clear_pending_keep_alive_timer_def)

lemma session_line: "is_line sid \<Longrightarrow> is_line (session_text sid t)"
  by (auto simp: session_text_def is_line_append is_line_Cons show_int_line) (simp_all add: is_line_def)

lemmas line_checks = ball_Un line_if_lines text_line_lines is_line_Cons is_line_append show_int_line

definition optional_line :: "string option \<Rightarrow> bool" where
  "optional_line v \<longleftrightarrow> (\<forall>l. v = Some l \<longrightarrow> is_line l)"

lemma wf_scale_0: "wf_scale (Fin 0)"
  by (simp add: wf_scale_def exI [of _ "0 :: nat"])

lemma wf_plain_request:
  assumes "is_line (cl_software_name c)" "0 \<le> sint (cl_cseq c)" "m \<noteq> RTSP_METHOD_TYPE_UNKNOWN"
    and "is_line uri" "CHR '' '' \<notin> set uri" "optional_line sid" "\<forall>i. sid = Some i \<longrightarrow> CHR '';'' \<notin> set i"
    and "optional_line accept"
  shows "wf_frame tf tp (FRequest (plain_request m uri c sid accept) [])"
proof -
  have "sint (cl_cseq c) < 2 ^ 31"
    using sint_lt [of "cl_cseq c"] by simp
  then have "wf_request tf tp (plain_request m uri c sid accept)"
    using assms by (auto simp: wf_request_def plain_request_def rtsp_request_header_clear_def wf_date_def
        clean_session_def wf_range_field_def wf_ext_def is_line_def RTSP_TRANSPORT_MAX_COUNT_def)
  moreover have "request_sent (plain_request m uri c sid accept) = plain_request m uri c sid accept"
    using assms by (intro request_sent_id) (auto simp: plain_request_def rtsp_request_header_clear_def
        wf_session_def wf_text_def wf_scale_0 is_line_def optional_line_def split: option.split)
  moreover have "is_line (request_line (plain_request m uri c sid accept))"
    using assms(4) method_line [OF assms(3)] by (auto simp: request_line_def plain_request_def is_line_append is_line_def)
  moreover have "\<forall>l \<in> set (all_request_lines tf (plain_request m uri c sid accept)). is_line l"
    using assms(1,6,8) by (auto simp: all_request_lines_def request_lines1_def request_lines2_def optional_line_def
        plain_request_def rtsp_request_header_clear_def ext_lines_def range_zero_def time_zero_def session_line line_checks)
  ultimately show ?thesis
    using assms(3) by (simp add: plain_request_def rtsp_request_header_clear_def)
qed

text \<open>What the answers of the server with the status 200 have in common.\<close>

definition plain_answer :: "server_env \<Rightarrow> rtsp_server \<Rightarrow> rtsp_request_header \<Rightarrow> rtsp_response_header" where
  "plain_answer e srv h = rtsp_response_header_clear\<lparr>resp_status_code := 200, resp_status_string := Some ''OK'',
     resp_cseq := req_cseq h, resp_server := Some (srv_software_name srv), resp_date := env_now e div 1000000\<rparr>"

definition full_answer ::
  "server_env \<Rightarrow> rtsp_server \<Rightarrow> rtsp_request_header \<Rightarrow> string option \<Rightarrow> 32 word \<Rightarrow> 32 word \<Rightarrow> nat \<Rightarrow>
   string option \<Rightarrow> string option \<Rightarrow> rtsp_response_header" where
  "full_answer e srv h sid timeout methods n ctype base = (plain_answer e srv h)
     \<lparr>resp_session_id := sid, resp_session_timeout := timeout, resp_public_methods := methods,
      resp_content_length := int n, resp_content_type := ctype, resp_content_base := base\<rparr>"

lemma full_answer_writable:
  "dates_written e tp \<Longrightarrow> response_writable (env_format e) (full_answer e srv h sid timeout methods n ctype base)"
  by (auto simp: response_writable_def full_answer_def plain_answer_def dates_written_def wf_date_def
      rtsp_response_header_clear_def range_zero_def time_zero_def)

lemma wf_full_answer:
  assumes "dates_written e tp" "is_line (srv_software_name srv)" "0 \<le> req_cseq h" "req_cseq h < 2 ^ 31"
    and "optional_line sid" "\<forall>i. sid = Some i \<longrightarrow> CHR '';'' \<notin> set i" "sid = None \<longrightarrow> timeout = 0"
    and "methods AND 0x7FF = methods" "methods > 0 \<longrightarrow> is_line (methods_text methods)"
    and "length body < 2 ^ 31" "optional_line ctype" "optional_line base"
  shows "wf_frame (env_format e) tp (FResponse (full_answer e srv h sid timeout methods (length body) ctype base) body)"
proof -
  let ?h = "full_answer e srv h sid timeout methods (length body) ctype base"
  have "int (length body) < 2 ^ 31"
    using assms(10) by simp
  moreover have session: "wf_session sid timeout" "wf_text ctype" "wf_text base" "wf_text (Some (srv_software_name srv))"
    using assms(2,5-7,11,12) by (auto simp: wf_session_def wf_text_def optional_line_def is_line_def split: option.split)
  moreover have "wf_date (env_format e) tp (env_now e div 1000000)"
    using assms(1) by (simp add: dates_written_def)
  ultimately have "wf_response (env_format e) tp ?h"
    using assms(4,6) by (simp add: wf_response_def full_answer_def plain_answer_def
        rtsp_response_header_clear_def wf_range_field_def wf_ext_def clean_session_def)
  moreover have "response_sent ?h = ?h"
    using assms(3,8) wf_scale_0 session by (intro response_sent_id) (simp add: response_exact_def full_answer_def
        plain_answer_def rtsp_response_header_clear_def wf_text_def)
  moreover have "\<forall>l \<in> set (all_response_lines (env_format e) ?h). is_line l"
    using assms(1,2,5,9,11,12) by (auto simp: all_response_lines_def response_line_def response_lines1_def
        response_lines2_def full_answer_def plain_answer_def rtsp_response_header_clear_def dates_written_def
        ext_lines_def range_zero_def time_zero_def optional_line_def session_line line_checks)
  ultimately show ?thesis
    by (simp add: full_answer_def plain_answer_def)
qed

section \<open>OPTIONS\<close>

definition options_header :: "rtsp_client \<Rightarrow> rtsp_request_header" where
  "options_header c = rtsp_request_header_clear\<lparr>req_method := RTSP_METHOD_TYPE_OPTIONS, req_uri := Some ''*'',
     req_cseq := sint (cl_cseq c), req_user_agent := Some (cl_software_name c)\<rparr>"

lemma options_header_plain: "options_header c = plain_request RTSP_METHOD_TYPE_OPTIONS ''*'' c None None"
  by (simp add: options_header_def plain_request_def rtsp_request_header_clear_def)

lemma options_writable: "request_writable tf (options_header c)"
  by (simp add: options_header_plain plain_request_writable)

lemma client_sends_options:
  assumes "cl_conn_state c = RTSP_CLIENT_CONN_STATE_CONNECTED" "\<not> cl_req_is_pending c" "cl_sock c"
    and "ccbs_has cbs OptionsRespCb" "cenv_send e (request_text (cenv_format e) (options_header c)) \<ge> 0"
    and "length (request_text (cenv_format e) (options_header c)) < request_capacity"
  shows "\<exists>c1. rtsp_client_options e cbs [] u t c = Inr (0, c1) \<and> cl_req_header c1 = options_header c \<and>
    cl_req_is_pending c1 \<and> cl_req_userdata c1 = u \<and>
    cl_output c1 = cl_output c @ [Sent (request_text (cenv_format e) (options_header c))]"
proof -
  obtain c0 where c0: "begin_request c = Inr (0, c0)" "c0 = c \<or> c0 = c\<lparr>cl_req_timer := None\<rparr>"
    using begin_accepted [OF assms(1,2)] by blast
  let ?c = "finish_header id [] (address_header (Some ''*'') (new_header RTSP_METHOD_TYPE_OPTIONS u c0))"
  have h: "cl_req_header ?c = options_header c"
    using c0(2) by (auto simp: finish_header_def address_header_def new_header_def options_header_def
        rtsp_request_header_copy_ext_def)
  have "write_request e (options_header c) None = Inr (request_text (cenv_format e) (options_header c))"
    by (rule request_written [OF options_writable assms(6)])
  moreover have "cl_sock ?c" "cl_output ?c = cl_output c" "cl_req_userdata ?c = u"
    using c0(2) assms(3) by (auto simp: finish_header_def address_header_def new_header_def)
  ultimately show ?thesis
    using assms(4,5) c0(1) h
    by (simp add: rtsp_client_options_def send_pending_def client_send_request_def send_raw_buf_def)
qed

lemma wf_options:
  assumes "is_line (cl_software_name c)" "0 \<le> sint (cl_cseq c)"
  shows "wf_frame tf tp (FRequest (options_header c) [])"
  unfolding options_header_plain
  by (rule wf_plain_request [OF assms]) (simp_all add: optional_line_def is_line_def)

text \<open>The methods of the server, as \<open>RTSP_METHOD_FLAG_*\<close> bits: all but SET_PARAMETER and REDIRECT.\<close>

definition server_methods :: "32 word" where
  "server_methods = 0x002 OR 0x008 OR 0x040 OR 0x010 OR 0x020 OR 0x080 OR 0x004 OR 0x400"

definition options_answer :: "server_env \<Rightarrow> rtsp_server \<Rightarrow> rtsp_request_header \<Rightarrow> rtsp_response_header" where
  "options_answer e srv h = rtsp_response_header_clear\<lparr>resp_status_code := 200, resp_status_string := Some ''OK'',
     resp_cseq := req_cseq h, resp_server := Some (srv_software_name srv), resp_date := env_now e div 1000000,
     resp_public_methods := server_methods\<rparr>"

lemma options_answer_full: "options_answer e srv h = full_answer e srv h None 0 server_methods 0 None None"
  by (simp add: options_answer_def full_answer_def plain_answer_def rtsp_response_header_clear_def)

lemma options_answer_writable:
  "dates_written e tp \<Longrightarrow> response_writable (env_format e) (options_answer e srv h)"
  by (simp add: options_answer_full full_answer_writable)

lemma wf_options_answer:
  assumes "dates_written e tp" "is_line (srv_software_name srv)" "0 \<le> req_cseq h" "req_cseq h < 2 ^ 31"
  shows "wf_frame (env_format e) tp (FResponse (options_answer e srv h) [])"
  using wf_full_answer [OF assms, of None 0 server_methods "[]" None None]
  by (simp add: options_answer_full optional_line_def server_methods_def methods_text_def method_names_def
      method_flags_def is_line_def)

lemma server_answers_options:
  assumes "server_ok srv" "copy_body msg = Inr None" "msg_header msg = ReqHeader h"
    and "req_method h = RTSP_METHOD_TYPE_OPTIONS" "dates_written e tp"
    and "length (response_text (env_format e) (options_answer e srv h)) < srv_max_msg_size srv"
    and "env_send e conn (response_text (env_format e) (options_answer e srv h)) = 0"
  shows "\<exists>srv'. rtsp_server_request_process e cbs conn dst msg srv = Inr srv' \<and>
    srv_output srv' = srv_output srv @ [SentTo conn (response_text (env_format e) (options_answer e srv h))] \<and>
    srv_pending_requests srv' = srv_pending_requests srv \<and> srv_sessions srv' = srv_sessions srv"
proof -
  define p where "p = received_request e conn srv h None"
  have p: "pr_addr p = srv_next_addr srv" "pr_conn p = Some conn" "pr_request_header p = h"
      "pr_response_header p = rtsp_response_header_clear"
    by (simp_all add: p_def received_request_def)
  have eq: "p = received_request e conn srv (req_header (msg_header msg)) None"
    by (simp add: p_def assms(3))
  note found = with_request_find [OF assms(1) p(1)]
  let ?srv = "with_request p srv" and ?h = "options_answer e srv h"
  let ?f = "\<lambda>q. q\<lparr>pr_response_header := ?h\<rparr>"
  let ?srv1 = "(set_request (pr_addr p) ?f ?srv)
      \<lparr>srv_output := srv_output ?srv @ [SentTo conn (response_text (env_format e) ?h)]\<rparr>"
  have same: "srv_max_msg_size ?srv = srv_max_msg_size srv" "srv_software_name ?srv = srv_software_name srv"
      "srv_output ?srv = srv_output srv" "srv_sessions ?srv = srv_sessions srv"
    by (simp_all add: with_request_def)
  have "rtsp_status_get 200 = (200, ''OK'')"
    by (simp add: rtsp_status_get_def status_table_def)
  then have "(response_common e ?srv 200 p (pr_response_header p))\<lparr>resp_public_methods := server_methods\<rparr> = ?h"
    by (simp add: response_common_def options_answer_def p same)
  moreover have "respond e conn ?h [] (pr_addr p) ?srv = Inr (0, False, ?srv1)"
    using respond_fits [OF options_answer_writable [OF assms(5)], of srv h ?srv conn "pr_addr p"] assms(6,7)
    by (simp add: same)
  ultimately have "dispatch_request e cbs dst p ?srv =
      Inr (0, 0, snd (rtsp_server_pending_request_remove (pr_addr p) ?srv1))"
    using assms(4) p by (simp add: dispatch_request_def rtsp_server_options_def server_methods_def)
  moreover have "srv_pending_requests (snd (rtsp_server_pending_request_remove (pr_addr p) ?srv1)) = srv_pending_requests srv"
    by (rule remove_added [where f = ?f and p = p])
      (use found(2) in \<open>simp_all add: with_request_def set_request_def\<close>)
  moreover have "srv_output (snd (rtsp_server_pending_request_remove (pr_addr p) ?srv1)) = srv_output ?srv1"
      "srv_sessions (snd (rtsp_server_pending_request_remove (pr_addr p) ?srv1)) = srv_sessions srv"
    by (simp_all add: rtsp_server_pending_request_remove_def same split: option.split)
  ultimately show ?thesis
    using request_process_eq [OF assms(1,2) eq, of cbs dst] by (simp add: same)
qed

lemma client_completes_options:
  assumes "idle_app cbs" "cl_req_is_pending c" "req_method (cl_req_header c) = RTSP_METHOD_TYPE_OPTIONS"
    and "req_session_id (cl_req_header c) = None" "req_cseq (cl_req_header c) = resp_cseq h"
    and "resp_session_id h = None" "resp_status_code h = 200"
  shows "\<exists>c'. rtsp_client_response_process e cbs h (Inr body) c = Inr (0, c') \<and> \<not> cl_req_is_pending c' \<and>
    cl_methods_allowed c' = resp_public_methods h \<and> cl_output c' = cl_output c @
      [Called (CallOptionsResp RTSP_CLIENT_REQ_STATUS_OK 0 (resp_public_methods h) (resp_ext h) (cl_req_userdata c))]"
proof -
  have closed: "cl_output (close_request h c) = cl_output c" "\<not> cl_req_is_pending (close_request h c)"
    by (simp_all add: close_request_def put_auth_def Let_def)
  have "rtsp_status_to_errno 200 = 0"
    by (simp add: rtsp_status_to_errno_def)
  then show ?thesis
    using assms(2-7) closed
    by (simp add: rtsp_client_response_process_def request_complete_def complete_request_def conclude_request_def Let_def
        find_response_session_def report_completion_def completion_status_def call_idle [OF assms(1)])
qed

text \<open>
  C2: An OPTIONS exchange, from end to end: a connected client with no pending request sends it; however
  the connection cuts the bytes into receptions, the server sends one response, keeps no trace of the
  request, and calls nothing of its application; however the response is cut, the client calls the
  application back once, with the status OK, the methods of the server and the pointer that was given with
  the request, and is free for the next one.
\<close>

theorem options_exchange:
  assumes "idle_app ccbs" "ccbs_has ccbs OptionsRespCb"
    and "cl_conn_state c = RTSP_CLIENT_CONN_STATE_CONNECTED" "\<not> cl_req_is_pending c" "cl_sock c"
    and "is_line (cl_software_name c)" "0 \<le> sint (cl_cseq c)"
    and "request = request_text (cenv_format ce) (options_header c)"
    and "length request < request_capacity" "cenv_send ce request \<ge> 0"
    and "server_ok srv" "is_line (srv_software_name srv)" "dates_written se ctp"
    and "answer = response_text (env_format se) (options_answer se srv (options_header c))"
    and "length answer < srv_max_msg_size srv" "srv_max_msg_size srv < 2 ^ 63" "env_send se conn answer = 0"
    and "idle sctx" "concat up = request" "idle cctx" "concat down = answer"
  shows "\<exists>c1 srv1 sctx1 c2 cctx2.
    rtsp_client_options ce ccbs [] u t c = Inr (0, c1) \<and> cl_output c1 = cl_output c @ [Sent request] \<and>
    call_each (rtsp_server_pomp_cb stp se scbs conn dst) up (srv, [], sctx) = Inr (srv1, [], sctx1) \<and>
    srv_output srv1 = srv_output srv @ [SentTo conn answer] \<and>
    srv_pending_requests srv1 = srv_pending_requests srv \<and>
    call_each (tskt_client_data_cb ctp ce' ccbs) down (c1, [], cctx) = Inr (c2, [], cctx2) \<and>
    cl_output c2 = cl_output c1 @ [Called (CallOptionsResp RTSP_CLIENT_REQ_STATUS_OK 0 server_methods [] u)] \<and>
    \<not> cl_req_is_pending c2 \<and> cl_methods_allowed c2 = server_methods"
proof -
  let ?h = "options_header c" and ?a = "options_answer se srv (options_header c)"
  have cseq: "0 \<le> req_cseq ?h" "req_cseq ?h < 2 ^ 31"
    using assms(7) sint_lt [of "cl_cseq c"] by (simp_all add: options_header_def)
  obtain c1 where c1: "rtsp_client_options ce ccbs [] u t c = Inr (0, c1)" "cl_req_header c1 = ?h"
      "cl_req_is_pending c1" "cl_req_userdata c1 = u" "cl_output c1 = cl_output c @ [Sent request]"
    using client_sends_options [OF assms(3-5,2), of ce u t] assms(8-10) by auto
  have "request_capacity < 2 ^ 63"
    by (simp add: request_capacity_def)
  then obtain msg sctx1 where heard: "msg_header msg = ReqHeader ?h" "copy_body msg = Inr None"
      "call_each (rtsp_server_pomp_cb stp se scbs conn dst) up (srv, [], sctx) =
         bindr (rtsp_server_request_process se scbs conn dst msg srv) (\<lambda>srv. Inr (srv, [], sctx1))"
    using server_hears_request [OF wf_options [OF assms(6,7), of "cenv_format ce" stp], of up sctx se scbs conn dst srv]
      assms(8,9,18,19) by auto
  obtain srv1 where srv1: "rtsp_server_request_process se scbs conn dst msg srv = Inr srv1"
      "srv_output srv1 = srv_output srv @ [SentTo conn answer]" "srv_pending_requests srv1 = srv_pending_requests srv"
    using server_answers_options [OF assms(11) heard(2,1) _ assms(13), of conn scbs dst] assms(14,15,17)
    by (auto simp: options_header_def)
  obtain cctx2 where returned: "call_each (tskt_client_data_cb ctp ce' ccbs) down (c1, [], cctx) =
      bindr (rtsp_client_response_process ce' ccbs ?a (Inr []) c1) (\<lambda>(_, c). Inr (c, [], cctx2))"
    using client_hears_response [OF wf_options_answer [OF assms(13,12) cseq], of down cctx ce' ccbs c1]
      assms(14-16,20,21) by auto
  have "req_method (cl_req_header c1) = RTSP_METHOD_TYPE_OPTIONS" "req_session_id (cl_req_header c1) = None"
      "req_cseq (cl_req_header c1) = resp_cseq ?a" "resp_session_id ?a = None" "resp_status_code ?a = 200"
      "resp_public_methods ?a = server_methods" "resp_ext ?a = []"
    by (simp_all add: c1(2) options_header_def options_answer_def rtsp_request_header_clear_def
        rtsp_response_header_clear_def)
  with client_completes_options [OF assms(1) c1(3), of ?a ce' "[]"] c1 heard srv1 returned show ?thesis
    by auto
qed

end
