(* ===== verification/RtspDescribeExchange.thy ===== *)
theory RtspDescribeExchange
  imports RtspExchange
begin

text \<open>
  DESCRIBE from end to end: the session description that the application of the server gives in its
  callback reaches the application of the client unchanged.
\<close>

section \<open>The request\<close>

definition describe_header :: "rtsp_client \<Rightarrow> string \<Rightarrow> rtsp_request_header" where
  "describe_header c uri = plain_request RTSP_METHOD_TYPE_DESCRIBE uri c None (Some RTSP_CONTENT_TYPE_SDP)"

lemma wf_describe:
  assumes "is_line (cl_software_name c)" "0 \<le> sint (cl_cseq c)" "is_line uri" "CHR '' '' \<notin> set uri"
  shows "wf_frame tf tp (FRequest (describe_header c uri) [])"
  unfolding describe_header_def
  by (rule wf_plain_request [OF assms(1,2) _ assms(3,4)])
    (simp_all add: optional_line_def RTSP_CONTENT_TYPE_SDP_def is_line_def)

lemma client_sends_describe:
  assumes "cl_conn_state c = RTSP_CLIENT_CONN_STATE_CONNECTED" "\<not> cl_req_is_pending c" "cl_sock c"
    and "ccbs_has cbs DescribeRespCb" "is_method_allowed 0x002 c" "cl_auth c = None"
    and "make_uri path c = Inr (Some uri)" "uri \<noteq> []"
    and "cenv_send e (request_text (cenv_format e) (describe_header c uri)) \<ge> 0"
    and "length (request_text (cenv_format e) (describe_header c uri)) < request_capacity"
  shows "\<exists>c1. rtsp_client_describe e cbs path [] u t c = Inr (0, c1) \<and> cl_req_header c1 = describe_header c uri \<and>
    cl_req_is_pending c1 \<and> cl_req_userdata c1 = u \<and>
    cl_output c1 = cl_output c @ [Sent (request_text (cenv_format e) (describe_header c uri))]"
proof -
  obtain c0 where c0: "begin_request c = Inr (0, c0)" "c0 = c \<or> c0 = c\<lparr>cl_req_timer := None\<rparr>"
    using begin_accepted [OF assms(1,2)] by blast
  let ?ca = "address_header (Some uri) (new_header RTSP_METHOD_TYPE_DESCRIBE u c0)"
  let ?c = "finish_header (\<lambda>h. h\<lparr>req_accept := Some RTSP_CONTENT_TYPE_SDP\<rparr>) [] ?ca"
  have auth: "try_authorization e ?ca = Inr (0, ?ca)"
    using assms(6) c0(2) by (auto simp: try_authorization_def add_authorization_def generate_authorization_header_def
        auth_view_def put_auth_def address_header_def new_header_def)
  have h: "cl_req_header ?c = describe_header c uri"
    using c0(2) by (auto simp: finish_header_def address_header_def new_header_def describe_header_def plain_request_def
        rtsp_request_header_copy_ext_def rtsp_request_header_clear_def)
  have "request_writable (cenv_format e) (describe_header c uri)"
    using assms(8) by (simp add: describe_header_def plain_request_writable)
  then have "write_request e (describe_header c uri) None = Inr (request_text (cenv_format e) (describe_header c uri))"
    by (rule request_written [OF _ assms(10)])
  moreover have "cl_sock ?c" "cl_output ?c = cl_output c" "cl_req_userdata ?c = u"
    using c0(2) assms(3) by (auto simp: finish_header_def address_header_def new_header_def)
  moreover have "make_uri path c0 = Inr (Some uri)"
    using c0(2) assms(7) by (cases path) (auto simp: make_uri_def)
  ultimately show ?thesis
    using assms(4,5,9) c0(1) h auth
    by (simp add: rtsp_client_describe_def send_pending_def client_send_request_def send_raw_buf_def)
qed

section \<open>The answer\<close>

definition describe_answer :: "server_env \<Rightarrow> rtsp_server \<Rightarrow> rtsp_request_header \<Rightarrow> string \<Rightarrow> rtsp_response_header" where
  "describe_answer e srv h sdp =
     full_answer e srv h None 0 0 (length sdp) (Some ''application/sdp'') (req_uri h)"

lemma wf_describe_answer:
  assumes "dates_written e tp" "is_line (srv_software_name srv)" "0 \<le> req_cseq h" "req_cseq h < 2 ^ 31"
    and "req_uri h = Some uri" "is_line uri" "length sdp < 2 ^ 31"
  shows "wf_frame (env_format e) tp (FResponse (describe_answer e srv h sdp) sdp)"
  unfolding describe_answer_def
  by (rule wf_full_answer [OF assms(1-4) _ _ _ _ _ assms(7)]) (simp_all add: optional_line_def assms(5,6) is_line_Cons)

lemma respond_body_fits:
  assumes "response_writable (env_format e) h"
    and "length (response_text (env_format e) h @ body) < srv_max_msg_size srv"
  shows "respond e c h body r srv =
    Inr (env_send e c (response_text (env_format e) h @ body), False,
         (set_request r (\<lambda>p. p\<lparr>pr_response_header := h\<rparr>) srv)
           \<lparr>srv_output := srv_output srv @ [SentTo c (response_text (env_format e) h @ body)]\<rparr>)"
  using response.write_fits [OF assms(1), of "\<lparr>rs_str = [], rs_max_len = srv_max_msg_size srv\<rparr>"] assms(2)
  by (simp add: respond_def send_to_def write_response_def rtsp_sprintf_eq append_bounded_def)

text \<open>The application answers in its callback, with the description.\<close>

definition describes :: "application \<Rightarrow> string \<Rightarrow> string option \<Rightarrow> string \<Rightarrow> bool" where
  "describes app host path sdp \<longleftrightarrow>
     (\<forall>r srv. app_calls app (CallDescribe (Some host) path r) srv = [ReplyDescribe r 200 [] (Some sdp)])"

lemma replied_in_callback:
  assumes "find_request srv r = Some p" "pr_conn p = Some conn" "pr_in_callback p"
    and "pr_response_header p = rtsp_response_header_clear" "pr_request_header p = h"
    and "sdp \<noteq> []" "length sdp < RTSP_SESSION_DESCRIPTION_MAX_LEN" "dates_written e tp"
    and "answer = response_text (env_format e) (describe_answer e srv h sdp) @ sdp"
    and "length answer < srv_max_msg_size srv" "env_send e conn answer = 0"
  shows "rtsp_server_reply_to_describe e r 200 [] (Some sdp) srv = Inr (0,
    (set_request r (\<lambda>q. q\<lparr>pr_response_header := describe_answer e srv h sdp, pr_replied := True\<rparr>) srv)
      \<lparr>srv_output := srv_output srv @ [SentTo conn answer]\<rparr>)"
proof -
  let ?h = "describe_answer e srv h sdp"
  let ?srv1 = "(set_request r (\<lambda>q. q\<lparr>pr_response_header := ?h\<rparr>) srv)\<lparr>srv_output := srv_output srv @ [SentTo conn answer]\<rparr>"
  have "rtsp_status_get 200 = (200, ''OK'')"
    by (simp add: rtsp_status_get_def status_table_def)
  then have header: "rtsp_response_header_copy_ext [] ((response_common e srv 200 p (pr_response_header p))
      \<lparr>resp_content_length := int (length sdp), resp_content_type := Some ''application/sdp'',
       resp_content_base := req_uri (pr_request_header p)\<rparr>) = ?h"
    by (simp add: response_common_def describe_answer_def full_answer_def plain_answer_def assms(4,5)
        rtsp_response_header_copy_ext_def rtsp_response_header_clear_def)
  have "response_writable (env_format e) ?h"
    unfolding describe_answer_def by (rule full_answer_writable [OF assms(8)])
  from respond_body_fits [OF this, of sdp srv conn r] assms(9-11)
  have "respond e conn ?h sdp r srv = Inr (0, False, ?srv1)"
    by simp
  moreover have "finish_reply r None ?srv1 = (set_request r (\<lambda>q. q\<lparr>pr_response_header := ?h, pr_replied := True\<rparr>) srv)
      \<lparr>srv_output := srv_output srv @ [SentTo conn answer]\<rparr>"
    using assms(1,3) by (simp add: finish_reply_def Let_def find_set_request set_request_twice set_request_output)
  ultimately show ?thesis
    using assms(1,2,6,7) header
    by (simp add: rtsp_server_reply_to_describe_def is_error_status_def error_response_if_def)
qed

lemma server_answers_describe:
  assumes "server_ok srv" "copy_body msg = Inr None" "msg_header msg = ReqHeader h"
    and "req_method h = RTSP_METHOD_TYPE_DESCRIBE" "rtsp_url_parse_host_and_path (req_uri h) = Inr (host, path)"
    and "describes app host path sdp" "sdp \<noteq> []" "length sdp < RTSP_SESSION_DESCRIPTION_MAX_LEN" "dates_written e tp"
    and "answer = response_text (env_format e) (describe_answer e srv h sdp) @ sdp"
    and "length answer < srv_max_msg_size srv" "env_send e conn answer = 0"
  shows "\<exists>srv'. rtsp_server_request_process e (app_cbs e app) conn dst msg srv = Inr srv' \<and>
    srv_output srv' = srv_output srv @ [SentTo conn answer] \<and>
    srv_pending_requests srv' = srv_pending_requests srv \<and> srv_sessions srv' = srv_sessions srv"
proof -
  define p where "p = received_request e conn srv h None"
  have p: "pr_addr p = srv_next_addr srv" "pr_conn p = Some conn" "pr_request_header p = h"
      "pr_response_header p = rtsp_response_header_clear"
    by (simp_all add: p_def received_request_def)
  have eq: "p = received_request e conn srv (req_header (msg_header msg)) None"
    by (simp add: p_def assms(3))
  note found = with_request_find [OF assms(1) p(1)]
  let ?r = "pr_addr p" and ?h = "describe_answer e srv h sdp"
  let ?srv = "enter_callback ?r (with_request p srv)"
  let ?p = "p\<lparr>pr_in_callback := True\<rparr>"
  have same: "srv_max_msg_size (with_request p srv) = srv_max_msg_size srv"
      "srv_software_name (with_request p srv) = srv_software_name srv"
      "srv_output (with_request p srv) = srv_output srv" "srv_sessions (with_request p srv) = srv_sessions srv"
    by (simp_all add: with_request_def)
  let ?f = "\<lambda>q. q\<lparr>pr_in_callback := True, pr_response_header := ?h, pr_replied := True\<rparr>"
  let ?out = "srv_output srv @ [SentTo conn answer]"
  let ?srv1 = "(set_request ?r ?f (with_request p srv))\<lparr>srv_output := ?out\<rparr>"
  have "find_request ?srv ?r = Some ?p"
    using found(1) by (simp add: find_set_request)
  moreover have "answer = response_text (env_format e) (describe_answer e ?srv h sdp) @ sdp"
      "describe_answer e ?srv h sdp = ?h"
    by (simp_all add: assms(10) describe_answer_def full_answer_def plain_answer_def same)
  ultimately have replied: "rtsp_server_reply_to_describe e ?r 200 [] (Some sdp) ?srv = Inr (0, ?srv1)"
    using replied_in_callback [of ?r ?srv ?p conn h sdp e tp answer] assms(7-9,11,12) p
    by (simp add: same set_request_twice)
  let ?srv2 = "set_request ?r (\<lambda>p. p\<lparr>pr_in_callback := False\<rparr>) ?srv1"
  have left: "leave_callback ?r None 0 ?srv1 = Inr (True, snd (rtsp_server_pending_request_remove ?r ?srv2))"
    using found(1) by (simp add: leave_callback_def Let_def find_set_request)
  have dispatched: "dispatch_request e (app_cbs e app) dst p (with_request p srv) =
      Inr (0, 0, snd (rtsp_server_pending_request_remove ?r ?srv2))"
    using assms(4-6) p(3) replied left
    by (simp add: dispatch_request_def rtsp_server_describe_def app_cbs_def run_api_def describes_def
        Let_def)
  have "srv_pending_requests (snd (rtsp_server_pending_request_remove ?r ?srv2)) = srv_pending_requests srv"
    by (rule remove_added [where f = "\<lambda>q. (?f q)\<lparr>pr_in_callback := False\<rparr>" and p = p])
      (use found(2) in \<open>simp_all add: with_request_def set_request_def update_where_def\<close>)
  moreover have "srv_output (snd (rtsp_server_pending_request_remove ?r ?srv2)) = ?out"
      "srv_sessions (snd (rtsp_server_pending_request_remove ?r ?srv2)) = srv_sessions srv"
    by (simp_all add: rtsp_server_pending_request_remove_def same split: option.split)
  ultimately show ?thesis
    using request_process_eq [OF assms(1,2) eq, of "app_cbs e app" dst] dispatched by simp
qed

section \<open>The completion\<close>

lemma client_completes_describe:
  assumes "idle_app cbs" "cl_req_is_pending c" "req_method (cl_req_header c) = RTSP_METHOD_TYPE_DESCRIBE"
    and "req_session_id (cl_req_header c) = None" "req_cseq (cl_req_header c) = resp_cseq h"
    and "resp_session_id h = None" "resp_status_code h = 200" "resp_content_base h = Some base"
  shows "\<exists>c'. rtsp_client_response_process e cbs h (Inr body) c = Inr (0, c') \<and> \<not> cl_req_is_pending c' \<and>
    cl_output c' = cl_output c @
      [Called (CallDescribeResp RTSP_CLIENT_REQ_STATUS_OK 0 (Some base) (resp_ext h) body (cl_req_userdata c))]"
proof -
  have closed: "cl_output (close_request h c) = cl_output c" "\<not> cl_req_is_pending (close_request h c)"
    by (simp_all add: close_request_def put_auth_def Let_def)
  have "rtsp_status_to_errno 200 = 0"
    by (simp add: rtsp_status_to_errno_def)
  then show ?thesis
    using assms(2-8) closed
    by (simp add: rtsp_client_response_process_def request_complete_def complete_request_def conclude_request_def Let_def
        find_response_session_def report_completion_def completion_status_def call_idle [OF assms(1)])
qed

section \<open>From end to end\<close>

text \<open>
  C3: A DESCRIBE exchange, from end to end: whatever the cuts of the connection, the session description
  that the application of the server gives in its callback is handed to the application of the client, byte
  for byte, with the status OK, the url that was asked for as content base and the pointer of the request;
  no request is pending on either side.
\<close>

theorem describe_exchange:
  assumes "idle_app ccbs" "ccbs_has ccbs DescribeRespCb"
    and "cl_conn_state c = RTSP_CLIENT_CONN_STATE_CONNECTED" "\<not> cl_req_is_pending c" "cl_sock c"
    and "is_method_allowed 0x002 c" "cl_auth c = None" "make_uri upath c = Inr (Some uri)" "is_line uri"
    and "CHR '' '' \<notin> set uri" "is_line (cl_software_name c)" "0 \<le> sint (cl_cseq c)"
    and "request = request_text (cenv_format ce) (describe_header c uri)"
    and "length request < request_capacity" "cenv_send ce request \<ge> 0"
    and "server_ok srv" "is_line (srv_software_name srv)" "dates_written se ctp"
    and "rtsp_url_parse_host_and_path (Some uri) = Inr (host, path)" "describes app host path sdp" "sdp \<noteq> []"
    and "answer = response_text (env_format se) (describe_answer se srv (describe_header c uri) sdp) @ sdp"
    and "length answer < srv_max_msg_size srv" "srv_max_msg_size srv \<le> 65535" "env_send se conn answer = 0"
    and "idle sctx" "concat up = request" "idle cctx" "concat down = answer"
  shows "\<exists>c1 srv1 sctx1 c2 cctx2.
    rtsp_client_describe ce ccbs upath [] u t c = Inr (0, c1) \<and> cl_output c1 = cl_output c @ [Sent request] \<and>
    call_each (rtsp_server_pomp_cb stp se (app_cbs se app) conn dst) up (srv, [], sctx) = Inr (srv1, [], sctx1) \<and>
    srv_output srv1 = srv_output srv @ [SentTo conn answer] \<and>
    srv_pending_requests srv1 = srv_pending_requests srv \<and>
    call_each (tskt_client_data_cb ctp ce' ccbs) down (c1, [], cctx) = Inr (c2, [], cctx2) \<and>
    cl_output c2 = cl_output c1 @ [Called (CallDescribeResp RTSP_CLIENT_REQ_STATUS_OK 0 (Some uri) [] sdp u)] \<and>
    \<not> cl_req_is_pending c2"
proof -
  let ?h = "describe_header c uri" and ?a = "describe_answer se srv (describe_header c uri) sdp"
  have h: "req_method ?h = RTSP_METHOD_TYPE_DESCRIBE" "req_uri ?h = Some uri" "req_session_id ?h = None"
    by (simp_all add: describe_header_def plain_request_def)
  have cseq: "0 \<le> req_cseq ?h" "req_cseq ?h < 2 ^ 31"
    using assms(12) sint_lt [of "cl_cseq c"] by (simp_all add: describe_header_def plain_request_def)
  have short: "length sdp < 2 ^ 31" "length sdp < RTSP_SESSION_DESCRIPTION_MAX_LEN" "length answer < 2 ^ 63"
    using assms(22-24) by (simp_all add: RTSP_SESSION_DESCRIPTION_MAX_LEN_def)
  have "uri \<noteq> []"
    using assms(9) by (simp add: is_line_def)
  then obtain c1 where c1: "rtsp_client_describe ce ccbs upath [] u t c = Inr (0, c1)" "cl_req_header c1 = ?h"
      "cl_req_is_pending c1" "cl_req_userdata c1 = u" "cl_output c1 = cl_output c @ [Sent request]"
    using client_sends_describe [OF assms(3-5,2,6-8), of ce u t] assms(13-15) by auto
  have "request_capacity < 2 ^ 63"
    by (simp add: request_capacity_def)
  then obtain msg sctx1 where heard: "msg_header msg = ReqHeader ?h" "copy_body msg = Inr None"
      "call_each (rtsp_server_pomp_cb stp se (app_cbs se app) conn dst) up (srv, [], sctx) =
         bindr (rtsp_server_request_process se (app_cbs se app) conn dst msg srv) (\<lambda>srv. Inr (srv, [], sctx1))"
    using server_hears_request [OF wf_describe [OF assms(11,12,9,10), of "cenv_format ce" stp],
        of up sctx se "app_cbs se app" conn dst srv] assms(13,14,26,27) by auto
  obtain srv1 where srv1: "rtsp_server_request_process se (app_cbs se app) conn dst msg srv = Inr srv1"
      "srv_output srv1 = srv_output srv @ [SentTo conn answer]" "srv_pending_requests srv1 = srv_pending_requests srv"
    using server_answers_describe [OF assms(16) heard(2,1) h(1) _ assms(20,21) short(2) assms(18,22,23,25), of dst]
      h(2) assms(19) by auto
  obtain cctx2 where returned: "call_each (tskt_client_data_cb ctp ce' ccbs) down (c1, [], cctx) =
      bindr (rtsp_client_response_process ce' ccbs ?a (Inr sdp) c1) (\<lambda>(_, c). Inr (c, [], cctx2))"
    using client_hears_response [OF wf_describe_answer [OF assms(18,17) cseq h(2) assms(9) short(1)],
        of down cctx ce' ccbs c1] assms(22,28,29) short(3) by auto
  have "req_method (cl_req_header c1) = RTSP_METHOD_TYPE_DESCRIBE" "req_session_id (cl_req_header c1) = None"
      "req_cseq (cl_req_header c1) = resp_cseq ?a" "resp_session_id ?a = None" "resp_status_code ?a = 200"
      "resp_content_base ?a = Some uri" "resp_ext ?a = []"
    using h by (simp_all add: c1(2) describe_answer_def full_answer_def plain_answer_def rtsp_response_header_clear_def)
  with client_completes_describe [OF assms(1) c1(3), of ?a uri ce' sdp] c1 heard srv1 returned show ?thesis
    by auto
qed

end
