(* ===== verification/RtspKeepAliveExchange.thy ===== *)
theory RtspKeepAliveExchange
  imports RtspExchange RtspClientKeepAlive
begin

text \<open>
  A keep-alive from end to end: the timer of a session of the client goes off, the server sets the
  timer of its session again, and so does the client when it hears the answer; the times of the two
  timers fit together.
\<close>

section \<open>The request\<close>

definition keep_alive_header :: "rtsp_client \<Rightarrow> client_session \<Rightarrow> rtsp_request_header" where
  "keep_alive_header c s = rtsp_request_header_clear\<lparr>req_method := RTSP_METHOD_TYPE_GET_PARAMETER,
     req_uri := cs_content_base s, req_cseq := sint (cl_cseq c), req_user_agent := Some (cl_software_name c),
     req_session_id := Some (cs_id s)\<rparr>"

lemma keep_alive_header_plain: "cs_content_base s = Some base \<Longrightarrow>
    keep_alive_header c s = plain_request RTSP_METHOD_TYPE_GET_PARAMETER base c (Some (cs_id s)) None"
  by (simp add: keep_alive_header_def plain_request_def rtsp_request_header_clear_def)

lemma keep_alive_writable:
  "cs_content_base s = Some base \<Longrightarrow> base \<noteq> [] \<Longrightarrow> request_writable tf (keep_alive_header c s)"
  by (simp add: keep_alive_header_plain plain_request_writable)

lemma wf_keep_alive:
  assumes "is_line (cl_software_name c)" "0 \<le> sint (cl_cseq c)" "is_line (cs_id s)" "CHR '';'' \<notin> set (cs_id s)"
    and "cs_content_base s = Some base" "is_line base" "CHR '' '' \<notin> set base"
  shows "wf_frame tf tp (FRequest (keep_alive_header c s) [])"
  unfolding keep_alive_header_plain [OF assms(5)]
  by (rule wf_plain_request [OF assms(1,2) _ assms(6,7)]) (simp_all add: optional_line_def assms(3,4))

lemma client_sends_keep_alive:
  assumes "client_ok c" "cl_conn_state c = RTSP_CLIENT_CONN_STATE_CONNECTED" "\<not> cl_req_is_pending c" "cl_sock c"
    and "is_method_allowed 0x080 c" "cl_auth c = None" "find_client_session c a = Some s"
    and "\<not> cs_keep_alive_in_progress s" "cs_content_base s = Some base" "base \<noteq> []"
    and "cenv_send e (request_text (cenv_format e) (keep_alive_header c s)) \<ge> 0"
    and "length (request_text (cenv_format e) (keep_alive_header c s)) < request_capacity"
  shows "\<exists>c1. rtsp_client_pomp_timer_cb e cbs a c = Inr c1 \<and> client_ok c1 \<and>
    cl_req_header c1 = keep_alive_header c s \<and> cl_req_is_pending c1 \<and>
    find_client_session c1 a = Some (s\<lparr>cs_timer := None, cs_keep_alive_in_progress := True\<rparr>) \<and>
    cl_output c1 = cl_output c @ [Sent (request_text (cenv_format e) (keep_alive_header c s))]"
proof -
  let ?h = "keep_alive_header c s" and ?text = "request_text (cenv_format e) (keep_alive_header c s)"
  let ?c = "set_client_session a (\<lambda>s. s\<lparr>cs_timer := None\<rparr>) c"
  let ?s = "s\<lparr>cs_timer := None\<rparr>"
  let ?c1 = "(set_client_session a (\<lambda>s. s\<lparr>cs_keep_alive_in_progress := True\<rparr>)
      (?c\<lparr>cl_req_header := ?h, cl_output := cl_output c @ [Sent ?text],
          cl_req_timer := Some RTSP_CLIENT_DEFAULT_RESP_TIMEOUT_MS\<rparr>))
    \<lparr>cl_req_is_pending := True, cl_cseq := cl_cseq c + 1\<rparr>"
  have written: "write_request e ?h None = Inr ?text"
    by (rule request_written [OF keep_alive_writable [OF assms(9,10)] assms(12)])
  have found: "find_client_session ?c a = Some ?s"
    using assms(7) by (simp add: find_set_client_session)
  let ?ca = "address_header (cs_content_base s) (?c\<lparr>cl_req_header := rtsp_request_header_clear
      \<lparr>req_method := RTSP_METHOD_TYPE_GET_PARAMETER\<rparr>\<rparr>)"
  have auth: "add_authorization e ?ca = Inr (0, ?ca)"
    using assms(6) by (simp add: add_authorization_def generate_authorization_header_def auth_view_def put_auth_def
        address_header_def set_client_session_def)
  have h: "finish_header (\<lambda>h. h\<lparr>req_session_id := Some (cs_id s)\<rparr>) [] ?ca = ?c\<lparr>cl_req_header := ?h\<rparr>"
    by (simp add: finish_header_def address_header_def keep_alive_header_def rtsp_request_header_copy_ext_def
        set_client_session_def)
  have "client_send_request e None RTSP_CLIENT_DEFAULT_RESP_TIMEOUT_MS (?c\<lparr>cl_req_header := ?h\<rparr>) =
      Inr (0, ?c\<lparr>cl_req_header := ?h, cl_output := cl_output c @ [Sent ?text],
          cl_req_timer := Some RTSP_CLIENT_DEFAULT_RESP_TIMEOUT_MS\<rparr>)"
    using assms(4,11) written by (simp add: client_send_request_def send_raw_buf_def set_client_session_def
        RTSP_CLIENT_DEFAULT_RESP_TIMEOUT_MS_def)
  then have sent: "rtsp_client_pomp_timer_cb e cbs a c = Inr ?c1"
    using found assms(2,3,8) assms(5) [unfolded is_method_allowed_def] auth h
    by (simp add: rtsp_client_pomp_timer_cb_def send_keep_alive_def deref_session_def set_client_session_def Let_def
        is_method_allowed_def)
  have "client_view ?c1 = client_view c"
    by (simp add: client_view_def set_client_session_def reported_states_def map_update_where)
  then have "client_ok ?c1"
    using client_ok_view assms(1) by blast
  moreover have "find_client_session ?c1 a = Some (s\<lparr>cs_timer := None, cs_keep_alive_in_progress := True\<rparr>)"
    using assms(7) by (simp add: set_client_session_def find_update_where del: map_option_eq_Some)
  ultimately show ?thesis
    using sent by (intro exI [of _ ?c1]) (simp add: set_client_session_def)
qed

section \<open>The answer\<close>

definition keep_alive_answer ::
  "server_env \<Rightarrow> rtsp_server \<Rightarrow> server_session \<Rightarrow> rtsp_request_header \<Rightarrow> rtsp_response_header" where
  "keep_alive_answer e srv t h = rtsp_response_header_clear\<lparr>resp_status_code := 200, resp_status_string := Some ''OK'',
     resp_cseq := req_cseq h, resp_server := Some (srv_software_name srv), resp_date := env_now e div 1000000,
     resp_session_id := req_session_id h, resp_session_timeout := ss_timeout_ms t div 1000\<rparr>"

lemma keep_alive_answer_full: "keep_alive_answer e srv t h =
    full_answer e srv h (req_session_id h) (ss_timeout_ms t div 1000) 0 0 None None"
  by (simp add: keep_alive_answer_def full_answer_def plain_answer_def rtsp_response_header_clear_def)

lemma keep_alive_answer_writable:
  "dates_written e tp \<Longrightarrow> response_writable (env_format e) (keep_alive_answer e srv t h)"
  by (simp add: keep_alive_answer_full full_answer_writable)

lemma wf_keep_alive_answer:
  assumes "dates_written e tp" "is_line (srv_software_name srv)" "0 \<le> req_cseq h" "req_cseq h < 2 ^ 31"
    and "req_session_id h = Some sid" "is_line sid" "CHR '';'' \<notin> set sid"
  shows "wf_frame (env_format e) tp (FResponse (keep_alive_answer e srv t h) [])"
  using wf_full_answer [OF assms(1-4), of "Some sid" "ss_timeout_ms t div 1000" 0 "[]" None None] assms(5-7)
  by (simp add: keep_alive_answer_full optional_line_def)

lemma server_answers_keep_alive:
  assumes "server_ok srv" "copy_body msg = Inr None" "msg_header msg = ReqHeader h"
    and "req_method h = RTSP_METHOD_TYPE_GET_PARAMETER" "req_session_id h = Some sid"
    and "rtsp_url_parse_path (req_uri h) = Inr path" "rtsp_server_session_find srv sid = Some t" "ss_media_count t > 0"
    and "dates_written e tp"
    and "length (response_text (env_format e) (keep_alive_answer e srv t h)) < srv_max_msg_size srv"
    and "env_send e conn (response_text (env_format e) (keep_alive_answer e srv t h)) = 0"
  shows "\<exists>srv'. rtsp_server_request_process e cbs conn dst msg srv = Inr srv' \<and>
    srv_output srv' = srv_output srv @ [SentTo conn (response_text (env_format e) (keep_alive_answer e srv t h))] \<and>
    srv_pending_requests srv' = srv_pending_requests srv \<and>
    srv_sessions srv' = srv_sessions (set_session (ss_addr t) rtsp_server_session_reset_timeout srv)"
proof -
  define p where "p = received_request e conn srv h None"
  have p: "pr_addr p = srv_next_addr srv" "pr_conn p = Some conn" "pr_request_header p = h"
      "pr_response_header p = rtsp_response_header_clear"
    by (simp_all add: p_def received_request_def)
  have eq: "p = received_request e conn srv (req_header (msg_header msg)) None"
    by (simp add: p_def assms(3))
  note found = with_request_find [OF assms(1) p(1)]
  let ?srv = "set_session (ss_addr t) rtsp_server_session_reset_timeout (with_request p srv)"
  let ?h = "keep_alive_answer e srv t h" and ?f = "\<lambda>q. q\<lparr>pr_response_header := keep_alive_answer e srv t h\<rparr>"
  let ?srv1 = "(set_request (pr_addr p) ?f ?srv)\<lparr>srv_output := srv_output ?srv @ [SentTo conn (response_text (env_format e) ?h)]\<rparr>"
  have same: "srv_max_msg_size ?srv = srv_max_msg_size srv" "srv_software_name (with_request p srv) = srv_software_name srv"
      "srv_output ?srv = srv_output srv" "srv_sessions (with_request p srv) = srv_sessions srv"
      "srv_max_msg_size (with_request p srv) = srv_max_msg_size srv" "srv_output (with_request p srv) = srv_output srv"
    by (simp_all add: with_request_def set_session_def)
  have "request_session p (with_request p srv) = Inr (Inr (path, t))"
    using assms(5-8) p by (simp add: request_session_def rtsp_server_session_find_def same)
  moreover have "rtsp_status_get 200 = (200, ''OK'')"
    by (simp add: rtsp_status_get_def status_table_def)
  then have "(response_common e (with_request p srv) 200 p (pr_response_header p))
      \<lparr>resp_session_id := req_session_id (pr_request_header p), resp_session_timeout := ss_timeout_ms t div 1000\<rparr> = ?h"
    by (simp add: response_common_def keep_alive_answer_def p same)
  moreover have "respond e conn ?h [] (pr_addr p) ?srv = Inr (0, False, ?srv1)"
    using respond_fits [OF keep_alive_answer_writable [OF assms(9)], of srv t h ?srv conn "pr_addr p"] assms(10,11)
    by (simp add: same)
  ultimately have "dispatch_request e cbs dst p (with_request p srv) =
      Inr (0, 0, snd (rtsp_server_pending_request_remove (pr_addr p) ?srv1))"
    using assms(4,5) p by (simp add: dispatch_request_def rtsp_server_get_parameter_def)
  moreover have "srv_pending_requests (snd (rtsp_server_pending_request_remove (pr_addr p) ?srv1)) = srv_pending_requests srv"
    by (rule remove_added [where f = ?f and p = p])
      (use found(2) in \<open>simp_all add: with_request_def set_request_def set_session_def\<close>)
  moreover have "srv_output (snd (rtsp_server_pending_request_remove (pr_addr p) ?srv1)) = srv_output ?srv1"
      "srv_sessions (snd (rtsp_server_pending_request_remove (pr_addr p) ?srv1)) =
       srv_sessions (set_session (ss_addr t) rtsp_server_session_reset_timeout srv)"
    by (simp_all add: rtsp_server_pending_request_remove_def set_request_def set_session_def with_request_def
        split: option.split)
  ultimately show ?thesis
    using request_process_eq [OF assms(1,2) eq, of cbs dst] by (simp add: same)
qed

section \<open>The completion\<close>

lemma keep_alive_delay_sint: "sint (keep_alive_delay h) = uint (keep_alive_delay h)"
proof -
  have "uint (keep_alive_delay h) < 2 ^ 31"
    unfolding keep_alive_delay_def using uint_lt2p [of "if resp_session_timeout h > 0 then 800 * resp_session_timeout h
      else RTSP_CLIENT_DEFAULT_RESP_TIMEOUT_MS"] by (simp add: uint_div)
  then show ?thesis
    by (simp add: sint_uint signed_take_bit_int_eq_self order_trans [of _ 0])
qed

lemma client_completes_keep_alive:
  assumes "client_ok c" "cl_req_is_pending c" "req_method (cl_req_header c) = RTSP_METHOD_TYPE_GET_PARAMETER"
    and "req_cseq (cl_req_header c) = resp_cseq h" "find_client_session c a = Some s"
    and "cs_content_base s = Some base" "resp_session_id h = Some (cs_id s)" "resp_status_code h = 200"
    and "keep_alive_delay h > 0"
  shows "\<exists>c'. rtsp_client_response_process e cbs h (Inr body) c = Inr (0, c') \<and> \<not> cl_req_is_pending c' \<and>
    cl_output c' = cl_output c \<and> cl_failed_requests c' = 0 \<and>
    find_client_session c' a = Some (s\<lparr>cs_keep_alive_in_progress := False, cs_timeout_ms := keep_alive_delay h,
      cs_timer := Some (keep_alive_delay h), cs_failed_keep_alive := 0\<rparr>)"
proof -
  let ?d = "close_request h c"
  have closed: "cl_output ?d = cl_output c" "\<not> cl_req_is_pending ?d" "cl_sessions ?d = cl_sessions c"
    by (simp_all add: close_request_def put_auth_def Let_def)
  have a: "cs_addr s = a"
    using assms(5) by (auto simp: find_Some_iff)
  have "client_sessions_ok (cl_next_addr c) (cl_sessions c)"
    using assms(1) by (simp add: client_ok_def)
  from session_found_by_id [OF this assms(5)] have "rtsp_client_session_find ?d (cs_id s) = Some s"
    by (simp add: rtsp_client_session_find_def closed)
  then have session: "find_response_session RTSP_METHOD_TYPE_GET_PARAMETER (Some (cs_id s)) h ?d =
      (0, Some a, refresh_session h a ?d)"
    by (simp add: find_response_session_def rtsp_client_get_session_def a)
  let ?r = "refresh_session h a ?d"
  let ?s = "s\<lparr>cs_keep_alive_in_progress := False, cs_timeout_ms := keep_alive_delay h, cs_timer := Some (keep_alive_delay h)\<rparr>"
  have "sint (keep_alive_delay h) > 0"
    using assms(9) unfolding keep_alive_delay_sint by (simp add: word_less_def)
  then have refreshed: "find_client_session ?r a = Some ?s"
    using assms(5,6) by (simp add: refresh_session_def set_client_session_def find_update_where closed
        reset_keep_alive_timer_def keep_alive_delay_sint del: map_option_eq_Some)
  let ?c' = "(set_client_session a (\<lambda>s. s\<lparr>cs_failed_keep_alive := 0\<rparr>) ?r)\<lparr>cl_failed_requests := 0\<rparr>"
  have "rtsp_client_response_process e cbs h (Inr body) c = Inr (0, ?c')"
    using assms(2-4,7,8) session refreshed
    by (simp add: rtsp_client_response_process_def request_complete_def complete_request_def conclude_request_def
        report_completion_def keep_alive_complete_def deref_session_def completion_status_def Let_def)
  moreover have "find_client_session ?c' a = Some (?s\<lparr>cs_failed_keep_alive := 0\<rparr>)"
    using refreshed by (simp add: set_client_session_def find_update_where)
  moreover have "cl_output ?c' = cl_output c" "\<not> cl_req_is_pending ?c'"
    using closed by (simp_all add: refresh_session_def set_client_session_def)
  ultimately show ?thesis by (intro exI [of _ ?c']) simp
qed

section \<open>The two timers\<close>

text \<open>Three keep-alives of the client fit into the time that the server waits for one.\<close>

lemma keep_alive_in_time:
  assumes "1000 \<le> unat t" "12 * unat t + 9 < 2 ^ 32" "resp_session_timeout h = t div 1000"
  shows "0 < keep_alive_delay h" "3 * unat (keep_alive_delay h) \<le> unat (session_delay t)"
proof -
  define n where "n = unat t"
  have n: "1000 \<le> n" "12 * n + 9 < 2 ^ 32" "n div 1000 * 1000 \<le> n"
    using assms(1,2) by (simp_all add: n_def)
  have T: "unat (resp_session_timeout h) = n div 1000"
    by (simp add: assms(3) n_def unat_div)
  have "unat (800 * resp_session_timeout h) = 800 * (n div 1000)"
    unfolding unat_word_ariths(2) T using n(2,3) by simp
  moreover have "resp_session_timeout h > 0"
    using n(1) T by (simp add: word_less_nat_alt)
  ultimately have d: "unat (keep_alive_delay h) = 400 * (n div 1000)"
    by (simp add: keep_alive_delay_def unat_div)
  have "unat (12 * t + 9) = 12 * n + 9"
    unfolding unat_word_ariths(1,2) n_def [symmetric] using n(2) by simp
  then have "unat (session_delay t) = (12 * n + 9) div 10"
    by (simp add: session_delay_def unat_div)
  with d n(3) show "3 * unat (keep_alive_delay h) \<le> unat (session_delay t)"
    by linarith
  have "0 < unat (keep_alive_delay h)"
    using n(1) unfolding d by simp
  then show "0 < keep_alive_delay h"
    by (simp add: unat_gt_0 word_neq_0_conv)
qed

text \<open>
  A timeout of less than a second is announced as none: the client then waits longer than the server.
\<close>

lemma keep_alive_too_late:
  assumes "unat t < 1000" "resp_session_timeout h = t div 1000"
  shows "unat (session_delay t) < unat (keep_alive_delay h)"
proof -
  have "unat (12 * t + 9) = 12 * unat t + 9"
    unfolding unat_word_ariths(1,2) using assms(1) by simp
  then have "unat (session_delay t) = (12 * unat t + 9) div 10"
    by (simp add: session_delay_def unat_div)
  moreover have "t div 1000 = 0"
    using assms(1) by (simp add: word_unat_eq_iff unat_div)
  then have "unat (keep_alive_delay h) = 2000"
    by (simp add: assms(2) keep_alive_delay_def unat_div RTSP_CLIENT_DEFAULT_RESP_TIMEOUT_MS_def)
  ultimately show ?thesis using assms(1) by simp
qed

section \<open>From end to end\<close>

lemma reset_session_timer:
  assumes "server_ok srv" "rtsp_server_session_find srv sid = Some t" "ss_timer t \<noteq> None"
  shows "find_session (set_session (ss_addr t) rtsp_server_session_reset_timeout srv) (ss_addr t) =
    Some (t\<lparr>ss_timer := Some (session_delay (ss_timeout_ms t))\<rparr>)"
proof -
  have "t \<in> set (srv_sessions srv)"
    using assms(2) by (auto simp: rtsp_server_session_find_def find_Some_iff)
  then have "find_session srv (ss_addr t) = Some t"
    using assms(1) by (intro find_by_key) (auto simp: server_ok_def sessions_ok_def)
  then show ?thesis
    using assms(3) by (auto simp: set_session_def find_update_where rtsp_server_session_reset_timeout_def
        del: map_option_eq_Some)
qed

text \<open>
  C5: A keep-alive, from end to end: the timer of a session of a connected client goes off, the bytes it sends
  reach the server however they are cut, and so does the answer. The timer of the session of the server is
  then set to its full delay, no request is pending on either side, no application has been called, and the
  timer of the client is set to a third of that delay or less, with no failure counted.
\<close>

theorem keep_alive_exchange:
  assumes "client_ok c" "cl_conn_state c = RTSP_CLIENT_CONN_STATE_CONNECTED" "\<not> cl_req_is_pending c" "cl_sock c"
    and "is_method_allowed 0x080 c" "cl_auth c = None" "find_client_session c a = Some s"
    and "\<not> cs_keep_alive_in_progress s" "is_line (cs_id s)" "CHR '';'' \<notin> set (cs_id s)"
    and "cs_content_base s = Some base" "is_line base" "CHR '' '' \<notin> set base" "rtsp_url_parse_path (Some base) = Inr path"
    and "is_line (cl_software_name c)" "0 \<le> sint (cl_cseq c)"
    and "request = request_text (cenv_format ce) (keep_alive_header c s)"
    and "length request < request_capacity" "cenv_send ce request \<ge> 0"
    and "server_ok srv" "is_line (srv_software_name srv)" "dates_written se ctp"
    and "rtsp_server_session_find srv (cs_id s) = Some t" "ss_media_count t > 0" "ss_timer t \<noteq> None"
    and "1000 \<le> unat (ss_timeout_ms t)" "12 * unat (ss_timeout_ms t) + 9 < 2 ^ 32"
    and "answer = response_text (env_format se) (keep_alive_answer se srv t (keep_alive_header c s))"
    and "length answer < srv_max_msg_size srv" "srv_max_msg_size srv < 2 ^ 63" "env_send se conn answer = 0"
    and "idle sctx" "concat up = request" "idle cctx" "concat down = answer"
  shows "\<exists>c1 srv1 sctx1 c2 cctx2 s2 t1 d.
    rtsp_client_pomp_timer_cb ce ccbs a c = Inr c1 \<and> cl_output c1 = cl_output c @ [Sent request] \<and>
    call_each (rtsp_server_pomp_cb stp se scbs conn dst) up (srv, [], sctx) = Inr (srv1, [], sctx1) \<and>
    srv_output srv1 = srv_output srv @ [SentTo conn answer] \<and>
    srv_pending_requests srv1 = srv_pending_requests srv \<and>
    find_session srv1 (ss_addr t) = Some t1 \<and> ss_timer t1 = Some (session_delay (ss_timeout_ms t)) \<and>
    call_each (tskt_client_data_cb ctp ce' ccbs) down (c1, [], cctx) = Inr (c2, [], cctx2) \<and>
    cl_output c2 = cl_output c1 \<and> \<not> cl_req_is_pending c2 \<and> find_client_session c2 a = Some s2 \<and>
    \<not> cs_keep_alive_in_progress s2 \<and> cs_failed_keep_alive s2 = 0 \<and> cs_timer s2 = Some d \<and>
    3 * unat d \<le> unat (session_delay (ss_timeout_ms t))"
proof -
  let ?h = "keep_alive_header c s" and ?a = "keep_alive_answer se srv t (keep_alive_header c s)"
  let ?s = "s\<lparr>cs_timer := None, cs_keep_alive_in_progress := True\<rparr>"
  have cseq: "0 \<le> req_cseq ?h" "req_cseq ?h < 2 ^ 31"
    using assms(16) sint_lt [of "cl_cseq c"] by (simp_all add: keep_alive_header_def)
  have h: "req_session_id ?h = Some (cs_id s)" "req_method ?h = RTSP_METHOD_TYPE_GET_PARAMETER" "req_uri ?h = Some base"
    using assms(11) by (simp_all add: keep_alive_header_def)
  have base: "base \<noteq> []"
    using assms(12) by (simp add: is_line_def)
  obtain c1 where c1: "rtsp_client_pomp_timer_cb ce ccbs a c = Inr c1" "client_ok c1" "cl_req_header c1 = ?h"
      "cl_req_is_pending c1" "find_client_session c1 a = Some ?s" "cl_output c1 = cl_output c @ [Sent request]"
    using client_sends_keep_alive [OF assms(1-8,11) base, of ce ccbs] assms(17-19) by auto
  have "request_capacity < 2 ^ 63"
    by (simp add: request_capacity_def)
  then obtain msg sctx1 where heard: "msg_header msg = ReqHeader ?h" "copy_body msg = Inr None"
      "call_each (rtsp_server_pomp_cb stp se scbs conn dst) up (srv, [], sctx) =
         bindr (rtsp_server_request_process se scbs conn dst msg srv) (\<lambda>srv. Inr (srv, [], sctx1))"
    using server_hears_request [OF wf_keep_alive [OF assms(15,16,9,10,11,12,13), of "cenv_format ce" stp],
        of up sctx se scbs conn dst srv] assms(17,18,32,33) by auto
  obtain srv1 where srv1: "rtsp_server_request_process se scbs conn dst msg srv = Inr srv1"
      "srv_output srv1 = srv_output srv @ [SentTo conn answer]" "srv_pending_requests srv1 = srv_pending_requests srv"
      "srv_sessions srv1 = srv_sessions (set_session (ss_addr t) rtsp_server_session_reset_timeout srv)"
    using server_answers_keep_alive [OF assms(20) heard(2,1) h(2,1) _ assms(23,24,22), of path conn scbs dst]
      h(3) assms(14,28,29,31) by auto
  have a: "req_method (cl_req_header c1) = RTSP_METHOD_TYPE_GET_PARAMETER" "req_cseq (cl_req_header c1) = resp_cseq ?a"
      "cs_content_base ?s = Some base" "resp_session_id ?a = Some (cs_id ?s)" "resp_status_code ?a = 200"
      "resp_session_timeout ?a = ss_timeout_ms t div 1000"
    using h assms(11) by (simp_all add: c1(3) keep_alive_answer_def)
  obtain cctx2 where returned: "call_each (tskt_client_data_cb ctp ce' ccbs) down (c1, [], cctx) =
      bindr (rtsp_client_response_process ce' ccbs ?a (Inr []) c1) (\<lambda>(_, c). Inr (c, [], cctx2))"
    using client_hears_response [OF wf_keep_alive_answer [OF assms(22,21) cseq h(1) assms(9,10), of t], of down cctx ce' ccbs c1]
      assms(28-30,34,35) by auto
  note times = keep_alive_in_time [OF assms(26,27) a(6)]
  obtain c2 where "rtsp_client_response_process ce' ccbs ?a (Inr []) c1 = Inr (0, c2)" "\<not> cl_req_is_pending c2"
      "cl_output c2 = cl_output c1" "find_client_session c2 a = Some (?s\<lparr>cs_keep_alive_in_progress := False,
        cs_timeout_ms := keep_alive_delay ?a, cs_timer := Some (keep_alive_delay ?a), cs_failed_keep_alive := 0\<rparr>)"
    using client_completes_keep_alive [OF c1(2,4) a(1,2) c1(5) a(3-5) times(1)] by blast
  moreover note reset_session_timer [OF assms(20,23,25)]
  ultimately show ?thesis
    using c1(1,6) heard(3) srv1 returned times(2)
    by (intro exI [of _ c1] exI [of _ srv1] exI [of _ sctx1] exI [of _ c2] exI [of _ cctx2] exI conjI) auto
qed

end
