(* ===== verification/RtspSetupExchange.thy ===== *)
theory RtspSetupExchange
  imports RtspKeepAliveExchange RtspClientChannels
begin

text \<open>
  SETUP from end to end: after it the client and the server have the same session, with the same media;
  the application of the client is told its channels, or the ports of the server, and the times of the two
  timers fit together.
\<close>

section \<open>Transports in requests and answers\<close>

text \<open>Without texts from outside, a transport is written on one line.\<close>

lemma printed_chars:
  "c \<in> set (show_nat n) \<Longrightarrow> c \<notin> {CR, LF, NUL}"
  "c \<in> set (show_int i) \<Longrightarrow> c \<notin> {CR, LF, NUL}"
  "hex_printer f \<Longrightarrow> c \<in> set (pad0 w (show_hex f n)) \<Longrightarrow> c \<notin> {CR, LF, NUL, CHR '';''}"
proof -
  have d: "\<not> is_digit CR" "\<not> is_digit LF" "\<not> is_digit NUL"
    by (simp_all add: is_digit_def)
  then show "c \<in> set (show_nat n) \<Longrightarrow> c \<notin> {CR, LF, NUL}"
    using show_nat_digits [of c n] by auto
  show "c \<in> set (show_int i) \<Longrightarrow> c \<notin> {CR, LF, NUL}"
    using show_int_line [of i] by (auto simp: is_line_def)
  have "\<not> isxdigit x" if "x \<in> {CR, LF, NUL, CHR '';''}" for x
    using that by (auto simp: isxdigit_def is_digit_def)
  then show "hex_printer f \<Longrightarrow> c \<in> set (pad0 w (show_hex f n)) \<Longrightarrow> c \<notin> {CR, LF, NUL, CHR '';''}"
    using show_hex_digits [of f c n] by (auto simp: pad0_def)
qed

definition on_line :: "string \<Rightarrow> bool" where
  "on_line f \<longleftrightarrow> (\<forall>c \<in> set f. c \<notin> {CR, LF, NUL})"

lemma on_line_simps: "on_line []" "on_line (c # f) \<longleftrightarrow> c \<notin> {CR, LF, NUL} \<and> on_line f"
  "on_line (f @ g) \<longleftrightarrow> on_line f \<and> on_line g" "on_line (show_nat n)" "on_line (show_int i)"
  "hex_printer d \<Longrightarrow> on_line (pad0 w (show_hex d n))"
  using printed_chars(1) [of _ n] printed_chars(2) [of _ i] printed_chars(3) [of d _ w n]
  unfolding on_line_def by auto

lemma on_line_fields:
  "f \<in> set (unsigned_field ''ttl'' w @ unsigned_field ''layers'' w) \<Longrightarrow> on_line f"
  "f \<in> set (port_field ''client_port'' s c @ port_field ''server_port'' s c @ port_field ''port'' s c) \<Longrightarrow> on_line f"
  "f \<in> set (ssrc_field t) \<Longrightarrow> on_line f"
  "f \<in> set (mode_field t) \<Longrightarrow> on_line f"
  "on_line (delivery_text t)"
  "on_line (pair_text p)"
  by (auto simp: on_line_simps hex_printers unsigned_field_def port_field_def ssrc_field_def mode_field_def
      delivery_text_def pair_text_def split: if_splits prod.split)

lemma transport_line:
  assumes "wf_transport t" "destination t = None" "trsp_source t = None"
  shows "is_line (transport_text [Some t])"
proof -
  have "interleaved t = [] \<or> (\<exists>p. interleaved t = [p])"
    using assms(1) by (cases "interleaved t") (auto simp: wf_transport_def)
  then have pair: "f \<in> set (interleaved_field t) \<Longrightarrow> on_line f" for f
    by (auto simp: interleaved_field_def on_line_simps on_line_fields(6))
  have ports: "f \<in> set (ports_fields t) \<Longrightarrow> on_line f" for f
    using on_line_fields(2) [of f] by (auto simp: ports_fields_def split: if_splits)
  have spec: "on_line (spec_text t)"
    using assms(1) by (cases "lower_transport t")
      (simp_all add: spec_text_def wf_transport_def rtsp_lower_transport_str_def on_line_simps)
  have "on_line f" if "f \<in> set (transport_fields t)" for f
  proof -
    have "f = spec_text t \<or> f = delivery_text t \<or> f = ''append'' \<or> f \<in> set (unsigned_field ''ttl'' (ttl t)) \<or>
        f \<in> set (unsigned_field ''layers'' (layers t)) \<or> f \<in> set (ports_fields t) \<or>
        f \<in> set (interleaved_field t) \<or> f \<in> set (ssrc_field t) \<or> f \<in> set (mode_field t)"
      using that assms(2,3) by (auto simp: transport_fields_def param_fields_def opt_field_def split: if_splits)
    then show ?thesis
      using spec pair [of f] ports [of f] on_line_fields(1) [of f "ttl t"] on_line_fields(1) [of f "layers t"]
        on_line_fields(3,4) [of f t] on_line_fields(5) [of t]
      by (elim disjE) (simp_all add: on_line_simps)
  qed
  then have "on_line (transport_entry t)"
    unfolding transport_entry_def on_line_def by (auto dest!: sep_by_chars)
  moreover have "transport_text [Some t] = transport_entry t"
    using transport_text_sep_by [of "[t]"] assms(1) by simp
  ultimately show ?thesis
    using transport_entry_clean(1) [OF assms(1)] by (auto simp: is_line_def on_line_def)
qed

lemma wf_transport_writable: "wf_transport t \<Longrightarrow> transport_writable [Some t]"
  by (auto simp: transport_writable_def pairs_in_bounds_def wf_transport_def RTSP_MAX_INTERLEAVED_MEDIA_def)

lemma wf_request_transport:
  assumes "wf_frame tf tp (FRequest h body)" "req_transport h = []" "wf_transport t" "is_line (transport_text [Some t])"
  shows "wf_frame tf tp (FRequest (h\<lparr>req_transport := [t]\<rparr>) body)"
proof -
  have "wf_request tf tp (h\<lparr>req_transport := [t]\<rparr>)"
    using assms(1,3) by (simp add: wf_request_def RTSP_TRANSPORT_MAX_COUNT_def)
  moreover have "request_sent (h\<lparr>req_transport := [t]\<rparr>) = h\<lparr>req_transport := [t]\<rparr>"
    using assms(1) by (cases h) (simp add: request_sent_def)
  moreover have "\<forall>l \<in> set (all_request_lines tf (h\<lparr>req_transport := [t]\<rparr>)). is_line l"
    using assms(1,2,4) by (auto simp: all_request_lines_def request_lines1_def request_lines2_def line_checks)
  moreover have "request_line (h\<lparr>req_transport := [t]\<rparr>) = request_line h"
    by (simp add: request_line_def)
  ultimately show ?thesis
    using assms(1) by simp
qed

lemma wf_response_transport:
  assumes "wf_frame tf tp (FResponse h body)" "resp_transport h = None" "wf_transport t" "is_line (transport_text [Some t])"
  shows "wf_frame tf tp (FResponse (h\<lparr>resp_transport := Some t\<rparr>) body)"
proof -
  have "wf_response tf tp (h\<lparr>resp_transport := Some t\<rparr>)"
    using assms(1,3) by (simp add: wf_response_def)
  moreover have "response_sent (h\<lparr>resp_transport := Some t\<rparr>) = h\<lparr>resp_transport := Some t\<rparr>"
    using assms(1) by (cases h) (simp add: response_sent_def)
  moreover have "\<forall>l \<in> set (all_response_lines tf (h\<lparr>resp_transport := Some t\<rparr>)). is_line l"
    using assms(1,2,4) by (auto simp: all_response_lines_def response_line_def response_lines1_def
        response_lines2_def line_checks)
  ultimately show ?thesis
    using assms(1) by simp
qed

section \<open>The request\<close>

text \<open>
  The application leaves the choice of the channels to the client, which takes the first free pair; for
  other transports than TCP it gives its own ports.
\<close>

definition setup_offer ::
  "rtsp_lower_transport \<Rightarrow> 16 word \<Rightarrow> 16 word \<Rightarrow> rtsp_transport_method \<Rightarrow> channel_pair \<Rightarrow> rtsp_transport_header" where
  "setup_offer lower stream control meth pair = rtsp_transport_header_new
     \<lparr>transport_protocol := Some ''RTP'', transport_profile := Some ''AVP'', lower_transport := lower,
      delivery := RTSP_DELIVERY_UNICAST, trsp_method := meth,
      interleaved := (if lower = RTSP_LOWER_TRANSPORT_TCP then [pair] else []),
      dst_stream_port := stream, dst_control_port := control\<rparr>"

definition offers :: "rtsp_client \<Rightarrow> rtsp_lower_transport \<Rightarrow> 16 word \<Rightarrow> 16 word \<Rightarrow> channel_pair \<Rightarrow> bool" where
  "offers c lower stream control pair \<longleftrightarrow>
     (if lower = RTSP_LOWER_TRANSPORT_TCP
      then stream = 0 \<and> control = 0 \<and> first_free_pair (cl_channel_used c) = Some pair
      else stream \<noteq> 0 \<and> control \<noteq> 0 \<and> pair = (0, 0))"

definition setup_header :: "rtsp_client \<Rightarrow> string \<Rightarrow> rtsp_transport_header \<Rightarrow> rtsp_request_header" where
  "setup_header c uri t = (plain_request RTSP_METHOD_TYPE_SETUP uri c None None)\<lparr>req_transport := [t]\<rparr>"

lemma wf_offer: "offers c lower stream control pair \<Longrightarrow> wf_transport (setup_offer lower stream control meth pair)"
  by (auto simp: offers_def setup_offer_def wf_transport_def rtsp_transport_header_new_def clean_value_def
      clean_ports_def control_port_def split: if_splits)

lemma wf_setup:
  assumes "is_line (cl_software_name c)" "0 \<le> sint (cl_cseq c)" "is_line uri" "CHR '' '' \<notin> set uri"
    and "offers c lower stream control pair"
  shows "wf_frame tf tp (FRequest (setup_header c uri (setup_offer lower stream control meth pair)) [])"
proof -
  have "is_line (transport_text [Some (setup_offer lower stream control meth pair)])"
    by (rule transport_line [OF wf_offer [OF assms(5)]])
      (simp_all add: setup_offer_def rtsp_transport_header_new_def)
  then show ?thesis
    unfolding setup_header_def
    by (intro wf_request_transport wf_plain_request [OF assms(1,2) _ assms(3,4)] wf_offer [OF assms(5)])
      (simp_all add: optional_line_def plain_request_def rtsp_request_header_clear_def)
qed

lemma free_pair_unused:
  assumes "first_free_pair channel_used = Some pair"
  shows "\<not> channel_used ! unat (fst pair)" "\<not> channel_used ! unat (snd pair)"
    and "unat (snd pair) = Suc (unat (fst pair))" "unat (snd pair) < 256"
proof -
  obtain k where k: "find (free_pair channel_used) [0..<128] = Some k" "pair = pair_channels k"
    using assms by (auto simp: first_free_pair_def)
  then have free: "free_pair channel_used k" "k < 128"
    by (auto simp: find_Some_iff)
  note first = unat_pair [OF free(2)]
  moreover have "unat (pair_index k + 1) = Suc (2 * k)"
    using free(2) by (simp add: unat_word_ariths(1) first)
  ultimately show "\<not> channel_used ! unat (fst pair)" "\<not> channel_used ! unat (snd pair)"
      "unat (snd pair) = Suc (unat (fst pair))" "unat (snd pair) < 256"
    using free by (simp_all add: k(2) pair_channels_def free_pair_def)
qed

lemma free_pair_count:
  assumes "first_free_pair channel_used = Some pair" "length channel_used = 256"
  shows "2 \<le> count_channel_unused channel_used"
proof -
  let ?n = "unat (fst pair)"
  have "{?n, Suc ?n} \<subseteq> {i. i < length channel_used \<and> \<not> channel_used ! i}"
    using free_pair_unused [OF assms(1)] assms(2) by simp
  then have "card {?n, Suc ?n} \<le> card {i. i < length channel_used \<and> \<not> channel_used ! i}"
    by (intro card_mono) auto
  then show ?thesis
    by (simp add: count_channel_unused_def length_filter_conv_card)
qed

lemma client_sends_setup:
  assumes "cl_conn_state c = RTSP_CLIENT_CONN_STATE_CONNECTED" "\<not> cl_req_is_pending c" "cl_sock c"
    and "ccbs_has cbs SetupRespCb" "is_method_allowed 0x008 c" "cl_auth c = None" "length (cl_channel_used c) = 256"
    and "rtsp_url_strip_credentials (cenv_is_ip e) (Some content_base) = Inr base" "content_base \<noteq> []"
    and "format_request_uri (Some base) (Some resource) = Inr uri" "resource \<noteq> []" "uri \<noteq> []"
    and "offers c lower stream control pair" "h = setup_header c uri (setup_offer lower stream control meth pair)"
    and "cenv_send e (request_text (cenv_format e) h) \<ge> 0"
    and "length (request_text (cenv_format e) h) < request_capacity"
  shows "\<exists>c1. rtsp_client_setup e cbs (Some content_base) (Some resource) None RTSP_DELIVERY_UNICAST lower stream control
      meth [] u t c = Inr (0, c1) \<and> cl_req_header c1 = h \<and> cl_req_is_pending c1 \<and> cl_req_userdata c1 = u \<and>
    cl_output c1 = cl_output c @ [Sent (request_text (cenv_format e) h)] \<and> cl_req_content_base c1 = Some base \<and>
    cl_sessions c1 = cl_sessions c \<and> cl_next_addr c1 = cl_next_addr c \<and>
    cl_channel_used c1 = set_channel_pair_used pair True (cl_channel_used c)"
proof -
  obtain c0 where c0: "begin_request c = Inr (0, c0)" "c0 = c \<or> c0 = c\<lparr>cl_req_timer := None\<rparr>"
    using begin_accepted [OF assms(1,2)] by blast
  let ?ca = "address_header (Some uri) ((new_header RTSP_METHOD_TYPE_SETUP u c0)
    \<lparr>cl_req_uri := Some uri, cl_req_content_base := Some base\<rparr>)"
  let ?t = "setup_offer lower stream control meth pair"
  let ?ct = "set_header (\<lambda>h. h\<lparr>req_transport := [?t]\<rparr>) (set_channels pair True ?ca)"
  let ?c = "finish_header (\<lambda>h. h\<lparr>req_session_id := None\<rparr>) [] ?ct"
  have auth: "add_authorization e ?ca = Inr (0, ?ca)"
    using assms(6) c0(2) by (auto simp: add_authorization_def generate_authorization_header_def auth_view_def
        put_auth_def address_header_def new_header_def)
  have used: "cl_channel_used ?ca = cl_channel_used c"
    using c0(2) by (auto simp: address_header_def new_header_def)
  have ports: "setup_ports_ok lower stream control"
    using assms(13) by (auto simp: offers_def setup_ports_ok_def split: if_splits)
  have transport: "setup_request_transport RTSP_DELIVERY_UNICAST lower stream control meth ?ca = Inr (0, ?ct)"
  proof (cases "lower = RTSP_LOWER_TRANSPORT_TCP")
    case True
    then have free: "stream = 0" "control = 0" "first_free_pair (cl_channel_used c) = Some pair"
      using assms(13) by (simp_all add: offers_def)
    show ?thesis
      using free_pair_count [OF free(3) assms(7)] True
      by (simp add: setup_request_transport_def allocate_first_free is_channel_pair_valid_def used free setup_offer_def
          rtsp_transport_header_new_def)
  next
    case False
    then show ?thesis
      using assms(13) by (simp add: setup_request_transport_def offers_def setup_offer_def set_channel_pair_used_def
          is_channel_pair_valid_def rtsp_transport_header_new_def)
  qed
  have h: "cl_req_header ?c = h"
    using c0(2) assms(14) by (auto simp: finish_header_def address_header_def new_header_def setup_header_def
        plain_request_def rtsp_request_header_copy_ext_def rtsp_request_header_clear_def)
  have "request_writable (cenv_format e) (plain_request RTSP_METHOD_TYPE_SETUP uri c None None)"
    by (simp add: plain_request_writable assms(12))
  then have "request_writable (cenv_format e) h"
    using wf_transport_writable [OF wf_offer [OF assms(13)]]
    by (simp add: request_writable_def assms(14) setup_header_def)
  then have "write_request e h None = Inr (request_text (cenv_format e) h)"
    by (rule request_written [OF _ assms(16)])
  moreover have "cl_sock ?c" "cl_output ?c = cl_output c" "cl_req_userdata ?c = u" "cl_req_content_base ?c = Some base"
      "cl_sessions ?c = cl_sessions c" "cl_next_addr ?c = cl_next_addr c"
      "cl_channel_used ?c = set_channel_pair_used pair True (cl_channel_used c)"
    using c0(2) assms(3) by (auto simp: finish_header_def address_header_def new_header_def)
  ultimately show ?thesis
    using assms(4,5,8-11,15) c0(1) h auth transport ports
    by (simp add: rtsp_client_setup_def check_setup_session_def send_pending_def client_send_request_def send_raw_buf_def)
qed

section \<open>The completion\<close>

text \<open>The session that the client keeps after the answer.\<close>

definition client_media_set_up :: "nat \<Rightarrow> string \<Rightarrow> channel_pair \<Rightarrow> client_media" where
  "client_media_set_up m path pair = \<lparr>cm_addr = m, cm_path = path, cm_userdata = 0, cm_channel_pair = pair\<rparr>"

definition client_session_set_up :: "nat \<Rightarrow> string \<Rightarrow> string \<Rightarrow> 32 word \<Rightarrow> client_media \<Rightarrow> client_session" where
  "client_session_set_up a sid base d m = (new_client_session a sid)
     \<lparr>cs_timer := Some d, cs_content_base := Some base, cs_timeout_ms := d, cs_media_count := 1, cs_medias := [m]\<rparr>"

definition told_port :: "rtsp_lower_transport \<Rightarrow> 8 word \<Rightarrow> 16 word \<Rightarrow> 16 word" where
  "told_port lower channel port = (if lower = RTSP_LOWER_TRANSPORT_TCP then ucast channel else port)"

lemma channel_port: "ucast (ucast (x :: 8 word) :: 16 word) = x"
  by transfer (simp add: take_bit_take_bit)

lemma no_channels: "set_channel_pair_used (0, 0) used u = u"
  by (simp add: set_channel_pair_used_def is_channel_pair_valid_def)

lemma set_channels_twice: "set_channel_pair_used p b (set_channel_pair_used p b u) = set_channel_pair_used p b u"
  by (auto simp: set_channel_pair_used_def is_channel_pair_valid_def list_update_swap word_unat_eq_iff)

lemma client_completes_setup:
  assumes "idle_app cbs" "cl_req_is_pending c" "req_method (cl_req_header c) = RTSP_METHOD_TYPE_SETUP"
    and "req_session_id (cl_req_header c) = None" "req_uri (cl_req_header c) = Some uri"
    and "requested_channels (cl_req_header c) = pair" "cl_req_content_base c = Some base"
    and "req_cseq (cl_req_header c) = resp_cseq h" "resp_session_id h = Some sid" "resp_status_code h = 200"
    and "rtsp_client_session_find c sid = None" "cl_next_addr c \<notin> cs_addr ` set (cl_sessions c)"
    and "rtsp_url_parse_path (Some uri) = Inr (Some path)" "keep_alive_delay h > 0"
    and "resp_transport h = Some t" "interleaved t = (if lower_transport t = RTSP_LOWER_TRANSPORT_TCP then [pair] else [])"
    and "lower_transport t = RTSP_LOWER_TRANSPORT_TCP \<or> pair = (0, 0)"
  shows "\<exists>c'. rtsp_client_response_process e cbs h (Inr body) c = Inr (0, c') \<and> \<not> cl_req_is_pending c' \<and>
    cl_output c' = cl_output c @ [Called (CallSetupResp (Some sid) RTSP_CLIENT_REQ_STATUS_OK 0
      (told_port (lower_transport t) (fst pair) (src_stream_port t))
      (told_port (lower_transport t) (snd pair) (src_control_port t))
      (ssrc_valid t) (ssrc t) (resp_ext h) (cl_req_userdata c))] \<and>
    cl_channel_used c' = set_channel_pair_used pair True (cl_channel_used c) \<and>
    cl_sessions c' = cl_sessions c @ [client_session_set_up (cl_next_addr c) sid base (keep_alive_delay h)
      (client_media_set_up (Suc (cl_next_addr c)) path pair)]"
proof -
  let ?d = "close_request h c" and ?a = "cl_next_addr c"
  have closed: "cl_output ?d = cl_output c" "\<not> cl_req_is_pending ?d" "cl_sessions ?d = cl_sessions c"
      "cl_next_addr ?d = ?a" "cl_req_content_base ?d = Some base" "cl_channel_used ?d = cl_channel_used c"
    by (simp_all add: close_request_def put_auth_def Let_def assms(7))
  let ?s = "(new_client_session ?a sid)\<lparr>cs_timer := Some (keep_alive_delay h), cs_content_base := Some base,
    cs_timeout_ms := keep_alive_delay h\<rparr>"
  let ?r = "?d\<lparr>cl_sessions := cl_sessions c @ [?s], cl_next_addr := Suc ?a, cl_req_content_base := None\<rparr>"
  have "sint (keep_alive_delay h) > 0"
    using assms(14) unfolding keep_alive_delay_sint by (simp add: word_less_def)
  then have "find_response_session RTSP_METHOD_TYPE_SETUP (Some sid) h ?d = (0, Some ?a, ?r)"
    using assms(11,12) by (simp add: find_response_session_def rtsp_client_get_session_def rtsp_client_session_find_def
        closed refresh_session_def set_client_session_def update_where_none new_client_session_def
        reset_keep_alive_timer_def keep_alive_delay_sint Let_def)
  moreover have "rtsp_status_to_errno 200 = 0"
    by (simp add: rtsp_status_to_errno_def)
  moreover have "find_client_session ?r ?a = Some ?s"
    using assms(12) by (simp add: find_skip new_client_session_def)
  ultimately show ?thesis
    using assms(2-6,8-10,12,13,15-17) closed
    by (cases "lower_transport t = RTSP_LOWER_TRANSPORT_TCP")
      (simp_all add: rtsp_client_response_process_def request_complete_def complete_request_def conclude_request_def Let_def
        report_completion_def completion_status_def setup_request_complete_def call_idle [OF assms(1)] told_port_def
        update_interleaved_channels_def channel_pair_cmp_def channel_port no_channels
        rtsp_client_session_media_add_def deref_session_def rtsp_client_session_media_find_def set_client_session_def
        find_skip update_where_none new_client_session_def client_session_set_up_def client_media_set_up_def)
qed

section \<open>The answer\<close>

definition setup_answer ::
  "server_env \<Rightarrow> rtsp_server \<Rightarrow> rtsp_request_header \<Rightarrow> string \<Rightarrow> 32 word \<Rightarrow> rtsp_transport_header \<Rightarrow> rtsp_response_header" where
  "setup_answer e srv h sid timeout t =
     (full_answer e srv h (Some sid) (timeout div 1000) 0 0 None None)\<lparr>resp_transport := Some t\<rparr>"

lemma wf_answer_transport:
  assumes "offers c lower stream control pair" "sp \<noteq> 0" "cp \<noteq> 0" "valid \<or> ssrc_value = 0"
  shows "wf_transport (setup_transport (setup_offer lower stream control meth pair) sp cp valid ssrc_value)"
  using wf_offer [OF assms(1), of meth] assms(2-4)
  by (auto simp: setup_offer_def setup_transport_def wf_transport_def rtsp_transport_header_new_def clean_value_def
      clean_ports_def control_port_def split: if_splits)

lemma session_id_chars: "c \<in> set (session_id_of i) \<Longrightarrow> c \<notin> {CR, LF, NUL, CHR '';''}"
  unfolding session_id_of_def by (rule printed_chars(3) [OF hex_printers(1)])

lemma session_id_line: "is_line (session_id_of i)" "CHR '';'' \<notin> set (session_id_of i)"
proof -
  have "session_id_of i \<noteq> []"
    by (simp add: session_id_of_def pad0_def) (subst show_hex.simps, simp)
  then show "is_line (session_id_of i)" "CHR '';'' \<notin> set (session_id_of i)"
    using session_id_chars [of _ i] by (auto simp: is_line_def)
qed

lemma wf_setup_answer:
  assumes "dates_written e tp" "is_line (srv_software_name srv)" "0 \<le> req_cseq h" "req_cseq h < 2 ^ 31"
    and "is_line sid" "CHR '';'' \<notin> set sid"
    and "wf_transport t" "destination t = None" "trsp_source t = None"
  shows "wf_frame (env_format e) tp (FResponse (setup_answer e srv h sid timeout t) [])"
proof -
  have "wf_frame (env_format e) tp (FResponse (full_answer e srv h (Some sid) (timeout div 1000) 0 0 None None) [])"
    using wf_full_answer [OF assms(1-4), of "Some sid" "timeout div 1000" 0 "[]" None None] assms(5,6)
    by (simp add: optional_line_def)
  then show ?thesis
    unfolding setup_answer_def
    by (rule wf_response_transport [OF _ _ assms(7) transport_line [OF assms(7-9)]])
      (simp add: full_answer_def plain_answer_def rtsp_response_header_clear_def)
qed

lemma setup_answer_writable:
  "dates_written e tp \<Longrightarrow> wf_transport t \<Longrightarrow> response_writable (env_format e) (setup_answer e srv h sid timeout t)"
  using full_answer_writable [of e tp srv h "Some sid" "timeout div 1000" 0 0 None None] wf_transport_writable [of t]
  by (simp add: response_writable_def setup_answer_def)

text \<open>The session that the server has after the request, before and after its media got its user data.\<close>

definition server_media_set_up :: "nat \<Rightarrow> string \<Rightarrow> string \<Rightarrow> nat \<Rightarrow> server_media" where
  "server_media_set_up m uri path u =
     \<lparr>sm_addr = m, sm_uri = Some uri, sm_path = path, sm_userdata = u, sm_is_tearing_down = False\<rparr>"

definition server_session_set_up ::
  "nat \<Rightarrow> string \<Rightarrow> string \<Rightarrow> 32 word \<Rightarrow> rtsp_method_type \<Rightarrow> server_media \<Rightarrow> server_session" where
  "server_session_set_up a sid uri timeout op m =
     \<lparr>ss_addr = a, ss_session_id = sid, ss_uri = Some uri, ss_timeout_ms = timeout,
      ss_timer = (if timeout > 0 then Some (session_delay timeout) else None),
      ss_playing = False, ss_recording = False, ss_range = range_zero, ss_scale = Fin 0,
      ss_op_in_progress = op, ss_media_count = 1, ss_medias = [m]\<rparr>"

definition fresh_session_id :: "server_env \<Rightarrow> rtsp_server \<Rightarrow> string option" where
  "fresh_session_id e srv = find (\<lambda>sid. \<not> (\<exists>s \<in> set (srv_sessions srv). session_id_eq (ss_session_id s) sid))
     (map session_id_of (env_random e))"

lemma set_last_session:
  assumes "srv_sessions srv = ss @ [s]" "ss_addr s = a" "a \<notin> ss_addr ` set ss"
  shows "set_session a f srv = srv\<lparr>srv_sessions := ss @ [f s]\<rparr>"
  using assms by (simp add: set_session_def update_where_none)

text \<open>The application accepts the media in its callback.\<close>

definition sets_up :: "application \<Rightarrow> 16 word \<Rightarrow> 16 word \<Rightarrow> bool \<Rightarrow> 32 word \<Rightarrow> nat \<Rightarrow> bool" where
  "sets_up app sp cp valid ssrc_value u \<longleftrightarrow>
     (\<forall>path a r m dst srv. app_calls app (CallSetup path a r m dst) srv = [ReplySetup r m 200 sp cp valid ssrc_value [] u])"

lemma setup_replied_in_callback:
  assumes "find_request srv r = Some p" "pr_conn p = Some conn" "pr_in_callback p"
    and "pr_response_header p = rtsp_response_header_clear" "pr_request_header p = h" "req_transport h = [t]"
    and "media_session srv m = Some s" "srv_sessions srv = ss @ [s]" "ss_addr s \<notin> ss_addr ` set ss"
    and "sp \<noteq> 0" "cp \<noteq> 0" "wf_transport (setup_transport t sp cp valid ssrc_value)" "dates_written e tp"
    and "a = setup_answer e srv h (ss_session_id s) (ss_timeout_ms s) (setup_transport t sp cp valid ssrc_value)"
    and "answer = response_text (env_format e) a"
    and "length answer < srv_max_msg_size srv" "env_send e conn answer = 0"
  shows "rtsp_server_reply_to_setup e r m 200 sp cp valid ssrc_value [] u srv = Inr (0,
    (set_request r (\<lambda>q. q\<lparr>pr_response_header := a, pr_replied := True\<rparr>) srv)
      \<lparr>srv_sessions := ss @ [set_userdata m u s], srv_output := srv_output srv @ [SentTo conn answer]\<rparr>)"
proof -
  let ?srv = "set_session (ss_addr s) (set_userdata m u) srv"
  have srv: "?srv = srv\<lparr>srv_sessions := ss @ [set_userdata m u s]\<rparr>"
    by (rule set_last_session [OF assms(8) refl assms(9)])
  let ?srv1 = "(set_request r (\<lambda>q. q\<lparr>pr_response_header := a\<rparr>) ?srv)\<lparr>srv_output := srv_output srv @ [SentTo conn answer]\<rparr>"
  have "rtsp_status_get 200 = (200, ''OK'')"
    by (simp add: rtsp_status_get_def status_table_def)
  then have header: "rtsp_response_header_copy_ext [] ((response_common e ?srv 200 p (pr_response_header p))
      \<lparr>resp_session_id := Some (ss_session_id s), resp_session_timeout := ss_timeout_ms s div 1000,
       resp_transport := Some (setup_transport t sp cp valid ssrc_value)\<rparr>) = a"
    by (simp add: response_common_def assms(4,5,14) setup_answer_def full_answer_def plain_answer_def srv
        rtsp_response_header_copy_ext_def rtsp_response_header_clear_def)
  have "response_writable (env_format e) a"
    unfolding assms(14) by (rule setup_answer_writable [OF assms(13,12)])
  from respond_fits [OF this, of ?srv conn r] assms(15-17)
  have "respond e conn a [] r ?srv = Inr (0, False, ?srv1)"
    by (simp add: srv)
  moreover have "finish_reply r (Some (ss_addr s)) ?srv1 =
      (set_request r (\<lambda>q. q\<lparr>pr_response_header := a, pr_replied := True\<rparr>) ?srv)
      \<lparr>srv_output := srv_output srv @ [SentTo conn answer]\<rparr>"
    using assms(1,3) by (simp add: finish_reply_def Let_def find_set_request set_request_twice set_request_output
        set_request_sessions srv)
  ultimately show ?thesis
    using assms(1,2,5-7,10,11) header
    by (simp add: rtsp_server_reply_to_setup_def is_error_status_def error_response_if_def Let_def srv set_request_sessions)
qed

text \<open>The session and the media are there when the application is called.\<close>

lemma setup_session_added:
  assumes "server_ok srv" "pr_request_header p = h" "req_session_id h = None" "n = srv_next_addr srv"
    and "fresh_session_id e srv = Some sid" "m = server_media_set_up (n + 2) uri path 0"
  shows "\<exists>srv0 srv1. setup_session e p base (with_request p srv) = (Inr (n + 1, True), srv0) \<and>
    rtsp_server_session_media_add (n + 1) (Some uri) (Some path) srv0 = (Some (n + 2), srv1) \<and>
    set_session (n + 1) (\<lambda>s. (rtsp_server_session_reset_timeout s)\<lparr>ss_op_in_progress := op\<rparr>) srv1 =
      (with_request p srv)\<lparr>srv_next_addr := n + 3, srv_session_count := srv_session_count srv + 1,
        srv_sessions := srv_sessions srv @ [server_session_set_up (n + 1) sid base (srv_session_timeout_ms srv) op m]\<rparr>"
proof -
  have "n + 1 \<notin> ss_addr ` set (srv_sessions srv)"
    using assms(1,4) by (fastforce simp: server_ok_def sessions_ok_def session_ok_def)
  then show ?thesis
    using assms(2-6)
    by (simp add: setup_session_def rtsp_server_session_add_def fresh_session_id_def with_request_def Let_def
        rtsp_server_session_media_add_def rtsp_server_session_media_find_def find_skip set_session_def update_where_none
        rtsp_server_session_reset_timeout_def server_session_set_up_def server_media_set_up_def)
qed

lemma media_session_last:
  assumes "srv_sessions srv = ss @ [s]" "m \<in> set (media_addrs s)" "\<forall>t \<in> set ss. m \<notin> set (media_addrs t)"
  shows "media_session srv m = Some s"
  using assms(2,3) unfolding media_session_def assms(1) by (induction ss) simp_all

lemma server_answers_setup:
  assumes "server_ok srv" "copy_body msg = Inr None" "msg_header msg = ReqHeader h" "dst \<noteq> []"
    and "req_method h = RTSP_METHOD_TYPE_SETUP" "req_session_id h = None" "req_transport h = [t]" "req_uri h = Some uri"
    and "rtsp_url_parse_host_and_path (Some uri) = Inr (host, Some path)" "strrchr_cut (CHR ''/'') uri = (base, Some rest)"
    and "fresh_session_id e srv = Some sid" "sets_up app sp cp valid ssrc_value u" "sp \<noteq> 0" "cp \<noteq> 0"
    and "wf_transport (setup_transport t sp cp valid ssrc_value)" "dates_written e tp"
    and "a = setup_answer e srv h sid (srv_session_timeout_ms srv) (setup_transport t sp cp valid ssrc_value)"
    and "answer = response_text (env_format e) a" "length answer < srv_max_msg_size srv" "env_send e conn answer = 0"
  shows "\<exists>srv'. rtsp_server_request_process e (app_cbs e app) conn dst msg srv = Inr srv' \<and>
    srv_output srv' = srv_output srv @ [SentTo conn answer] \<and>
    srv_pending_requests srv' = srv_pending_requests srv \<and>
    srv_sessions srv' = srv_sessions srv @ [server_session_set_up (srv_next_addr srv + 1) sid base
      (srv_session_timeout_ms srv) RTSP_METHOD_TYPE_UNKNOWN (server_media_set_up (srv_next_addr srv + 2) uri path u)]"
proof -
  define p where "p = received_request e conn srv h None"
  define n where "n = srv_next_addr srv"
  have p: "pr_addr p = n" "pr_conn p = Some conn" "pr_request_header p = h"
      "pr_response_header p = rtsp_response_header_clear"
    by (simp_all add: p_def n_def received_request_def)
  have eq: "p = received_request e conn srv (req_header (msg_header msg)) None"
    by (simp add: p_def assms(3))
  note found = with_request_find [OF assms(1) p(1) [unfolded n_def]]
  let ?ss = "srv_sessions srv" and ?t = "srv_session_timeout_ms srv"
  let ?s = "\<lambda>op u. server_session_set_up (n + 1) sid base ?t op (server_media_set_up (n + 2) uri path u)"
  let ?out = "srv_output srv @ [SentTo conn answer]"
  define W where "W = (with_request p srv)\<lparr>srv_next_addr := n + 3, srv_session_count := srv_session_count srv + 1,
    srv_sessions := ?ss @ [?s RTSP_METHOD_TYPE_SETUP 0]\<rparr>"
  obtain srv0 srv1 where added: "setup_session e p base (with_request p srv) = (Inr (n + 1, True), srv0)"
      "rtsp_server_session_media_add (n + 1) (Some uri) (Some path) srv0 = (Some (n + 2), srv1)"
      "set_session (n + 1) (\<lambda>s. (rtsp_server_session_reset_timeout s)\<lparr>ss_op_in_progress := RTSP_METHOD_TYPE_SETUP\<rparr>) srv1 = W"
    using setup_session_added [OF assms(1) p(3) assms(6) n_def assms(11) refl] unfolding W_def by blast
  have new: "n + 1 \<notin> ss_addr ` set ?ss" "\<forall>t \<in> set ?ss. n + 2 \<notin> set (media_addrs t)"
    using assms(1) by (fastforce simp: server_ok_def sessions_ok_def session_ok_def n_def)+
  have W: "find_request W n = Some p" "srv_max_msg_size W = srv_max_msg_size srv" "srv_output W = srv_output srv"
      "srv_sessions W = ?ss @ [?s RTSP_METHOD_TYPE_SETUP 0]"
      "srv_pending_requests W = srv_pending_requests srv @ [p]"
      "srv_software_name W = srv_software_name srv"
    using found(1) p(1) by (simp_all add: W_def with_request_def)
  let ?cb = "enter_callback n W"
  have "setup_answer e ?cb h sid ?t (setup_transport t sp cp valid ssrc_value) = a"
    by (simp add: assms(17) setup_answer_def full_answer_def plain_answer_def W(6))
  moreover have "media_session ?cb (n + 2) = Some (?s RTSP_METHOD_TYPE_SETUP 0)"
    by (rule media_session_last [OF _ _ new(2)]) (simp_all add: W server_session_set_up_def server_media_set_up_def)
  ultimately have "rtsp_server_reply_to_setup e n (n + 2) 200 sp cp valid ssrc_value [] u ?cb = Inr (0,
      (set_request n (\<lambda>q. q\<lparr>pr_response_header := a, pr_replied := True\<rparr>) ?cb)
        \<lparr>srv_sessions := ?ss @ [?s RTSP_METHOD_TYPE_SETUP u], srv_output := ?out\<rparr>)"
    using setup_replied_in_callback [of n ?cb "p\<lparr>pr_in_callback := True\<rparr>" conn h t "n + 2" "?s RTSP_METHOD_TYPE_SETUP 0" ?ss
        sp cp valid ssrc_value e tp a answer u] assms(7,13-16,18-20) p W new(1)
    by (simp add: find_set_request server_session_set_up_def server_media_set_up_def set_userdata_def
        update_where_def [of _ _ "[]"])
  then have replied: "cbs_call (app_cbs e app) (CallSetup (Some path) (n + 1) n (n + 2) dst) ?cb = Inr
      ((set_request n (\<lambda>q. q\<lparr>pr_in_callback := True, pr_response_header := a, pr_replied := True\<rparr>) W)
        \<lparr>srv_sessions := ?ss @ [?s RTSP_METHOD_TYPE_SETUP u], srv_output := ?out\<rparr>)"
    using assms(12) by (simp add: app_cbs_def run_api_def sets_up_def set_request_twice)
  let ?f = "\<lambda>q. q\<lparr>pr_response_header := a, pr_replied := True, pr_in_callback := False\<rparr>"
  let ?srv2 = "(set_request n ?f W)\<lparr>srv_output := ?out, srv_sessions := ?ss @ [?s RTSP_METHOD_TYPE_UNKNOWN u]\<rparr>"
  have left: "leave_callback n (Some (n + 1)) 0 ((set_request n (\<lambda>q. q\<lparr>pr_in_callback := True,
        pr_response_header := a, pr_replied := True\<rparr>) W)
      \<lparr>srv_sessions := ?ss @ [?s RTSP_METHOD_TYPE_SETUP u], srv_output := ?out\<rparr>) =
    Inr (True, snd (rtsp_server_pending_request_remove n ?srv2))"
    using W(1) new(1) by (simp add: leave_callback_def find_set_request set_request_output set_request_sessions
        set_request_twice find_skip set_session_def update_where_none server_session_set_up_def clear_op_def Let_def)
  have "dispatch_request e (app_cbs e app) dst p (with_request p srv) =
      Inr (0, 0, snd (rtsp_server_pending_request_remove n ?srv2))"
    using assms(4-8) p replied left added
    by (simp add: dispatch_request_def rtsp_server_setup_def assms(9,10) Let_def)
  moreover have "srv_pending_requests (snd (rtsp_server_pending_request_remove n ?srv2)) = srv_pending_requests srv"
    by (rule remove_added [where f = ?f and p = p])
      (use found(2) p(1) W(5) in \<open>simp_all add: set_request_def update_where_def\<close>)
  moreover have "srv_output (snd (rtsp_server_pending_request_remove n ?srv2)) = ?out"
      "srv_sessions (snd (rtsp_server_pending_request_remove n ?srv2)) = ?ss @ [?s RTSP_METHOD_TYPE_UNKNOWN u]"
    by (simp_all add: rtsp_server_pending_request_remove_def split: option.split)
  ultimately show ?thesis
    using request_process_eq [OF assms(1,2) eq, of "app_cbs e app" dst] by (simp add: n_def)
qed

section \<open>From end to end\<close>

lemma fresh_session_id_line:
  assumes "fresh_session_id e srv = Some sid"
  shows "is_line sid" "CHR '';'' \<notin> set sid"
proof -
  obtain i where "sid = session_id_of i"
    using assms by (auto simp: fresh_session_id_def find_Some_iff)
  then show "is_line sid" "CHR '';'' \<notin> set sid"
    using session_id_line by simp_all
qed

lemma host_and_path_path:
  "rtsp_url_parse_host_and_path url = Inr (host, path) \<Longrightarrow> rtsp_url_parse_path url = Inr path"
  by (cases "rtsp_url_parse_internal url") (simp_all add: rtsp_url_parse_host_and_path_def rtsp_url_parse_path_def)

lemma requested_offer:
  assumes "offers c lower stream control pair"
  shows "requested_channels (setup_header c uri (setup_offer lower stream control meth pair)) = pair"
  using assms by (simp add: requested_channels_def setup_header_def plain_request_def setup_offer_def offers_def
      split: if_splits)

text \<open>The channels or ports that the application of the client is told.\<close>

lemma answered_transport:
  assumes "t = setup_transport (setup_offer lower stream control meth pair) sp cp valid ssrc_value"
  shows "lower_transport t = lower" "interleaved t = (if lower = RTSP_LOWER_TRANSPORT_TCP then [pair] else [])"
    "src_stream_port t = sp" "src_control_port t = cp" "ssrc_valid t = valid" "ssrc t = ssrc_value"
    "destination t = None" "trsp_source t = None"
  by (simp_all add: assms setup_transport_def setup_offer_def rtsp_transport_header_new_def)

text \<open>
  C4: A SETUP exchange, from end to end: the client offers a free pair of channels, or the ports of its
  application, and the application of the server accepts in its callback. Whatever the cuts of the
  connection, both sides then have one more session, with the same identifier and one media with the same
  path; the channels are in use by that media, and the application of the client is told them, or the ports
  of the server, once, with the pointer of the request. Three keep-alives of the client fit into the delay of
  the server.
\<close>

theorem setup_exchange:
  assumes "idle_app ccbs" "ccbs_has ccbs SetupRespCb" "client_ok c"
    and "cl_conn_state c = RTSP_CLIENT_CONN_STATE_CONNECTED" "\<not> cl_req_is_pending c" "cl_sock c"
    and "is_method_allowed 0x008 c" "cl_auth c = None" "is_line (cl_software_name c)" "0 \<le> sint (cl_cseq c)"
    and "rtsp_url_strip_credentials (cenv_is_ip ce) (Some content_base) = Inr base" "content_base \<noteq> []"
    and "format_request_uri (Some base) (Some resource) = Inr uri" "resource \<noteq> []"
    and "is_line uri" "CHR '' '' \<notin> set uri" "offers c lower stream control pair"
    and "h = setup_header c uri (setup_offer lower stream control meth pair)" "request = request_text (cenv_format ce) h"
    and "length request < request_capacity" "cenv_send ce request \<ge> 0"
    and "server_ok srv" "is_line (srv_software_name srv)" "dates_written se ctp" "dst \<noteq> []"
    and "rtsp_url_parse_host_and_path (Some uri) = Inr (host, Some path)"
    and "strrchr_cut (CHR ''/'') uri = (server_base, Some rest)"
    and "fresh_session_id se srv = Some sid" "rtsp_client_session_find c sid = None"
    and "1000 \<le> unat (srv_session_timeout_ms srv)" "12 * unat (srv_session_timeout_ms srv) + 9 < 2 ^ 32"
    and "sets_up app sp cp valid ssrc_value su" "sp \<noteq> 0" "cp \<noteq> 0" "valid \<or> ssrc_value = 0"
    and "a = setup_answer se srv h sid (srv_session_timeout_ms srv)
      (setup_transport (setup_offer lower stream control meth pair) sp cp valid ssrc_value)"
    and "answer = response_text (env_format se) a"
    and "length answer < srv_max_msg_size srv" "srv_max_msg_size srv < 2 ^ 63" "env_send se conn answer = 0"
    and "idle sctx" "concat up = request" "idle cctx" "concat down = answer"
  shows "\<exists>c1 srv1 sctx1 c2 cctx2 s t m n d.
    rtsp_client_setup ce ccbs (Some content_base) (Some resource) None RTSP_DELIVERY_UNICAST lower stream control meth
      [] u tmo c = Inr (0, c1) \<and> cl_output c1 = cl_output c @ [Sent request] \<and>
    call_each (rtsp_server_pomp_cb stp se (app_cbs se app) conn dst) up (srv, [], sctx) = Inr (srv1, [], sctx1) \<and>
    srv_output srv1 = srv_output srv @ [SentTo conn answer] \<and>
    srv_pending_requests srv1 = srv_pending_requests srv \<and> srv_sessions srv1 = srv_sessions srv @ [t] \<and>
    call_each (tskt_client_data_cb ctp ce' ccbs) down (c1, [], cctx) = Inr (c2, [], cctx2) \<and>
    \<not> cl_req_is_pending c2 \<and> cl_sessions c2 = cl_sessions c @ [s] \<and> cs_id s = ss_session_id t \<and>
    cs_medias s = [m] \<and> ss_medias t = [n] \<and> cm_path m = path \<and> sm_path n = path \<and> sm_userdata n = su \<and>
    cm_channel_pair m = pair \<and> cl_channel_used c2 = set_channel_pair_used pair True (cl_channel_used c) \<and>
    cl_output c2 = cl_output c1 @ [Called (CallSetupResp (Some (cs_id s)) RTSP_CLIENT_REQ_STATUS_OK 0
      (told_port lower (fst pair) sp) (told_port lower (snd pair) cp) valid ssrc_value [] u)] \<and>
    ss_timer t = Some (session_delay (srv_session_timeout_ms srv)) \<and> cs_timer s = Some d \<and>
    3 * unat d \<le> unat (session_delay (srv_session_timeout_ms srv))"
proof -
  let ?t = "setup_transport (setup_offer lower stream control meth pair) sp cp valid ssrc_value"
  note t = answered_transport [of ?t lower stream control meth pair sp cp valid ssrc_value, OF refl]
  have h: "req_method h = RTSP_METHOD_TYPE_SETUP" "req_uri h = Some uri" "req_session_id h = None"
      "req_transport h = [setup_offer lower stream control meth pair]" "req_cseq h = sint (cl_cseq c)"
    by (simp_all add: assms(18) setup_header_def plain_request_def rtsp_request_header_clear_def)
  have cseq: "0 \<le> req_cseq h" "req_cseq h < 2 ^ 31"
    using assms(10) sint_lt [of "cl_cseq c"] by (simp_all add: h)
  have "uri \<noteq> []" "length (cl_channel_used c) = 256"
    using assms(3,15) by (simp_all add: is_line_def client_ok_def)
  then obtain c1 where c1: "rtsp_client_setup ce ccbs (Some content_base) (Some resource) None RTSP_DELIVERY_UNICAST
        lower stream control meth [] u tmo c = Inr (0, c1)" "cl_req_header c1 = h"
      "cl_req_is_pending c1" "cl_req_userdata c1 = u" "cl_output c1 = cl_output c @ [Sent request]"
      "cl_req_content_base c1 = Some base" "cl_sessions c1 = cl_sessions c" "cl_next_addr c1 = cl_next_addr c"
      "cl_channel_used c1 = set_channel_pair_used pair True (cl_channel_used c)"
    using client_sends_setup [OF assms(4-6,2,7,8) _ assms(11-14) _ assms(17,18), of u tmo] assms(19-21) by auto
  have "request_capacity < 2 ^ 63"
    by (simp add: request_capacity_def)
  then obtain msg sctx1 where heard: "msg_header msg = ReqHeader h" "copy_body msg = Inr None"
      "call_each (rtsp_server_pomp_cb stp se (app_cbs se app) conn dst) up (srv, [], sctx) =
         bindr (rtsp_server_request_process se (app_cbs se app) conn dst msg srv) (\<lambda>srv. Inr (srv, [], sctx1))"
    using server_hears_request [OF wf_setup [OF assms(9,10,15-17), of "cenv_format ce" stp meth, folded assms(18)],
        of up sctx se "app_cbs se app" conn dst srv] assms(19,20,41,42) by auto
  note wf = wf_answer_transport [OF assms(17,33-35), of meth]
  let ?s = "server_session_set_up (srv_next_addr srv + 1) sid server_base (srv_session_timeout_ms srv)
    RTSP_METHOD_TYPE_UNKNOWN (server_media_set_up (srv_next_addr srv + 2) uri path su)"
  obtain srv1 where srv1: "rtsp_server_request_process se (app_cbs se app) conn dst msg srv = Inr srv1"
      "srv_output srv1 = srv_output srv @ [SentTo conn answer]" "srv_pending_requests srv1 = srv_pending_requests srv"
      "srv_sessions srv1 = srv_sessions srv @ [?s]"
    using server_answers_setup [OF assms(22) heard(2,1) assms(25) h(1,3,4,2) assms(26-28,32-34) wf assms(24,36-38,40)]
    by blast
  have a: "resp_session_id a = Some sid" "resp_status_code a = 200" "resp_transport a = Some ?t" "resp_ext a = []"
      "req_cseq h = resp_cseq a" "resp_session_timeout a = srv_session_timeout_ms srv div 1000"
    by (simp_all add: assms(36) setup_answer_def full_answer_def plain_answer_def rtsp_response_header_clear_def)
  obtain cctx2 where returned: "call_each (tskt_client_data_cb ctp ce' ccbs) down (c1, [], cctx) =
      bindr (rtsp_client_response_process ce' ccbs a (Inr []) c1) (\<lambda>(_, c). Inr (c, [], cctx2))"
    using client_hears_response [OF wf_setup_answer [OF assms(24,23) cseq fresh_session_id_line [OF assms(28)] wf t(7,8),
        of "srv_session_timeout_ms srv", folded assms(36)], of down cctx ce' ccbs c1] assms(37-39,43,44) by auto
  note times = keep_alive_in_time [OF assms(30,31) a(6)]
  have "cl_next_addr c1 \<notin> cs_addr ` set (cl_sessions c1)" "rtsp_client_session_find c1 sid = None"
      "requested_channels (cl_req_header c1) = pair"
    using assms(3,29) requested_offer [OF assms(17)]
    by (fastforce simp: c1 assms(18) client_ok_def client_sessions_ok_def client_session_ok_def rtsp_client_session_find_def)+
  moreover have "lower = RTSP_LOWER_TRANSPORT_TCP \<or> pair = (0, 0)"
    using assms(17) by (auto simp: offers_def split: if_splits)
  ultimately obtain c2 where c2: "rtsp_client_response_process ce' ccbs a (Inr []) c1 = Inr (0, c2)" "\<not> cl_req_is_pending c2"
      "cl_output c2 = cl_output c1 @ [Called (CallSetupResp (Some sid) RTSP_CLIENT_REQ_STATUS_OK 0
        (told_port lower (fst pair) sp) (told_port lower (snd pair) cp) valid ssrc_value [] u)]"
      "cl_channel_used c2 = set_channel_pair_used pair True (cl_channel_used c1)"
      "cl_sessions c2 = cl_sessions c @ [client_session_set_up (cl_next_addr c) sid base (keep_alive_delay a)
        (client_media_set_up (Suc (cl_next_addr c)) path pair)]"
    using client_completes_setup [OF assms(1) c1(3), of uri pair base a sid path ?t ce' "[]"] c1 h a t times(1)
      host_and_path_path [OF assms(26)] by auto
  let ?m = "client_media_set_up (Suc (cl_next_addr c)) path pair"
  let ?n = "server_media_set_up (srv_next_addr srv + 2) uri path su"
  let ?cs = "client_session_set_up (cl_next_addr c) sid base (keep_alive_delay a) ?m"
  have "srv_session_timeout_ms srv > 0"
    using assms(30) by (simp add: word_less_nat_alt)
  then show ?thesis
    using times(2)
    by (intro exI [of _ c1], intro exI [of _ srv1], intro exI [of _ sctx1], intro exI [of _ c2],
        intro exI [of _ cctx2], intro exI [of _ ?cs], intro exI [of _ ?s], intro exI [of _ ?m],
        intro exI [of _ ?n], intro exI [of _ "keep_alive_delay a"])
      (simp add: c1(1,5,9) srv1 c2 heard(3) returned set_channels_twice client_session_set_up_def
        client_media_set_up_def server_session_set_up_def server_media_set_up_def new_client_session_def)
qed

end
