(* ===== verification/RtspClientExamples.thy ===== *)
theory RtspClientExamples
  imports RtspKeepAliveExchange RtspDescribeExchange RtspSetupExchange RtspClientErrors RtspServerExamples
begin

text \<open>
  The properties of the client applied to concrete states: a new client, a connected one, and one that
  has a session whose keep-alive waits for its answer.
\<close>

section \<open>States\<close>

definition quiet_app :: client_application where
  "quiet_app = \<lparr>capp_calls = (\<lambda>_ _. []), capp_has = (\<lambda>_. True)\<rparr>"

definition client_environment :: client_env where
  "client_environment = \<lparr>cenv_now = 0, cenv_format = (\<lambda>_ _. Inr ''now''), cenv_is_ip = (\<lambda>_. False), cenv_md5 = (\<lambda>_. []),
     cenv_random = Inr ''1'', cenv_send = (\<lambda>_. 0), cenv_stop = 0, cenv_connect = (\<lambda>_ _. 0),
     cenv_resolve = (\<lambda>_. 0), cenv_ttls_init = 0, cenv_ssl_ctx = True\<rparr>"

definition full_socket :: client_env where
  "full_socket = client_environment\<lparr>cenv_send := (\<lambda>_. - EAGAIN)\<rparr>"

definition quiet_cbs :: rtsp_client_cbs where
  "quiet_cbs = client_app_cbs 0 client_environment quiet_app"

definition plain_client :: rtsp_client where
  "plain_client =
     \<lparr>cl_sock = False, cl_software_name = ''librtsp_client'', cl_auth = None, cl_server_auth = None,
      cl_channel_used = replicate 256 False, cl_url = None, cl_url_addr = 0, cl_url_str = None, cl_resolv_id = 0,
      cl_resolv_timer = None, cl_ttls_init = False, cl_ssl_ctx = False,
      cl_conn_state = RTSP_CLIENT_CONN_STATE_DISCONNECTED, cl_cseq = 1, cl_methods_allowed = 0, cl_sessions = [],
      cl_failed_requests = 0, cl_req_header = rtsp_request_header_clear, cl_req_is_pending = False,
      cl_req_is_internal = False, cl_req_uri = None, cl_req_content_base = None, cl_req_userdata = 0,
      cl_req_timer = None, cl_next_addr = 0, cl_output = []\<rparr>"

definition connected_client :: rtsp_client where
  "connected_client = plain_client\<lparr>cl_sock := True, cl_conn_state := RTSP_CLIENT_CONN_STATE_CONNECTED\<rparr>"

definition playing_session :: client_session where
  "playing_session = (new_client_session 0 ''12345678'')
     \<lparr>cs_timer := Some 30000, cs_timeout_ms := 30000, cs_media_count := 1,
      cs_medias := [\<lparr>cm_addr = 1, cm_path = ''video'', cm_userdata = 0, cm_channel_pair = (0, 1)\<rparr>]\<rparr>"

text \<open>The connection is lost: the session, with its two channels, is kept for a while.\<close>

definition lost_client :: rtsp_client where
  "lost_client = plain_client\<lparr>cl_next_addr := 2, cl_sessions := [playing_session],
     cl_channel_used := (replicate 256 False)[0 := True, 1 := True],
     cl_conn_state := RTSP_CLIENT_CONN_STATE_CONNECTING,
     cl_output := [Called (CallConnectionState RTSP_CLIENT_CONN_STATE_CONNECTING)]\<rparr>"

text \<open>A keep-alive with the number 6 has been sent for the session.\<close>

definition waiting_client :: rtsp_client where
  "waiting_client = connected_client\<lparr>cl_next_addr := 2, cl_cseq := 7,
     cl_sessions := [playing_session\<lparr>cs_keep_alive_in_progress := True\<rparr>], cl_req_is_pending := True,
     cl_req_header := rtsp_request_header_clear\<lparr>req_method := RTSP_METHOD_TYPE_GET_PARAMETER, req_cseq := 6\<rparr>\<rparr>"

lemmas client_example_defs = plain_client_def connected_client_def playing_session_def lost_client_def waiting_client_def
  new_client_session_def client_environment_def full_socket_def quiet_app_def quiet_cbs_def

lemma plain_client_new: "rtsp_client_new None (client_app_cbs 0 e quiet_app) = Inr plain_client"
  by (simp add: rtsp_client_new_def plain_client_def quiet_app_def RTSP_CLIENT_DEFAULT_SOFTWARE_NAME_def)

lemma quiet_idle: "idle_app quiet_cbs" "ccbs_has quiet_cbs k"
  by (simp_all add: idle_app_def quiet_cbs_def quiet_app_def)

lemma lost_client_ok: "client_ok lost_client"
  by (simp add: client_ok_def client_sessions_ok_def client_session_ok_def states_reported_def reported_states_def
      client_example_defs)

section \<open>Witnesses\<close>

lemma client_invariant_witness:
  "\<exists>c. client_reachable 0 quiet_app (\<lambda>_. Inl UB) (c, [], parser_ctx_init) \<and>
     reported_states c = [RTSP_CLIENT_CONN_STATE_CONNECTING] \<and> cl_conn_state c = RTSP_CLIENT_CONN_STATE_CONNECTING"
proof -
  let ?call = "ApiConnect (Some ''rtsp://cam'')"
  have "\<exists>c. client_api_step client_environment quiet_cbs ?call plain_client = Inr (0, c) \<and>
      reported_states c = [RTSP_CLIENT_CONN_STATE_CONNECTING]"
    by (simp add: rtsp_client_connect_def clear_remote_info_def url_eval set_connection_state_def call_app_def
        setup_tls_def start_resolution_def reported_states_def Let_def client_example_defs)
  then obtain c where c: "client_api_step client_environment quiet_cbs ?call plain_client = Inr (0, c)"
      "reported_states c = [RTSP_CLIENT_CONN_STATE_CONNECTING]"
    by blast
  have r: "client_reachable 0 quiet_app (\<lambda>_. Inl UB) (c, [], parser_ctx_init)"
    by (rule client_reachable.step [OF client_reachable.start [OF plain_client_new]
        client_step.api [OF c(1) [unfolded quiet_cbs_def]]])
  with client_invariant [OF r] c(2) show ?thesis
    by auto
qed

lemma options_bytes:
  "request_text tf (options_header connected_client) =
     ''OPTIONS * RTSP/1.0'' @ CRLF @ ''CSeq: 1'' @ CRLF @ ''User-Agent: librtsp_client'' @ CRLF @ CRLF"
  "request_text tf (options_header waiting_client) =
     ''OPTIONS * RTSP/1.0'' @ CRLF @ ''CSeq: 7'' @ CRLF @ ''User-Agent: librtsp_client'' @ CRLF @ CRLF"
  by (simp_all add: request_text_def request_line_def request_lines1_def request_lines2_def options_header_def
      line_if_def text_line_def ext_lines_def auth_lines_def crlf_lines_def rtsp_method_type_str_def show_int_def
      show_nat.simps rtsp_request_header_clear_def range_zero_def time_zero_def client_example_defs digit_char_def
      char_of_def bit_simps)

lemma connected:
  "cl_conn_state connected_client = RTSP_CLIENT_CONN_STATE_CONNECTED" "\<not> cl_req_is_pending connected_client"
  "cl_sock connected_client"
  "cenv_send client_environment (request_text (cenv_format client_environment) (options_header connected_client)) \<ge> 0"
  "length (request_text (cenv_format client_environment) (options_header connected_client)) < request_capacity"
  by (simp_all only: options_bytes) (simp_all add: client_example_defs request_capacity_def)

text \<open>The client asks for the end of its session: the one case of the property with a condition of its own.\<close>

definition leaving_client :: rtsp_client where
  "leaving_client = connected_client\<lparr>cl_next_addr := 2, cl_methods_allowed := 0x040,
     cl_sessions := [playing_session\<lparr>cs_content_base := Some ''rtsp://cam/live''\<rparr>]\<rparr>"

definition teardown_header :: rtsp_request_header where
  "teardown_header = plain_request RTSP_METHOD_TYPE_TEARDOWN ''rtsp://cam/live'' leaving_client (Some ''12345678'') None"

lemma teardown_sent:
  "\<exists>c1. client_api_step client_environment quiet_cbs (ApiTeardown None (Some ''12345678'') [] 5 4000) leaving_client = Inr (0, c1) \<and>
     cl_req_header c1 = teardown_header \<and> cl_sessions c1 = cl_sessions leaving_client"
proof -
  have "request_text tf teardown_header =
     ''TEARDOWN rtsp://cam/live RTSP/1.0'' @ CRLF @ ''CSeq: 1'' @ CRLF @ ''Session: 12345678'' @ CRLF @
     ''User-Agent: librtsp_client'' @ CRLF @ CRLF" for tf
    by (simp add: request_text_def request_line_def request_lines1_def request_lines2_def teardown_header_def
        plain_request_def line_if_def text_line_def ext_lines_def auth_lines_def crlf_lines_def session_text_def
        rtsp_method_type_str_def show_int_def show_nat.simps rtsp_request_header_clear_def range_zero_def
        time_zero_def leaving_client_def client_example_defs digit_char_def char_of_def bit_simps)
  then have len: "length (request_text (cenv_format client_environment) teardown_header) < request_capacity"
    by (simp add: request_capacity_def)
  have "request_writable (cenv_format client_environment) teardown_header"
    unfolding teardown_header_def by (rule plain_request_writable) simp_all
  note written = request_written [OF this len]
  let ?f = "finish_header (\<lambda>h. h\<lparr>req_session_id := Some ''12345678''\<rparr>) []
     (address_header (Some ''rtsp://cam/live'') (new_header RTSP_METHOD_TYPE_TEARDOWN 5 leaving_client))"
  have h: "cl_req_header ?f = teardown_header"
    by (simp add: finish_header_def address_header_def new_header_def teardown_header_def plain_request_def
        rtsp_request_header_copy_ext_def rtsp_request_header_clear_def leaving_client_def client_example_defs)
  have open_socket: "cl_sock ?f"
    by (simp add: finish_header_def address_header_def new_header_def leaving_client_def client_example_defs)
  have "begin_request leaving_client = Inr (0, leaving_client)" "is_method_allowed 0x040 leaving_client"
      "fst (rtsp_client_get_session (Some ''12345678'') False leaving_client) = Some 0"
      "deref_session 0 leaving_client = Inr (playing_session\<lparr>cs_content_base := Some ''rtsp://cam/live''\<rparr>)"
    by (simp_all add: begin_request_def clear_pending_keep_alive_timer_def is_method_allowed_def rtsp_client_get_session_def rtsp_client_session_find_def
        client_session_id_eq_def deref_session_def leaving_client_def client_example_defs)
  moreover have "add_authorization client_environment
      (address_header (Some ''rtsp://cam/live'') (new_header RTSP_METHOD_TYPE_TEARDOWN 5 leaving_client)) =
      Inr (0, address_header (Some ''rtsp://cam/live'') (new_header RTSP_METHOD_TYPE_TEARDOWN 5 leaving_client))"
    by (simp add: add_authorization_def generate_authorization_header_def auth_view_def put_auth_def
        address_header_def new_header_def leaving_client_def client_example_defs)
  moreover have "update_where (\<lambda>s. cs_addr s = 0) (\<lambda>s. s\<lparr>cs_internal_teardown := False\<rparr>) (cl_sessions ?f) =
      cl_sessions leaving_client"
    by (simp add: update_where_def finish_header_def address_header_def new_header_def leaving_client_def
        client_example_defs)
  moreover have "client_send_request client_environment None 4000 ?f =
      Inr (0, ?f\<lparr>cl_output := cl_output ?f @ [Sent (request_text (cenv_format client_environment) teardown_header)],
        cl_req_timer := Some 4000\<rparr>)"
    using written h open_socket by (simp add: client_send_request_def send_raw_buf_def) (simp add: client_example_defs)
  ultimately show ?thesis
    using h quiet_idle(2)
    by (simp add: rtsp_client_teardown_def send_teardown_def set_client_session_def)
qed

lemma accepted_request_completes_witness:
  "\<exists>c1 c2. client_api_step client_environment quiet_cbs (ApiTeardown None (Some ''12345678'') [] 5 4000) leaving_client = Inr (0, c1) \<and>
     cl_req_timer c1 = Some 4000 \<and>
     rtsp_client_resp_timeout_cb client_environment quiet_cbs c1 = Inr c2 \<and>
     completions c2 = completions c1 @ [(RTSP_CLIENT_REQ_STATUS_TIMEOUT, 5)]"
proof -
  obtain c1 where c1: "client_api_step client_environment quiet_cbs (ApiTeardown None (Some ''12345678'') [] 5 4000) leaving_client = Inr (0, c1)"
      "cl_req_header c1 = teardown_header" "cl_sessions c1 = cl_sessions leaving_client"
    using teardown_sent by blast
  have known: "teardown_known (req_session_id (cl_req_header c1)) c1"
    unfolding c1(2) teardown_known_def rtsp_client_get_session_def rtsp_client_session_find_def c1(3)
    by (simp add: teardown_header_def plain_request_def teardown_target_def client_session_id_eq_def
        rtsp_url_parse_path_def url_eval leaving_client_def client_example_defs)
  have "negative_formatter (cenv_format client_environment)"
    by (simp add: negative_formatter_def client_example_defs)
  from accepted_request_completes [OF this quiet_idle(1) _ _ c1(1), of RTSP_METHOD_TYPE_TEARDOWN 5 4000 client_environment]
    known
  show ?thesis
    using c1(1) by auto
qed

lemma keep_alive_gives_up_witness:
  "\<exists>c1 c2 c3. rtsp_client_pomp_timer_cb client_environment quiet_cbs 0 lost_client = Inr c1 \<and>
     rtsp_client_pomp_timer_cb client_environment quiet_cbs 0 c1 = Inr c2 \<and>
     rtsp_client_pomp_timer_cb client_environment quiet_cbs 0 c2 = Inr c3 \<and>
     cl_channel_used lost_client ! 0 \<and> \<not> cl_channel_used c3 ! 0 \<and> find_client_session c3 0 = None"
proof -
  have "find_client_session lost_client 0 = Some playing_session" "cs_failed_keep_alive playing_session = 0"
      "cs_timeout_ms playing_session \<ge> 3" "is_method_allowed 0x080 lost_client"
      "cl_conn_state lost_client \<noteq> RTSP_CLIENT_CONN_STATE_CONNECTED" "cl_channel_used lost_client ! 0"
      "cs_medias playing_session = [\<lparr>cm_addr = 1, cm_path = ''video'', cm_userdata = 0, cm_channel_pair = (0, 1)\<rparr>]"
    by (simp_all add: is_method_allowed_def client_example_defs)
  with keep_alive_gives_up [OF quiet_idle(1) lost_client_ok, of 0 playing_session client_environment client_environment
      client_environment]
  show ?thesis
    by (fastforce simp: is_channel_pair_valid_def)
qed

lemma refused_request_blocks_witness:
  "\<exists>res c1 c2. rtsp_client_options full_socket quiet_cbs [] 5 4000 waiting_client = Inr (res, c1) \<and> res < 0 \<and>
     rtsp_client_response_process client_environment quiet_cbs (rtsp_response_header_clear\<lparr>resp_cseq := 6\<rparr>) (Inr []) c1 =
       Inr (0, c2) \<and> begin_request c2 = Inr (- EBUSY, c2)"
proof -
  let ?h = "options_header waiting_client"
  have "write_request full_socket ?h None = Inr (request_text (cenv_format full_socket) ?h)"
    using request.write_fits [OF options_writable, of "\<lparr>rs_str = [], rs_max_len = request_capacity\<rparr>"
        "cenv_format full_socket" waiting_client]
    by (simp add: write_request_def options_bytes request_capacity_def)
  then have "\<exists>res c1. rtsp_client_options full_socket quiet_cbs [] 5 4000 waiting_client = Inr (res, c1) \<and> res < 0"
    by (simp add: rtsp_client_options_def begin_request_def clear_pending_keep_alive_timer_def send_pending_def
        client_send_request_def send_raw_buf_def finish_header_def address_header_def new_header_def options_header_def
        rtsp_request_header_copy_ext_def client_example_defs)
  then obtain res c1 where sent: "rtsp_client_options full_socket quiet_cbs [] 5 4000 waiting_client = Inr (res, c1)" "res < 0"
    by blast
  have "keep_alive_pending 0 6 waiting_client" "sint (cl_cseq waiting_client) \<noteq> 6"
    by (simp_all add: keep_alive_pending_def client_sessions_ok_def client_session_ok_def client_example_defs)
  from refused_request_blocks [OF this quiet_idle(2) sent, of "rtsp_response_header_clear\<lparr>resp_cseq := 6\<rparr>"
      client_environment "Inr []"] sent show ?thesis
    by auto
qed

lemma options_exchange_witness:
  "\<exists>c1 srv1 sctx1 c2 cctx2 up answer.
     rtsp_client_options client_environment quiet_cbs [] 5 4000 connected_client = Inr (0, c1) \<and>
     cl_output c1 = [Sent (concat up)] \<and> length up = 2 \<and>
     call_each (rtsp_server_pomp_cb (\<lambda>_. Inl UB) (plain_env 0) (app_cbs (plain_env 0) silent_app) 3 []) up
       (plain_server, [], parser_ctx_init) = Inr (srv1, [], sctx1) \<and>
     srv_output srv1 = [SentTo 3 answer] \<and>
     tskt_client_data_cb (\<lambda>_. Inl UB) client_environment quiet_cbs answer (c1, [], parser_ctx_init) = Inr (c2, [], cctx2) \<and>
     cl_output c2 = [Sent (concat up), Called (CallOptionsResp RTSP_CLIENT_REQ_STATUS_OK 0 server_methods [] 5)]"
proof -
  define rq where "rq = request_text (cenv_format client_environment) (options_header connected_client)"
  define answer where
    "answer = response_text (env_format (plain_env 0)) (options_answer (plain_env 0) plain_server (options_header connected_client))"
  have short: "length rq < request_capacity"
    using connected(5) by (simp add: rq_def)
  have fits: "length answer < srv_max_msg_size plain_server"
    by (simp add: answer_def options_answer_def server_methods_def all_response_lines_def methods_text_def
        method_names_def method_flags_def response_text_def response_line_def response_lines1_def response_lines2_def
        options_header_def line_if_def text_line_def ext_lines_def crlf_lines_def show_int_def show_nat.simps
        rtsp_response_header_clear_def range_zero_def time_zero_def plain_server_def plain_env_def plain_client_def
        connected_client_def)
  have idle: "idle parser_ctx_init"
    by (simp add: idle_def parser_ctx_init_def)
  have "is_line (cl_software_name connected_client)" "0 \<le> sint (cl_cseq connected_client)"
      "is_line (srv_software_name plain_server)" "srv_max_msg_size plain_server < 2 ^ 63"
      "env_send (plain_env 0) 3 answer = 0" "cenv_send client_environment rq \<ge> 0"
    by (simp_all add: is_line_def client_example_defs example_defs)
  note * = options_exchange [OF quiet_idle(1,2) connected(1-3) this(1,2) rq_def short this(6) plain_server_ok this(3)
      dates_plain [of 0 "\<lambda>_. Inl UB"] answer_def fits this(4,5) idle _ idle, of "[take 10 rq, drop 10 rq]" "[answer]"]
  have out: "cl_output connected_client = []" "srv_output plain_server = []"
    by (simp_all add: client_example_defs example_defs)
  obtain c1 srv1 sctx1 c2 cctx2 where all:
      "rtsp_client_options client_environment quiet_cbs [] 5 4000 connected_client = Inr (0, c1)" "cl_output c1 = [Sent rq]"
      "call_each (rtsp_server_pomp_cb (\<lambda>_. Inl UB) (plain_env 0) (app_cbs (plain_env 0) silent_app) 3 []) [take 10 rq, drop 10 rq]
         (plain_server, [], parser_ctx_init) = Inr (srv1, [], sctx1)"
      "srv_output srv1 = [SentTo 3 answer]"
      "call_each (tskt_client_data_cb (\<lambda>_. Inl UB) client_environment quiet_cbs) [answer] (c1, [], parser_ctx_init) = Inr (c2, [], cctx2)"
      "cl_output c2 = cl_output c1 @ [Called (CallOptionsResp RTSP_CLIENT_REQ_STATUS_OK 0 server_methods [] 5)]"
    using * [of 5 4000 "\<lambda>_. Inl UB" "app_cbs (plain_env 0) silent_app" "[]" client_environment] out
    by auto
  then show ?thesis
    by (intro exI [of _ c1] exI [of _ srv1] exI [of _ sctx1] exI [of _ c2] exI [of _ cctx2] exI [of _ "[take 10 rq, drop 10 rq]"]
        exI [of _ answer]) (simp add: bindr_Inr_iff)
qed

section \<open>A session that is kept alive\<close>

text \<open>A connected client with the session that \<open>playing_server\<close> has.\<close>

definition kept_session :: client_session where
  "kept_session = playing_session\<lparr>cs_id := ''0000000000000001'', cs_content_base := Some ''rtsp://cam/live''\<rparr>"

definition kept_client :: rtsp_client where
  "kept_client = connected_client\<lparr>cl_next_addr := 2, cl_sessions := [kept_session],
     cl_channel_used := (replicate 256 False)[0 := True, 1 := True],
     cl_output := [Called (CallConnectionState RTSP_CLIENT_CONN_STATE_CONNECTING),
                   Called (CallConnectionState RTSP_CLIENT_CONN_STATE_CONNECTED)]\<rparr>"

lemmas kept_defs = kept_client_def kept_session_def client_example_defs

lemma kept_client_ok: "client_ok kept_client"
  by (simp add: client_ok_def client_sessions_ok_def client_session_ok_def states_reported_def reported_states_def
      kept_defs)

lemma kept_base: "rtsp_url_parse_path (Some ''rtsp://cam/live'') = Inr (Some ''live'')"
  by (simp add: rtsp_url_parse_path_def url_eval)

lemma kept_lengths:
  "length (request_text (cenv_format client_environment) (keep_alive_header kept_client kept_session)) < request_capacity"
  "length (response_text (env_format (plain_env 0)) (keep_alive_answer (plain_env 0) playing_server example_session
     (keep_alive_header kept_client kept_session))) < srv_max_msg_size playing_server"
  by (simp_all add: request_text_def request_line_def request_lines1_def request_lines2_def keep_alive_header_def
      all_response_lines_def response_text_def response_line_def response_lines1_def response_lines2_def
      keep_alive_answer_def session_text_def auth_lines_def rtsp_method_type_str_def request_capacity_def
      line_if_def text_line_def ext_lines_def crlf_lines_def show_int_def show_nat.simps range_zero_def time_zero_def
      kept_defs example_defs)

lemma keep_alive_exchange_witness:
  "\<exists>up answer. length up = 2 \<and> (\<exists>c1 srv1 sctx1 c2 cctx2 s2 t1 d.
     rtsp_client_pomp_timer_cb client_environment quiet_cbs 0 kept_client = Inr c1 \<and>
     cl_output c1 = cl_output kept_client @ [Sent (concat up)] \<and>
     call_each (rtsp_server_pomp_cb (\<lambda>_. Inl UB) (plain_env 0) (app_cbs (plain_env 0) silent_app) 3 []) up
       (playing_server, [], parser_ctx_init) = Inr (srv1, [], sctx1) \<and>
     srv_output srv1 = [SentTo 3 answer] \<and> find_session srv1 0 = Some t1 \<and> ss_timer t1 = Some 72000 \<and>
     call_each (tskt_client_data_cb (\<lambda>_. Inl UB) client_environment quiet_cbs) [answer] (c1, [], parser_ctx_init) =
       Inr (c2, [], cctx2) \<and>
     find_client_session c2 0 = Some s2 \<and> cs_timer s2 = Some d \<and> 3 * unat d \<le> 72000)"
proof -
  define rq where "rq = request_text (cenv_format client_environment) (keep_alive_header kept_client kept_session)"
  define answer where "answer = response_text (env_format (plain_env 0)) (keep_alive_answer (plain_env 0) playing_server
    example_session (keep_alive_header kept_client kept_session))"
  have fits: "length rq < request_capacity" "length answer < srv_max_msg_size playing_server"
    using kept_lengths by (simp_all add: rq_def answer_def)
  have idle: "idle parser_ctx_init"
    by (simp add: idle_def parser_ctx_init_def)
  have c: "cl_conn_state kept_client = RTSP_CLIENT_CONN_STATE_CONNECTED" "\<not> cl_req_is_pending kept_client"
      "cl_sock kept_client" "is_method_allowed 0x080 kept_client" "cl_auth kept_client = None"
      "find_client_session kept_client 0 = Some kept_session" "\<not> cs_keep_alive_in_progress kept_session"
      "is_line (cs_id kept_session)" "CHR '';'' \<notin> set (cs_id kept_session)"
      "cs_content_base kept_session = Some ''rtsp://cam/live''" "is_line ''rtsp://cam/live''"
      "CHR '' '' \<notin> set ''rtsp://cam/live''"
    by (simp_all add: is_line_def is_method_allowed_def kept_defs)
  have c': "is_line (cl_software_name kept_client)" "0 \<le> sint (cl_cseq kept_client)" "cenv_send client_environment rq \<ge> 0"
    by (simp_all add: is_line_def kept_defs)
  have s: "is_line (srv_software_name playing_server)" "ss_media_count example_session > 0"
      "ss_timer example_session \<noteq> None" "1000 \<le> unat (ss_timeout_ms example_session)"
      "12 * unat (ss_timeout_ms example_session) + 9 < 2 ^ 32" "srv_max_msg_size playing_server < 2 ^ 63"
      "env_send (plain_env 0) 3 answer = 0" "rtsp_server_session_find playing_server (cs_id kept_session) = Some example_session"
    by (simp_all add: is_line_def rtsp_server_session_find_def session_id_eq_def kept_defs example_defs)
  have out: "srv_output playing_server = []" "ss_addr example_session = 0" "session_delay (ss_timeout_ms example_session) = 72000"
    by (simp_all add: session_delay_def example_defs)
  note * = keep_alive_exchange [OF kept_client_ok c kept_base c'(1,2) rq_def fits(1) c'(3) playing_server_ok s(1)
        dates_plain [of 0 "\<lambda>_. Inl UB"] s(8,2-5) answer_def fits(2) s(6,7) idle _ idle, of "[take 10 rq, drop 10 rq]" "[answer]"]
  obtain c1 srv1 sctx1 c2 cctx2 s2 t1 d where
    "rtsp_client_pomp_timer_cb client_environment quiet_cbs 0 kept_client = Inr c1"
    "cl_output c1 = cl_output kept_client @ [Sent rq]"
    "call_each (rtsp_server_pomp_cb (\<lambda>_. Inl UB) (plain_env 0) (app_cbs (plain_env 0) silent_app) 3 []) [take 10 rq, drop 10 rq]
       (playing_server, [], parser_ctx_init) = Inr (srv1, [], sctx1)"
    "srv_output srv1 = [SentTo 3 answer]" "find_session srv1 0 = Some t1" "ss_timer t1 = Some 72000"
    "call_each (tskt_client_data_cb (\<lambda>_. Inl UB) client_environment quiet_cbs) [answer] (c1, [], parser_ctx_init) =
       Inr (c2, [], cctx2)"
    "find_client_session c2 0 = Some s2" "cs_timer s2 = Some d" "3 * unat d \<le> 72000"
    using * [of quiet_cbs "\<lambda>_. Inl UB" "app_cbs (plain_env 0) silent_app" "[]" client_environment]
    unfolding out by (simp del: call_each.simps) blast
  then show ?thesis
    by (intro exI [of _ "[take 10 rq, drop 10 rq]"] exI [of _ answer] conjI exI [of _ c1] exI [of _ srv1] exI [of _ sctx1]
        exI [of _ c2] exI [of _ cctx2] exI [of _ s2] exI [of _ t1] exI [of _ d]) (simp_all del: call_each.simps)
qed

section \<open>A description\<close>

definition described_client :: rtsp_client where
  "described_client = connected_client\<lparr>cl_url_str := Some ''rtsp://cam/live''\<rparr>"

definition example_sdp :: string where
  "example_sdp = ''v=0'' @ CRLF @ ''s=live'' @ CRLF"

definition describing_app :: application where
  "describing_app = silent_app\<lparr>app_calls := (\<lambda>c _. case c of CallDescribe _ _ r \<Rightarrow> [ReplyDescribe r 200 [] (Some example_sdp)] | _ \<Rightarrow> [])\<rparr>"

lemmas described_defs = described_client_def client_example_defs

lemma described_path: "rtsp_url_parse_host_and_path (Some ''rtsp://cam/live'') = Inr (''cam'', Some ''live'')"
  by (simp add: rtsp_url_parse_host_and_path_def url_eval)

lemma described_lengths:
  "length (request_text (cenv_format client_environment) (describe_header described_client ''rtsp://cam/live'')) < request_capacity"
  "length (response_text (env_format (plain_env 0)) (describe_answer (plain_env 0) plain_server
     (describe_header described_client ''rtsp://cam/live'') example_sdp) @ example_sdp) < srv_max_msg_size plain_server"
  by (simp_all add: request_text_def request_line_def request_lines1_def request_lines2_def describe_header_def
      plain_request_def all_response_lines_def response_text_def response_line_def response_lines1_def response_lines2_def
      describe_answer_def full_answer_def plain_answer_def auth_lines_def rtsp_method_type_str_def request_capacity_def
      line_if_def text_line_def ext_lines_def crlf_lines_def show_int_def show_nat.simps range_zero_def time_zero_def
      RTSP_CONTENT_TYPE_SDP_def example_sdp_def described_defs example_defs)

lemma describe_exchange_witness:
  "\<exists>up answer. length up = 2 \<and> (\<exists>c1 srv1 sctx1 c2 cctx2.
     rtsp_client_describe client_environment quiet_cbs None [] 5 4000 described_client = Inr (0, c1) \<and>
     cl_output c1 = [Sent (concat up)] \<and>
     call_each (rtsp_server_pomp_cb (\<lambda>_. Inl UB) (plain_env 0) (app_cbs (plain_env 0) describing_app) 3 []) up
       (plain_server, [], parser_ctx_init) = Inr (srv1, [], sctx1) \<and>
     srv_output srv1 = [SentTo 3 answer] \<and>
     call_each (tskt_client_data_cb (\<lambda>_. Inl UB) client_environment quiet_cbs) [answer] (c1, [], parser_ctx_init) =
       Inr (c2, [], cctx2) \<and>
     cl_output c2 = [Sent (concat up), Called (CallDescribeResp RTSP_CLIENT_REQ_STATUS_OK 0 (Some ''rtsp://cam/live'') []
       (''v=0'' @ CRLF @ ''s=live'' @ CRLF) 5)])"
proof -
  define rq where "rq = request_text (cenv_format client_environment) (describe_header described_client ''rtsp://cam/live'')"
  define answer where "answer = response_text (env_format (plain_env 0)) (describe_answer (plain_env 0) plain_server
     (describe_header described_client ''rtsp://cam/live'') example_sdp) @ example_sdp"
  have fits: "length rq < request_capacity" "length answer < srv_max_msg_size plain_server"
    using described_lengths by (simp_all add: rq_def answer_def)
  have idle: "idle parser_ctx_init"
    by (simp add: idle_def parser_ctx_init_def)
  have c: "cl_conn_state described_client = RTSP_CLIENT_CONN_STATE_CONNECTED" "\<not> cl_req_is_pending described_client"
      "cl_sock described_client" "is_method_allowed 0x002 described_client" "cl_auth described_client = None"
      "make_uri None described_client = Inr (Some ''rtsp://cam/live'')" "is_line ''rtsp://cam/live''"
      "CHR '' '' \<notin> set ''rtsp://cam/live''" "is_line (cl_software_name described_client)"
      "0 \<le> sint (cl_cseq described_client)"
    by (simp_all add: is_line_def is_method_allowed_def make_uri_def described_defs)
  have c': "cenv_send client_environment rq \<ge> 0"
    by (simp add: described_defs)
  have s: "is_line (srv_software_name plain_server)" "describes describing_app ''cam'' (Some ''live'') example_sdp"
      "example_sdp \<noteq> []" "srv_max_msg_size plain_server \<le> 65535" "env_send (plain_env 0) 3 answer = 0"
    by (simp_all add: is_line_def describes_def describing_app_def example_sdp_def example_defs)
  have out: "srv_output plain_server = []" "cl_output described_client = []"
    by (simp_all add: described_defs example_defs)
  note * = describe_exchange [OF quiet_idle(1,2) c rq_def fits(1) c' plain_server_ok s(1) dates_plain [of 0 "\<lambda>_. Inl UB"]
      described_path s(2,3) answer_def fits(2) s(4,5) idle _ idle, of "[take 10 rq, drop 10 rq]" "[answer]"]
  obtain c1 srv1 sctx1 c2 cctx2 where
    "rtsp_client_describe client_environment quiet_cbs None [] 5 4000 described_client = Inr (0, c1)" "cl_output c1 = [Sent rq]"
    "call_each (rtsp_server_pomp_cb (\<lambda>_. Inl UB) (plain_env 0) (app_cbs (plain_env 0) describing_app) 3 [])
       [take 10 rq, drop 10 rq] (plain_server, [], parser_ctx_init) = Inr (srv1, [], sctx1)"
    "srv_output srv1 = [SentTo 3 answer]"
    "call_each (tskt_client_data_cb (\<lambda>_. Inl UB) client_environment quiet_cbs) [answer] (c1, [], parser_ctx_init) =
       Inr (c2, [], cctx2)"
    "cl_output c2 = cl_output c1 @ [Called (CallDescribeResp RTSP_CLIENT_REQ_STATUS_OK 0 (Some ''rtsp://cam/live'') []
       example_sdp 5)]"
    using * [of 5 4000 "\<lambda>_. Inl UB" "[]" client_environment] unfolding out by (auto simp del: call_each.simps)
  then show ?thesis
    by (intro exI [of _ "[take 10 rq, drop 10 rq]"] exI [of _ answer] conjI exI [of _ c1] exI [of _ srv1] exI [of _ sctx1]
        exI [of _ c2] exI [of _ cctx2]) (simp_all add: example_sdp_def del: call_each.simps)
qed

section \<open>A session that is set up\<close>

definition accepting_app :: application where
  "accepting_app = silent_app\<lparr>app_calls := (\<lambda>c _. case c of
     CallSetup _ _ r m _ \<Rightarrow> [ReplySetup r m 200 5004 5005 True 7 [] 9] | _ \<Rightarrow> [])\<rparr>"

definition offered :: rtsp_transport_header where
  "offered = setup_offer RTSP_LOWER_TRANSPORT_TCP 0 0 RTSP_TRANSPORT_METHOD_PLAY (0, 1)"

text \<open>The connected client, whose connection has been reported.\<close>

definition ready_client :: rtsp_client where
  "ready_client = connected_client\<lparr>cl_output := [Called (CallConnectionState RTSP_CLIENT_CONN_STATE_CONNECTING),
     Called (CallConnectionState RTSP_CLIENT_CONN_STATE_CONNECTED)]\<rparr>"

lemmas ready_defs = ready_client_def client_example_defs

lemma ready_client_ok: "client_ok ready_client"
  by (simp add: client_ok_def client_sessions_ok_def states_reported_def reported_states_def ready_defs)

lemma ready_offers: "offers ready_client RTSP_LOWER_TRANSPORT_TCP 0 0 (0, 1)"
  by (simp add: offers_def first_free_pair_def free_pair_def pair_channels_def pair_index_def upt_conv_Cons
      ready_defs)

lemma ready_track:
  "rtsp_url_strip_credentials is_ip (Some ''rtsp://cam/live'') = Inr ''rtsp://cam/live''"
  "format_request_uri (Some ''rtsp://cam/live'') (Some ''track1'') = Inr ''rtsp://cam/live/track1''"
  "rtsp_url_parse_host_and_path (Some ''rtsp://cam/live/track1'') = Inr (''cam'', Some ''live/track1'')"
  "strrchr_cut (CHR ''/'') ''rtsp://cam/live/track1'' = (''rtsp://cam/live'', Some ''track1'')"
  by (simp_all add: rtsp_url_strip_credentials_def rtsp_url_to_str_def format_request_uri_def get_last_char_def
      rtsp_url_parse_host_and_path_def rtsp_url_to_str_internal_def rtsp_url_scheme_str_def
      port_text_def opt_str_def Let_def RTSP_SCHEME_TCP_def url_eval strrchr_cut_def strchr_cut_def)

lemma ready_session_id: "fresh_session_id (plain_env 0) plain_server = Some ''0000000000000001''"
proof -
  have "show_hex digit_char (unat (1 :: 64 word)) = ''1''"
    by (subst show_hex.simps) (simp add: digit_char_def char_of_def bit_simps)
  then have "session_id_of 1 = ''0000000000000001''"
    by (simp add: session_id_of_def pad0_def numeral_eq_Suc)
  then show ?thesis
    by (simp add: fresh_session_id_def example_defs)
qed

lemma setup_lengths:
  "length (request_text (cenv_format client_environment) (setup_header ready_client ''rtsp://cam/live/track1'' offered))
     < request_capacity"
  "length (response_text (env_format (plain_env 0)) (setup_answer (plain_env 0) plain_server
     (setup_header ready_client ''rtsp://cam/live/track1'' offered) ''0000000000000001'' 60000
     (setup_transport offered 5004 5005 True 7))) < srv_max_msg_size plain_server"
  by (simp_all add: request_text_def request_line_def request_lines1_def request_lines2_def setup_header_def
      plain_request_def all_response_lines_def response_text_def response_line_def response_lines1_def response_lines2_def
      setup_answer_def full_answer_def plain_answer_def auth_lines_def rtsp_method_type_str_def request_capacity_def
      line_if_def text_line_def ext_lines_def crlf_lines_def show_int_def show_nat.simps range_zero_def time_zero_def
      session_text_def offered_def setup_offer_def setup_transport_def rtsp_transport_header_new_def
      transport_skipped_def transport_fields_def spec_text_def delivery_text_def param_fields_def opt_field_def
      unsigned_field_def ports_fields_def port_field_def control_port_def interleaved_field_def pair_text_def
      ssrc_field_def mode_field_def rtsp_lower_transport_str_def pad0_def show_hex.simps ready_defs example_defs)

lemma setup_exchange_witness:
  "\<exists>up answer. length up = 2 \<and> (\<exists>c1 srv1 sctx1 c2 cctx2 s t m n d.
     rtsp_client_setup client_environment quiet_cbs (Some ''rtsp://cam/live'') (Some ''track1'') None RTSP_DELIVERY_UNICAST
       RTSP_LOWER_TRANSPORT_TCP 0 0 RTSP_TRANSPORT_METHOD_PLAY [] 5 4000 ready_client = Inr (0, c1) \<and>
     cl_output c1 = cl_output ready_client @ [Sent (concat up)] \<and>
     call_each (rtsp_server_pomp_cb (\<lambda>_. Inl UB) (plain_env 0) (app_cbs (plain_env 0) accepting_app) 3 ''peer'') up
       (plain_server, [], parser_ctx_init) = Inr (srv1, [], sctx1) \<and>
     srv_output srv1 = [SentTo 3 answer] \<and> srv_sessions srv1 = [t] \<and>
     call_each (tskt_client_data_cb (\<lambda>_. Inl UB) client_environment quiet_cbs) [answer] (c1, [], parser_ctx_init) =
       Inr (c2, [], cctx2) \<and>
     cl_sessions c2 = [s] \<and> cs_id s = ss_session_id t \<and> cs_medias s = [m] \<and> ss_medias t = [n] \<and>
     cm_path m = ''live/track1'' \<and> sm_path n = ''live/track1'' \<and> cm_channel_pair m = (0, 1) \<and>
     cl_channel_used c2 ! 0 \<and> cs_timer s = Some d \<and> 3 * unat d \<le> 72000)"
proof -
  let ?uri = "''rtsp://cam/live/track1''"
  define h where "h = setup_header ready_client ?uri offered"
  define rq where "rq = request_text (cenv_format client_environment) h"
  define a where "a = setup_answer (plain_env 0) plain_server h ''0000000000000001''
    (srv_session_timeout_ms plain_server) (setup_transport offered 5004 5005 True 7)"
  define answer where "answer = response_text (env_format (plain_env 0)) a"
  have timeout: "srv_session_timeout_ms plain_server = 60000"
    by (simp add: example_defs)
  have fits: "length rq < request_capacity" "length answer < srv_max_msg_size plain_server"
    using setup_lengths by (simp_all add: rq_def answer_def a_def h_def timeout)
  have idle: "idle parser_ctx_init"
    by (simp add: idle_def parser_ctx_init_def)
  have c: "cl_conn_state ready_client = RTSP_CLIENT_CONN_STATE_CONNECTED" "\<not> cl_req_is_pending ready_client"
      "cl_sock ready_client" "is_method_allowed 0x008 ready_client" "cl_auth ready_client = None"
      "is_line (cl_software_name ready_client)" "0 \<le> sint (cl_cseq ready_client)"
      "rtsp_client_session_find ready_client sid = None" "cenv_send client_environment rq \<ge> 0" for sid
    by (simp_all add: is_line_def is_method_allowed_def rtsp_client_session_find_def ready_defs)
  have s: "is_line (srv_software_name plain_server)" "1000 \<le> unat (srv_session_timeout_ms plain_server)"
      "12 * unat (srv_session_timeout_ms plain_server) + 9 < 2 ^ 32" "srv_max_msg_size plain_server < 2 ^ 63"
      "env_send (plain_env 0) 3 answer = 0" "sets_up accepting_app 5004 5005 True 7 9"
    by (simp_all add: is_line_def sets_up_def accepting_app_def example_defs)
  have misc: "''rtsp://cam/live'' \<noteq> []" "''track1'' \<noteq> []" "is_line ?uri" "CHR '' '' \<notin> set ?uri" "''peer'' \<noteq> []"
      "(5004 :: 16 word) \<noteq> 0" "(5005 :: 16 word) \<noteq> 0" "True \<or> (7 :: 32 word) = 0"
    by (simp_all add: is_line_def)
  have out: "srv_output plain_server = []" "srv_sessions plain_server = []" "cl_sessions ready_client = []"
      "session_delay (srv_session_timeout_ms plain_server) = 72000"
      "set_channel_pair_used (0, 1) True (cl_channel_used ready_client) ! 0"
    by (simp_all add: session_delay_def set_channel_pair_used_def is_channel_pair_valid_def ready_defs example_defs)
  note * = setup_exchange [OF quiet_idle(1,2) ready_client_ok c(1-7) ready_track(1) misc(1) ready_track(2) misc(2-4)
      ready_offers h_def [unfolded offered_def] rq_def fits(1) c(9) plain_server_ok s(1) dates_plain [of 0 "\<lambda>_. Inl UB"] misc(5)
      ready_track(3,4) ready_session_id c(8) s(2,3,6) misc(6-8) a_def [unfolded offered_def] answer_def fits(2) s(4,5)
      idle _ idle, of "[take 10 rq, drop 10 rq]" "[answer]"]
  obtain c1 srv1 sctx1 c2 cctx2 s t m n d where all:
    "rtsp_client_setup client_environment quiet_cbs (Some ''rtsp://cam/live'') (Some ''track1'') None RTSP_DELIVERY_UNICAST
       RTSP_LOWER_TRANSPORT_TCP 0 0 RTSP_TRANSPORT_METHOD_PLAY [] 5 4000 ready_client = Inr (0, c1)"
    "cl_output c1 = cl_output ready_client @ [Sent rq]"
    "call_each (rtsp_server_pomp_cb (\<lambda>_. Inl UB) (plain_env 0) (app_cbs (plain_env 0) accepting_app) 3 ''peer'')
       [take 10 rq, drop 10 rq] (plain_server, [], parser_ctx_init) = Inr (srv1, [], sctx1)"
    "srv_output srv1 = [SentTo 3 answer]" "srv_sessions srv1 = [t]"
    "call_each (tskt_client_data_cb (\<lambda>_. Inl UB) client_environment quiet_cbs) [answer] (c1, [], parser_ctx_init) =
       Inr (c2, [], cctx2)"
    "cl_sessions c2 = [s]" "cs_id s = ss_session_id t" "cs_medias s = [m]" "ss_medias t = [n]"
    "cm_path m = ''live/track1''" "sm_path n = ''live/track1''" "cm_channel_pair m = (0, 1)"
    "cl_channel_used c2 = set_channel_pair_used (0, 1) True (cl_channel_used ready_client)"
    "cs_timer s = Some d" "3 * unat d \<le> 72000"
    using * [of 5 4000 "\<lambda>_. Inl UB" client_environment] unfolding out by (auto simp del: call_each.simps)
  have "cl_channel_used c2 ! 0"
    by (simp only: all(14) out)
  with all show ?thesis
    by (intro exI [of _ "[take 10 rq, drop 10 rq]"] exI [of _ answer] conjI, simp, intro exI [of _ c1], intro exI [of _ srv1],
        intro exI [of _ sctx1], intro exI [of _ c2], intro exI [of _ cctx2], intro exI [of _ s], intro exI [of _ t],
        intro exI [of _ m], intro exI [of _ n], intro exI [of _ d]) (simp del: call_each.simps)
qed

end
