(* ===== verification/Spec2Isabelle.thy ===== *)
theory Spec2Isabelle
  imports RtspPrelude RtspString RtspBase64 RtspUrl RtspUrlCpp RtspStatus RtspMethods RtspHeaders
    RtspTransport RtspAuth RtspClientAuth RtspFloat RtspRange RtspLines RtspFields RtspRequest RtspResponse
    RtspMessage RtspStream RtspEffects RtspServerState RtspServerReply RtspServer RtspServerFrame RtspServerInvariant
    RtspServerTimers RtspServerAnswers RtspServerErrors RtspServerSessions RtspServerExamples
    RtspClientState RtspSocketOptions RtspClientRequest RtspClient RtspClientFrame RtspClientInvariant RtspClientChannels
    RtspClientCompletion RtspClientKeepAlive RtspClientErrors RtspExchange RtspDescribeExchange
    RtspKeepAliveExchange RtspSetupExchange RtspClientExamples
begin

text \<open>
  A model of librtsp, an RTSP 1.0 client and server library in C, and the theorems that make it correct.
  The files named below are those of \<open>src/\<close> and \<open>include/rtsp/\<close>.

  \<^bold>\<open>The program.\<close> The library has four layers. (1) Texts and headers: URLs and the C++ class over them, base64,
  authentication, the single header fields, and the writers and readers of request and response headers
  (\<open>rtsp_url.c\<close>, \<open>rtsp_url.cpp\<close>,
  \<open>rtsp_base64.c\<close>, \<open>rtsp_auth.c\<close>, most of \<open>rtsp.c\<close>). (2) Framing: \<open>rtsp_get_next_message\<close> of \<open>rtsp.c\<close>
  cuts the received bytes into headers with bodies and interleaved packets. (3) The server
  (\<open>rtsp_server.c\<close>, \<open>rtsp_server_session.c\<close>, \<open>rtsp_server_request.c\<close>): sessions with medias, requests that
  wait for the answer of the application, timers. (4) The client (\<open>rtsp_client.c\<close>,
  \<open>rtsp_client_session.c\<close>): one pending request at a time, sessions kept alive, a connection that is
  established again when it is lost. Server and client call the application back, and the application
  calls their functions, also from inside a callback.

  \<^bold>\<open>How the C code is rendered.\<close> A function that returns a negative errno is of type \<open>failure + 'a\<close>
  (\<open>RtspPrelude\<close>): \<open>Inl (Err e)\<close> is the errno, \<open>Inl UB\<close> is undefined behaviour (a NULL or freed pointer
  that is used, a read or write outside a block, a conversion out of range), \<open>Inr\<close> the result. A
  function that changes the state of the server or of the client even when it fails returns the C return
  value with the new state. Fixed-width integers are words; \<open>float\<close> and \<open>double\<close> are rationals rounded as
  IEEE 754 prescribes (\<open>RtspFloat\<close>); strings are lists of characters, NULL is \<open>None\<close>. List nodes are known
  by an address, a number that is never used again: a lookup of an address that is gone is a
  dangling pointer, hence \<open>UB\<close>. What leaves the program (bytes, callbacks, calls of the resolver) is a list
  of outputs in the state. Memory allocation is taken to succeed, except where a peer chooses its size.

  \<^bold>\<open>The theories.\<close>
  \<^item> \<open>RtspPrelude\<close>, \<open>RtspString\<close>: results, the C string and number functions, the bounded output buffer;
    \<open>RtspString\<close> has the interface \<open>bounded_writer\<close> (a writer appends the text of an object, or fails and
    when it fits never overflows), which every header writer below is an interpretation of.
  \<^item> \<open>RtspBase64\<close>, \<open>RtspUrl\<close>, \<open>RtspStatus\<close>, \<open>RtspMethods\<close>, \<open>RtspHeaders\<close>, \<open>RtspTransport\<close>, \<open>RtspAuth\<close>,
    \<open>RtspFloat\<close>, \<open>RtspRange\<close>: one theory per kind of text, with its writer, its reader, the round trip of the
    two, and the inputs on which it fails. \<open>RtspUrlCpp\<close>: the class \<open>RtspUrl\<close>, whose cached texts are compared
    with those of \<open>rtsp_url.c\<close>.
  \<^item> \<open>RtspLines\<close>, \<open>RtspFields\<close>, \<open>RtspRequest\<close>, \<open>RtspResponse\<close>: lines, the fields both headers share, and the
    headers themselves. \<open>request_sent\<close> and \<open>response_sent\<close> (and \<open>auth_sent\<close> for the Authorization) are what of
    a header its lines carry and the peer reads; the round trips prove it for all fields at once, under
    conditions on the fields that \<open>wf_request\<close> and \<open>wf_response\<close> list. The streams of frames below are of
    headers that lose nothing.
  \<^item> \<open>RtspMessage\<close>, \<open>RtspStream\<close>: the parser with its context, the loop of the two receive callbacks and its
    termination; the loop refines a sequence of frames, however the transport cuts the bytes.
  \<^item> \<open>RtspEffects\<close>: lists changed in place, walks over lists whose nodes may be freed on the way, and the
    rules for \<open>ensures\<close>, by which the frame theories reason about state and failure together.
  \<^item> \<open>RtspServerState\<close>, \<open>RtspServerReply\<close>, \<open>RtspServer\<close>: \<open>struct rtsp_server\<close> and its operations, the reply
    functions of the API, the handlers, timers and events. \<open>RtspServerFrame\<close> states as locales that what a
    few basic changes keep, everything keeps; \<open>RtspServerInvariant\<close> interprets them for \<open>server_ok\<close> and proves
    it for all reachable states. \<open>RtspServerTimers\<close>, \<open>RtspServerAnswers\<close>, \<open>RtspServerErrors\<close>,
    \<open>RtspServerSessions\<close>: no request lingers, a request answered media by media gets one answer, errors reach
    the peer as they were meant, the list of sessions implements a table. \<open>RtspServerExamples\<close>: the properties
    at concrete states.
  \<^item> \<open>RtspClientAuth\<close>, \<open>RtspClientState\<close>, \<open>RtspClientRequest\<close>, \<open>RtspClient\<close>: the cached challenge, \<open>struct rtsp_client\<close>
    and its operations, the requests, and what completes them. \<open>RtspClientFrame\<close> and \<open>RtspClientInvariant\<close> are
    built as for the server: the requests of the API leave the view of the client alone, and the changes
    that remain keep \<open>client_ok\<close>. \<open>RtspClientChannels\<close>: the allocation loop against a search.
    \<open>RtspClientCompletion\<close>: every accepted request is completed, but for two cases that it names. \<open>RtspClientKeepAlive\<close>, \<open>RtspClientErrors\<close>:
    sessions of a lost connection, and where the client gets stuck or crashes. \<open>RtspClientExamples\<close>: the
    properties at concrete states.
  \<^item> \<open>RtspSocketOptions\<close>: the options of the sockets on both sides, kept until there is a socket, and the choice
    between a plain and a TLS socket.
  \<^item> \<open>RtspExchange\<close>, \<open>RtspDescribeExchange\<close>, \<open>RtspSetupExchange\<close>, \<open>RtspKeepAliveExchange\<close>: client and server
    connected. What one end writes reaches the handler of the other; an OPTIONS request goes round, a DESCRIBE
    brings the description of the one application to the other, a SETUP leaves both with the same session and
    media, and a keep-alive sets two timers that fit together.

  \<^bold>\<open>Parameters.\<close> Code that is not in the repository is an argument: \<open>inet_pton\<close>, MD5 and the random
  generator, \<open>time_local_format\<close> and \<open>time_local_parse\<close> of libfutils, the clock, and the return values of
  libpomp, libtransport-socket and libtransport-tls (the records \<open>server_env\<close> and \<open>client_env\<close>). Hypotheses on
  them say that a printed date is read back (\<open>wf_date\<close>), or that an error is negative
  (\<open>negative_formatter\<close>). The application is a function from the call it gets, and the state, to the API
  functions it uses before it returns; for the server it answers by the reply functions.

  \<^bold>\<open>Bounds.\<close> The receive loop, the tokenizers and the walks over lists are total functions with proved
  measures. The allocation of channels may not end and is a partial function; its theorem says exactly
  when. An application of the client may be called back from the functions it uses in a callback, to any
  depth \<open>n\<close>: below that it does nothing, and the theorems hold for every \<open>n\<close>. Buffers have the sizes of
  the code (\<open>request_capacity\<close>, \<open>srv_max_msg_size\<close>); where a theorem needs a text to fit it says so. Streams are
  shorter than \<open>2 ^ 63\<close> bytes, which no buffer exceeds.

  \<^bold>\<open>Not modelled.\<close> Logging. The listening socket of the server, whose set-up only passes values to libpomp. What
  OpenSSL does. Failing allocations, and failing calls of timers and buffers of libpomp, which are documented
  to fail on invalid arguments only. Freeing and leaks: values are immutable here. That a callback destroys
  the server or client it was called by. The command line tools and the tests, which only use the library.
\<close>

end
